(* ===== verification/F64.thy ===== *)
theory F64
  imports Complex_Main "HOL-Library.Product_Lexorder"
begin

text \<open>
  The \<open>f64\<close> of the Rust sources, as IEEE-754 binary64 values with round-to-nearest-even.
  A value is one NaN (the language leaves NaN payloads unspecified), an infinity with its sign
  bit, the negative zero, or a finite rational. The operations compute the exact rational result
  and round it once to the binary64 grid with gradual underflow and overflow to infinity, as the
  hardware does. \<open>sqrt\<close> is correctly rounded too; \<open>ln\<close> and \<open>exp\<close> have no specified precision in
  the language, so the components that call them take them as parameters. First the rounding
  itself with its laws (monotone, exact on the grid, relative error \<open>2^-53\<close>), then the type, its
  order and arithmetic, then the conversions and library functions that the sources use.
\<close>

subsection \<open>Rounding a rational to the binary64 grid\<close>

fun blen :: "int \<Rightarrow> int" where
  "blen n = (if n \<le> 0 then 0 else 1 + blen (n div 2))"

declare blen.simps [simp del]

definition ilog2 :: "rat \<Rightarrow> int" where
  "ilog2 q = (if 1 \<le> q then blen \<lfloor>q\<rfloor> - 1 else - blen (\<lceil>1 / q\<rceil> - 1))"

definition fexp :: "rat \<Rightarrow> int" where
  "fexp q = max (ilog2 q - 52) (-1074)"

definition rne :: "rat \<Rightarrow> int" where
  "rne x = (let f = \<lfloor>x\<rfloor>; d = x - of_int f
            in if d < 1/2 then f else if 1/2 < d then f + 1
               else if even f then f else f + 1)"

definition rpos :: "rat \<Rightarrow> rat" where
  "rpos q = of_int (rne (q / 2 powi fexp q)) * 2 powi fexp q"

definition rndq :: "rat \<Rightarrow> rat" where
  "rndq q = (if q < 0 then - rpos (- q) else if q = 0 then 0 else rpos q)"

definition repr :: "rat \<Rightarrow> bool" where
  "repr q \<longleftrightarrow> (\<exists>(m::int) e::int. \<bar>m\<bar> \<le> 2^53 \<and> -1074 \<le> e \<and> q = of_int m * 2 powi e)"

lemma pow2_pos [simp]: "0 < (2::rat) powi k"
  by simp

lemma powi2_less_iff: "(2::rat) powi a < 2 powi b \<longleftrightarrow> a < b"
  by (metis linorder_not_less one_less_numeral_iff power_int_increasing power_int_strict_increasing
      order_less_imp_le semiring_norm(76))

lemma blen_nonneg: "0 \<le> blen n"
  by (induction n rule: blen.induct) (subst blen.simps, simp)

lemma blen_bounds:
  "0 \<le> n \<Longrightarrow> n < 2 ^ nat (blen n) \<and> (0 < n \<longrightarrow> 2 ^ nat (blen n - 1) \<le> n)"
proof (induction n rule: blen.induct)
  case (1 n)
  show ?case
  proof (cases "0 < n")
    case True
    define m where "m = n div 2"
    have b: "blen n = 1 + blen m" using True by (subst blen.simps) (simp add: m_def)
    have s: "nat (1 + blen m) = Suc (nat (blen m))" using blen_nonneg[of m] by simp
    have IH: "m < 2 ^ nat (blen m) \<and> (0 < m \<longrightarrow> 2 ^ nat (blen m - 1) \<le> m)"
      using 1 True by (simp add: m_def)
    have n: "2 * m \<le> n" "n < 2 * m + 2" unfolding m_def by linarith+
    have up: "n < 2 ^ nat (blen n)" using IH n by (simp add: b s)
    have "2 ^ nat (blen n - 1) \<le> n"
    proof (cases "0 < m")
      case m: True
      have "0 < blen m" using m blen_nonneg[of "m div 2"] by (subst blen.simps) simp
      then have "nat (blen m) = Suc (nat (blen m - 1))" by simp
      with IH m n show ?thesis by (simp add: b)
    next
      case False
      then have "m = 0" using True by (simp add: m_def)
      then have "blen m = 0" by (subst blen.simps) simp
      with True show ?thesis by (simp add: b)
    qed
    with up show ?thesis by simp
  next
    case False
    with 1 have "n = 0" by simp
    moreover have "blen 0 = 0" by (subst blen.simps) simp
    ultimately show ?thesis by simp
  qed
qed

lemma of_int_pow2: "0 \<le> k \<Longrightarrow> (of_int (2 ^ nat k) :: rat) = 2 powi k"
  by (simp add: power_int_nonneg_exp)

lemma ilog2_bounds:
  assumes q: "0 < q"
  shows "2 powi ilog2 q \<le> q" and "q < 2 powi (ilog2 q + 1)"
proof -
  have "2 powi ilog2 q \<le> q \<and> q < 2 powi (ilog2 q + 1)"
  proof (cases "1 \<le> q")
    case True
    define n where "n = \<lfloor>q\<rfloor>"
    have n: "0 < n" using True unfolding n_def by linarith
    have b: "n < 2 ^ nat (blen n)" "2 ^ nat (blen n - 1) \<le> n" using blen_bounds[of n] n by auto
    have p: "0 < blen n" using n blen_nonneg[of "n div 2"] by (subst blen.simps) simp
    have "(of_int (2 ^ nat (blen n - 1)) :: rat) \<le> of_int n" using b(2) by (simp only: of_int_le_iff)
    moreover have "of_int n \<le> q" unfolding n_def by simp
    ultimately have lo: "2 powi (blen n - 1) \<le> q" using p by (simp only: of_int_pow2)
    have "n + 1 \<le> 2 ^ nat (blen n)" using b(1) by simp
    then have "(of_int (n + 1) :: rat) \<le> of_int (2 ^ nat (blen n))" by (simp only: of_int_le_iff)
    moreover have "q < of_int (n + 1)" unfolding n_def by linarith
    ultimately have "q < 2 powi blen n" using p by (simp only: of_int_pow2)
    with lo show ?thesis using True by (simp add: ilog2_def flip: n_def)
  next
    case False
    define c where "c = \<lceil>1 / q\<rceil> - 1"
    have inv: "1 < 1 / q" using q False by simp
    then have c: "0 < c" unfolding c_def by linarith
    have b: "c < 2 ^ nat (blen c)" "2 ^ nat (blen c - 1) \<le> c" using blen_bounds[of c] c by auto
    have p: "0 < blen c" using c blen_nonneg[of "c div 2"] by (subst blen.simps) simp
    have "c + 1 \<le> 2 ^ nat (blen c)" using b(1) by simp
    then have "(of_int (c + 1) :: rat) \<le> of_int (2 ^ nat (blen c))" by (simp only: of_int_le_iff)
    moreover have "1 / q \<le> of_int (c + 1)" unfolding c_def by simp
    ultimately have "1 / q \<le> 2 powi blen c" using p by (simp only: of_int_pow2)
    then have lo: "2 powi (- blen c) \<le> q"
      using q by (simp add: power_int_minus field_simps)
    have "(of_int (2 ^ nat (blen c - 1)) :: rat) \<le> of_int c" using b(2) by (simp only: of_int_le_iff)
    moreover have "of_int c < 1 / q" unfolding c_def by linarith
    ultimately have "2 powi (blen c - 1) < 1 / q" using p by (simp only: of_int_pow2)
    then have "q < 1 / 2 powi (blen c - 1)" using q by (simp add: field_simps)
    also have "\<dots> = 2 powi (1 - blen c)" by (simp flip: power_int_minus_divide)
    finally have "q < 2 powi (- blen c + 1)" by (simp add: algebra_simps)
    with lo show ?thesis using False by (simp add: ilog2_def flip: c_def)
  qed
  then show "2 powi ilog2 q \<le> q" "q < 2 powi (ilog2 q + 1)" by auto
qed

lemma ilog2_unique:
  assumes "2 powi k \<le> q" "q < 2 powi (k + 1)"
  shows "ilog2 q = k"
proof -
  have "0 < q" using assms(1) by (rule less_le_trans[rotated]) simp
  note b = ilog2_bounds[OF this]
  have "(2::rat) powi k < 2 powi (ilog2 q + 1)" using assms(1) b(2) by (rule le_less_trans)
  moreover have "(2::rat) powi ilog2 q < 2 powi (k + 1)" using b(1) assms(2) by (rule le_less_trans)
  ultimately show ?thesis by (simp add: powi2_less_iff)
qed

lemma ilog2_mono:
  assumes "0 < p" "p \<le> q"
  shows "ilog2 p \<le> ilog2 q"
proof (rule ccontr)
  assume "\<not> ilog2 p \<le> ilog2 q"
  then have "ilog2 q + 1 \<le> ilog2 p" by simp
  then have "(2::rat) powi (ilog2 q + 1) \<le> 2 powi ilog2 p" by (intro power_int_increasing) auto
  moreover have "q < 2 powi (ilog2 q + 1)" using assms by (intro ilog2_bounds) auto
  moreover have "2 powi ilog2 p \<le> p" using assms by (intro ilog2_bounds)
  ultimately show False using assms(2) by linarith
qed

lemma rne_of_int [simp]: "rne (of_int n) = n"
  by (simp add: rne_def)

lemma rne_mono:
  assumes "x \<le> y"
  shows "rne x \<le> rne y"
proof -
  have fl: "\<lfloor>x\<rfloor> \<le> \<lfloor>y\<rfloor>" using assms by (rule floor_mono)
  have fx: "of_int \<lfloor>x\<rfloor> \<le> x" "x < of_int \<lfloor>x\<rfloor> + 1"
    and fy: "of_int \<lfloor>y\<rfloor> \<le> y" "y < of_int \<lfloor>y\<rfloor> + 1" by linarith+
  show ?thesis
  proof (cases "\<lfloor>x\<rfloor> = \<lfloor>y\<rfloor>")
    case True
    with assms show ?thesis unfolding rne_def Let_def by auto
  next
    case False
    with fl have "\<lfloor>x\<rfloor> + 1 \<le> \<lfloor>y\<rfloor>" by simp
    then show ?thesis unfolding rne_def Let_def by auto
  qed
qed

lemma rne_error: "\<bar>of_int (rne x) - x\<bar> \<le> 1/2"
proof -
  have "of_int \<lfloor>x\<rfloor> \<le> x" "x < of_int \<lfloor>x\<rfloor> + 1" by linarith+
  then show ?thesis unfolding rne_def Let_def
    by (cases "x - of_int \<lfloor>x\<rfloor> < 1/2"; cases "1/2 < x - of_int \<lfloor>x\<rfloor>";
        cases "even \<lfloor>x\<rfloor>") (simp_all add: abs_le_iff)
qed

lemma rne_le_of_int: "x \<le> of_int n \<Longrightarrow> rne x \<le> n"
  using rne_mono[of x "of_int n"] by simp

lemma rne_ge_of_int: "of_int n \<le> x \<Longrightarrow> n \<le> rne x"
  using rne_mono[of "of_int n" x] by simp

lemma powi_split: "(2::rat) powi a = 2 powi (a - b) * 2 powi b"
  by (simp flip: power_int_add)

lemma powi_int_quot: "b \<le> a \<Longrightarrow> (2::rat) powi a / 2 powi b = of_int (2 ^ nat (a - b))"
  by (simp add: power_int_nonneg_exp flip: power_int_diff)

lemma rpos_le_pow:
  assumes "0 < p" "p \<le> 2 powi k" "fexp p \<le> k"
  shows "rpos p \<le> 2 powi k"
proof -
  have "p / 2 powi fexp p \<le> of_int (2 ^ nat (k - fexp p))"
    using assms(2) by (simp only: flip: powi_int_quot[OF assms(3)]) (simp add: divide_right_mono)
  then have "rne (p / 2 powi fexp p) \<le> 2 ^ nat (k - fexp p)" by (rule rne_le_of_int)
  then have "of_int (rne (p / 2 powi fexp p)) * 2 powi fexp p
      \<le> (of_int (2 ^ nat (k - fexp p)) :: rat) * 2 powi fexp p"
    by (intro mult_right_mono) (simp_all only: of_int_le_iff, simp)
  also have "\<dots> = 2 powi k" by (simp only: flip: powi_int_quot[OF assms(3)]) simp
  finally show ?thesis by (simp add: rpos_def)
qed

lemma rpos_ge_pow:
  assumes "2 powi k \<le> q" "fexp q \<le> k"
  shows "2 powi k \<le> rpos q"
proof -
  have "of_int (2 ^ nat (k - fexp q)) \<le> q / 2 powi fexp q"
    using assms(1) by (simp only: flip: powi_int_quot[OF assms(2)]) (simp add: divide_right_mono)
  then have "2 ^ nat (k - fexp q) \<le> rne (q / 2 powi fexp q)" by (rule rne_ge_of_int)
  then have le: "(of_int (2 ^ nat (k - fexp q)) :: rat) * 2 powi fexp q \<le> rpos q"
    unfolding rpos_def by (intro mult_right_mono) (simp_all only: of_int_le_iff, simp)
  have "(of_int (2 ^ nat (k - fexp q)) :: rat) * 2 powi fexp q = 2 powi k"
    by (simp only: flip: powi_int_quot[OF assms(2)]) simp
  with le show ?thesis by (simp only:)
qed

lemma rpos_mono:
  assumes "0 < p" "p \<le> q"
  shows "rpos p \<le> rpos q"
proof -
  have q: "0 < q" using assms by simp
  have il: "ilog2 p \<le> ilog2 q" using assms by (rule ilog2_mono)
  show ?thesis
  proof (cases "fexp p = fexp q")
    case True
    have "rne (p / 2 powi fexp p) \<le> rne (q / 2 powi fexp q)"
      unfolding True using assms by (intro rne_mono divide_right_mono) auto
    then show ?thesis unfolding rpos_def True by (intro mult_right_mono) auto
  next
    case False
    with il have f: "fexp q = ilog2 q - 52" "fexp p < fexp q" "ilog2 p < ilog2 q"
      by (auto simp: fexp_def max_def split: if_splits)
    have "p < 2 powi (ilog2 p + 1)" using assms(1) by (rule ilog2_bounds)
    also have "\<dots> \<le> 2 powi ilog2 q" using f by (intro power_int_increasing) auto
    finally have "rpos p \<le> 2 powi ilog2 q"
      using assms(1) f by (intro rpos_le_pow) auto
    also have "\<dots> \<le> rpos q"
      using f ilog2_bounds(1)[OF q] by (intro rpos_ge_pow) auto
    finally show ?thesis .
  qed
qed

lemma rpos_nonneg: "0 \<le> q \<Longrightarrow> 0 \<le> rpos q"
  unfolding rpos_def using rne_ge_of_int[of 0 "q / 2 powi fexp q"] by simp

lemma rndq_0 [simp]: "rndq 0 = 0"
  by (simp add: rndq_def)

lemma rndq_minus [simp]: "rndq (- q) = - rndq q"
  by (auto simp: rndq_def)

lemma rndq_nonneg: "0 \<le> q \<Longrightarrow> 0 \<le> rndq q"
  by (auto simp: rndq_def intro: rpos_nonneg)

lemma rndq_nonpos: "q \<le> 0 \<Longrightarrow> rndq q \<le> 0"
  using rndq_nonneg[of "- q"] by simp

lemma rndq_mono:
  assumes "p \<le> q"
  shows "rndq p \<le> rndq q"
proof (cases "0 < p")
  case True
  with assms rpos_mono[OF True assms] show ?thesis by (simp add: rndq_def)
next
  case p: False
  show ?thesis
  proof (cases "q < 0")
    case True
    with assms rpos_mono[of "- q" "- p"] show ?thesis by (simp add: rndq_def)
  next
    case False
    with p rndq_nonneg[of q] rndq_nonpos[of p] show ?thesis by simp
  qed
qed

subsection \<open>Representable values\<close>

lemma powi2_le_iff: "(2::rat) powi a \<le> 2 powi b \<longleftrightarrow> a \<le> b"
  using powi2_less_iff[of b a] by (auto simp: not_less[symmetric])

lemma fexp_le_of_less:
  assumes "0 < q" "q < 2 powi (k + 53)" "-1074 \<le> k"
  shows "fexp q \<le> k"
proof -
  have "(2::rat) powi ilog2 q < 2 powi (k + 53)"
    using ilog2_bounds(1)[OF assms(1)] assms(2) by (rule le_less_trans)
  then show ?thesis using assms(3) by (simp add: powi2_less_iff fexp_def)
qed

lemma rpos_exact:
  assumes "0 < m" "m \<le> 2^53" "-1074 \<le> e"
  shows "rpos (of_int m * 2 powi e) = of_int m * 2 powi e"
proof -
  define q :: rat where "q = of_int m * 2 powi e"
  have q: "0 < q" using assms by (simp add: q_def)
  obtain n where n: "q / 2 powi fexp q = of_int n"
  proof (cases "m = 2^53")
    case True
    have qq: "q = 2 powi (e + 53)"
      unfolding q_def True by (simp add: power_int_add)
    have "ilog2 q = e + 53" unfolding qq by (rule ilog2_unique) (simp_all add: powi2_less_iff)
    then have "fexp q \<le> e + 53" using assms by (simp add: fexp_def)
    from that[of "2 ^ nat (e + 53 - fexp q)"] show thesis
      unfolding qq using powi_int_quot[OF \<open>fexp q \<le> e + 53\<close>] by (simp add: qq)
  next
    case False
    with assms(2) have "m < 2^53" by simp
    then have "(of_int m :: rat) < of_int (2^53)" by (simp only: of_int_less_iff)
    then have "q < 2 powi 53 * 2 powi e" by (simp add: q_def)
    then have "q < 2 powi (e + 53)" by (simp add: power_int_add mult.commute)
    then have fe: "fexp q \<le> e" using q assms(3) by (intro fexp_le_of_less)
    have "q / 2 powi fexp q = of_int m * (2 powi e / 2 powi fexp q)" by (simp add: q_def)
    also have "\<dots> = of_int (m * 2 ^ nat (e - fexp q))" by (simp add: powi_int_quot[OF fe])
    finally show thesis by (rule that)
  qed
  have "rpos q = of_int n * 2 powi fexp q" unfolding rpos_def n by simp
  also have "\<dots> = q" by (simp flip: n)
  finally show ?thesis by (simp only: q_def)
qed

lemma rndq_repr:
  assumes "repr q"
  shows "rndq q = q"
proof -
  from assms obtain m e where m: "\<bar>m\<bar> \<le> 2^53" "-1074 \<le> e" "q = of_int m * 2 powi e"
    unfolding repr_def by blast
  consider "m = 0" | "0 < m" | "m < 0" by linarith
  then show ?thesis
  proof cases
    case 1 then show ?thesis using m by simp
  next
    case 2
    then have "0 < q" using m by (simp add: zero_less_mult_iff)
    moreover have "rpos q = q" using 2 m rpos_exact[of m e] by simp
    ultimately show ?thesis by (simp add: rndq_def)
  next
    case 3
    then have "rpos (- q) = - q" using m rpos_exact[of "- m" e] by simp
    moreover have "q < 0" using 3 m by (simp add: mult_less_0_iff)
    ultimately show ?thesis by (simp add: rndq_def)
  qed
qed

lemma rpos_form:
  assumes "0 < q"
  shows "\<exists>m. 0 \<le> m \<and> m \<le> 2^53 \<and> rpos q = of_int m * 2 powi fexp q"
proof (intro exI conjI)
  show "rpos q = of_int (rne (q / 2 powi fexp q)) * 2 powi fexp q" by (simp add: rpos_def)
  show "0 \<le> rne (q / 2 powi fexp q)" using assms by (intro rne_ge_of_int) simp
  have "q < 2 powi (ilog2 q + 1)" using assms by (rule ilog2_bounds)
  also have "\<dots> \<le> 2 powi (fexp q + 53)" by (intro power_int_increasing) (auto simp: fexp_def)
  also have "\<dots> = 2^53 * 2 powi fexp q" by (simp add: power_int_add)
  finally have "q / 2 powi fexp q \<le> of_int (2^53)" by (simp add: divide_le_eq)
  then show "rne (q / 2 powi fexp q) \<le> 2^53" by (rule rne_le_of_int)
qed

lemma repr_rndq: "repr (rndq q)"
proof -
  have pos: "repr (rpos p) \<and> repr (- rpos p)" if p: "0 < p" for p
  proof -
    from rpos_form[OF p] obtain m where m: "0 \<le> m" "m \<le> 2^53" "rpos p = of_int m * 2 powi fexp p"
      by blast
    moreover have "-1074 \<le> fexp p" by (simp add: fexp_def)
    ultimately have "repr (of_int m * 2 powi fexp p)" "repr (of_int (- m) * 2 powi fexp p)"
      unfolding repr_def by (metis abs_of_nonneg, metis abs_minus_cancel abs_of_nonneg)
    then show ?thesis using m by simp
  qed
  have "repr 0" unfolding repr_def by (intro exI[of _ 0]) simp
  with pos[of q] pos[of "- q"] show ?thesis by (auto simp: rndq_def)
qed

lemma rndq_idem [simp]: "rndq (rndq q) = rndq q"
  by (rule rndq_repr[OF repr_rndq])

lemma repr_of_int: "\<bar>n\<bar> \<le> 2^53 \<Longrightarrow> repr (of_int n)"
  unfolding repr_def by (intro exI[of _ n] exI[of _ 0]) simp

lemma rndq_of_int: "\<bar>n\<bar> \<le> 2^53 \<Longrightarrow> rndq (of_int n) = of_int n"
  by (intro rndq_repr repr_of_int)

lemma repr_minus: "repr q \<Longrightarrow> repr (- q)"
  using rndq_repr[of q] repr_rndq[of "- q"] by simp

lemma rndq_error:
  assumes "2 powi (-1022) \<le> \<bar>q\<bar>"
  shows "\<bar>rndq q - q\<bar> \<le> \<bar>q\<bar> * 2 powi (-53)"
proof -
  have pos: "\<bar>rpos p - p\<bar> \<le> p * 2 powi (-53)" if p: "2 powi (-1022) \<le> p" for p
  proof -
    have p0: "0 < p" using p by (rule less_le_trans[rotated]) simp
    note il = ilog2_bounds[OF p0]
    have "(2::rat) powi (-1022) < 2 powi (ilog2 p + 1)" using p il(2) by (rule le_less_trans)
    then have "-1022 \<le> ilog2 p" by (simp only: powi2_less_iff)
    then have fe: "fexp p = ilog2 p - 52" by (simp add: fexp_def)
    have "rpos p - p = (of_int (rne (p / 2 powi fexp p)) - p / 2 powi fexp p) * 2 powi fexp p"
      by (simp add: rpos_def left_diff_distrib)
    then have "\<bar>rpos p - p\<bar> = \<bar>of_int (rne (p / 2 powi fexp p)) - p / 2 powi fexp p\<bar> * 2 powi fexp p"
      by (simp add: abs_mult)
    also have "\<dots> \<le> 1/2 * 2 powi fexp p"
      by (intro mult_right_mono rne_error) simp
    also have "\<dots> = 2 powi ilog2 p * 2 powi (-53)"
      by (simp add: fe power_int_diff power_int_minus)
    also have "\<dots> \<le> p * 2 powi (-53)" using il(1) by (intro mult_right_mono) auto
    finally show ?thesis .
  qed
  show ?thesis
  proof (cases "q < 0")
    case True
    with assms pos[of "- q"] show ?thesis by (simp add: rndq_def abs_minus_commute)
  next
    case False
    with assms have "q \<noteq> 0" by auto
    with False assms pos[of q] show ?thesis by (simp add: rndq_def)
  qed
qed


subsection \<open>The type and its operations\<close>

datatype f64 = NaN | Inf bool | NZ | Fin rat

fun fval :: "f64 \<Rightarrow> rat" where
  "fval (Fin q) = q"
| "fval _ = 0"

fun fneg :: "f64 \<Rightarrow> bool" where
  "fneg NaN = False"
| "fneg (Inf s) = s"
| "fneg NZ = True"
| "fneg (Fin q) = (q < 0)"

text \<open>The first magnitude that no finite value reaches.\<close>

definition f64_limit :: rat where "f64_limit = 2 ^ 1024"

definition rnd :: "bool \<Rightarrow> rat \<Rightarrow> f64" where
  "rnd s q = (let r = rndq q in
     if f64_limit \<le> \<bar>r\<bar> then Inf (r < 0)
     else if r \<noteq> 0 then Fin r
     else if q < 0 \<or> (q = 0 \<and> s) then NZ else Fin 0)"

fun f64_add :: "f64 \<Rightarrow> f64 \<Rightarrow> f64" where
  "f64_add NaN y = NaN"
| "f64_add x NaN = NaN"
| "f64_add (Inf s) (Inf t) = (if s = t then Inf s else NaN)"
| "f64_add (Inf s) y = Inf s"
| "f64_add x (Inf t) = Inf t"
| "f64_add x y = rnd (fneg x \<and> fneg y) (fval x + fval y)"

fun f64_neg :: "f64 \<Rightarrow> f64" where
  "f64_neg NaN = NaN"
| "f64_neg (Inf s) = Inf (\<not> s)"
| "f64_neg NZ = Fin 0"
| "f64_neg (Fin q) = (if q = 0 then NZ else Fin (- q))"

fun f64_mul :: "f64 \<Rightarrow> f64 \<Rightarrow> f64" where
  "f64_mul NaN y = NaN"
| "f64_mul x NaN = NaN"
| "f64_mul (Inf s) (Inf t) = Inf (s \<noteq> t)"
| "f64_mul (Inf s) y = (if fval y = 0 then NaN else Inf (s \<noteq> fneg y))"
| "f64_mul x (Inf t) = (if fval x = 0 then NaN else Inf (fneg x \<noteq> t))"
| "f64_mul x y = rnd (fneg x \<noteq> fneg y) (fval x * fval y)"

fun f64_div :: "f64 \<Rightarrow> f64 \<Rightarrow> f64" where
  "f64_div NaN y = NaN"
| "f64_div x NaN = NaN"
| "f64_div (Inf s) (Inf t) = NaN"
| "f64_div (Inf s) y = Inf (s \<noteq> fneg y)"
| "f64_div x (Inf t) = (if fneg x \<noteq> t then NZ else Fin 0)"
| "f64_div x y =
    (if fval y = 0 then (if fval x = 0 then NaN else Inf (fneg x \<noteq> fneg y))
     else rnd (fneg x \<noteq> fneg y) (fval x / fval y))"

fun f64_lt :: "f64 \<Rightarrow> f64 \<Rightarrow> bool" where
  "f64_lt NaN y = False"
| "f64_lt x NaN = False"
| "f64_lt (Inf s) (Inf t) = (s \<and> \<not> t)"
| "f64_lt (Inf s) y = s"
| "f64_lt x (Inf t) = (\<not> t)"
| "f64_lt x y = (fval x < fval y)"

definition f64_le :: "f64 \<Rightarrow> f64 \<Rightarrow> bool" where
  "f64_le x y \<longleftrightarrow> x \<noteq> NaN \<and> y \<noteq> NaN \<and> \<not> f64_lt y x"

instantiation f64 :: "{zero, one, plus, minus, uminus, times, inverse, ord, abs}"
begin
definition zero_f64 :: f64 where "0 = Fin 0"
definition one_f64 :: f64 where "1 = Fin 1"
definition plus_f64 :: "f64 \<Rightarrow> f64 \<Rightarrow> f64" where "x + y = f64_add x y"
definition uminus_f64 :: "f64 \<Rightarrow> f64" where "- x = f64_neg x"
definition minus_f64 :: "f64 \<Rightarrow> f64 \<Rightarrow> f64" where "x - y = f64_add x (f64_neg y)"
definition times_f64 :: "f64 \<Rightarrow> f64 \<Rightarrow> f64" where "x * y = f64_mul x y"
definition divide_f64 :: "f64 \<Rightarrow> f64 \<Rightarrow> f64" where "x div y = f64_div x y"
definition inverse_f64 :: "f64 \<Rightarrow> f64" where "inverse x = f64_div (Fin 1) x"
definition less_f64 :: "f64 \<Rightarrow> f64 \<Rightarrow> bool" where "x < y \<longleftrightarrow> f64_lt x y"
definition less_eq_f64 :: "f64 \<Rightarrow> f64 \<Rightarrow> bool" where "x \<le> y \<longleftrightarrow> f64_le x y"
definition abs_f64 :: "f64 \<Rightarrow> f64" where "\<bar>x\<bar> = (if fneg x then f64_neg x else x)"
instance ..
end

definition lit :: "rat \<Rightarrow> f64" where
  "lit q = rnd False q"

subsection \<open>Kernel evaluation of closed terms\<close>

named_theorems f64_eval

lemmas [f64_eval] = lit_def rnd_def f64_limit_def rndq_def rpos_def fexp_def ilog2_def rne_def Let_def
  plus_f64_def minus_f64_def times_f64_def divide_f64_def less_f64_def less_eq_f64_def f64_le_def
  uminus_f64_def abs_f64_def zero_f64_def one_f64_def inverse_f64_def

lemma blen_num [f64_eval]:
  "blen 0 = 0" "blen 1 = 1" "blen (numeral (Num.Bit0 n)) = 1 + blen (numeral n)"
  "blen (numeral (Num.Bit1 n)) = 1 + blen (numeral n)"
  by (subst blen.simps, simp)+

lemma floor_rat_numeral [f64_eval]:
  "\<lfloor>numeral a / numeral b :: rat\<rfloor> = numeral a div numeral b"
  "\<lfloor>1 / numeral b :: rat\<rfloor> = 1 div numeral b"
  "\<lfloor>- (numeral a / numeral b) :: rat\<rfloor> = (- numeral a) div numeral b"
  "\<lfloor>- (1 / numeral b) :: rat\<rfloor> = (- 1) div numeral b"
  using floor_divide_of_int_eq[of "numeral a" "numeral b", where ?'a = rat]
    floor_divide_of_int_eq[of 1 "numeral b", where ?'a = rat]
    floor_divide_of_int_eq[of "- numeral a" "numeral b", where ?'a = rat]
    floor_divide_of_int_eq[of "- 1" "numeral b", where ?'a = rat] by simp_all

lemma ceiling_rat_numeral [f64_eval]:
  "\<lceil>numeral a / numeral b :: rat\<rceil> = - ((- numeral a) div numeral b)"
  "\<lceil>1 / numeral b :: rat\<rceil> = - ((- 1) div numeral b)"
  unfolding ceiling_def by (simp_all add: floor_rat_numeral)

subsection \<open>Order\<close>

text \<open>Comparisons are false on NaN; away from NaN they follow a linear order of keys.\<close>

fun fkey :: "f64 \<Rightarrow> int \<times> rat" where
  "fkey (Inf s) = (if s then - 1 else 1, 0)"
| "fkey x = (0, fval x)"

lemma less_key: "x < y \<longleftrightarrow> x \<noteq> NaN \<and> y \<noteq> NaN \<and> fkey x < fkey y"
  unfolding less_f64_def by (cases "(x, y)" rule: f64_lt.cases) auto

lemma le_key: "x \<le> y \<longleftrightarrow> x \<noteq> NaN \<and> y \<noteq> NaN \<and> fkey x \<le> fkey y"
  unfolding less_eq_f64_def f64_le_def by (auto simp: less_key not_less simp flip: less_f64_def)

lemmas f64_keys = less_key le_key

lemma f64_less_irrefl [simp]: "\<not> (x::f64) < x"
  by (simp add: less_key)

lemma f64_le_refl [simp]: "x \<noteq> NaN \<Longrightarrow> x \<le> x"
  by (simp add: le_key)

lemma f64_NaN_order [simp]: "\<not> NaN < x" "\<not> x < NaN" "\<not> NaN \<le> x" "\<not> x \<le> NaN"
  by (simp_all add: f64_keys)

lemma f64_less_imp_le: "(x::f64) < y \<Longrightarrow> x \<le> y"
  by (auto simp: f64_keys intro: less_imp_le)

lemma f64_not_less: "x \<noteq> NaN \<Longrightarrow> y \<noteq> NaN \<Longrightarrow> \<not> x < y \<longleftrightarrow> y \<le> x"
  by (auto simp: f64_keys)

lemma f64_trans:
  "(x::f64) \<le> y \<Longrightarrow> y \<le> z \<Longrightarrow> x \<le> z"
  "(x::f64) < y \<Longrightarrow> y \<le> z \<Longrightarrow> x < z"
  "(x::f64) \<le> y \<Longrightarrow> y < z \<Longrightarrow> x < z"
  "(x::f64) < y \<Longrightarrow> y < z \<Longrightarrow> x < z"
  by (auto simp: f64_keys)

lemma f64_less_not_le: "(x::f64) < y \<Longrightarrow> \<not> y \<le> x"
  by (auto simp: f64_keys)

lemma Fin_order [simp]: "Fin p < Fin q \<longleftrightarrow> p < q" "Fin p \<le> Fin q \<longleftrightarrow> p \<le> q"
  by (simp_all add: f64_keys)

lemma Inf_order [simp]:
  "Inf s < Inf t \<longleftrightarrow> s \<and> \<not> t" "Inf s < Fin q \<longleftrightarrow> s" "Fin q < Inf s \<longleftrightarrow> \<not> s"
  "Inf s < NZ \<longleftrightarrow> s" "NZ < Inf s \<longleftrightarrow> \<not> s"
  "Inf s \<le> Inf t \<longleftrightarrow> s \<or> \<not> t" "Inf s \<le> Fin q \<longleftrightarrow> s" "Fin q \<le> Inf s \<longleftrightarrow> \<not> s"
  "Inf s \<le> NZ \<longleftrightarrow> s" "NZ \<le> Inf s \<longleftrightarrow> \<not> s"
  by (auto simp: f64_keys)

lemma NZ_order [simp]:
  "\<not> NZ < NZ" "NZ \<le> NZ" "NZ < Fin q \<longleftrightarrow> 0 < q" "Fin q < NZ \<longleftrightarrow> q < 0"
  "NZ \<le> Fin q \<longleftrightarrow> 0 \<le> q" "Fin q \<le> NZ \<longleftrightarrow> q \<le> 0"
  by (auto simp: f64_keys)

lemma Inf_top [simp]: "x \<le> Inf False \<longleftrightarrow> x \<noteq> NaN" "Inf True \<le> x \<longleftrightarrow> x \<noteq> NaN"
  by (cases x; simp)+

lemma zero_key: "0 = Fin 0" "1 = Fin 1"
  by (simp_all add: zero_f64_def one_f64_def)

subsection \<open>Rounded results\<close>

lemma rnd_not_NaN [simp]: "rnd s q \<noteq> NaN"
  by (simp add: rnd_def Let_def)

lemma f64_limit_pos [simp]: "0 < f64_limit" "\<not> f64_limit \<le> 0" "f64_limit \<noteq> 0"
  by (simp_all add: f64_limit_def)

lemma f64_limit_int: "n \<le> 2 ^ 53 \<Longrightarrow> of_int n < f64_limit"
proof -
  assume "n \<le> 2 ^ 53"
  then have "(of_int n :: rat) \<le> of_int (2 ^ 53)" by (simp only: of_int_le_iff)
  also have "\<dots> < f64_limit" by (simp add: f64_limit_def)
  finally show ?thesis .
qed

lemma rnd_key:
  "fkey (rnd s q) = (if f64_limit \<le> rndq q then (1, 0) else if rndq q \<le> - f64_limit then (- 1, 0)
     else (0, rndq q))"
proof -
  have "rndq q < 0 \<Longrightarrow> \<not> f64_limit \<le> rndq q" using f64_limit_pos(1) by linarith
  moreover have "\<not> rndq q < 0 \<Longrightarrow> \<not> rndq q \<le> - f64_limit" using f64_limit_pos(1) by linarith
  ultimately show ?thesis by (auto simp: rnd_def Let_def abs_if split: if_splits)
qed

lemma rnd_mono: "p \<le> q \<Longrightarrow> rnd s p \<le> rnd t q"
  using rndq_mono[of p q] f64_limit_pos(1) by (auto simp: le_key rnd_key)

lemma rnd_exact: "repr q \<Longrightarrow> \<bar>q\<bar> < f64_limit \<Longrightarrow> q \<noteq> 0 \<Longrightarrow> rnd s q = Fin q"
  by (simp add: rnd_def rndq_repr)

lemma rnd_0 [simp]: "rnd s 0 = (if s then NZ else Fin 0)"
  by (simp add: rnd_def)

lemma rnd_ge_0: "0 \<le> q \<Longrightarrow> 0 \<le> rnd s q"
  using rnd_mono[of 0 q False s] by (simp add: zero_key)

lemma rnd_le_0: "q \<le> 0 \<Longrightarrow> rnd s q \<le> 0"
  using rnd_mono[of q 0 s False] by (simp add: zero_key)

lemma rnd_ge_zeros [simp]:
  "0 \<le> q \<Longrightarrow> Fin 0 \<le> rnd s q" "0 \<le> q \<Longrightarrow> NZ \<le> rnd s q"
  "q \<le> 0 \<Longrightarrow> rnd s q \<le> Fin 0" "q \<le> 0 \<Longrightarrow> rnd s q \<le> NZ"
  using rnd_mono[of 0 q False s] rnd_mono[of q 0 s False] rnd_mono[of 0 q True s]
    rnd_mono[of q 0 s True] by simp_all

lemma rnd_of_int: "\<bar>n\<bar> \<le> 2 ^ 53 \<Longrightarrow> n \<noteq> 0 \<Longrightarrow> rnd s (of_int n) = Fin (of_int n)"
proof -
  assume n: "\<bar>n\<bar> \<le> 2 ^ 53" "n \<noteq> 0"
  have "(\<bar>of_int n\<bar> :: rat) < f64_limit" using f64_limit_int[OF n(1)] by simp
  then show ?thesis using n by (intro rnd_exact repr_of_int) auto
qed

subsection \<open>Finite values and well-formed values\<close>

definition is_finite :: "f64 \<Rightarrow> bool" where
  "is_finite x \<longleftrightarrow> (case x of NaN \<Rightarrow> False | Inf _ \<Rightarrow> False | _ \<Rightarrow> True)"

lemma is_finite_simps [simp]:
  "is_finite (Fin q)" "is_finite NZ" "\<not> is_finite NaN" "\<not> is_finite (Inf s)" "is_finite 0" "is_finite 1"
  by (simp_all add: is_finite_def zero_key)

definition wf64 :: "f64 \<Rightarrow> bool" where
  "wf64 x \<longleftrightarrow> (case x of Fin q \<Rightarrow> repr q \<and> \<bar>q\<bar> < f64_limit | _ \<Rightarrow> True)"

lemma repr_0 [simp]: "repr 0"
  using repr_of_int[of 0] by simp

lemma wf64_simps [simp]: "wf64 NaN" "wf64 (Inf s)" "wf64 NZ" "wf64 (Fin 0)" "wf64 0" "wf64 1"
  using repr_of_int[of 1] f64_limit_int[of 1] by (simp_all add: wf64_def zero_key)

lemma wf64_Fin: "wf64 (Fin q) \<longleftrightarrow> repr q \<and> \<bar>q\<bar> < f64_limit"
  by (simp add: wf64_def)

lemma wf64_rnd [simp]: "wf64 (rnd s q)"
  by (auto simp: rnd_def Let_def wf64_Fin not_le repr_rndq)

lemma wf64_add [simp]: "wf64 x \<Longrightarrow> wf64 y \<Longrightarrow> wf64 (x + y)"
  unfolding plus_f64_def by (cases "(x, y)" rule: f64_add.cases) simp_all

lemma wf64_mul [simp]: "wf64 x \<Longrightarrow> wf64 y \<Longrightarrow> wf64 (x * y)"
  unfolding times_f64_def by (cases "(x, y)" rule: f64_mul.cases) simp_all

lemma wf64_div [simp]: "wf64 x \<Longrightarrow> wf64 y \<Longrightarrow> wf64 (x / y)"
  unfolding divide_f64_def by (cases "(x, y)" rule: f64_div.cases) simp_all

lemma wf64_neg [simp]: "wf64 x \<Longrightarrow> wf64 (- x)"
  unfolding uminus_f64_def by (cases x) (auto simp: wf64_Fin repr_minus)

lemma wf64_sub [simp]: "wf64 x \<Longrightarrow> wf64 y \<Longrightarrow> wf64 (x - y)"
  using wf64_add[of x "- y"] wf64_neg[of y] by (simp add: minus_f64_def plus_f64_def uminus_f64_def)

lemma wf64_abs [simp]: "wf64 x \<Longrightarrow> wf64 \<bar>x\<bar>"
  using wf64_neg[of x] by (simp add: abs_f64_def uminus_f64_def)

lemma wf64_lit [simp]: "wf64 (lit q)"
  by (simp add: lit_def)

lemma rnd_fval:
  assumes "wf64 (Fin q)"
  shows "rnd s q = (if q = 0 \<and> s then NZ else Fin q)"
  using assms rnd_exact[of q s] by (cases "q = 0") (auto simp: wf64_Fin)

subsection \<open>Signs and bounds of results\<close>

lemma f64_cases_le_0: "0 \<le> x \<longleftrightarrow> x = Inf False \<or> x = NZ \<or> (\<exists>q\<ge>0. x = Fin q)"
  by (cases x) (auto simp: le_key zero_key)

lemma f64_cases_less_0: "0 < x \<longleftrightarrow> x = Inf False \<or> (\<exists>q>0. x = Fin q)"
  by (cases x) (auto simp: less_key zero_key)

lemma f64_abs_ge_0: "x \<noteq> NaN \<Longrightarrow> 0 \<le> \<bar>x\<bar>"
  by (cases x) (auto simp: abs_f64_def le_key zero_key)

lemma f64_abs_NaN [simp]: "\<bar>x\<bar> = NaN \<longleftrightarrow> x = NaN"
  by (cases x) (auto simp: abs_f64_def)

lemma f64_neg_neg [simp]: "- (- (x::f64)) = x"
  by (cases x) (auto simp: uminus_f64_def)

lemma f64_add_ge_0: "0 \<le> x \<Longrightarrow> 0 \<le> y \<Longrightarrow> 0 \<le> (x::f64) + y"
  unfolding f64_cases_le_0[of x] f64_cases_le_0[of y] plus_f64_def
  by (auto simp: zero_key)

lemma f64_mul_ge_0: "0 \<le> x \<Longrightarrow> 0 \<le> y \<Longrightarrow> x * y \<noteq> NaN \<Longrightarrow> 0 \<le> (x::f64) * y"
  unfolding f64_cases_le_0[of x] f64_cases_le_0[of y] times_f64_def
  by (auto simp: zero_key split: if_splits)

lemma f64_div_ge_0: "0 \<le> x \<Longrightarrow> 0 < y \<Longrightarrow> x / y \<noteq> NaN \<Longrightarrow> 0 \<le> (x::f64) / y"
  unfolding f64_cases_le_0[of x] f64_cases_less_0[of y] divide_f64_def
  by (auto simp: zero_key split: if_splits)

lemma f64_add_mono:
  assumes "x \<le> x'" "y \<le> (y'::f64)" "x + y \<noteq> NaN" "x' + y' \<noteq> NaN"
  shows "x + y \<le> x' + y'"
  using assms unfolding plus_f64_def
  by (cases x; cases y; cases x'; cases y') (auto intro: rnd_mono split: if_splits)

lemma f64_mul_mono:
  assumes "0 \<le> x" "x \<le> x'" "0 \<le> y" "y \<le> (y'::f64)" "x * y \<noteq> NaN" "x' * y' \<noteq> NaN"
  shows "x * y \<le> x' * y'"
  using assms unfolding times_f64_def zero_key
  by (cases x; cases y; cases x'; cases y')
    (auto intro!: rnd_mono intro: mult_mono split: if_splits)

lemma f64_div_mono:
  assumes "0 \<le> x" "x \<le> x'" "0 < y" "x / y \<noteq> NaN" "x' / (y::f64) \<noteq> NaN"
  shows "x / y \<le> x' / y"
  using assms unfolding divide_f64_def zero_key
  by (cases x; cases x'; cases y) (auto intro!: rnd_mono intro: divide_right_mono split: if_splits)

lemma f64_add_0:
  assumes "wf64 x"
  shows "x + 0 = (if x = NZ then 0 else x)"
  using assms by (cases x) (auto simp: plus_f64_def zero_key rnd_fval)

lemma f64_mul_1:
  assumes "wf64 x"
  shows "x * 1 = x" and "1 * x = x"
  using assms by (cases x; auto simp: times_f64_def zero_key rnd_fval)+

lemma f64_div_1: "wf64 x \<Longrightarrow> x / 1 = x"
  by (cases x) (auto simp: divide_f64_def zero_key rnd_fval)

subsection \<open>Library functions of the primitive type\<close>

definition f64_eq :: "f64 \<Rightarrow> f64 \<Rightarrow> bool" where
  "f64_eq x y \<longleftrightarrow> x \<le> y \<and> y \<le> x"

definition f64_max :: "f64 \<Rightarrow> f64 \<Rightarrow> f64" where
  "f64_max x y = (if x = NaN then y else if y = NaN then x else if x < y then y else x)"

definition f64_min :: "f64 \<Rightarrow> f64 \<Rightarrow> f64" where
  "f64_min x y = (if x = NaN then y else if y = NaN then x else if y < x then y else x)"

text \<open>\<open>clamp\<close> panics unless \<open>lo \<le> hi\<close>; every use in the sources has constant bounds with
  \<open>lo \<le> hi\<close>, or is modelled with the panic as a separate branch.\<close>

definition f64_clamp :: "f64 \<Rightarrow> f64 \<Rightarrow> f64 \<Rightarrow> f64" where
  "f64_clamp x lo hi = (if x < lo then lo else if hi < x then hi else x)"

definition f64_signum :: "f64 \<Rightarrow> f64" where
  "f64_signum x = (if x = NaN then NaN else if fneg x then Fin (- 1) else Fin 1)"

definition signed_int :: "bool \<Rightarrow> int \<Rightarrow> f64" where
  "signed_int s n = (if n = 0 then (if s then NZ else Fin 0) else Fin (of_int n))"

fun f64_floor :: "f64 \<Rightarrow> f64" where
  "f64_floor (Fin q) = signed_int False \<lfloor>q\<rfloor>"
| "f64_floor x = x"

fun f64_ceil :: "f64 \<Rightarrow> f64" where
  "f64_ceil (Fin q) = signed_int (q < 0) \<lceil>q\<rceil>"
| "f64_ceil x = x"

definition rnd_away :: "rat \<Rightarrow> int" where
  "rnd_away q = (if q < 0 then - \<lfloor>1/2 - q\<rfloor> else \<lfloor>q + 1/2\<rfloor>)"

definition rnd_zero :: "rat \<Rightarrow> int" where
  "rnd_zero q = (if q < 0 then \<lceil>q\<rceil> else \<lfloor>q\<rfloor>)"

fun f64_round :: "f64 \<Rightarrow> f64" where
  "f64_round (Fin q) = signed_int (q < 0) (rnd_away q)"
| "f64_round x = x"

fun f64_trunc :: "f64 \<Rightarrow> f64" where
  "f64_trunc (Fin q) = signed_int (q < 0) (rnd_zero q)"
| "f64_trunc x = x"

text \<open>The saturating casts \<open>as i64\<close>, \<open>as usize\<close> / \<open>as u64\<close>, and the cast of an integer to a
  float, which rounds.\<close>

definition sat :: "int \<Rightarrow> int \<Rightarrow> int \<Rightarrow> int" where
  "sat lo hi n = max lo (min hi n)"

fun f64_to_int :: "int \<Rightarrow> int \<Rightarrow> f64 \<Rightarrow> int" where
  "f64_to_int lo hi NaN = 0"
| "f64_to_int lo hi (Inf s) = (if s then lo else hi)"
| "f64_to_int lo hi NZ = 0"
| "f64_to_int lo hi (Fin q) = sat lo hi (rnd_zero q)"

definition f64_to_i64 :: "f64 \<Rightarrow> int" where
  "f64_to_i64 = f64_to_int (- (2 ^ 63)) (2 ^ 63 - 1)"

definition f64_to_usize :: "f64 \<Rightarrow> nat" where
  "f64_to_usize x = nat (f64_to_int 0 (2 ^ 64 - 1) x)"

definition f64_of_int :: "int \<Rightarrow> f64" where
  "f64_of_int n = rnd False (of_int n)"

text \<open>The square root: the integer root of the scaled value, with a sticky half so that the one
  final rounding is that of the exact root.\<close>

fun isqrt :: "nat \<Rightarrow> nat" where
  "isqrt n = (if n = 0 then 0 else let r = 2 * isqrt (n div 4) in
     if (r + 1) * (r + 1) \<le> n then r + 1 else r)"

declare isqrt.simps [simp del]

definition sqrt_rat :: "rat \<Rightarrow> rat" where
  "sqrt_rat q = (let k = 60 - ilog2 q div 2;
                     scaled = q * 2 powi (2 * k);
                     r = isqrt (nat \<lfloor>scaled\<rfloor>)
                 in (of_nat r + (if of_nat (r * r) = scaled then 0 else 1/2)) / 2 powi k)"

fun f64_sqrt :: "f64 \<Rightarrow> f64" where
  "f64_sqrt NaN = NaN"
| "f64_sqrt (Inf s) = (if s then NaN else Inf False)"
| "f64_sqrt NZ = NZ"
| "f64_sqrt (Fin q) = (if q < 0 then NaN else if q = 0 then Fin 0 else rnd False (sqrt_rat q))"

lemmas [f64_eval] = f64_eq_def f64_max_def f64_min_def f64_clamp_def f64_signum_def signed_int_def
  rnd_away_def rnd_zero_def sat_def f64_to_i64_def f64_to_usize_def f64_of_int_def sqrt_rat_def

lemma isqrt_num [f64_eval]:
  "isqrt 0 = 0"
  "isqrt (numeral n) = (let r = 2 * isqrt (numeral n div 4) in
     if (r + 1) * (r + 1) \<le> numeral n then r + 1 else r)"
  by (subst isqrt.simps, simp)+

lemma isqrt_bounds: "isqrt n * isqrt n \<le> n \<and> n < (isqrt n + 1) * (isqrt n + 1)"
proof (induction n rule: isqrt.induct)
  case (1 n)
  show ?case
  proof (cases "n = 0")
    case True
    then show ?thesis by (simp add: isqrt.simps)
  next
    case False
    define s where "s = isqrt (n div 4)"
    have IH: "s * s \<le> n div 4" "n div 4 < (s + 1) * (s + 1)"
      using 1 False by (simp_all add: s_def)
    have lo: "(2 * s) * (2 * s) \<le> n" using IH(1) by simp
    have "n div 4 + 1 \<le> (s + 1) * (s + 1)" using IH(2) by simp
    then have hi: "n < (2 * s + 2) * (2 * s + 2)" by (simp add: algebra_simps)
    have "isqrt n = (if (2 * s + 1) * (2 * s + 1) \<le> n then 2 * s + 1 else 2 * s)"
      using False by (subst isqrt.simps) (simp add: s_def Let_def)
    with lo hi show ?thesis by (auto simp: not_le)
  qed
qed

lemma f64_sqrt_ge_0: "f64_sqrt x \<noteq> NaN \<Longrightarrow> 0 \<le> f64_sqrt x"
  by (cases x) (auto simp: zero_key sqrt_rat_def Let_def split: if_splits)

lemma wf64_sqrt [simp]: "wf64 x \<Longrightarrow> wf64 (f64_sqrt x)"
  by (cases x) auto

lemma f64_max_NaN [simp]: "f64_max x y = NaN \<longleftrightarrow> x = NaN \<and> y = NaN"
  by (auto simp: f64_max_def)

lemma f64_min_NaN [simp]: "f64_min x y = NaN \<longleftrightarrow> x = NaN \<and> y = NaN"
  by (auto simp: f64_min_def)

lemma f64_max_ge: "x \<noteq> NaN \<Longrightarrow> x \<le> f64_max x y" "y \<noteq> NaN \<Longrightarrow> y \<le> f64_max x y"
  by (auto simp: f64_max_def f64_not_less intro: f64_less_imp_le)

lemma f64_min_le: "x \<noteq> NaN \<Longrightarrow> f64_min x y \<le> x" "y \<noteq> NaN \<Longrightarrow> f64_min x y \<le> y"
  by (auto simp: f64_min_def f64_not_less intro: f64_less_imp_le)

lemma f64_clamp_bounds:
  "x \<noteq> NaN \<Longrightarrow> lo \<le> hi \<Longrightarrow> lo \<le> f64_clamp x lo hi \<and> f64_clamp x lo hi \<le> hi"
  by (auto simp: f64_clamp_def f64_keys)

lemma f64_to_int_bounds: "lo \<le> 0 \<Longrightarrow> 0 \<le> hi \<Longrightarrow> lo \<le> f64_to_int lo hi x \<and> f64_to_int lo hi x \<le> hi"
  by (cases x) (auto simp: sat_def)

lemma f64_to_i64_bounds: "- (2 ^ 63) \<le> f64_to_i64 x" "f64_to_i64 x < 2 ^ 63"
  using f64_to_int_bounds[of "- (2 ^ 63)" "2 ^ 63 - 1" x] by (simp_all add: f64_to_i64_def)

lemma f64_of_int_Fin: "\<bar>n\<bar> \<le> 2 ^ 53 \<Longrightarrow> f64_of_int n = Fin (of_int n)"
  using rnd_of_int[of n False] by (cases "n = 0") (auto simp: f64_of_int_def)

lemma f64_of_int_mono: "m \<le> n \<Longrightarrow> f64_of_int m \<le> f64_of_int n"
  unfolding f64_of_int_def by (intro rnd_mono) simp

lemma f64_of_int_not_NaN [simp]: "f64_of_int n \<noteq> NaN"
  by (simp add: f64_of_int_def)

lemma wf64_of_int [simp]: "wf64 (f64_of_int n)"
  by (simp add: f64_of_int_def)

lemma rnd_zero_of_int [simp]: "rnd_zero (of_int n) = n"
  by (simp add: rnd_zero_def)

lemma rnd_zero_mono:
  assumes "p \<le> q"
  shows "rnd_zero p \<le> rnd_zero q"
proof (cases "p < 0 \<and> 0 \<le> q")
  case True
  then have "\<lceil>p\<rceil> \<le> 0" "0 \<le> \<lfloor>q\<rfloor>" by (simp_all add: ceiling_le_iff)
  then have "\<lceil>p\<rceil> \<le> \<lfloor>q\<rfloor>" by (rule order_trans)
  with True show ?thesis by (simp add: rnd_zero_def)
next
  case False
  with assms show ?thesis by (auto simp: rnd_zero_def intro: floor_mono ceiling_mono)
qed

lemma rnd_away_of_int [simp]: "rnd_away (of_int n) = n"
proof -
  have "\<lfloor>1 / 2 - of_int n :: rat\<rfloor> = - n" "\<lfloor>of_int n + 1 / 2 :: rat\<rfloor> = n" by linarith+
  then show ?thesis by (simp add: rnd_away_def)
qed

lemma rnd_away_mono: "p \<le> q \<Longrightarrow> rnd_away p \<le> rnd_away q"
  unfolding rnd_away_def by (auto intro: floor_mono) linarith

lemma rnd_away_error: "\<bar>of_int (rnd_away q) - q\<bar> \<le> 1/2"
proof (cases "q < 0")
  case True
  define n where "n = \<lfloor>1 / 2 - q\<rfloor>"
  have "of_int n \<le> 1 / 2 - q" "1 / 2 - q < of_int n + 1" unfolding n_def by linarith+
  then have "\<bar>- of_int n - q\<bar> \<le> 1 / 2" unfolding abs_le_iff by simp
  then show ?thesis using True unfolding rnd_away_def n_def[symmetric] by simp
next
  case False
  define n where "n = \<lfloor>q + 1 / 2\<rfloor>"
  have "of_int n \<le> q + 1 / 2" "q + 1 / 2 < of_int n + 1" unfolding n_def by linarith+
  then have "\<bar>of_int n - q\<bar> \<le> 1 / 2" unfolding abs_le_iff by simp
  then show ?thesis using False unfolding rnd_away_def n_def[symmetric] by simp
qed

lemma f64_to_int_mono:
  "x \<le> y \<Longrightarrow> lo \<le> 0 \<Longrightarrow> 0 \<le> hi \<Longrightarrow> f64_to_int lo hi x \<le> f64_to_int lo hi y"
  using rnd_zero_mono[of "fval x" "fval y"] rnd_zero_mono[of 0 "fval y"] rnd_zero_mono[of "fval x" 0]
  by (cases x; cases y) (auto simp: sat_def rnd_zero_def[of 0])
end
