(* ===== verification/Prelude.thy ===== *)
theory Prelude
  imports F64
begin

text \<open>
  What the components share. A \<open>VecDeque\<close> that is pushed at the back and trimmed at the front is
  a list, oldest element first; its abstract content is the last \<open>n\<close> elements of everything
  pushed, which the locale \<open>sliding_window\<close> states as the contract of a push operation. The
  \<open>sort_by(partial_cmp)\<close> of the sources is a stable sort by the float order. The collections
  \<open>window_simps\<close> and \<open>order_facts\<close> hold the rewrite rules and order facts that the component
  proofs use.
\<close>

named_theorems window_simps
named_theorems order_facts

lemmas [order_facts] = f64_trans f64_less_imp_le f64_le_refl

type_synonym millis = int

text \<open>Saturating i64 results (\<open>saturating_sub\<close>, \<open>saturating_add\<close>).\<close>

definition i64_sat :: "int \<Rightarrow> int" where
  "i64_sat n = sat (- (2 ^ 63)) (2 ^ 63 - 1) n"

definition in_i64 :: "int \<Rightarrow> bool" where
  "in_i64 n \<longleftrightarrow> - (2 ^ 63) \<le> n \<and> n < 2 ^ 63"

lemma i64_sat_in: "in_i64 n \<Longrightarrow> i64_sat n = n"
  by (simp add: in_i64_def i64_sat_def sat_def)

lemma in_i64_sat [simp]: "in_i64 (i64_sat n)"
  by (simp add: in_i64_def i64_sat_def sat_def)

definition unwrap_or :: "'a option \<Rightarrow> 'a \<Rightarrow> 'a" where
  "unwrap_or x d = (case x of Some v \<Rightarrow> v | None \<Rightarrow> d)"

subsection \<open>The last elements of a list\<close>

definition last_n :: "nat \<Rightarrow> 'a list \<Rightarrow> 'a list" where
  "last_n n xs = drop (length xs - n) xs"

lemma length_last_n [simp, window_simps]: "length (last_n n xs) = min n (length xs)"
  by (simp add: last_n_def)

lemma last_n_all [simp]: "length xs \<le> n \<Longrightarrow> last_n n xs = xs"
  by (simp add: last_n_def)

lemma last_n_Nil [simp]: "last_n n [] = []"
  by (simp add: last_n_def)

lemma set_last_n: "set (last_n n xs) \<subseteq> set xs"
  by (simp add: last_n_def set_drop_subset)

lemma last_n_snoc: "0 < n \<Longrightarrow> last_n n (last_n n xs @ [x]) = last_n n (xs @ [x])"
  by (cases "length xs < n") (auto simp: last_n_def Suc_diff_le)

lemma last_n_snoc_0: "last_n 0 xs = []"
  by (simp add: last_n_def)

lemma last_n_last_n_snoc [window_simps]: "last_n n (last_n n xs @ [x]) = last_n n (xs @ [x])"
  by (cases "n = 0") (simp_all add: last_n_snoc last_n_snoc_0)

lemma last_n_snoc_full:
  "length xs = n \<Longrightarrow> 0 < n \<Longrightarrow> last_n n (xs @ [x]) = tl xs @ [x]"
  by (cases xs) (simp_all add: last_n_def)

lemma last_n_rev: "last_n n xs = rev (take n (rev xs))"
  by (simp add: last_n_def rev_take)

text \<open>
  The contract of a bounded buffer: a push leaves the last \<open>cap\<close> elements of what was there and
  the new one. Everything pushed so far then determines the content.
\<close>

locale sliding_window =
  fixes contents :: "'w \<Rightarrow> 'a list"
    and push :: "'a \<Rightarrow> 'w \<Rightarrow> 'w"
    and cap :: nat
    and inv :: "'w \<Rightarrow> bool"
  assumes push_contents: "inv w \<Longrightarrow> contents (push x w) = last_n cap (contents w @ [x])"
    and push_inv: "inv w \<Longrightarrow> inv (push x w)"
begin

lemma push_length: "inv w \<Longrightarrow> length (contents (push x w)) \<le> cap"
  by (simp add: push_contents)

lemma fold_push_inv: "inv w \<Longrightarrow> inv (fold push xs w)"
  by (induction xs arbitrary: w) (auto simp: push_inv)

lemma fold_push_contents:
  "inv w \<Longrightarrow> length (contents w) \<le> cap \<Longrightarrow> contents (fold push xs w) = last_n cap (contents w @ xs)"
proof (induction xs rule: rev_induct)
  case Nil
  then show ?case by simp
next
  case (snoc x xs)
  then have "contents (fold push (xs @ [x]) w) = last_n cap (last_n cap (contents w @ xs) @ [x])"
    by (simp add: push_contents fold_push_inv)
  also have "\<dots> = last_n cap (contents w @ xs @ [x])"
    using last_n_last_n_snoc[of cap "contents w @ xs" x] by simp
  finally show ?case .
qed

lemma fold_push_fresh: "inv w \<Longrightarrow> contents w = [] \<Longrightarrow> contents (fold push xs w) = last_n cap xs"
  by (simp add: fold_push_contents)

end

subsection \<open>Sorting by the partial order of floats\<close>

text \<open>
  \<open>data.sort_by(|a, b| a.partial_cmp(b).unwrap_or(Equal))\<close>, a stable sort. The comparison is a
  total order on NaN-free data; with a NaN among the data the library leaves the order open, so
  the facts below ask for NaN-free data.
\<close>

fun insort_f64 :: "f64 \<Rightarrow> f64 list \<Rightarrow> f64 list" where
  "insort_f64 x [] = [x]"
| "insort_f64 x (y # ys) = (if y < x then y # insort_f64 x ys else x # y # ys)"

definition sort_f64 :: "f64 list \<Rightarrow> f64 list" where
  "sort_f64 xs = foldr insort_f64 xs []"

fun sorted_f64 :: "f64 list \<Rightarrow> bool" where
  "sorted_f64 [] = True"
| "sorted_f64 (x # xs) = ((\<forall>y\<in>set xs. x \<le> y) \<and> sorted_f64 xs)"

lemma set_insort_f64: "set (insort_f64 x xs) = insert x (set xs)"
  by (induction xs) auto

lemma length_insort_f64: "length (insort_f64 x xs) = Suc (length xs)"
  by (induction xs) auto

lemma set_sort_f64 [simp]: "set (sort_f64 xs) = set xs"
  unfolding sort_f64_def by (induction xs) (auto simp: set_insort_f64)

lemma length_sort_f64 [simp]: "length (sort_f64 xs) = length xs"
  unfolding sort_f64_def by (induction xs) (auto simp: length_insort_f64)

lemma sorted_insort_f64:
  "sorted_f64 xs \<Longrightarrow> NaN \<notin> set xs \<Longrightarrow> x \<noteq> NaN \<Longrightarrow> sorted_f64 (insort_f64 x xs)"
proof (induction xs)
  case Nil
  then show ?case by simp
next
  case (Cons y ys)
  then have "y \<noteq> NaN" by auto
  with Cons show ?case
    by (auto simp: set_insort_f64 f64_not_less intro: order_facts)
qed

lemma sorted_sort_f64: "NaN \<notin> set xs \<Longrightarrow> sorted_f64 (sort_f64 xs)"
proof (induction xs)
  case Nil
  then show ?case by (simp add: sort_f64_def)
next
  case (Cons x xs)
  have "sort_f64 (x # xs) = insort_f64 x (sort_f64 xs)" by (simp add: sort_f64_def)
  moreover have "NaN \<notin> set (sort_f64 xs)" using Cons.prems by simp
  ultimately show ?case using Cons by (auto intro: sorted_insort_f64)
qed

lemma sorted_f64_nth:
  "sorted_f64 xs \<Longrightarrow> NaN \<notin> set xs \<Longrightarrow> i \<le> j \<Longrightarrow> j < length xs \<Longrightarrow> xs ! i \<le> xs ! j"
proof (induction xs arbitrary: i j)
  case Nil
  then show ?case by simp
next
  case (Cons x xs)
  then show ?case
    by (cases j; cases i) auto
qed

text \<open>Stability: elements that compare equal keep their order.\<close>

lemma filter_insort_f64:
  "x \<noteq> NaN \<Longrightarrow> filter (f64_eq z) (insort_f64 x xs) = filter (f64_eq z) (x # xs)"
  by (induction xs) (auto simp: f64_eq_def dest: f64_trans f64_less_not_le)

subsection \<open>Ranks of a sorted sample\<close>

text \<open>
  \<open>((data.len() as f64 - 1.0) * q).round() as usize\<close>, the index that every quantile routine of
  the sources picks from its sorted copy.
\<close>

definition rank_idx :: "nat \<Rightarrow> f64 \<Rightarrow> nat" where
  "rank_idx len q = f64_to_usize (f64_round ((f64_of_int (int len) - 1) * q))"

definition get :: "'a list \<Rightarrow> nat \<Rightarrow> 'a option" where
  "get xs i = (if i < length xs then Some (xs ! i) else None)"

lemma get_Some_iff: "get xs i = Some x \<longleftrightarrow> i < length xs \<and> xs ! i = x"
  by (auto simp: get_def)

lemma f64_round_mono: "x \<le> y \<Longrightarrow> f64_round x \<le> f64_round y"
  using rnd_away_mono[of "fval x" "fval y"] rnd_away_mono[of 0 "fval y"] rnd_away_mono[of "fval x" 0]
    rnd_away_of_int[of 0]
  by (cases x; cases y) (auto simp: signed_int_def)

lemma f64_round_of_int: "\<bar>n\<bar> \<le> 2 ^ 53 \<Longrightarrow> f64_round (f64_of_int n) = f64_of_int n"
  by (auto simp: f64_of_int_Fin signed_int_def)

lemma f64_of_int_minus_1:
  assumes "1 \<le> n" "n \<le> 2 ^ 53"
  shows "f64_of_int n - 1 = f64_of_int (n - 1)"
  using assms f64_of_int_Fin[of n] by (simp add: minus_f64_def zero_key f64_of_int_def)

lemma f64_to_usize_of_int: "0 \<le> n \<Longrightarrow> n \<le> 2 ^ 53 \<Longrightarrow> f64_to_usize (f64_of_int n) = nat n"
  by (simp add: f64_to_usize_def f64_of_int_Fin sat_def)

lemma f64_to_usize_mono: "x \<le> y \<Longrightarrow> f64_to_usize x \<le> f64_to_usize y"
  unfolding f64_to_usize_def by (intro nat_mono f64_to_int_mono) auto

lemma rank_idx_bound:
  assumes len: "1 \<le> len" "len \<le> 2 ^ 53" and q: "0 \<le> q" "q \<le> 1"
  shows "rank_idx len q \<le> len - 1"
proof -
  let ?x = "f64_of_int (int len) - 1"
  have il: "int len \<le> 2 ^ 53" using len(2) by (metis of_nat_le_iff of_nat_numeral of_nat_power)
  have x: "?x = f64_of_int (int len - 1)" using len il by (intro f64_of_int_minus_1) auto
  have xF: "?x = Fin (of_int (int len - 1))" unfolding x using len il by (intro f64_of_int_Fin) auto
  have x0: "0 \<le> ?x" unfolding xF unfolding zero_key using len by simp
  have wx: "wf64 ?x" by (simp add: x)
  have qn: "q = NZ \<or> (\<exists>p. q = Fin p \<and> 0 \<le> p \<and> p \<le> 1)"
    using q by (cases q) (auto simp: zero_key)
  then have nn: "?x * q \<noteq> NaN" unfolding xF by (auto simp: times_f64_def split: if_splits)
  have "?x * 1 \<noteq> NaN" unfolding f64_mul_1[OF wx] unfolding xF by simp
  moreover have "?x \<le> ?x" unfolding xF by simp
  ultimately have "?x * q \<le> ?x * 1" using q x0 nn by (intro f64_mul_mono)
  then have "f64_round (?x * q) \<le> f64_round ?x" by (simp add: f64_mul_1[OF wx] f64_round_mono)
  then have "f64_to_usize (f64_round (?x * q)) \<le> f64_to_usize (f64_round ?x)"
    by (rule f64_to_usize_mono)
  also have "\<dots> = nat (int len - 1)"
    unfolding x using len il by (simp add: f64_round_of_int f64_to_usize_of_int)
  finally show ?thesis using len by (simp add: rank_idx_def nat_diff_distrib)
qed

lemma get_sort_rank:
  assumes "xs \<noteq> []" "length xs \<le> 2 ^ 53" "0 \<le> q" "q \<le> 1"
  shows "\<exists>x\<in>set xs. get (sort_f64 xs) (rank_idx (length xs) q) = Some x"
proof -
  have l: "1 \<le> length xs" using assms(1) by (simp add: Suc_le_eq)
  then have i: "rank_idx (length xs) q < length (sort_f64 xs)"
    using rank_idx_bound[OF l assms(2-4)] by simp
  then have "sort_f64 xs ! rank_idx (length xs) q \<in> set (sort_f64 xs)" by (rule nth_mem)
  with i show ?thesis by (auto simp: get_def)
qed

end
