(* ===== verification/Models.thy ===== *)
theory Models
  imports Prelude
begin

text \<open>
  The data model of \<open>src/models.rs\<close> that the modelled components exchange: the enumerations with
  their string forms, market events and their payload, the watchlist pair and the token
  registration. Field names carry a prefix per struct because record selectors are global.
\<close>

datatype Venue = Polymarket | Opinion

fun venue_str :: "Venue \<Rightarrow> string" where
  "venue_str Polymarket = ''pm''"
| "venue_str Opinion = ''opi''"

definition default_Venue :: Venue where "default_Venue = Polymarket"

datatype TokenSide = Yes | No | UnknownSide

fun side_str :: "TokenSide \<Rightarrow> string" where
  "side_str Yes = ''YES''"
| "side_str No = ''NO''"
| "side_str UnknownSide = ''UNKNOWN''"

definition default_TokenSide :: TokenSide where "default_TokenSide = UnknownSide"

datatype ExchangeTsSource = VenueWs | VenueRest | Estimated | LocalFallback

datatype EventKind = BookSnapshot | BookDelta | Trade | LastPrice | TickSizeChange | HealthEvent

datatype BookSide = Bid | Ask

datatype DeltaType = AddDelta | CancelDelta | MatchDelta | AddOrUpdate | UnknownDelta

record EventFlags =
  f_ts_missing :: bool
  f_ts_anomaly :: bool
  f_out_of_order :: bool
  f_trade_side_missing :: bool

record BookLevel =
  bl_price :: f64
  bl_size :: f64

record EventPayload =
  p_side :: "BookSide option"
  p_delta_type :: "DeltaType option"
  p_price :: "f64 option"
  p_size :: "f64 option"
  p_bids :: "BookLevel list option"
  p_asks :: "BookLevel list option"
  p_hash :: "string option"
  p_best_bid :: "f64 option"
  p_best_ask :: "f64 option"
  p_tick_size :: "f64 option"
  p_outcome_side :: "int option"

record Event =
  e_venue :: Venue
  e_token_key :: string
  e_pair_ids :: "int list"
  e_token_side :: TokenSide
  e_kind :: EventKind
  e_channel :: "string option"
  e_exchange_ts_ms :: millis
  e_local_ts_ms :: millis
  e_exchange_ts_source :: ExchangeTsSource
  e_flags :: EventFlags
  e_payload :: EventPayload

record PairRecord =
  pr_pair_id :: int
  pr_watchlist_version :: int
  pr_status :: string
  pr_root_market_title :: "string option"
  pr_polymarket_event_title :: "string option"
  pr_opinion_market_id :: "string option"
  pr_opinion_yes_token_id :: "string option"
  pr_opinion_no_token_id :: "string option"
  pr_polymarket_market_id :: "string option"
  pr_polymarket_yes_token_id :: "string option"
  pr_polymarket_no_token_id :: "string option"

record TokenRegistration =
  tr_token_key :: string
  tr_venue :: Venue
  tr_external_token_id :: "string option"
  tr_market_id :: "string option"
  tr_outcome_side :: "int option"
  tr_token_side :: TokenSide
  tr_pair_ids :: "int list"

text \<open>A linear order on the sides, in declaration order, so that the library's ordered containers
  can hold them as keys.\<close>

instantiation TokenSide :: linorder
begin

fun side_rank :: "TokenSide \<Rightarrow> nat" where
  "side_rank Yes = 0"
| "side_rank No = 1"
| "side_rank UnknownSide = 2"

definition less_eq_TokenSide :: "TokenSide \<Rightarrow> TokenSide \<Rightarrow> bool" where
  "x \<le> y \<longleftrightarrow> side_rank x \<le> side_rank y"

definition less_TokenSide :: "TokenSide \<Rightarrow> TokenSide \<Rightarrow> bool" where
  "x < y \<longleftrightarrow> side_rank x < side_rank y"

instance
proof
  fix x y :: TokenSide
  show "x \<le> y \<Longrightarrow> y \<le> x \<Longrightarrow> x = y"
    unfolding less_eq_TokenSide_def by (cases x; cases y) simp_all
qed (auto simp: less_eq_TokenSide_def less_TokenSide_def)

end

text \<open>\<open>parse_venue\<close> and \<open>parse_token_side\<close> of \<open>src/db.rs\<close> read the strings back.\<close>

definition parse_token_side :: "string \<Rightarrow> TokenSide" where
  "parse_token_side value =
    (if value = ''YES'' then Yes
     else if value = ''NO'' then No
     else UnknownSide)"

definition parse_venue :: "string \<Rightarrow> Venue" where
  "parse_venue value =
    (if value = ''pm'' then Polymarket
     else if value = ''opi'' then Opinion
     else Polymarket)"

lemma parse_side_str [simp]: "parse_token_side (side_str s) = s"
  by (cases s) (simp_all add: parse_token_side_def)

lemma parse_venue_str [simp]: "parse_venue (venue_str v) = v"
  by (cases v) (simp_all add: parse_venue_def)

end
