(* ===== verification/TimeSync.thy ===== *)
theory TimeSync
  imports Models
begin

text \<open>
  Timestamps and clock offsets: \<open>src/time_utils.rs\<close> (unit normalisation and validation of exchange
  timestamps), the copies of the normalisation in \<open>src/rest/opinion.rs\<close> and
  \<open>src/rest/polymarket.rs\<close>, and the offset filter of \<open>src/clock.rs\<close>. Timestamps are i64
  milliseconds, modelled as \<open>int\<close>; a lemma shows that the normalisation stays inside i64.
\<close>

subsection \<open>Unit normalisation\<close>

definition normalize_ts_ms :: "int \<Rightarrow> millis" where
  "normalize_ts_ms ts_raw =
    (if ts_raw < 0 then ts_raw
     else if ts_raw < 100000000000 then ts_raw * 1000
     else if ts_raw < 100000000000000 then ts_raw
     else if ts_raw < 100000000000000000 then ts_raw div 1000
     else ts_raw div 1000000)"

definition pm_rest_normalize_ts_ms :: "int \<Rightarrow> millis" where
  "pm_rest_normalize_ts_ms ts_raw =
    (if ts_raw < 0 then ts_raw
     else if ts_raw < 100000000000 then ts_raw * 1000
     else if ts_raw < 100000000000000 then ts_raw
     else if ts_raw < 100000000000000000 then ts_raw div 1000
     else ts_raw div 1000000)"

definition opi_rest_normalize_ts_ms :: "int \<Rightarrow> millis option" where
  "opi_rest_normalize_ts_ms ts_raw =
    (if ts_raw \<le> 0 then None
     else if ts_raw < 100000000000 then Some (ts_raw * 1000)
     else if ts_raw < 100000000000000 then Some ts_raw
     else if ts_raw < 100000000000000000 then Some (ts_raw div 1000)
     else Some (ts_raw div 1000000))"

definition ts_unit_hint :: "int \<Rightarrow> string" where
  "ts_unit_hint ts_raw =
    (if ts_raw < 100000000000 then ''s''
     else if ts_raw < 100000000000000 then ''ms''
     else if ts_raw < 100000000000000000 then ''us''
     else ''ns'')"

lemma normalize_nonneg: "0 \<le> ts \<Longrightarrow> 0 \<le> normalize_ts_ms ts"
  by (auto simp: normalize_ts_ms_def)

lemma normalize_negative: "normalize_ts_ms ts < 0 \<longleftrightarrow> ts < 0"
  using normalize_nonneg[of ts] by (auto simp: normalize_ts_ms_def split: if_splits)

subsection \<open>Validation\<close>

record TimestampCheck =
  tc_exchange_ts_ms :: millis
  tc_source :: ExchangeTsSource
  tc_ts_missing :: bool
  tc_ts_anomaly :: bool
  tc_out_of_order :: bool

definition validate_exchange_ts :: "int option \<Rightarrow> millis \<Rightarrow> millis option \<Rightarrow> TimestampCheck" where
  "validate_exchange_ts ts_raw local_ts_ms last_good_ts_ms =
    (case ts_raw of
       Some raw \<Rightarrow>
         let ts = normalize_ts_ms raw;
             out_of_order = (case last_good_ts_ms of Some prev \<Rightarrow> ts < prev | None \<Rightarrow> False)
         in if ts < 0 then
              \<lparr>tc_exchange_ts_ms = local_ts_ms, tc_source = LocalFallback, tc_ts_missing = False,
               tc_ts_anomaly = True, tc_out_of_order = out_of_order\<rparr>
            else if ts > local_ts_ms + 300000 then
              \<lparr>tc_exchange_ts_ms = local_ts_ms, tc_source = LocalFallback, tc_ts_missing = False,
               tc_ts_anomaly = True, tc_out_of_order = out_of_order\<rparr>
            else if (case last_good_ts_ms of Some last_good \<Rightarrow> ts < last_good - 2000 | None \<Rightarrow> False) then
              \<lparr>tc_exchange_ts_ms = local_ts_ms, tc_source = LocalFallback, tc_ts_missing = False,
               tc_ts_anomaly = True, tc_out_of_order = True\<rparr>
            else
              \<lparr>tc_exchange_ts_ms = ts, tc_source = VenueWs, tc_ts_missing = False,
               tc_ts_anomaly = False, tc_out_of_order = out_of_order\<rparr>
     | None \<Rightarrow>
         \<lparr>tc_exchange_ts_ms = local_ts_ms, tc_source = LocalFallback, tc_ts_missing = True,
          tc_ts_anomaly = False, tc_out_of_order = False\<rparr>)"

text \<open>What a consumer of a check may rely on, stated without the branches of the code: a venue
  timestamp is trusted exactly when it lies in the acceptance window.\<close>

definition ts_acceptable :: "int \<Rightarrow> millis \<Rightarrow> millis option \<Rightarrow> bool" where
  "ts_acceptable raw local_ts last_good \<longleftrightarrow>
     0 \<le> raw \<and> normalize_ts_ms raw \<le> local_ts + 300000 \<and>
     (\<forall>g. last_good = Some g \<longrightarrow> g - 2000 \<le> normalize_ts_ms raw)"

subsection \<open>The clock offset filter\<close>

record ClockOffset =
  co_offset_ms :: int
  co_alpha :: f64
  co_max_step_ms :: int

definition clock_new :: "f64 \<Rightarrow> int \<Rightarrow> ClockOffset" where
  "clock_new alpha max_step_ms = \<lparr>co_offset_ms = 0, co_alpha = alpha, co_max_step_ms = max_step_ms\<rparr>"

definition clamp :: "int \<Rightarrow> int \<Rightarrow> int \<Rightarrow> int" where
  "clamp value mn mx = (if value < mn then mn else if value > mx then mx else value)"

text \<open>The assertion on the source is a panic: \<open>None\<close>.\<close>

definition apply_sample :: "ClockOffset \<Rightarrow> int \<Rightarrow> ExchangeTsSource \<Rightarrow> (ClockOffset \<times> int \<times> int) option" where
  "apply_sample c sample_offset source =
    (if source = VenueRest \<or> source = VenueWs then
       let current = co_offset_ms c;
           delta = sample_offset - current;
           clamped = clamp delta (- co_max_step_ms c) (co_max_step_ms c);
           updated = current + f64_to_i64 (f64_round (co_alpha c * f64_of_int clamped))
       in Some (c\<lparr>co_offset_ms := updated\<rparr>, updated, clamped)
     else None)"

text \<open>The step of the filter lies between no step and the clamped difference.\<close>

lemma f64_to_i64_of_int: "\<bar>n\<bar> \<le> 2 ^ 53 \<Longrightarrow> f64_to_i64 (f64_of_int n) = n"
  by (auto simp: f64_to_i64_def f64_of_int_Fin sat_def)

lemma f64_to_i64_mono: "x \<le> y \<Longrightarrow> f64_to_i64 x \<le> f64_to_i64 y"
  unfolding f64_to_i64_def by (intro f64_to_int_mono) auto

lemma round_between:
  assumes "\<bar>a\<bar> \<le> 2 ^ 53" "\<bar>b\<bar> \<le> 2 ^ 53" "f64_of_int a \<le> x" "x \<le> f64_of_int b"
  shows "a \<le> f64_to_i64 (f64_round x)" "f64_to_i64 (f64_round x) \<le> b"
proof -
  have "f64_round (f64_of_int a) \<le> f64_round x" "f64_round x \<le> f64_round (f64_of_int b)"
    using assms(3,4) by (auto intro: f64_round_mono)
  then have "f64_to_i64 (f64_of_int a) \<le> f64_to_i64 (f64_round x)"
    "f64_to_i64 (f64_round x) \<le> f64_to_i64 (f64_of_int b)"
    using assms(1,2) by (auto simp: f64_round_of_int intro: f64_to_i64_mono)
  then show "a \<le> f64_to_i64 (f64_round x)" "f64_to_i64 (f64_round x) \<le> b"
    using assms(1,2) by (simp_all add: f64_to_i64_of_int)
qed

lemma scaled_between:
  assumes alpha: "0 \<le> alpha" "alpha \<le> 1" and n: "\<bar>n\<bar> \<le> 2 ^ 53"
  shows "f64_of_int (min 0 n) \<le> alpha * f64_of_int n" "alpha * f64_of_int n \<le> f64_of_int (max 0 n)"
proof -
  define v :: rat where "v = of_int n"
  have F: "f64_of_int n = Fin v" using n by (simp add: f64_of_int_Fin v_def)
  have lo: "f64_of_int (min 0 n) = rnd False (min 0 v)" and hi: "f64_of_int (max 0 n) = rnd False (max 0 v)"
    by (auto simp: f64_of_int_def v_def min_def max_def)
  obtain p s where p: "alpha * f64_of_int n = rnd s (p * v)" "0 \<le> p" "p \<le> 1"
  proof (cases alpha)
    case NZ
    then have "alpha * f64_of_int n = rnd (\<not> v < 0) (0 * v)" by (simp add: F times_f64_def)
    then show thesis by (rule that) auto
  next
    case (Fin p)
    then have "alpha * f64_of_int n = rnd ((p < 0) \<noteq> (v < 0)) (p * v)" by (simp add: F times_f64_def)
    with Fin alpha show thesis by (intro that[of _ p]) (auto simp: zero_key)
  qed (use alpha in \<open>auto simp: zero_key\<close>)
  have "min 0 v \<le> p * v" "p * v \<le> max 0 v"
    using p(2,3) mult_right_mono[of p 1 v] mult_right_mono_neg[of p 1 v]
    by (auto simp: min_def max_def zero_le_mult_iff mult_le_0_iff)
  then show "f64_of_int (min 0 n) \<le> alpha * f64_of_int n" "alpha * f64_of_int n \<le> f64_of_int (max 0 n)"
    unfolding lo hi p(1) by (auto intro: rnd_mono)
qed

lemma filter_step_between:
  assumes "0 \<le> alpha" "alpha \<le> 1" "\<bar>n\<bar> \<le> 2 ^ 53"
  shows "min 0 n \<le> f64_to_i64 (f64_round (alpha * f64_of_int n))"
    and "f64_to_i64 (f64_round (alpha * f64_of_int n)) \<le> max 0 n"
  using round_between[OF _ _ scaled_between(1)[OF assms] scaled_between(2)[OF assms]] assms(3)
  by auto

subsection \<open>Properties\<close>

text \<open>
  The validation trusts a venue timestamp exactly when it is in the acceptance window: then
  the normalised venue time is returned as \<open>VenueWs\<close>, otherwise the local time as
  \<open>LocalFallback\<close> with exactly one of the missing and anomaly flags.
\<close>

theorem validate_exchange_ts_window:
  "(\<exists>raw. ts_raw = Some raw \<and> ts_acceptable raw local last_good \<and>
      tc_exchange_ts_ms (validate_exchange_ts ts_raw local last_good) = normalize_ts_ms raw \<and>
      tc_source (validate_exchange_ts ts_raw local last_good) = VenueWs \<and>
      \<not> tc_ts_missing (validate_exchange_ts ts_raw local last_good) \<and>
      \<not> tc_ts_anomaly (validate_exchange_ts ts_raw local last_good)) \<or>
   (ts_raw = None \<or> (\<exists>raw. ts_raw = Some raw \<and> \<not> ts_acceptable raw local last_good)) \<and>
      tc_exchange_ts_ms (validate_exchange_ts ts_raw local last_good) = local \<and>
      tc_source (validate_exchange_ts ts_raw local last_good) = LocalFallback \<and>
      tc_ts_missing (validate_exchange_ts ts_raw local last_good) = (ts_raw = None) \<and>
      tc_ts_anomaly (validate_exchange_ts ts_raw local last_good) = (ts_raw \<noteq> None)"
  by (cases ts_raw; cases last_good)
    (auto simp: validate_exchange_ts_def ts_acceptable_def Let_def normalize_negative not_less)

text \<open>
  The normalisation recovers the same millisecond time from every unit the venues send:
  for a time between 1973 and 5138, the milliseconds, microseconds and nanoseconds of the time
  normalise to the time itself, and its seconds to the time less its sub-second part.
\<close>

theorem normalize_unit_independent:
  assumes "100000000000 \<le> t" "t < 100000000000000" "0 \<le> r" "r < 1000" "0 \<le> r6" "r6 < 1000000"
  shows "normalize_ts_ms t = t \<and> normalize_ts_ms (t * 1000 + r) = t \<and>
    normalize_ts_ms (t * 1000000 + r6) = t \<and> normalize_ts_ms (t div 1000) = t - t mod 1000"
proof (intro conjI)
  show "normalize_ts_ms t = t" using assms by (simp add: normalize_ts_ms_def)
  show "normalize_ts_ms (t * 1000 + r) = t" using assms by (simp add: normalize_ts_ms_def)
  show "normalize_ts_ms (t * 1000000 + r6) = t" using assms by (simp add: normalize_ts_ms_def)
  show "normalize_ts_ms (t div 1000) = t - t mod 1000"
    using assms by (simp add: normalize_ts_ms_def minus_mod_eq_div_mult)
qed

theorem normalize_unit_independent_witness:
  "normalize_ts_ms 1700000000123 = 1700000000123 \<and> normalize_ts_ms 1700000000 = 1700000000000"
  using normalize_unit_independent[of 1700000000123 0 0] by simp

text \<open>
  The clock offset filter never overshoots and never moves more than its step limit: with a
  gain in [0, 1], the new offset lies between the old one and the sample, at most
  \<open>max_step_ms\<close> away from the old one.
\<close>

theorem apply_sample_no_overshoot:
  assumes step: "apply_sample c sample src = Some (c', updated, clamped)"
    and alpha: "0 \<le> co_alpha c" "co_alpha c \<le> 1"
    and mx: "0 \<le> co_max_step_ms c" "co_max_step_ms c \<le> 2 ^ 53"
  shows "co_offset_ms c' = updated \<and> \<bar>updated - co_offset_ms c\<bar> \<le> co_max_step_ms c \<and>
    min (co_offset_ms c) sample \<le> updated \<and> updated \<le> max (co_offset_ms c) sample"
proof -
  have cl: "clamped = clamp (sample - co_offset_ms c) (- co_max_step_ms c) (co_max_step_ms c)"
    and up: "updated = co_offset_ms c + f64_to_i64 (f64_round (co_alpha c * f64_of_int clamped))"
    and c': "co_offset_ms c' = updated"
    using step by (auto simp: apply_sample_def Let_def split: if_splits)
  have b: "\<bar>clamped\<bar> \<le> co_max_step_ms c"
    and m: "min 0 (sample - co_offset_ms c) \<le> clamped" "clamped \<le> max 0 (sample - co_offset_ms c)"
    using mx by (auto simp: cl clamp_def)
  have "\<bar>clamped\<bar> \<le> 2 ^ 53" using b mx by simp
  note s = filter_step_between[OF alpha this]
  show ?thesis using s b m c' unfolding up by auto
qed

theorem apply_sample_no_overshoot_witness:
  "apply_sample (clock_new (lit (1/2)) 100) 1000 VenueRest
     = Some (\<lparr>co_offset_ms = 50, co_alpha = lit (1/2), co_max_step_ms = 100\<rparr>, 50, 100) \<and>
   (50::int) \<le> max 0 1000"
proof -
  have ev: "apply_sample (clock_new (lit (1/2)) 100) 1000 VenueRest
     = Some (\<lparr>co_offset_ms = 50, co_alpha = lit (1/2), co_max_step_ms = 100\<rparr>, 50, 100)"
    by (simp add: apply_sample_def clock_new_def clamp_def Let_def) (simp add: f64_eval)
  from apply_sample_no_overshoot[OF ev] ev show ?thesis
    by (simp add: clock_new_def f64_eval)
qed

end
