(* ===== verification/Fee.thy ===== *)
theory Fee
  imports Models
begin

text \<open>
  The fee schedule of \<open>src/fee.rs\<close>: rows with a validity interval per venue, the lookup of the fee
  that applies at a time, and the refresh of the rows from the database. The lookup is shown to
  pick the active row with the latest start, the first one in table order among equals.
\<close>

record FeeRow =
  fr_venue :: Venue
  fr_fee_bps :: int
  fr_effective_from_ts_ms :: millis
  fr_effective_to_ts_ms :: "millis option"

record FeeScheduleState =
  fs_defaults :: "int \<times> int"
  fs_rows :: "FeeRow list"

definition fee_new :: "int \<Rightarrow> int \<Rightarrow> FeeScheduleState" where
  "fee_new default_pm_bps default_opi_bps =
    \<lparr>fs_defaults = (default_pm_bps, default_opi_bps), fs_rows = []\<rparr>"

definition fee_update :: "FeeScheduleState \<Rightarrow> FeeRow list \<Rightarrow> FeeScheduleState" where
  "fee_update s rows = s\<lparr>fs_rows := rows\<rparr>"

text \<open>One iteration of the loop of \<open>fee_bps\<close>: the three \<open>continue\<close> guards, then the comparison
  with the best row so far.\<close>

definition fee_scan :: "Venue \<Rightarrow> millis \<Rightarrow> FeeRow \<Rightarrow> FeeRow option \<Rightarrow> FeeRow option" where
  "fee_scan venue ts_ms row best =
    (if fr_venue row \<noteq> venue then best
     else if fr_effective_from_ts_ms row > ts_ms then best
     else if (case fr_effective_to_ts_ms row of Some end_ts \<Rightarrow> ts_ms \<ge> end_ts | None \<Rightarrow> False) then best
     else if (case best of Some b \<Rightarrow> fr_effective_from_ts_ms row > fr_effective_from_ts_ms b | None \<Rightarrow> True)
       then Some row
     else best)"

definition fee_bps :: "FeeScheduleState \<Rightarrow> Venue \<Rightarrow> millis \<Rightarrow> int" where
  "fee_bps s venue ts_ms =
    (case fold (fee_scan venue ts_ms) (fs_rows s) None of
       Some row \<Rightarrow> fr_fee_bps row
     | None \<Rightarrow> (case venue of Polymarket \<Rightarrow> fst (fs_defaults s) | Opinion \<Rightarrow> snd (fs_defaults s)))"

text \<open>A refresh: the query's rows, or an error that leaves the schedule as it is.\<close>

type_synonym fee_db_row = "string \<times> int \<times> millis \<times> millis option"

definition fee_refresh :: "FeeScheduleState \<Rightarrow> fee_db_row list option \<Rightarrow> FeeScheduleState" where
  "fee_refresh s result =
    (case result of
       None \<Rightarrow> s
     | Some rows \<Rightarrow> fee_update s (map (\<lambda>(venue_raw, bps, from_ts, to_ts).
         \<lparr>fr_venue = parse_venue venue_raw, fr_fee_bps = bps,
          fr_effective_from_ts_ms = from_ts, fr_effective_to_ts_ms = to_ts\<rparr>) rows))"

definition fee_active :: "Venue \<Rightarrow> millis \<Rightarrow> FeeRow \<Rightarrow> bool" where
  "fee_active venue ts row \<longleftrightarrow> fr_venue row = venue \<and> fr_effective_from_ts_ms row \<le> ts \<and>
     (\<forall>e. fr_effective_to_ts_ms row = Some e \<longrightarrow> ts < e)"

lemma fee_scan_eq:
  "fee_scan venue ts row best =
    (if fee_active venue ts row \<and> (\<forall>b. best = Some b \<longrightarrow> fr_effective_from_ts_ms b < fr_effective_from_ts_ms row)
     then Some row else best)"
  by (auto simp: fee_scan_def fee_active_def split: option.splits)

text \<open>The winner of the scan: the first row of greatest start among the active ones.\<close>

definition fee_winner :: "Venue \<Rightarrow> millis \<Rightarrow> FeeRow list \<Rightarrow> FeeRow \<Rightarrow> bool" where
  "fee_winner venue ts rows row \<longleftrightarrow> (\<exists>pre post. rows = pre @ row # post \<and> fee_active venue ts row \<and>
     (\<forall>r\<in>set pre. fee_active venue ts r \<longrightarrow> fr_effective_from_ts_ms r < fr_effective_from_ts_ms row) \<and>
     (\<forall>r\<in>set post. fee_active venue ts r \<longrightarrow> fr_effective_from_ts_ms r \<le> fr_effective_from_ts_ms row))"

lemma fold_fee_scan:
  "case fold (fee_scan venue ts) rows None of
     None \<Rightarrow> \<forall>r\<in>set rows. \<not> fee_active venue ts r
   | Some row \<Rightarrow> fee_winner venue ts rows row"
proof (induction rows rule: rev_induct)
  case Nil
  then show ?case by simp
next
  case (snoc r rows)
  show ?case
  proof (cases "fold (fee_scan venue ts) rows None")
    case None
    with snoc have none: "\<forall>r\<in>set rows. \<not> fee_active venue ts r" by simp
    then have "fee_active venue ts r \<Longrightarrow> fee_winner venue ts (rows @ [r]) r"
      unfolding fee_winner_def by (intro exI[of _ rows] exI[of _ "[]"]) simp
    with None none show ?thesis by (simp add: fee_scan_eq[of _ _ r])
  next
    case (Some b)
    with snoc obtain pre post where w: "rows = pre @ b # post" "fee_active venue ts b"
      "\<forall>r\<in>set pre. fee_active venue ts r \<longrightarrow> fr_effective_from_ts_ms r < fr_effective_from_ts_ms b"
      "\<forall>r\<in>set post. fee_active venue ts r \<longrightarrow> fr_effective_from_ts_ms r \<le> fr_effective_from_ts_ms b"
      by (auto simp: fee_winner_def)
    show ?thesis
    proof (cases "fee_active venue ts r \<and> fr_effective_from_ts_ms b < fr_effective_from_ts_ms r")
      case True
      with w have "fee_winner venue ts (rows @ [r]) r"
        unfolding fee_winner_def by (intro exI[of _ rows] exI[of _ "[]"]) force
      with True Some show ?thesis by (simp add: fee_scan_eq[of _ _ r])
    next
      case False
      with w have "fee_winner venue ts (rows @ [r]) b"
        unfolding fee_winner_def by (intro exI[of _ pre] exI[of _ "post @ [r]"]) auto
      with False Some show ?thesis by (auto simp: fee_scan_eq[of _ _ r])
    qed
  qed
qed

text \<open>
  The fee that the schedule charges is that of the active row with the latest start (the
  first such row of the table), and the venue's default when no row is active.
\<close>

theorem fee_bps_latest_active:
  "(\<exists>row. fee_winner venue ts (fs_rows s) row \<and> fee_bps s venue ts = fr_fee_bps row) \<or>
   (filter (fee_active venue ts) (fs_rows s) = [] \<and>
    fee_bps s venue ts = (if venue = Polymarket then fst (fs_defaults s) else snd (fs_defaults s)))"
  using fold_fee_scan[where venue = venue and ts = ts and rows = "fs_rows s"]
  by (cases "fold (fee_scan venue ts) (fs_rows s) None"; cases venue)
    (auto simp: fee_bps_def filter_empty_conv)

end
