(* ===== verification/Chain.thy ===== *)
theory Chain
  imports Models
begin

text \<open>
  The chain-cost history of \<open>src/chain.rs\<close>: two bounded histories (transaction cost with its time,
  base fee), the 90th percentile of the recent costs, the 95th percentile of the base fees, and
  one tick of the sampling task. The histories are sliding windows in the sense of the prelude.
\<close>

record ChainMetricsState =
  cm_tx_cost_values :: "(millis \<times> f64) list"
  cm_base_fee_values :: "f64 list"
  cm_max_len :: nat
  cm_last_congestion_flag :: int

definition chain_new :: "nat \<Rightarrow> ChainMetricsState" where
  "chain_new max_len = \<lparr>cm_tx_cost_values = [], cm_base_fee_values = [], cm_max_len = max_len,
     cm_last_congestion_flag = 0\<rparr>"

definition chain_record :: "ChainMetricsState \<Rightarrow> millis \<Rightarrow> f64 \<Rightarrow> f64 \<Rightarrow> int \<Rightarrow> ChainMetricsState" where
  "chain_record s ts_ms tx_cost base_fee congestion_flag =
    (let txs = (if length (cm_tx_cost_values s) \<ge> cm_max_len s then tl (cm_tx_cost_values s)
                else cm_tx_cost_values s);
         fees = (if length (cm_base_fee_values s) \<ge> cm_max_len s then tl (cm_base_fee_values s)
                 else cm_base_fee_values s)
     in s\<lparr>cm_tx_cost_values := txs @ [(ts_ms, tx_cost)],
          cm_base_fee_values := fees @ [base_fee],
          cm_last_congestion_flag := congestion_flag\<rparr>)"

definition p90_recent :: "ChainMetricsState \<Rightarrow> millis \<Rightarrow> f64 option" where
  "p90_recent s since_ms =
    (let data = map snd (filter (\<lambda>(ts, _). ts \<ge> since_ms) (cm_tx_cost_values s))
     in if data = [] then None
        else get (sort_f64 data) (rank_idx (length data) (lit (9/10))))"

definition p95_base_fee :: "ChainMetricsState \<Rightarrow> f64 option" where
  "p95_base_fee s =
    (let data = cm_base_fee_values s
     in if data = [] then None
        else get (sort_f64 data) (rank_idx (length data) (lit (95/100))))"

record ChainMetricsRow =
  cr_local_ts_ms :: millis
  cr_base_fee :: f64
  cr_priority_fee :: f64
  cr_gas_used_est :: f64
  cr_tx_cost_est :: f64
  cr_congestion_flag :: int

text \<open>One tick of \<open>run_chain_metrics\<close>: the new state and the row sent to the database queue.\<close>

definition chain_tick ::
  "ChainMetricsState \<Rightarrow> millis \<Rightarrow> f64 \<Rightarrow> f64 \<Rightarrow> f64 \<Rightarrow> ChainMetricsState \<times> ChainMetricsRow" where
  "chain_tick s now_ms base_fee priority_fee gas_used_est =
    (let tx_cost = (base_fee + priority_fee) * gas_used_est;
         p95 = (case p95_base_fee s of Some v \<Rightarrow> v | None \<Rightarrow> base_fee);
         congestion = (if p95 > 0 \<and> base_fee \<ge> p95 then 1 else 0)
     in (chain_record s now_ms tx_cost base_fee congestion,
         \<lparr>cr_local_ts_ms = now_ms, cr_base_fee = base_fee, cr_priority_fee = priority_fee,
          cr_gas_used_est = gas_used_est, cr_tx_cost_est = tx_cost, cr_congestion_flag = congestion\<rparr>))"

text \<open>The capacity that the code really keeps: a limit of 0 still keeps the last value.\<close>

definition chain_cap :: "nat \<Rightarrow> nat" where
  "chain_cap m = max 1 m"

definition chain_inv :: "nat \<Rightarrow> ChainMetricsState \<Rightarrow> bool" where
  "chain_inv m s \<longleftrightarrow> cm_max_len s = m \<and> length (cm_tx_cost_values s) = length (cm_base_fee_values s) \<and>
     length (cm_base_fee_values s) \<le> chain_cap m"

lemma tl_last_n: "xs \<noteq> [] \<Longrightarrow> tl xs = last_n (length xs - 1) xs"
  by (cases xs) (simp_all add: last_n_def)

lemma bounded_push:
  assumes "length xs \<le> chain_cap m"
  shows "(if length xs \<ge> m then tl xs else xs) @ [x] = last_n (chain_cap m) (xs @ [x])"
proof (cases "length xs = chain_cap m")
  case True
  then have "m \<le> length xs" by (simp add: chain_cap_def)
  then show ?thesis using last_n_snoc_full[OF True, of x] by (simp add: chain_cap_def)
next
  case False
  with assms have "xs = [] \<or> length xs < m" by (cases xs) (auto simp: chain_cap_def)
  with False assms show ?thesis by (auto simp: chain_cap_def last_n_def)
qed

lemma chain_record_windows:
  assumes "chain_inv m s"
  shows "cm_base_fee_values (chain_record s ts tx fee flag) = last_n (chain_cap m) (cm_base_fee_values s @ [fee])"
    and "cm_tx_cost_values (chain_record s ts tx fee flag)
      = last_n (chain_cap m) (cm_tx_cost_values s @ [(ts, tx)])"
    and "chain_inv m (chain_record s ts tx fee flag)"
proof -
  have l: "length (cm_base_fee_values s) \<le> chain_cap m" "length (cm_tx_cost_values s) \<le> chain_cap m"
    "cm_max_len s = m"
    using assms by (simp_all add: chain_inv_def)
  show b: "cm_base_fee_values (chain_record s ts tx fee flag)
      = last_n (chain_cap m) (cm_base_fee_values s @ [fee])"
    using bounded_push[OF l(1), of fee] by (simp add: chain_record_def Let_def l(3))
  show t: "cm_tx_cost_values (chain_record s ts tx fee flag)
      = last_n (chain_cap m) (cm_tx_cost_values s @ [(ts, tx)])"
    using bounded_push[OF l(2), of "(ts, tx)"] by (simp add: chain_record_def Let_def l(3))
  show "chain_inv m (chain_record s ts tx fee flag)"
    using assms b t by (simp add: chain_inv_def) (simp add: chain_record_def Let_def)
qed

interpretation fee_window: sliding_window cm_base_fee_values
  "\<lambda>v s. chain_record s ts tx v flag" "chain_cap m" "chain_inv m"
  for ts tx flag m
  by unfold_locales (auto intro: chain_record_windows)

interpretation cost_window: sliding_window cm_tx_cost_values
  "\<lambda>v s. chain_record s (fst v) (snd v) fee flag" "chain_cap m" "chain_inv m"
  for fee flag m
  by unfold_locales (auto simp: chain_record_windows)

lemma chain_inv_new: "chain_inv m (chain_new m)"
  by (simp add: chain_inv_def chain_new_def)

lemma quantile_levels:
  "0 \<le> lit (9/10)" "lit (9/10) \<le> 1" "0 \<le> lit (95/100)" "lit (95/100) \<le> 1"
  by (simp_all add: f64_eval)

lemma p95_in_window:
  assumes "cm_base_fee_values s \<noteq> []" "length (cm_base_fee_values s) \<le> 2 ^ 53"
  shows "\<exists>v\<in>set (cm_base_fee_values s). p95_base_fee s = Some v"
  using get_sort_rank[OF assms quantile_levels(3,4)] assms(1) by (simp add: p95_base_fee_def Let_def)

text \<open>
  The 90th percentile of the recent costs is defined exactly when some recorded cost is recent,
  and then it is one of the recent costs.
\<close>

theorem p90_recent_in_sample:
  assumes "length (cm_tx_cost_values s) \<le> 2 ^ 53"
  shows "(p90_recent s since = None) = (\<forall>(ts, v)\<in>set (cm_tx_cost_values s). ts < since) \<and>
    (\<forall>p. p90_recent s since = Some p \<longrightarrow> (\<exists>ts. since \<le> ts \<and> (ts, p) \<in> set (cm_tx_cost_values s)))"
proof -
  define data where "data = map snd (filter (\<lambda>(ts, _). ts \<ge> since) (cm_tx_cost_values s))"
  have l: "length data \<le> 2 ^ 53"
    unfolding data_def using assms length_filter_le order_trans by (metis length_map)
  have eq: "p90_recent s since
      = (if data = [] then None else get (sort_f64 data) (rank_idx (length data) (lit (9/10))))"
    by (simp add: p90_recent_def data_def)
  have el: "v \<in> set data \<longleftrightarrow> (\<exists>ts. since \<le> ts \<and> (ts, v) \<in> set (cm_tx_cost_values s))" for v
    unfolding data_def by force
  show ?thesis
  proof (cases "data = []")
    case True
    then have "\<forall>(ts, v)\<in>set (cm_tx_cost_values s). ts < since"
      unfolding data_def by (auto simp: filter_empty_conv)
    with True show ?thesis by (simp add: eq)
  next
    case False
    from get_sort_rank[OF False l quantile_levels(1,2)] obtain p where
      p: "p \<in> set data" "p90_recent s since = Some p" using False eq by auto
    then have "\<not> (\<forall>(ts, v)\<in>set (cm_tx_cost_values s). ts < since)" using el[of p] by force
    with p el show ?thesis by auto
  qed
qed

theorem p90_recent_in_sample_witness:
  "p90_recent (chain_record (chain_new 4) 10 (Fin 2) (Fin 1) 0) 11 = None"
  using p90_recent_in_sample[of "chain_record (chain_new 4) 10 (Fin 2) (Fin 1) 0" 11]
  by (simp add: chain_record_def chain_new_def)

text \<open>A run of the sampling task with the configured, constant fees.\<close>

fun chain_run :: "ChainMetricsState \<Rightarrow> millis list \<Rightarrow> f64 \<Rightarrow> f64 \<Rightarrow> f64 \<Rightarrow> ChainMetricsRow list" where
  "chain_run s [] base prio gas = []"
| "chain_run s (now # rest) base prio gas =
    (let (s', row) = chain_tick s now base prio gas in row # chain_run s' rest base prio gas)"

lemma chain_tick_constant:
  assumes inv: "chain_inv m s" and m: "chain_cap m \<le> 2 ^ 53"
    and const: "set (cm_base_fee_values s) \<subseteq> {base}" and pos: "0 < base"
  shows "cr_congestion_flag (snd (chain_tick s now base prio gas)) = 1 \<and>
    chain_inv m (fst (chain_tick s now base prio gas)) \<and>
    set (cm_base_fee_values (fst (chain_tick s now base prio gas))) \<subseteq> {base}"
proof -
  have "p95_base_fee s = None \<or> p95_base_fee s = Some base"
  proof (cases "cm_base_fee_values s = []")
    case True
    then show ?thesis by (simp add: p95_base_fee_def)
  next
    case False
    have "length (cm_base_fee_values s) \<le> 2 ^ 53" using inv m by (simp add: chain_inv_def)
    with False const p95_in_window[of s] show ?thesis by auto
  qed
  moreover have "base \<le> base" using pos by (cases "base = NaN") auto
  ultimately have flag: "cr_congestion_flag (snd (chain_tick s now base prio gas)) = 1"
    using pos by (auto simp: chain_tick_def Let_def)
  obtain tx fl where step: "fst (chain_tick s now base prio gas) = chain_record s now tx base fl"
    by (simp add: chain_tick_def Let_def)
  have "set (last_n (chain_cap m) (cm_base_fee_values s @ [base])) \<subseteq> {base}"
    using set_last_n[of "chain_cap m" "cm_base_fee_values s @ [base]"] const by auto
  then show ?thesis
    using flag fee_window.push_contents[OF inv] fee_window.push_inv[OF inv] by (simp add: step)
qed

text \<open>
  The congestion flag carries no information: the task samples its own configured base fee,
  so with a positive base fee every row it ever sends has the flag set.
\<close>

theorem congestion_flag_always_set:
  assumes "chain_cap m \<le> 2 ^ 53" "0 < base"
  shows "\<forall>row\<in>set (chain_run (chain_new m) nows base prio gas). cr_congestion_flag row = 1"
proof -
  have "\<forall>row\<in>set (chain_run s nows base prio gas). cr_congestion_flag row = 1"
    if "chain_inv m s" "set (cm_base_fee_values s) \<subseteq> {base}" for s
    using that
  proof (induction nows arbitrary: s)
    case Nil
    then show ?case by simp
  next
    case (Cons now rest)
    obtain s' row where t: "chain_tick s now base prio gas = (s', row)" by force
    from chain_tick_constant[OF Cons.prems(1) assms(1) Cons.prems(2) assms(2), of now prio gas]
    have "cr_congestion_flag row = 1" "chain_inv m s'" "set (cm_base_fee_values s') \<subseteq> {base}"
      by (simp_all add: t)
    with Cons.IH[of s'] show ?case by (simp add: t)
  qed
  then show ?thesis using chain_inv_new[of m] by (simp add: chain_new_def)
qed

theorem congestion_flag_always_set_witness:
  "map cr_congestion_flag (chain_run (chain_new 3) [1, 2] (Fin 5) (Fin 1) (Fin 2)) = [1, 1]"
proof -
  have "\<forall>row\<in>set (chain_run (chain_new 3) [1, 2] (Fin 5) (Fin 1) (Fin 2)). cr_congestion_flag row = 1"
    by (rule congestion_flag_always_set[of 3]) (simp_all add: chain_cap_def zero_key)
  then show ?thesis by (simp add: split_def Let_def)
qed

end
