(* ===== verification/Health.thy ===== *)
theory Health
  imports Models
begin

text \<open>
  The per-venue connection counters of \<open>src/health.rs\<close>. The clock read of \<open>record_message\<close> and
  \<open>snapshot\<close> is a parameter. Every operation touches the entry of its venue only, which the
  locale \<open>venue_cell\<close> states once for all of them.
\<close>

datatype WsState = Down | Up | Reconnecting

fun ws_code :: "WsState \<Rightarrow> int" where
  "ws_code Down = 0"
| "ws_code Up = 1"
| "ws_code Reconnecting = 2"

record VenueHealth =
  vh_ws_state :: WsState
  vh_reconnect_count :: int
  vh_last_msg_local_ts :: "millis option"
  vh_heartbeat_sent :: int
  vh_heartbeat_fail :: int
  vh_dropped_events :: int

record HealthState =
  hs_polymarket :: VenueHealth
  hs_opinion :: VenueHealth

definition venue_health_default :: VenueHealth where
  "venue_health_default = \<lparr>vh_ws_state = Down, vh_reconnect_count = 0, vh_last_msg_local_ts = None,
     vh_heartbeat_sent = 0, vh_heartbeat_fail = 0, vh_dropped_events = 0\<rparr>"

definition health_new :: HealthState where
  "health_new = \<lparr>hs_polymarket = venue_health_default, hs_opinion = venue_health_default\<rparr>"

fun select_mut :: "Venue \<Rightarrow> (VenueHealth \<Rightarrow> VenueHealth) \<Rightarrow> HealthState \<Rightarrow> HealthState" where
  "select_mut Polymarket f s = s\<lparr>hs_polymarket := f (hs_polymarket s)\<rparr>"
| "select_mut Opinion f s = s\<lparr>hs_opinion := f (hs_opinion s)\<rparr>"

fun select :: "HealthState \<Rightarrow> Venue \<Rightarrow> VenueHealth" where
  "select s Polymarket = hs_polymarket s"
| "select s Opinion = hs_opinion s"

definition set_state :: "Venue \<Rightarrow> WsState \<Rightarrow> HealthState \<Rightarrow> HealthState" where
  "set_state venue state = select_mut venue (\<lambda>e. e\<lparr>vh_ws_state := state\<rparr>)"

definition record_reconnect :: "Venue \<Rightarrow> HealthState \<Rightarrow> HealthState" where
  "record_reconnect venue = select_mut venue
     (\<lambda>e. e\<lparr>vh_reconnect_count := vh_reconnect_count e + 1, vh_ws_state := Reconnecting\<rparr>)"

definition record_message :: "millis \<Rightarrow> Venue \<Rightarrow> HealthState \<Rightarrow> HealthState" where
  "record_message now venue = select_mut venue (\<lambda>e. e\<lparr>vh_last_msg_local_ts := Some now\<rparr>)"

definition record_heartbeat_sent :: "Venue \<Rightarrow> HealthState \<Rightarrow> HealthState" where
  "record_heartbeat_sent venue = select_mut venue (\<lambda>e. e\<lparr>vh_heartbeat_sent := vh_heartbeat_sent e + 1\<rparr>)"

definition record_heartbeat_fail :: "Venue \<Rightarrow> HealthState \<Rightarrow> HealthState" where
  "record_heartbeat_fail venue = select_mut venue (\<lambda>e. e\<lparr>vh_heartbeat_fail := vh_heartbeat_fail e + 1\<rparr>)"

definition record_drop :: "Venue \<Rightarrow> HealthState \<Rightarrow> HealthState" where
  "record_drop venue = select_mut venue (\<lambda>e. e\<lparr>vh_dropped_events := vh_dropped_events e + 1\<rparr>)"

record ConnectionHealthRow =
  ch_venue :: Venue
  ch_bar_second :: int
  ch_ws_state :: int
  ch_reconnect_count :: int
  ch_last_msg_age_ms :: "int option"
  ch_heartbeat_sent :: "int option"
  ch_heartbeat_fail :: "int option"
  ch_dropped_events :: int
  ch_notes :: "string option"

definition health_snapshot :: "HealthState \<Rightarrow> millis \<Rightarrow> Venue \<Rightarrow> int \<Rightarrow> ConnectionHealthRow" where
  "health_snapshot s now venue bar_second =
    (let entry = select s venue;
         last_age = map_option (\<lambda>ts. max (now - ts) 0) (vh_last_msg_local_ts entry)
     in \<lparr>ch_venue = venue, ch_bar_second = bar_second, ch_ws_state = ws_code (vh_ws_state entry),
         ch_reconnect_count = vh_reconnect_count entry, ch_last_msg_age_ms = last_age,
         ch_heartbeat_sent = Some (vh_heartbeat_sent entry),
         ch_heartbeat_fail = Some (vh_heartbeat_fail entry),
         ch_dropped_events = vh_dropped_events entry, ch_notes = None\<rparr>)"

text \<open>A store with one cell per venue: an update is seen at its own venue and nowhere else.\<close>

locale venue_cell =
  fixes get_cell :: "'s \<Rightarrow> Venue \<Rightarrow> 'e"
    and upd :: "Venue \<Rightarrow> ('e \<Rightarrow> 'e) \<Rightarrow> 's \<Rightarrow> 's"
  assumes get_upd: "get_cell (upd v f s) w = (if w = v then f (get_cell s w) else get_cell s w)"
begin

lemma get_upds:
  "get_cell (fold (\<lambda>(v, f). upd v f) ops s) w
    = fold (\<lambda>(v, f) e. if v = w then f e else e) ops (get_cell s w)"
  by (induction ops arbitrary: s) (auto simp: get_upd)

end

interpretation health: venue_cell select select_mut
proof
  fix v f s w
  show "select (select_mut v f s) w = (if w = v then f (select s w) else select s w)"
    by (cases v; cases w) auto
qed

datatype HealthOp = SetState WsState | Reconnect | Message millis | HeartbeatSent | HeartbeatFail | Drop

fun op_fun :: "HealthOp \<Rightarrow> VenueHealth \<Rightarrow> VenueHealth" where
  "op_fun (SetState st) = (\<lambda>e. e\<lparr>vh_ws_state := st\<rparr>)"
| "op_fun Reconnect = (\<lambda>e. e\<lparr>vh_reconnect_count := vh_reconnect_count e + 1, vh_ws_state := Reconnecting\<rparr>)"
| "op_fun (Message now) = (\<lambda>e. e\<lparr>vh_last_msg_local_ts := Some now\<rparr>)"
| "op_fun HeartbeatSent = (\<lambda>e. e\<lparr>vh_heartbeat_sent := vh_heartbeat_sent e + 1\<rparr>)"
| "op_fun HeartbeatFail = (\<lambda>e. e\<lparr>vh_heartbeat_fail := vh_heartbeat_fail e + 1\<rparr>)"
| "op_fun Drop = (\<lambda>e. e\<lparr>vh_dropped_events := vh_dropped_events e + 1\<rparr>)"

fun apply_health_op :: "Venue \<times> HealthOp \<Rightarrow> HealthState \<Rightarrow> HealthState" where
  "apply_health_op (v, SetState st) s = set_state v st s"
| "apply_health_op (v, Reconnect) s = record_reconnect v s"
| "apply_health_op (v, Message now) s = record_message now v s"
| "apply_health_op (v, HeartbeatSent) s = record_heartbeat_sent v s"
| "apply_health_op (v, HeartbeatFail) s = record_heartbeat_fail v s"
| "apply_health_op (v, Drop) s = record_drop v s"

lemma apply_health_op_eq: "apply_health_op (v, opn) s = select_mut v (op_fun opn) s"
  by (cases opn) (simp_all add: set_state_def record_reconnect_def record_message_def
      record_heartbeat_sent_def record_heartbeat_fail_def record_drop_def)

lemma fold_health_ops:
  "fold apply_health_op ops s = fold (\<lambda>(v, f). select_mut v f) (map (\<lambda>(v, q). (v, op_fun q)) ops) s"
  by (induction ops arbitrary: s) (auto simp: apply_health_op_eq)

lemma select_run:
  "select (fold apply_health_op ops s) w
    = fold (\<lambda>(v, q) e. if v = w then op_fun q e else e) ops (select s w)"
proof -
  have "fold (\<lambda>(v, f) e. if v = w then f e else e) (map (\<lambda>(v, q). (v, op_fun q)) ops) e
      = fold (\<lambda>(v, q) e. if v = w then op_fun q e else e) ops e" for e
    by (induction ops arbitrary: e) auto
  then show ?thesis by (simp add: fold_health_ops health.get_upds)
qed

definition op_count :: "Venue \<Rightarrow> HealthOp \<Rightarrow> (Venue \<times> HealthOp) list \<Rightarrow> int" where
  "op_count w q ops = int (length (filter (\<lambda>x. x = (w, q)) ops))"

lemma counters_run:
  fixes e :: VenueHealth and w :: Venue
  defines "r ops \<equiv> fold (\<lambda>(v, q) e. if v = w then op_fun q e else e) ops e"
  shows "vh_reconnect_count (r ops) = vh_reconnect_count e + op_count w Reconnect ops \<and>
    vh_dropped_events (r ops) = vh_dropped_events e + op_count w Drop ops \<and>
    vh_heartbeat_sent (r ops) = vh_heartbeat_sent e + op_count w HeartbeatSent ops \<and>
    vh_heartbeat_fail (r ops) = vh_heartbeat_fail e + op_count w HeartbeatFail ops"
proof (induction ops rule: rev_induct)
  case Nil
  then show ?case by (simp add: r_def op_count_def)
next
  case (snoc x ops)
  obtain v q where x: "x = (v, q)" by force
  show ?case
    using snoc by (cases q) (auto simp: r_def op_count_def x)
qed

text \<open>
  A health report counts what happened at its own venue: after any interleaving of operations
  on both venues, the reconnects, drops and heartbeats reported for a venue are the numbers of
  those operations at that venue.
\<close>

theorem health_snapshot_counts:
  "let row = health_snapshot (fold apply_health_op ops health_new) now w bar in
     ch_reconnect_count row = op_count w Reconnect ops \<and>
     ch_dropped_events row = op_count w Drop ops \<and>
     ch_heartbeat_sent row = Some (op_count w HeartbeatSent ops) \<and>
     ch_heartbeat_fail row = Some (op_count w HeartbeatFail ops)"
proof -
  have "select health_new w = venue_health_default" by (cases w) (simp_all add: health_new_def)
  then show ?thesis
    using counters_run[where e = venue_health_default and w = w and ops = ops]
    by (simp add: health_snapshot_def select_run venue_health_default_def Let_def)
qed

end
