(* ===== verification/Sharding.thy ===== *)
theory Sharding
  imports Models "HOL-Library.Word" "HOL-Library.Char_ord"
begin

unbundle bit_operations_syntax

text \<open>
  The hashes that route work: FNV-1a over the bytes of a token key (\<open>src/dispatcher.rs\<close>,
  \<open>pick_shard\<close>) and of a market pair (\<open>src/discovery.rs\<close>, \<open>compute_pair_id\<close>), and the 64-bit
  mixer of \<open>src/pair_aggregator.rs\<close> (\<open>pick_pair_shard\<close>). Hashes are 64-bit words with wrapping
  multiplication. Strings are byte lists, so a character stands for one UTF-8 byte.
\<close>

type_synonym u64 = "64 word"

definition byte_of :: "char \<Rightarrow> u64" where
  "byte_of c = of_nat (of_char c)"

definition fnv_step :: "char \<Rightarrow> u64 \<Rightarrow> u64" where
  "fnv_step c hash = (hash XOR byte_of c) * 0x100000001b3"

definition fnv1a_64 :: "string \<Rightarrow> u64" where
  "fnv1a_64 data = fold fnv_step data 0xcbf29ce484222325"

definition pick_shard :: "string \<Rightarrow> nat \<Rightarrow> nat" where
  "pick_shard token_key shard_count = unat (fnv1a_64 token_key) mod max shard_count 1"

definition compute_pair_id :: "string option \<Rightarrow> string option \<Rightarrow> string option \<Rightarrow> int" where
  "compute_pair_id opinion_market_id polymarket_market_id pair_id_raw =
    (let base = (case (opinion_market_id, polymarket_market_id) of
                   (Some op, Some pm) \<Rightarrow> op @ '':'' @ pm
                 | _ \<Rightarrow> (case pair_id_raw of Some raw \<Rightarrow> raw | None \<Rightarrow> ''unknown''))
     in sint (fnv1a_64 base))"

definition mix64 :: "u64 \<Rightarrow> u64" where
  "mix64 x0 =
    (let x = x0 XOR drop_bit 33 x0;
         x = x * 0xff51afd7ed558ccd;
         x = x XOR drop_bit 33 x;
         x = x * 0xc4ceb9fe1a85ec53
     in x XOR drop_bit 33 x)"

definition pick_pair_shard :: "int \<Rightarrow> nat \<Rightarrow> nat" where
  "pick_pair_shard pair_id shard_count =
    (if shard_count = 0 then 0 else unat (mix64 (word_of_int pair_id)) mod shard_count)"

subsection \<open>Invertible steps\<close>

text \<open>Multiplication by an odd constant is undone by multiplying with its inverse modulo
  \<open>2^64\<close>; a right shift by 33 and xor undoes itself, since 66 exceeds the width.\<close>

lemma mult_inverse_inj:
  fixes x y c d :: u64
  assumes "c * d = 1" "x * c = y * c"
  shows "x = y"
proof -
  have "x = x * (c * d)" by (simp only: assms(1) mult_1_right)
  also have "\<dots> = y * (c * d)" using assms(2) by (simp only: mult.assoc[symmetric])
  also have "\<dots> = y" by (simp only: assms(1) mult_1_right)
  finally show ?thesis .
qed

lemma fnv_prime_inverse: "(0x100000001b3::u64) * 0xce965057aff6957b = 1"
  by simp

lemma mix_inverses:
  "(0xff51afd7ed558ccd::u64) * 0x4f74430c22a54005 = 1"
  "(0xc4ceb9fe1a85ec53::u64) * 0x9cb4b2f8129337db = 1"
  by simp_all

lemma xorshift33_involutive: "(x XOR drop_bit 33 x) XOR drop_bit 33 (x XOR drop_bit 33 x) = (x::u64)"
proof -
  have "drop_bit 66 x = (0::u64)"
    by (rule bit_word_eqI) (simp add: bit_drop_bit_eq bit_imp_le_length not_le)
  then have "(x XOR drop_bit 33 x) XOR drop_bit 33 (x XOR drop_bit 33 x)
      = (x XOR drop_bit 33 x) XOR drop_bit 33 x"
    by (simp add: drop_bit_xor drop_bit_drop_bit)
  also have "\<dots> = x" by (simp only: xor.assoc xor_self_eq xor.right_neutral)
  finally show ?thesis .
qed

lemma xorshift33_inj: "x XOR drop_bit 33 x = y XOR drop_bit 33 (y::u64) \<Longrightarrow> x = y"
  by (metis xorshift33_involutive)

lemma xor_cancel: "a XOR b = a' XOR b \<Longrightarrow> a = (a'::u64)"
proof -
  assume eq: "a XOR b = a' XOR b"
  have "a = (a XOR b) XOR b" by (simp only: xor.assoc xor_self_eq xor.right_neutral)
  also have "\<dots> = a'" by (simp only: eq xor.assoc xor_self_eq xor.right_neutral)
  finally show "a = a'" .
qed

lemma unat_small: "n < 256 \<Longrightarrow> unat (of_nat n :: u64) = n"
  by (simp add: unat_of_nat)

lemma byte_of_inj: "byte_of c = byte_of d \<Longrightarrow> c = d"
proof -
  assume eq: "byte_of c = byte_of d"
  have b: "of_char x < (256::nat)" for x by simp
  have "unat (byte_of c) = unat (byte_of d)" using eq by simp
  then have "(of_char c :: nat) = of_char d"
    unfolding byte_of_def unat_small[OF b[of c]] unat_small[OF b[of d]] .
  then show "c = d" by (simp only: of_char_eq_iff)
qed

lemma fnv_step_inj: "fnv_step c h = fnv_step c h' \<Longrightarrow> h = h'"
  unfolding fnv_step_def by (blast dest: mult_inverse_inj[OF fnv_prime_inverse] intro: xor_cancel)

lemma fnv_step_inj_char: "fnv_step c h = fnv_step d h \<Longrightarrow> c = d"
  unfolding fnv_step_def
  by (metis byte_of_inj mult_inverse_inj[OF fnv_prime_inverse] xor.commute xor_cancel)

lemma fold_fnv_inj: "fold fnv_step s h = fold fnv_step s h' \<Longrightarrow> h = h'"
  by (induction s arbitrary: h h') (auto dest: fnv_step_inj)

subsection \<open>Properties\<close>

text \<open>
  The shard selector of the pair aggregator loses nothing before the final modulus: the mixer
  is injective on 64-bit words, so distinct pair ids get distinct mixed values, and the shard is
  always one of the existing shards.
\<close>

theorem pick_pair_shard_mixes:
  "inj mix64 \<and> (0 < n \<longrightarrow> pick_pair_shard pair_id n < n) \<and> pick_pair_shard pair_id 0 = 0"
proof (intro conjI injI impI)
  fix x y :: u64
  assume "mix64 x = mix64 y"
  then show "x = y"
    unfolding mix64_def Let_def
    by (blast dest: xorshift33_inj mult_inverse_inj[OF mix_inverses(1)] mult_inverse_inj[OF mix_inverses(2)])
qed (simp_all add: pick_pair_shard_def)

theorem pick_pair_shard_mixes_witness:
  "inj mix64 \<and> pick_pair_shard 5 4 < 4"
  using pick_pair_shard_mixes[of 4 5] by simp

text \<open>
  Market pairs whose identifiers differ in a single character never share a pair id: the
  64-bit FNV hash separates keys that differ in exactly one byte.
\<close>

theorem compute_pair_id_one_byte:
  assumes "op1 @ '':'' @ pm1 = pre @ c # post" "op2 @ '':'' @ pm2 = pre @ d # post" "c \<noteq> d"
  shows "compute_pair_id (Some op1) (Some pm1) raw1 \<noteq> compute_pair_id (Some op2) (Some pm2) raw2"
proof
  assume "compute_pair_id (Some op1) (Some pm1) raw1 = compute_pair_id (Some op2) (Some pm2) raw2"
  then have "fnv1a_64 (pre @ c # post) = fnv1a_64 (pre @ d # post)"
    by (simp add: compute_pair_id_def signed_word_eqI flip: assms(1,2))
  then have "fnv_step c (fold fnv_step pre 0xcbf29ce484222325)
      = fnv_step d (fold fnv_step pre 0xcbf29ce484222325)"
    unfolding fnv1a_64_def by (auto dest: fold_fnv_inj)
  then show False using assms(3) by (blast dest: fnv_step_inj_char)
qed

theorem compute_pair_id_one_byte_witness:
  "compute_pair_id (Some ''12'') (Some ''7'') None \<noteq> compute_pair_id (Some ''13'') (Some ''7'') None"
  by (rule compute_pair_id_one_byte[of _ _ "''1''" "CHR ''2''" "'':7''" _ _ "CHR ''3''"]) simp_all

lemma pick_shard_range: "0 < n \<Longrightarrow> pick_shard key n < n"
  by (simp add: pick_shard_def max_def)

end
