(* ===== verification/Registry.thy ===== *)
theory Registry
  imports Models "HOL-Library.Char_ord"
begin

text \<open>
  The token registry of \<open>src/token_registry.rs\<close>: which pairs a token or a market belongs to, under
  which key a market side is known, and the registration of tokens that the Opinion feed announces
  at run time. Hash maps are partial functions, the small vectors of pair ids are lists. Strings
  are byte lists; the blank test \<open>trim().is_empty()\<close> covers the ASCII white space.
\<close>

record RegistryState =
  rs_token_pairs :: "string \<rightharpoonup> int list"
  rs_token_sides :: "string \<rightharpoonup> TokenSide"
  rs_opi_market_pairs :: "string \<rightharpoonup> int list"
  rs_pm_market_pairs :: "string \<rightharpoonup> int list"
  rs_opi_market_side_key :: "string \<times> int \<rightharpoonup> string"
  rs_opi_expected_token_id :: "string \<times> int \<rightharpoonup> string"
  rs_pm_asset_key :: "string \<rightharpoonup> string"
  rs_opi_market_ids :: "string set"
  rs_pm_asset_ids :: "string set"

record TokenRegistry =
  rg_tokens :: "TokenRegistration list"
  rg_state :: RegistryState

definition registry_default :: TokenRegistry where
  "registry_default = \<lparr>rg_tokens = [], rg_state = \<lparr>rs_token_pairs = Map.empty,
     rs_token_sides = Map.empty, rs_opi_market_pairs = Map.empty, rs_pm_market_pairs = Map.empty,
     rs_opi_market_side_key = Map.empty, rs_opi_expected_token_id = Map.empty,
     rs_pm_asset_key = Map.empty, rs_opi_market_ids = {}, rs_pm_asset_ids = {}\<rparr>\<rparr>"

subsection \<open>Keys\<close>

definition is_ws :: "char \<Rightarrow> bool" where
  "is_ws c \<longleftrightarrow> (let n = (of_char c :: nat) in 9 \<le> n \<and> n \<le> 13 \<or> n = 32)"

definition blank :: "string \<Rightarrow> bool" where
  "blank s \<longleftrightarrow> list_all is_ws s"

fun show_nat :: "nat \<Rightarrow> string" where
  "show_nat n = (if n < 10 then [char_of (48 + n)] else show_nat (n div 10) @ [char_of (48 + n mod 10)])"

declare show_nat.simps [simp del]

definition show_int :: "int \<Rightarrow> string" where
  "show_int n = (if n < 0 then ''-'' @ show_nat (nat (- n)) else show_nat (nat n))"

text \<open>The format \<open>opi:token:{token_id}\<close>, which two functions use.\<close>

definition opi_token_key :: "string \<Rightarrow> string" where
  "opi_token_key token_id = ''opi:token:'' @ token_id"

definition token_key_opinion :: "string option \<Rightarrow> string option \<Rightarrow> int \<Rightarrow> string" where
  "token_key_opinion token_id market_id outcome_side =
    (case token_id of
       Some t \<Rightarrow> if \<not> blank t then opi_token_key t
                 else ''opi:market:'' @ unwrap_or market_id ''unknown'' @ '':'' @ show_int outcome_side
     | None \<Rightarrow> ''opi:market:'' @ unwrap_or market_id ''unknown'' @ '':'' @ show_int outcome_side)"

definition token_key_polymarket :: "string option \<Rightarrow> string option \<Rightarrow> TokenSide \<Rightarrow> string" where
  "token_key_polymarket token_id market_id side =
    (case token_id of
       Some t \<Rightarrow> if \<not> blank t then ''pm:asset:'' @ t
                 else ''pm:market:'' @ unwrap_or market_id ''unknown'' @ '':'' @ side_str side
     | None \<Rightarrow> ''pm:market:'' @ unwrap_or market_id ''unknown'' @ '':'' @ side_str side)"

definition opinion_token_keys :: "PairRecord \<Rightarrow> string \<times> string" where
  "opinion_token_keys pair =
    (token_key_opinion (pr_opinion_yes_token_id pair) (pr_opinion_market_id pair) 1,
     token_key_opinion (pr_opinion_no_token_id pair) (pr_opinion_market_id pair) 2)"

definition polymarket_token_keys :: "PairRecord \<Rightarrow> string \<times> string" where
  "polymarket_token_keys pair =
    (token_key_polymarket (pr_polymarket_yes_token_id pair) (pr_polymarket_market_id pair) Yes,
     token_key_polymarket (pr_polymarket_no_token_id pair) (pr_polymarket_market_id pair) No)"

subsection \<open>Building the registry\<close>

text \<open>\<open>entry(k).or_insert_with(new)\<close>, then a push unless the id is already there.\<close>

definition push_unique :: "'k \<Rightarrow> 'v \<Rightarrow> ('k \<rightharpoonup> 'v list) \<Rightarrow> ('k \<rightharpoonup> 'v list)" where
  "push_unique k v m =
    (let entry = unwrap_or (m k) []
     in m(k \<mapsto> if v \<in> set entry then entry else entry @ [v]))"

definition register_token ::
  "string \<Rightarrow> Venue \<Rightarrow> string option \<Rightarrow> string option \<Rightarrow> int option \<Rightarrow> TokenSide \<Rightarrow> int
   \<Rightarrow> TokenRegistry \<Rightarrow> TokenRegistry" where
  "register_token token_key venue external_token_id market_id outcome_side token_side pair_id reg =
    \<lparr>rg_tokens = rg_tokens reg @ [\<lparr>tr_token_key = token_key, tr_venue = venue,
       tr_external_token_id = external_token_id, tr_market_id = market_id,
       tr_outcome_side = outcome_side, tr_token_side = token_side, tr_pair_ids = []\<rparr>],
     rg_state = (rg_state reg)\<lparr>
       rs_token_pairs := push_unique token_key pair_id (rs_token_pairs (rg_state reg)),
       rs_token_sides := (rs_token_sides (rg_state reg))(token_key \<mapsto> token_side)\<rparr>\<rparr>"

definition on_state :: "(RegistryState \<Rightarrow> RegistryState) \<Rightarrow> TokenRegistry \<Rightarrow> TokenRegistry" where
  "on_state f reg = reg\<lparr>rg_state := f (rg_state reg)\<rparr>"

definition add_markets :: "PairRecord \<Rightarrow> TokenRegistry \<Rightarrow> TokenRegistry" where
  "add_markets pair reg =
    (let reg = (case pr_opinion_market_id pair of
           Some m \<Rightarrow> on_state (\<lambda>s. s\<lparr>rs_opi_market_ids := insert m (rs_opi_market_ids s),
             rs_opi_market_pairs := push_unique m (pr_pair_id pair) (rs_opi_market_pairs s)\<rparr>) reg
         | None \<Rightarrow> reg)
     in (case pr_polymarket_market_id pair of
           Some m \<Rightarrow> on_state (\<lambda>s. s\<lparr>rs_pm_market_pairs :=
             push_unique m (pr_pair_id pair) (rs_pm_market_pairs s)\<rparr>) reg
         | None \<Rightarrow> reg))"

definition add_opinion_side ::
  "string \<Rightarrow> string option \<Rightarrow> int \<Rightarrow> TokenSide \<Rightarrow> PairRecord \<Rightarrow> TokenRegistry \<Rightarrow> TokenRegistry" where
  "add_opinion_side key token_id outcome side pair reg =
    (let market = unwrap_or (pr_opinion_market_id pair) '''';
         reg = register_token key Opinion token_id (pr_opinion_market_id pair) (Some outcome) side
           (pr_pair_id pair) reg;
         reg = on_state (\<lambda>s. s\<lparr>rs_opi_market_side_key :=
           (rs_opi_market_side_key s)((market, outcome) \<mapsto> key)\<rparr>) reg
     in (case token_id of
           Some t \<Rightarrow> on_state (\<lambda>s. s\<lparr>rs_opi_expected_token_id :=
             (rs_opi_expected_token_id s)((market, outcome) \<mapsto> t)\<rparr>) reg
         | None \<Rightarrow> reg))"

definition add_pm_asset :: "string \<Rightarrow> string option \<Rightarrow> TokenRegistry \<Rightarrow> TokenRegistry" where
  "add_pm_asset key asset reg =
    (case asset of
       Some a \<Rightarrow> on_state (\<lambda>s. s\<lparr>rs_pm_asset_ids := insert a (rs_pm_asset_ids s),
         rs_pm_asset_key := (rs_pm_asset_key s)(a \<mapsto> key)\<rparr>) reg
     | None \<Rightarrow> reg)"

text \<open>The body of the loop of \<open>build\<close>.\<close>

definition add_pair :: "PairRecord \<Rightarrow> TokenRegistry \<Rightarrow> TokenRegistry" where
  "add_pair pair reg =
    (let reg = add_markets pair reg;
         (op_yes_key, op_no_key) = opinion_token_keys pair;
         (pm_yes_key, pm_no_key) = polymarket_token_keys pair;
         reg = add_opinion_side op_yes_key (pr_opinion_yes_token_id pair) 1 Yes pair reg;
         reg = add_opinion_side op_no_key (pr_opinion_no_token_id pair) 2 No pair reg;
         reg = register_token pm_yes_key Polymarket (pr_polymarket_yes_token_id pair)
           (pr_polymarket_market_id pair) None Yes (pr_pair_id pair) reg;
         reg = register_token pm_no_key Polymarket (pr_polymarket_no_token_id pair)
           (pr_polymarket_market_id pair) None No (pr_pair_id pair) reg;
         reg = add_pm_asset pm_yes_key (pr_polymarket_yes_token_id pair) reg
     in add_pm_asset pm_no_key (pr_polymarket_no_token_id pair) reg)"

definition build :: "PairRecord list \<Rightarrow> TokenRegistry" where
  "build pairs = fold add_pair pairs registry_default"

subsection \<open>Tokens announced at run time\<close>

definition token_side_for_opi :: "int \<Rightarrow> TokenSide" where
  "token_side_for_opi outcome_side =
    (if outcome_side = 1 then Yes else if outcome_side = 2 then No else UnknownSide)"

definition ensure_opi_token ::
  "string \<Rightarrow> int \<Rightarrow> string \<Rightarrow> RegistryState \<Rightarrow> (string \<times> bool \<times> bool \<times> int list) \<times> RegistryState" where
  "ensure_opi_token market_id outcome_side token_id s =
    (let token_key = opi_token_key token_id;
         key = (market_id, outcome_side);
         prev = rs_opi_expected_token_id s key;
         is_new = (prev = None);
         mismatch = (case prev of Some v \<Rightarrow> v \<noteq> token_id | None \<Rightarrow> False);
         s = s\<lparr>rs_opi_expected_token_id := (rs_opi_expected_token_id s)(key \<mapsto> token_id)\<rparr>;
         s = s\<lparr>rs_opi_market_side_key := (rs_opi_market_side_key s)(key \<mapsto> token_key)\<rparr>;
         s = s\<lparr>rs_token_sides := (rs_token_sides s)(token_key \<mapsto> token_side_for_opi outcome_side)\<rparr>;
         pairs = unwrap_or (rs_opi_market_pairs s market_id) [];
         s = (if pairs \<noteq> [] then
                s\<lparr>rs_token_pairs := fold (push_unique token_key) pairs (rs_token_pairs s)\<rparr>
              else s)
     in ((token_key, mismatch, is_new, pairs), s))"

definition token_key_for_opi_market :: "RegistryState \<Rightarrow> string \<Rightarrow> int \<Rightarrow> string option" where
  "token_key_for_opi_market s market_id outcome_side = rs_opi_market_side_key s (market_id, outcome_side)"

subsection \<open>An index of unique values\<close>

text \<open>
  What the three pair maps promise: an insertion adds the value to its key once, keeps the other
  keys, and never duplicates. A run of insertions then holds exactly the inserted values.
\<close>

locale unique_index =
  fixes look :: "'s \<Rightarrow> 'k \<Rightarrow> 'v list option"
    and add :: "'k \<Rightarrow> 'v \<Rightarrow> 's \<Rightarrow> 's"
  assumes look_other: "k' \<noteq> k \<Longrightarrow> look (add k v s) k' = look s k'"
    and look_same: "\<exists>vs. look (add k v s) k = Some vs \<and>
      set vs = insert v (set (unwrap_or (look s k) [])) \<and>
      (distinct (unwrap_or (look s k) []) \<longrightarrow> distinct vs)"
begin

lemma values_add:
  "set (unwrap_or (look (add k v s) k') [])
    = (if k' = k then insert v (set (unwrap_or (look s k') [])) else set (unwrap_or (look s k') []))"
  using look_same[of k v s] look_other[of k' k v s] by (auto simp: unwrap_or_def)

lemma fold_values:
  "set (unwrap_or (look (fold (\<lambda>(k, v). add k v) kvs s) k) [])
    = set (unwrap_or (look s k) []) \<union> {v. (k, v) \<in> set kvs}"
proof (induction kvs arbitrary: s)
  case Nil
  then show ?case by simp
next
  case (Cons kv kvs)
  obtain k0 v0 where kv: "kv = (k0, v0)" by force
  show ?case using Cons.IH[of "add k0 v0 s"] by (auto simp: kv values_add split: if_splits)
qed

lemma fold_present:
  "look (fold (\<lambda>(k, v). add k v) kvs s) k = None \<longleftrightarrow> look s k = None \<and> k \<notin> fst ` set kvs"
proof (induction kvs arbitrary: s)
  case Nil
  then show ?case by simp
next
  case (Cons kv kvs)
  obtain k0 v0 where kv: "kv = (k0, v0)" by force
  have "look (add k0 v0 s) k = None \<longleftrightarrow> look s k = None \<and> k \<noteq> k0"
    using look_same[of k0 v0 s] look_other[of k k0 v0 s] by (cases "k = k0") auto
  then show ?case by (auto simp: kv Cons.IH)
qed

lemma fold_distinct:
  "(\<And>k. distinct (unwrap_or (look s k) [])) \<Longrightarrow>
    distinct (unwrap_or (look (fold (\<lambda>(k, v). add k v) kvs s) k) [])"
proof (induction kvs arbitrary: s)
  case Nil
  then show ?case by simp
next
  case (Cons kv kvs)
  obtain k0 v0 where kv: "kv = (k0, v0)" by force
  have "distinct (unwrap_or (look (add k0 v0 s) k') [])" for k'
    using look_same[of k0 v0 s] look_other[of k' k0 v0 s] Cons.prems[of k'] Cons.prems[of k0]
    by (cases "k' = k0") (auto simp: unwrap_or_def)
  then show ?case by (simp add: kv Cons.IH)
qed

end

interpretation pair_index: unique_index "\<lambda>m. m" push_unique
  by unfold_locales (auto simp: push_unique_def Let_def unwrap_or_def)


subsection \<open>What the built registry holds\<close>

text \<open>The four token keys of a pair, and the insertions that a pair makes into each map.\<close>

definition pair_keys :: "PairRecord \<Rightarrow> string list" where
  "pair_keys p = [fst (opinion_token_keys p), snd (opinion_token_keys p),
                  fst (polymarket_token_keys p), snd (polymarket_token_keys p)]"

definition token_inserts :: "PairRecord \<Rightarrow> (string \<times> int) list" where
  "token_inserts p = map (\<lambda>k. (k, pr_pair_id p)) (pair_keys p)"

definition market_inserts :: "string option \<Rightarrow> PairRecord \<Rightarrow> (string \<times> int) list" where
  "market_inserts m p = (case m of Some x \<Rightarrow> [(x, pr_pair_id p)] | None \<Rightarrow> [])"

lemma register_token_state [simp]:
  "rs_token_pairs (rg_state (register_token k v x m os sd pid reg))
    = push_unique k pid (rs_token_pairs (rg_state reg))"
  "rs_token_sides (rg_state (register_token k v x m os sd pid reg))
    = (rs_token_sides (rg_state reg))(k \<mapsto> sd)"
  "rs_opi_market_pairs (rg_state (register_token k v x m os sd pid reg)) = rs_opi_market_pairs (rg_state reg)"
  "rs_pm_market_pairs (rg_state (register_token k v x m os sd pid reg)) = rs_pm_market_pairs (rg_state reg)"
  "map tr_token_key (rg_tokens (register_token k v x m os sd pid reg)) = map tr_token_key (rg_tokens reg) @ [k]"
  by (simp_all add: register_token_def)

lemma add_markets_state [simp]:
  "rs_token_pairs (rg_state (add_markets p reg)) = rs_token_pairs (rg_state reg)"
  "rs_token_sides (rg_state (add_markets p reg)) = rs_token_sides (rg_state reg)"
  "rs_opi_market_pairs (rg_state (add_markets p reg))
    = fold (\<lambda>(k, v). push_unique k v) (market_inserts (pr_opinion_market_id p) p)
        (rs_opi_market_pairs (rg_state reg))"
  "rs_pm_market_pairs (rg_state (add_markets p reg))
    = fold (\<lambda>(k, v). push_unique k v) (market_inserts (pr_polymarket_market_id p) p)
        (rs_pm_market_pairs (rg_state reg))"
  "rg_tokens (add_markets p reg) = rg_tokens reg"
  by (simp_all add: add_markets_def on_state_def market_inserts_def Let_def split: option.splits)

lemma add_opinion_side_state [simp]:
  "rs_token_pairs (rg_state (add_opinion_side k t os sd p reg))
    = push_unique k (pr_pair_id p) (rs_token_pairs (rg_state reg))"
  "rs_token_sides (rg_state (add_opinion_side k t os sd p reg)) = (rs_token_sides (rg_state reg))(k \<mapsto> sd)"
  "rs_opi_market_pairs (rg_state (add_opinion_side k t os sd p reg)) = rs_opi_market_pairs (rg_state reg)"
  "rs_pm_market_pairs (rg_state (add_opinion_side k t os sd p reg)) = rs_pm_market_pairs (rg_state reg)"
  "map tr_token_key (rg_tokens (add_opinion_side k t os sd p reg)) = map tr_token_key (rg_tokens reg) @ [k]"
  by (simp_all add: add_opinion_side_def on_state_def Let_def split: option.splits)

lemma add_pm_asset_state [simp]:
  "rs_token_pairs (rg_state (add_pm_asset k a reg)) = rs_token_pairs (rg_state reg)"
  "rs_token_sides (rg_state (add_pm_asset k a reg)) = rs_token_sides (rg_state reg)"
  "rs_opi_market_pairs (rg_state (add_pm_asset k a reg)) = rs_opi_market_pairs (rg_state reg)"
  "rs_pm_market_pairs (rg_state (add_pm_asset k a reg)) = rs_pm_market_pairs (rg_state reg)"
  "rg_tokens (add_pm_asset k a reg) = rg_tokens reg"
  by (simp_all add: add_pm_asset_def on_state_def split: option.splits)

lemma add_pair_maps:
  "rs_token_pairs (rg_state (add_pair p reg))
    = fold (\<lambda>(k, v). push_unique k v) (token_inserts p) (rs_token_pairs (rg_state reg))"
  "rs_opi_market_pairs (rg_state (add_pair p reg))
    = fold (\<lambda>(k, v). push_unique k v) (market_inserts (pr_opinion_market_id p) p)
        (rs_opi_market_pairs (rg_state reg))"
  "rs_pm_market_pairs (rg_state (add_pair p reg))
    = fold (\<lambda>(k, v). push_unique k v) (market_inserts (pr_polymarket_market_id p) p)
        (rs_pm_market_pairs (rg_state reg))"
  "rs_token_sides (rg_state (add_pair p reg)) = (rs_token_sides (rg_state reg))
    (fst (opinion_token_keys p) \<mapsto> Yes, snd (opinion_token_keys p) \<mapsto> No,
     fst (polymarket_token_keys p) \<mapsto> Yes, snd (polymarket_token_keys p) \<mapsto> No)"
  "map tr_token_key (rg_tokens (add_pair p reg)) = map tr_token_key (rg_tokens reg) @ pair_keys p"
  unfolding add_pair_def Let_def split_def
  by (simp_all only: add_pm_asset_state register_token_state add_opinion_side_state add_markets_state)
    (simp_all add: token_inserts_def pair_keys_def split_def)

lemma build_maps:
  "rs_token_pairs (rg_state (build ps))
    = fold (\<lambda>(k, v). push_unique k v) (concat (map token_inserts ps)) Map.empty"
  "rs_opi_market_pairs (rg_state (build ps)) = fold (\<lambda>(k, v). push_unique k v)
    (concat (map (\<lambda>p. market_inserts (pr_opinion_market_id p) p) ps)) Map.empty"
  "rs_pm_market_pairs (rg_state (build ps)) = fold (\<lambda>(k, v). push_unique k v)
    (concat (map (\<lambda>p. market_inserts (pr_polymarket_market_id p) p) ps)) Map.empty"
proof (induction ps rule: rev_induct)
  case Nil
  case 1 show ?case by (simp add: build_def registry_default_def)
  case 2 show ?case by (simp add: build_def registry_default_def)
  case 3 show ?case by (simp add: build_def registry_default_def)
next
  case (snoc p ps)
  case 1 show ?case using snoc(1) by (simp add: build_def add_pair_maps)
  case 2 show ?case using snoc(2) by (simp add: build_def add_pair_maps)
  case 3 show ?case using snoc(3) by (simp add: build_def add_pair_maps)
qed

text \<open>An index built from insertions, read through the contract.\<close>

lemma index_lookup:
  assumes "fold (\<lambda>(k, v). push_unique k v) kvs Map.empty k = Some vs"
  shows "distinct vs \<and> set vs = {v. (k, v) \<in> set kvs}"
  using assms pair_index.fold_values[where kvs = kvs and s = Map.empty and k = k]
    pair_index.fold_distinct[where kvs = kvs and s = Map.empty and k = k]
  by (simp add: unwrap_or_def)

lemma index_present:
  "fold (\<lambda>(k, v). push_unique k v) kvs Map.empty k = None \<longleftrightarrow> k \<notin> fst ` set kvs"
  using pair_index.fold_present[where kvs = kvs and s = Map.empty and k = k] by simp

text \<open>
  The registry routes every token to exactly its pairs: a token key is known exactly when it
  is one of the four keys of a watched pair, and then it lists, without repetition, the ids of all
  the pairs that have this key.
\<close>

theorem build_token_pairs:
  "case rs_token_pairs (rg_state (build ps)) k of
     None \<Rightarrow> k \<notin> set (concat (map pair_keys ps))
   | Some ids \<Rightarrow> distinct ids \<and> ids \<noteq> [] \<and> set ids = {pr_pair_id p | p. p \<in> set ps \<and> k \<in> set (pair_keys p)}"
proof -
  have el: "(k, v) \<in> set (concat (map token_inserts ps)) \<longleftrightarrow>
      (\<exists>p\<in>set ps. k \<in> set (pair_keys p) \<and> v = pr_pair_id p)" for v
    by (auto simp: token_inserts_def)
  show ?thesis
  proof (cases "rs_token_pairs (rg_state (build ps)) k")
    case None
    then have "k \<notin> fst ` set (concat (map token_inserts ps))" by (simp add: build_maps(1) index_present)
    then have "(k, v) \<notin> set (concat (map token_inserts ps))" for v by force
    then have "\<forall>p\<in>set ps. k \<notin> set (pair_keys p)" unfolding el by blast
    with None show ?thesis by simp
  next
    case (Some ids)
    then have i: "distinct ids" "set ids = {v. (k, v) \<in> set (concat (map token_inserts ps))}"
      using index_lookup[of "concat (map token_inserts ps)" k ids] by (simp_all add: build_maps(1))
    have "k \<in> fst ` set (concat (map token_inserts ps))"
      using Some index_present[of "concat (map token_inserts ps)" k] by (simp add: build_maps(1))
    then obtain v where "(k, v) \<in> set (concat (map token_inserts ps))" by force
    then have "ids \<noteq> []" using i(2) by auto
    moreover have "set ids = {pr_pair_id p | p. p \<in> set ps \<and> k \<in> set (pair_keys p)}"
      unfolding i(2) el by blast
    ultimately show ?thesis using i(1) Some by simp
  qed
qed

text \<open>
  A second announcement of the same token is a no-op: after \<open>ensure_opi_token\<close> the market side
  resolves to the announced key, every pair of the market is routed to it, and repeating the call
  reports neither a new token nor a mismatch and changes nothing.
\<close>

lemma fold_push_unique_same:
  "fold (push_unique k) vs m = fold (\<lambda>(k, v). push_unique k v) (map (\<lambda>v. (k, v)) vs) m"
  by (induction vs arbitrary: m) auto

lemma push_unique_noop: "m k = Some ws \<Longrightarrow> v \<in> set ws \<Longrightarrow> push_unique k v m = m"
  by (auto simp: push_unique_def unwrap_or_def)

lemma fold_push_unique_noop:
  "m k = Some ws \<Longrightarrow> set vs \<subseteq> set ws \<Longrightarrow> fold (push_unique k) vs m = m"
  by (induction vs) (auto simp: push_unique_noop)

lemma fold_push_unique_after:
  assumes "vs \<noteq> []"
  shows "\<exists>ws. fold (push_unique k) vs m k = Some ws \<and> set vs \<subseteq> set ws"
proof -
  have "fold (push_unique k) vs m k \<noteq> None"
    unfolding fold_push_unique_same pair_index.fold_present using assms by (cases vs) auto
  moreover have "set (unwrap_or (fold (push_unique k) vs m k) []) = set (unwrap_or (m k) []) \<union> set vs"
    unfolding fold_push_unique_same by (subst pair_index.fold_values) auto
  ultimately show ?thesis by (auto simp: unwrap_or_def)
qed

theorem ensure_opi_token_idempotent:
  assumes "ensure_opi_token m side tok s = ((key, mismatch, is_new, pairs), s')"
  shows "key = opi_token_key tok \<and> token_key_for_opi_market s' m side = Some key \<and>
    (is_new \<longleftrightarrow> rs_opi_expected_token_id s (m, side) = None) \<and>
    (mismatch \<longleftrightarrow> (\<exists>old. rs_opi_expected_token_id s (m, side) = Some old \<and> old \<noteq> tok)) \<and>
    (\<forall>p\<in>set pairs. \<exists>ids. rs_token_pairs s' key = Some ids \<and> p \<in> set ids) \<and>
    ensure_opi_token m side tok s' = ((key, False, False, pairs), s')"
proof -
  have pairs: "pairs = unwrap_or (rs_opi_market_pairs s m) []"
    and key: "key = opi_token_key tok"
    and s': "s' = s\<lparr>rs_opi_expected_token_id := (rs_opi_expected_token_id s)((m, side) \<mapsto> tok),
      rs_opi_market_side_key := (rs_opi_market_side_key s)((m, side) \<mapsto> key),
      rs_token_sides := (rs_token_sides s)(key \<mapsto> token_side_for_opi side),
      rs_token_pairs := fold (push_unique key) pairs (rs_token_pairs s)\<rparr>"
    using assms by (auto simp: ensure_opi_token_def Let_def split: if_splits)
  have routed: "\<exists>ws. rs_token_pairs s' key = Some ws \<and> set pairs \<subseteq> set ws" if "pairs \<noteq> []"
    using fold_push_unique_after[OF that, of key "rs_token_pairs s"] by (simp add: s')
  have "fold (push_unique key) pairs (rs_token_pairs s') = rs_token_pairs s'"
  proof (cases "pairs = []")
    case False
    from routed[OF this] show ?thesis by (auto intro: fold_push_unique_noop)
  qed simp
  moreover have "rs_opi_market_pairs s' = rs_opi_market_pairs s" by (simp add: s')
  ultimately have again: "ensure_opi_token m side tok s' = ((key, False, False, pairs), s')"
    by (simp add: ensure_opi_token_def Let_def key[symmetric] pairs[symmetric])
      (simp add: s' fun_upd_idem)
  have "\<forall>p\<in>set pairs. \<exists>ids. rs_token_pairs s' key = Some ids \<and> p \<in> set ids"
    using routed by (cases "pairs = []") auto
  with again key assms show ?thesis
    by (auto simp: token_key_for_opi_market_def s' ensure_opi_token_def Let_def split: option.splits)
qed

theorem ensure_opi_token_idempotent_witness:
  "snd (ensure_opi_token ''m1'' 1 ''t9'' (rg_state registry_default))
    = snd (ensure_opi_token ''m1'' 1 ''t9'' (snd (ensure_opi_token ''m1'' 1 ''t9'' (rg_state registry_default))))"
proof -
  obtain key mm nw ps s' where
    e: "ensure_opi_token ''m1'' 1 ''t9'' (rg_state registry_default) = ((key, mm, nw, ps), s')"
    by (metis surj_pair)
  from ensure_opi_token_idempotent[OF e] show ?thesis by (simp add: e)
qed

text \<open>Keys of the two venues never collide.\<close>

lemma venue_keys_disjoint: "token_key_opinion t m os \<noteq> token_key_polymarket t' m' side"
  by (auto simp: token_key_opinion_def token_key_polymarket_def opi_token_key_def split: option.splits)

end
