(* ===== verification/Dispatch.thy ===== *)
theory Dispatch
  imports Sharding Health "HOL-Library.Sublist"
begin

text \<open>
  The dispatcher task of \<open>src/dispatcher.rs\<close> as a step relation. It takes messages one at a time:
  an event goes with \<open>try_send\<close> to the bounded queue of its token's shard, or is dropped and
  counted when that queue is full or closed; a tick is sent to every shard in turn, waiting for
  room. Shards taking messages and shards dying are steps of the environment. Each step carries a
  label that says which message moved where; the properties are about the labels of a run. The
  clock read of the lag warning is a parameter of the step.
\<close>

definition SHARD_QUEUE_CAPACITY :: nat where "SHARD_QUEUE_CAPACITY = 1024"

definition DISPATCH_EVENT_LAG_WARN_MS :: int where "DISPATCH_EVENT_LAG_WARN_MS = 2000"

datatype ShardMessage = ShardEvent Event | ShardTick int

record Dispatcher =
  d_queues :: "ShardMessage list list"
  d_open :: "bool list"
  d_health :: HealthState
  d_rest_seen :: nat
  d_rest_drop :: nat
  d_lag :: nat
  d_send_fail :: nat
  d_tick :: "(int \<times> nat) option"

definition spawn_dispatcher :: "nat \<Rightarrow> HealthState \<Rightarrow> Dispatcher" where
  "spawn_dispatcher shard_count health =
    \<lparr>d_queues = replicate shard_count [], d_open = replicate shard_count True, d_health = health,
     d_rest_seen = 0, d_rest_drop = 0, d_lag = 0, d_send_fail = 0, d_tick = None\<rparr>"

datatype Label = EvPush nat Event | EvDrop Event | EvLost Event | TickPush nat int | Taken nat ShardMessage | Silent

definition is_rest_snapshot :: "Event \<Rightarrow> bool" where
  "is_rest_snapshot event \<longleftrightarrow> e_exchange_ts_source event = VenueRest \<and> e_kind event = BookSnapshot"

text \<open>\<open>sender.try_send\<close> succeeds when the receiver is alive and the queue has room.\<close>

definition can_send :: "Dispatcher \<Rightarrow> nat \<Rightarrow> bool" where
  "can_send s i \<longleftrightarrow> d_open s ! i \<and> length (d_queues s ! i) < SHARD_QUEUE_CAPACITY"

definition push_queue :: "nat \<Rightarrow> ShardMessage \<Rightarrow> Dispatcher \<Rightarrow> Dispatcher" where
  "push_queue i m s = s\<lparr>d_queues := (d_queues s)[i := d_queues s ! i @ [m]]\<rparr>"

text \<open>The arm \<open>DispatcherMessage::Event\<close> of the loop: the two log counters, then the send.\<close>

definition count_lag :: "int \<Rightarrow> Dispatcher \<Rightarrow> Dispatcher" where
  "count_lag lag_ms s = (if lag_ms > DISPATCH_EVENT_LAG_WARN_MS then s\<lparr>d_lag := d_lag s + 1\<rparr> else s)"

definition count_rest :: "Event \<Rightarrow> Dispatcher \<Rightarrow> Dispatcher" where
  "count_rest event s = (if is_rest_snapshot event then s\<lparr>d_rest_seen := d_rest_seen s + 1\<rparr> else s)"

definition drop_event :: "Event \<Rightarrow> Dispatcher \<Rightarrow> Dispatcher" where
  "drop_event event s = s\<lparr>d_health := record_drop (e_venue event) (d_health s),
     d_send_fail := d_send_fail s + 1,
     d_rest_drop := (if is_rest_snapshot event then d_rest_drop s + 1 else d_rest_drop s)\<rparr>"

definition dispatch_event :: "millis \<Rightarrow> Event \<Rightarrow> Dispatcher \<Rightarrow> Label \<times> Dispatcher" where
  "dispatch_event now event s =
    (let shard = pick_shard (e_token_key event) (length (d_queues s));
         lag_ms = i64_sat (now - e_local_ts_ms event);
         s = count_rest event (count_lag lag_ms s)
     in if shard < length (d_queues s) then
          (if can_send s shard then (EvPush shard event, push_queue shard (ShardEvent event) s)
           else (EvDrop event, drop_event event s))
        else (EvLost event, s))"

lemma count_frame [simp]:
  "d_queues (count_lag n s) = d_queues s" "d_open (count_lag n s) = d_open s"
  "d_tick (count_lag n s) = d_tick s" "d_health (count_lag n s) = d_health s"
  "d_send_fail (count_lag n s) = d_send_fail s"
  "d_queues (count_rest e s) = d_queues s" "d_open (count_rest e s) = d_open s"
  "d_tick (count_rest e s) = d_tick s" "d_health (count_rest e s) = d_health s"
  "d_send_fail (count_rest e s) = d_send_fail s"
  by (simp_all add: count_lag_def count_rest_def)

lemma move_frame [simp]:
  "d_queues (push_queue i m s) = (d_queues s)[i := d_queues s ! i @ [m]]"
  "d_open (push_queue i m s) = d_open s" "d_tick (push_queue i m s) = d_tick s"
  "d_health (push_queue i m s) = d_health s" "d_send_fail (push_queue i m s) = d_send_fail s"
  "d_queues (drop_event e s) = d_queues s" "d_open (drop_event e s) = d_open s"
  "d_tick (drop_event e s) = d_tick s" "d_health (drop_event e s) = record_drop (e_venue e) (d_health s)"
  "d_send_fail (drop_event e s) = d_send_fail s + 1"
  by (simp_all add: push_queue_def drop_event_def)

lemma can_send_count [simp]: "can_send (count_rest e (count_lag n s)) i = can_send s i"
  by (simp add: can_send_def)

inductive disp_step :: "Dispatcher \<Rightarrow> Label \<Rightarrow> Dispatcher \<Rightarrow> bool" where
  recv_event: "d_tick s = None \<Longrightarrow> dispatch_event now event s = (l, s') \<Longrightarrow> disp_step s l s'"
| recv_tick: "d_tick s = None \<Longrightarrow> disp_step s Silent (s\<lparr>d_tick := Some (bar_second, 0)\<rparr>)"
| send_tick: "d_tick s = Some (b, i) \<Longrightarrow> i < length (d_queues s) \<Longrightarrow> can_send s i \<Longrightarrow>
    disp_step s (TickPush i b) ((push_queue i (ShardTick b) s)\<lparr>d_tick := Some (b, Suc i)\<rparr>)"
| skip_tick: "d_tick s = Some (b, i) \<Longrightarrow> i < length (d_queues s) \<Longrightarrow> \<not> d_open s ! i \<Longrightarrow>
    disp_step s Silent (s\<lparr>d_tick := Some (b, Suc i)\<rparr>)"
| tick_done: "d_tick s = Some (b, length (d_queues s)) \<Longrightarrow> disp_step s Silent (s\<lparr>d_tick := None\<rparr>)"
| shard_takes: "i < length (d_queues s) \<Longrightarrow> d_queues s ! i = m # ms \<Longrightarrow>
    disp_step s (Taken i m) (s\<lparr>d_queues := (d_queues s)[i := ms]\<rparr>)"
| shard_dies: "i < length (d_open s) \<Longrightarrow> disp_step s Silent (s\<lparr>d_open := (d_open s)[i := False]\<rparr>)"

inductive disp_run :: "Dispatcher \<Rightarrow> Label list \<Rightarrow> Dispatcher \<Rightarrow> bool" where
  run_nil: "disp_run s [] s"
| run_snoc: "disp_run s ls t \<Longrightarrow> disp_step t l u \<Longrightarrow> disp_run s (ls @ [l]) u"

inductive_cases disp_run_snocE: "disp_run s (ls @ [l]) u"

text \<open>What a label put into queue \<open>i\<close> and what it took out of it.\<close>

fun pushed :: "nat \<Rightarrow> Label \<Rightarrow> ShardMessage list" where
  "pushed i (EvPush j e) = (if i = j then [ShardEvent e] else [])"
| "pushed i (TickPush j t) = (if i = j then [ShardTick t] else [])"
| "pushed i _ = []"

fun taken :: "nat \<Rightarrow> Label \<Rightarrow> ShardMessage list" where
  "taken i (Taken j m) = (if i = j then [m] else [])"
| "taken i _ = []"

fun drops :: "Venue \<Rightarrow> Label \<Rightarrow> nat" where
  "drops v (EvDrop e) = (if e_venue e = v then 1 else 0)"
| "drops v _ = 0"

definition disp_inv :: "Dispatcher \<Rightarrow> bool" where
  "disp_inv s \<longleftrightarrow> length (d_open s) = length (d_queues s) \<and>
     (\<forall>i<length (d_queues s). length (d_queues s ! i) \<le> SHARD_QUEUE_CAPACITY) \<and>
     (\<forall>i<length (d_queues s). \<forall>e. ShardEvent e \<in> set (d_queues s ! i) \<longrightarrow>
        pick_shard (e_token_key e) (length (d_queues s)) = i)"

lemma dispatch_event_cases:
  assumes "dispatch_event now event s = (l, s')"
  defines "k \<equiv> pick_shard (e_token_key event) (length (d_queues s))"
  obtains
    (push) "k < length (d_queues s)" "can_send s k" "l = EvPush k event"
      "d_queues s' = (d_queues s)[k := d_queues s ! k @ [ShardEvent event]]"
      "d_open s' = d_open s" "d_tick s' = d_tick s" "d_health s' = d_health s"
      "d_send_fail s' = d_send_fail s"
  | (drop) "k < length (d_queues s)" "\<not> can_send s k" "l = EvDrop event"
      "d_queues s' = d_queues s" "d_open s' = d_open s" "d_tick s' = d_tick s"
      "d_health s' = record_drop (e_venue event) (d_health s)" "d_send_fail s' = d_send_fail s + 1"
  | (lost) "d_queues s = []" "l = EvLost event" "d_queues s' = d_queues s" "d_open s' = d_open s"
      "d_tick s' = d_tick s" "d_health s' = d_health s" "d_send_fail s' = d_send_fail s"
proof (cases "k < length (d_queues s)")
  case k: True
  show thesis
  proof (cases "can_send s k")
    case True
    with k assms(1) have "l = EvPush k event" "s' = push_queue k (ShardEvent event)
        (count_rest event (count_lag (i64_sat (now - e_local_ts_ms event)) s))"
      by (auto simp: dispatch_event_def Let_def k_def)
    with k True show thesis by (intro push) simp_all
  next
    case False
    with k assms(1) have "l = EvDrop event" "s' = drop_event event
        (count_rest event (count_lag (i64_sat (now - e_local_ts_ms event)) s))"
      by (auto simp: dispatch_event_def Let_def k_def)
    with k False show thesis by (intro drop) simp_all
  qed
next
  case False
  then have "d_queues s = []"
    using pick_shard_range[of "length (d_queues s)" "e_token_key event"] by (auto simp: k_def)
  moreover from False assms(1) have "l = EvLost event" "s' =
      count_rest event (count_lag (i64_sat (now - e_local_ts_ms event)) s)"
    by (auto simp: dispatch_event_def Let_def k_def)
  ultimately show thesis by (intro lost) simp_all
qed

text \<open>One step: the number of shards is fixed, and each queue moves by the label.\<close>

lemma disp_step_queue:
  assumes "disp_step s l s'"
  shows "length (d_queues s') = length (d_queues s)"
    and "i < length (d_queues s) \<Longrightarrow> taken i l @ d_queues s' ! i = d_queues s ! i @ pushed i l"
proof -
  have "length (d_queues s') = length (d_queues s) \<and>
    (i < length (d_queues s) \<longrightarrow> taken i l @ d_queues s' ! i = d_queues s ! i @ pushed i l)"
    using assms
  proof (cases rule: disp_step.cases)
    case (recv_event now event)
    from recv_event(2) show ?thesis
      by (cases rule: dispatch_event_cases) (auto simp: nth_list_update)
  qed (auto simp: push_queue_def nth_list_update)
  then show "length (d_queues s') = length (d_queues s)"
    "i < length (d_queues s) \<Longrightarrow> taken i l @ d_queues s' ! i = d_queues s ! i @ pushed i l" by auto
qed

lemma pushed_can_send:
  assumes "disp_step s l s'" "m \<in> set (pushed i l)"
  shows "i < length (d_queues s) \<and> can_send s i \<and>
    (\<forall>e. m = ShardEvent e \<longrightarrow> pick_shard (e_token_key e) (length (d_queues s)) = i)"
  using assms
proof (cases rule: disp_step.cases)
  case (recv_event now event)
  from recv_event(2) show ?thesis using assms(2)
    by (cases rule: dispatch_event_cases) (auto split: if_splits)
qed (use assms(2) in \<open>auto split: if_splits\<close>)

lemma disp_step_open:
  assumes "disp_step s l s'"
  shows "length (d_open s') = length (d_open s)"
  using assms
proof (cases rule: disp_step.cases)
  case (recv_event now event)
  from recv_event(2) show ?thesis by (cases rule: dispatch_event_cases) auto
qed (auto simp: push_queue_def)

lemma length_pushed: "length (pushed i l) \<le> 1"
  by (cases l) auto

lemma disp_step_inv:
  assumes step: "disp_step s l s'" and inv: "disp_inv s"
  shows "disp_inv s'"
proof -
  note q = disp_step_queue[OF step]
  have len: "length (d_queues s' ! i) \<le> SHARD_QUEUE_CAPACITY" if i: "i < length (d_queues s)" for i
  proof (cases "pushed i l = []")
    case True
    then have "length (d_queues s' ! i) \<le> length (d_queues s ! i)"
      using arg_cong[OF q(2)[OF i], of length] by simp
    also have "\<dots> \<le> SHARD_QUEUE_CAPACITY" using inv i by (simp add: disp_inv_def)
    finally show ?thesis .
  next
    case False
    then obtain m where "m \<in> set (pushed i l)" by (cases "pushed i l") auto
    then have "can_send s i" using pushed_can_send[OF step] by blast
    then have "length (d_queues s ! i) < SHARD_QUEUE_CAPACITY" by (simp add: can_send_def)
    then show ?thesis using arg_cong[OF q(2)[OF i], of length] length_pushed[of i l] by simp
  qed
  have route: "pick_shard (e_token_key e) (length (d_queues s)) = i"
    if i: "i < length (d_queues s)" and e: "ShardEvent e \<in> set (d_queues s' ! i)" for i e
  proof -
    have "ShardEvent e \<in> set (d_queues s ! i @ pushed i l)" using e by (simp flip: q(2)[OF i])
    then show ?thesis using inv i pushed_can_send[OF step, of "ShardEvent e" i]
      by (auto simp: disp_inv_def)
  qed
  show ?thesis using len route q(1) disp_step_open[OF step] inv by (simp add: disp_inv_def)
qed

lemma disp_inv_spawn: "disp_inv (spawn_dispatcher n h)"
  by (simp add: disp_inv_def spawn_dispatcher_def)

lemma disp_run_inv: "disp_run s ls t \<Longrightarrow> disp_inv s \<Longrightarrow> disp_inv t"
  by (induction rule: disp_run.induct) (auto intro: disp_step_inv)

text \<open>
  C4. Every shard queue is first-in first-out and bounded, and every event in it belongs to a token
  of that shard: over any run of the dispatcher, what shard \<open>i\<close> took is a prefix of what was
  pushed to it, the rest is its queue, and the queue never exceeds its capacity.
\<close>

theorem dispatcher_fifo:
  assumes run: "disp_run (spawn_dispatcher n h) ls t" and i: "i < n"
  shows "concat (map (taken i) ls) @ d_queues t ! i = concat (map (pushed i) ls) \<and>
    length (d_queues t ! i) \<le> SHARD_QUEUE_CAPACITY \<and>
    (\<forall>e. ShardEvent e \<in> set (concat (map (pushed i) ls)) \<longrightarrow> pick_shard (e_token_key e) n = i)"
proof -
  have "length (d_queues t) = n \<and> concat (map (taken i) ls) @ d_queues t ! i = concat (map (pushed i) ls) \<and>
    (\<forall>e. ShardEvent e \<in> set (concat (map (pushed i) ls)) \<longrightarrow> pick_shard (e_token_key e) n = i)"
    using run
  proof (induction "spawn_dispatcher n h" ls t rule: disp_run.induct)
    case run_nil
    with i show ?case by (simp add: spawn_dispatcher_def)
  next
    case (run_snoc ls t l u)
    note q = disp_step_queue[OF run_snoc.hyps(3)]
    have "taken i l @ d_queues u ! i = d_queues t ! i @ pushed i l"
      using run_snoc.hyps(2) i by (intro q(2)) auto
    then show ?case
      using run_snoc.hyps(2) q(1) pushed_can_send[OF run_snoc.hyps(3), of _ i] by auto
  qed
  moreover have "disp_inv t" using run disp_inv_spawn by (rule disp_run_inv)
  ultimately show ?thesis using i by (simp add: disp_inv_def)
qed

lemma disp_step_drops:
  assumes "disp_step s l s'"
  shows "vh_dropped_events (select (d_health s') v) = vh_dropped_events (select (d_health s) v) + int (drops v l)"
  using assms
proof (cases rule: disp_step.cases)
  case (recv_event now event)
  from recv_event(2) show ?thesis
    by (cases rule: dispatch_event_cases) (auto simp: record_drop_def health.get_upd)
qed (auto simp: push_queue_def)

lemma disp_step_not_lost:
  assumes "disp_step s l s'" "d_queues s \<noteq> []"
  shows "l \<noteq> EvLost e"
  using assms
proof (cases rule: disp_step.cases)
  case (recv_event now event)
  have "pick_shard (e_token_key event) (length (d_queues s)) < length (d_queues s)"
    using assms(2) by (simp add: pick_shard_range)
  with recv_event(2) show ?thesis by (auto simp: dispatch_event_def Let_def split: if_splits)
qed auto

text \<open>
  C5. No event disappears unnoticed: the drop counter of a venue grows by exactly the number of its
  events that were refused by a full or dead shard queue, and with at least one shard every
  received event was either queued or refused.
\<close>

theorem dispatcher_counts_drops:
  assumes "disp_run s ls t"
  shows "vh_dropped_events (select (d_health t) v)
      = vh_dropped_events (select (d_health s) v) + int (sum_list (map (drops v) ls)) \<and>
    (d_queues s \<noteq> [] \<longrightarrow> (\<forall>e. EvLost e \<notin> set ls))"
proof -
  have "vh_dropped_events (select (d_health t) v)
      = vh_dropped_events (select (d_health s) v) + int (sum_list (map (drops v) ls))"
    using assms by (induction rule: disp_run.induct) (auto simp: disp_step_drops)
  moreover have "length (d_queues t) = length (d_queues s) \<and> (d_queues s \<noteq> [] \<longrightarrow> (\<forall>e. EvLost e \<notin> set ls))"
    using assms
  proof (induction rule: disp_run.induct)
    case (run_snoc s ls t l u)
    moreover from run_snoc.IH have "d_queues s \<noteq> [] \<longrightarrow> d_queues t \<noteq> []" by auto
    ultimately show ?case
      using disp_step_queue(1)[OF run_snoc.hyps(2)] disp_step_not_lost[OF run_snoc.hyps(2)] by fastforce
  qed simp
  ultimately show ?thesis by blast
qed

text \<open>A run for the witnesses: one event to the only shard, which takes it.\<close>

definition sample_event :: Event where
  "sample_event = \<lparr>e_venue = Opinion, e_token_key = ''opi:token:7'', e_pair_ids = [3], e_token_side = Yes,
     e_kind = BookDelta, e_channel = None, e_exchange_ts_ms = 5, e_local_ts_ms = 6,
     e_exchange_ts_source = VenueWs,
     e_flags = \<lparr>f_ts_missing = False, f_ts_anomaly = False, f_out_of_order = False, f_trade_side_missing = False\<rparr>,
     e_payload = \<lparr>p_side = None, p_delta_type = None, p_price = None, p_size = None, p_bids = None, p_asks = None,
       p_hash = None, p_best_bid = None, p_best_ask = None, p_tick_size = None, p_outcome_side = None\<rparr>\<rparr>"

lemma sample_run:
  "disp_run (spawn_dispatcher 1 health_new) [EvPush 0 sample_event, Taken 0 (ShardEvent sample_event)]
     (spawn_dispatcher 1 health_new)"
proof -
  let ?s = "spawn_dispatcher 1 health_new"
  have d: "dispatch_event 7 sample_event ?s = (EvPush 0 sample_event, push_queue 0 (ShardEvent sample_event) ?s)"
    by (simp add: dispatch_event_def Let_def pick_shard_def spawn_dispatcher_def can_send_def
        SHARD_QUEUE_CAPACITY_def DISPATCH_EVENT_LAG_WARN_MS_def i64_sat_def sat_def is_rest_snapshot_def
        sample_event_def count_lag_def count_rest_def)
  have "disp_run ?s ([] @ [EvPush 0 sample_event]) (push_queue 0 (ShardEvent sample_event) ?s)"
    by (rule run_snoc[OF run_nil], rule recv_event[OF _ d]) (simp add: spawn_dispatcher_def)
  moreover have "disp_step (push_queue 0 (ShardEvent sample_event) ?s) (Taken 0 (ShardEvent sample_event)) ?s"
  proof -
    have "disp_step (push_queue 0 (ShardEvent sample_event) ?s) (Taken 0 (ShardEvent sample_event))
      ((push_queue 0 (ShardEvent sample_event) ?s)\<lparr>d_queues :=
         (d_queues (push_queue 0 (ShardEvent sample_event) ?s))[0 := []]\<rparr>)"
      by (rule shard_takes) (simp_all add: push_queue_def spawn_dispatcher_def)
    then show ?thesis by (simp add: push_queue_def spawn_dispatcher_def)
  qed
  ultimately show ?thesis using run_snoc by fastforce
qed

theorem dispatcher_fifo_witness:
  "concat (map (taken 0) [EvPush 0 sample_event, Taken 0 (ShardEvent sample_event)]) = [ShardEvent sample_event] \<and>
   pick_shard (e_token_key sample_event) 1 = 0"
  using dispatcher_fifo[OF sample_run, of 0] by simp

theorem dispatcher_counts_drops_witness:
  "vh_dropped_events (select (d_health (spawn_dispatcher 1 health_new)) Opinion) = 0 + int (sum_list
     (map (drops Opinion) [EvPush 0 sample_event, Taken 0 (ShardEvent sample_event)]))"
  using dispatcher_counts_drops[OF sample_run, of Opinion]
  by (simp add: spawn_dispatcher_def health_new_def venue_health_default_def)

end
