(* ===== verification/DbWriter.thy ===== *)
theory DbWriter
  imports Models "HOL-Library.Multiset"
begin

text \<open>
  The batching side of \<open>src/db_writer.rs\<close>. Messages are a kind and a body: the body (the row to
  store) is opaque here, since the writer only routes it by kind. One buffer per kind, filled by
  the receive arm (which acknowledges gated kinds at once when alpha capture is off), and flushed
  as one transaction whose outcome (begin, every statement and commit succeed, or not) is a
  parameter. \<open>dedupe_token_bars\<close> and \<open>dedupe_pair_bars\<close> are one function of the key.
\<close>

datatype DbKind = RawEvent | Bars1sToken | Bars1sPair | ClockOffsetMsg | TokenRegistryUpsert
  | PairTokenOverride | ResyncLogMsg | ConnectionHealthMsg | ChainMetricsMsg | ShockEventMsg
  | ShockEventUpdateMsg | OpinionResponse | TradeAudit | CancelTriggerSnapshot

type_synonym 'b DbMessage = "DbKind \<times> 'b"
type_synonym 'b DbEnvelope = "int \<times> 'b DbMessage"

definition all_kinds :: "DbKind list" where
  "all_kinds = [RawEvent, Bars1sToken, Bars1sPair, ClockOffsetMsg, TokenRegistryUpsert,
     PairTokenOverride, ResyncLogMsg, ConnectionHealthMsg, ChainMetricsMsg, ShockEventMsg,
     ShockEventUpdateMsg, OpinionResponse, TradeAudit, CancelTriggerSnapshot]"

fun flush_threshold :: "DbKind \<Rightarrow> nat" where
  "flush_threshold RawEvent = 100000"
| "flush_threshold Bars1sToken = 50000"
| "flush_threshold Bars1sPair = 50000"
| "flush_threshold ClockOffsetMsg = 20000"
| "flush_threshold TokenRegistryUpsert = 5000"
| "flush_threshold PairTokenOverride = 2000"
| "flush_threshold ResyncLogMsg = 2000"
| "flush_threshold ConnectionHealthMsg = 2000"
| "flush_threshold ChainMetricsMsg = 2000"
| "flush_threshold ShockEventMsg = 2000"
| "flush_threshold ShockEventUpdateMsg = 2000"
| "flush_threshold OpinionResponse = 5000"
| "flush_threshold TradeAudit = 5000"
| "flush_threshold CancelTriggerSnapshot = 5000"

text \<open>The kinds that the receive arm stores only when alpha capture is enabled.\<close>

fun alpha_gated :: "DbKind \<Rightarrow> bool" where
  "alpha_gated RawEvent = True"
| "alpha_gated Bars1sToken = True"
| "alpha_gated Bars1sPair = True"
| "alpha_gated ResyncLogMsg = True"
| "alpha_gated ShockEventMsg = True"
| "alpha_gated ShockEventUpdateMsg = True"
| "alpha_gated OpinionResponse = True"
| "alpha_gated _ = False"

record 'b Writer =
  w_bufs :: "DbKind \<Rightarrow> (int \<times> 'b) list"
  w_committed :: "'b DbEnvelope list"

definition writer_new :: "'b Writer" where
  "writer_new = \<lparr>w_bufs = (\<lambda>_. []), w_committed = []\<rparr>"

text \<open>\<open>flush_buffers\<close>: with \<open>ok\<close> every staged row is stored and acknowledged, in kind order; otherwise
  the stages go back into their (emptied) buffers. The result is the acknowledgements sent.\<close>

definition staged :: "'b Writer \<Rightarrow> 'b DbEnvelope list" where
  "staged w = concat (map (\<lambda>k. map (\<lambda>(id, body). (id, (k, body))) (w_bufs w k)) all_kinds)"

definition flush_buffers :: "bool \<Rightarrow> 'b Writer \<Rightarrow> 'b Writer \<times> int list" where
  "flush_buffers ok w =
    (if \<forall>k\<in>set all_kinds. w_bufs w k = [] then (w, [])
     else if ok then
       (\<lparr>w_bufs = (\<lambda>_. []), w_committed = w_committed w @ staged w\<rparr>, map fst (staged w))
     else (w, []))"

text \<open>The receive arm of \<open>run_db_writer\<close>, its flush on any full buffer included.\<close>

definition writer_store :: "bool \<Rightarrow> 'b DbEnvelope \<Rightarrow> 'b Writer \<Rightarrow> 'b Writer \<times> int list" where
  "writer_store alpha_capture_enabled env w =
    (let (rid, (kind, body)) = env
     in if alpha_gated kind \<and> \<not> alpha_capture_enabled then (w, [rid])
        else (w\<lparr>w_bufs := (w_bufs w)(kind := w_bufs w kind @ [(rid, body)])\<rparr>, []))"

definition writer_recv :: "bool \<Rightarrow> bool \<Rightarrow> 'b DbEnvelope \<Rightarrow> 'b Writer \<Rightarrow> 'b Writer \<times> int list" where
  "writer_recv alpha_capture_enabled ok env w =
    (let (w1, acks) = writer_store alpha_capture_enabled env w
     in if \<exists>k\<in>set all_kinds. length (w_bufs w1 k) \<ge> flush_threshold k then
          (let (w2, more) = flush_buffers ok w1 in (w2, acks @ more))
        else (w1, acks))"

definition writer_tick :: "bool \<Rightarrow> 'b Writer \<Rightarrow> 'b Writer \<times> int list" where
  "writer_tick ok w = flush_buffers ok w"

lemma all_kinds_complete [simp]: "k \<in> set all_kinds"
  by (cases k) (simp_all add: all_kinds_def)

lemma distinct_all_kinds: "distinct all_kinds"
  by (simp add: all_kinds_def)

lemma set_staged: "set (staged w) = {(id, (k, body)) | id k body. (id, body) \<in> set (w_bufs w k)}"
  by (auto simp: staged_def)

lemma staged_new [simp]: "staged writer_new = []"
  by (simp add: staged_def writer_new_def all_kinds_def)

lemma mset_staged_push:
  "mset (staged (w\<lparr>w_bufs := (w_bufs w)(k := w_bufs w k @ [(rid, body)])\<rparr>))
    = add_mset (rid, (k, body)) (mset (staged w))"
  by (cases k) (simp_all add: staged_def all_kinds_def)

text \<open>A flush moves everything or nothing.\<close>

lemma flush_buffers_cases:
  assumes "flush_buffers ok w = (w', acks)"
  obtains "w' = w" "acks = []"
  | "staged w' = []" "acks = map fst (staged w)" "w_committed w' = w_committed w @ staged w"
  using assms that
  by (auto simp: flush_buffers_def staged_def all_kinds_def split: if_splits)

text \<open>The envelopes in the writer's hands are its buffered ones; a step keeps them, or has
  acknowledged them by storing them (or, for gated kinds, by policy).\<close>

lemma flush_balance:
  assumes "flush_buffers ok w = (w', acks)"
  shows "mset (map fst (staged w)) = mset acks + mset (map fst (staged w'))"
    and "set (w_committed w') \<subseteq> set (w_committed w) \<union> set (staged w)"
    and "set (w_committed w) \<subseteq> set (w_committed w')"
    and "\<forall>i\<in>set acks. i \<in> fst ` set (w_committed w')"
    and "set (staged w') \<subseteq> set (staged w)"
  using assms by (cases rule: flush_buffers_cases; auto)+

lemma writer_recv_balance:
  assumes "writer_recv alpha ok env w = (w', acks)"
  shows "add_mset (fst env) (mset (map fst (staged w))) = mset acks + mset (map fst (staged w'))"
    and "set (w_committed w) \<subseteq> set (w_committed w')"
    and "\<forall>i\<in>set acks. i \<in> fst ` set (w_committed w') \<or>
           (\<not> alpha \<and> i = fst env \<and> alpha_gated (fst (snd env)))"
    and "set (staged w') \<subseteq> insert env (set (staged w))"
    and "set (w_committed w') \<subseteq> set (w_committed w) \<union> insert env (set (staged w))"
proof -
  obtain rid kind body where env: "env = (rid, (kind, body))" by (metis surj_pair)
  define gated where "gated = (alpha_gated kind \<and> \<not> alpha)"
  define w1 where "w1 = (if gated then w else w\<lparr>w_bufs := (w_bufs w)(kind := w_bufs w kind @ [(rid, body)])\<rparr>)"
  define a1 where "a1 = (if gated then [rid] else [])"
  have st: "writer_store alpha env w = (w1, a1)"
    by (simp add: writer_store_def env w1_def a1_def gated_def)
  obtain w2 more2 where fl: "flush_buffers ok w1 = (w2, more2)" by force
  obtain more where split: "(w', more) = flush_buffers ok w1 \<or> (w' = w1 \<and> more = [])" "acks = a1 @ more"
    using assms that[of more2] that[of "[]"] unfolding writer_recv_def st fl
    by (auto simp: fl split: if_splits)
  have b: "mset (map fst (staged w1)) = mset more + mset (map fst (staged w'))"
    "set (w_committed w') \<subseteq> set (w_committed w1) \<union> set (staged w1)"
    "set (w_committed w1) \<subseteq> set (w_committed w')"
    "\<forall>i\<in>set more. i \<in> fst ` set (w_committed w')" "set (staged w') \<subseteq> set (staged w1)"
    using split(1) flush_balance[of ok w1 w' more] by auto
  have m1: "mset (staged w1) = (if gated then mset (staged w) else add_mset env (mset (staged w)))"
    by (auto simp: w1_def env mset_staged_push)
  have s1: "set (staged w1) \<subseteq> insert env (set (staged w))"
    using m1 by (metis mset_eq_setD set_mset_add_mset_insert set_mset_mset subset_insertI order_refl)
  have i1: "mset (map fst (staged w1)) = (if gated then mset (map fst (staged w))
      else add_mset rid (mset (map fst (staged w))))"
    using m1 by (auto simp: env)
  have c1: "w_committed w1 = w_committed w" by (simp add: w1_def)
  show "add_mset (fst env) (mset (map fst (staged w))) = mset acks + mset (map fst (staged w'))"
    using b(1) i1 by (auto simp: split(2) a1_def env split: if_splits)
  show "set (w_committed w) \<subseteq> set (w_committed w')" using b(3) c1 by simp
  show "\<forall>i\<in>set acks. i \<in> fst ` set (w_committed w') \<or> (\<not> alpha \<and> i = fst env \<and> alpha_gated (fst (snd env)))"
    using b(4) by (auto simp: split(2) a1_def env gated_def)
  show "set (staged w') \<subseteq> insert env (set (staged w))" using b(5) s1 by blast
  show "set (w_committed w') \<subseteq> set (w_committed w) \<union> insert env (set (staged w))"
    using b(2) s1 unfolding c1 by blast
qed

subsection \<open>Deduplication before a batch upsert\<close>








end
