(* ===== verification/DbQueue.thy ===== *)
theory DbQueue
  imports DbWriter "HOL-Library.Word" "HOL-Library.Sublist"
begin

text \<open>
  The durable queue of \<open>src/db_queue.rs\<close> between the producers and the database writer: the spooler
  task buffers messages, inserts them into a SQLite table, sends the rows in id order to the
  writer's bounded channel, and deletes a row once it is acknowledged. The JSON codec
  (\<open>serde_json\<close>) is a parameter, an encoder and a decoder that may fail. SQLite is modelled by its
  table and by the outcome of each statement, which the environment chooses: a statement either
  takes effect as its SQL says or fails without effect. The counters are \<open>AtomicUsize\<close>, 64-bit
  words with wrapping \<open>fetch_add\<close> and \<open>fetch_sub\<close>.
\<close>

definition DB_WRITER_CHANNEL_CAPACITY :: nat where "DB_WRITER_CHANNEL_CAPACITY = 4096"
definition DB_QUEUE_INSERT_BATCH :: nat where "DB_QUEUE_INSERT_BATCH = 400"
definition DB_QUEUE_FETCH_BATCH :: nat where "DB_QUEUE_FETCH_BATCH = 1000"
definition DB_QUEUE_ACK_BATCH :: nat where "DB_QUEUE_ACK_BATCH = 500"

record DbQueueStats =
  st_in_mem :: "64 word"
  st_disk_pending :: "64 word"
  st_in_flight :: "64 word"

definition pending_total :: "DbQueueStats \<Rightarrow> 64 word" where
  "pending_total s = st_in_mem s + st_disk_pending s"

text \<open>The spooler's variables, the SQLite table with its next row id, and the writer's channel.\<close>

record ('b, 'p) Spooler =
  q_insert_buf :: "'b DbMessage list"
  q_pending_send :: "'b DbEnvelope list"
  q_ack_buf :: "int list"
  q_last_sent_id :: int
  q_rows :: "(int \<times> 'p) list"
  q_next_id :: int
  q_chan :: "'b DbEnvelope list"
  q_chan_open :: bool
  q_stats :: DbQueueStats

definition spawn_db_queue :: "(int \<times> 'p) list \<Rightarrow> int \<Rightarrow> ('b, 'p) Spooler" where
  "spawn_db_queue rows next_id =
    \<lparr>q_insert_buf = [], q_pending_send = [], q_ack_buf = [], q_last_sent_id = 0, q_rows = rows,
     q_next_id = next_id, q_chan = [], q_chan_open = True,
     q_stats = \<lparr>st_in_mem = 0, st_disk_pending = of_nat (length rows), st_in_flight = 0\<rparr>\<rparr>"

definition on_stats :: "(DbQueueStats \<Rightarrow> DbQueueStats) \<Rightarrow> ('b, 'p) Spooler \<Rightarrow> ('b, 'p) Spooler" where
  "on_stats f s = s\<lparr>q_stats := f (q_stats s)\<rparr>"

definition add_in_mem :: "64 word \<Rightarrow> DbQueueStats \<Rightarrow> DbQueueStats" where
  "add_in_mem n st = st\<lparr>st_in_mem := st_in_mem st + n\<rparr>"

definition add_disk :: "64 word \<Rightarrow> DbQueueStats \<Rightarrow> DbQueueStats" where
  "add_disk n st = st\<lparr>st_disk_pending := st_disk_pending st + n\<rparr>"

definition add_in_flight :: "64 word \<Rightarrow> DbQueueStats \<Rightarrow> DbQueueStats" where
  "add_in_flight n st = st\<lparr>st_in_flight := st_in_flight st + n\<rparr>"

subsection \<open>The operations\<close>

text \<open>\<open>flush_insert\<close>: serialise the batch, dropping what does not serialise, and insert it.\<close>

fun serializable :: "('b DbMessage \<Rightarrow> 'p option) \<Rightarrow> 'b DbMessage list \<Rightarrow> ('b DbMessage \<times> 'p) list" where
  "serializable enc [] = []"
| "serializable enc (msg # batch) =
    (case enc msg of Some payload \<Rightarrow> (msg, payload) # serializable enc batch
     | None \<Rightarrow> serializable enc batch)"

definition flush_insert ::
  "('b DbMessage \<Rightarrow> 'p option) \<Rightarrow> bool \<Rightarrow> ('b, 'p) Spooler \<Rightarrow> ('b, 'p) Spooler" where
  "flush_insert enc ok s =
    (if q_insert_buf s = [] then s
     else let ser = serializable enc (q_insert_buf s);
              failed = length (q_insert_buf s) - length ser;
              s = on_stats (add_in_mem (- of_nat failed)) (s\<lparr>q_insert_buf := []\<rparr>)
          in if ser = [] then s
             else if ok then
               on_stats (add_disk (of_nat (length ser)) \<circ> add_in_mem (- of_nat (length ser)))
                 (s\<lparr>q_rows := q_rows s @ zip (map (\<lambda>i. q_next_id s + int i) [0..<length ser]) (map snd ser),
                    q_next_id := q_next_id s + int (length ser)\<rparr>)
             else s\<lparr>q_insert_buf := map fst ser\<rparr>)"

text \<open>\<open>delete_ids\<close>: the number of rows the statement removed, 0 when it failed.\<close>

definition delete_ids :: "bool \<Rightarrow> int list \<Rightarrow> (int \<times> 'p) list \<Rightarrow> nat \<times> (int \<times> 'p) list" where
  "delete_ids ok ids rows =
    (if ids = [] then (0, rows)
     else if ok then (length (filter (\<lambda>(i, _). i \<in> set ids) rows), filter (\<lambda>(i, _). i \<notin> set ids) rows)
     else (0, rows))"

text \<open>The send loop of \<open>pump_send\<close>, run twice: it stops on a full channel (the envelope goes back to
  the front) and on a closed one (the envelope is lost from memory). The flag says it ran dry.\<close>

fun send_loop :: "bool \<Rightarrow> 'b DbEnvelope list \<Rightarrow> 'b DbEnvelope list
    \<Rightarrow> bool \<times> nat \<times> 'b DbEnvelope list \<times> 'b DbEnvelope list" where
  "send_loop is_open [] chan = (True, 0, [], chan)"
| "send_loop is_open (env # rest) chan =
    (if \<not> is_open then (False, 0, rest, chan)
     else if length chan < DB_WRITER_CHANNEL_CAPACITY then
       (let (dry, sent, pend, chan') = send_loop is_open rest (chan @ [env]) in (dry, Suc sent, pend, chan'))
     else (False, 0, env # rest, chan))"

definition run_send_loop :: "('b, 'p) Spooler \<Rightarrow> bool \<times> ('b, 'p) Spooler" where
  "run_send_loop s =
    (let (dry, sent, pend, chan) = send_loop (q_chan_open s) (q_pending_send s) (q_chan s)
     in (dry, on_stats (add_in_flight (of_nat sent)) (s\<lparr>q_pending_send := pend, q_chan := chan\<rparr>)))"

definition accept_row :: "('p \<Rightarrow> 'b DbMessage option) \<Rightarrow> int \<times> 'p
    \<Rightarrow> ('b, 'p) Spooler \<times> int list \<Rightarrow> ('b, 'p) Spooler \<times> int list" where
  "accept_row dec row acc =
    (let (rid, payload) = row; (s, bad_ids) = acc in
     case dec payload of
       Some msg \<Rightarrow> (s\<lparr>q_pending_send := q_pending_send s @ [(rid, msg)], q_last_sent_id := rid\<rparr>, bad_ids)
     | None \<Rightarrow> (s\<lparr>q_last_sent_id := rid\<rparr>, bad_ids @ [rid]))"

definition fetch_rows :: "int \<Rightarrow> nat \<Rightarrow> (int \<times> 'p) list \<Rightarrow> (int \<times> 'p) list" where
  "fetch_rows last_sent limit rows = take limit (sort_key fst (filter (\<lambda>(i, _). i > last_sent) rows))"

definition drop_bad :: "bool \<Rightarrow> int list \<Rightarrow> ('b, 'p) Spooler \<Rightarrow> ('b, 'p) Spooler" where
  "drop_bad ok bad_ids s =
    (if bad_ids \<noteq> [] then
       (let (deleted, rows) = delete_ids ok bad_ids (q_rows s)
        in if deleted > 0 then on_stats (add_disk (- of_nat deleted)) (s\<lparr>q_rows := rows\<rparr>)
           else s\<lparr>q_rows := rows\<rparr>)
     else s)"

text \<open>\<open>pump_send\<close>; \<open>fetch_ok\<close> and \<open>del_ok\<close> are the outcomes of its two statements.\<close>

definition pump_send :: "('p \<Rightarrow> 'b DbMessage option) \<Rightarrow> bool \<Rightarrow> bool \<Rightarrow> ('b, 'p) Spooler \<Rightarrow> ('b, 'p) Spooler" where
  "pump_send dec fetch_ok del_ok s0 =
    (let (dry, s) = run_send_loop s0 in
     if \<not> dry then s
     else let capacity = DB_WRITER_CHANNEL_CAPACITY - length (q_chan s) in
     if capacity = 0 then s
     else if length (q_pending_send s) \<ge> DB_QUEUE_FETCH_BATCH then s
     else let fetch_limit = min (DB_QUEUE_FETCH_BATCH - length (q_pending_send s)) capacity in
     if fetch_limit = 0 then s
     else if \<not> fetch_ok then s
     else let rows = fetch_rows (q_last_sent_id s) fetch_limit (q_rows s) in
     if rows = [] then s
     else let (s, bad_ids) = fold (accept_row dec) rows (s, []) in
          snd (run_send_loop (drop_bad del_ok bad_ids s)))"

fun chunks :: "nat \<Rightarrow> 'a list \<Rightarrow> 'a list list" where
  "chunks n [] = []"
| "chunks n (x # xs) = take (max 1 n) (x # xs) # chunks n (drop (max 1 n) (x # xs))"

text \<open>One chunk of \<open>flush_ack\<close>; the pair holds the spooler and \<open>remaining\<close>.\<close>

definition ack_chunk :: "bool \<times> int list \<Rightarrow> ('b, 'p) Spooler \<times> int list \<Rightarrow> ('b, 'p) Spooler \<times> int list" where
  "ack_chunk okc acc =
    (let (ok, chunk) = okc; (s, remaining) = acc;
         (deleted, rows) = delete_ids ok chunk (q_rows s)
     in if deleted = 0 then (s\<lparr>q_rows := rows\<rparr>, remaining @ chunk)
        else (on_stats (add_disk (- of_nat deleted)) (s\<lparr>q_rows := rows\<rparr>), remaining))"

text \<open>\<open>flush_ack\<close>; \<open>oks i\<close> is the outcome of the delete statement of chunk \<open>i\<close>.\<close>

definition flush_ack :: "(nat \<Rightarrow> bool) \<Rightarrow> ('b, 'p) Spooler \<Rightarrow> ('b, 'p) Spooler" where
  "flush_ack oks s =
    (if q_ack_buf s = [] then s
     else let ids = remdups_adj (sort (q_ack_buf s));
              cs = chunks DB_QUEUE_ACK_BATCH ids;
              (s, remaining) = fold ack_chunk (zip (map oks [0..<length cs]) cs) (s\<lparr>q_ack_buf := []\<rparr>, [])
          in if remaining \<noteq> [] then s\<lparr>q_ack_buf := q_ack_buf s @ remaining\<rparr> else s)"

text \<open>The arms of the \<open>select!\<close> loop of \<open>run_db_spooler\<close>.\<close>

definition on_ingest ::
  "('b DbMessage \<Rightarrow> 'p option) \<Rightarrow> bool \<Rightarrow> 'b DbMessage \<Rightarrow> ('b, 'p) Spooler \<Rightarrow> ('b, 'p) Spooler" where
  "on_ingest enc ok msg s =
    (let s = on_stats (add_in_mem 1) (s\<lparr>q_insert_buf := q_insert_buf s @ [msg]\<rparr>)
     in if length (q_insert_buf s) \<ge> DB_QUEUE_INSERT_BATCH then flush_insert enc ok s else s)"

definition on_ack :: "(nat \<Rightarrow> bool) \<Rightarrow> int \<Rightarrow> ('b, 'p) Spooler \<Rightarrow> ('b, 'p) Spooler" where
  "on_ack oks ack_id s =
    (let s = on_stats (add_in_flight (- 1)) (s\<lparr>q_ack_buf := q_ack_buf s @ [ack_id]\<rparr>)
     in if length (q_ack_buf s) \<ge> DB_QUEUE_ACK_BATCH then flush_ack oks s else s)"


subsection \<open>What each operation does\<close>

lemma on_stats_frame [simp]:
  "q_insert_buf (on_stats f s) = q_insert_buf s" "q_pending_send (on_stats f s) = q_pending_send s"
  "q_ack_buf (on_stats f s) = q_ack_buf s" "q_last_sent_id (on_stats f s) = q_last_sent_id s"
  "q_rows (on_stats f s) = q_rows s" "q_next_id (on_stats f s) = q_next_id s"
  "q_chan (on_stats f s) = q_chan s" "q_chan_open (on_stats f s) = q_chan_open s"
  "q_stats (on_stats f s) = f (q_stats s)"
  by (simp_all add: on_stats_def)

lemma stats_simps [simp]:
  "st_in_mem (add_in_mem n st) = st_in_mem st + n" "st_disk_pending (add_in_mem n st) = st_disk_pending st"
  "st_in_flight (add_in_mem n st) = st_in_flight st" "st_in_mem (add_disk n st) = st_in_mem st"
  "st_disk_pending (add_disk n st) = st_disk_pending st + n" "st_in_flight (add_disk n st) = st_in_flight st"
  "st_in_mem (add_in_flight n st) = st_in_mem st"
  "st_disk_pending (add_in_flight n st) = st_disk_pending st"
  "st_in_flight (add_in_flight n st) = st_in_flight st + n"
  by (simp_all add: add_in_mem_def add_disk_def add_in_flight_def)

lemma length_serializable: "length (serializable enc ms) \<le> length ms"
  by (induction ms) (auto split: option.splits)

lemma set_serializable: "set (serializable enc ms) = {(m, p). m \<in> set ms \<and> enc m = Some p}"
  by (induction ms) (auto split: option.splits)

text \<open>The part of the spooler that the counters of memory and disk describe.\<close>

definition counters_ok :: "('b, 'p) Spooler \<Rightarrow> bool" where
  "counters_ok s \<longleftrightarrow> st_in_mem (q_stats s) = of_nat (length (q_insert_buf s)) \<and>
     st_disk_pending (q_stats s) = of_nat (length (q_rows s))"

text \<open>The fields that the sending side owns, and those that the inserting side owns.\<close>

definition same_send :: "('b, 'p) Spooler \<Rightarrow> ('b, 'p) Spooler \<Rightarrow> bool" where
  "same_send s t \<longleftrightarrow> q_pending_send t = q_pending_send s \<and> q_last_sent_id t = q_last_sent_id s \<and>
     q_chan t = q_chan s \<and> q_chan_open t = q_chan_open s \<and>
     st_in_flight (q_stats t) = st_in_flight (q_stats s)"

definition same_insert :: "('b, 'p) Spooler \<Rightarrow> ('b, 'p) Spooler \<Rightarrow> bool" where
  "same_insert s t \<longleftrightarrow> q_insert_buf t = q_insert_buf s \<and> q_next_id t = q_next_id s \<and>
     st_in_mem (q_stats t) = st_in_mem (q_stats s) \<and> q_chan_open t = q_chan_open s"

text \<open>What an insert adds: rows with the next ids, for messages that leave the buffer.\<close>

definition inserted :: "('b DbMessage \<Rightarrow> 'p option) \<Rightarrow> ('b, 'p) Spooler \<Rightarrow> ('b, 'p) Spooler \<Rightarrow> (int \<times> 'p) list \<Rightarrow> bool" where
  "inserted enc s t new \<longleftrightarrow> q_rows t = q_rows s @ new \<and> q_next_id t = q_next_id s + int (length new) \<and>
     map fst new = map (\<lambda>i. q_next_id s + int i) [0..<length new] \<and>
     (\<forall>m\<in>set (q_insert_buf s). \<forall>p. enc m = Some p \<longrightarrow> m \<in> set (q_insert_buf t) \<or> p \<in> snd ` set new)"

lemma flush_insert_effect:
  "same_send s (flush_insert enc ok s)" "q_ack_buf (flush_insert enc ok s) = q_ack_buf s"
  "counters_ok s \<Longrightarrow> counters_ok (flush_insert enc ok s)"
  "\<exists>new. inserted enc s (flush_insert enc ok s) new"
proof -
  define ser where "ser = serializable enc (q_insert_buf s)"
  have len: "length ser \<le> length (q_insert_buf s)" unfolding ser_def by (rule length_serializable)
  have sset: "\<And>m p. m \<in> set (q_insert_buf s) \<Longrightarrow> enc m = Some p \<Longrightarrow> (m, p) \<in> set ser"
    unfolding ser_def by (simp add: set_serializable)
  have nset: "enc m = None" if "ser = []" "m \<in> set (q_insert_buf s)" for m
    using sset[OF that(2)] that(1) by (cases "enc m") auto
  show "same_send s (flush_insert enc ok s)" "q_ack_buf (flush_insert enc ok s) = q_ack_buf s"
    by (auto simp: flush_insert_def same_send_def Let_def)
  show "counters_ok (flush_insert enc ok s)" if "counters_ok s"
    using that len
    by (auto simp: flush_insert_def counters_ok_def Let_def of_nat_diff simp flip: ser_def)
  consider (none) "q_insert_buf s = [] \<or> ser = []" | (ok) "ser \<noteq> []" "q_insert_buf s \<noteq> []" ok
    | (fail) "ser \<noteq> []" "q_insert_buf s \<noteq> []" "\<not> ok" by blast
  then show "\<exists>new. inserted enc s (flush_insert enc ok s) new"
  proof cases
    case none
    then have "inserted enc s (flush_insert enc ok s) []"
      using nset by (auto simp: inserted_def flush_insert_def Let_def simp flip: ser_def)
    then show ?thesis ..
  next
    case ok
    define new where "new = zip (map (\<lambda>i. q_next_id s + int i) [0..<length ser]) (map snd ser)"
    have ln: "length new = length ser" "map fst new = map (\<lambda>i. q_next_id s + int i) [0..<length ser]"
      "map snd new = map snd ser" by (simp_all add: new_def)
    have "p \<in> snd ` set new" if "m \<in> set (q_insert_buf s)" "enc m = Some p" for m p
    proof -
      have "p \<in> set (map snd new)" unfolding ln(3) using sset[OF that] by force
      then show ?thesis by simp
    qed
    then have "inserted enc s (flush_insert enc ok s) new"
      using ok ln by (auto simp: inserted_def flush_insert_def Let_def simp flip: ser_def new_def)
    then show ?thesis ..
  next
    case fail
    then have "inserted enc s (flush_insert enc ok s) []"
      using sset by (force simp: inserted_def flush_insert_def Let_def simp flip: ser_def)
    then show ?thesis ..
  qed
qed

lemma on_ingest_effect:
  "same_send s (on_ingest enc ok m s)" "q_ack_buf (on_ingest enc ok m s) = q_ack_buf s"
  "counters_ok s \<Longrightarrow> counters_ok (on_ingest enc ok m s)"
  "\<exists>new. inserted enc (s\<lparr>q_insert_buf := q_insert_buf s @ [m]\<rparr>) (on_ingest enc ok m s) new"
proof -
  define s1 where "s1 = on_stats (add_in_mem 1) (s\<lparr>q_insert_buf := q_insert_buf s @ [m]\<rparr>)"
  have e: "on_ingest enc ok m s
      = (if length (q_insert_buf s1) \<ge> DB_QUEUE_INSERT_BATCH then flush_insert enc ok s1 else s1)"
    by (simp add: on_ingest_def s1_def Let_def)
  have s1: "same_send s s1" "q_ack_buf s1 = q_ack_buf s" "counters_ok s \<Longrightarrow> counters_ok s1"
    by (simp_all add: s1_def same_send_def counters_ok_def)
  have i1: "inserted enc s1 t new
      \<longleftrightarrow> inserted enc (s\<lparr>q_insert_buf := q_insert_buf s @ [m]\<rparr>) t new" for t new
    by (simp add: inserted_def s1_def)
  have refl: "inserted enc s1 s1 []" by (simp add: inserted_def)
  note f = flush_insert_effect[where s = s1 and enc = enc and ok = ok]
  show "same_send s (on_ingest enc ok m s)" using s1(1) f(1) by (auto simp: e same_send_def)
  show "q_ack_buf (on_ingest enc ok m s) = q_ack_buf s" using s1(2) f(2) by (simp add: e)
  show "counters_ok s \<Longrightarrow> counters_ok (on_ingest enc ok m s)" using s1(3) f(3) by (simp add: e)
  show "\<exists>new. inserted enc (s\<lparr>q_insert_buf := q_insert_buf s @ [m]\<rparr>) (on_ingest enc ok m s) new"
    using f(4) refl unfolding i1[symmetric] by (auto simp: e)
qed

text \<open>Deleting: which rows stay, and how many go.\<close>

lemma delete_ids_effect:
  assumes "delete_ids ok ids rows = (n, rows')"
  shows "length rows = length rows' + n" and "set rows' \<subseteq> set rows"
    and "\<forall>(i, p)\<in>set rows - set rows'. i \<in> set ids" and "subseq rows' rows"
proof -
  have "rows' = rows \<and> n = 0 \<or>
      rows' = filter (\<lambda>(i, _). i \<notin> set ids) rows \<and> n = length (filter (\<lambda>(i, _). i \<in> set ids) rows)"
    using assms by (auto simp: delete_ids_def split: if_splits)
  then show "length rows = length rows' + n" "set rows' \<subseteq> set rows"
    "\<forall>(i, p)\<in>set rows - set rows'. i \<in> set ids" "subseq rows' rows"
    using sum_length_filter_compl[of "\<lambda>(i, _). i \<in> set ids" rows]
    by (auto simp: case_prod_unfold subseq_filter_left)
qed

definition removed :: "('b, 'p) Spooler \<Rightarrow> ('b, 'p) Spooler \<Rightarrow> int set \<Rightarrow> bool" where
  "removed s t ids \<longleftrightarrow> subseq (q_rows t) (q_rows s) \<and> (\<forall>(i, p)\<in>set (q_rows s) - set (q_rows t). i \<in> ids)"

lemma removed_refl: "q_rows t = q_rows s \<Longrightarrow> removed s t ids"
  by (simp add: removed_def)

lemma removed_trans: "removed s t ids \<Longrightarrow> removed t u ids \<Longrightarrow> removed s u ids"
  unfolding removed_def by (auto intro: subseq_order.trans)

lemma removed_mono: "removed s t ids \<Longrightarrow> ids \<subseteq> ids' \<Longrightarrow> removed s t ids'"
  unfolding removed_def by auto

lemma drop_bad_effect:
  "same_send s (drop_bad ok bad s)" "same_insert s (drop_bad ok bad s)"
  "q_ack_buf (drop_bad ok bad s) = q_ack_buf s"
  "counters_ok s \<Longrightarrow> counters_ok (drop_bad ok bad s)" "removed s (drop_bad ok bad s) (set bad)"
proof -
  obtain n rows where d: "delete_ids ok bad (q_rows s) = (n, rows)" by force
  note e = delete_ids_effect[OF d]
  show "same_send s (drop_bad ok bad s)" "same_insert s (drop_bad ok bad s)"
    "q_ack_buf (drop_bad ok bad s) = q_ack_buf s"
    by (auto simp: drop_bad_def same_send_def same_insert_def d)
  show "counters_ok s \<Longrightarrow> counters_ok (drop_bad ok bad s)"
    using e(1) by (auto simp: drop_bad_def counters_ok_def d)
  show "removed s (drop_bad ok bad s) (set bad)"
    using e(3,4) by (auto simp: drop_bad_def removed_def d)
qed

lemma ack_chunk_effect:
  assumes "ack_chunk (ok, chunk) (s, rem) = (s', rem')"
  shows "same_send s s'" "same_insert s s'" "q_ack_buf s' = q_ack_buf s"
    "counters_ok s \<Longrightarrow> counters_ok s'" "removed s s' (set chunk)" "set rem' \<subseteq> set rem \<union> set chunk"
proof -
  obtain n rows where d: "delete_ids ok chunk (q_rows s) = (n, rows)" by force
  note e = delete_ids_effect[OF d]
  have s': "s' = (if n = 0 then s\<lparr>q_rows := rows\<rparr> else on_stats (add_disk (- of_nat n)) (s\<lparr>q_rows := rows\<rparr>))"
    and r: "rem' = (if n = 0 then rem @ chunk else rem)"
    using assms by (auto simp: ack_chunk_def d split: if_splits)
  show "same_send s s'" "same_insert s s'" "q_ack_buf s' = q_ack_buf s"
    by (auto simp: s' same_send_def same_insert_def)
  show "counters_ok s \<Longrightarrow> counters_ok s'" using e(1) by (auto simp: s' counters_ok_def)
  show "removed s s' (set chunk)" using e(3,4) by (auto simp: s' removed_def)
  show "set rem' \<subseteq> set rem \<union> set chunk" by (auto simp: r)
qed

lemma same_trans:
  "same_send s t \<Longrightarrow> same_send t u \<Longrightarrow> same_send s u"
  "same_insert s t \<Longrightarrow> same_insert t u \<Longrightarrow> same_insert s u"
  by (simp_all add: same_send_def same_insert_def)

lemma fold_ack_chunk_effect:
  assumes "fold ack_chunk ocs (s, rem) = (s', rem')"
  shows "same_send s s' \<and> same_insert s s' \<and> q_ack_buf s' = q_ack_buf s \<and>
    (counters_ok s \<longrightarrow> counters_ok s') \<and> removed s s' (\<Union>(set ` snd ` set ocs)) \<and>
    set rem' \<subseteq> set rem \<union> (\<Union>(set ` snd ` set ocs))"
  using assms
proof (induction ocs arbitrary: s rem)
  case Nil
  then show ?case by (simp add: same_send_def same_insert_def removed_refl)
next
  case (Cons oc ocs)
  obtain ok chunk where oc: "oc = (ok, chunk)" by force
  obtain s1 rem1 where st: "ack_chunk (ok, chunk) (s, rem) = (s1, rem1)" by force
  note e = ack_chunk_effect[OF st]
  have IH: "same_send s1 s' \<and> same_insert s1 s' \<and> q_ack_buf s' = q_ack_buf s1 \<and>
    (counters_ok s1 \<longrightarrow> counters_ok s') \<and> removed s1 s' (\<Union>(set ` snd ` set ocs)) \<and>
    set rem' \<subseteq> set rem1 \<union> (\<Union>(set ` snd ` set ocs))"
    using Cons.prems by (intro Cons.IH) (simp add: oc st)
  have r1: "removed s s1 (set chunk \<union> \<Union>(set ` snd ` set ocs))"
    by (rule removed_mono[OF e(5)]) simp
  have r2: "removed s1 s' (set chunk \<union> \<Union>(set ` snd ` set ocs))"
    by (rule removed_mono[of s1 s' "\<Union>(set ` snd ` set ocs)"]) (use IH in simp_all)
  have u: "\<Union>(set ` snd ` set (oc # ocs)) = set chunk \<union> \<Union>(set ` snd ` set ocs)" by (simp add: oc)
  have "set rem' \<subseteq> set rem \<union> (set chunk \<union> \<Union>(set ` snd ` set ocs))"
    using IH e(6) by blast
  moreover have "same_send s s'" "same_insert s s'" using e(1,2) IH by (blast intro: same_trans)+
  ultimately show ?case
    unfolding u using removed_trans[OF r1 r2] e(3,4) IH by simp
qed

lemma concat_chunks: "concat (chunks n xs) = xs"
  by (induction n xs rule: chunks.induct) (simp_all del: take_Suc_Cons drop_Suc_Cons)

lemma flush_ack_effect:
  "same_send s (flush_ack oks s)" "same_insert s (flush_ack oks s)"
  "counters_ok s \<Longrightarrow> counters_ok (flush_ack oks s)" "removed s (flush_ack oks s) (set (q_ack_buf s))"
  "set (q_ack_buf (flush_ack oks s)) \<subseteq> set (q_ack_buf s)"
proof -
  define cs where "cs = chunks DB_QUEUE_ACK_BATCH (remdups_adj (sort (q_ack_buf s)))"
  have "\<Union>(set ` set cs) = set (concat cs)" by simp
  also have "\<dots> = set (q_ack_buf s)" by (simp add: cs_def concat_chunks)
  finally have cset: "\<Union>(set ` set cs) = set (q_ack_buf s)" .
  obtain s1 rem where f: "fold ack_chunk (zip (map oks [0..<length cs]) cs) (s\<lparr>q_ack_buf := []\<rparr>, []) = (s1, rem)"
    by force
  have "map snd (zip (map oks [0..<length cs]) cs) = cs" by simp
  then have "snd ` set (zip (map oks [0..<length cs]) cs) = set cs" by (metis set_map)
  with fold_ack_chunk_effect[OF f] cset have e: "same_send s s1" "same_insert s s1"
    "q_ack_buf s1 = []" "counters_ok s \<Longrightarrow> counters_ok s1" "removed s s1 (set (q_ack_buf s))"
    "set rem \<subseteq> set (q_ack_buf s)"
    by (auto simp: same_send_def same_insert_def counters_ok_def removed_def)
  have fa: "flush_ack oks s = (if q_ack_buf s = [] then s
      else if rem \<noteq> [] then s1\<lparr>q_ack_buf := rem\<rparr> else s1)"
    using f e(3) by (simp add: flush_ack_def Let_def flip: cs_def)
  show "same_send s (flush_ack oks s)" "same_insert s (flush_ack oks s)"
    using e(1,2) by (auto simp: fa same_send_def same_insert_def)
  show "counters_ok s \<Longrightarrow> counters_ok (flush_ack oks s)" using e(4) by (auto simp: fa counters_ok_def)
  show "removed s (flush_ack oks s) (set (q_ack_buf s))" using e(5) by (auto simp: fa removed_def)
  show "set (q_ack_buf (flush_ack oks s)) \<subseteq> set (q_ack_buf s)" using e(3,6) by (auto simp: fa)
qed

subsection \<open>The send side\<close>

lemma send_loop_effect:
  "send_loop op pend chan = (dry, n, pend', chan') \<Longrightarrow> length chan \<le> DB_WRITER_CHANNEL_CAPACITY \<Longrightarrow>
    \<exists>ts. chan' = chan @ ts \<and> length ts = n \<and> subseq (ts @ pend') pend \<and>
      length chan' \<le> DB_WRITER_CHANNEL_CAPACITY"
proof (induction op pend chan arbitrary: n dry pend' chan' rule: send_loop.induct)
  case (1 op chan)
  then show ?case by auto
next
  case (2 op env rest chan)
  show ?case
  proof (cases "op \<and> length chan < DB_WRITER_CHANNEL_CAPACITY")
    case True
    then obtain n1 where r: "send_loop op rest (chan @ [env]) = (dry, n1, pend', chan')" "n = Suc n1"
      using 2(2) by (auto split: prod.splits)
    have "length (chan @ [env]) \<le> DB_WRITER_CHANNEL_CAPACITY" using True by simp
    from 2(1)[OF _ _ r(1) this] True obtain ts where ts: "chan' = (chan @ [env]) @ ts" "length ts = n1"
      "subseq (ts @ pend') rest" "length chan' \<le> DB_WRITER_CHANNEL_CAPACITY" by auto
    have "chan' = chan @ (env # ts) \<and> length (env # ts) = n \<and> subseq ((env # ts) @ pend') (env # rest)"
      using ts r(2) by simp
    with ts(4) show ?thesis by blast
  next
    case False
    with 2(2,3) have "chan' = chan \<and> n = 0 \<and> (pend' = rest \<or> pend' = env # rest)"
      by (auto split: if_splits)
    with 2(3) show ?thesis by (intro exI[of _ "[]"]) (auto intro: list_emb_Cons)
  qed
qed

text \<open>What a sending step may do: it appends to the channel, in order, envelopes that were pending or
  are decoded from newer rows, and it removes only rows whose payload does not decode.\<close>

definition sends :: "('p \<Rightarrow> 'b DbMessage option) \<Rightarrow> ('b, 'p) Spooler \<Rightarrow> ('b, 'p) Spooler
    \<Rightarrow> 'b DbEnvelope list \<Rightarrow> 'b DbEnvelope list \<Rightarrow> bool" where
  "sends dec s t new ts \<longleftrightarrow> same_insert s t \<and> q_ack_buf t = q_ack_buf s \<and>
     (counters_ok s \<longrightarrow> counters_ok t) \<and>
     removed s t {i. \<exists>p. (i, p) \<in> set (q_rows s) \<and> dec p = None} \<and>
     q_chan t = q_chan s @ ts \<and> length (q_chan t) \<le> DB_WRITER_CHANNEL_CAPACITY \<and>
     st_in_flight (q_stats t) = st_in_flight (q_stats s) + of_nat (length ts) \<and>
     subseq (ts @ q_pending_send t) (q_pending_send s @ new) \<and>
     (\<forall>(i, m)\<in>set new. \<exists>p. (i, p) \<in> set (q_rows s) \<and> dec p = Some m) \<and>
     sorted_wrt (<) (map fst new) \<and> (\<forall>i\<in>fst ` set new. q_last_sent_id s < i \<and> i \<le> q_last_sent_id t) \<and>
     q_last_sent_id s \<le> q_last_sent_id t \<and>
     (q_last_sent_id t = q_last_sent_id s \<or> q_last_sent_id t \<in> fst ` set (q_rows s))"

lemma run_send_loop_effect:
  assumes "run_send_loop s = (dry, t)" "length (q_chan s) \<le> DB_WRITER_CHANNEL_CAPACITY"
  shows "\<exists>ts. sends dec s t [] ts \<and> q_rows t = q_rows s \<and> q_last_sent_id t = q_last_sent_id s"
proof -
  obtain n pend chan where l: "send_loop (q_chan_open s) (q_pending_send s) (q_chan s) = (dry, n, pend, chan)"
    using assms(1) by (auto simp: run_send_loop_def split: prod.splits)
  then have t: "t = on_stats (add_in_flight (of_nat n)) (s\<lparr>q_pending_send := pend, q_chan := chan\<rparr>)"
    using assms(1) by (simp add: run_send_loop_def)
  from send_loop_effect[OF l assms(2)] obtain ts where "chan = q_chan s @ ts" "length ts = n"
    "subseq (ts @ pend) (q_pending_send s)" "length chan \<le> DB_WRITER_CHANNEL_CAPACITY" by blast
  then show ?thesis
    by (intro exI[of _ ts]) (simp add: sends_def t same_insert_def counters_ok_def removed_refl)
qed

lemma fold_accept_row:
  assumes "fold (accept_row dec) rows (s, bad) = (t, bad')"
  shows "same_insert s t \<and> q_ack_buf t = q_ack_buf s \<and> q_rows t = q_rows s \<and> q_chan t = q_chan s \<and>
    q_stats t = q_stats s \<and>
    q_pending_send t = q_pending_send s @
      List.map_filter (\<lambda>(i, p). map_option (\<lambda>m. (i, m)) (dec p)) rows \<and>
    q_last_sent_id t = (if rows = [] then q_last_sent_id s else fst (last rows)) \<and>
    set bad' = set bad \<union> {i. \<exists>p. (i, p) \<in> set rows \<and> dec p = None}"
  using assms
proof (induction rows arbitrary: s bad)
  case Nil
  then show ?case by (simp add: same_insert_def map_filter_def)
next
  case (Cons r rows)
  obtain i p where r: "r = (i, p)" by force
  show ?case
  proof (cases "dec p")
    case None
    have "accept_row dec r (s, bad) = (s\<lparr>q_last_sent_id := i\<rparr>, bad @ [i])"
      by (simp add: accept_row_def r None)
    then have "fold (accept_row dec) rows (s\<lparr>q_last_sent_id := i\<rparr>, bad @ [i]) = (t, bad')"
      using Cons.prems by simp
    from Cons.IH[OF this] show ?thesis
      by (auto simp: r None same_insert_def map_filter_def)
  next
    case (Some m)
    have "accept_row dec r (s, bad)
        = (s\<lparr>q_pending_send := q_pending_send s @ [(i, m)], q_last_sent_id := i\<rparr>, bad)"
      by (simp add: accept_row_def r Some)
    then have "fold (accept_row dec) rows
        (s\<lparr>q_pending_send := q_pending_send s @ [(i, m)], q_last_sent_id := i\<rparr>, bad) = (t, bad')"
      using Cons.prems by simp
    from Cons.IH[OF this] show ?thesis
      by (auto simp: r Some same_insert_def map_filter_def)
  qed
qed

lemma fetch_rows_effect:
  assumes "sorted_wrt (<) (map fst rows)"
  shows "set (fetch_rows l n rows) \<subseteq> set rows" and "sorted_wrt (<) (map fst (fetch_rows l n rows))"
    and "\<forall>i\<in>fst ` set (fetch_rows l n rows). l < i"
proof -
  define f where "f = filter (\<lambda>(i, _). i > l) rows"
  have s: "sorted_wrt (<) (map fst f)"
    using assms unfolding f_def by (induction rows) (auto simp: sorted_wrt_append)
  then have "sorted (map fst f)" by (simp add: strict_sorted_iff)
  then have "sort_key fst f = f" by (rule sort_key_id_if_sorted)
  then have e: "fetch_rows l n rows = take n f" by (simp add: fetch_rows_def f_def)
  have sub: "set (take n f) \<subseteq> set f" by (rule set_take_subset)
  show "set (fetch_rows l n rows) \<subseteq> set rows" using sub unfolding e f_def by auto
  show "sorted_wrt (<) (map fst (fetch_rows l n rows))"
    unfolding e take_map[symmetric] using s by (rule sorted_wrt_take)
  show "\<forall>i\<in>fst ` set (fetch_rows l n rows). l < i" using sub unfolding e f_def by auto
qed

lemma sends_after_loop:
  assumes "sends dec s t [] ts" "sends dec t u new us" "q_rows t = q_rows s" "q_last_sent_id t = q_last_sent_id s"
  shows "sends dec s u new (ts @ us)"
proof -
  have "subseq (ts @ (us @ q_pending_send u)) (ts @ (q_pending_send t @ new))"
    using assms(2) by (simp add: sends_def subseq_append')
  also have "subseq ((ts @ q_pending_send t) @ new) (q_pending_send s @ new)"
    using assms(1) by (intro list_emb_append_mono) (simp_all add: sends_def)
  then have "subseq (ts @ (q_pending_send t @ new)) (q_pending_send s @ new)" by simp
  finally have "subseq ((ts @ us) @ q_pending_send u) (q_pending_send s @ new)" by simp
  with assms show ?thesis
    unfolding sends_def by (auto simp: same_insert_def removed_def add.assoc)
qed

lemma sorted_fst_le_last:
  fixes rows :: "(int \<times> 'p) list"
  assumes "sorted_wrt (<) (map fst rows)" "(i, p) \<in> set rows"
  shows "i \<le> fst (last rows)"
  using assms
proof (induction rows rule: rev_induct)
  case (snoc r rows)
  then show ?case by (force simp: sorted_wrt_append)
qed simp

lemma sorted_map_filter_rows:
  assumes "sorted_wrt (<) (map fst rows)"
  shows "sorted_wrt (<) (map fst (List.map_filter (\<lambda>(i, p). map_option (\<lambda>m. (i, m)) (dec p)) rows))"
  using assms
proof (induction rows)
  case Nil
  then show ?case by (simp add: map_filter_def)
next
  case (Cons r rows)
  obtain i p where r: "r = (i, p)" by force
  have "fst ` set (List.map_filter (\<lambda>(i, p). map_option (\<lambda>m. (i, m)) (dec p)) rows) \<subseteq> fst ` set rows"
    by (force simp: map_filter_def)
  with Cons show ?case by (cases "dec p") (fastforce simp: r map_filter_def)+
qed

lemma send_batch_effect:
  assumes rows: "rows = fetch_rows (q_last_sent_id s) n (q_rows s)" "rows \<noteq> []"
    and acc: "fold (accept_row dec) rows (s, []) = (t, bad)"
    and sorted: "sorted_wrt (<) (map fst (q_rows s))" and cap: "length (q_chan s) \<le> DB_WRITER_CHANNEL_CAPACITY"
  shows "\<exists>new ts. sends dec s (snd (run_send_loop (drop_bad del_ok bad t))) new ts"
proof -
  define new where "new = List.map_filter (\<lambda>(i, p). map_option (\<lambda>m. (i, m)) (dec p)) rows"
  define d where "d = drop_bad del_ok bad t"
  note fr = fetch_rows_effect[OF sorted, of "q_last_sent_id s" n, folded rows(1)]
  note a = fold_accept_row[OF acc, folded new_def]
  note db = drop_bad_effect[where ok = del_ok and bad = bad and s = t, folded d_def]
  obtain dry u where l: "run_send_loop d = (dry, u)" by force
  have "length (q_chan d) \<le> DB_WRITER_CHANNEL_CAPACITY" using a db(1) cap by (simp add: same_send_def)
  from run_send_loop_effect[OF l this] obtain ts where
    ts: "sends dec d u [] ts" "q_rows u = q_rows d" "q_last_sent_id u = q_last_sent_id d" by blast
  have bad: "set bad \<subseteq> {i. \<exists>p. (i, p) \<in> set (q_rows s) \<and> dec p = None}" using a fr(1) by auto
  have lastid: "q_last_sent_id u = fst (last rows)" using ts(3) db(1) a rows(2) by (simp add: same_send_def)
  have "last rows \<in> set rows" using rows(2) by simp
  then have lr: "fst (last rows) \<in> fst ` set (q_rows s)" "q_last_sent_id s < fst (last rows)"
    using fr(1,3) by auto
  have new: "\<forall>(i, m)\<in>set new. \<exists>p. (i, p) \<in> set rows \<and> dec p = Some m" by (force simp: new_def map_filter_def)
  have ids: "q_last_sent_id s < i \<and> i \<le> q_last_sent_id u" if im: "i \<in> fst ` set new" for i
  proof -
    from im new obtain p where p: "(i, p) \<in> set rows" by fastforce
    then have "q_last_sent_id s < i" using fr(3) by force
    with sorted_fst_le_last[OF fr(2) p] show ?thesis by (simp add: lastid)
  qed
  have "sorted_wrt (<) (map fst new)" unfolding new_def by (rule sorted_map_filter_rows[OF fr(2)])
  moreover have "removed s u {i. \<exists>p. (i, p) \<in> set (q_rows s) \<and> dec p = None}"
    using removed_mono[OF db(5) bad] a unfolding removed_def ts(2) by simp
  moreover have "same_insert s t" "same_insert t d" "same_insert d u"
    using a db(2) ts(1) unfolding sends_def by blast+
  then have "same_insert s u" by (simp add: same_insert_def)
  moreover have "counters_ok s \<longrightarrow> counters_ok u"
    using db(4) ts(1) conjunct1[OF a] a by (auto simp: sends_def counters_ok_def same_insert_def)
  moreover have "\<forall>(i, m)\<in>set new. \<exists>p. (i, p) \<in> set (q_rows s) \<and> dec p = Some m" using new fr(1) by fast
  moreover have "subseq (ts @ q_pending_send u) (q_pending_send s @ new)"
    using ts(1) a db(1) by (simp add: sends_def same_send_def)
  moreover have "length (q_chan u) \<le> DB_WRITER_CHANNEL_CAPACITY" using ts(1) unfolding sends_def by blast
  moreover have "q_ack_buf u = q_ack_buf s" "q_chan u = q_chan s @ ts"
    "st_in_flight (q_stats u) = st_in_flight (q_stats s) + of_nat (length ts)"
    using ts(1) a db(1,3) by (simp_all add: sends_def same_send_def)
  moreover have "\<forall>i\<in>fst ` set new. q_last_sent_id s < i \<and> i \<le> q_last_sent_id u" using ids by blast
  moreover have "q_last_sent_id s \<le> q_last_sent_id u" using lr(2) lastid by simp
  moreover have "q_last_sent_id u = q_last_sent_id s \<or> q_last_sent_id u \<in> fst ` set (q_rows s)"
    using lr(1) lastid by simp
  ultimately have "sends dec s u new ts"
    unfolding sends_def by (intro conjI) assumption+
  then show ?thesis unfolding d_def[symmetric] l by auto
qed

lemma pump_send_effect:
  assumes sorted: "sorted_wrt (<) (map fst (q_rows s))" and cap: "length (q_chan s) \<le> DB_WRITER_CHANNEL_CAPACITY"
  shows "\<exists>new ts. sends dec s (pump_send dec fetch_ok del_ok s) new ts"
proof -
  obtain dry t where l: "run_send_loop s = (dry, t)" by force
  from run_send_loop_effect[OF l cap] obtain ts where
    ts: "sends dec s t [] ts" "q_rows t = q_rows s" "q_last_sent_id t = q_last_sent_id s" by blast
  have st: "sorted_wrt (<) (map fst (q_rows t))" using sorted ts(2) by simp
  have ct: "length (q_chan t) \<le> DB_WRITER_CHANNEL_CAPACITY" using ts(1) unfolding sends_def by blast
  show ?thesis
  proof (cases "pump_send dec fetch_ok del_ok s = t")
    case True
    then show ?thesis using ts(1) by auto
  next
    case False
    define lim where "lim = min (DB_QUEUE_FETCH_BATCH - length (q_pending_send t))
      (DB_WRITER_CHANNEL_CAPACITY - length (q_chan t))"
    define rows where "rows = fetch_rows (q_last_sent_id t) lim (q_rows t)"
    obtain u bad where acc: "fold (accept_row dec) rows (t, []) = (u, bad)" by force
    have p: "pump_send dec fetch_ok del_ok s =
      (if \<not> dry then t
       else if DB_WRITER_CHANNEL_CAPACITY - length (q_chan t) = 0 then t
       else if length (q_pending_send t) \<ge> DB_QUEUE_FETCH_BATCH then t
       else if lim = 0 then t else if \<not> fetch_ok then t else if rows = [] then t
       else snd (run_send_loop (drop_bad del_ok bad u)))"
      by (simp only: pump_send_def l Let_def prod.case lim_def[symmetric] rows_def[symmetric] acc)
    have ne: "rows \<noteq> []" and e: "pump_send dec fetch_ok del_ok s = snd (run_send_loop (drop_bad del_ok bad u))"
      using False unfolding p by (simp_all only: simp_thms if_True if_False if_cancel split: if_splits)
    from send_batch_effect[OF rows_def ne acc st ct, of del_ok] obtain new us where
      "sends dec t (pump_send dec fetch_ok del_ok s) new us" unfolding e by blast
    from sends_after_loop[OF ts(1) this ts(2,3)] show ?thesis by blast
  qed
qed

end
