(* ===== verification/DbPipeline.thy ===== *)
theory DbPipeline
  imports DbQueue
begin

text \<open>
  The spooler task (\<open>run_db_spooler\<close>) and the writer task (\<open>run_db_writer\<close>) running concurrently
  over the SQLite table, the bounded writer channel and the acknowledgement channel that
  \<open>spawn_db_queue\<close> creates. One step is one arm of either task's \<open>select!\<close>, in any order and with
  any outcome of its statements, or a restart of the process, after which only the table and the
  committed rows are left. Three ghost components record history: the rows that were ever in the
  table, and, since the last start, the messages ingested and the envelopes sent.
\<close>

record ('b, 'p) QSys =
  y_spool :: "('b, 'p) Spooler"
  y_writer :: "'b Writer"
  y_acks :: "int list"
  y_ever :: "(int \<times> 'p) set"
  y_ingested :: "'b DbMessage list"
  y_sent :: "'b DbEnvelope list"

definition sys_init :: "('b, 'p) QSys" where
  "sys_init = \<lparr>y_spool = spawn_db_queue [] 1, y_writer = writer_new, y_acks = [], y_ever = {},
     y_ingested = [], y_sent = []\<rparr>"

definition set_spool :: "('b, 'p) Spooler \<Rightarrow> ('b, 'p) QSys \<Rightarrow> ('b, 'p) QSys" where
  "set_spool s y = y\<lparr>y_spool := s, y_ever := y_ever y \<union> set (q_rows s)\<rparr>"

definition sys_ingest ::
  "('b DbMessage \<Rightarrow> 'p option) \<Rightarrow> bool \<Rightarrow> 'b DbMessage \<Rightarrow> ('b, 'p) QSys \<Rightarrow> ('b, 'p) QSys" where
  "sys_ingest enc ok msg y =
    (set_spool (on_ingest enc ok msg (y_spool y)) y)\<lparr>y_ingested := y_ingested y @ [msg]\<rparr>"

fun sys_recv_ack :: "(nat \<Rightarrow> bool) \<Rightarrow> ('b, 'p) QSys \<Rightarrow> ('b, 'p) QSys" where
  "sys_recv_ack oks y = (case y_acks y of [] \<Rightarrow> y
     | ack_id # rest \<Rightarrow> (set_spool (on_ack oks ack_id (y_spool y)) y)\<lparr>y_acks := rest\<rparr>)"

definition sys_send_tick ::
  "('p \<Rightarrow> 'b DbMessage option) \<Rightarrow> bool \<Rightarrow> bool \<Rightarrow> ('b, 'p) QSys \<Rightarrow> ('b, 'p) QSys" where
  "sys_send_tick dec fetch_ok del_ok y =
    (let s = pump_send dec fetch_ok del_ok (y_spool y)
     in (set_spool s y)\<lparr>y_sent := y_sent y @ drop (length (q_chan (y_spool y))) (q_chan s)\<rparr>)"

fun sys_writer_recv :: "bool \<Rightarrow> bool \<Rightarrow> ('b, 'p) QSys \<Rightarrow> ('b, 'p) QSys" where
  "sys_writer_recv alpha ok y = (case q_chan (y_spool y) of [] \<Rightarrow> y
     | env # rest \<Rightarrow> (let (w, acks) = writer_recv alpha ok env (y_writer y)
         in y\<lparr>y_spool := (y_spool y)\<lparr>q_chan := rest\<rparr>, y_writer := w, y_acks := y_acks y @ acks\<rparr>))"

definition sys_writer_tick :: "bool \<Rightarrow> ('b, 'p) QSys \<Rightarrow> ('b, 'p) QSys" where
  "sys_writer_tick ok y = (let (w, acks) = writer_tick ok (y_writer y)
     in y\<lparr>y_writer := w, y_acks := y_acks y @ acks\<rparr>)"

definition sys_restart :: "('b, 'p) QSys \<Rightarrow> ('b, 'p) QSys" where
  "sys_restart y = y\<lparr>y_spool := spawn_db_queue (q_rows (y_spool y)) (q_next_id (y_spool y)),
     y_writer := writer_new\<lparr>w_committed := w_committed (y_writer y)\<rparr>, y_acks := [],
     y_ingested := [], y_sent := []\<rparr>"

inductive sys_step :: "('b DbMessage \<Rightarrow> 'p option) \<Rightarrow> ('p \<Rightarrow> 'b DbMessage option) \<Rightarrow> bool
    \<Rightarrow> ('b, 'p) QSys \<Rightarrow> ('b, 'p) QSys \<Rightarrow> bool" for enc dec alpha where
  ingest: "sys_step enc dec alpha y (sys_ingest enc ok msg y)"
| recv_ack: "sys_step enc dec alpha y (sys_recv_ack oks y)"
| insert_tick: "sys_step enc dec alpha y (set_spool (flush_insert enc ok (y_spool y)) y)"
| send_tick: "sys_step enc dec alpha y (sys_send_tick dec fetch_ok del_ok y)"
| ack_tick: "sys_step enc dec alpha y (set_spool (flush_ack oks (y_spool y)) y)"
| writer_recv: "sys_step enc dec alpha y (sys_writer_recv alpha ok y)"
| writer_tick: "sys_step enc dec alpha y (sys_writer_tick ok y)"
| restart: "sys_step enc dec alpha y (sys_restart y)"

inductive sys_reach :: "('b DbMessage \<Rightarrow> 'p option) \<Rightarrow> ('p \<Rightarrow> 'b DbMessage option) \<Rightarrow> bool
    \<Rightarrow> ('b, 'p) QSys \<Rightarrow> bool" for enc dec alpha where
  init: "sys_reach enc dec alpha sys_init"
| step: "sys_reach enc dec alpha y \<Longrightarrow> sys_step enc dec alpha y y' \<Longrightarrow> sys_reach enc dec alpha y'"

lemma set_spool_frame [simp]:
  "y_spool (set_spool s y) = s" "y_writer (set_spool s y) = y_writer y" "y_acks (set_spool s y) = y_acks y"
  "y_ever (set_spool s y) = y_ever y \<union> set (q_rows s)" "y_ingested (set_spool s y) = y_ingested y"
  "y_sent (set_spool s y) = y_sent y"
  by (simp_all add: set_spool_def)

lemma subseq_sorted_wrt: "subseq xs ys \<Longrightarrow> sorted_wrt R ys \<Longrightarrow> sorted_wrt R xs"
proof (induction rule: list_emb.induct)
  case (list_emb_Cons2 x y xs ys)
  then have "set xs \<subseteq> set ys" by (auto dest: list_emb_set)
  with list_emb_Cons2 show ?case by auto
qed simp_all

lemma subseq_set: "subseq xs ys \<Longrightarrow> set xs \<subseteq> set ys"
  by (auto dest: list_emb_set)

subsection \<open>What has happened to an archived row\<close>

text \<open>A row is settled when its payload does not decode, or its message is committed, or alpha
  capture is off and its kind is gated by it.\<close>

definition settled :: "('p \<Rightarrow> 'b DbMessage option) \<Rightarrow> bool \<Rightarrow> 'b Writer \<Rightarrow> int \<times> 'p \<Rightarrow> bool" where
  "settled dec alpha w row \<longleftrightarrow> (case row of (i, p) \<Rightarrow>
     (case dec p of None \<Rightarrow> True
      | Some m \<Rightarrow> (i, m) \<in> set (w_committed w) \<or> (\<not> alpha \<and> alpha_gated (fst m))))"

lemma settled_mono:
  "settled dec alpha w r \<Longrightarrow> set (w_committed w) \<subseteq> set (w_committed w') \<Longrightarrow> settled dec alpha w' r"
  by (auto simp: settled_def split: option.splits)

definition origin :: "('p \<Rightarrow> 'b DbMessage option) \<Rightarrow> (int \<times> 'p) set \<Rightarrow> 'b DbEnvelope \<Rightarrow> bool" where
  "origin dec ever env \<longleftrightarrow> (\<exists>p. (fst env, p) \<in> ever \<and> dec p = Some (snd env))"

lemma origin_mono: "origin dec ever e \<Longrightarrow> ever \<subseteq> ever' \<Longrightarrow> origin dec ever' e"
  by (auto simp: origin_def)

text \<open>The ids of the table and of the envelopes in memory are ascending and below the next id.\<close>

definition ids_inv :: "('b, 'p) QSys \<Rightarrow> bool" where
  "ids_inv y \<longleftrightarrow> (let s = y_spool y in
     sorted_wrt (<) (map fst (q_rows s)) \<and> set (q_rows s) \<subseteq> y_ever y \<and> inj_on fst (y_ever y) \<and>
     (\<forall>i\<in>fst ` y_ever y. 0 < i \<and> i < q_next_id s) \<and> 0 < q_next_id s \<and>
     length (q_chan s) \<le> DB_WRITER_CHANNEL_CAPACITY \<and>
     sorted_wrt (<) (map fst (y_sent y @ q_pending_send s)) \<and>
     (\<forall>e\<in>set (y_sent y @ q_pending_send s). fst e \<le> q_last_sent_id s))"

definition origin_inv :: "('p \<Rightarrow> 'b DbMessage option) \<Rightarrow> ('b, 'p) QSys \<Rightarrow> bool" where
  "origin_inv dec y \<longleftrightarrow> (\<forall>e\<in>set (q_pending_send (y_spool y)) \<union> set (q_chan (y_spool y)) \<union>
     set (staged (y_writer y)) \<union> set (w_committed (y_writer y)). origin dec (y_ever y) e)"

definition settle_inv :: "('p \<Rightarrow> 'b DbMessage option) \<Rightarrow> bool \<Rightarrow> ('b, 'p) QSys \<Rightarrow> bool" where
  "settle_inv dec alpha y \<longleftrightarrow>
     set (y_acks y) \<union> set (q_ack_buf (y_spool y)) \<subseteq> fst ` y_ever y \<and>
     (\<forall>(i, p)\<in>y_ever y. (i, p) \<in> set (q_rows (y_spool y)) \<or> settled dec alpha (y_writer y) (i, p)) \<and>
     (\<forall>(i, p)\<in>y_ever y. i \<in> set (y_acks y) \<union> set (q_ack_buf (y_spool y)) \<longrightarrow>
       settled dec alpha (y_writer y) (i, p))"

lemma settle_invI:
  assumes "\<And>i. i \<in> set (y_acks y) \<union> set (q_ack_buf (y_spool y)) \<Longrightarrow> i \<in> fst ` y_ever y"
    and "\<And>i p. (i, p) \<in> y_ever y \<Longrightarrow> (i, p) \<notin> set (q_rows (y_spool y)) \<Longrightarrow> settled dec alpha (y_writer y) (i, p)"
    and "\<And>i p. (i, p) \<in> y_ever y \<Longrightarrow> i \<in> set (y_acks y) \<union> set (q_ack_buf (y_spool y)) \<Longrightarrow>
      settled dec alpha (y_writer y) (i, p)"
  shows "settle_inv dec alpha y"
  using assms unfolding settle_inv_def by blast

lemma settle_invD:
  assumes "settle_inv dec alpha y"
  shows "i \<in> set (y_acks y) \<union> set (q_ack_buf (y_spool y)) \<Longrightarrow> i \<in> fst ` y_ever y"
    and "(i, p) \<in> y_ever y \<Longrightarrow> (i, p) \<notin> set (q_rows (y_spool y)) \<Longrightarrow> settled dec alpha (y_writer y) (i, p)"
    and "(i, p) \<in> y_ever y \<Longrightarrow> i \<in> set (y_acks y) \<union> set (q_ack_buf (y_spool y)) \<Longrightarrow>
      settled dec alpha (y_writer y) (i, p)"
  using assms unfolding settle_inv_def by blast+

definition count_inv :: "('b, 'p) QSys \<Rightarrow> bool" where
  "count_inv y \<longleftrightarrow> counters_ok (y_spool y) \<and> st_in_flight (q_stats (y_spool y)) =
     of_nat (length (q_chan (y_spool y)) + length (staged (y_writer y)) + length (y_acks y))"

definition ingest_inv :: "('b DbMessage \<Rightarrow> 'p option) \<Rightarrow> ('b, 'p) QSys \<Rightarrow> bool" where
  "ingest_inv enc y \<longleftrightarrow> (\<forall>m\<in>set (y_ingested y). \<forall>p. enc m = Some p \<longrightarrow>
     m \<in> set (q_insert_buf (y_spool y)) \<or> p \<in> snd ` y_ever y)"

definition sys_inv :: "('b DbMessage \<Rightarrow> 'p option) \<Rightarrow> ('p \<Rightarrow> 'b DbMessage option) \<Rightarrow> bool
    \<Rightarrow> ('b, 'p) QSys \<Rightarrow> bool" where
  "sys_inv enc dec alpha y \<longleftrightarrow>
     ids_inv y \<and> origin_inv dec y \<and> settle_inv dec alpha y \<and> count_inv y \<and> ingest_inv enc y"

lemma sys_inv_init: "sys_inv enc dec alpha sys_init"
  by (simp add: sys_inv_def ids_inv_def origin_inv_def settle_inv_def count_inv_def ingest_inv_def
      sys_init_def spawn_db_queue_def counters_ok_def writer_new_def[symmetric])
    (simp add: writer_new_def)


subsection \<open>Every step keeps the invariant\<close>

lemma inserted_ids:
  assumes "inserted enc s t new" "(i, p) \<in> set new"
  shows "q_next_id s \<le> i \<and> i < q_next_id t"
proof -
  have "i \<in> set (map fst new)" using assms(2) by force
  with assms(1) show ?thesis by (auto simp: inserted_def)
qed

lemma inserted_distinct:
  assumes "inserted enc s t new"
  shows "sorted_wrt (<) (map fst new)" and "inj_on fst (set new)"
proof -
  have "map fst new = map (\<lambda>i. q_next_id s + int i) [0..<length new]"
    using assms unfolding inserted_def by blast
  moreover have "sorted_wrt (<) (map (\<lambda>i. q_next_id s + int i) [0..<n])" for n
    by (simp add: sorted_wrt_map sorted_wrt_upt[THEN sorted_wrt_mono_rel[rotated]])
  ultimately show s: "sorted_wrt (<) (map fst new)" by metis
  then have "distinct (map fst new)" by (simp add: strict_sorted_iff)
  then show "inj_on fst (set new)" by (simp add: distinct_map)
qed

lemma sys_inv_insert:
  assumes inv: "sys_inv enc dec alpha y" and send: "same_send (y_spool y) t"
    and ack: "q_ack_buf t = q_ack_buf (y_spool y)" and cnt: "counters_ok t"
    and ins: "inserted enc ((y_spool y)\<lparr>q_insert_buf := B\<rparr>) t new"
    and I: "set I \<subseteq> set B \<union> set (y_ingested y)" and B: "set (q_insert_buf (y_spool y)) \<subseteq> set B"
  shows "sys_inv enc dec alpha ((set_spool t y)\<lparr>y_ingested := I\<rparr>)"
proof -
  define s where "s = y_spool y"
  define y' where "y' = (set_spool t y)\<lparr>y_ingested := I\<rparr>"
  have ids: "ids_inv y" and org: "origin_inv dec y" and stl: "settle_inv dec alpha y"
    and cin: "count_inv y" and ing: "ingest_inv enc y"
    using inv unfolding sys_inv_def by blast+
  have rows: "q_rows t = q_rows s @ new" and nid: "q_next_id t = q_next_id s + int (length new)"
    using ins by (simp_all add: inserted_def s_def)
  have nr: "\<And>i p. (i, p) \<in> set new \<Longrightarrow> q_next_id s \<le> i \<and> i < q_next_id t"
    using inserted_ids[OF ins] by (simp add: s_def)
  have old: "\<And>i p. (i, p) \<in> y_ever y \<Longrightarrow> 0 < i \<and> i < q_next_id s"
    using ids by (fastforce simp: ids_inv_def Let_def s_def)
  have sub: "set (q_rows s) \<subseteq> y_ever y" and pos: "0 < q_next_id s"
    and srt: "sorted_wrt (<) (map fst (q_rows s))" and inj: "inj_on fst (y_ever y)"
    using ids by (simp_all add: ids_inv_def Let_def s_def)
  have ever: "y_ever y' = y_ever y \<union> set new" using sub by (auto simp: y'_def rows)
  have sp: "y_spool y' = t" "y_writer y' = y_writer y" "y_acks y' = y_acks y" "y_sent y' = y_sent y"
    "y_ingested y' = I" by (simp_all add: y'_def)
  have snd: "q_pending_send t = q_pending_send s" "q_chan t = q_chan s" "q_last_sent_id t = q_last_sent_id s"
    "st_in_flight (q_stats t) = st_in_flight (q_stats s)"
    using send by (simp_all add: same_send_def s_def)
  have "ids_inv y'"
    unfolding ids_inv_def Let_def sp snd ever
  proof (intro conjI)
    show "sorted_wrt (<) (map fst (q_rows t))"
      using srt inserted_distinct(1)[OF ins] sub old nr by (fastforce simp: rows sorted_wrt_append)
    show "set (q_rows t) \<subseteq> y_ever y \<union> set new" using sub by (auto simp: rows)
    show "inj_on fst (y_ever y \<union> set new)"
      using inj inserted_distinct(2)[OF ins] old nr by (fastforce simp: inj_on_Un)
    show "\<forall>i\<in>fst ` (y_ever y \<union> set new). 0 < i \<and> i < q_next_id t"
      using old nr pos nid by fastforce
    show "0 < q_next_id t" using pos nid by simp
  qed (use ids in \<open>simp_all add: ids_inv_def Let_def s_def\<close>)
  moreover have "origin_inv dec y'"
    unfolding origin_inv_def sp snd using org by (auto simp: origin_inv_def s_def ever intro: origin_mono)
  moreover have "settle_inv dec alpha y'"
  proof -
    have acked: "i \<notin> set (y_acks y) \<union> set (q_ack_buf s)" if "(i, p) \<in> set new" for i p
    proof
      assume "i \<in> set (y_acks y) \<union> set (q_ack_buf s)"
      then have "i \<in> fst ` y_ever y" using settle_invD(1)[OF stl] by (simp add: s_def)
      with old nr[OF that] show False by fastforce
    qed
    show ?thesis
    proof (rule settle_invI)
      fix i
      assume "i \<in> set (y_acks y') \<union> set (q_ack_buf (y_spool y'))"
      then have "i \<in> fst ` y_ever y" using settle_invD(1)[OF stl] ack by (simp add: sp)
      then show "i \<in> fst ` y_ever y'" by (auto simp: ever)
    next
      fix i p
      assume e: "(i, p) \<in> y_ever y'" and r: "(i, p) \<notin> set (q_rows (y_spool y'))"
      then have "(i, p) \<in> y_ever y" "(i, p) \<notin> set (q_rows s)" by (auto simp: sp ever rows)
      then show "settled dec alpha (y_writer y') (i, p)" using settle_invD(2)[OF stl] by (simp add: sp s_def)
    next
      fix i p
      assume e: "(i, p) \<in> y_ever y'" and a: "i \<in> set (y_acks y') \<union> set (q_ack_buf (y_spool y'))"
      from a have a: "i \<in> set (y_acks y) \<union> set (q_ack_buf s)" by (simp add: sp ack s_def)
      with e acked have "(i, p) \<in> y_ever y" by (auto simp: ever)
      then show "settled dec alpha (y_writer y') (i, p)" using settle_invD(3)[OF stl] a by (simp add: sp s_def)
    qed
  qed
  moreover have "count_inv y'"
    using cin cnt by (simp add: count_inv_def sp snd s_def)
  moreover have "ingest_inv enc y'"
    unfolding ingest_inv_def sp ever
  proof (intro ballI allI impI)
    fix m p
    assume m: "m \<in> set I" and p: "enc m = Some p"
    have "m \<in> set B \<Longrightarrow> m \<in> set (q_insert_buf t) \<or> p \<in> snd ` set new"
      using ins p by (simp add: inserted_def)
    moreover have "m \<in> set (y_ingested y) \<Longrightarrow> m \<in> set B \<or> p \<in> snd ` y_ever y"
      using ing p B unfolding ingest_inv_def by blast
    ultimately show "m \<in> set (q_insert_buf t) \<or> p \<in> snd ` (y_ever y \<union> set new)" using m I by auto
  qed
  ultimately show ?thesis by (simp add: sys_inv_def y'_def)
qed


text \<open>A step of the acknowledging side: it removes only rows whose id was acknowledged.\<close>

lemma sys_inv_remove:
  assumes inv: "sys_inv enc dec alpha y" and send: "same_send (y_spool y) t"
    and same: "same_insert (y_spool y) t" and cnt: "counters_ok t"
    and rem: "removed (y_spool y) t (set (q_ack_buf (y_spool y)))"
    and ack: "set (q_ack_buf t) \<subseteq> set (q_ack_buf (y_spool y))"
  shows "sys_inv enc dec alpha (set_spool t y)"
proof -
  define s where "s = y_spool y"
  define y' where "y' = set_spool t y"
  have ids: "ids_inv y" and org: "origin_inv dec y" and stl: "settle_inv dec alpha y"
    and cin: "count_inv y" and ing: "ingest_inv enc y"
    using inv unfolding sys_inv_def by blast+
  have sub: "subseq (q_rows t) (q_rows s)" using rem by (simp add: removed_def s_def)
  have ever: "y_ever y' = y_ever y"
    using ids subseq_set[OF sub] by (auto simp: y'_def ids_inv_def Let_def s_def)
  have sp: "y_spool y' = t" "y_writer y' = y_writer y" "y_acks y' = y_acks y" "y_sent y' = y_sent y"
    "y_ingested y' = y_ingested y" by (simp_all add: y'_def)
  have fr: "q_pending_send t = q_pending_send s" "q_chan t = q_chan s" "q_last_sent_id t = q_last_sent_id s"
    "st_in_flight (q_stats t) = st_in_flight (q_stats s)" "q_insert_buf t = q_insert_buf s"
    "q_next_id t = q_next_id s"
    using send same by (simp_all add: same_send_def same_insert_def s_def)
  have "ids_inv y'"
    using ids subseq_set[OF sub] subseq_sorted_wrt[OF subseq_map[OF sub]]
    by (auto simp: ids_inv_def Let_def sp fr ever s_def)
  moreover have "origin_inv dec y'" using org by (simp add: origin_inv_def sp fr ever s_def)
  moreover have "settle_inv dec alpha y'"
  proof (rule settle_invI)
    fix i
    assume "i \<in> set (y_acks y') \<union> set (q_ack_buf (y_spool y'))"
    then have "i \<in> set (y_acks y) \<union> set (q_ack_buf (y_spool y))" using ack by (auto simp: sp)
    then show "i \<in> fst ` y_ever y'" using settle_invD(1)[OF stl] by (simp add: ever)
  next
    fix i p
    assume e: "(i, p) \<in> y_ever y'" and r: "(i, p) \<notin> set (q_rows (y_spool y'))"
    have "(i, p) \<in> y_ever y" using e by (simp add: ever)
    moreover from this have "(i, p) \<notin> set (q_rows s) \<or> i \<in> set (q_ack_buf s)"
      using rem r by (auto simp: removed_def sp s_def)
    ultimately show "settled dec alpha (y_writer y') (i, p)"
      using settle_invD(2,3)[OF stl] by (auto simp: sp s_def)
  next
    fix i p
    assume e: "(i, p) \<in> y_ever y'" and a: "i \<in> set (y_acks y') \<union> set (q_ack_buf (y_spool y'))"
    then have "i \<in> set (y_acks y) \<union> set (q_ack_buf (y_spool y))" using ack by (auto simp: sp)
    then show "settled dec alpha (y_writer y') (i, p)" using settle_invD(3)[OF stl] e by (simp add: sp ever)
  qed
  moreover have "count_inv y'" using cin cnt by (simp add: count_inv_def sp fr s_def)
  moreover have "ingest_inv enc y'" using ing by (simp add: ingest_inv_def sp ever fr s_def)
  ultimately show ?thesis by (simp add: sys_inv_def y'_def)
qed

lemma sys_inv_send_tick:
  assumes inv: "sys_inv enc dec alpha y"
  shows "sys_inv enc dec alpha (sys_send_tick dec fetch_ok del_ok y)"
proof -
  define s where "s = y_spool y"
  define t where "t = pump_send dec fetch_ok del_ok s"
  define y' where "y' = sys_send_tick dec fetch_ok del_ok y"
  have ids: "ids_inv y" and org: "origin_inv dec y" and stl: "settle_inv dec alpha y"
    and cin: "count_inv y" and ing: "ingest_inv enc y"
    using inv unfolding sys_inv_def by blast+
  have pre: "sorted_wrt (<) (map fst (q_rows s))" "length (q_chan s) \<le> DB_WRITER_CHANNEL_CAPACITY"
    using ids by (simp_all add: ids_inv_def Let_def s_def)
  from pump_send_effect[OF pre, of dec fetch_ok del_ok] obtain new ts where sends: "sends dec s t new ts"
    unfolding t_def by blast
  have same: "same_insert s t" and ack: "q_ack_buf t = q_ack_buf s" and cnt: "counters_ok s \<longrightarrow> counters_ok t"
    and rem: "removed s t {i. \<exists>p. (i, p) \<in> set (q_rows s) \<and> dec p = None}"
    and chan: "q_chan t = q_chan s @ ts" and cap: "length (q_chan t) \<le> DB_WRITER_CHANNEL_CAPACITY"
    and flt: "st_in_flight (q_stats t) = st_in_flight (q_stats s) + of_nat (length ts)"
    and pend: "subseq (ts @ q_pending_send t) (q_pending_send s @ new)"
    and nw: "\<forall>(i, m)\<in>set new. \<exists>p. (i, p) \<in> set (q_rows s) \<and> dec p = Some m"
    and srt: "sorted_wrt (<) (map fst new)"
    and rng: "\<forall>i\<in>fst ` set new. q_last_sent_id s < i \<and> i \<le> q_last_sent_id t"
    and lst: "q_last_sent_id s \<le> q_last_sent_id t"
    using sends unfolding sends_def by blast+
  have sub: "subseq (q_rows t) (q_rows s)" using rem by (simp add: removed_def)
  have rs: "set (q_rows s) \<subseteq> y_ever y" using ids by (simp add: ids_inv_def Let_def s_def)
  have sp: "y_spool y' = t" "y_writer y' = y_writer y" "y_acks y' = y_acks y" "y_sent y' = y_sent y @ ts"
    "y_ingested y' = y_ingested y"
    by (simp_all add: y'_def sys_send_tick_def Let_def t_def[symmetric] s_def[symmetric] chan)
  have ever: "y_ever y' = y_ever y"
    using rs subseq_set[OF sub]
    by (auto simp: y'_def sys_send_tick_def Let_def t_def[symmetric] s_def[symmetric])
  have fr: "q_insert_buf t = q_insert_buf s" "q_next_id t = q_next_id s"
    using same by (simp_all add: same_insert_def)
  have mem: "set (ts @ q_pending_send t) \<subseteq> set (q_pending_send s @ new)" by (rule subseq_set[OF pend])
  have old: "sorted_wrt (<) (map fst (y_sent y @ q_pending_send s))"
    "\<forall>e\<in>set (y_sent y @ q_pending_send s). fst e \<le> q_last_sent_id s"
    using ids unfolding ids_inv_def Let_def s_def by blast+
  have "sorted_wrt (<) (map fst (y_sent y @ q_pending_send s @ new))"
  proof -
    have "fst e < fst d" if "e \<in> set (y_sent y @ q_pending_send s)" "d \<in> set new" for e d
      using bspec[OF old(2) that(1)] rng that(2) by fastforce
    then have "\<forall>e\<in>set (y_sent y @ q_pending_send s). \<forall>d\<in>set new. fst e < fst d" by blast
    then show ?thesis using old(1) srt by (simp add: sorted_wrt_append ball_Un)
  qed
  moreover have "subseq (map fst (y_sent y @ ts @ q_pending_send t)) (map fst (y_sent y @ q_pending_send s @ new))"
    by (intro subseq_map) (simp only: subseq_append' pend)
  ultimately have sorted: "sorted_wrt (<) (map fst (y_sent y @ ts @ q_pending_send t))"
    by (rule subseq_sorted_wrt[rotated])
  have upper: "\<forall>e\<in>set (y_sent y @ ts @ q_pending_send t). fst e \<le> q_last_sent_id t"
  proof
    fix e
    assume "e \<in> set (y_sent y @ ts @ q_pending_send t)"
    then have "e \<in> set (y_sent y @ q_pending_send s) \<or> e \<in> set new" using mem by auto
    then show "fst e \<le> q_last_sent_id t" using bspec[OF old(2), of e] lst rng by auto
  qed
  have "ids_inv y'"
    using ids subseq_set[OF sub] subseq_sorted_wrt[OF subseq_map[OF sub]] sorted upper cap
    unfolding ids_inv_def Let_def sp fr ever s_def[symmetric] by (simp only: append_assoc) blast
  moreover have "origin_inv dec y'"
    unfolding origin_inv_def sp ever chan
  proof
    fix e
    assume "e \<in> set (q_pending_send t) \<union> set (q_chan s @ ts) \<union> set (staged (y_writer y)) \<union> set (w_committed (y_writer y))"
    then consider "e \<in> set new" | "e \<in> set (q_pending_send s) \<union> set (q_chan s) \<union> set (staged (y_writer y)) \<union> set (w_committed (y_writer y))"
      using mem by auto
    then show "origin dec (y_ever y) e"
      by cases (use nw rs org in \<open>fastforce simp: origin_def origin_inv_def s_def\<close>)+
  qed
  moreover have "settle_inv dec alpha y'"
  proof -
    have bad: "settled dec alpha (y_writer y) (i, p)" if "(i, p) \<in> set (q_rows s)" "(i, p) \<notin> set (q_rows t)" for i p
    proof -
      from that rem obtain p' where p': "(i, p') \<in> set (q_rows s)" "dec p' = None" by (fastforce simp: removed_def)
      have "inj_on fst (y_ever y)" using ids by (simp add: ids_inv_def Let_def)
      from inj_onD[OF this, of "(i, p)" "(i, p')"] have "p = p'" using p'(1) that(1) rs by auto
      with p' show ?thesis by (simp add: settled_def)
    qed
    show ?thesis
    proof (rule settle_invI)
      fix i p
      assume "(i, p) \<in> y_ever y'" "(i, p) \<notin> set (q_rows (y_spool y'))"
      then show "settled dec alpha (y_writer y') (i, p)"
        using settle_invD(2)[OF stl] bad by (cases "(i, p) \<in> set (q_rows s)") (auto simp: sp ever s_def)
    qed (use settle_invD[OF stl] in \<open>auto simp: sp ever ack s_def\<close>)
  qed
  moreover have "count_inv y'" using cin cnt flt by (simp add: count_inv_def sp chan s_def[symmetric])
  moreover have "ingest_inv enc y'" using ing by (simp add: ingest_inv_def sp ever fr s_def[symmetric])
  ultimately show ?thesis by (simp add: sys_inv_def y'_def)
qed


text \<open>A step of the writer: it takes the front envelope (or none), and what it acknowledges is
  committed or skipped.\<close>

lemma sys_inv_writer:
  assumes inv: "sys_inv enc dec alpha y" and chan: "q_chan (y_spool y) = taken @ rest"
    and bal: "length taken + length (staged (y_writer y)) = length acks + length (staged w)"
    and com: "set (w_committed (y_writer y)) \<subseteq> set (w_committed w)"
    and stg: "set (staged w) \<subseteq> set taken \<union> set (staged (y_writer y))"
    and cmt: "set (w_committed w) \<subseteq> set (w_committed (y_writer y)) \<union> set taken \<union> set (staged (y_writer y))"
    and ack: "\<forall>i\<in>set acks. i \<in> fst ` set (w_committed w) \<or>
      (\<not> alpha \<and> (\<exists>e\<in>set taken. i = fst e \<and> alpha_gated (fst (snd e))))"
  shows "sys_inv enc dec alpha (y\<lparr>y_spool := (y_spool y)\<lparr>q_chan := rest\<rparr>, y_writer := w, y_acks := y_acks y @ acks\<rparr>)"
    (is "sys_inv enc dec alpha ?y'")
proof -
  have ids: "ids_inv y" and org: "origin_inv dec y" and stl: "settle_inv dec alpha y"
    and cin: "count_inv y" and ing: "ingest_inv enc y"
    using inv unfolding sys_inv_def by blast+
  have orgt: "origin dec (y_ever y) e" if "e \<in> set taken \<union> set (staged (y_writer y)) \<union> set (w_committed (y_writer y))" for e
    using org that unfolding origin_inv_def chan by auto
  have inj: "inj_on fst (y_ever y)" using ids by (simp add: ids_inv_def Let_def)
  have set: "i \<in> fst ` y_ever y" "(i, p) \<in> y_ever y \<Longrightarrow> settled dec alpha w (i, p)" if i: "i \<in> set acks" for i p
  proof -
    obtain e where e: "i = fst e" "e \<in> set (w_committed w) \<or> (\<not> alpha \<and> e \<in> set taken \<and> alpha_gated (fst (snd e)))"
      using bspec[OF ack i] unfolding image_iff by blast
    then have "origin dec (y_ever y) e" using orgt cmt by blast
    then obtain q where q: "(i, q) \<in> y_ever y" "dec q = Some (snd e)" using e(1) by (auto simp: origin_def)
    then show "i \<in> fst ` y_ever y" by force
    assume "(i, p) \<in> y_ever y"
    with inj_onD[OF inj, of "(i, p)" "(i, q)"] q have "p = q" by auto
    moreover have "(i, snd e) = e" using e(1) by auto
    ultimately show "settled dec alpha w (i, p)" using q(2) e(2) by (auto simp: settled_def)
  qed
  have "ids_inv ?y'" using ids by (simp add: ids_inv_def Let_def chan)
  moreover have "origin_inv dec ?y'"
    using org stg cmt unfolding origin_inv_def chan by auto
  moreover have "settle_inv dec alpha ?y'"
    by (rule settle_invI)
      (use settle_invD[OF stl] set com in \<open>auto intro: settled_mono[where w = "y_writer y"]\<close>)
  moreover have n: "length (taken @ rest) + length (staged (y_writer y)) + length (y_acks y)
      = length rest + length (staged w) + length (y_acks y @ acks)" using bal by simp
  have "count_inv ?y'" using cin unfolding count_inv_def chan n by (simp add: counters_ok_def)
  moreover have "ingest_inv enc ?y'" using ing by (simp add: ingest_inv_def)
  ultimately show ?thesis by (simp add: sys_inv_def)
qed

lemma sys_inv_writer_recv:
  assumes inv: "sys_inv enc dec alpha y"
  shows "sys_inv enc dec alpha (sys_writer_recv alpha ok y)"
proof (cases "q_chan (y_spool y)")
  case Nil
  then show ?thesis using inv by simp
next
  case (Cons env rest)
  obtain w acks where w: "writer_recv alpha ok env (y_writer y) = (w, acks)" by force
  note b = writer_recv_balance[OF w]
  have l: "length [env] + length (staged (y_writer y)) = length acks + length (staged w)"
    using arg_cong[OF b(1), of size] by simp
  have "sys_inv enc dec alpha (y\<lparr>y_spool := (y_spool y)\<lparr>q_chan := rest\<rparr>, y_writer := w, y_acks := y_acks y @ acks\<rparr>)"
    by (rule sys_inv_writer[OF inv _ l]) (use b(2-5) Cons in auto)
  then show ?thesis by (simp add: Cons w)
qed

lemma sys_inv_writer_tick:
  assumes inv: "sys_inv enc dec alpha y"
  shows "sys_inv enc dec alpha (sys_writer_tick ok y)"
proof -
  obtain w acks where w: "writer_tick ok (y_writer y) = (w, acks)" by force
  note b = flush_balance[OF w[unfolded writer_tick_def]]
  have l: "length [] + length (staged (y_writer y)) = length acks + length (staged w)"
    using arg_cong[OF b(1), of size] by simp
  have "sys_inv enc dec alpha (y\<lparr>y_spool := (y_spool y)\<lparr>q_chan := q_chan (y_spool y)\<rparr>, y_writer := w, y_acks := y_acks y @ acks\<rparr>)"
    by (rule sys_inv_writer[OF inv _ l]) (use b(2-5) in auto)
  then show ?thesis by (simp add: sys_writer_tick_def w)
qed

lemma sys_inv_recv_ack:
  assumes inv: "sys_inv enc dec alpha y"
  shows "sys_inv enc dec alpha (sys_recv_ack oks y)"
proof (cases "y_acks y")
  case Nil
  then show ?thesis using inv by simp
next
  case (Cons a rest)
  define s where "s = on_stats (add_in_flight (- 1)) ((y_spool y)\<lparr>q_ack_buf := q_ack_buf (y_spool y) @ [a]\<rparr>)"
  define z where "z = y\<lparr>y_spool := s, y_acks := rest\<rparr>"
  have ids: "ids_inv y" and org: "origin_inv dec y" and stl: "settle_inv dec alpha y"
    and cin: "count_inv y" and ing: "ingest_inv enc y"
    using inv unfolding sys_inv_def by blast+
  have "sys_inv enc dec alpha z"
    unfolding sys_inv_def
  proof (intro conjI)
    show "settle_inv dec alpha z"
      by (rule settle_invI) (use settle_invD[OF stl] Cons in \<open>auto simp: z_def s_def\<close>)
  qed (use ids org cin ing Cons in
      \<open>simp_all add: ids_inv_def origin_inv_def count_inv_def ingest_inv_def counters_ok_def Let_def z_def s_def\<close>)
  moreover have "set (q_rows s) \<subseteq> y_ever y" using ids by (simp add: ids_inv_def Let_def s_def)
  then have "y_ever y \<union> set (q_rows s) = y_ever y" by blast
  then have "set_spool s z = z" by (intro QSys.equality) (simp_all add: z_def)
  moreover have "sys_inv enc dec alpha (set_spool (flush_ack oks s) z)" if "sys_inv enc dec alpha z"
    using flush_ack_effect[where s = s and oks = oks] that
    by (intro sys_inv_remove) (auto simp: z_def sys_inv_def count_inv_def)
  moreover have "sys_recv_ack oks y
      = (if length (q_ack_buf s) \<ge> DB_QUEUE_ACK_BATCH then set_spool (flush_ack oks s) z else set_spool s z)"
    by (simp add: Cons on_ack_def Let_def set_spool_def z_def flip: s_def)
  ultimately show ?thesis by simp
qed


lemma sys_inv_restart:
  assumes inv: "sys_inv enc dec alpha y"
  shows "sys_inv enc dec alpha (sys_restart y)"
proof -
  have ids: "ids_inv y" and org: "origin_inv dec y" and stl: "settle_inv dec alpha y"
    using inv unfolding sys_inv_def by blast+
  have st: "staged (writer_new\<lparr>w_committed := c\<rparr>) = []" for c :: "'a DbEnvelope list"
    by (simp add: staged_def writer_new_def all_kinds_def)
  have same: "settled dec alpha (y_writer (sys_restart y)) r = settled dec alpha (y_writer y) r" for r
    by (cases r) (simp add: settled_def sys_restart_def split: option.split)
  have "settle_inv dec alpha (sys_restart y)"
  proof (rule settle_invI)
    fix i p
    assume "(i, p) \<in> y_ever (sys_restart y)" "(i, p) \<notin> set (q_rows (y_spool (sys_restart y)))"
    then show "settled dec alpha (y_writer (sys_restart y)) (i, p)"
      unfolding same by (intro settle_invD(2)[OF stl]) (simp_all add: sys_restart_def spawn_db_queue_def)
  qed (simp_all add: sys_restart_def spawn_db_queue_def)
  with ids org show ?thesis
    by (simp add: sys_inv_def ids_inv_def origin_inv_def count_inv_def ingest_inv_def counters_ok_def
        sys_restart_def spawn_db_queue_def Let_def st)
qed

lemma sys_inv_ingest:
  assumes inv: "sys_inv enc dec alpha y"
  shows "sys_inv enc dec alpha (sys_ingest enc ok msg y)"
proof -
  have c: "counters_ok (y_spool y)" using inv by (simp add: sys_inv_def count_inv_def)
  note e = on_ingest_effect[where s = "y_spool y" and enc = enc and ok = ok and m = msg]
  from e(4) obtain new where new: "inserted enc
    ((y_spool y)\<lparr>q_insert_buf := q_insert_buf (y_spool y) @ [msg]\<rparr>) (on_ingest enc ok msg (y_spool y)) new" by blast
  show ?thesis unfolding sys_ingest_def
    by (rule sys_inv_insert[OF inv e(1,2) e(3)[OF c] new]) auto
qed

lemma sys_inv_insert_tick:
  assumes inv: "sys_inv enc dec alpha y"
  shows "sys_inv enc dec alpha (set_spool (flush_insert enc ok (y_spool y)) y)"
proof -
  have c: "counters_ok (y_spool y)" using inv by (simp add: sys_inv_def count_inv_def)
  note e = flush_insert_effect[where s = "y_spool y" and enc = enc and ok = ok]
  from e(4) obtain new where new: "inserted enc
    ((y_spool y)\<lparr>q_insert_buf := q_insert_buf (y_spool y)\<rparr>) (flush_insert enc ok (y_spool y)) new" by auto
  have "sys_inv enc dec alpha ((set_spool (flush_insert enc ok (y_spool y)) y)\<lparr>y_ingested := y_ingested y\<rparr>)"
    by (rule sys_inv_insert[OF inv e(1,2) e(3)[OF c] new]) auto
  moreover have "(set_spool t y)\<lparr>y_ingested := y_ingested y\<rparr> = set_spool t y" for t
    by (intro QSys.equality) simp_all
  ultimately show ?thesis by simp
qed

lemma sys_inv_ack_tick:
  assumes inv: "sys_inv enc dec alpha y"
  shows "sys_inv enc dec alpha (set_spool (flush_ack oks (y_spool y)) y)"
proof -
  have c: "counters_ok (y_spool y)" using inv by (simp add: sys_inv_def count_inv_def)
  note e = flush_ack_effect[where s = "y_spool y" and oks = oks]
  show ?thesis by (rule sys_inv_remove[OF inv e(1,2) e(3)[OF c] e(4,5)])
qed

text \<open>A run in which a message is ingested, stored, sent and committed.\<close>

definition ex_run :: "nat \<Rightarrow> (nat, nat DbMessage) QSys" where
  "ex_run n = foldl (\<lambda>y f. f y) sys_init (take n
     [sys_ingest Some True (ConnectionHealthMsg, 7), \<lambda>y. set_spool (flush_insert Some True (y_spool y)) y,
      sys_send_tick Some True True, sys_writer_recv True True, sys_writer_tick True])"

lemma ex_run_steps:
  "ex_run 1 = sys_ingest Some True (ConnectionHealthMsg, 7) sys_init"
  "ex_run 2 = set_spool (flush_insert Some True (y_spool (ex_run 1))) (ex_run 1)"
  "ex_run 3 = sys_send_tick Some True True (ex_run 2)"
  "ex_run 4 = sys_writer_recv True True (ex_run 3)"
  "ex_run 5 = sys_writer_tick True (ex_run 4)"
  by (simp_all add: ex_run_def)

lemma ex_run_reach: "sys_reach Some Some True (ex_run 5)"
proof -
  have "sys_reach Some Some True (ex_run 1)"
    unfolding ex_run_steps(1) by (rule sys_reach.step[OF sys_reach.init sys_step.ingest])
  then have "sys_reach Some Some True (ex_run 2)"
    unfolding ex_run_steps(2) by (rule sys_reach.step[OF _ sys_step.insert_tick])
  then have "sys_reach Some Some True (ex_run 3)"
    unfolding ex_run_steps(3) by (rule sys_reach.step[OF _ sys_step.send_tick])
  then have "sys_reach Some Some True (ex_run 4)"
    unfolding ex_run_steps(4) by (rule sys_reach.step[OF _ sys_step.writer_recv])
  then show ?thesis
    unfolding ex_run_steps(5) by (rule sys_reach.step[OF _ sys_step.writer_tick])
qed

lemma ex_run_1: "ex_run 1 = \<lparr>y_spool = \<lparr>q_insert_buf = [(ConnectionHealthMsg, 7)], q_pending_send = [],
     q_ack_buf = [], q_last_sent_id = 0, q_rows = [], q_next_id = 1, q_chan = [], q_chan_open = True,
     q_stats = \<lparr>st_in_mem = 1, st_disk_pending = 0, st_in_flight = 0\<rparr>\<rparr>, y_writer = writer_new, y_acks = [],
     y_ever = {}, y_ingested = [(ConnectionHealthMsg, 7)], y_sent = []\<rparr>"
  unfolding ex_run_steps(1)
  by (simp add: sys_init_def spawn_db_queue_def sys_ingest_def on_ingest_def set_spool_def
      on_stats_def add_in_mem_def DB_QUEUE_INSERT_BATCH_def)

lemma ex_run_2: "ex_run 2 = \<lparr>y_spool = \<lparr>q_insert_buf = [], q_pending_send = [],
     q_ack_buf = [], q_last_sent_id = 0, q_rows = [(1, (ConnectionHealthMsg, 7))], q_next_id = 2, q_chan = [],
     q_chan_open = True, q_stats = \<lparr>st_in_mem = 0, st_disk_pending = 1, st_in_flight = 0\<rparr>\<rparr>,
     y_writer = writer_new, y_acks = [], y_ever = {(1, (ConnectionHealthMsg, 7))},
     y_ingested = [(ConnectionHealthMsg, 7)], y_sent = []\<rparr>"
  unfolding ex_run_steps(2) ex_run_1
  by (simp add: flush_insert_def set_spool_def on_stats_def add_in_mem_def add_disk_def)

lemma ex_run_3: "ex_run 3 = \<lparr>y_spool = \<lparr>q_insert_buf = [], q_pending_send = [],
     q_ack_buf = [], q_last_sent_id = 1, q_rows = [(1, (ConnectionHealthMsg, 7))], q_next_id = 2,
     q_chan = [(1, (ConnectionHealthMsg, 7))],
     q_chan_open = True, q_stats = \<lparr>st_in_mem = 0, st_disk_pending = 1, st_in_flight = 1\<rparr>\<rparr>,
     y_writer = writer_new, y_acks = [], y_ever = {(1, (ConnectionHealthMsg, 7))},
     y_ingested = [(ConnectionHealthMsg, 7)], y_sent = [(1, (ConnectionHealthMsg, 7))]\<rparr>"
  unfolding ex_run_steps(3) ex_run_2
  by (simp add: Let_def sys_send_tick_def pump_send_def run_send_loop_def fetch_rows_def accept_row_def
      drop_bad_def set_spool_def on_stats_def add_in_flight_def DB_QUEUE_FETCH_BATCH_def
      DB_WRITER_CHANNEL_CAPACITY_def)

lemma ex_run_4: "ex_run 4 = (ex_run 3)\<lparr>y_spool := (y_spool (ex_run 3))\<lparr>q_chan := []\<rparr>,
     y_writer := writer_new\<lparr>w_bufs := (w_bufs writer_new)(ConnectionHealthMsg := [(1, 7)])\<rparr>\<rparr>"
  unfolding ex_run_steps(4) ex_run_3
  by (simp add: writer_recv_def writer_store_def writer_new_def all_kinds_def)

lemma ex_run_5: "ex_run 5 = (ex_run 4)\<lparr>y_acks := [1],
     y_writer := \<lparr>w_bufs = \<lambda>_. [], w_committed = [(1, (ConnectionHealthMsg, 7))]\<rparr>\<rparr>"
  unfolding ex_run_steps(5) ex_run_4 ex_run_3
  by (simp add: sys_writer_tick_def writer_tick_def flush_buffers_def staged_def writer_new_def all_kinds_def)

lemma ex_run_value:
  "q_stats (y_spool (ex_run 5)) = \<lparr>st_in_mem = 0, st_disk_pending = 1, st_in_flight = 1\<rparr>"
  "y_acks (ex_run 5) = [1]" "y_ingested (ex_run 5) = [(ConnectionHealthMsg, 7)]"
  "y_sent (ex_run 5) = [(1, (ConnectionHealthMsg, 7))]"
  by (simp_all add: ex_run_5 ex_run_4 ex_run_3)

lemmas sys_inv_steps = sys_inv_ingest sys_inv_recv_ack sys_inv_insert_tick sys_inv_send_tick
  sys_inv_ack_tick sys_inv_writer_recv sys_inv_writer_tick sys_inv_restart

lemma sys_inv_step:
  assumes "sys_step enc dec alpha y y'" "sys_inv enc dec alpha y"
  shows "sys_inv enc dec alpha y'"
  using assms by (cases rule: sys_step.cases) (blast intro: sys_inv_steps)+

lemma sys_inv_reach: "sys_reach enc dec alpha y \<Longrightarrow> sys_inv enc dec alpha y"
  by (induction rule: sys_reach.induct) (blast intro: sys_inv_init sys_inv_step)+



text \<open>
  C2. The three counters that the producers watch are exact in every reachable state (modulo the
  width of the counter): messages buffered in memory, rows on disk, and envelopes sent but not yet
  acknowledged, wherever these are: in the writer's channel, in its buffers, or acknowledged but
  not yet received back. The decrements therefore never wrap below zero.
\<close>

theorem db_queue_counters:
  assumes "sys_reach enc dec alpha y"
  shows "st_in_mem (q_stats (y_spool y)) = of_nat (length (q_insert_buf (y_spool y))) \<and>
    st_disk_pending (q_stats (y_spool y)) = of_nat (length (q_rows (y_spool y))) \<and>
    st_in_flight (q_stats (y_spool y)) =
      of_nat (length (q_chan (y_spool y)) + length (staged (y_writer y)) + length (y_acks y))"
  using sys_inv_reach[OF assms] by (simp add: sys_inv_def count_inv_def counters_ok_def)

theorem db_queue_counters_witness:
  "st_in_flight (q_stats (y_spool (ex_run 5))) = 1 \<and> st_disk_pending (q_stats (y_spool (ex_run 5))) = 1"
  using db_queue_counters[OF ex_run_reach] ex_run_value(1) by simp

text \<open>
  C3. Within one run of the process rows go to the writer in the order of their ids and at most
  once, even though the spooler puts an envelope back when the channel is full; and the channel
  never holds more than its capacity.
\<close>

theorem db_queue_in_order:
  assumes "sys_reach enc dec alpha y"
  shows "sorted_wrt (<) (map fst (y_sent y)) \<and> length (q_chan (y_spool y)) \<le> DB_WRITER_CHANNEL_CAPACITY"
  using sys_inv_reach[OF assms] by (auto simp: sys_inv_def ids_inv_def Let_def sorted_wrt_append)


theorem db_queue_in_order_witness:
  "map fst (y_sent (ex_run 5)) = [1] \<and> sorted_wrt (<) (map fst (y_sent (ex_run 5))) \<and>
   length (q_chan (y_spool (ex_run 5))) \<le> DB_WRITER_CHANNEL_CAPACITY"
  using db_queue_in_order[OF ex_run_reach] ex_run_value(4) by simp

end
