(* ===== verification/Shock.thy ===== *)
theory Shock
  imports Prelude Models
begin

text \<open>
  The shock detector of \<open>src/shock.rs\<close>: one engine per token, fed with one bar per second. It keeps
  bounded histories, computes features, compares each with a quantile of its own rolling window,
  schedules a shock when a threshold is met (at most one per type and cooldown), tracks the peak of
  every scheduled shock and reports it once its peak window has expired. The natural logarithm is a
  parameter. The context of a shock is its list of named values; its JSON rendering is left out.
  The order in which a hash map lists its keys is a parameter too.
\<close>

definition COOLDOWN_MS :: int where "COOLDOWN_MS = 10000"
definition PEAK_WINDOW_MS :: int where "PEAK_WINDOW_MS = 10000"
definition WEAK_THRESHOLD_FACTOR :: f64 where "WEAK_THRESHOLD_FACTOR = lit (7 / 10)"
definition METRIC_HISTORY_MAX :: nat where "METRIC_HISTORY_MAX = 120"
definition MICRO_GAP_WINDOW :: nat where "MICRO_GAP_WINDOW = 30"
definition TRADE_NOTIONAL_WINDOW :: nat where "TRADE_NOTIONAL_WINDOW = 3600"

datatype ShockType = PRICE_VELOCITY_5S | PRICE_ACCEL_10S | RV_JUMP_5S | RV_JUMP_1M | LARGE_TRADE
  | TAKER_IMBALANCE_30S | CVD_SPIKE_30S | QUOTE_BURST_ADD | QUOTE_BURST_CANCEL | OFI_SPIKE_10S
  | SWEEP | FAKE_WALL_PULL | WASH_TRADE

datatype CtxVal = CtxF f64 | CtxI int | CtxSide BookSide

type_synonym Ctx = "(string \<times> CtxVal) list"

record WallPullSignal =
  wp_side :: BookSide
  wp_price :: f64
  wp_size_before :: f64
  wp_pull_ratio :: f64

record ShockPending =
  sp_shock_type :: ShockType
  sp_direction :: int
  sp_noise_flag :: int
  sp_start_ts_ms :: millis
  sp_trigger_ts_ms :: millis
  sp_magnitude :: f64
  sp_context :: "Ctx option"

record ShockFinal =
  sf_shock_type :: ShockType
  sf_direction :: int
  sf_noise_flag :: int
  sf_start_ts_ms :: millis
  sf_trigger_ts_ms :: millis
  sf_peak_ts_ms :: millis
  sf_magnitude :: f64
  sf_context :: "Ctx option"

datatype ShockSignal = PendingSig ShockPending | FinalSig ShockFinal

type_synonym MetricPoint = "millis \<times> f64"

record PendingShock =
  ps_shock_type :: ShockType
  ps_direction :: int
  ps_noise_flag :: int
  ps_start_ts_ms :: millis
  ps_trigger_ts_ms :: millis
  ps_peak_ts_ms :: millis
  ps_peak_value :: f64
  ps_context :: "Ctx option"
  ps_expires_ts_ms :: millis

subsection \<open>Rolling windows and moving statistics\<close>

record RollingWindow =
  rw_values :: "f64 list"
  rw_max_len :: nat

definition rw_new :: "nat \<Rightarrow> RollingWindow" where
  "rw_new max_len = \<lparr>rw_values = [], rw_max_len = max_len\<rparr>"

definition rw_push :: "f64 \<Rightarrow> RollingWindow \<Rightarrow> RollingWindow" where
  "rw_push value w =
    (if rw_max_len w = 0 then w
     else let values = (if length (rw_values w) \<ge> rw_max_len w then tl (rw_values w) else rw_values w)
          in w\<lparr>rw_values := values @ [value]\<rparr>)"

definition quantile :: "RollingWindow \<Rightarrow> f64 \<Rightarrow> f64 option" where
  "quantile w q =
    (if rw_values w = [] then None
     else get (sort_f64 (rw_values w)) (rank_idx (length (rw_values w)) q))"

record EwmaStats =
  ew_alpha :: f64
  ew_mean :: "f64 option"
  ew_var :: "f64 option"

definition ewma_new :: "f64 \<Rightarrow> EwmaStats" where
  "ewma_new alpha = \<lparr>ew_alpha = alpha, ew_mean = None, ew_var = None\<rparr>"

definition ewma_update :: "f64 \<Rightarrow> EwmaStats \<Rightarrow> EwmaStats" where
  "ewma_update value s =
    (case ew_mean s of
       Some mean \<Rightarrow>
         let delta = value - mean;
             new_mean = mean + ew_alpha s * delta;
             var = unwrap_or (ew_var s) 0;
             new_var = (1 - ew_alpha s) * (var + ew_alpha s * delta * delta)
         in s\<lparr>ew_mean := Some new_mean, ew_var := Some new_var\<rparr>
     | None \<Rightarrow> s\<lparr>ew_mean := Some value, ew_var := Some 0\<rparr>)"

definition ewma_snapshot :: "EwmaStats \<Rightarrow> f64 \<times> f64" where
  "ewma_snapshot s = (unwrap_or (ew_mean s) 0, f64_sqrt (unwrap_or (ew_var s) 0))"

text \<open>The loops of \<open>sum_last\<close> and \<open>sum_last_i64\<close> test the count after adding, so they add one element
  at least.\<close>

definition sum_last :: "f64 list \<Rightarrow> nat \<Rightarrow> f64 option" where
  "sum_last values count =
    (if values = [] then None else Some (foldl (+) 0 (take (max 1 count) (rev values))))"

definition sum_last_i64 :: "int list \<Rightarrow> nat \<Rightarrow> int" where
  "sum_last_i64 values count =
    (if values = [] then 0 else foldl (+) 0 (take (max 1 count) (rev values)))"

definition realized_vol :: "f64 list \<Rightarrow> nat \<Rightarrow> f64 option" where
  "realized_vol returns count =
    (if length returns < count then None
     else Some (f64_sqrt (foldl (\<lambda>sum value. sum + value * value) 0 (take count (rev returns)))))"

definition log_return :: "(f64 \<Rightarrow> f64) \<Rightarrow> f64 list \<Rightarrow> nat \<Rightarrow> f64 option" where
  "log_return lnf history lag =
    (if length history \<le> lag then None
     else let current = List.last history; past = history ! (length history - 1 - lag)
          in if current > 0 \<and> past > 0 then Some (lnf (current / past)) else None)"

definition log_return_at :: "(f64 \<Rightarrow> f64) \<Rightarrow> f64 list \<Rightarrow> nat \<Rightarrow> nat \<Rightarrow> f64 option" where
  "log_return_at lnf history lag offset =
    (if length history \<le> lag + offset then None
     else let current = history ! (length history - 1 - offset);
              past = history ! (length history - 1 - offset - lag)
          in if current > 0 \<and> past > 0 then Some (lnf (current / past)) else None)"

fun trim_vec :: "'a list \<Rightarrow> nat \<Rightarrow> 'a list" where
  "trim_vec [] max_len = []"
| "trim_vec (x # xs) max_len = (if length (x # xs) > max_len then trim_vec xs max_len else x # xs)"

definition zscore :: "f64 \<Rightarrow> f64 \<Rightarrow> f64 \<Rightarrow> f64" where
  "zscore value mean std = (if std \<le> 0 then 0 else (value - mean) / std)"

definition zscore_from_vec :: "f64 list \<Rightarrow> f64 \<Rightarrow> f64 option" where
  "zscore_from_vec values latest =
    (if length values < 5 then None
     else let n = f64_of_int (int (length values));
              mean = foldl (+) 0 values / n;
              var = foldl (\<lambda>var value. var + (value - mean) * (value - mean)) 0 values;
              std = f64_sqrt (var / n)
          in if std \<le> 0 then None else Some ((latest - mean) / std))"

definition missing_ratio_30s :: "int list \<Rightarrow> int list \<Rightarrow> f64" where
  "missing_ratio_30s trade_counts missing_counts =
    (let trades = sum_last_i64 trade_counts 30;
         missing = sum_last_i64 missing_counts 30
     in if trades \<le> 0 then 1 else f64_of_int missing / f64_of_int trades)"

subsection \<open>The engine\<close>

record ShockEngine =
  se_last_trigger_ms :: "ShockType \<rightharpoonup> millis"
  se_pending :: "ShockType \<rightharpoonup> PendingShock"
  se_metric_history :: "ShockType \<rightharpoonup> MetricPoint list"
  se_micro_history :: "f64 list"
  se_return_history :: "f64 list"
  se_ofi_history :: "f64 list"
  se_buy_history :: "f64 list"
  se_sell_history :: "f64 list"
  se_cvd_history :: "f64 list"
  se_vol_history :: "f64 list"
  se_trade_count_history :: "int list"
  se_trade_missing_history :: "int list"
  se_micro_gap_history :: "f64 list"
  se_abs_gap_z_window :: RollingWindow
  se_abs_r5_window :: RollingWindow
  se_abs_a10_window :: RollingWindow
  se_rv5_window :: RollingWindow
  se_rv60_window :: RollingWindow
  se_vol1_window :: RollingWindow
  se_vol30_window :: RollingWindow
  se_abs_cvd30_window :: RollingWindow
  se_abs_ofi10_window :: RollingWindow
  se_abs_ofi30_window :: RollingWindow
  se_abs_r3_window :: RollingWindow
  se_abs_r30_window :: RollingWindow
  se_q_add_window :: RollingWindow
  se_q_cancel_window :: RollingWindow
  se_trade_notional_window :: RollingWindow
  se_q_add_stats :: EwmaStats
  se_q_cancel_stats :: EwmaStats

definition shock_engine_new :: ShockEngine where
  "shock_engine_new = (let w = rw_new 21600 in
    \<lparr>se_last_trigger_ms = Map.empty, se_pending = Map.empty, se_metric_history = Map.empty,
     se_micro_history = [], se_return_history = [], se_ofi_history = [], se_buy_history = [],
     se_sell_history = [], se_cvd_history = [], se_vol_history = [], se_trade_count_history = [],
     se_trade_missing_history = [], se_micro_gap_history = [], se_abs_gap_z_window = w,
     se_abs_r5_window = w, se_abs_a10_window = w, se_rv5_window = w, se_rv60_window = w,
     se_vol1_window = w, se_vol30_window = w, se_abs_cvd30_window = w, se_abs_ofi10_window = w,
     se_abs_ofi30_window = w, se_abs_r3_window = w, se_abs_r30_window = w, se_q_add_window = w,
     se_q_cancel_window = w, se_trade_notional_window = rw_new TRADE_NOTIONAL_WINDOW,
     se_q_add_stats = ewma_new (lit (1 / 10)), se_q_cancel_stats = ewma_new (lit (1 / 10))\<rparr>)"

text \<open>The arguments of \<open>on_bar\<close>.\<close>

record BarInput =
  b_bar_second :: int
  b_micro_px :: "f64 option"
  b_tick_px :: "f64 option"
  b_micro_mid_gap :: "f64 option"
  b_add_updates_1s :: int
  b_cancel_updates_1s :: int
  b_volume_notional_1s :: f64
  b_buy_notional_1s :: f64
  b_sell_notional_1s :: f64
  b_cvd_delta_1s :: f64
  b_ofi_1s :: f64
  b_levels_crossed_1s :: int
  b_trade_count_1s :: int
  b_trade_side_missing_count_1s :: int
  b_max_trade_notional_1s :: f64
  b_wall_pull :: "WallPullSignal option"

text \<open>What \<open>on_bar\<close> accumulates: the engine, the current metrics and the signals.\<close>

record Scan =
  sc_eng :: ShockEngine
  sc_metrics :: "ShockType \<rightharpoonup> f64"
  sc_signals :: "ShockSignal list"

definition record_metric :: "ShockType \<Rightarrow> millis \<Rightarrow> f64 \<Rightarrow> ShockEngine \<Rightarrow> ShockEngine" where
  "record_metric key ts_ms value e =
    (let entry = unwrap_or (se_metric_history e key) [];
         entry = (if length entry \<ge> METRIC_HISTORY_MAX then tl entry else entry)
     in e\<lparr>se_metric_history := (se_metric_history e)(key \<mapsto> entry @ [(ts_ms, value)])\<rparr>)"

fun scan_back :: "f64 \<Rightarrow> MetricPoint list \<Rightarrow> millis \<Rightarrow> millis" where
  "scan_back weak [] start = start"
| "scan_back weak ((ts, value) # rest) start = (if value \<ge> weak then scan_back weak rest ts else start)"

definition find_start_ts :: "ShockEngine \<Rightarrow> ShockType \<Rightarrow> f64 \<Rightarrow> millis \<Rightarrow> millis" where
  "find_start_ts e key weak_threshold fallback =
    (case se_metric_history e key of
       Some history \<Rightarrow> scan_back weak_threshold (rev history) fallback
     | None \<Rightarrow> fallback)"

definition schedule_shock :: "ShockType \<Rightarrow> int \<Rightarrow> int \<Rightarrow> millis \<Rightarrow> f64 \<Rightarrow> f64 \<Rightarrow> Ctx option
    \<Rightarrow> ShockEngine \<Rightarrow> ShockEngine \<times> ShockPending option" where
  "schedule_shock shock_type direction noise_flag ts_ms magnitude strong_threshold context e =
    (if (case se_last_trigger_ms e shock_type of
           Some prev \<Rightarrow> ts_ms - prev < COOLDOWN_MS | None \<Rightarrow> False) then (e, None)
     else
       let e = e\<lparr>se_last_trigger_ms := (se_last_trigger_ms e)(shock_type \<mapsto> ts_ms)\<rparr>;
           start_ts = (if strong_threshold > 0 then
               find_start_ts e shock_type (strong_threshold * WEAK_THRESHOLD_FACTOR) ts_ms else ts_ms);
           pending = \<lparr>ps_shock_type = shock_type, ps_direction = direction, ps_noise_flag = noise_flag,
             ps_start_ts_ms = start_ts, ps_trigger_ts_ms = ts_ms, ps_peak_ts_ms = ts_ms,
             ps_peak_value = magnitude, ps_context = context, ps_expires_ts_ms = ts_ms + PEAK_WINDOW_MS\<rparr>
       in (e\<lparr>se_pending := (se_pending e)(shock_type \<mapsto> pending)\<rparr>,
           Some \<lparr>sp_shock_type = shock_type, sp_direction = direction, sp_noise_flag = noise_flag,
             sp_start_ts_ms = start_ts, sp_trigger_ts_ms = ts_ms, sp_magnitude = magnitude,
             sp_context = context\<rparr>))"

text \<open>A detector's call: schedule, and push the signal if there is one.\<close>

definition fire :: "ShockType \<Rightarrow> int \<Rightarrow> int \<Rightarrow> millis \<Rightarrow> f64 \<Rightarrow> f64 \<Rightarrow> Ctx \<Rightarrow> Scan \<Rightarrow> Scan" where
  "fire shock_type direction noise_flag ts_ms magnitude threshold context s =
    (let (e, pending) =
       schedule_shock shock_type direction noise_flag ts_ms magnitude threshold (Some context) (sc_eng s)
     in s\<lparr>sc_eng := e, sc_signals := (case pending of
          Some p \<Rightarrow> sc_signals s @ [PendingSig p] | None \<Rightarrow> sc_signals s)\<rparr>)"


subsection \<open>One bar\<close>

text \<open>The histories: micro price and its log return, the gap and its score, and the flows.\<close>

definition push_micro :: "(f64 \<Rightarrow> f64) \<Rightarrow> f64 \<Rightarrow> ShockEngine \<Rightarrow> ShockEngine" where
  "push_micro lnf micro e =
    (let e = e\<lparr>se_micro_history := trim_vec (se_micro_history e @ [micro]) 64\<rparr>
     in case get (rev (se_micro_history e)) 1 of
          Some prev \<Rightarrow> if prev > 0 then
              e\<lparr>se_return_history := trim_vec (se_return_history e @ [lnf (micro / prev)]) 64\<rparr> else e
        | None \<Rightarrow> e)"

definition push_gap :: "f64 option \<Rightarrow> ShockEngine \<Rightarrow> ShockEngine" where
  "push_gap micro_mid_gap e =
    (let e = (case micro_mid_gap of
           Some gap \<Rightarrow> e\<lparr>se_micro_gap_history := trim_vec (se_micro_gap_history e @ [gap]) MICRO_GAP_WINDOW\<rparr>
         | None \<Rightarrow> e)
     in case Option.bind micro_mid_gap (zscore_from_vec (se_micro_gap_history e)) of
          Some gap_z \<Rightarrow> e\<lparr>se_abs_gap_z_window := rw_push \<bar>gap_z\<bar> (se_abs_gap_z_window e)\<rparr>
        | None \<Rightarrow> e)"

definition push_flows :: "BarInput \<Rightarrow> ShockEngine \<Rightarrow> ShockEngine" where
  "push_flows b e = e\<lparr>
     se_ofi_history := trim_vec (se_ofi_history e @ [b_ofi_1s b]) 64,
     se_buy_history := trim_vec (se_buy_history e @ [b_buy_notional_1s b]) 64,
     se_sell_history := trim_vec (se_sell_history e @ [b_sell_notional_1s b]) 64,
     se_cvd_history := trim_vec (se_cvd_history e @ [b_cvd_delta_1s b]) 64,
     se_vol_history := trim_vec (se_vol_history e @ [b_volume_notional_1s b]) 64,
     se_trade_count_history := trim_vec (se_trade_count_history e @ [b_trade_count_1s b]) 64,
     se_trade_missing_history :=
       trim_vec (se_trade_missing_history e @ [b_trade_side_missing_count_1s b]) 64\<rparr>"

record Feats =
  ft_r3 :: "f64 option"
  ft_r5 :: "f64 option"
  ft_r30 :: "f64 option"
  ft_a10 :: "f64 option"
  ft_rv5 :: "f64 option"
  ft_rv60 :: "f64 option"
  ft_ofi_10 :: "f64 option"
  ft_ofi_30 :: "f64 option"
  ft_cvd_30 :: "f64 option"
  ft_buy_30 :: "f64 option"
  ft_sell_30 :: "f64 option"
  ft_vol_30 :: "f64 option"

definition features :: "(f64 \<Rightarrow> f64) \<Rightarrow> ShockEngine \<Rightarrow> Feats" where
  "features lnf e =
    (let r5 = log_return lnf (se_micro_history e) 5;
         r5_prev = log_return_at lnf (se_micro_history e) 5 5
     in \<lparr>ft_r3 = log_return lnf (se_micro_history e) 3, ft_r5 = r5,
         ft_r30 = log_return lnf (se_micro_history e) 30,
         ft_a10 = (case (r5, r5_prev) of (Some cur, Some prev) \<Rightarrow> Some (cur - prev) | _ \<Rightarrow> None),
         ft_rv5 = realized_vol (se_return_history e) 5, ft_rv60 = realized_vol (se_return_history e) 60,
         ft_ofi_10 = sum_last (se_ofi_history e) 10, ft_ofi_30 = sum_last (se_ofi_history e) 30,
         ft_cvd_30 = sum_last (se_cvd_history e) 30, ft_buy_30 = sum_last (se_buy_history e) 30,
         ft_sell_30 = sum_last (se_sell_history e) 30, ft_vol_30 = sum_last (se_vol_history e) 30\<rparr>)"

text \<open>\<open>record_metric\<close> followed by the insertion into the current metrics.\<close>

definition observe :: "ShockType \<Rightarrow> millis \<Rightarrow> f64 \<Rightarrow> Scan \<Rightarrow> Scan" where
  "observe key ts_ms value s =
    s\<lparr>sc_eng := record_metric key ts_ms value (sc_eng s), sc_metrics := (sc_metrics s)(key \<mapsto> value)\<rparr>"

definition on_eng :: "(ShockEngine \<Rightarrow> ShockEngine) \<Rightarrow> Scan \<Rightarrow> Scan" where
  "on_eng f s = s\<lparr>sc_eng := f (sc_eng s)\<rparr>"

definition when_some :: "'a option \<Rightarrow> ('a \<Rightarrow> 's \<Rightarrow> 's) \<Rightarrow> 's \<Rightarrow> 's" where
  "when_some x f s = (case x of Some v \<Rightarrow> f v s | None \<Rightarrow> s)"

definition record_returns :: "Feats \<Rightarrow> millis \<Rightarrow> Scan \<Rightarrow> Scan" where
  "record_returns ft ts_ms s =
    (let s = when_some (ft_r5 ft) (\<lambda>v s. observe PRICE_VELOCITY_5S ts_ms \<bar>v\<bar>
           (on_eng (\<lambda>e. e\<lparr>se_abs_r5_window := rw_push \<bar>v\<bar> (se_abs_r5_window e)\<rparr>) s)) s;
         s = when_some (ft_a10 ft) (\<lambda>v s. observe PRICE_ACCEL_10S ts_ms \<bar>v\<bar>
           (on_eng (\<lambda>e. e\<lparr>se_abs_a10_window := rw_push \<bar>v\<bar> (se_abs_a10_window e)\<rparr>) s)) s;
         s = when_some (ft_rv5 ft) (\<lambda>v s. observe RV_JUMP_5S ts_ms v
           (on_eng (\<lambda>e. e\<lparr>se_rv5_window := rw_push v (se_rv5_window e)\<rparr>) s)) s
     in when_some (ft_rv60 ft) (\<lambda>v s. observe RV_JUMP_1M ts_ms v
           (on_eng (\<lambda>e. e\<lparr>se_rv60_window := rw_push v (se_rv60_window e)\<rparr>) s)) s)"

definition record_flows :: "BarInput \<Rightarrow> Feats \<Rightarrow> millis \<Rightarrow> Scan \<Rightarrow> Scan" where
  "record_flows b ft ts_ms s =
    (let s = on_eng (\<lambda>e. e\<lparr>se_vol1_window := rw_push (b_volume_notional_1s b) (se_vol1_window e)\<rparr>) s;
         s = when_some (ft_vol_30 ft) (\<lambda>v s. observe WASH_TRADE ts_ms v
           (on_eng (\<lambda>e. e\<lparr>se_vol30_window := rw_push v (se_vol30_window e)\<rparr>) s)) s;
         s = when_some (ft_cvd_30 ft) (\<lambda>v s. observe CVD_SPIKE_30S ts_ms \<bar>v\<bar>
           (on_eng (\<lambda>e. e\<lparr>se_abs_cvd30_window := rw_push \<bar>v\<bar> (se_abs_cvd30_window e)\<rparr>) s)) s;
         s = when_some (ft_ofi_10 ft) (\<lambda>v s. observe OFI_SPIKE_10S ts_ms \<bar>v\<bar>
           (on_eng (\<lambda>e. e\<lparr>se_abs_ofi10_window := rw_push \<bar>v\<bar> (se_abs_ofi10_window e)\<rparr>) s)) s;
         s = when_some (ft_ofi_30 ft) (\<lambda>v.
           on_eng (\<lambda>e. e\<lparr>se_abs_ofi30_window := rw_push \<bar>v\<bar> (se_abs_ofi30_window e)\<rparr>)) s;
         s = when_some (ft_r3 ft) (\<lambda>v.
           on_eng (\<lambda>e. e\<lparr>se_abs_r3_window := rw_push \<bar>v\<bar> (se_abs_r3_window e)\<rparr>)) s
     in when_some (ft_r30 ft) (\<lambda>v.
           on_eng (\<lambda>e. e\<lparr>se_abs_r30_window := rw_push \<bar>v\<bar> (se_abs_r30_window e)\<rparr>)) s)"

definition record_quotes :: "BarInput \<Rightarrow> millis \<Rightarrow> Scan \<Rightarrow> Scan" where
  "record_quotes b ts_ms s =
    (let add = f64_of_int (b_add_updates_1s b); cancel = f64_of_int (b_cancel_updates_1s b);
         s = on_eng (\<lambda>e. e\<lparr>se_q_add_window := rw_push add (se_q_add_window e),
           se_q_cancel_window := rw_push cancel (se_q_cancel_window e),
           se_trade_notional_window := rw_push (b_max_trade_notional_1s b) (se_trade_notional_window e),
           se_q_add_stats := ewma_update add (se_q_add_stats e),
           se_q_cancel_stats := ewma_update cancel (se_q_cancel_stats e)\<rparr>) s;
         s = observe QUOTE_BURST_CANCEL ts_ms cancel (observe QUOTE_BURST_ADD ts_ms add s);
         s = (if b_max_trade_notional_1s b > 0 then observe LARGE_TRADE ts_ms (b_max_trade_notional_1s b) s else s)
     in observe SWEEP ts_ms (b_volume_notional_1s b) s)"


subsection \<open>The detectors\<close>

definition q_or_0 :: "RollingWindow \<Rightarrow> f64 \<Rightarrow> f64" where
  "q_or_0 w q = unwrap_or (quantile w q) 0"

abbreviation q99 :: f64 where "q99 \<equiv> lit (99 / 100)"
abbreviation q95 :: f64 where "q95 \<equiv> lit (95 / 100)"
abbreviation q50 :: f64 where "q50 \<equiv> lit (1 / 2)"
abbreviation q20 :: f64 where "q20 \<equiv> lit (1 / 5)"

definition sign_dir :: "bool \<Rightarrow> int" where
  "sign_dir up = (if up then 1 else - 1)"

definition detect_velocity :: "BarInput \<Rightarrow> Feats \<Rightarrow> f64 \<Rightarrow> millis \<Rightarrow> Scan \<Rightarrow> Scan" where
  "detect_velocity b ft micro ts_ms s = when_some (ft_r5 ft) (\<lambda>value s.
     let metric = \<bar>value\<bar>;
         p99 = q_or_0 (se_abs_r5_window (sc_eng s)) q99;
         tick_floor = (case b_tick_px b of
             Some tick \<Rightarrow> if tick > 0 then lit 5 * tick / micro else 0 | None \<Rightarrow> 0);
         threshold = f64_max p99 tick_floor
     in if metric \<ge> threshold then
          fire PRICE_VELOCITY_5S (sign_dir (value > 0)) 0 ts_ms metric threshold
            [(''r5'', CtxF value), (''threshold'', CtxF threshold)] s
        else s) s"

definition detect_accel :: "Feats \<Rightarrow> millis \<Rightarrow> Scan \<Rightarrow> Scan" where
  "detect_accel ft ts_ms s = when_some (ft_a10 ft) (\<lambda>value s.
     let metric = \<bar>value\<bar>; p99 = q_or_0 (se_abs_a10_window (sc_eng s)) q99
     in if metric \<ge> p99 then
          fire PRICE_ACCEL_10S (sign_dir (value > 0)) 0 ts_ms metric p99
            [(''a10'', CtxF value), (''threshold'', CtxF p99)] s
        else s) s"

definition detect_rv5 :: "Feats \<Rightarrow> millis \<Rightarrow> Scan \<Rightarrow> Scan" where
  "detect_rv5 ft ts_ms s = when_some (ft_rv5 ft) (\<lambda>value s.
     let p99 = q_or_0 (se_rv5_window (sc_eng s)) q99; p50 = q_or_0 (se_rv5_window (sc_eng s)) q50
     in if value \<ge> p99 \<and> value \<ge> lit 3 * p50 then
          fire RV_JUMP_5S 0 0 ts_ms value p99 [(''rv5'', CtxF value), (''p99'', CtxF p99), (''p50'', CtxF p50)] s
        else s) s"

definition detect_rv60 :: "Feats \<Rightarrow> millis \<Rightarrow> Scan \<Rightarrow> Scan" where
  "detect_rv60 ft ts_ms s = when_some (ft_rv60 ft) (\<lambda>value s.
     let p99 = q_or_0 (se_rv60_window (sc_eng s)) q99
     in if value \<ge> p99 then
          fire RV_JUMP_1M 0 0 ts_ms value p99 [(''rv60'', CtxF value), (''p99'', CtxF p99)] s
        else s) s"

definition detect_large_trade :: "BarInput \<Rightarrow> Feats \<Rightarrow> millis \<Rightarrow> Scan \<Rightarrow> Scan" where
  "detect_large_trade b ft ts_ms s =
    (let m = b_max_trade_notional_1s b in
     if m > 0 then
       let p99 = q_or_0 (se_trade_notional_window (sc_eng s)) q99; threshold = f64_max p99 (lit 1000)
       in if m \<ge> threshold then
            let direction = sign_dir (b_cvd_delta_1s b \<ge> 0);
                r3_ok = (case ft_r3 ft of Some r \<Rightarrow> f64_eq (f64_signum r) (f64_of_int direction) | None \<Rightarrow> False)
            in if r3_ok then
                 fire LARGE_TRADE direction 0 ts_ms m threshold
                   [(''max_trade_notional'', CtxF m), (''threshold'', CtxF threshold)] s
               else s
          else s
     else s)"

definition detect_imbalance :: "Feats \<Rightarrow> millis \<Rightarrow> Scan \<Rightarrow> Scan" where
  "detect_imbalance ft ts_ms s =
    (case (ft_buy_30 ft, ft_sell_30 ft) of
       (Some buy, Some sell) \<Rightarrow>
         let ratio = (buy + lit (1 / 10 ^ 9)) / (sell + lit (1 / 10 ^ 9));
             imbalance = (if ratio \<ge> 1 then ratio else 1 / ratio);
             s = observe TAKER_IMBALANCE_30S ts_ms imbalance s
         in if ratio \<ge> lit 3 \<or> ratio \<le> lit 1 / lit 3 then
              fire TAKER_IMBALANCE_30S (sign_dir (ratio \<ge> 1)) 0 ts_ms imbalance (lit 3)
                [(''ratio'', CtxF ratio), (''buy_30'', CtxF buy), (''sell_30'', CtxF sell)] s
            else s
     | _ \<Rightarrow> s)"

definition detect_cvd :: "Feats \<Rightarrow> millis \<Rightarrow> Scan \<Rightarrow> Scan" where
  "detect_cvd ft ts_ms s = when_some (ft_cvd_30 ft) (\<lambda>cvd s.
     let p99 = q_or_0 (se_abs_cvd30_window (sc_eng s)) q99;
         missing_ratio =
           missing_ratio_30s (se_trade_count_history (sc_eng s)) (se_trade_missing_history (sc_eng s))
     in if missing_ratio < lit (1 / 2) \<and> \<bar>cvd\<bar> \<ge> p99 then
          fire CVD_SPIKE_30S (sign_dir (cvd > 0)) 0 ts_ms \<bar>cvd\<bar> p99
            [(''cvd_30'', CtxF cvd), (''threshold'', CtxF p99), (''missing_ratio'', CtxF missing_ratio)] s
        else s) s"

definition detect_quote_bursts :: "BarInput \<Rightarrow> millis \<Rightarrow> Scan \<Rightarrow> Scan" where
  "detect_quote_bursts b ts_ms s =
    (let e = sc_eng s;
         add = f64_of_int (b_add_updates_1s b); cancel = f64_of_int (b_cancel_updates_1s b);
         (add_mean, add_std) = ewma_snapshot (se_q_add_stats e);
         (cancel_mean, cancel_std) = ewma_snapshot (se_q_cancel_stats e);
         add_z = zscore add add_mean add_std;
         cancel_z = zscore cancel cancel_mean cancel_std;
         add_p99 = q_or_0 (se_q_add_window e) q99;
         cancel_p99 = q_or_0 (se_q_cancel_window e) q99;
         add_threshold = f64_max add_p99 (add_mean + lit 5 * add_std);
         cancel_threshold = f64_max cancel_p99 (cancel_mean + lit 5 * cancel_std);
         s = (if add_z \<ge> lit 5 \<or> add \<ge> add_p99 then
                fire QUOTE_BURST_ADD 0 0 ts_ms add add_threshold
                  [(''q_add'', CtxI (b_add_updates_1s b)), (''z'', CtxF add_z), (''p99'', CtxF add_p99)] s
              else s)
     in if cancel_z \<ge> lit 5 \<or> cancel \<ge> cancel_p99 then
          fire QUOTE_BURST_CANCEL 0 0 ts_ms cancel cancel_threshold
            [(''q_cancel'', CtxI (b_cancel_updates_1s b)), (''z'', CtxF cancel_z), (''p99'', CtxF cancel_p99)] s
        else s)"

definition detect_ofi :: "Feats \<Rightarrow> millis \<Rightarrow> Scan \<Rightarrow> Scan" where
  "detect_ofi ft ts_ms s = when_some (ft_ofi_10 ft) (\<lambda>ofi_10 s.
     let p99 = q_or_0 (se_abs_ofi10_window (sc_eng s)) q99; metric = \<bar>ofi_10\<bar>
     in if metric \<ge> p99 then
          fire OFI_SPIKE_10S (sign_dir (ofi_10 > 0)) 0 ts_ms metric p99
            [(''ofi_10'', CtxF ofi_10), (''threshold'', CtxF p99)] s
        else s) s"

definition detect_sweep :: "BarInput \<Rightarrow> millis \<Rightarrow> Scan \<Rightarrow> Scan" where
  "detect_sweep b ts_ms s =
    (if b_levels_crossed_1s b \<ge> 3 then
       let p95 = q_or_0 (se_vol1_window (sc_eng s)) q95; vol = b_volume_notional_1s b
       in if vol \<ge> p95 then
            fire SWEEP (sign_dir (b_cvd_delta_1s b \<ge> 0)) 0 ts_ms vol p95
              [(''levels_crossed'', CtxI (b_levels_crossed_1s b)), (''vol_1s'', CtxF vol)] s
          else s
     else s)"

definition detect_wall_pull :: "BarInput \<Rightarrow> Feats \<Rightarrow> millis \<Rightarrow> Scan \<Rightarrow> Scan" where
  "detect_wall_pull b ft ts_ms s = when_some (b_wall_pull b) (\<lambda>signal s.
     let abs_r3 = (case ft_r3 ft of Some v \<Rightarrow> \<bar>v\<bar> | None \<Rightarrow> 0);
         p20_r3 = q_or_0 (se_abs_r3_window (sc_eng s)) q20;
         abs_ofi10 = (case ft_ofi_10 ft of Some v \<Rightarrow> \<bar>v\<bar> | None \<Rightarrow> 0);
         p20_ofi = q_or_0 (se_abs_ofi10_window (sc_eng s)) q20
     in if abs_r3 \<le> p20_r3 \<and> abs_ofi10 \<le> p20_ofi then
          fire FAKE_WALL_PULL 0 1 ts_ms (wp_size_before signal) (wp_size_before signal)
            [(''wall_price'', CtxF (wp_price signal)), (''wall_size'', CtxF (wp_size_before signal)),
             (''pull_ratio'', CtxF (wp_pull_ratio signal)), (''side'', CtxSide (wp_side signal))] s
        else s) s"

definition detect_wash :: "Feats \<Rightarrow> millis \<Rightarrow> Scan \<Rightarrow> Scan" where
  "detect_wash ft ts_ms s =
    (case (ft_vol_30 ft, ft_r30 ft, ft_ofi_10 ft) of
       (Some vol_30, Some r30, Some ofi_10) \<Rightarrow>
         let p99_vol = q_or_0 (se_vol30_window (sc_eng s)) q99;
             p20_r30 = q_or_0 (se_abs_r30_window (sc_eng s)) q20;
             p20_ofi10 = q_or_0 (se_abs_ofi10_window (sc_eng s)) q20
         in if vol_30 \<ge> p99_vol \<and> \<bar>r30\<bar> \<le> p20_r30 \<and> \<bar>ofi_10\<bar> \<le> p20_ofi10 then
              fire WASH_TRADE 0 1 ts_ms vol_30 p99_vol
                [(''vol_30'', CtxF vol_30), (''r30'', CtxF r30), (''ofi_10'', CtxF ofi_10)] s
            else s
     | _ \<Rightarrow> s)"

subsection \<open>Peaks and finalisation\<close>

definition track_peak :: "millis \<Rightarrow> f64 option \<Rightarrow> PendingShock \<Rightarrow> PendingShock" where
  "track_peak ts_ms current p =
    (if ts_ms \<le> ps_expires_ts_ms p then
       (case current of
          Some value \<Rightarrow> if value > ps_peak_value p then p\<lparr>ps_peak_value := value, ps_peak_ts_ms := ts_ms\<rparr> else p
        | None \<Rightarrow> p)
     else p)"

definition final_of :: "PendingShock \<Rightarrow> ShockFinal" where
  "final_of p = \<lparr>sf_shock_type = ps_shock_type p, sf_direction = ps_direction p,
     sf_noise_flag = ps_noise_flag p, sf_start_ts_ms = ps_start_ts_ms p,
     sf_trigger_ts_ms = ps_trigger_ts_ms p, sf_peak_ts_ms = ps_peak_ts_ms p,
     sf_magnitude = ps_peak_value p, sf_context = ps_context p\<rparr>"

definition finalize_one :: "millis \<Rightarrow> (ShockType \<rightharpoonup> f64) \<Rightarrow> ShockType
    \<Rightarrow> ShockEngine \<times> ShockSignal list \<Rightarrow> ShockEngine \<times> ShockSignal list" where
  "finalize_one ts_ms metrics key acc =
    (let (e, sigs) = acc in
     case se_pending e key of
       None \<Rightarrow> (e, sigs)
     | Some p \<Rightarrow>
         let p = track_peak ts_ms (metrics key) p in
         if ts_ms \<ge> ps_expires_ts_ms p then
           (e\<lparr>se_pending := (se_pending e)(key := None)\<rparr>, sigs @ [FinalSig (final_of p)])
         else (e\<lparr>se_pending := (se_pending e)(key \<mapsto> p)\<rparr>, sigs))"

definition finalize_pending :: "((ShockType \<rightharpoonup> PendingShock) \<Rightarrow> ShockType list) \<Rightarrow> millis
    \<Rightarrow> (ShockType \<rightharpoonup> f64) \<Rightarrow> ShockEngine \<Rightarrow> ShockSignal list \<Rightarrow> ShockEngine \<times> ShockSignal list" where
  "finalize_pending keys ts_ms metrics e out =
    fold (finalize_one ts_ms metrics) (keys (se_pending e)) (e, out)"

text \<open>All detectors, in the order of the code.\<close>

definition detect_all :: "BarInput \<Rightarrow> Feats \<Rightarrow> f64 \<Rightarrow> millis \<Rightarrow> Scan \<Rightarrow> Scan" where
  "detect_all b ft micro ts_ms s =
    (let s = detect_velocity b ft micro ts_ms s;
         s = detect_accel ft ts_ms s;
         s = detect_rv5 ft ts_ms s;
         s = detect_rv60 ft ts_ms s;
         s = detect_large_trade b ft ts_ms s;
         s = detect_imbalance ft ts_ms s;
         s = detect_cvd ft ts_ms s;
         s = detect_quote_bursts b ts_ms s;
         s = detect_ofi ft ts_ms s;
         s = detect_sweep b ts_ms s;
         s = detect_wall_pull b ft ts_ms s
     in detect_wash ft ts_ms s)"

definition on_bar :: "(f64 \<Rightarrow> f64) \<Rightarrow> ((ShockType \<rightharpoonup> PendingShock) \<Rightarrow> ShockType list)
    \<Rightarrow> BarInput \<Rightarrow> ShockEngine \<Rightarrow> ShockEngine \<times> ShockSignal list" where
  "on_bar lnf keys b e =
    (let ts_ms = b_bar_second b * 1000 in
     case b_micro_px b of
       None \<Rightarrow> (e, [])
     | Some micro \<Rightarrow>
         if \<not> micro > 0 then (e, [])
         else
           let e = push_flows b (push_gap (b_micro_mid_gap b) (push_micro lnf micro e));
               ft = features lnf e;
               s = \<lparr>sc_eng = e, sc_metrics = Map.empty, sc_signals = []\<rparr>;
               s = record_quotes b ts_ms (record_flows b ft ts_ms (record_returns ft ts_ms s));
               s = detect_all b ft micro ts_ms s
           in finalize_pending keys ts_ms (sc_metrics s) (sc_eng s) (sc_signals s))"


text \<open>A run: the bars in order, with every signal reported.\<close>

fun shock_run :: "(f64 \<Rightarrow> f64) \<Rightarrow> ((ShockType \<rightharpoonup> PendingShock) \<Rightarrow> ShockType list) \<Rightarrow> BarInput list
    \<Rightarrow> ShockEngine \<Rightarrow> ShockEngine \<times> ShockSignal list" where
  "shock_run lnf keys [] e = (e, [])"
| "shock_run lnf keys (b # bars) e =
    (let (e1, sigs) = on_bar lnf keys b e; (e2, more) = shock_run lnf keys bars e1 in (e2, sigs @ more))"

lemma shock_run_snoc:
  "shock_run lnf keys (bars @ [b]) e =
    (let (e1, sigs) = shock_run lnf keys bars e; (e2, more) = on_bar lnf keys b e1 in (e2, sigs @ more))"
  by (induction bars arbitrary: e) (auto split: prod.splits)

subsection \<open>What a bar may do to the schedule\<close>

text \<open>The part of the scan that scheduling is about, and the steps that change it.\<close>

definition sched_of :: "Scan \<Rightarrow> (ShockType \<rightharpoonup> millis) \<times> (ShockType \<rightharpoonup> PendingShock) \<times> ShockSignal list" where
  "sched_of s = (se_last_trigger_ms (sc_eng s), se_pending (sc_eng s), sc_signals s)"

inductive scans :: "millis \<Rightarrow> Scan \<Rightarrow> Scan \<Rightarrow> bool" for ts where
  frame: "sched_of s' = sched_of s \<Longrightarrow> scans ts s s'"
| fired: "scans ts s (fire t d n ts m th c s)"
| trans: "scans ts s s1 \<Longrightarrow> scans ts s1 s2 \<Longrightarrow> scans ts s s2"

lemma scans_refl [intro]: "scans ts s s"
  by (rule frame) simp

lemma sched_observe [simp]: "sched_of (observe k ts v s) = sched_of s"
  by (simp add: sched_of_def observe_def record_metric_def Let_def)

lemma sched_on_eng: "se_last_trigger_ms (f (sc_eng s)) = se_last_trigger_ms (sc_eng s) \<Longrightarrow>
    se_pending (f (sc_eng s)) = se_pending (sc_eng s) \<Longrightarrow> sched_of (on_eng f s) = sched_of s"
  by (simp add: sched_of_def on_eng_def)

lemma sched_when_some: "(\<And>v s. sched_of (f v s) = sched_of s) \<Longrightarrow> sched_of (when_some x f s) = sched_of s"
  by (simp add: when_some_def split: option.split)

lemma scans_when_some: "(\<And>v s. scans ts s (f v s)) \<Longrightarrow> scans ts s (when_some x f s)"
  by (auto simp: when_some_def split: option.split)

lemma sched_records:
  "sched_of (record_returns ft ts s) = sched_of s" "sched_of (record_flows b ft ts s) = sched_of s"
  "sched_of (record_quotes b ts s) = sched_of s"
  by (simp_all add: record_returns_def record_flows_def record_quotes_def Let_def sched_when_some sched_on_eng)

lemma scans_detectors:
  "scans ts s (detect_velocity b ft micro ts s)" "scans ts s (detect_accel ft ts s)"
  "scans ts s (detect_rv5 ft ts s)" "scans ts s (detect_rv60 ft ts s)"
  "scans ts s (detect_large_trade b ft ts s)" "scans ts s (detect_cvd ft ts s)"
  "scans ts s (detect_ofi ft ts s)" "scans ts s (detect_sweep b ts s)"
  "scans ts s (detect_wall_pull b ft ts s)"
  unfolding detect_velocity_def detect_accel_def detect_rv5_def detect_rv60_def detect_large_trade_def
    detect_cvd_def detect_ofi_def detect_sweep_def detect_wall_pull_def Let_def
  by (auto intro!: scans_when_some scans_refl scans.fired)

lemma scans_then_fire: "scans ts s s1 \<Longrightarrow> scans ts s (fire t d n ts m th c s1)"
  by (rule scans.trans[OF _ scans.fired])

lemma scans_observe: "scans ts s (observe k ts v s)"
  by (rule frame) simp

lemma scans_imbalance: "scans ts s (detect_imbalance ft ts s)"
  unfolding detect_imbalance_def Let_def
  by (auto split: option.split intro!: scans_refl scans_observe scans_then_fire)

lemma scans_wash: "scans ts s (detect_wash ft ts s)"
  unfolding detect_wash_def Let_def by (auto split: option.split intro: scans_refl scans.fired)

lemma scans_quotes: "scans ts s (detect_quote_bursts b ts s)"
  unfolding detect_quote_bursts_def Let_def case_prod_beta
  by (auto intro!: scans_refl scans_then_fire)

lemma scans_detect_all: "scans ts s (detect_all b ft micro ts s)"
  unfolding detect_all_def Let_def
  by (intro scans.trans[OF _ scans_wash] scans.trans[OF _ scans_detectors(9)] scans.trans[OF _ scans_detectors(8)]
      scans.trans[OF _ scans_detectors(7)] scans.trans[OF _ scans_quotes] scans.trans[OF _ scans_detectors(6)]
      scans.trans[OF _ scans_imbalance] scans.trans[OF _ scans_detectors(5)] scans.trans[OF _ scans_detectors(4)]
      scans.trans[OF _ scans_detectors(3)] scans.trans[OF _ scans_detectors(2)] scans_detectors(1))

lemma sched_push:
  "se_last_trigger_ms (push_micro lnf m e) = se_last_trigger_ms e" "se_pending (push_micro lnf m e) = se_pending e"
  "se_last_trigger_ms (push_gap g e) = se_last_trigger_ms e" "se_pending (push_gap g e) = se_pending e"
  "se_last_trigger_ms (push_flows b e) = se_last_trigger_ms e" "se_pending (push_flows b e) = se_pending e"
  by (simp_all add: push_micro_def push_gap_def push_flows_def Let_def split: option.split)

text \<open>A bar either does nothing, or scans from the schedule it finds and then finalises.\<close>

lemma on_bar_cases:
  assumes "on_bar lnf keys b e = (e', sigs)"
  obtains (skip) "e' = e" "sigs = []"
  | (scan) s0 s where "se_last_trigger_ms (sc_eng s0) = se_last_trigger_ms e" "se_pending (sc_eng s0) = se_pending e"
      "sc_signals s0 = []" "scans (b_bar_second b * 1000) s0 s"
      "finalize_pending keys (b_bar_second b * 1000) (sc_metrics s) (sc_eng s) (sc_signals s) = (e', sigs)"
proof (cases "\<exists>m. b_micro_px b = Some m \<and> m > 0")
  case False
  then show ?thesis using assms skip by (auto simp: on_bar_def Let_def split: option.splits)
next
  case True
  then obtain m where m: "b_micro_px b = Some m" "m > 0" by blast
  define ts where "ts = b_bar_second b * 1000"
  define e1 where "e1 = push_flows b (push_gap (b_micro_mid_gap b) (push_micro lnf m e))"
  define s1 where "s1 = \<lparr>sc_eng = e1, sc_metrics = Map.empty, sc_signals = []\<rparr>"
  define s2 where "s2 = record_quotes b ts (record_flows b (features lnf e1) ts (record_returns (features lnf e1) ts s1))"
  have "sched_of s2 = sched_of s1" by (simp add: s2_def sched_records)
  then have "se_last_trigger_ms (sc_eng s2) = se_last_trigger_ms e" "se_pending (sc_eng s2) = se_pending e"
    "sc_signals s2 = []"
    by (simp_all add: sched_of_def s1_def e1_def sched_push)
  moreover have "scans ts s2 (detect_all b (features lnf e1) m ts s2)" by (rule scans_detect_all)
  moreover have "finalize_pending keys ts (sc_metrics (detect_all b (features lnf e1) m ts s2))
      (sc_eng (detect_all b (features lnf e1) m ts s2)) (sc_signals (detect_all b (features lnf e1) m ts s2)) = (e', sigs)"
    using assms m by (simp add: on_bar_def Let_def ts_def e1_def s1_def s2_def)
  ultimately show ?thesis unfolding ts_def by (rule scan)
qed

end
