(* ===== verification/ShockRuns.thy ===== *)
theory ShockRuns
  imports Shock
begin

text \<open>
  Properties of runs of the shock engine: the cooldown of each type, what a final report says about
  the shock it closes, the content of the rolling windows, and the shocks that never close.
\<close>

fun pendings :: "ShockSignal list \<Rightarrow> ShockPending list" where
  "pendings [] = []"
| "pendings (PendingSig p # sigs) = p # pendings sigs"
| "pendings (FinalSig f # sigs) = pendings sigs"

fun finals :: "ShockSignal list \<Rightarrow> ShockFinal list" where
  "finals [] = []"
| "finals (PendingSig p # sigs) = finals sigs"
| "finals (FinalSig f # sigs) = f # finals sigs"

definition triggers :: "ShockType \<Rightarrow> ShockSignal list \<Rightarrow> millis list" where
  "triggers t lg = map sp_trigger_ts_ms (filter (\<lambda>p. sp_shock_type p = t) (pendings lg))"

lemma pendings_append [simp]: "pendings (xs @ ys) = pendings xs @ pendings ys"
  by (induction xs rule: pendings.induct) simp_all

lemma finals_append [simp]: "finals (xs @ ys) = finals xs @ finals ys"
  by (induction xs rule: finals.induct) simp_all

lemma triggers_append [simp]: "triggers t (xs @ ys) = triggers t xs @ triggers t ys"
  by (simp add: triggers_def)

lemma signal_lists [simp]:
  "pendings (map FinalSig fs) = []" "finals (map FinalSig fs) = fs" "triggers t (map FinalSig fs) = []"
  "triggers t [] = []" "triggers t [PendingSig p] = (if sp_shock_type p = t then [sp_trigger_ts_ms p] else [])"
  by (induction fs) (simp_all add: triggers_def)

text \<open>The three facts about the engine and the log of its signals.\<close>

definition cool_ok :: "(ShockType \<rightharpoonup> millis) \<Rightarrow> ShockSignal list \<Rightarrow> bool" where
  "cool_ok recent lg \<longleftrightarrow> (\<forall>t.
     recent t = (if triggers t lg = [] then None else Some (last (triggers t lg))) \<and>
     sorted_wrt (\<lambda>a b. a + COOLDOWN_MS \<le> b) (triggers t lg))"

definition traces :: "PendingShock \<Rightarrow> ShockPending \<Rightarrow> bool" where
  "traces p q \<longleftrightarrow> ps_shock_type p = sp_shock_type q \<and> ps_direction p = sp_direction q \<and>
     ps_noise_flag p = sp_noise_flag q \<and> ps_start_ts_ms p = sp_start_ts_ms q \<and>
     ps_trigger_ts_ms p = sp_trigger_ts_ms q \<and> ps_context p = sp_context q \<and>
     (ps_peak_value p = sp_magnitude q \<or> sp_magnitude q < ps_peak_value p) \<and>
     ps_expires_ts_ms p = ps_trigger_ts_ms p + PEAK_WINDOW_MS \<and> ps_peak_ts_ms p \<le> ps_expires_ts_ms p"

definition closes :: "ShockFinal \<Rightarrow> ShockPending \<Rightarrow> bool" where
  "closes f q \<longleftrightarrow> sf_shock_type f = sp_shock_type q \<and> sf_direction f = sp_direction q \<and>
     sf_noise_flag f = sp_noise_flag q \<and> sf_start_ts_ms f = sp_start_ts_ms q \<and>
     sf_trigger_ts_ms f = sp_trigger_ts_ms q \<and> sf_context f = sp_context q \<and>
     (sf_magnitude f = sp_magnitude q \<or> sp_magnitude q < sf_magnitude f) \<and>
     sf_peak_ts_ms f \<le> sf_trigger_ts_ms f + PEAK_WINDOW_MS"

definition final_key :: "ShockFinal \<Rightarrow> ShockType \<times> millis" where
  "final_key f = (sf_shock_type f, sf_trigger_ts_ms f)"

definition pend_ok :: "(ShockType \<rightharpoonup> PendingShock) \<Rightarrow> ShockSignal list \<Rightarrow> bool" where
  "pend_ok pend lg \<longleftrightarrow> (\<forall>t p. pend t = Some p \<longrightarrow> ps_shock_type p = t \<and>
     (\<exists>q\<in>set (pendings lg). traces p q) \<and> (t, ps_trigger_ts_ms p) \<notin> final_key ` set (finals lg))"

definition finals_ok :: "ShockSignal list \<Rightarrow> bool" where
  "finals_ok lg \<longleftrightarrow> distinct (map final_key (finals lg)) \<and>
     (\<forall>f\<in>set (finals lg). \<exists>q\<in>set (pendings lg). closes f q)"

definition run_ok :: "(ShockType \<rightharpoonup> millis) \<Rightarrow> (ShockType \<rightharpoonup> PendingShock) \<Rightarrow> ShockSignal list \<Rightarrow> bool" where
  "run_ok recent pend lg \<longleftrightarrow> cool_ok recent lg \<and> pend_ok pend lg \<and> finals_ok lg"

lemma sorted_gap_last:
  assumes "sorted_wrt (\<lambda>a b. a + COOLDOWN_MS \<le> b) ts" "x \<in> set ts"
  shows "x \<le> last ts"
  using assms
proof (induction ts rule: rev_induct)
  case (snoc y ts)
  then show ?case by (force simp: sorted_wrt_append COOLDOWN_MS_def)
qed simp

lemma trigger_of_pending: "q \<in> set (pendings lg) \<Longrightarrow> sp_trigger_ts_ms q \<in> set (triggers (sp_shock_type q) lg)"
  by (auto simp: triggers_def)

lemma triggers_Pending: "triggers t (lg @ [PendingSig p]) =
    triggers t lg @ (if sp_shock_type p = t then [sp_trigger_ts_ms p] else [])"
  by (simp add: triggers_def)

lemma cool_ok_fire:
  assumes "cool_ok recent lg" "case recent t of Some prev \<Rightarrow> \<not> ts - prev < COOLDOWN_MS | None \<Rightarrow> True"
    "sp_shock_type q = t" "sp_trigger_ts_ms q = ts"
  shows "cool_ok (recent(t \<mapsto> ts)) (lg @ [PendingSig q])"
    and "\<forall>x\<in>set (triggers t lg). x < ts"
proof -
  have s: "sorted_wrt (\<lambda>a b. a + COOLDOWN_MS \<le> b) (triggers t lg)" and
    r: "recent t = (if triggers t lg = [] then None else Some (last (triggers t lg)))"
    using assms(1) unfolding cool_ok_def by blast+
  have gap: "x + COOLDOWN_MS \<le> ts" if x: "x \<in> set (triggers t lg)" for x
  proof -
    have "recent t = Some (last (triggers t lg))" using r x by auto
    then have "COOLDOWN_MS \<le> ts - last (triggers t lg)" using assms(2) by simp
    with sorted_gap_last[OF s x] show ?thesis by simp
  qed
  show "\<forall>x\<in>set (triggers t lg). x < ts" using gap by (force simp: COOLDOWN_MS_def)
  show "cool_ok (recent(t \<mapsto> ts)) (lg @ [PendingSig q])"
    using assms(1,3,4) gap s by (auto simp: cool_ok_def triggers_Pending sorted_wrt_append)
qed

lemma run_ok_fire:
  assumes ok: "run_ok (se_last_trigger_ms (sc_eng s)) (se_pending (sc_eng s)) (lg @ sc_signals s)"
  shows "run_ok (se_last_trigger_ms (sc_eng (fire t d n ts m th c s))) (se_pending (sc_eng (fire t d n ts m th c s)))
    (lg @ sc_signals (fire t d n ts m th c s))"
proof (cases "case se_last_trigger_ms (sc_eng s) t of Some prev \<Rightarrow> ts - prev < COOLDOWN_MS | None \<Rightarrow> False")
  case True
  then have "fire t d n ts m th c s = s" by (simp add: fire_def schedule_shock_def)
  with ok show ?thesis by simp
next
  case False
  define L where "L = lg @ sc_signals s"
  obtain start where
    f: "fire t d n ts m th c s = s\<lparr>sc_eng := (sc_eng s)\<lparr>
        se_last_trigger_ms := (se_last_trigger_ms (sc_eng s))(t \<mapsto> ts),
        se_pending := (se_pending (sc_eng s))(t \<mapsto> \<lparr>ps_shock_type = t, ps_direction = d, ps_noise_flag = n,
          ps_start_ts_ms = start, ps_trigger_ts_ms = ts, ps_peak_ts_ms = ts, ps_peak_value = m,
          ps_context = Some c, ps_expires_ts_ms = ts + PEAK_WINDOW_MS\<rparr>)\<rparr>,
      sc_signals := sc_signals s @ [PendingSig \<lparr>sp_shock_type = t, sp_direction = d, sp_noise_flag = n,
        sp_start_ts_ms = start, sp_trigger_ts_ms = ts, sp_magnitude = m, sp_context = Some c\<rparr>]\<rparr>"
    using False by (simp add: fire_def schedule_shock_def Let_def)
  define q where "q = \<lparr>sp_shock_type = t, sp_direction = d, sp_noise_flag = n,
        sp_start_ts_ms = start, sp_trigger_ts_ms = ts, sp_magnitude = m, sp_context = Some c\<rparr>"
  have cool: "cool_ok (se_last_trigger_ms (sc_eng s)) L" and pend: "pend_ok (se_pending (sc_eng s)) L"
    and fin: "finals_ok L" using ok unfolding run_ok_def L_def by blast+
  have open_gap: "case se_last_trigger_ms (sc_eng s) t of Some prev \<Rightarrow> \<not> ts - prev < COOLDOWN_MS | None \<Rightarrow> True"
    using False by (auto split: option.splits)
  have qt: "sp_shock_type q = t" "sp_trigger_ts_ms q = ts" by (simp_all add: q_def)
  note cf = cool_ok_fire[OF cool open_gap qt]
  have "(t, ts) \<notin> final_key ` set (finals L)"
  proof
    assume "(t, ts) \<in> final_key ` set (finals L)"
    then obtain g where g: "g \<in> set (finals L)" "sf_shock_type g = t" "sf_trigger_ts_ms g = ts"
      by (auto simp: final_key_def)
    with fin obtain r where "r \<in> set (pendings L)" "closes g r" unfolding finals_ok_def by blast
    with g trigger_of_pending[of r L] have "ts \<in> set (triggers t L)" by (simp add: closes_def)
    with cf(2) show False by blast
  qed
  then have "pend_ok (se_pending (sc_eng (fire t d n ts m th c s))) (L @ [PendingSig q])"
    using pend by (auto simp: pend_ok_def f traces_def q_def PEAK_WINDOW_MS_def)
  moreover have "finals_ok (L @ [PendingSig q])" using fin by (auto simp: finals_ok_def)
  ultimately show ?thesis using cf(1) unfolding run_ok_def f by (simp add: L_def q_def)
qed

lemma run_ok_scans:
  "scans ts s s' \<Longrightarrow> run_ok (se_last_trigger_ms (sc_eng s)) (se_pending (sc_eng s)) (lg @ sc_signals s) \<Longrightarrow>
    run_ok (se_last_trigger_ms (sc_eng s')) (se_pending (sc_eng s')) (lg @ sc_signals s')"
proof (induction rule: scans.induct)
  case (frame s' s)
  then show ?case by (simp add: sched_of_def)
next
  case (fired s t d n m th c)
  then show ?case by (rule run_ok_fire)
next
  case (trans s s1 s2)
  then show ?case by blast
qed

lemma traces_track: "traces p q \<Longrightarrow> traces (track_peak ts v p) q"
  by (auto simp: traces_def track_peak_def split: option.split intro: f64_trans)

lemma run_ok_finalize_one:
  assumes "run_ok (se_last_trigger_ms e) (se_pending e) (lg @ sigs)"
    and "finalize_one ts metrics key (e, sigs) = (e', sigs')"
  shows "run_ok (se_last_trigger_ms e') (se_pending e') (lg @ sigs')"
proof (cases "se_pending e key")
  case None
  with assms show ?thesis by (simp add: finalize_one_def)
next
  case (Some p0)
  define p where "p = track_peak ts (metrics key) p0"
  define L where "L = lg @ sigs"
  have cool: "cool_ok (se_last_trigger_ms e) L" and pend: "pend_ok (se_pending e) L" and fin: "finals_ok L"
    using assms(1) unfolding run_ok_def L_def by blast+
  obtain q where q: "q \<in> set (pendings L)" "traces p0 q" "ps_shock_type p0 = key"
    "(key, ps_trigger_ts_ms p0) \<notin> final_key ` set (finals L)"
    using pend Some unfolding pend_ok_def by blast
  have p: "traces p q" unfolding p_def by (rule traces_track[OF q(2)])
  have same: "ps_shock_type p = key" "ps_trigger_ts_ms p = ps_trigger_ts_ms p0"
    using q(3) by (auto simp: p_def track_peak_def split: option.split)
  show ?thesis
  proof (cases "ts \<ge> ps_expires_ts_ms p")
    case True
    then have e': "e' = e\<lparr>se_pending := (se_pending e)(key := None)\<rparr>" "sigs' = sigs @ [FinalSig (final_of p)]"
      using assms(2) by (simp_all add: finalize_one_def Some Let_def flip: p_def)
    have key: "final_key (final_of p) = (key, ps_trigger_ts_ms p0)" by (simp add: final_key_def final_of_def same)
    have "closes (final_of p) q" using p by (auto simp: closes_def final_of_def traces_def)
    then have "finals_ok (L @ [FinalSig (final_of p)])" using fin q(1,4) by (auto simp: finals_ok_def key)
    moreover have "pend_ok ((se_pending e)(key := None)) (L @ [FinalSig (final_of p)])"
      using pend by (auto simp: pend_ok_def key)
    moreover have "cool_ok (se_last_trigger_ms e) (L @ [FinalSig (final_of p)])"
      using cool by (simp add: cool_ok_def triggers_def)
    ultimately show ?thesis by (simp add: run_ok_def e' L_def)
  next
    case False
    then have e': "e' = e\<lparr>se_pending := (se_pending e)(key \<mapsto> p)\<rparr>" "sigs' = sigs"
      using assms(2) by (simp_all add: finalize_one_def Some Let_def flip: p_def)
    have "pend_ok ((se_pending e)(key \<mapsto> p)) L"
      using pend q(1,4) p same by (auto simp: pend_ok_def)
    then show ?thesis using cool fin by (simp add: run_ok_def e' L_def)
  qed
qed


lemma run_ok_finalize_fold:
  "run_ok (se_last_trigger_ms e) (se_pending e) (lg @ sigs) \<Longrightarrow>
    fold (finalize_one ts metrics) ks (e, sigs) = (e', sigs') \<Longrightarrow>
    run_ok (se_last_trigger_ms e') (se_pending e') (lg @ sigs')"
proof (induction ks arbitrary: e sigs)
  case (Cons k ks)
  obtain e1 s1 where f: "finalize_one ts metrics k (e, sigs) = (e1, s1)" by force
  show ?case
    by (rule Cons.IH[OF run_ok_finalize_one[OF Cons.prems(1) f]]) (use Cons.prems(2) f in simp)
qed simp

lemma run_ok_on_bar:
  assumes ok: "run_ok (se_last_trigger_ms e) (se_pending e) lg" and bar: "on_bar lnf keys b e = (e', sigs)"
  shows "run_ok (se_last_trigger_ms e') (se_pending e') (lg @ sigs)"
  using bar
proof (cases rule: on_bar_cases)
  case skip
  with ok show ?thesis by simp
next
  case (scan s0 s)
  have "run_ok (se_last_trigger_ms (sc_eng s)) (se_pending (sc_eng s)) (lg @ sc_signals s)"
    using run_ok_scans[OF scan(4), of lg] ok scan(1-3) by simp
  from run_ok_finalize_fold[OF this scan(5)[unfolded finalize_pending_def]] show ?thesis .
qed

lemma run_ok_run:
  "shock_run lnf keys bars e = (e', sigs) \<Longrightarrow> run_ok (se_last_trigger_ms e) (se_pending e) lg \<Longrightarrow>
    run_ok (se_last_trigger_ms e') (se_pending e') (lg @ sigs)"
proof (induction bars arbitrary: e lg sigs)
  case (Cons b bars)
  obtain e1 s1 where b: "on_bar lnf keys b e = (e1, s1)" by force
  obtain more where m: "shock_run lnf keys bars e1 = (e', more)" "sigs = s1 @ more"
    using Cons.prems(1) by (auto simp: b split: prod.splits)
  from Cons.IH[OF m(1) run_ok_on_bar[OF Cons.prems(2) b]] m(2) show ?case by simp
qed simp

lemma run_ok_new: "run_ok (se_last_trigger_ms shock_engine_new) (se_pending shock_engine_new) []"
  by (simp add: run_ok_def cool_ok_def pend_ok_def finals_ok_def shock_engine_new_def Let_def)

lemma run_ok_fresh:
  "shock_run lnf keys bars shock_engine_new = (e, sigs) \<Longrightarrow> run_ok (se_last_trigger_ms e) (se_pending e) sigs"
  using run_ok_run[OF _ run_ok_new] by fastforce

text \<open>
  C39. The cooldown holds for every type of shock and every sequence of bars, even one whose seconds
  repeat or go backwards: the reported trigger times of a type are at least ten seconds apart and
  ascending.
\<close>

theorem shock_cooldown:
  "sorted_wrt (\<lambda>a b. a + 10000 \<le> b) (triggers t (snd (shock_run lnf keys bars shock_engine_new)))"
  using run_ok_fresh[of lnf keys bars]
  by (cases "shock_run lnf keys bars shock_engine_new") (simp add: run_ok_def cool_ok_def COOLDOWN_MS_def)


subsection \<open>The rolling windows\<close>

lemma trim_vec_last_n: "trim_vec xs n = last_n n xs"
  by (induction xs n rule: trim_vec.induct) (auto simp: last_n_def Suc_diff_le)

definition rw_inv :: "nat \<Rightarrow> RollingWindow \<Rightarrow> bool" where
  "rw_inv n w \<longleftrightarrow> rw_max_len w = n \<and> length (rw_values w) \<le> n"

lemma rw_push_values:
  assumes "rw_inv n w"
  shows "rw_values (rw_push x w) = last_n n (rw_values w @ [x])" and "rw_inv n (rw_push x w)"
proof -
  show v: "rw_values (rw_push x w) = last_n n (rw_values w @ [x])"
  proof (cases "n = 0")
    case True
    then show ?thesis using assms by (simp add: rw_push_def rw_inv_def last_n_snoc_0)
  next
    case False
    then show ?thesis using assms
      by (cases "length (rw_values w) = n") (auto simp: rw_push_def rw_inv_def last_n_snoc_full Let_def)
  qed
  then show "rw_inv n (rw_push x w)"
    using assms by (auto simp: rw_inv_def) (simp add: rw_push_def Let_def)
qed

interpretation rolling: sliding_window rw_values rw_push n "rw_inv n" for n
  by unfold_locales (auto simp: rw_push_values)

interpretation engine_window: sliding_window "\<lambda>xs. xs" "\<lambda>x xs. trim_vec (xs @ [x]) n" n "\<lambda>_. True" for n
  by unfold_locales (auto simp: trim_vec_last_n)

lemma filter_insort_length: "length (filter P (insort_f64 x xs)) = length (filter P (x # xs))"
  by (induction xs) auto

lemma filter_sort_length: "length (filter P (sort_f64 xs)) = length (filter P xs)"
proof (induction xs)
  case (Cons x xs)
  have "sort_f64 (x # xs) = insort_f64 x (sort_f64 xs)" by (simp add: sort_f64_def)
  with Cons show ?case by (simp add: filter_insort_length)
qed (simp add: sort_f64_def)

lemma order_statistic:
  assumes "NaN \<notin> set xs" "i < length xs"
  shows "i < length (filter (\<lambda>y. y \<le> sort_f64 xs ! i) xs)"
    and "length xs - i \<le> length (filter (\<lambda>y. sort_f64 xs ! i \<le> y) xs)"
proof -
  define s where "s = sort_f64 xs"
  have l: "length s = length xs" "sorted_f64 s" "NaN \<notin> set s"
    using assms(1) by (simp_all add: s_def sorted_sort_f64)
  have le: "s ! j \<le> s ! k" if "j \<le> k" "k < length s" for j k using sorted_f64_nth[OF l(2,3) that] .
  have "\<forall>y\<in>set (take (Suc i) s). y \<le> s ! i"
    using le assms(2) l(1) by (fastforce simp: in_set_conv_nth)
  then have "filter (\<lambda>y. y \<le> s ! i) (take (Suc i) s) = take (Suc i) s" by (simp add: filter_id_conv)
  moreover have "filter (\<lambda>y. y \<le> s ! i) s = filter (\<lambda>y. y \<le> s ! i) (take (Suc i) s) @ filter (\<lambda>y. y \<le> s ! i) (drop (Suc i) s)"
    by (metis append_take_drop_id filter_append)
  ultimately have "Suc i \<le> length (filter (\<lambda>y. y \<le> s ! i) s)" using assms(2) l(1) by simp
  then show "i < length (filter (\<lambda>y. y \<le> sort_f64 xs ! i) xs)"
    unfolding s_def filter_sort_length by simp
  have "\<forall>y\<in>set (drop i s). s ! i \<le> y"
    using le assms(2) l(1) by (fastforce simp: in_set_conv_nth)
  then have "filter (\<lambda>y. s ! i \<le> y) (drop i s) = drop i s" by (simp add: filter_id_conv)
  moreover have "filter (\<lambda>y. s ! i \<le> y) s = filter (\<lambda>y. s ! i \<le> y) (take i s) @ filter (\<lambda>y. s ! i \<le> y) (drop i s)"
    by (metis append_take_drop_id filter_append)
  ultimately have "length xs - i \<le> length (filter (\<lambda>y. s ! i \<le> y) s)" using l(1) by simp
  then show "length xs - i \<le> length (filter (\<lambda>y. sort_f64 xs ! i \<le> y) xs)"
    unfolding s_def filter_sort_length by simp
qed

text \<open>
  The quantile of a rolling window is an order statistic of what was pushed last: with NaN-free
  samples it is one of the last \<open>n\<close> of them, more than \<open>rank\<close> of these are at most it, and all but
  \<open>rank\<close> of these are at least it.
\<close>

theorem rolling_quantile_rank:
  assumes "xs \<noteq> []" "0 < n" "n \<le> 2 ^ 53" "NaN \<notin> set xs" "0 \<le> q" "q \<le> 1"
  shows "\<exists>v. quantile (fold rw_push xs (rw_new n)) q = Some v \<and> v \<in> set (last_n n xs) \<and>
    rank_idx (min n (length xs)) q < length (filter (\<lambda>y. y \<le> v) (last_n n xs)) \<and>
    min n (length xs) - rank_idx (min n (length xs)) q \<le> length (filter (\<lambda>y. v \<le> y) (last_n n xs))"
proof -
  have "rw_values (fold rw_push xs (rw_new n)) = last_n n xs"
    by (rule rolling.fold_push_fresh) (simp_all add: rw_new_def rw_inv_def)
  moreover define ys where "ys = last_n n xs"
  ultimately have v: "rw_values (fold rw_push xs (rw_new n)) = ys" by simp
  have len: "length ys = min n (length xs)" by (simp add: ys_def)
  have "0 < length ys" using assms(1,2) len by simp
  then have ne: "ys \<noteq> []" by simp
  have nan: "NaN \<notin> set ys" using assms(4) set_last_n[of n xs] by (auto simp: ys_def)
  have small: "length ys \<le> 2 ^ 53" using assms(3) len by simp
  obtain x where x: "x \<in> set ys" "get (sort_f64 ys) (rank_idx (length ys) q) = Some x"
    using get_sort_rank[OF ne small assms(5,6)] by blast
  then have i: "rank_idx (length ys) q < length ys" "sort_f64 ys ! rank_idx (length ys) q = x"
    by (simp_all add: get_Some_iff)
  have "quantile (fold rw_push xs (rw_new n)) q = Some x" using ne x(2) by (simp add: quantile_def v)
  with order_statistic[OF nan i(1)] x(1) i(2) show ?thesis
    unfolding len[symmetric] ys_def[symmetric] by auto
qed

theorem rolling_quantile_rank_witness:
  "\<exists>v. quantile (fold rw_push [lit 3, lit 1, lit 2] (rw_new 2)) 1 = Some v \<and> v \<in> {lit 1, lit 2}"
  using rolling_quantile_rank[of "[lit 3, lit 1, lit 2]" 2 1]
  by (auto simp: f64_eval zero_key last_n_def)


subsection \<open>Shocks that never close\<close>

text \<open>What the scan knows about the bursts of added quotes.\<close>

definition burst_view :: "Scan \<Rightarrow>
    millis option \<times> PendingShock option \<times> millis list \<times> ShockFinal list \<times> RollingWindow" where
  "burst_view s = (se_last_trigger_ms (sc_eng s) QUOTE_BURST_ADD, se_pending (sc_eng s) QUOTE_BURST_ADD,
     triggers QUOTE_BURST_ADD (sc_signals s),
     filter (\<lambda>f. sf_shock_type f = QUOTE_BURST_ADD) (finals (sc_signals s)), se_q_add_window (sc_eng s))"

lemma burst_fire:
  "t \<noteq> QUOTE_BURST_ADD \<Longrightarrow> burst_view (fire t d n ts m th c s) = burst_view s"
  by (auto simp: burst_view_def fire_def schedule_shock_def Let_def)

lemma burst_observe [simp]: "burst_view (observe k ts v s) = burst_view s"
  by (simp add: burst_view_def observe_def record_metric_def Let_def)

lemma burst_on_eng:
  "se_last_trigger_ms (f (sc_eng s)) = se_last_trigger_ms (sc_eng s) \<Longrightarrow> se_pending (f (sc_eng s)) = se_pending (sc_eng s) \<Longrightarrow>
   se_q_add_window (f (sc_eng s)) = se_q_add_window (sc_eng s) \<Longrightarrow> burst_view (on_eng f s) = burst_view s"
  by (simp add: burst_view_def on_eng_def)

lemma burst_when_some: "(\<And>v s. burst_view (f v s) = burst_view s) \<Longrightarrow> burst_view (when_some x f s) = burst_view s"
  by (simp add: when_some_def split: option.split)

lemma burst_others:
  "burst_view (record_returns ft ts s) = burst_view s" "burst_view (record_flows b ft ts s) = burst_view s"
  "burst_view (detect_velocity b ft micro ts s) = burst_view s" "burst_view (detect_accel ft ts s) = burst_view s"
  "burst_view (detect_rv5 ft ts s) = burst_view s" "burst_view (detect_rv60 ft ts s) = burst_view s"
  "burst_view (detect_large_trade b ft ts s) = burst_view s" "burst_view (detect_imbalance ft ts s) = burst_view s"
  "burst_view (detect_cvd ft ts s) = burst_view s" "burst_view (detect_ofi ft ts s) = burst_view s"
  "burst_view (detect_sweep b ts s) = burst_view s" "burst_view (detect_wall_pull b ft ts s) = burst_view s"
  "burst_view (detect_wash ft ts s) = burst_view s"
  by (simp_all add: record_returns_def record_flows_def detect_velocity_def detect_accel_def detect_rv5_def
      detect_rv60_def detect_large_trade_def detect_imbalance_def detect_cvd_def detect_ofi_def detect_sweep_def
      detect_wall_pull_def detect_wash_def Let_def burst_when_some burst_on_eng burst_fire split: option.split)

lemma burst_quotes: "se_q_add_window (sc_eng (record_quotes b ts s))
    = rw_push (f64_of_int (b_add_updates_1s b)) (se_q_add_window (sc_eng s))"
  "se_last_trigger_ms (sc_eng (record_quotes b ts s)) = se_last_trigger_ms (sc_eng s)"
  "se_pending (sc_eng (record_quotes b ts s)) = se_pending (sc_eng s)"
  "sc_signals (record_quotes b ts s) = sc_signals s"
  by (simp_all add: record_quotes_def observe_def record_metric_def on_eng_def Let_def)

text \<open>With every sample equal to the newest one, the burst detector fires on each bar.\<close>

lemma quantile_constant:
  assumes "rw_values w \<noteq> []" "set (rw_values w) \<subseteq> {v}" "length (rw_values w) \<le> 2 ^ 53" "0 \<le> q" "q \<le> 1"
  shows "q_or_0 w q = v"
  using get_sort_rank[OF assms(1,3-5)] assms(1,2) by (auto simp: q_or_0_def quantile_def unwrap_or_def)

lemma q99_range: "0 \<le> q99" "q99 \<le> 1"
  by (simp_all add: f64_eval zero_key)

lemma burst_detect:
  assumes w: "se_q_add_window (sc_eng s) = w" "rw_values w \<noteq> []" "set (rw_values w) \<subseteq> {f64_of_int (b_add_updates_1s b)}"
    "length (rw_values w) \<le> 2 ^ 53"
  obtains m th c where "burst_view (detect_quote_bursts b ts s) = burst_view (fire QUOTE_BURST_ADD 0 0 ts m th c s)"
proof -
  have "q_or_0 (se_q_add_window (sc_eng s)) q99 = f64_of_int (b_add_updates_1s b)"
    unfolding w(1) by (rule quantile_constant[OF w(2-4) q99_range])
  then have "\<exists>m th c. burst_view (detect_quote_bursts b ts s) = burst_view (fire QUOTE_BURST_ADD 0 0 ts m th c s)"
    unfolding detect_quote_bursts_def Let_def case_prod_beta by (auto simp: burst_fire)
  with that show ?thesis by blast
qed


definition keyed :: "(ShockType \<rightharpoonup> PendingShock) \<Rightarrow> bool" where
  "keyed pend \<longleftrightarrow> (\<forall>t p. pend t = Some p \<longrightarrow> ps_shock_type p = t)"

lemma keyed_upd: "keyed pend \<Longrightarrow> ps_shock_type p = t \<Longrightarrow> keyed (pend(t \<mapsto> p))"
  by (simp add: keyed_def)

lemma keyed_del: "keyed pend \<Longrightarrow> keyed (pend(t := None))"
  by (simp add: keyed_def)

lemma keyed_scans: "scans ts s s' \<Longrightarrow> keyed (se_pending (sc_eng s)) \<Longrightarrow> keyed (se_pending (sc_eng s'))"
proof (induction rule: scans.induct)
  case (frame s' s)
  then show ?case by (simp add: sched_of_def)
next
  case (fired s t d n m th c)
  then show ?case by (auto simp: fire_def schedule_shock_def Let_def keyed_def)
qed blast

definition burst_open :: "millis \<Rightarrow> ShockEngine \<Rightarrow> bool" where
  "burst_open l e \<longleftrightarrow> se_last_trigger_ms e QUOTE_BURST_ADD = Some l \<and>
     (\<exists>p. se_pending e QUOTE_BURST_ADD = Some p \<and> ps_expires_ts_ms p = l + PEAK_WINDOW_MS)"

definition burst_finals :: "ShockSignal list \<Rightarrow> ShockFinal list" where
  "burst_finals sigs = filter (\<lambda>f. sf_shock_type f = QUOTE_BURST_ADD) (finals sigs)"

lemma track_keeps [simp]: "ps_expires_ts_ms (track_peak ts v p) = ps_expires_ts_ms p"
  "ps_shock_type (track_peak ts v p) = ps_shock_type p"
  by (auto simp: track_peak_def split: option.split)

lemma burst_finalize_one:
  assumes "burst_open l e" "keyed (se_pending e)" "ts < l + PEAK_WINDOW_MS"
    "finalize_one ts metrics key (e, sigs) = (e', sigs')"
  shows "burst_open l e' \<and> keyed (se_pending e') \<and> se_q_add_window e' = se_q_add_window e \<and>
    triggers QUOTE_BURST_ADD sigs' = triggers QUOTE_BURST_ADD sigs \<and> burst_finals sigs' = burst_finals sigs"
proof (cases "se_pending e key")
  case None
  with assms show ?thesis by (simp add: finalize_one_def)
next
  case (Some p)
  define q where "q = track_peak ts (metrics key) p"
  have q: "ps_expires_ts_ms q = ps_expires_ts_ms p" "ps_shock_type q = key"
    using assms(2) Some by (auto simp: q_def keyed_def)
  show ?thesis
  proof (cases "ts \<ge> ps_expires_ts_ms q")
    case True
    then have k: "key \<noteq> QUOTE_BURST_ADD" using assms(1,3) Some q(1) by (auto simp: burst_open_def)
    have e': "e' = e\<lparr>se_pending := (se_pending e)(key := None)\<rparr>" "sigs' = sigs @ [FinalSig (final_of q)]"
      using True assms(4) by (simp_all add: finalize_one_def Some Let_def flip: q_def)
    show ?thesis
      using assms(1,2) k q(2) by (simp add: e' burst_open_def burst_finals_def final_of_def triggers_def keyed_del)
  next
    case False
    then have e': "e' = e\<lparr>se_pending := (se_pending e)(key \<mapsto> q)\<rparr>" "sigs' = sigs"
      using assms(4) by (simp_all add: finalize_one_def Some Let_def flip: q_def)
    show ?thesis
      using assms(1,2) q Some by (auto simp: e' burst_open_def keyed_upd)
  qed
qed

lemma burst_finalize:
  "burst_open l e \<Longrightarrow> keyed (se_pending e) \<Longrightarrow> ts < l + PEAK_WINDOW_MS \<Longrightarrow>
    fold (finalize_one ts metrics) ks (e, sigs) = (e', sigs') \<Longrightarrow>
    burst_open l e' \<and> keyed (se_pending e') \<and> se_q_add_window e' = se_q_add_window e \<and>
    triggers QUOTE_BURST_ADD sigs' = triggers QUOTE_BURST_ADD sigs \<and> burst_finals sigs' = burst_finals sigs"
proof (induction ks arbitrary: e sigs)
  case (Cons k ks)
  obtain e1 s1 where f: "finalize_one ts metrics k (e, sigs) = (e1, s1)" by force
  note one = burst_finalize_one[OF Cons.prems(1,2,3) f]
  have "fold (finalize_one ts metrics) ks (e1, s1) = (e', sigs')" using Cons.prems(4) f by simp
  with Cons.IH[of e1 s1] one Cons.prems(3) show ?case by simp
qed simp

text \<open>One bar: a trigger if the last one is ten seconds old, and no final report either way.\<close>

definition burst_next :: "millis option \<Rightarrow> millis \<Rightarrow> millis" where
  "burst_next l ts = (case l of Some l0 \<Rightarrow> if ts - l0 < COOLDOWN_MS then l0 else ts | None \<Rightarrow> ts)"

lemma burst_fire_effect:
  assumes "se_last_trigger_ms (sc_eng s) QUOTE_BURST_ADD = l"
    and "\<forall>l0. l = Some l0 \<longrightarrow> burst_open l0 (sc_eng s)"
    and s'_def: "s' = fire QUOTE_BURST_ADD 0 0 ts m th c s"
  shows "burst_open (burst_next l ts) (sc_eng s') \<and> se_q_add_window (sc_eng s') = se_q_add_window (sc_eng s) \<and>
    triggers QUOTE_BURST_ADD (sc_signals s') = triggers QUOTE_BURST_ADD (sc_signals s) @
      (if l = Some (burst_next l ts) \<and> ts - burst_next l ts < COOLDOWN_MS then [] else [ts]) \<and>
    burst_finals (sc_signals s') = burst_finals (sc_signals s)"
proof (cases "\<exists>l0. l = Some l0 \<and> ts - l0 < COOLDOWN_MS")
  case True
  then have "s' = s" using assms(1) by (auto simp: s'_def fire_def schedule_shock_def)
  with True assms(2) show ?thesis by (auto simp: burst_next_def)
next
  case False
  then have n: "burst_next l ts = ts" by (auto simp: burst_next_def split: option.splits)
  have "\<not> (case se_last_trigger_ms (sc_eng s) QUOTE_BURST_ADD of Some prev \<Rightarrow> ts - prev < COOLDOWN_MS | None \<Rightarrow> False)"
    using False assms(1) by (auto split: option.splits)
  then show ?thesis
    using False unfolding n
    by (auto simp: s'_def fire_def schedule_shock_def Let_def burst_open_def triggers_def burst_finals_def)
qed


lemma burst_push: "se_q_add_window (push_micro lnf m e) = se_q_add_window e"
  "se_q_add_window (push_gap g e) = se_q_add_window e" "se_q_add_window (push_flows b e) = se_q_add_window e"
  by (simp_all add: push_micro_def push_gap_def push_flows_def Let_def split: option.split)

text \<open>The detectors before and after the burst detector do not touch the view.\<close>

lemma burst_detect_all:
  assumes w: "rw_values (se_q_add_window (sc_eng s)) \<noteq> []" "set (rw_values (se_q_add_window (sc_eng s))) \<subseteq>
      {f64_of_int (b_add_updates_1s b)}" "length (rw_values (se_q_add_window (sc_eng s))) \<le> 2 ^ 53"
  obtains s0 m th c where "burst_view s0 = burst_view s"
    "burst_view (detect_all b ft micro ts s) = burst_view (fire QUOTE_BURST_ADD 0 0 ts m th c s0)"
proof -
  define s0 where "s0 = detect_cvd ft ts (detect_imbalance ft ts (detect_large_trade b ft ts
    (detect_rv60 ft ts (detect_rv5 ft ts (detect_accel ft ts (detect_velocity b ft micro ts s))))))"
  have v: "burst_view s0 = burst_view s" by (simp add: s0_def burst_others)
  then have "se_q_add_window (sc_eng s0) = se_q_add_window (sc_eng s)" by (simp add: burst_view_def)
  from burst_detect[OF this w, of ts] obtain m th c where
    "burst_view (detect_quote_bursts b ts s0) = burst_view (fire QUOTE_BURST_ADD 0 0 ts m th c s0)" by blast
  moreover have "burst_view (detect_all b ft micro ts s) = burst_view (detect_quote_bursts b ts s0)"
    by (simp add: detect_all_def Let_def burst_others s0_def)
  ultimately show ?thesis using that v by simp
qed

definition burst_inv :: "int \<Rightarrow> millis option \<Rightarrow> ShockEngine \<Rightarrow> bool" where
  "burst_inv n l e \<longleftrightarrow> rw_inv 21600 (se_q_add_window e) \<and> set (rw_values (se_q_add_window e)) \<subseteq> {f64_of_int n} \<and>
     se_last_trigger_ms e QUOTE_BURST_ADD = l \<and> (\<forall>l0. l = Some l0 \<longrightarrow> burst_open l0 e) \<and>
     keyed (se_pending e)"

lemma burst_bar:
  assumes inv: "burst_inv n l e" and b: "b_add_updates_1s b = n" "b_micro_px b = Some m" "0 < m"
    and bar: "on_bar lnf keys b e = (e', sigs)"
    and ts_def: "ts = b_bar_second b * 1000"
  shows "burst_inv n (Some (burst_next l ts)) e' \<and> burst_finals sigs = [] \<and>
    triggers QUOTE_BURST_ADD sigs = (if l = Some (burst_next l ts) \<and> ts - burst_next l ts < COOLDOWN_MS then [] else [ts])"
proof -
  define e1 where "e1 = push_flows b (push_gap (b_micro_mid_gap b) (push_micro lnf m e))"
  define ft where "ft = features lnf e1"
  define s1 where "s1 = record_flows b ft ts (record_returns ft ts \<lparr>sc_eng = e1, sc_metrics = Map.empty, sc_signals = []\<rparr>)"
  define s2 where "s2 = record_quotes b ts s1"
  define s3 where "s3 = detect_all b ft m ts s2"
  have fin: "finalize_pending keys ts (sc_metrics s3) (sc_eng s3) (sc_signals s3) = (e', sigs)"
    using bar b(2,3) by (simp add: on_bar_def Let_def s3_def s2_def s1_def ft_def e1_def ts_def)
  have "burst_view s1 = burst_view \<lparr>sc_eng = e1, sc_metrics = Map.empty, sc_signals = []\<rparr>"
    by (simp add: s1_def burst_others)
  then have v1: "se_last_trigger_ms (sc_eng s1) QUOTE_BURST_ADD = l" "se_q_add_window (sc_eng s1) = se_q_add_window e"
    using inv by (simp_all add: burst_view_def e1_def sched_push burst_push burst_inv_def)
  have "sched_of s1 = sched_of \<lparr>sc_eng = e1, sc_metrics = Map.empty, sc_signals = []\<rparr>"
    by (simp add: s1_def sched_records)
  then have p1: "se_pending (sc_eng s1) = se_pending e" "sc_signals s1 = []" by (simp_all add: sched_of_def e1_def sched_push)
  have e2: "se_last_trigger_ms (sc_eng s2) QUOTE_BURST_ADD = l" "se_pending (sc_eng s2) = se_pending e" "sc_signals s2 = []"
    "se_q_add_window (sc_eng s2) = rw_push (f64_of_int n) (se_q_add_window e)"
    using v1 p1 b(1) by (simp_all add: s2_def burst_quotes)
  have wi: "rw_inv 21600 (se_q_add_window e)" using inv by (simp add: burst_inv_def)
  note pushed = rw_push_values[OF wi, of "f64_of_int n"]
  have win: "rw_values (se_q_add_window (sc_eng s2)) \<noteq> []" "set (rw_values (se_q_add_window (sc_eng s2))) \<subseteq> {f64_of_int n}"
    using inv set_last_n[of 21600 "rw_values (se_q_add_window e) @ [f64_of_int n]"]
    unfolding e2(4) pushed(1) by (auto simp: burst_inv_def last_n_def)
  have len: "length (rw_values (se_q_add_window (sc_eng s2))) \<le> 2 ^ 53"
    using pushed(2) unfolding e2(4) by (simp add: rw_inv_def)
  from burst_detect_all[OF win(1) win(2)[folded b(1)] len, where ft = ft and micro = m and ts = ts]
  obtain s0 mm th c where s0: "burst_view s0 = burst_view s2"
    and s3v: "burst_view s3 = burst_view (fire QUOTE_BURST_ADD 0 0 ts mm th c s0)" unfolding s3_def by blast
  have "\<forall>l0. l = Some l0 \<longrightarrow> burst_open l0 (sc_eng s2)"
    using inv e2(1,2) by (simp add: burst_inv_def burst_open_def)
  then have "\<forall>l0. l = Some l0 \<longrightarrow> burst_open l0 (sc_eng s0)" "se_last_trigger_ms (sc_eng s0) QUOTE_BURST_ADD = l"
    using s0 e2(1) by (simp_all add: burst_view_def burst_open_def)
  from burst_fire_effect[OF this(2) this(1) refl, of ts mm th c]
  have s3e: "burst_open (burst_next l ts) (sc_eng s3)" "se_q_add_window (sc_eng s3) = se_q_add_window (sc_eng s2)"
    "triggers QUOTE_BURST_ADD (sc_signals s3) =
      (if l = Some (burst_next l ts) \<and> ts - burst_next l ts < COOLDOWN_MS then [] else [ts])"
    "burst_finals (sc_signals s3) = []"
    using s3v s0 e2(3) by (auto simp: burst_view_def burst_open_def burst_finals_def)
  have "keyed (se_pending (sc_eng s3))"
    unfolding s3_def by (rule keyed_scans[OF scans_detect_all]) (use inv e2(2) in \<open>simp add: burst_inv_def\<close>)
  moreover have "ts < burst_next l ts + PEAK_WINDOW_MS"
    by (auto simp: burst_next_def PEAK_WINDOW_MS_def COOLDOWN_MS_def split: option.split)
  ultimately have "burst_open (burst_next l ts) e' \<and> keyed (se_pending e') \<and>
      se_q_add_window e' = se_q_add_window (sc_eng s3) \<and>
      triggers QUOTE_BURST_ADD sigs = triggers QUOTE_BURST_ADD (sc_signals s3) \<and>
      burst_finals sigs = burst_finals (sc_signals s3)"
    by (intro burst_finalize[OF s3e(1) _ _ fin[unfolded finalize_pending_def]])
  then show ?thesis
    using s3e(2-4) win(2) pushed(2) e2(4) by (auto simp: burst_inv_def burst_open_def)
qed


definition steady_bars :: "(nat \<Rightarrow> BarInput) \<Rightarrow> int \<Rightarrow> int \<Rightarrow> nat \<Rightarrow> BarInput list" where
  "steady_bars B k n N = map (\<lambda>i. (B i)\<lparr>b_bar_second := k + int i, b_add_updates_1s := n\<rparr>) [0..<N]"

lemma steady_run:
  assumes "\<forall>i<N. \<exists>m. b_micro_px (B i) = Some m \<and> 0 < m"
    and "shock_run lnf keys (steady_bars B k n N) shock_engine_new = (e, sigs)"
  shows "burst_inv n (if N = 0 then None else Some ((k + 10 * int ((N - 1) div 10)) * 1000)) e \<and>
    burst_finals sigs = [] \<and> triggers QUOTE_BURST_ADD sigs = map (\<lambda>j. (k + 10 * int j) * 1000) [0..<(N + 9) div 10]"
  using assms
proof (induction N arbitrary: e sigs)
  case 0
  then show ?case
    by (auto simp: steady_bars_def burst_inv_def burst_finals_def keyed_def shock_engine_new_def Let_def
        rw_inv_def rw_new_def)
next
  case (Suc N)
  define b where "b = (B N)\<lparr>b_bar_second := k + int N, b_add_updates_1s := n\<rparr>"
  define l where "l = (if N = 0 then None else Some ((k + 10 * int ((N - 1) div 10)) * 1000))"
  define ts where "ts = (k + int N) * 1000"
  obtain e1 s1 where r: "shock_run lnf keys (steady_bars B k n N) shock_engine_new = (e1, s1)" by force
  obtain s2 where o: "on_bar lnf keys b e1 = (e, s2)" "sigs = s1 @ s2"
    using Suc.prems(2) r by (auto simp: steady_bars_def shock_run_snoc b_def split: prod.splits)
  obtain m where m: "b_micro_px b = Some m" "0 < m" using Suc.prems(1) by (auto simp: b_def)
  have IH: "burst_inv n l e1" "burst_finals s1 = []"
    "triggers QUOTE_BURST_ADD s1 = map (\<lambda>j. (k + 10 * int j) * 1000) [0..<(N + 9) div 10]"
    using Suc.IH[OF _ r] Suc.prems(1) by (simp_all add: l_def)
  have "b_add_updates_1s b = n" "ts = b_bar_second b * 1000" by (simp_all add: b_def ts_def)
  from burst_bar[OF IH(1) this(1) m o(1) this(2)] have st: "burst_inv n (Some (burst_next l ts)) e" "burst_finals s2 = []"
    "triggers QUOTE_BURST_ADD s2 = (if l = Some (burst_next l ts) \<and> ts - burst_next l ts < COOLDOWN_MS then [] else [ts])"
    by blast+
  have fin: "burst_finals sigs = []" using IH(2) st(2) by (simp add: o(2) burst_finals_def)
  show ?case
  proof (cases "N mod 10 = 0")
    case True
    then obtain q where q: "N = 10 * q" by auto
    have next_ts: "burst_next l ts = ts"
    proof (cases q)
      case (Suc p)
      then have "(N - 1) div 10 = p" using q by simp
      then show ?thesis using q Suc by (simp add: burst_next_def l_def ts_def COOLDOWN_MS_def)
    qed (simp add: burst_next_def l_def q)
    have "triggers QUOTE_BURST_ADD s2 = [ts]"
    proof (cases q)
      case (Suc p)
      then have "(N - 1) div 10 = p" using q by simp
      then show ?thesis using q Suc next_ts st(3) by (auto simp: l_def ts_def COOLDOWN_MS_def split: if_splits)
    qed (use st(3) next_ts q in \<open>simp add: l_def\<close>)
    then show ?thesis using st(1) fin IH(3) next_ts q by (simp add: o(2) ts_def)
  next
    case False
    define q where "q = N div 10"
    have q: "(N - 1) div 10 = q" "(Suc N + 9) div 10 = (N + 9) div 10" "N < 10 * q + 10" "N \<noteq> 0"
    proof -
      have r: "10 * q < N" "N < 10 * q + 10"
        using False div_mult_mod_eq[of N 10] mod_less_divisor[of 10 N] unfolding q_def by linarith+
      then show "(N - 1) div 10 = q" "N < 10 * q + 10" "N \<noteq> 0" by (auto intro!: div_nat_eqI)
      have "(Suc N + 9) div 10 = Suc q" "(N + 9) div 10 = Suc q"
        using r by (auto intro!: div_nat_eqI)
      then show "(Suc N + 9) div 10 = (N + 9) div 10" by simp
    qed
    have l: "l = Some ((k + 10 * int q) * 1000)" using q by (simp add: l_def)
    have "ts - (k + 10 * int q) * 1000 < COOLDOWN_MS" using q(3) by (simp add: ts_def COOLDOWN_MS_def)
    then have nx: "burst_next l ts = (k + 10 * int q) * 1000" "triggers QUOTE_BURST_ADD s2 = []"
      using st(3) by (simp_all add: burst_next_def l)
    have "(Suc N - 1) div 10 = q" by (simp add: q_def)
    then show ?thesis using st(1) fin IH(3) nx q(2) by (simp add: o(2))
  qed
qed

text \<open>
  C37. A type that keeps meeting its threshold is reported every ten seconds and never closed: the
  cooldown and the peak window have the same length and \<open>on_bar\<close> schedules before it finalises, so the
  next shock overwrites the pending one in the very bar in which that one expires. With a constant
  number of added quotes per second, zero included, the burst of added quotes is such a type.
\<close>

theorem steady_bursts_never_final:
  assumes "\<forall>i<N. \<exists>m. b_micro_px (B i) = Some m \<and> 0 < m"
  shows "triggers QUOTE_BURST_ADD (snd (shock_run lnf keys (steady_bars B k n N) shock_engine_new)) =
      map (\<lambda>j. (k + 10 * int j) * 1000) [0..<(N + 9) div 10] \<and>
    filter (\<lambda>f. sf_shock_type f = QUOTE_BURST_ADD)
      (finals (snd (shock_run lnf keys (steady_bars B k n N) shock_engine_new))) = []"
  using steady_run[OF assms]
  by (cases "shock_run lnf keys (steady_bars B k n N) shock_engine_new") (simp add: burst_finals_def)

definition quiet_bar :: BarInput where
  "quiet_bar = \<lparr>b_bar_second = 0, b_micro_px = Some (lit (1 / 2)), b_tick_px = None, b_micro_mid_gap = None,
     b_add_updates_1s = 0, b_cancel_updates_1s = 0, b_volume_notional_1s = 0, b_buy_notional_1s = 0,
     b_sell_notional_1s = 0, b_cvd_delta_1s = 0, b_ofi_1s = 0, b_levels_crossed_1s = 0, b_trade_count_1s = 0,
     b_trade_side_missing_count_1s = 0, b_max_trade_notional_1s = 0, b_wall_pull = None\<rparr>"

theorem steady_bursts_never_final_witness:
  "triggers QUOTE_BURST_ADD (snd (shock_run (\<lambda>x. x) (\<lambda>_. []) (steady_bars (\<lambda>_. quiet_bar) 0 0 21) shock_engine_new))
    = [0, 10000, 20000]"
  using steady_bursts_never_final[of 21 "\<lambda>_. quiet_bar" "\<lambda>x. x" "\<lambda>_. []" 0 0]
  by (simp add: quiet_bar_def f64_eval zero_key upt_rec)

end
