(* ===== verification/Book.thy ===== *)
theory Book
  imports Models Sharding
begin

text \<open>
  The order book of a token in \<open>src/shard.rs\<close> (\<open>DenseBook\<close>): one integer size per price index and
  side, with cached counts and best indices. Prices are f64 and become indices of ten thousandths;
  sizes become integer millionths. The scanning loops of the source share two combinators, one for
  each direction, that take the loop's early exit and its body as arguments.
\<close>

unbundle bit_operations_syntax

definition PRICE_SCALE :: f64 where "PRICE_SCALE = lit 10000"
definition PRICE_MAX_IDX :: nat where "PRICE_MAX_IDX = 10000"
definition PRICE_LEVELS :: nat where "PRICE_LEVELS = PRICE_MAX_IDX + 1"
definition SIZE_SCALE :: f64 where "SIZE_SCALE = lit 1000000"

definition price_to_idx :: "f64 \<Rightarrow> nat option" where
  "price_to_idx value =
    (if \<not> is_finite value then None
     else let idx = f64_to_i64 (f64_round (value * PRICE_SCALE))
          in if idx < 0 \<or> idx > int PRICE_MAX_IDX then None else Some (nat idx))"

definition idx_to_price :: "nat \<Rightarrow> f64" where
  "idx_to_price idx = f64_of_int (int idx) / PRICE_SCALE"

definition size_to_int :: "f64 \<Rightarrow> int option" where
  "size_to_int value =
    (if \<not> is_finite value then None else Some (f64_to_i64 (f64_round (value * SIZE_SCALE))))"

definition size_to_float :: "int \<Rightarrow> f64" where
  "size_to_float value = f64_of_int value / SIZE_SCALE"

subsection \<open>The book and its updates\<close>

record DenseBook =
  bk_bids :: "int list"
  bk_asks :: "int list"
  bk_bid_nonzero :: nat
  bk_ask_nonzero :: nat
  bk_best_bid_idx :: "nat option"
  bk_best_ask_idx :: "nat option"
  bk_tick_px :: "f64 option"
  bk_last_update_ts_ms :: millis

definition book_default :: DenseBook where
  "book_default = \<lparr>bk_bids = replicate PRICE_LEVELS 0, bk_asks = replicate PRICE_LEVELS 0,
     bk_bid_nonzero = 0, bk_ask_nonzero = 0, bk_best_bid_idx = None, bk_best_ask_idx = None,
     bk_tick_px = None, bk_last_update_ts_ms = 0\<rparr>"

definition levels_len :: "DenseBook \<Rightarrow> nat" where
  "levels_len b = bk_bid_nonzero b + bk_ask_nonzero b"

text \<open>The loops of \<open>find_next_bid\<close> and \<open>find_next_ask\<close>.\<close>

fun find_down :: "int list \<Rightarrow> nat \<Rightarrow> nat option" where
  "find_down xs 0 = (if xs ! 0 > 0 then Some 0 else None)"
| "find_down xs (Suc i) = (if xs ! Suc i > 0 then Some (Suc i) else find_down xs i)"

function find_up :: "int list \<Rightarrow> nat \<Rightarrow> nat option" where
  "find_up xs idx =
    (if idx \<le> PRICE_MAX_IDX then (if xs ! idx > 0 then Some idx else find_up xs (idx + 1)) else None)"
  by pat_completeness auto
termination by (relation "measure (\<lambda>(xs, idx). PRICE_LEVELS - idx)") (auto simp: PRICE_LEVELS_def)

declare find_up.simps [simp del]

definition find_next_bid :: "DenseBook \<Rightarrow> nat \<Rightarrow> nat option" where
  "find_next_bid b start = (if start = 0 then None else find_down (bk_bids b) (start - 1))"

definition find_next_ask :: "DenseBook \<Rightarrow> nat \<Rightarrow> nat option" where
  "find_next_ask b start = find_up (bk_asks b) (start + 1)"

text \<open>The two arms of \<open>set_level\<close>.\<close>

definition count_level :: "int \<Rightarrow> int \<Rightarrow> nat \<Rightarrow> nat" where
  "count_level prev sz n =
    (if prev = 0 \<and> sz > 0 then n + 1 else if prev > 0 \<and> sz = 0 then n - 1 else n)"

definition set_bid :: "nat \<Rightarrow> int \<Rightarrow> DenseBook \<Rightarrow> DenseBook" where
  "set_bid idx sz b =
    (let prev = bk_bids b ! idx;
         b = b\<lparr>bk_bid_nonzero := count_level prev sz (bk_bid_nonzero b), bk_bids := (bk_bids b)[idx := sz]\<rparr>
     in b\<lparr>bk_best_bid_idx := (case bk_best_bid_idx b of
            None \<Rightarrow> if sz > 0 then Some idx else None
          | Some best \<Rightarrow> if sz > 0 \<and> idx > best then Some idx
              else if idx = best \<and> sz = 0 then find_next_bid b best else Some best)\<rparr>)"

definition set_ask :: "nat \<Rightarrow> int \<Rightarrow> DenseBook \<Rightarrow> DenseBook" where
  "set_ask idx sz b =
    (let prev = bk_asks b ! idx;
         b = b\<lparr>bk_ask_nonzero := count_level prev sz (bk_ask_nonzero b), bk_asks := (bk_asks b)[idx := sz]\<rparr>
     in b\<lparr>bk_best_ask_idx := (case bk_best_ask_idx b of
            None \<Rightarrow> if sz > 0 then Some idx else None
          | Some best \<Rightarrow> if sz > 0 \<and> idx < best then Some idx
              else if idx = best \<and> sz = 0 then find_next_ask b best else Some best)\<rparr>)"

fun set_level :: "BookSide \<Rightarrow> nat \<Rightarrow> int \<Rightarrow> DenseBook \<Rightarrow> DenseBook" where
  "set_level Bid idx sz b = set_bid idx sz b"
| "set_level Ask idx sz b = set_ask idx sz b"

text \<open>\<open>apply_delta\<close>; the flag says that the price or the size was invalid.\<close>

definition apply_delta :: "BookSide \<Rightarrow> f64 \<Rightarrow> f64 \<Rightarrow> millis \<Rightarrow> DenseBook \<Rightarrow> bool \<times> DenseBook" where
  "apply_delta side price new_size local_ts_ms b =
    (case price_to_idx price of
       None \<Rightarrow> (True, b)
     | Some idx \<Rightarrow> (case size_to_int new_size of
         None \<Rightarrow> (True, b)
       | Some v \<Rightarrow>
           let b = b\<lparr>bk_last_update_ts_ms := local_ts_ms\<rparr>
           in (False, set_level side idx (if v \<le> 0 then 0 else v) b)))"

text \<open>One level of a snapshot; the pair holds the book and the number of invalid prices.\<close>

definition snap_bid :: "BookLevel \<Rightarrow> DenseBook \<times> nat \<Rightarrow> DenseBook \<times> nat" where
  "snap_bid level acc =
    (let (b, invalid) = acc in
     case price_to_idx (bl_price level) of
       None \<Rightarrow> (b, invalid + 1)
     | Some idx \<Rightarrow> (case size_to_int (bl_size level) of
         None \<Rightarrow> (b, invalid)
       | Some sz \<Rightarrow> if \<not> sz > 0 then (b, invalid)
           else (b\<lparr>bk_bid_nonzero := (if bk_bids b ! idx = 0 then bk_bid_nonzero b + 1 else bk_bid_nonzero b),
                  bk_bids := (bk_bids b)[idx := sz],
                  bk_best_bid_idx := (if case bk_best_bid_idx b of None \<Rightarrow> True | Some best \<Rightarrow> idx > best
                    then Some idx else bk_best_bid_idx b)\<rparr>, invalid)))"

definition snap_ask :: "BookLevel \<Rightarrow> DenseBook \<times> nat \<Rightarrow> DenseBook \<times> nat" where
  "snap_ask level acc =
    (let (b, invalid) = acc in
     case price_to_idx (bl_price level) of
       None \<Rightarrow> (b, invalid + 1)
     | Some idx \<Rightarrow> (case size_to_int (bl_size level) of
         None \<Rightarrow> (b, invalid)
       | Some sz \<Rightarrow> if \<not> sz > 0 then (b, invalid)
           else (b\<lparr>bk_ask_nonzero := (if bk_asks b ! idx = 0 then bk_ask_nonzero b + 1 else bk_ask_nonzero b),
                  bk_asks := (bk_asks b)[idx := sz],
                  bk_best_ask_idx := (if case bk_best_ask_idx b of None \<Rightarrow> True | Some best \<Rightarrow> idx < best
                    then Some idx else bk_best_ask_idx b)\<rparr>, invalid)))"

definition clear_bids :: "DenseBook \<Rightarrow> DenseBook" where
  "clear_bids b = b\<lparr>bk_bids := replicate (length (bk_bids b)) 0, bk_bid_nonzero := 0, bk_best_bid_idx := None\<rparr>"

definition clear_asks :: "DenseBook \<Rightarrow> DenseBook" where
  "clear_asks b = b\<lparr>bk_asks := replicate (length (bk_asks b)) 0, bk_ask_nonzero := 0, bk_best_ask_idx := None\<rparr>"

definition apply_snapshot :: "BookLevel list option \<Rightarrow> BookLevel list option \<Rightarrow> millis \<Rightarrow> DenseBook \<Rightarrow> nat \<times> DenseBook" where
  "apply_snapshot bids asks local_ts_ms b =
    (let b = (if bids \<noteq> None then clear_bids b else b);
         b = (if asks \<noteq> None then clear_asks b else b);
         b = b\<lparr>bk_last_update_ts_ms := local_ts_ms\<rparr>;
         (b, invalid) = (case bids of Some ls \<Rightarrow> fold snap_bid ls (b, 0) | None \<Rightarrow> (b, 0));
         (b, invalid) = (case asks of Some ls \<Rightarrow> fold snap_ask ls (b, invalid) | None \<Rightarrow> (b, invalid))
     in (invalid, b))"

subsection \<open>Reading the book\<close>

text \<open>The scanning loops: at every index the early exit first, then the body on a level with a size,
  which may stop the loop.\<close>

fun walk_down :: "(nat \<Rightarrow> bool) \<Rightarrow> (nat \<Rightarrow> int \<Rightarrow> 'a \<Rightarrow> 'a \<times> bool) \<Rightarrow> int list \<Rightarrow> nat \<Rightarrow> 'a \<Rightarrow> 'a" where
  "walk_down brk f xs 0 acc =
    (if brk 0 then acc else if xs ! 0 > 0 then fst (f 0 (xs ! 0) acc) else acc)"
| "walk_down brk f xs (Suc i) acc =
    (if brk (Suc i) then acc
     else if xs ! Suc i > 0 then
       (let (acc, stop) = f (Suc i) (xs ! Suc i) acc in if stop then acc else walk_down brk f xs i acc)
     else walk_down brk f xs i acc)"

function walk_up :: "(nat \<Rightarrow> bool) \<Rightarrow> (nat \<Rightarrow> int \<Rightarrow> 'a \<Rightarrow> 'a \<times> bool) \<Rightarrow> int list \<Rightarrow> nat \<Rightarrow> 'a \<Rightarrow> 'a" where
  "walk_up brk f xs idx acc =
    (if brk idx then acc
     else let (acc, stop) = (if xs ! idx > 0 then f idx (xs ! idx) acc else (acc, False))
          in if stop then acc else if idx \<ge> PRICE_MAX_IDX then acc else walk_up brk f xs (idx + 1) acc)"
  by pat_completeness auto
termination by (relation "measure (\<lambda>(brk, f, xs, idx, acc). PRICE_LEVELS - idx)") (auto simp: PRICE_LEVELS_def)

declare walk_up.simps [simp del]

fun walk :: "BookSide \<Rightarrow> (nat \<Rightarrow> bool) \<Rightarrow> (nat \<Rightarrow> int \<Rightarrow> 'a \<Rightarrow> 'a \<times> bool) \<Rightarrow> DenseBook \<Rightarrow> nat \<Rightarrow> 'a \<Rightarrow> 'a" where
  "walk Bid brk f b idx acc = walk_down brk f (bk_bids b) idx acc"
| "walk Ask brk f b idx acc = walk_up brk f (bk_asks b) idx acc"

fun best_idx :: "BookSide \<Rightarrow> DenseBook \<Rightarrow> nat option" where
  "best_idx Bid b = bk_best_bid_idx b"
| "best_idx Ask b = bk_best_ask_idx b"

fun side_sizes :: "BookSide \<Rightarrow> DenseBook \<Rightarrow> int list" where
  "side_sizes Bid b = bk_bids b"
| "side_sizes Ask b = bk_asks b"

definition best_bid_ask :: "DenseBook \<Rightarrow> f64 option \<times> f64 option" where
  "best_bid_ask b = (map_option idx_to_price (bk_best_bid_idx b), map_option idx_to_price (bk_best_ask_idx b))"

definition best_level :: "BookSide \<Rightarrow> DenseBook \<Rightarrow> (f64 \<times> f64) option" where
  "best_level side b = Option.bind (best_idx side b) (\<lambda>idx.
     let sz = side_sizes side b ! idx in if sz > 0 then Some (idx_to_price idx, size_to_float sz) else None)"

definition best_bid_ask_size :: "DenseBook \<Rightarrow> f64 option \<times> f64 option \<times> f64 option \<times> f64 option" where
  "best_bid_ask_size b =
    (map_option fst (best_level Bid b), map_option snd (best_level Bid b),
     map_option fst (best_level Ask b), map_option snd (best_level Ask b))"

definition microprice :: "DenseBook \<Rightarrow> f64 option" where
  "microprice b =
    (case best_bid_ask_size b of
       (Some bid_px, Some bid_sz, Some ask_px, Some ask_sz) \<Rightarrow>
         let denom = bid_sz + ask_sz
         in if denom \<le> 0 then None else Some ((bid_px * ask_sz + ask_px * bid_sz) / denom)
     | _ \<Rightarrow> None)"

definition depth_body :: "nat \<Rightarrow> nat \<Rightarrow> int \<Rightarrow> f64 \<times> nat \<Rightarrow> (f64 \<times> nat) \<times> bool" where
  "depth_body n idx sz acc =
    (let (sum, count) = acc in ((sum + idx_to_price idx * size_to_float sz, count + 1), count + 1 \<ge> n))"

definition depth_top_n :: "BookSide \<Rightarrow> nat \<Rightarrow> DenseBook \<Rightarrow> f64 option" where
  "depth_top_n side n b =
    (case best_idx side b of
       None \<Rightarrow> None
     | Some idx \<Rightarrow>
         let (sum, count) = walk side (\<lambda>_. False) (depth_body n) b idx (0, 0)
         in if count = 0 then None else Some sum)"

definition notional_body :: "nat \<Rightarrow> nat \<Rightarrow> int \<Rightarrow> f64 list \<Rightarrow> f64 list \<times> bool" where
  "notional_body levels idx sz out =
    (let out = out @ [idx_to_price idx * size_to_float sz] in (out, length out \<ge> levels))"

definition resize0 :: "nat \<Rightarrow> f64 list \<Rightarrow> f64 list" where
  "resize0 n xs = take n xs @ replicate (n - length xs) 0"

definition top_levels_notional :: "BookSide \<Rightarrow> nat \<Rightarrow> DenseBook \<Rightarrow> f64 list" where
  "top_levels_notional side levels b =
    (case best_idx side b of
       None \<Rightarrow> resize0 levels []
     | Some idx \<Rightarrow>
         let out = walk side (\<lambda>_. False) (notional_body levels) b idx []
         in if length out < levels then resize0 levels out else out)"

definition band_exit :: "BookSide \<Rightarrow> f64 \<Rightarrow> nat \<Rightarrow> bool" where
  "band_exit side mid idx =
    (case side of Bid \<Rightarrow> idx_to_price idx < mid * lit (99 / 100) | Ask \<Rightarrow> idx_to_price idx > mid * lit (101 / 100))"

definition depth_1pct :: "BookSide \<Rightarrow> f64 option \<Rightarrow> DenseBook \<Rightarrow> f64 option" where
  "depth_1pct side mid b =
    (case mid of
       None \<Rightarrow> None
     | Some mid \<Rightarrow> (case best_idx side b of
         None \<Rightarrow> None
       | Some idx \<Rightarrow>
           let (sum, count) = walk side (band_exit side mid)
             (\<lambda>idx sz (sum, count). ((sum + idx_to_price idx * size_to_float sz, count + 1), False)) b idx (0, 0 :: nat)
           in if count = 0 then None else Some sum))"

definition size_at :: "BookSide \<Rightarrow> f64 \<Rightarrow> DenseBook \<Rightarrow> f64" where
  "size_at side price b =
    (case price_to_idx price of None \<Rightarrow> 0 | Some idx \<Rightarrow> size_to_float (side_sizes side b ! idx))"

definition median_size_top_n :: "BookSide \<Rightarrow> nat \<Rightarrow> DenseBook \<Rightarrow> f64 option" where
  "median_size_top_n side n b =
    (case best_idx side b of
       None \<Rightarrow> None
     | Some idx \<Rightarrow>
         let sizes = walk side (\<lambda>_. False) (\<lambda>idx sz sizes.
               let sizes = sizes @ [size_to_float sz] in (sizes, length sizes \<ge> n)) b idx []
         in if sizes = [] then None else get (sort_f64 sizes) (length sizes div 2))"

text \<open>The hash of the top levels, printed in hexadecimal.\<close>

definition le_bytes :: "int \<Rightarrow> u64 list" where
  "le_bytes x = map (\<lambda>i. drop_bit (8 * i) (word_of_int x) AND 255) [0..<8]"

definition hash_pair :: "u64 \<Rightarrow> int \<Rightarrow> int \<Rightarrow> u64" where
  "hash_pair hash price_idx sz =
    fold (\<lambda>byte hash. (hash XOR byte) * 0x100000001b3) (le_bytes price_idx @ le_bytes sz) hash"

definition hex_digit :: "nat \<Rightarrow> char" where
  "hex_digit d = (if d < 10 then char_of (48 + d) else char_of (87 + d))"

fun show_hex :: "nat \<Rightarrow> string" where
  "show_hex n = (if n < 16 then [hex_digit n] else show_hex (n div 16) @ [hex_digit (n mod 16)])"

declare show_hex.simps [simp del]

definition hash_body :: "nat \<Rightarrow> nat \<Rightarrow> int \<Rightarrow> u64 \<times> nat \<Rightarrow> (u64 \<times> nat) \<times> bool" where
  "hash_body n idx sz acc =
    (let (hasher, count) = acc in ((hash_pair hasher (int idx) sz, count + 1), count + 1 \<ge> n))"

definition topn_hash :: "nat \<Rightarrow> DenseBook \<Rightarrow> string option" where
  "topn_hash n b =
    (if levels_len b = 0 then None
     else
       let hasher = 0xcbf29ce484222325;
           hasher = (case bk_best_bid_idx b of
             Some idx \<Rightarrow> fst (walk Bid (\<lambda>_. False) (hash_body n) b idx (hasher, 0)) | None \<Rightarrow> hasher);
           hasher = (case bk_best_ask_idx b of
             Some idx \<Rightarrow> fst (walk Ask (\<lambda>_. False) (hash_body n) b idx (hasher, 0)) | None \<Rightarrow> hasher)
       in Some (show_hex (unat hasher)))"

definition pocket_ticks :: "f64 \<Rightarrow> nat \<Rightarrow> nat \<Rightarrow> int" where
  "pocket_ticks tick hi lo = f64_to_i64 (f64_round ((idx_to_price hi - idx_to_price lo) / tick))"

definition air_pocket_ticks :: "f64 option \<Rightarrow> DenseBook \<Rightarrow> int option \<times> int option" where
  "air_pocket_ticks tick_px b =
    (case tick_px of
       None \<Rightarrow> (None, None)
     | Some tick \<Rightarrow>
         if \<not> tick > 0 then (None, None)
         else
           (Option.bind (bk_best_bid_idx b) (\<lambda>best.
              map_option (\<lambda>second. pocket_ticks tick best second) (find_next_bid b best)),
            Option.bind (bk_best_ask_idx b) (\<lambda>best.
              map_option (\<lambda>second. pocket_ticks tick second best) (find_next_ask b best))))"

subsection \<open>Snapshots as lists of top levels\<close>

fun set_entry :: "nat \<Rightarrow> int \<Rightarrow> (nat \<times> int) list \<Rightarrow> (nat \<times> int) list option" where
  "set_entry idx sz [] = None"
| "set_entry idx sz (e # tops) =
    (if fst e = idx then Some ((idx, sz) # tops) else map_option ((#) e) (set_entry idx sz tops))"

fun position :: "('a \<Rightarrow> bool) \<Rightarrow> 'a list \<Rightarrow> nat option" where
  "position p [] = None"
| "position p (x # xs) = (if p x then Some 0 else map_option Suc (position p xs))"

fun ahead :: "BookSide \<Rightarrow> nat \<Rightarrow> nat \<Rightarrow> bool" where
  "ahead Bid i j = (i > j)"
| "ahead Ask i j = (i < j)"

definition top_insert :: "BookSide \<Rightarrow> nat \<Rightarrow> nat \<Rightarrow> int \<Rightarrow> (nat \<times> int) list \<Rightarrow> (nat \<times> int) list" where
  "top_insert side n idx sz tops =
    (case set_entry idx sz tops of
       Some tops' \<Rightarrow> tops'
     | None \<Rightarrow>
         (case position (\<lambda>(existing, _). ahead side idx existing) tops of
            Some pos \<Rightarrow>
              let tops = take pos tops @ (idx, sz) # drop pos tops
              in if length tops > n then butlast tops else tops
          | None \<Rightarrow> if length tops < n then tops @ [(idx, sz)] else tops))"

definition collect_level :: "BookSide \<Rightarrow> nat \<Rightarrow> BookLevel \<Rightarrow> (nat \<times> int) list \<Rightarrow> (nat \<times> int) list" where
  "collect_level side n level tops =
    (case price_to_idx (bl_price level) of
       None \<Rightarrow> tops
     | Some idx \<Rightarrow> (case size_to_int (bl_size level) of
         None \<Rightarrow> tops
       | Some sz \<Rightarrow> if \<not> sz > 0 then tops else top_insert side n idx sz tops))"

definition collect_top_levels :: "BookLevel list \<Rightarrow> BookSide \<Rightarrow> nat \<Rightarrow> (nat \<times> int) list" where
  "collect_top_levels levels side n = fold (collect_level side n) levels []"

definition sum_top_levels :: "(nat \<times> int) list \<Rightarrow> nat \<Rightarrow> f64" where
  "sum_top_levels levels n =
    foldl (\<lambda>sum (idx, sz). sum + idx_to_price idx * size_to_float sz) 0 (take n levels)"

definition hash_top_levels :: "(nat \<times> int) list \<Rightarrow> (nat \<times> int) list \<Rightarrow> string option" where
  "hash_top_levels bids asks =
    (if bids = [] \<and> asks = [] then None
     else
       let hasher = fold (\<lambda>(idx, sz) hasher. hash_pair hasher (int idx) sz) bids 0xcbf29ce484222325;
           hasher = fold (\<lambda>(idx, sz) hasher. hash_pair hasher (int idx) sz) asks hasher
       in Some (show_hex (unat hasher)))"

record SnapshotMetrics =
  sn_best_bid_idx :: "nat option"
  sn_best_ask_idx :: "nat option"
  sn_topn_hash :: "string option"
  sn_depth_top10 :: f64

definition first_idx :: "(nat \<times> int) list \<Rightarrow> nat option" where
  "first_idx tops = (case tops of [] \<Rightarrow> None | (idx, _) # _ \<Rightarrow> Some idx)"

definition snapshot_metrics :: "BookLevel list \<Rightarrow> BookLevel list \<Rightarrow> SnapshotMetrics" where
  "snapshot_metrics bids asks =
    (let bid_levels = collect_top_levels bids Bid 20;
         ask_levels = collect_top_levels asks Ask 20
     in \<lparr>sn_best_bid_idx = first_idx bid_levels, sn_best_ask_idx = first_idx ask_levels,
         sn_topn_hash = hash_top_levels bid_levels ask_levels,
         sn_depth_top10 = sum_top_levels bid_levels 10 + sum_top_levels ask_levels 10\<rparr>)"

end
