(* ===== verification/BookInv.thy ===== *)
theory BookInv
  imports Book
begin

text \<open>
  The invariant of the order book and what its scanning loops compute. Both sides are instances of
  one contract, \<open>side_order\<close>: the indices in the order in which a side is scanned from its best
  price, split at any index into those before and those after it. The facts about best prices,
  insertion, removal and bounded top-level lists are proved once in it.
\<close>

text \<open>A scan over a list of indices: the reference for both walking loops.\<close>

fun scan :: "(nat \<Rightarrow> bool) \<Rightarrow> (nat \<Rightarrow> int \<Rightarrow> 'a \<Rightarrow> 'a \<times> bool) \<Rightarrow> int list \<Rightarrow> nat list \<Rightarrow> 'a \<Rightarrow> 'a" where
  "scan brk f xs [] acc = acc"
| "scan brk f xs (i # is) acc =
    (if brk i then acc
     else if xs ! i > 0 then
       (let (acc, stop) = f i (xs ! i) acc in if stop then acc else scan brk f xs is acc)
     else scan brk f xs is acc)"

definition lvls :: "int list \<Rightarrow> nat list \<Rightarrow> (nat \<times> int) list" where
  "lvls xs is = map (\<lambda>i. (i, xs ! i)) (filter (\<lambda>i. xs ! i > 0) is)"

definition first_pos :: "int list \<Rightarrow> nat list \<Rightarrow> nat option" where
  "first_pos xs is = List.find (\<lambda>i. xs ! i > 0) is"

lemma lvls_simps [simp]:
  "lvls xs [] = []" "lvls xs (i # is) = (if xs ! i > 0 then (i, xs ! i) # lvls xs is else lvls xs is)"
  "lvls xs (is @ js) = lvls xs is @ lvls xs js"
  by (simp_all add: lvls_def)

lemma first_pos_simps [simp]:
  "first_pos xs [] = None" "first_pos xs (i # is) = (if xs ! i > 0 then Some i else first_pos xs is)"
  by (simp_all add: first_pos_def)

lemma first_pos_append [simp]:
  "first_pos xs (is @ js) = (case first_pos xs is of Some i \<Rightarrow> Some i | None \<Rightarrow> first_pos xs js)"
  by (induction "is") simp_all

lemma first_pos_None: "first_pos xs is = None \<longleftrightarrow> (\<forall>i\<in>set is. \<not> xs ! i > 0)"
  by (induction "is") auto

lemma first_pos_lvls: "first_pos xs is = first_idx (lvls xs is)"
  by (induction "is") (simp_all add: first_idx_def)

lemma lvls_Nil: "lvls xs is = [] \<longleftrightarrow> first_pos xs is = None"
  by (induction "is") simp_all

lemma lvls_update [simp]: "i \<notin> set is \<Longrightarrow> lvls (xs[i := v]) is = lvls xs is"
  by (induction "is") auto

lemma first_pos_update [simp]: "i \<notin> set is \<Longrightarrow> first_pos (xs[i := v]) is = first_pos xs is"
  by (induction "is") auto

lemma scan_skip:
  "first_pos xs is = None \<Longrightarrow> scan (\<lambda>_. False) f xs (is @ js) acc = scan (\<lambda>_. False) f xs js acc"
  by (induction "is") (auto split: if_splits)

text \<open>The loops are scans.\<close>

lemma find_down_first: "find_down xs i = first_pos xs (rev [0..<Suc i])"
  by (induction i) simp_all

lemma find_up_first: "find_up xs i = first_pos xs [i..<PRICE_LEVELS]"
proof (induction xs i rule: find_up.induct)
  case (1 xs i)
  have "[i..<PRICE_LEVELS] = (if i \<le> PRICE_MAX_IDX then i # [i + 1..<PRICE_LEVELS] else [])"
    by (simp add: PRICE_LEVELS_def upt_rec)
  with 1 show ?case by (subst find_up.simps) auto
qed

lemma walk_down_scan: "walk_down brk f xs i acc = scan brk f xs (rev [0..<Suc i]) acc"
  by (induction i arbitrary: acc) (auto split: prod.splits)

lemma walk_up_scan: "i \<le> PRICE_MAX_IDX \<Longrightarrow> walk_up brk f xs i acc = scan brk f xs [i..<PRICE_LEVELS] acc"
proof (induction brk f xs i acc rule: walk_up.induct)
  case (1 brk f xs i acc)
  have "[i..<PRICE_LEVELS] = i # [i + 1..<PRICE_LEVELS]" using 1(2) by (simp add: PRICE_LEVELS_def upt_rec)
  moreover have "[i + 1..<PRICE_LEVELS] = []" if "PRICE_MAX_IDX \<le> i" using that by (simp add: PRICE_LEVELS_def)
  ultimately show ?case
    using 1 by (subst walk_up.simps) (auto split: prod.splits simp: Let_def)
qed

text \<open>A scan whose body counts, and stops at the \<open>n\<close>-th level, folds over the first levels.\<close>

lemma scan_counted:
  assumes "\<And>i s a c. f i s (a, c) = ((g i s a, Suc c), n \<le> Suc c)" "c < max 1 n"
  shows "scan (\<lambda>_. False) f xs is (a, c) =
    (fold (\<lambda>(i, s). g i s) (take (max 1 n - c) (lvls xs is)) a, c + length (take (max 1 n - c) (lvls xs is)))"
  using assms(2)
proof (induction "is" arbitrary: a c)
  case (Cons i "is")
  show ?case
  proof (cases "xs ! i > 0 \<and> \<not> n \<le> Suc c")
    case True
    then have "Suc c < max 1 n" by simp
    moreover from True have "max 1 n - c = Suc (max 1 n - Suc c)" by auto
    ultimately show ?thesis using True Cons.IH[of "Suc c" "g i (xs ! i) a"] by (simp add: assms(1))
  next
    case False
    then consider "xs ! i > 0" "max 1 n - c = Suc 0" | "\<not> xs ! i > 0" using Cons.prems by (cases "xs ! i > 0") auto
    then show ?thesis using False Cons by cases (simp_all add: assms(1))
  qed
qed simp

subsection \<open>One side of a book\<close>

locale side_order =
  fixes order :: "nat list" and before :: "nat \<Rightarrow> nat list" and after :: "nat \<Rightarrow> nat list"
    and front :: "nat \<Rightarrow> nat \<Rightarrow> bool" and N :: nat
  assumes split: "i < N \<Longrightarrow> order = before i @ i # after i"
    and indices: "set order = {..<N}" and dist: "distinct order"
    and front_before: "i < N \<Longrightarrow> j \<in> set (before i) \<Longrightarrow> front j i \<and> \<not> front i j"
    and front_after: "i < N \<Longrightarrow> j \<in> set (after i) \<Longrightarrow> front i j \<and> \<not> front j i"
    and front_irrefl: "\<not> front i i"
begin

lemma parts:
  assumes "i < N"
  shows "i \<notin> set (before i)" "i \<notin> set (after i)" "set (before i) \<inter> set (after i) = {}"
    "j < N \<Longrightarrow> j = i \<or> j \<in> set (before i) \<or> j \<in> set (after i)"
  using dist indices unfolding split[OF assms] by auto

lemma first_pos_Some:
  assumes "i < N"
  shows "first_pos xs order = Some i \<longleftrightarrow> xs ! i > 0 \<and> first_pos xs (before i) = None"
proof -
  have "first_pos xs is = Some j \<Longrightarrow> j \<in> set is" for "is" j by (induction "is") (auto split: if_splits)
  then show ?thesis unfolding split[OF assms] using parts(1,2)[OF assms] by (auto split: option.splits if_splits)
qed

lemma first_pos_index: "first_pos xs order = Some i \<Longrightarrow> i < N"
proof -
  have "first_pos xs is = Some j \<Longrightarrow> j \<in> set is" for "is" j by (induction "is") (auto split: if_splits)
  then show "first_pos xs order = Some i \<Longrightarrow> i < N" using indices by blast
qed

lemma best_insert:
  assumes i: "i < N" "length xs = N" "0 < v" and best: "best = first_pos xs order"
  shows "first_pos (xs[i := v]) order = (case best of None \<Rightarrow> Some i | Some b \<Rightarrow> if front i b then Some i else Some b)"
proof (cases "first_pos xs (before i)")
  case None
  then have "first_pos (xs[i := v]) order = Some i"
    unfolding split[OF i(1)] using i parts[OF i(1)] by simp
  moreover have "b = i \<or> b \<in> set (after i)" if "best = Some b" for b
    using that best first_pos_index[of xs b] parts(4)[OF i(1), of b] None first_pos_Some[of b xs]
    by (auto simp: first_pos_None)
  ultimately show ?thesis using front_after[OF i(1)] by (auto split: option.split)
next
  case (Some b)
  then have "b \<in> set (before i)" by (induction "before i") (auto simp: first_pos_def find_Some_iff)
  moreover have "best = Some b" unfolding best split[OF i(1)] using Some by simp
  moreover have "first_pos (xs[i := v]) order = Some b"
    unfolding split[OF i(1)] using Some parts[OF i(1)] by simp
  ultimately show ?thesis using front_before[OF i(1)] by simp
qed

lemma best_delete:
  assumes "i < N" "length xs = N" "first_pos xs order = Some i"
  shows "first_pos (xs[i := 0]) order = first_pos xs (after i)"
proof -
  have "first_pos xs (before i) = None" using assms(3) first_pos_Some[OF assms(1)] by simp
  then show ?thesis unfolding split[OF assms(1)] using parts[OF assms(1)] assms(2) by (simp add: assms(1))
qed

lemma best_keep:
  assumes "i < N" "length xs = N" "first_pos xs order \<noteq> Some i"
  shows "first_pos (xs[i := 0]) order = first_pos xs order"
proof -
  have "\<not> (xs ! i > 0 \<and> first_pos xs (before i) = None)" using assms(3) first_pos_Some[OF assms(1)] by simp
  then show ?thesis unfolding split[OF assms(1)] using parts[OF assms(1)] assms(2)
    by (auto simp: assms(1) split: option.split)
qed

lemma scan_from_best:
  assumes "first_pos xs order = Some i"
  shows "scan (\<lambda>_. False) f xs (i # after i) acc = scan (\<lambda>_. False) f xs order acc"
proof -
  have "i < N" by (rule first_pos_index[OF assms])
  with assms show ?thesis
    using scan_skip[of xs "before i" f "i # after i" acc] first_pos_Some[of i xs] by (simp add: split)
qed

text \<open>A bounded list of top levels keeps up with the book.\<close>

lemma top_insert_levels:
  assumes i: "i < N" "length xs = N" and v: "0 < v" and n: "0 < n"
    and ins: "\<And>tops. ins tops = (case set_entry i v tops of Some t \<Rightarrow> t | None \<Rightarrow>
      (case position (\<lambda>(e, _). front i e) tops of
         Some pos \<Rightarrow> (let t = take pos tops @ (i, v) # drop pos tops in if length t > n then butlast t else t)
       | None \<Rightarrow> if length tops < n then tops @ [(i, v)] else tops))"
  shows "ins (take n (lvls xs order)) = take n (lvls (xs[i := v]) order)"
proof -
  define A where "A = lvls xs (before i)"
  define B where "B = lvls xs (after i)"
  have keys: "fst ` set A \<subseteq> set (before i)" "fst ` set B \<subseteq> set (after i)"
    by (auto simp: A_def B_def lvls_def)
  have L: "lvls xs order = A @ (if xs ! i > 0 then [(i, xs ! i)] else []) @ B"
    unfolding split[OF i(1)] A_def B_def by simp
  have L': "lvls (xs[i := v]) order = A @ (i, v) # B"
    unfolding split[OF i(1)] A_def B_def using parts[OF i(1)] i v by simp
  have noA: "set_entry i v (A' @ t) = map_option ((@) A') (set_entry i v t)" if "fst ` set A' \<subseteq> set (before i)" for A' t
    using that parts(1)[OF i(1)] by (cases "set_entry i v t"; induction A') auto
  have noB: "set_entry i v B' = None" if "fst ` set B' \<subseteq> set (after i)" for B'
    using that parts(2)[OF i(1)] by (induction B') auto
  have posA: "position (\<lambda>(e, _). front i e) (A' @ t) = map_option ((+) (length A')) (position (\<lambda>(e, _). front i e) t)"
    if "fst ` set A' \<subseteq> set (before i)" for A' t
    using that front_before[OF i(1)] by (cases "position (\<lambda>(e, _). front i e) t"; induction A') auto
  have posB: "position (\<lambda>(e, _). front i e) B' = (if B' = [] then None else Some 0)" if "fst ` set B' \<subseteq> set (after i)" for B'
    using that front_after[OF i(1)] by (cases B') auto
  show ?thesis
  proof (cases "n \<le> length A")
    case True
    have kA: "fst ` set (take n A) \<subseteq> set (before i)" using keys(1) set_take_subset[of n A] by blast
    have "set_entry i v (take n A) = None" using noA[OF kA, of "[]"] by simp
    moreover have "position (\<lambda>(e, _). front i e) (take n A) = None" using posA[OF kA, of "[]"] by simp
    ultimately show ?thesis unfolding L L' ins using True by simp
  next
    case False
    define k where "k = n - length A"
    have k: "0 < k" using False by (simp add: k_def)
    have kB: "fst ` set (take j B) \<subseteq> set (after i)" for j using keys(2) set_take_subset[of j B] by blast
    show ?thesis
    proof (cases "xs ! i > 0")
      case True
      have "take n (lvls xs order) = A @ (i, xs ! i) # take (k - 1) B"
        unfolding L using True False k by (simp add: k_def take_Cons')
      moreover have "take n (lvls (xs[i := v]) order) = A @ (i, v) # take (k - 1) B"
        unfolding L' using False k by (simp add: k_def take_Cons')
      moreover have "set_entry i v (A @ (i, xs ! i) # take (k - 1) B) = Some (A @ (i, v) # take (k - 1) B)"
        by (simp add: noA[OF keys(1)])
      ultimately show ?thesis by (simp add: ins)
    next
      case notp: False
      have t: "take n (lvls xs order) = A @ take k B" unfolding L using notp False by (simp add: k_def)
      have t': "take n (lvls (xs[i := v]) order) = A @ (i, v) # take (k - 1) B"
        unfolding L' using False k by (simp add: k_def take_Cons')
      have se: "set_entry i v (A @ take k B) = None" by (simp add: noA[OF keys(1)] noB[OF kB])
      show ?thesis
      proof (cases "B = []")
        case True
        then show ?thesis using False se posA[OF keys(1), of "[]"] unfolding t t' ins by simp
      next
        case B: False
        then have "take k B \<noteq> []" using k by simp
        then have pos: "position (\<lambda>(e, _). front i e) (A @ take k B) = Some (length A)"
          by (simp add: posA[OF keys(1)] posB[OF kB])
        have "ins (A @ take k B) = (let t = A @ (i, v) # take k B in if length t > n then butlast t else t)"
          unfolding ins by (simp add: se pos)
        also have "\<dots> = A @ (i, v) # take (k - 1) B"
        proof (cases "k \<le> length B")
          case True
          then have "n < length (A @ (i, v) # take k B)" using False k by (simp add: k_def)
          moreover have "butlast (A @ (i, v) # take k B) = A @ (i, v) # take (k - 1) B"
            using k True B by (simp add: butlast_append butlast_take)
          ultimately show ?thesis by simp
        next
          case short: False
          then have "\<not> n < length (A @ (i, v) # take k B)" by (simp add: k_def)
          then show ?thesis using short by simp
        qed
        finally show ?thesis unfolding t t' .
      qed
    qed
  qed
qed

end

interpretation bid_side: side_order "rev [0..<PRICE_LEVELS]" "\<lambda>i. rev [Suc i..<PRICE_LEVELS]" "\<lambda>i. rev [0..<i]"
  "ahead Bid" PRICE_LEVELS
proof
  fix i :: nat
  assume "i < PRICE_LEVELS"
  then have "[0..<PRICE_LEVELS] = [0..<i] @ i # [Suc i..<PRICE_LEVELS]"
    by (metis less_imp_le_nat upt_add_eq_append upt_conv_Cons le_add_diff_inverse zero_le)
  then show "rev [0..<PRICE_LEVELS] = rev [Suc i..<PRICE_LEVELS] @ i # rev [0..<i]" by simp
qed auto

interpretation ask_side: side_order "[0..<PRICE_LEVELS]" "\<lambda>i. [0..<i]" "\<lambda>i. [Suc i..<PRICE_LEVELS]"
  "ahead Ask" PRICE_LEVELS
proof
  fix i :: nat
  assume "i < PRICE_LEVELS"
  then show "[0..<PRICE_LEVELS] = [0..<i] @ i # [Suc i..<PRICE_LEVELS]"
    by (metis less_imp_le_nat upt_add_eq_append upt_conv_Cons le_add_diff_inverse zero_le)
qed auto


subsection \<open>The invariant\<close>

definition side_inv :: "int list \<Rightarrow> nat \<Rightarrow> nat option \<Rightarrow> nat list \<Rightarrow> bool" where
  "side_inv xs nonzero best order \<longleftrightarrow> length xs = PRICE_LEVELS \<and> (\<forall>x\<in>set xs. 0 \<le> x) \<and>
     nonzero = length (filter (\<lambda>x. x > 0) xs) \<and> best = first_pos xs order"

definition book_inv :: "DenseBook \<Rightarrow> bool" where
  "book_inv b \<longleftrightarrow> side_inv (bk_bids b) (bk_bid_nonzero b) (bk_best_bid_idx b) (rev [0..<PRICE_LEVELS]) \<and>
     side_inv (bk_asks b) (bk_ask_nonzero b) (bk_best_ask_idx b) [0..<PRICE_LEVELS]"

lemma price_to_idx_less: "price_to_idx p = Some i \<Longrightarrow> i < PRICE_LEVELS"
  by (auto simp: price_to_idx_def PRICE_LEVELS_def Let_def split: if_splits)

lemma filter_length_update:
  "i < length xs \<Longrightarrow> length (filter P (xs[i := v])) + (if P (xs ! i) then 1 else 0) =
    length (filter P xs) + (if P v then 1 else (0::nat))"
proof (induction xs arbitrary: i)
  case (Cons x xs)
  show ?case
  proof (cases i)
    case (Suc j)
    then have "j < length xs" using Cons.prems by simp
    from Cons.IH[OF this] Suc show ?thesis by (auto split: if_splits)
  qed simp
qed simp

lemma count_level_ok:
  assumes "i < length xs" "0 \<le> xs ! i" "0 \<le> v"
  shows "count_level (xs ! i) v (length (filter (\<lambda>x. x > 0) xs)) = length (filter (\<lambda>x. x > (0::int)) (xs[i := v]))"
proof -
  have "0 < length (filter (\<lambda>x. x > 0) xs)" if "xs ! i > 0"
    using that assms(1) by (auto simp: filter_empty_conv)
  with filter_length_update[of i xs "\<lambda>x. x > 0" v] assms show ?thesis
    by (auto simp: count_level_def split: if_splits)
qed

lemma side_inv_upd:
  assumes "side_inv xs n best ord" "i < PRICE_LEVELS" "0 \<le> v" "best' = first_pos (xs[i := v]) ord"
  shows "side_inv (xs[i := v]) (count_level (xs ! i) v n) best' ord"
proof -
  have x: "length xs = PRICE_LEVELS" "\<forall>x\<in>set xs. 0 \<le> x" "n = length (filter (\<lambda>x. x > 0) xs)"
    using assms(1) by (simp_all add: side_inv_def)
  then have "0 \<le> xs ! i" using assms(2) by simp
  then have "count_level (xs ! i) v n = length (filter (\<lambda>x. x > 0) (xs[i := v]))"
    unfolding x(3) using x(1) assms(2,3) by (intro count_level_ok) simp_all
  moreover have "\<forall>x\<in>set (xs[i := v]). 0 \<le> x" using x(2) assms(3) by (auto dest: set_update_subset_insert[THEN subsetD])
  ultimately show ?thesis using x(1) assms(4) by (simp add: side_inv_def)
qed

lemma find_next_bid_first: "find_next_bid b i = first_pos (bk_bids b) (rev [0..<i])"
  by (cases i) (simp_all add: find_next_bid_def find_down_first)

lemma find_next_ask_first: "find_next_ask b i = first_pos (bk_asks b) [Suc i..<PRICE_LEVELS]"
  by (simp add: find_next_ask_def find_up_first)

lemma best_option_split:
  "(case first_pos xs ord of None \<Rightarrow> if v > 0 then Some i else None
    | Some best \<Rightarrow> if v > 0 \<and> fr i best then Some i else if i = best \<and> v = 0 then nx best else Some best) =
   (if v > 0 then (case first_pos xs ord of None \<Rightarrow> Some i | Some best \<Rightarrow> if fr i best then Some i else Some best)
    else if v = 0 then (if first_pos xs ord = Some i then nx i else first_pos xs ord) else first_pos xs ord)"
  for v :: int by (auto split: option.split)

lemma set_bid_inv:
  assumes inv: "book_inv b" and i: "i < PRICE_LEVELS" and v: "0 \<le> v"
  shows "book_inv (set_bid i v b)"
proof -
  define xs where "xs = bk_bids b"
  have s: "side_inv xs (bk_bid_nonzero b) (bk_best_bid_idx b) (rev [0..<PRICE_LEVELS])" using inv by (simp add: book_inv_def xs_def)
  then have len: "length xs = PRICE_LEVELS" and best: "bk_best_bid_idx b = first_pos xs (rev [0..<PRICE_LEVELS])"
    by (simp_all add: side_inv_def)
  have "bk_best_bid_idx (set_bid i v b) = first_pos (xs[i := v]) (rev [0..<PRICE_LEVELS])"
  proof (cases "v = 0")
    case True
    have "first_pos (xs[i := 0]) (rev [0..<i]) = first_pos xs (rev [0..<i])" by simp
    then show ?thesis
      using bid_side.best_delete[OF i len] bid_side.best_keep[OF i len] best True
      by (simp add: set_bid_def Let_def find_next_bid_first xs_def[symmetric] split: option.split)
  next
    case False
    with v have "0 < v" by simp
    from bid_side.best_insert[OF i len this best] False v show ?thesis
      by (auto simp: set_bid_def Let_def split: option.split)
  qed
  from side_inv_upd[OF s i v this] inv show ?thesis
    by (simp add: book_inv_def set_bid_def Let_def xs_def)
qed

lemma set_ask_inv:
  assumes inv: "book_inv b" and i: "i < PRICE_LEVELS" and v: "0 \<le> v"
  shows "book_inv (set_ask i v b)"
proof -
  define xs where "xs = bk_asks b"
  have s: "side_inv xs (bk_ask_nonzero b) (bk_best_ask_idx b) [0..<PRICE_LEVELS]" using inv by (simp add: book_inv_def xs_def)
  then have len: "length xs = PRICE_LEVELS" and best: "bk_best_ask_idx b = first_pos xs [0..<PRICE_LEVELS]"
    by (simp_all add: side_inv_def)
  have "bk_best_ask_idx (set_ask i v b) = first_pos (xs[i := v]) [0..<PRICE_LEVELS]"
  proof (cases "v = 0")
    case True
    have "first_pos (xs[i := 0]) [Suc i..<PRICE_LEVELS] = first_pos xs [Suc i..<PRICE_LEVELS]" by simp
    then show ?thesis
      using ask_side.best_delete[OF i len] ask_side.best_keep[OF i len] best True
      by (simp add: set_ask_def Let_def find_next_ask_first xs_def[symmetric] split: option.split)
  next
    case False
    with v have "0 < v" by simp
    from ask_side.best_insert[OF i len this best] False v show ?thesis
      by (auto simp: set_ask_def Let_def split: option.split)
  qed
  from side_inv_upd[OF s i v this] inv show ?thesis
    by (simp add: book_inv_def set_ask_def Let_def xs_def)
qed

lemma apply_delta_inv: "book_inv b \<Longrightarrow> book_inv (snd (apply_delta side price sz ts b))"
proof -
  assume inv: "book_inv b"
  then have u: "book_inv (b\<lparr>bk_last_update_ts_ms := ts\<rparr>)" by (simp add: book_inv_def)
  have "book_inv (set_level side i (if v \<le> 0 then 0 else v) (b\<lparr>bk_last_update_ts_ms := ts\<rparr>))" if "i < PRICE_LEVELS" for i v
    using set_bid_inv[OF u that] set_ask_inv[OF u that] by (cases side) simp_all
  with inv show ?thesis
    by (auto simp: apply_delta_def Let_def price_to_idx_less split: option.splits)
qed

subsection \<open>Snapshots\<close>

text \<open>A valid level of a snapshot acts like \<open>set_level\<close>.\<close>

definition level_entry :: "BookLevel \<Rightarrow> (nat \<times> int) option" where
  "level_entry l = (case price_to_idx (bl_price l) of None \<Rightarrow> None
    | Some idx \<Rightarrow> (case size_to_int (bl_size l) of None \<Rightarrow> None | Some sz \<Rightarrow> if sz > 0 then Some (idx, sz) else None))"

definition bad_price :: "BookLevel \<Rightarrow> bool" where
  "bad_price l \<longleftrightarrow> price_to_idx (bl_price l) = None"

definition put :: "BookSide \<Rightarrow> BookLevel \<Rightarrow> DenseBook \<Rightarrow> DenseBook" where
  "put side l b = (case level_entry l of None \<Rightarrow> b | Some (idx, sz) \<Rightarrow> set_level side idx sz b)"

lemma level_entry_Some: "level_entry l = Some (i, v) \<Longrightarrow> i < PRICE_LEVELS \<and> 0 < v"
  by (auto simp: level_entry_def dest: price_to_idx_less split: option.splits if_splits)

lemma snap_bid_put: "snap_bid l (b, n) = (put Bid l b, n + of_bool (bad_price l))"
  by (auto simp: snap_bid_def put_def level_entry_def bad_price_def set_bid_def count_level_def Let_def
      split: option.splits)

lemma snap_ask_put: "snap_ask l (b, n) = (put Ask l b, n + of_bool (bad_price l))"
  by (auto simp: snap_ask_def put_def level_entry_def bad_price_def set_ask_def count_level_def Let_def
      split: option.splits)

lemma fold_snap:
  "fold snap_bid ls (b, n) = (fold (put Bid) ls b, n + length (filter bad_price ls))"
  "fold snap_ask ls (b, n) = (fold (put Ask) ls b, n + length (filter bad_price ls))"
  by (induction ls arbitrary: b n) (simp_all add: snap_bid_put snap_ask_put)

text \<open>The book between clearing and the first level.\<close>

definition snap_start :: "BookLevel list option \<Rightarrow> BookLevel list option \<Rightarrow> millis \<Rightarrow> DenseBook \<Rightarrow> DenseBook" where
  "snap_start bids asks ts b =
    (let b = (if bids \<noteq> None then clear_bids b else b); b = (if asks \<noteq> None then clear_asks b else b)
     in b\<lparr>bk_last_update_ts_ms := ts\<rparr>)"

definition levels_of :: "BookLevel list option \<Rightarrow> BookLevel list" where
  "levels_of ls = (case ls of None \<Rightarrow> [] | Some ls \<Rightarrow> ls)"

lemma apply_snapshot_put:
  "apply_snapshot bids asks ts b =
    (length (filter bad_price (levels_of bids @ levels_of asks)),
     fold (put Ask) (levels_of asks) (fold (put Bid) (levels_of bids) (snap_start bids asks ts b)))"
  by (simp add: apply_snapshot_def snap_start_def levels_of_def fold_snap Let_def split: option.split)

lemma side_inv_empty: "first_pos (replicate PRICE_LEVELS 0) ord = None \<Longrightarrow> side_inv (replicate PRICE_LEVELS 0) 0 None ord"
  by (simp add: side_inv_def)

lemma first_pos_zero: "set is \<subseteq> {..<n} \<Longrightarrow> first_pos (replicate n 0) is = None"
  by (induction "is") auto

lemma side_inv_zero:
  "side_inv (replicate PRICE_LEVELS 0) 0 None (rev [0..<PRICE_LEVELS])"
  "side_inv (replicate PRICE_LEVELS 0) 0 None [0..<PRICE_LEVELS]"
  by (auto intro!: side_inv_empty first_pos_zero)

lemma book_inv_default: "book_inv book_default"
  by (simp add: book_inv_def book_default_def side_inv_zero)

lemma snap_start_inv: "book_inv b \<Longrightarrow> book_inv (snap_start bids asks ts b)"
  using side_inv_zero
  by (auto simp: book_inv_def snap_start_def clear_bids_def clear_asks_def Let_def side_inv_def)

lemma set_level_inv: "book_inv b \<Longrightarrow> i < PRICE_LEVELS \<Longrightarrow> 0 \<le> v \<Longrightarrow> book_inv (set_level side i v b)"
  by (cases side) (simp_all add: set_bid_inv set_ask_inv)

lemma put_inv: "book_inv b \<Longrightarrow> book_inv (put side l b)"
  by (auto simp: put_def dest: level_entry_Some intro!: set_level_inv split: option.split)

lemma fold_put_inv: "book_inv b \<Longrightarrow> book_inv (fold (put side) ls b)"
  by (induction ls arbitrary: b) (simp_all add: put_inv)

lemma apply_snapshot_inv: "book_inv b \<Longrightarrow> book_inv (snd (apply_snapshot bids asks ts b))"
  by (simp add: apply_snapshot_put fold_put_inv snap_start_inv)

text \<open>A snapshot of one side leaves the other side alone.\<close>

lemma put_other: "s \<noteq> s' \<Longrightarrow> side_sizes s' (put s l b) = side_sizes s' b \<and> best_idx s' (put s l b) = best_idx s' b"
  by (cases s; cases s') (auto simp: put_def set_bid_def set_ask_def Let_def split: option.split)

lemma fold_put_other:
  "s \<noteq> s' \<Longrightarrow> side_sizes s' (fold (put s) ls b) = side_sizes s' b \<and> best_idx s' (fold (put s) ls b) = best_idx s' b"
  by (induction ls arbitrary: b) (simp_all add: put_other)

subsection \<open>The collected top levels are those of the book\<close>

fun side_order_of :: "BookSide \<Rightarrow> nat list" where
  "side_order_of Bid = rev [0..<PRICE_LEVELS]"
| "side_order_of Ask = [0..<PRICE_LEVELS]"

definition book_levels :: "BookSide \<Rightarrow> DenseBook \<Rightarrow> (nat \<times> int) list" where
  "book_levels side b = lvls (side_sizes side b) (side_order_of side)"

lemma book_inv_side:
  "book_inv b \<Longrightarrow> length (side_sizes side b) = PRICE_LEVELS \<and>
     best_idx side b = first_pos (side_sizes side b) (side_order_of side)"
  by (cases side) (simp_all add: book_inv_def side_inv_def)

lemma side_sizes_set: "side_sizes side (set_level side i v b) = (side_sizes side b)[i := v]"
  by (cases side) (simp_all add: set_bid_def set_ask_def Let_def)

lemma top_insert_book:
  assumes "book_inv b" "i < PRICE_LEVELS" "0 < v" "0 < n"
  shows "top_insert side n i v (take n (book_levels side b)) = take n (book_levels side (set_level side i v b))"
proof -
  have len: "length (side_sizes side b) = PRICE_LEVELS" using book_inv_side[OF assms(1)] by simp
  show ?thesis
  proof (cases side)
    case Bid
    show ?thesis unfolding book_levels_def side_sizes_set Bid side_order_of.simps
      by (rule bid_side.top_insert_levels[where ins = "top_insert Bid n i v", OF assms(2) len[unfolded Bid] assms(3,4)])
        (rule top_insert_def)
  next
    case Ask
    show ?thesis unfolding book_levels_def side_sizes_set Ask side_order_of.simps
      by (rule ask_side.top_insert_levels[where ins = "top_insert Ask n i v", OF assms(2) len[unfolded Ask] assms(3,4)])
        (rule top_insert_def)
  qed
qed

lemma collect_level_entry:
  "collect_level side n l tops = (case level_entry l of None \<Rightarrow> tops | Some (i, v) \<Rightarrow> top_insert side n i v tops)"
  by (simp add: collect_level_def level_entry_def split: option.split)

lemma collect_level_book:
  assumes "book_inv b" "0 < n"
  shows "collect_level side n l (take n (book_levels side b)) = take n (book_levels side (put side l b))"
proof (cases "level_entry l")
  case (Some e)
  obtain i v where "e = (i, v)" by (cases e)
  with Some level_entry_Some[of l i v] top_insert_book[OF assms(1), of i v n side] assms(2)
  show ?thesis by (simp only: collect_level_entry put_def option.case prod.case)
qed (simp add: collect_level_entry put_def)

lemma fold_collect_book:
  "book_inv b \<Longrightarrow> 0 < n \<Longrightarrow>
    fold (collect_level side n) ls (take n (book_levels side b)) = take n (book_levels side (fold (put side) ls b))"
  by (induction ls arbitrary: b) (simp_all add: collect_level_book put_inv)

lemma lvls_zero: "set is \<subseteq> {..<n} \<Longrightarrow> lvls (replicate n 0) is = []"
  by (induction "is") auto

lemma snapshot_levels:
  assumes "book_inv b" "0 < n"
  shows "take n (book_levels Bid (snd (apply_snapshot (Some bids) (Some asks) ts b))) = collect_top_levels bids Bid n"
    "take n (book_levels Ask (snd (apply_snapshot (Some bids) (Some asks) ts b))) = collect_top_levels asks Ask n"
proof -
  define s where "s = snap_start (Some bids) (Some asks) ts b"
  have inv: "book_inv s" unfolding s_def by (rule snap_start_inv[OF assms(1)])
  have len: "length (bk_bids b) = PRICE_LEVELS" "length (bk_asks b) = PRICE_LEVELS"
    using assms(1) by (simp_all add: book_inv_def side_inv_def)
  have empty: "book_levels side s = []" for side
    by (cases side; simp add: book_levels_def s_def snap_start_def clear_bids_def clear_asks_def Let_def len;
      rule lvls_zero; auto)
  have B: "book_levels Bid (fold (put Ask) asks t) = book_levels Bid t" for t
    using fold_put_other[of Ask Bid asks t] by (simp add: book_levels_def)
  have A: "book_levels Ask (fold (put Bid) bids s) = book_levels Ask s"
    using fold_put_other[of Bid Ask bids s] by (simp add: book_levels_def)
  show "take n (book_levels Bid (snd (apply_snapshot (Some bids) (Some asks) ts b))) = collect_top_levels bids Bid n"
    using fold_collect_book[OF inv assms(2), of Bid bids]
    by (simp add: apply_snapshot_put levels_of_def s_def[symmetric] B empty collect_top_levels_def)
  show "take n (book_levels Ask (snd (apply_snapshot (Some bids) (Some asks) ts b))) = collect_top_levels asks Ask n"
    using fold_collect_book[OF fold_put_inv[OF inv] assms(2), of Ask asks Bid bids]
    by (simp add: apply_snapshot_put levels_of_def s_def[symmetric] A empty collect_top_levels_def)
qed

subsection \<open>Reading loops as folds over the levels\<close>

lemma walk_levels:
  assumes inv: "book_inv b" and best: "best_idx side b = Some i"
    and f: "\<And>i s a c. f i s (a, c) = ((g i s a, Suc c), n \<le> Suc c)"
  shows "walk side (\<lambda>_. False) f b i (a, 0) =
    (fold (\<lambda>(i, s). g i s) (take (max 1 n) (book_levels side b)) a, length (take (max 1 n) (book_levels side b)))"
proof -
  have first: "first_pos (side_sizes side b) (side_order_of side) = Some i"
    using book_inv_side[OF inv, of side] best by simp
  have "walk side (\<lambda>_. False) f b i (a, 0) = scan (\<lambda>_. False) f (side_sizes side b) (side_order_of side) (a, 0)"
  proof (cases side)
    case Bid
    have "rev [0..<Suc i] = i # rev [0..<i]" by simp
    moreover have "first_pos (bk_bids b) (rev [0..<PRICE_LEVELS]) = Some i" using first Bid by simp
    ultimately show ?thesis unfolding Bid
      by (simp only: walk.simps walk_down_scan side_sizes.simps side_order_of.simps bid_side.scan_from_best)
  next
    case Ask
    then have "i \<le> PRICE_MAX_IDX" using ask_side.first_pos_index first by (fastforce simp: PRICE_LEVELS_def)
    moreover from this have "[i..<PRICE_LEVELS] = i # [Suc i..<PRICE_LEVELS]" by (simp add: PRICE_LEVELS_def upt_rec)
    ultimately show ?thesis
      using ask_side.scan_from_best[of "bk_asks b" i f "(a, 0)"] first
      by (simp only: Ask walk.simps walk_up_scan side_sizes.simps side_order_of.simps)
  qed
  also have "\<dots> = (fold (\<lambda>(i, s). g i s) (take (max 1 n) (book_levels side b)) a,
      length (take (max 1 n) (book_levels side b)))"
    unfolding book_levels_def by (subst scan_counted[where n = n, OF f]) simp_all
  finally show ?thesis .
qed

lemma best_idx_None: "book_inv b \<Longrightarrow> best_idx side b = None \<longleftrightarrow> book_levels side b = []"
  by (simp add: book_inv_side book_levels_def lvls_Nil)

lemma best_idx_levels: "book_inv b \<Longrightarrow> 0 < n \<Longrightarrow> best_idx side b = first_idx (take n (book_levels side b))"
  by (simp add: book_inv_side book_levels_def first_pos_lvls first_idx_def take_Cons' split: list.split)

lemma depth_top_n_levels:
  "book_inv b \<Longrightarrow> 0 < n \<Longrightarrow>
    depth_top_n side n b = (if book_levels side b = [] then None
      else Some (sum_top_levels (book_levels side b) n))"
proof -
  assume b: "book_inv b" "0 < n"
  show ?thesis
  proof (cases "best_idx side b")
    case None
    with b show ?thesis by (simp add: depth_top_n_def best_idx_None[symmetric])
  next
    case (Some i)
    then have ne: "book_levels side b \<noteq> []" using best_idx_None[OF b(1), of side] by simp
    have "walk side (\<lambda>_. False) (depth_body n) b i (0, 0) =
        (fold (\<lambda>(i, s) sum. sum + idx_to_price i * size_to_float s) (take (max 1 n) (book_levels side b)) 0,
         length (take (max 1 n) (book_levels side b)))"
      by (rule walk_levels[OF b(1) Some]) (simp add: depth_body_def)
    with b(2) ne Some show ?thesis
      by (simp add: depth_top_n_def sum_top_levels_def foldl_conv_fold case_prod_beta' max_def Suc_le_eq)
  qed
qed

lemma levels_len_zero: "book_inv b \<Longrightarrow> levels_len b = 0 \<longleftrightarrow> book_levels Bid b = [] \<and> book_levels Ask b = []"
proof -
  assume inv: "book_inv b"
  have "length (filter (\<lambda>x. x > 0) (side_sizes side b)) = 0 \<longleftrightarrow> book_levels side b = []" for side
  proof -
    have "(\<forall>x\<in>set (side_sizes side b). \<not> 0 < x) \<longleftrightarrow> (\<forall>i<PRICE_LEVELS. \<not> 0 < side_sizes side b ! i)"
      using book_inv_side[OF inv, of side] by (metis in_set_conv_nth)
    moreover have "set (side_order_of side) = {..<PRICE_LEVELS}" by (cases side) auto
    ultimately show ?thesis by (auto simp: book_levels_def lvls_def filter_empty_conv)
  qed
  from this[of Bid] this[of Ask] inv show ?thesis by (simp add: levels_len_def book_inv_def side_inv_def)
qed

lemma topn_hash_levels:
  assumes b: "book_inv b" "0 < n"
  shows "topn_hash n b = hash_top_levels (take n (book_levels Bid b)) (take n (book_levels Ask b))"
proof -
  have w: "(case best_idx side b of Some i \<Rightarrow> fst (walk side (\<lambda>_. False) (hash_body n) b i (h, 0)) | None \<Rightarrow> h) =
      fold (\<lambda>(i, s) h. hash_pair h (int i) s) (take n (book_levels side b)) h" for side h
  proof (cases "best_idx side b")
    case None
    then show ?thesis using best_idx_None[OF b(1), of side] by simp
  next
    case (Some i)
    have "walk side (\<lambda>_. False) (hash_body n) b i (h, 0) =
        (fold (\<lambda>(i, s) h. hash_pair h (int i) s) (take (max 1 n) (book_levels side b)) h,
         length (take (max 1 n) (book_levels side b)))"
      by (rule walk_levels[OF b(1) Some]) (simp add: hash_body_def)
    with b(2) Some show ?thesis by (simp add: max_def Suc_le_eq)
  qed
  have t: "take n L = [] \<longleftrightarrow> L = []" for L :: "(nat \<times> int) list" using b(2) by simp
  show ?thesis
    using b(2) levels_len_zero[OF b(1)] w[where side = Bid] w[where side = Ask]
    by (auto simp: topn_hash_def hash_top_levels_def Let_def t)
qed

end
