(* ===== verification/BookSpec.thy ===== *)
theory BookSpec
  imports BookInv
begin

text \<open>
  What the order book of \<open>src/shard.rs\<close> promises: its cached best prices and counts are exact after
  any sequence of updates, applying a snapshot yields the metrics that the drift check computes from
  the snapshot alone, and prices survive the conversion to an index and back.
\<close>

text \<open>The books that the shard worker can reach: it creates a default book, applies snapshots and
  deltas, and sets the tick.\<close>

inductive book_reach :: "DenseBook \<Rightarrow> bool" where
  reach_default: "book_reach book_default"
| reach_snapshot: "book_reach b \<Longrightarrow> book_reach (snd (apply_snapshot bids asks ts b))"
| reach_delta: "book_reach b \<Longrightarrow> book_reach (snd (apply_delta side price sz ts b))"
| reach_tick: "book_reach b \<Longrightarrow> book_reach (b\<lparr>bk_tick_px := tick\<rparr>)"

lemma book_reach_inv: "book_reach b \<Longrightarrow> book_inv b"
  by (induction rule: book_reach.induct)
    (simp_all add: book_inv_default apply_snapshot_inv apply_delta_inv, simp add: book_inv_def)

lemma first_pos_rev: "first_pos xs (rev [0..<n]) = Some i \<longleftrightarrow> i < n \<and> xs ! i > 0 \<and> (\<forall>j\<in>{i<..<n}. \<not> xs ! j > 0)"
proof (induction n)
  case (Suc n)
  have "{i<..<Suc n} = (if i < n then insert n {i<..<n} else {})" by auto
  with Suc show ?case by (auto simp: less_Suc_eq)
qed simp

lemma first_pos_upt: "first_pos xs [0..<n] = Some i \<longleftrightarrow> i < n \<and> xs ! i > 0 \<and> (\<forall>j<i. \<not> xs ! j > 0)"
proof (induction n)
  case (Suc n)
  show ?case
  proof (cases "first_pos xs [0..<n]")
    case None
    then have "\<forall>j<n. \<not> xs ! j > 0" by (auto simp: first_pos_None)
    with None show ?thesis by (auto simp: less_Suc_eq)
  next
    case (Some j)
    then have j: "j < n" "xs ! j > 0" "\<forall>k<j. \<not> xs ! k > 0"
      using first_pos_None[of xs "[0..<n]"] by (auto simp: first_pos_def find_Some_iff)
    have "j = i" if "i < Suc n" "xs ! i > 0" "\<forall>k<i. \<not> xs ! k > 0"
      using that j by (meson linorder_neqE_nat)
    with Some j show ?thesis by auto
  qed
qed simp

lemma book_counts:
  assumes "book_reach b"
  shows "bk_bid_nonzero b = card {i. i \<le> 10000 \<and> bk_bids b ! i > 0} \<and>
    bk_ask_nonzero b = card {i. i \<le> 10000 \<and> bk_asks b ! i > 0}"
proof -
  have inv: "book_inv b" by (rule book_reach_inv[OF assms])
  have L: "PRICE_LEVELS = 10001" by (simp add: PRICE_LEVELS_def PRICE_MAX_IDX_def)
  have len: "length (bk_bids b) = 10001" "length (bk_asks b) = 10001"
    and cnt: "bk_bid_nonzero b = length (filter (\<lambda>x. x > 0) (bk_bids b))"
      "bk_ask_nonzero b = length (filter (\<lambda>x. x > 0) (bk_asks b))"
    using inv unfolding book_inv_def side_inv_def L by blast+
  have C: "length (filter (\<lambda>x. x > 0) xs) = card {i. i \<le> 10000 \<and> xs ! i > 0}" if "length xs = 10001" for xs :: "int list"
    unfolding length_filter_conv_card that by (rule arg_cong[where f = card]) auto
  from cnt(1)[unfolded C[OF len(1)]] cnt(2)[unfolded C[OF len(2)]] show ?thesis by (rule conjI)
qed

text \<open>
  C14. In every reachable book the cached best bid is the highest price index with a size and the
  cached best ask the lowest one; there is no best price exactly when the side is empty; the
  counters are the numbers of levels with a size, and both sides have one entry per price index.
\<close>

theorem book_best_exact:
  assumes "book_reach b"
  shows "(bk_best_bid_idx b = Some i \<longleftrightarrow> i \<le> 10000 \<and> bk_bids b ! i > 0 \<and> (\<forall>j\<in>{i<..10000}. bk_bids b ! j = 0)) \<and>
    (bk_best_ask_idx b = Some i \<longleftrightarrow> i \<le> 10000 \<and> bk_asks b ! i > 0 \<and> (\<forall>j\<in>{..<i}. bk_asks b ! j = 0)) \<and>
    bk_bid_nonzero b = card {i. i \<le> 10000 \<and> bk_bids b ! i > 0} \<and>
    bk_ask_nonzero b = card {i. i \<le> 10000 \<and> bk_asks b ! i > 0} \<and>
    length (bk_bids b) = 10001 \<and> length (bk_asks b) = 10001"
proof -
  have inv: "book_inv b" by (rule book_reach_inv[OF assms])
  have L: "PRICE_LEVELS = 10001" by (simp add: PRICE_LEVELS_def PRICE_MAX_IDX_def)
  have len: "length (bk_bids b) = 10001" "length (bk_asks b) = 10001"
    and pos: "\<And>x. x \<in> set (bk_bids b) \<Longrightarrow> 0 \<le> x" "\<And>x. x \<in> set (bk_asks b) \<Longrightarrow> 0 \<le> x"
    and best: "bk_best_bid_idx b = first_pos (bk_bids b) (rev [0..<10001])"
      "bk_best_ask_idx b = first_pos (bk_asks b) [0..<10001]"
    using inv unfolding book_inv_def side_inv_def L by blast+
  have nz: "\<not> bk_bids b ! j > 0 \<longleftrightarrow> bk_bids b ! j = 0" "\<not> bk_asks b ! j > 0 \<longleftrightarrow> bk_asks b ! j = 0" if "j < 10001" for j
    using pos(1)[of "bk_bids b ! j"] pos(2)[of "bk_asks b ! j"] that len by auto
  have S: "{i<..10000} = {i<..<10001}" for i :: nat by auto
  have "bk_best_bid_idx b = Some i \<longleftrightarrow> i \<le> 10000 \<and> bk_bids b ! i > 0 \<and> (\<forall>j\<in>{i<..10000}. bk_bids b ! j = 0)"
    unfolding S using best(1) first_pos_rev[of "bk_bids b" 10001 i] nz(1) by auto
  moreover have "bk_best_ask_idx b = Some i \<longleftrightarrow> i \<le> 10000 \<and> bk_asks b ! i > 0 \<and> (\<forall>j\<in>{..<i}. bk_asks b ! j = 0)"
    using best(2) first_pos_upt[of "bk_asks b" 10001 i] nz(2) by auto
  moreover note book_counts[OF assms, THEN conjunct1] book_counts[OF assms, THEN conjunct2] len
  ultimately show ?thesis by (intro conjI) assumption+
qed

definition demo_book :: DenseBook where
  "demo_book = snd (apply_delta Ask (lit (7 / 10)) (lit 3) 7 (snd (apply_delta Bid (lit (1 / 2)) (lit 2) 5 book_default)))"

lemma demo_book_reach: "book_reach demo_book"
  unfolding demo_book_def by (intro book_reach.intros)

lemma demo_book_eval:
  "bk_bids demo_book = (replicate 10001 0)[5000 := 2000000]" "bk_asks demo_book = (replicate 10001 0)[7000 := 3000000]"
  by (simp_all add: demo_book_def apply_delta_def price_to_idx_def size_to_int_def PRICE_SCALE_def SIZE_SCALE_def
      PRICE_MAX_IDX_def f64_eval set_bid_def set_ask_def Let_def book_default_def PRICE_LEVELS_def)

theorem book_best_exact_witness:
  "bk_best_bid_idx demo_book = Some 5000 \<and> bk_best_ask_idx demo_book = Some 7000"
  using book_best_exact[OF demo_book_reach, of 5000] book_best_exact[OF demo_book_reach, of 7000]
  unfolding demo_book_eval by simp

lemma snapshot_agrees:
  fixes bids asks ts
  assumes "book_reach b"
  defines "b' \<equiv> snd (apply_snapshot (Some bids) (Some asks) ts b)"
  shows "snapshot_metrics bids asks =
    \<lparr>sn_best_bid_idx = bk_best_bid_idx b', sn_best_ask_idx = bk_best_ask_idx b', sn_topn_hash = topn_hash 20 b',
     sn_depth_top10 = unwrap_or (depth_top_n Bid 10 b') 0 + unwrap_or (depth_top_n Ask 10 b') 0\<rparr>"
proof -
  have inv: "book_inv b" by (rule book_reach_inv[OF assms(1)])
  then have inv': "book_inv b'" unfolding b'_def by (rule apply_snapshot_inv)
  have lv: "collect_top_levels bids Bid 20 = take 20 (book_levels Bid b')"
    "collect_top_levels asks Ask 20 = take 20 (book_levels Ask b')"
    unfolding b'_def by (rule snapshot_levels[OF inv, symmetric], simp)+
  have d: "sum_top_levels (take 20 (book_levels side b')) 10 = unwrap_or (depth_top_n side 10 b') 0" for side
    by (simp add: depth_top_n_levels[OF inv'] sum_top_levels_def unwrap_or_def)
  show ?thesis
    using best_idx_levels[OF inv', of 20 Bid] best_idx_levels[OF inv', of 20 Ask]
    by (simp add: snapshot_metrics_def Let_def lv d topn_hash_levels[OF inv'])
qed

text \<open>
  C15. A snapshot of both sides puts the book, whatever it held, into the state whose best prices,
  top-level hash and ten-level depth are those that \<open>snapshot_metrics\<close> computes from the message
  without a book, duplicates, unordered and invalid levels included.
\<close>

theorem snapshot_metrics_refine:
  assumes "book_reach b"
  shows "snapshot_metrics bids asks =
    (let b' = snd (apply_snapshot (Some bids) (Some asks) ts b) in
     \<lparr>sn_best_bid_idx = bk_best_bid_idx b', sn_best_ask_idx = bk_best_ask_idx b',
      sn_topn_hash = topn_hash 20 b',
      sn_depth_top10 = unwrap_or (depth_top_n Bid 10 b') 0 + unwrap_or (depth_top_n Ask 10 b') 0\<rparr>)"
  unfolding Let_def by (rule snapshot_agrees[OF assms])

theorem snapshot_metrics_refine_witness:
  "bk_best_bid_idx (snd (apply_snapshot (Some [\<lparr>bl_price = lit (1 / 2), bl_size = lit 2\<rparr>, \<lparr>bl_price = lit (3 / 5), bl_size = lit 1\<rparr>])
     (Some []) 9 demo_book)) = Some 6000"
proof -
  have "sn_best_bid_idx (snapshot_metrics [\<lparr>bl_price = lit (1 / 2), bl_size = lit 2\<rparr>, \<lparr>bl_price = lit (3 / 5), bl_size = lit 1\<rparr>] [])
      = Some 6000"
    by (simp add: snapshot_metrics_def collect_top_levels_def collect_level_def top_insert_def price_to_idx_def
        size_to_int_def PRICE_SCALE_def SIZE_SCALE_def PRICE_MAX_IDX_def f64_eval Let_def first_idx_def)
  then show ?thesis unfolding snapshot_metrics_refine[OF demo_book_reach, where ts = 9] by (simp add: Let_def)
qed

subsection \<open>Round trips\<close>

text \<open>Dividing an integer by a scale and multiplying again, each rounded, comes back to the integer.\<close>

lemma scaled_roundtrip:
  fixes n s :: int
  assumes n: "1 \<le> n" "n \<le> 2 ^ 50" and s: "1 \<le> s" "s \<le> 2 ^ 20"
  defines "q \<equiv> rndq (of_int n / of_int s)"
  shows "rnd_away (rndq (q * of_int s)) = n" "0 < q" "q \<le> 2 ^ 50" "0 < rndq (q * of_int s)" "rndq (q * of_int s) \<le> 2 ^ 51"
proof -
  define t :: rat where "t = of_int n / of_int s"
  have nr: "1 \<le> (of_int n :: rat)" "of_int n \<le> (2 ^ 50 :: rat)" using n of_int_le_iff[of n "2 ^ 50", where ?'a = rat] of_int_le_iff[of 1 n, where ?'a = rat] by simp_all
  have sr: "1 \<le> (of_int s :: rat)" "of_int s \<le> (2 ^ 20 :: rat)" using s of_int_le_iff[of s "2 ^ 20", where ?'a = rat] of_int_le_iff[of 1 s, where ?'a = rat] by simp_all
  have t: "t * of_int s = of_int n" "0 < t" using sr nr by (simp_all add: t_def)
  have "(1 :: rat) / 2 ^ 20 \<le> t" using nr sr by (simp add: t_def frac_le)
  moreover have "(2 :: rat) powi (-1022) \<le> 1 / 2 ^ 20" by (simp add: power_int_minus field_simps)
  ultimately have "2 powi (-1022) \<le> \<bar>t\<bar>" using t(2) by simp
  from rndq_error[OF this] have e: "\<bar>q - t\<bar> \<le> t * 2 powi (-53)" using t(2) by (simp add: q_def t_def[symmetric])
  have "\<bar>q * of_int s - of_int n\<bar> = \<bar>q - t\<bar> * of_int s"
    using sr(1) by (simp add: t(1)[symmetric] left_diff_distrib[symmetric] abs_mult)
  also have "\<dots> \<le> t * 2 powi (-53) * of_int s" using e sr(1) by (intro mult_right_mono) auto
  also have "\<dots> = of_int n * 2 powi (-53)" using t(1) by (simp add: mult.commute mult.left_commute)
  also have "\<dots> \<le> 2 ^ 50 * 2 powi (-53)" using nr(2) by (intro mult_right_mono) auto
  also have "\<dots> \<le> 1 / 4" by (simp add: power_int_minus)
  finally have "of_int n - 1 / 4 \<le> q * of_int s" "q * of_int s \<le> of_int n + 1 / 4"
    unfolding abs_le_iff by linarith+
  then have "of_int (4 * n - 1) * 2 powi (-2) \<le> q * of_int s" "q * of_int s \<le> of_int (4 * n + 1) * 2 powi (-2)"
    by (simp_all add: power_int_minus)
  then have m: "rndq (of_int (4 * n - 1) * 2 powi (-2)) \<le> rndq (q * of_int s)"
    "rndq (q * of_int s) \<le> rndq (of_int (4 * n + 1) * 2 powi (-2))" by (simp_all only: rndq_mono)
  have R: "rndq (of_int m * 2 powi (-2)) = of_int m * 2 powi (-2)" if "\<bar>m\<bar> \<le> 2 ^ 53" for m
    by (rule rndq_repr) (unfold repr_def, use that in \<open>intro exI[of _ m] exI[of _ "-2"], simp\<close>)
  have "\<bar>4 * n - 1\<bar> \<le> 2 ^ 53" "\<bar>4 * n + 1\<bar> \<le> 2 ^ 53" using n by simp_all
  from m[unfolded this[THEN R]] have b: "of_int n - 1 / 4 \<le> rndq (q * of_int s)" "rndq (q * of_int s) \<le> of_int n + 1 / 4"
    by (simp_all add: power_int_minus)
  then show "0 < rndq (q * of_int s)" "rndq (q * of_int s) \<le> 2 ^ 51" using nr by simp_all
  then have "\<lfloor>rndq (q * of_int s) + 1 / 2\<rfloor> = n" using b by linarith
  then show "rnd_away (rndq (q * of_int s)) = n" using \<open>0 < rndq (q * of_int s)\<close> by (simp add: rnd_away_def)
  have "t * 2 powi (-53) \<le> t / 2" using t(2) by (simp add: power_int_minus)
  with e have "t - q \<le> t / 2" unfolding abs_le_iff by linarith
  then show "0 < q" using t(2) by linarith
  have "t \<le> 2 ^ 50" using nr sr by (simp add: t_def divide_le_eq)
  then have "q \<le> rndq (of_int (2 ^ 50))" unfolding q_def t_def[symmetric] by (intro rndq_mono) simp
  then show "q \<le> 2 ^ 50" using rndq_of_int[of "2 ^ 50"] by simp
qed

lemma f64_scaled_roundtrip:
  assumes n: "0 \<le> n" "n \<le> 2 ^ 50" and s: "1 \<le> s" "s \<le> 2 ^ 20"
  shows "is_finite (f64_of_int n / Fin (of_int s)) \<and>
    f64_to_i64 (f64_round (f64_of_int n / Fin (of_int s) * Fin (of_int s))) = n"
proof (cases "n = 0")
  case True
  then show ?thesis using s rnd_away_of_int[of 0]
    by (simp add: f64_of_int_def f64_to_i64_def divide_f64_def times_f64_def signed_int_def sat_def rnd_zero_def)
next
  case False
  define q where "q = rndq (of_int n / of_int s)"
  define r where "r = rndq (q * of_int s)"
  have rt: "rnd_away r = n" "0 < q" "q \<le> 2 ^ 50" "0 < r" "r \<le> 2 ^ 51"
    using scaled_roundtrip[of n s] n s False unfolding q_def r_def by simp_all
  have lim: "(2::rat) ^ 51 < f64_limit" "(2::rat) ^ 50 < f64_limit" by (simp_all add: f64_limit_def)
  have "f64_of_int n = Fin (of_int n)" using n by (intro f64_of_int_Fin) simp
  moreover have "Fin (of_int n) / Fin (of_int s) = Fin q"
    using rt lim s False by (simp add: divide_f64_def rnd_def q_def[symmetric])
  moreover have "Fin q * Fin (of_int s) = Fin r"
    using rt lim by (simp add: times_f64_def rnd_def r_def[symmetric])
  moreover have "f64_to_i64 (f64_round (Fin r)) = n"
    using rt n False by (simp add: f64_to_i64_def signed_int_def sat_def)
  ultimately show ?thesis by simp
qed

text \<open>
  Every price index survives the conversion to a price and back, and so does every size up to
  2^50 millionths: the price and size grids are represented faithfully in binary64.
\<close>

theorem price_size_roundtrip:
  assumes "i \<le> 10000" "0 \<le> v" "v \<le> 2 ^ 50"
  shows "price_to_idx (idx_to_price i) = Some i \<and> size_to_int (size_to_float v) = Some v"
proof -
  have lits: "PRICE_SCALE = Fin (of_int 10000)" "SIZE_SCALE = Fin (of_int 1000000)"
    by (simp_all add: PRICE_SCALE_def SIZE_SCALE_def f64_eval)
  have "price_to_idx (idx_to_price i) = Some i"
    using f64_scaled_roundtrip[of "int i" 10000] assms(1)
    by (simp add: price_to_idx_def idx_to_price_def lits PRICE_MAX_IDX_def Let_def)
  moreover have "size_to_int (size_to_float v) = Some v"
    using f64_scaled_roundtrip[of v 1000000] assms(2,3) by (simp add: size_to_int_def size_to_float_def lits)
  ultimately show ?thesis by simp
qed

theorem price_size_roundtrip_witness:
  "price_to_idx (idx_to_price 3333) = Some 3333 \<and> size_to_int (size_to_float 1234567) = Some 1234567"
  using price_size_roundtrip[of 3333 1234567] by simp

end
