(* ===== verification/Bars.thy ===== *)
theory Bars
  imports Models Shock
begin

text \<open>
  The rows that the shard worker emits, of \<open>src/models.rs\<close> and \<open>src/pair_aggregator.rs\<close>: the bar of a
  token and second, the resynchronisation log, shock events and the inputs of the pair aggregator.
\<close>

record Bars1sToken =
  br_venue :: Venue
  br_token_key :: string
  br_token_side :: TokenSide
  br_bar_second :: int
  br_exchange_ts_source :: ExchangeTsSource
  br_venue_p50 :: "int option"
  br_venue_p90 :: "int option"
  br_venue_p99 :: "int option"
  br_venue_max :: "int option"
  br_est_p50 :: "int option"
  br_est_p90 :: "int option"
  br_est_p99 :: "int option"
  br_est_max :: "int option"
  br_health_flags :: int
  br_gap_flag :: int
  br_stale_flag :: int
  br_staleness_ms :: "millis option"
  br_event_count_1s :: int
  br_ts_missing_count_1s :: int
  br_ts_anomaly_count_1s :: int
  br_book_resync_flag :: int
  br_best_bid_px :: "f64 option"
  br_best_ask_px :: "f64 option"
  br_mid_px :: "f64 option"
  br_best_bid_px_state :: "f64 option"
  br_best_ask_px_state :: "f64 option"
  br_mid_px_state :: "f64 option"
  br_last_price :: "f64 option"
  br_micro_px :: "f64 option"
  br_spread_px :: "f64 option"
  br_tick_px :: "f64 option"
  br_spread_ticks :: "int option"
  br_top3_bid :: "f64 option"
  br_top3_ask :: "f64 option"
  br_bid_l1 :: "f64 option"
  br_bid_l2 :: "f64 option"
  br_bid_l3 :: "f64 option"
  br_ask_l1 :: "f64 option"
  br_ask_l2 :: "f64 option"
  br_ask_l3 :: "f64 option"
  br_top10_bid :: "f64 option"
  br_top10_ask :: "f64 option"
  br_depth_1pct_bid :: "f64 option"
  br_depth_1pct_ask :: "f64 option"
  br_imbalance_top10 :: "f64 option"
  br_air_bid_ticks :: "int option"
  br_air_ask_ticks :: "int option"
  br_book_updates_1s :: int
  br_add_updates_1s :: int
  br_cancel_updates_1s :: int
  br_match_updates_1s :: int
  br_remove_unknown_updates_1s :: int
  br_trade_count_1s :: int
  br_volume_shares_1s :: f64
  br_volume_notional_1s :: f64
  br_vwap_1s :: "f64 option"
  br_buy_notional_1s :: f64
  br_sell_notional_1s :: f64
  br_cvd_delta_1s :: f64
  br_trade_side_missing_count_1s :: int
  br_ofi_1s :: f64
  br_ofi_250ms :: f64
  br_bid_delta_250ms :: f64
  br_ask_delta_250ms :: f64
  br_mid_slope_250ms :: "f64 option"
  br_ofi_10s :: "f64 option"
  br_ofi_z_30s :: "f64 option"
  br_levels_crossed_1s :: int
  br_max_trade_notional_1s :: f64
  br_buy_notional_250ms :: f64
  br_sell_notional_250ms :: f64
  br_max_trade_notional_250ms :: f64
  br_depth_withdrawal_ratio :: "f64 option"
  br_liquidity_pull_flag :: int
  br_venue_book_hash :: "string option"
  br_local_topn_hash :: "string option"

record ResyncLog =
  rl_venue :: Venue
  rl_token_key :: string
  rl_reason :: string
  rl_trigger_local_ts_ms :: millis
  rl_trigger_exchange_ts_ms :: "millis option"
  rl_venue_hash_before :: "string option"
  rl_venue_hash_after :: "string option"
  rl_local_topn_hash_before :: "string option"
  rl_local_topn_hash_after :: "string option"

datatype ShockStatus = StatusPending | StatusFinal

fun shock_status_str :: "ShockStatus \<Rightarrow> string" where
  "shock_status_str StatusPending = ''PENDING''"
| "shock_status_str StatusFinal = ''FINAL''"

record ShockEvent =
  ev_shock_id :: int
  ev_token_key :: string
  ev_pair_id :: "int option"
  ev_token_side :: TokenSide
  ev_shock_type :: ShockType
  ev_direction :: int
  ev_noise_flag :: int
  ev_start_ts_ms :: millis
  ev_trigger_ts_ms :: millis
  ev_peak_ts_ms :: millis
  ev_magnitude :: f64
  ev_context :: "Ctx option"
  ev_obs_latency_ms :: "int option"
  ev_health_flags :: int
  ev_status :: ShockStatus
  ev_peak_finalized :: int

record ShockEventUpdate =
  eu_shock_id :: int
  eu_start_ts_ms :: millis
  eu_peak_ts_ms :: millis
  eu_magnitude :: f64
  eu_context :: "Ctx option"
  eu_direction :: int
  eu_noise_flag :: int
  eu_status :: ShockStatus
  eu_peak_finalized :: int

record PairInput =
  pi_pair_id :: int
  pi_token_side :: TokenSide
  pi_bar_second :: int
  pi_venue :: Venue
  pi_token_key :: string
  pi_best_bid :: "f64 option"
  pi_best_ask :: "f64 option"
  pi_mid :: "f64 option"
  pi_best_bid_state :: "f64 option"
  pi_best_ask_state :: "f64 option"
  pi_mid_state :: "f64 option"
  pi_last_price :: "f64 option"
  pi_micro :: "f64 option"
  pi_staleness_ms :: "millis option"
  pi_bar_gap_flag :: bool
  pi_bar_stale_flag :: bool
  pi_spread :: "f64 option"
  pi_top10_depth_bid :: "f64 option"
  pi_top10_depth_ask :: "f64 option"
  pi_bid_l1_notional :: "f64 option"
  pi_bid_l2_notional :: "f64 option"
  pi_bid_l3_notional :: "f64 option"
  pi_ask_l1_notional :: "f64 option"
  pi_ask_l2_notional :: "f64 option"
  pi_ask_l3_notional :: "f64 option"
  pi_volume_notional_1s :: f64
  pi_cvd_delta_1s :: f64
  pi_buy_notional_1s :: f64
  pi_sell_notional_1s :: f64
  pi_ofi_250ms :: f64
  pi_bid_delta_notional_250ms :: f64
  pi_ask_delta_notional_250ms :: f64
  pi_mid_slope_250ms :: "f64 option"
  pi_buy_notional_250ms :: f64
  pi_sell_notional_250ms :: f64
  pi_max_trade_notional_250ms :: f64
  pi_max_trade_notional_1s :: f64
  pi_liquidity_pull_flag :: int
  pi_depth_withdrawal_ratio :: "f64 option"
  pi_obs_latency_p99_ms :: "int option"

record ShockInput =
  si_shock_id :: int
  si_pair_id :: int
  si_token_side :: TokenSide
  si_trigger_bar_second :: int
  si_shock_type :: ShockType
  si_direction :: int
  si_magnitude :: f64
  si_noise_flag :: int
  si_obs_latency_poly_p99_ms :: "int option"

datatype PairMessage = TokenBar PairInput | PairTick int | PairShock ShockInput

end
