(* ===== verification/Token.thy ===== *)
theory Token
  imports Bars Book
begin

text \<open>
  The state of one token in a shard worker (\<open>src/shard.rs\<close>): the accumulators of the open seconds,
  the 250 ms windows, the order book with its wall-pull check, and the checks that order a
  resynchronisation. The latency histogram is a third-party type: here it is the list of the recorded
  values, and its quantiles and maximum are parameters. Log output is left out.
\<close>

definition OFI_FAST_WINDOW_MS :: int where "OFI_FAST_WINDOW_MS = 250"
definition HEALTH_WS_CONNECTED :: int where "HEALTH_WS_CONNECTED = 1"
definition HEALTH_HEARTBEAT_OK :: int where "HEALTH_HEARTBEAT_OK = 2"
definition HEALTH_RESYNC_RECENT :: int where "HEALTH_RESYNC_RECENT = 4"
definition HEALTH_EVENT_DROP :: int where "HEALTH_EVENT_DROP = 8"
definition OPI_RESYNC_DEPTH_RATIO :: f64 where "OPI_RESYNC_DEPTH_RATIO = lit (5 / 100)"
definition LATE_EVENT_BUFFER_SECS :: int where "LATE_EVENT_BUFFER_SECS = 2"

record ShardConfig =
  cf_pm_staleness_ms :: int
  cf_other_staleness_ms :: int
  cf_hard_clear_ms :: int
  cf_alpha_capture_enabled :: bool

subsection \<open>Latency histograms, windows and sums\<close>

type_synonym LatencyHistogram = "int list option"

definition lat_record :: "int \<Rightarrow> LatencyHistogram \<Rightarrow> LatencyHistogram" where
  "lat_record value h = Some (unwrap_or h [] @ [value])"

type_synonym Quantiles = "int option \<times> int option \<times> int option \<times> int option"

definition lat_snapshot :: "(int list \<Rightarrow> f64 \<Rightarrow> int) \<Rightarrow> (int list \<Rightarrow> int) \<Rightarrow> LatencyHistogram \<Rightarrow> Quantiles" where
  "lat_snapshot hq hmax h =
    (case h of
       None \<Rightarrow> (None, None, None, None)
     | Some hist \<Rightarrow>
         if hist = [] then (None, None, None, None)
         else (Some (hq hist (lit (50 / 100))), Some (hq hist (lit (90 / 100))),
               Some (hq hist (lit (99 / 100))), Some (hmax hist)))"

definition shard_rw_push :: "f64 \<Rightarrow> RollingWindow \<Rightarrow> RollingWindow" where
  "shard_rw_push value w =
    (let values = (if length (rw_values w) \<ge> rw_max_len w then tl (rw_values w) else rw_values w)
     in w\<lparr>rw_values := values @ [value]\<rparr>)"

definition shard_quantile :: "RollingWindow \<Rightarrow> f64 \<Rightarrow> f64 option" where
  "shard_quantile w q =
    (if rw_values w = [] then None
     else get (sort_f64 (rw_values w)) (rank_idx (length (rw_values w)) q))"

definition sum_last_f64 :: "f64 list \<Rightarrow> nat \<Rightarrow> f64 option" where
  "sum_last_f64 values count =
    (if values = [] then None else Some (foldl (+) 0 (take (max 1 count) (rev values))))"

definition zscore_from_window :: "f64 list \<Rightarrow> f64 \<Rightarrow> f64 option" where
  "zscore_from_window values latest =
    (if length values < 2 then None
     else let n = f64_of_int (int (length values));
              mean = foldl (+) 0 values / n;
              var = foldl (\<lambda>var value. var + (value - mean) * (value - mean)) 0 values;
              std = f64_sqrt (var / n)
          in if std \<le> 0 then None else Some ((latest - mean) / std))"

subsection \<open>The accumulator of a second\<close>

record SecondAccumulator =
  ac_event_count :: int
  ac_critical_event_count :: int
  ac_book_updates :: int
  ac_add_updates :: int
  ac_cancel_updates :: int
  ac_match_updates :: int
  ac_remove_unknown_updates :: int
  ac_trade_count :: int
  ac_volume_shares :: f64
  ac_volume_notional :: f64
  ac_buy_notional :: f64
  ac_sell_notional :: f64
  ac_cvd_delta :: f64
  ac_trade_side_missing :: int
  ac_ofi :: f64
  ac_ofi_250ms :: f64
  ac_bid_delta_250ms :: f64
  ac_ask_delta_250ms :: f64
  ac_mid_slope_250ms :: "f64 option"
  ac_levels_crossed :: int
  ac_depth_withdrawal_ratio :: "f64 option"
  ac_max_trade_notional :: f64
  ac_buy_notional_250ms :: f64
  ac_sell_notional_250ms :: f64
  ac_max_trade_notional_250ms :: f64
  ac_wall_pull_signal :: "WallPullSignal option"
  ac_ts_missing :: int
  ac_ts_anomaly :: int
  ac_venue_ws_count :: int
  ac_venue_rest_count :: int
  ac_est_count :: int
  ac_fallback_count :: int
  ac_venue_latency :: LatencyHistogram
  ac_est_latency :: LatencyHistogram

definition acc_default :: SecondAccumulator where
  "acc_default = \<lparr>ac_event_count = 0, ac_critical_event_count = 0, ac_book_updates = 0, ac_add_updates = 0,
     ac_cancel_updates = 0, ac_match_updates = 0, ac_remove_unknown_updates = 0, ac_trade_count = 0,
     ac_volume_shares = 0, ac_volume_notional = 0, ac_buy_notional = 0, ac_sell_notional = 0,
     ac_cvd_delta = 0, ac_trade_side_missing = 0, ac_ofi = 0, ac_ofi_250ms = 0, ac_bid_delta_250ms = 0,
     ac_ask_delta_250ms = 0, ac_mid_slope_250ms = None, ac_levels_crossed = 0,
     ac_depth_withdrawal_ratio = None, ac_max_trade_notional = 0, ac_buy_notional_250ms = 0,
     ac_sell_notional_250ms = 0, ac_max_trade_notional_250ms = 0, ac_wall_pull_signal = None,
     ac_ts_missing = 0, ac_ts_anomaly = 0, ac_venue_ws_count = 0, ac_venue_rest_count = 0,
     ac_est_count = 0, ac_fallback_count = 0, ac_venue_latency = None, ac_est_latency = None\<rparr>"

definition record_latency :: "ExchangeTsSource \<Rightarrow> millis \<Rightarrow> millis \<Rightarrow> SecondAccumulator \<Rightarrow> SecondAccumulator" where
  "record_latency source local_ts_ms exchange_ts_ms acc =
    (let acc = acc\<lparr>ac_event_count := ac_event_count acc + 1\<rparr>;
         latency = max (local_ts_ms - exchange_ts_ms) 0
     in case source of
          VenueWs \<Rightarrow> acc\<lparr>ac_venue_latency := lat_record latency (ac_venue_latency acc),
            ac_venue_ws_count := ac_venue_ws_count acc + 1\<rparr>
        | VenueRest \<Rightarrow> acc\<lparr>ac_venue_latency := lat_record latency (ac_venue_latency acc),
            ac_venue_rest_count := ac_venue_rest_count acc + 1\<rparr>
        | Estimated \<Rightarrow> acc\<lparr>ac_est_latency := lat_record latency (ac_est_latency acc),
            ac_est_count := ac_est_count acc + 1\<rparr>
        | LocalFallback \<Rightarrow> acc\<lparr>ac_fallback_count := ac_fallback_count acc + 1\<rparr>)"

definition vwap :: "SecondAccumulator \<Rightarrow> f64 option" where
  "vwap acc = (if ac_volume_shares acc \<le> 0 then None
     else Some (ac_volume_notional acc / ac_volume_shares acc))"

definition dominant_source :: "SecondAccumulator \<Rightarrow> ExchangeTsSource" where
  "dominant_source acc =
    (let best = LocalFallback; best_count = ac_fallback_count acc;
         (best, best_count) = (if ac_est_count acc > best_count then (Estimated, ac_est_count acc) else (best, best_count));
         (best, best_count) = (if ac_venue_rest_count acc > best_count then (VenueRest, ac_venue_rest_count acc)
           else (best, best_count))
     in if ac_venue_ws_count acc > best_count then VenueWs else best)"

subsection \<open>The state of a token\<close>

record TokenState =
  ts_venue :: Venue
  ts_token_side :: TokenSide
  ts_orderbook :: DenseBook
  ts_accumulators :: "int \<rightharpoonup> SecondAccumulator"
  ts_watermark_second :: int
  ts_last_flushed_second :: int
  ts_last_event_local_ts_ms :: millis
  ts_last_price :: "f64 option"
  ts_prev_best_bid_px :: "f64 option"
  ts_prev_best_ask_px :: "f64 option"
  ts_prev_best_bid_sz :: "f64 option"
  ts_prev_best_ask_sz :: "f64 option"
  ts_prev_top10_bid :: "f64 option"
  ts_prev_top10_ask :: "f64 option"
  ts_last_bbo_bid_px :: "f64 option"
  ts_last_bbo_ask_px :: "f64 option"
  ts_bid_delta_window :: "(millis \<times> f64) list"
  ts_ask_delta_window :: "(millis \<times> f64) list"
  ts_mid_window :: "(millis \<times> f64) list"
  ts_trade_window :: "(millis \<times> f64 \<times> BookSide) list"
  ts_book_initialized :: bool
  ts_last_resync_bar_second :: "int option"
  ts_last_venue_hash :: "string option"
  ts_last_local_topn_hash :: "string option"
  ts_resync_needed :: bool
  ts_last_drop_count :: int
  ts_pending_shocks :: "int \<times> ShockType \<times> millis \<rightharpoonup> int"
  ts_cancel_ratio_window :: RollingWindow
  ts_ofi_history :: "f64 list"
  ts_ofi_window :: "(millis \<times> f64) list"
  ts_shock_engine :: "ShockEngine option"

definition token_new :: "millis \<Rightarrow> Venue \<Rightarrow> TokenSide \<Rightarrow> int \<Rightarrow> TokenState" where
  "token_new now venue token_side initial_bar_second =
    (let initial = (if initial_bar_second > 0 then initial_bar_second else 0)
     in \<lparr>ts_venue = venue, ts_token_side = token_side, ts_orderbook = book_default,
         ts_accumulators = Map.empty, ts_watermark_second = initial,
         ts_last_flushed_second = i64_sat (initial - 1), ts_last_event_local_ts_ms = now,
         ts_last_price = None, ts_prev_best_bid_px = None, ts_prev_best_ask_px = None,
         ts_prev_best_bid_sz = None, ts_prev_best_ask_sz = None, ts_prev_top10_bid = None,
         ts_prev_top10_ask = None, ts_last_bbo_bid_px = None, ts_last_bbo_ask_px = None,
         ts_bid_delta_window = [], ts_ask_delta_window = [], ts_mid_window = [], ts_trade_window = [],
         ts_book_initialized = False, ts_last_resync_bar_second = None, ts_last_venue_hash = None,
         ts_last_local_topn_hash = None, ts_resync_needed = False, ts_last_drop_count = 0,
         ts_pending_shocks = Map.empty, ts_cancel_ratio_window = rw_new 21600, ts_ofi_history = [],
         ts_ofi_window = [],
         ts_shock_engine = (if venue = Polymarket then Some shock_engine_new else None)\<rparr>)"

text \<open>\<open>accumulator_mut\<close>: the accumulator of a second, created when missing, updated in place.\<close>

definition accumulator_mut :: "int \<Rightarrow> (SecondAccumulator \<Rightarrow> SecondAccumulator) \<Rightarrow> TokenState \<Rightarrow> TokenState" where
  "accumulator_mut bar_second f s =
    s\<lparr>ts_accumulators := (ts_accumulators s)(bar_second \<mapsto> f (unwrap_or (ts_accumulators s bar_second) acc_default))\<rparr>"

definition update_bbo :: "f64 option \<Rightarrow> f64 option \<Rightarrow> TokenState \<Rightarrow> TokenState" where
  "update_bbo best_bid best_ask s =
    (let s = (case best_bid of
           Some b \<Rightarrow> if price_to_idx b \<noteq> None then s\<lparr>ts_last_bbo_bid_px := Some b\<rparr> else s | None \<Rightarrow> s)
     in case best_ask of
          Some a \<Rightarrow> if price_to_idx a \<noteq> None then s\<lparr>ts_last_bbo_ask_px := Some a\<rparr> else s | None \<Rightarrow> s)"

text \<open>The pruning loop of the four 250 ms windows, and the sum over one.\<close>

definition prune :: "millis \<Rightarrow> (millis \<times> 'a) list \<Rightarrow> (millis \<times> 'a) list" where
  "prune cutoff w = dropWhile (\<lambda>(ts, _). ts < cutoff) w"

definition win_sum :: "(millis \<times> f64) list \<Rightarrow> f64" where
  "win_sum w = foldl (\<lambda>sum (_, val). sum + val) 0 w"

definition flow_component :: "bool \<Rightarrow> bool \<Rightarrow> f64 \<Rightarrow> f64 \<Rightarrow> f64" where
  "flow_component better worse sz prev_sz = (if better then sz else if worse then - prev_sz else sz - prev_sz)"

definition crossed :: "f64 option \<Rightarrow> f64 \<Rightarrow> f64 \<Rightarrow> f64 \<Rightarrow> f64 \<Rightarrow> int" where
  "crossed tick_px bid_px prev_bid_px ask_px prev_ask_px =
    (case tick_px of
       None \<Rightarrow> 0
     | Some tick \<Rightarrow>
         if tick > 0 then
           max (f64_to_i64 (f64_floor \<bar>(bid_px - prev_bid_px) / tick\<bar>))
               (f64_to_i64 (f64_floor \<bar>(ask_px - prev_ask_px) / tick\<bar>))
         else 0)"

text \<open>The two halves of \<open>update_ofi_and_levels\<close>: the order flow against the previous best levels, and
  the slope of the mid price.\<close>

definition update_ofi :: "int \<Rightarrow> millis \<Rightarrow> f64 \<Rightarrow> f64 \<Rightarrow> f64 \<Rightarrow> f64 \<Rightarrow> TokenState \<Rightarrow> TokenState" where
  "update_ofi bar_second event_ts_ms bid_px bid_sz ask_px ask_sz s =
    (case (ts_prev_best_bid_px s, ts_prev_best_ask_px s, ts_prev_best_bid_sz s, ts_prev_best_ask_sz s) of
       (Some prev_bid_px, Some prev_ask_px, Some prev_bid_sz, Some prev_ask_sz) \<Rightarrow>
         let bid_component = flow_component (bid_px > prev_bid_px) (bid_px < prev_bid_px) bid_sz prev_bid_sz;
             ask_component = flow_component (ask_px < prev_ask_px) (ask_px > prev_ask_px) ask_sz prev_ask_sz;
             ofi_delta = bid_component * bid_px - ask_component * ask_px;
             w = (if \<bar>ofi_delta\<bar> > 0 then ts_ofi_window s @ [(event_ts_ms, ofi_delta)] else ts_ofi_window s);
             w = prune (event_ts_ms - OFI_FAST_WINDOW_MS) w;
             ofi_fast = win_sum w;
             levels_crossed = crossed (bk_tick_px (ts_orderbook s)) bid_px prev_bid_px ask_px prev_ask_px
         in accumulator_mut bar_second (\<lambda>acc. acc\<lparr>ac_ofi := ac_ofi acc + ofi_delta, ac_ofi_250ms := ofi_fast,
              ac_levels_crossed := ac_levels_crossed acc + levels_crossed\<rparr>) (s\<lparr>ts_ofi_window := w\<rparr>)
     | _ \<Rightarrow> s)"

definition update_mid :: "int \<Rightarrow> millis \<Rightarrow> f64 \<Rightarrow> f64 \<Rightarrow> TokenState \<Rightarrow> TokenState" where
  "update_mid bar_second event_ts_ms bid_px ask_px s =
    (let mid = (bid_px + ask_px) * lit (1 / 2);
         w = prune (event_ts_ms - OFI_FAST_WINDOW_MS) (ts_mid_window s @ [(event_ts_ms, mid)]);
         mid_slope = (case w of
             (ts, mid_then) # _ \<Rightarrow>
               if event_ts_ms > ts then
                 Some ((mid - mid_then) / (f64_of_int (max (event_ts_ms - ts) 1) / lit 1000))
               else None
           | [] \<Rightarrow> None)
     in accumulator_mut bar_second (\<lambda>acc. acc\<lparr>ac_mid_slope_250ms := mid_slope\<rparr>) (s\<lparr>ts_mid_window := w\<rparr>))"

definition update_ofi_and_levels :: "int \<Rightarrow> millis \<Rightarrow> TokenState \<Rightarrow> TokenState" where
  "update_ofi_and_levels bar_second event_ts_ms s =
    (case best_bid_ask_size (ts_orderbook s) of
       (Some bid_px, Some bid_sz, Some ask_px, Some ask_sz) \<Rightarrow>
         (update_mid bar_second event_ts_ms bid_px ask_px
            (update_ofi bar_second event_ts_ms bid_px bid_sz ask_px ask_sz s))
         \<lparr>ts_prev_best_bid_px := Some bid_px, ts_prev_best_ask_px := Some ask_px,
          ts_prev_best_bid_sz := Some bid_sz, ts_prev_best_ask_sz := Some ask_sz\<rparr>
     | _ \<Rightarrow> s)"

definition signed_notional :: "DeltaType \<Rightarrow> f64 \<Rightarrow> f64" where
  "signed_notional delta_type notional =
    (case delta_type of
       AddDelta \<Rightarrow> notional | AddOrUpdate \<Rightarrow> notional
     | CancelDelta \<Rightarrow> - notional | MatchDelta \<Rightarrow> - notional
     | UnknownDelta \<Rightarrow> 0)"

definition update_bid_ask_delta :: "int \<Rightarrow> millis \<Rightarrow> BookSide \<Rightarrow> DeltaType \<Rightarrow> f64 \<Rightarrow> f64 \<Rightarrow> TokenState \<Rightarrow> TokenState" where
  "update_bid_ask_delta bar_second event_ts_ms side delta_type price sz s =
    (if price \<le> 0 \<or> sz \<le> 0 then s
     else
       let signed = signed_notional delta_type (price * sz) in
       if \<bar>signed\<bar> \<le> 0 then s
       else
         let cutoff = event_ts_ms - OFI_FAST_WINDOW_MS;
             s = (case side of
                 Bid \<Rightarrow> s\<lparr>ts_bid_delta_window := prune cutoff (ts_bid_delta_window s @ [(event_ts_ms, signed)])\<rparr>
               | Ask \<Rightarrow> s\<lparr>ts_ask_delta_window := prune cutoff (ts_ask_delta_window s @ [(event_ts_ms, signed)])\<rparr>);
             bid_sum = win_sum (ts_bid_delta_window s); ask_sum = win_sum (ts_ask_delta_window s)
         in accumulator_mut bar_second
              (\<lambda>acc. acc\<lparr>ac_bid_delta_250ms := bid_sum, ac_ask_delta_250ms := ask_sum\<rparr>) s)"

definition update_trade_window :: "int \<Rightarrow> millis \<Rightarrow> BookSide \<Rightarrow> f64 \<Rightarrow> TokenState \<Rightarrow> TokenState" where
  "update_trade_window bar_second event_ts_ms side notional s =
    (if notional \<le> 0 then s
     else
       let w = prune (event_ts_ms - OFI_FAST_WINDOW_MS) (ts_trade_window s @ [(event_ts_ms, notional, side)]);
           (buy_sum, sell_sum, max_trade) =
             foldl (\<lambda>(buy, sell, mx) (_, value, trade_side).
                let mx = (if value > mx then value else mx)
                in if trade_side = Bid then (buy + value, sell, mx) else (buy, sell + value, mx)) (0, 0, 0) w
       in accumulator_mut bar_second
            (\<lambda>acc. acc\<lparr>ac_buy_notional_250ms := buy_sum, ac_sell_notional_250ms := sell_sum,
               ac_max_trade_notional_250ms := max_trade\<rparr>) (s\<lparr>ts_trade_window := w\<rparr>))"

subsection \<open>Wall pulls\<close>

definition check_wall_pull :: "BookSide \<Rightarrow> f64 \<Rightarrow> f64 \<Rightarrow> DenseBook \<Rightarrow> WallPullSignal option" where
  "check_wall_pull side price new_size b =
    (case bk_tick_px b of
       None \<Rightarrow> None
     | Some tick \<Rightarrow>
         if tick \<le> 0 then None
         else (case (case side of Bid \<Rightarrow> fst (best_bid_ask b) | Ask \<Rightarrow> snd (best_bid_ask b)) of
             None \<Rightarrow> None
           | Some touch \<Rightarrow>
               if \<bar>price - touch\<bar> > lit 2 * tick then None
               else
                 let prev_size = size_at side price b in
                 if prev_size \<le> 0 then None
                 else if new_size > prev_size * lit (1 / 10) then None
                 else (case median_size_top_n side 10 b of
                     None \<Rightarrow> None
                   | Some median \<Rightarrow>
                       if median \<le> 0 then None
                       else if prev_size < lit 10 * median then None
                       else Some \<lparr>wp_side = side, wp_price = price, wp_size_before = prev_size,
                              wp_pull_ratio = (prev_size - new_size) / prev_size\<rparr>)))"

subsection \<open>Resynchronisation\<close>

definition mark_resync :: "int \<Rightarrow> TokenState \<Rightarrow> TokenState" where
  "mark_resync bar_second s = s\<lparr>ts_last_resync_bar_second := Some bar_second\<rparr>"

definition depth_mismatch :: "f64 \<Rightarrow> f64 \<Rightarrow> bool" where
  "depth_mismatch local_depth snap_depth =
    (if local_depth > 0 \<and> snap_depth > 0 then
       \<bar>snap_depth - local_depth\<bar> / f64_max local_depth (lit (1 / 1000000000)) \<ge> OPI_RESYNC_DEPTH_RATIO
     else (local_depth > 0) \<noteq> (snap_depth > 0))"

definition check_opinion_snapshot_drift :: "Event \<Rightarrow> TokenState \<Rightarrow> ResyncLog option" where
  "check_opinion_snapshot_drift event s =
    (case (p_bids (e_payload event), p_asks (e_payload event)) of
       (Some bids, Some asks) \<Rightarrow>
         let b = ts_orderbook s;
             local_hash = topn_hash 20 b;
             local_depth = unwrap_or (depth_top_n Bid 10 b) 0 + unwrap_or (depth_top_n Ask 10 b) 0;
             m = snapshot_metrics bids asks;
             mismatch = (bk_best_bid_idx b \<noteq> sn_best_bid_idx m \<or> bk_best_ask_idx b \<noteq> sn_best_ask_idx m \<or>
               depth_mismatch local_depth (sn_depth_top10 m) \<or>
               (case (local_hash, sn_topn_hash m) of (Some l, Some sn) \<Rightarrow> l \<noteq> sn | _ \<Rightarrow> False))
         in if \<not> mismatch then None
            else Some \<lparr>rl_venue = e_venue event, rl_token_key = e_token_key event, rl_reason = ''rest_mismatch'',
              rl_trigger_local_ts_ms = e_local_ts_ms event, rl_trigger_exchange_ts_ms = Some (e_exchange_ts_ms event),
              rl_venue_hash_before = None, rl_venue_hash_after = None,
              rl_local_topn_hash_before = local_hash, rl_local_topn_hash_after = sn_topn_hash m\<rparr>
     | _ \<Rightarrow> None)"

text \<open>The reasons of \<open>check_resync\<close> in the order of its tests, each with its venue hash.\<close>

definition crossed_book :: "DenseBook \<Rightarrow> bool" where
  "crossed_book b = (case best_bid_ask b of (Some bid, Some ask) \<Rightarrow> bid \<ge> ask | _ \<Rightarrow> False)"

definition hash_mismatch :: "Event \<Rightarrow> DenseBook \<Rightarrow> bool" where
  "hash_mismatch event b \<longleftrightarrow> e_kind event = BookSnapshot \<and>
     (case (p_hash (e_payload event), topn_hash 20 b) of (Some v, Some l) \<Rightarrow> v \<noteq> l | _ \<Rightarrow> False)"

definition bbo_mismatch :: "Event \<Rightarrow> DenseBook \<Rightarrow> bool" where
  "bbo_mismatch event b \<longleftrightarrow> e_venue event = Polymarket \<and> e_kind event = BookDelta \<and>
     (case (p_best_bid (e_payload event), p_best_ask (e_payload event)) of
        (Some best_bid, Some best_ask) \<Rightarrow>
          (case best_bid_ask b of
             (Some local_bid, Some local_ask) \<Rightarrow>
               price_to_idx local_bid = None \<or> price_to_idx local_ask = None \<or>
               price_to_idx best_bid = None \<or> price_to_idx best_ask = None \<or>
               price_to_idx local_bid \<noteq> price_to_idx best_bid \<or> price_to_idx local_ask \<noteq> price_to_idx best_ask
           | _ \<Rightarrow> True)
      | _ \<Rightarrow> False)"

definition resync_reason :: "Event \<Rightarrow> TokenState \<Rightarrow> string option" where
  "resync_reason event s =
    (if f_out_of_order (e_flags event) then Some ''out_of_order''
     else if crossed_book (ts_orderbook s) then Some ''impossible_state''
     else if hash_mismatch event (ts_orderbook s) then Some ''hash_mismatch''
     else if e_venue event = Polymarket \<and> e_kind event = BookDelta \<and> e_channel event = Some ''best_bid_ask'' then None
     else if bbo_mismatch event (ts_orderbook s) then Some ''best_bid_ask_mismatch''
     else None)"

definition check_resync :: "Event \<Rightarrow> int \<Rightarrow> TokenState \<Rightarrow> TokenState \<times> ResyncLog option" where
  "check_resync event bar_second s =
    (if ts_last_resync_bar_second s = Some bar_second then (s, None)
     else case resync_reason event s of
       None \<Rightarrow> (s, None)
     | Some reason \<Rightarrow>
         (s\<lparr>ts_last_resync_bar_second := Some bar_second\<rparr>,
          Some \<lparr>rl_venue = e_venue event, rl_token_key = e_token_key event, rl_reason = reason,
            rl_trigger_local_ts_ms = e_local_ts_ms event, rl_trigger_exchange_ts_ms = Some (e_exchange_ts_ms event),
            rl_venue_hash_before = ts_last_venue_hash s, rl_venue_hash_after = p_hash (e_payload event),
            rl_local_topn_hash_before = ts_last_local_topn_hash s,
            rl_local_topn_hash_after = topn_hash 20 (ts_orderbook s)\<rparr>))"

end
