(* ===== verification/Flush.thy ===== *)
theory Flush
  imports Token
begin

text \<open>
  Closing a second (\<open>TokenState::flush\<close> of \<open>src/shard.rs\<close>): the bar is put together from the book, the
  accumulator of the second and the state, in the sections of the code: quote, depths, withdrawal of
  liquidity, flags, and the fields that a gap blanks; then the shock engine sees it.
\<close>

unbundle bit_operations_syntax

record Quote =
  qt_bid :: "f64 option"
  qt_ask :: "f64 option"
  qt_mid :: "f64 option"
  qt_micro :: "f64 option"
  qt_spread :: "f64 option"
  qt_tick :: "f64 option"
  qt_spread_ticks :: "int option"

definition or_else :: "'a option \<Rightarrow> 'a option \<Rightarrow> 'a option" where
  "or_else x y = (if x = None then y else x)"

definition mid_of :: "f64 option \<Rightarrow> f64 option \<Rightarrow> f64 option" where
  "mid_of bid ask = (case (bid, ask) of (Some b, Some a) \<Rightarrow> Some ((b + a) / lit 2) | _ \<Rightarrow> None)"

text \<open>The quote from the book, or from the last top-of-book message when a side is empty. The spread
  becomes the tick of a book without one.\<close>

definition flush_quote :: "TokenState \<Rightarrow> Quote \<times> TokenState" where
  "flush_quote s =
    (let b = ts_orderbook s;
         (book_bid, book_ask) = best_bid_ask b;
         book_mid = mid_of book_bid book_ask;
         best_bid = (if book_mid = None then or_else book_bid (ts_last_bbo_bid_px s) else book_bid);
         best_ask = (if book_mid = None then or_else book_ask (ts_last_bbo_ask_px s) else book_ask);
         mid = (if book_mid = None then mid_of best_bid best_ask else book_mid);
         spread = (case (best_bid, best_ask) of (Some bid, Some ask) \<Rightarrow> Some (ask - bid) | _ \<Rightarrow> None);
         tick_px = or_else (bk_tick_px b) (case spread of Some v \<Rightarrow> if v > 0 then Some v else None | None \<Rightarrow> None);
         spread_ticks = (case (spread, tick_px) of
             (Some spread, Some tick) \<Rightarrow> if tick > 0 then Some (f64_to_i64 (f64_round (spread / tick))) else None
           | _ \<Rightarrow> None)
     in (\<lparr>qt_bid = best_bid, qt_ask = best_ask, qt_mid = mid, qt_micro = microprice b, qt_spread = spread,
          qt_tick = tick_px, qt_spread_ticks = spread_ticks\<rparr>,
         s\<lparr>ts_orderbook := (if bk_tick_px b = None then b\<lparr>bk_tick_px := tick_px\<rparr> else b)\<rparr>))"

record Depths =
  dp_top3_bid :: "f64 option"
  dp_top3_ask :: "f64 option"
  dp_bid_levels :: "f64 list"
  dp_ask_levels :: "f64 list"
  dp_top10_bid :: "f64 option"
  dp_top10_ask :: "f64 option"
  dp_1pct_bid :: "f64 option"
  dp_1pct_ask :: "f64 option"
  dp_imbalance :: "f64 option"
  dp_air :: "int option \<times> int option"
  dp_hash :: "string option"

definition flush_depths :: "Quote \<Rightarrow> DenseBook \<Rightarrow> Depths" where
  "flush_depths q b =
    (let top10_bid = depth_top_n Bid 10 b; top10_ask = depth_top_n Ask 10 b
     in \<lparr>dp_top3_bid = depth_top_n Bid 3 b, dp_top3_ask = depth_top_n Ask 3 b,
         dp_bid_levels = top_levels_notional Bid 3 b, dp_ask_levels = top_levels_notional Ask 3 b,
         dp_top10_bid = top10_bid, dp_top10_ask = top10_ask,
         dp_1pct_bid = depth_1pct Bid (qt_mid q) b, dp_1pct_ask = depth_1pct Ask (qt_mid q) b,
         dp_imbalance = (case (top10_bid, top10_ask) of
             (Some bid, Some ask) \<Rightarrow> if bid + ask > 0 then Some ((bid - ask) / (bid + ask)) else None
           | _ \<Rightarrow> None),
         dp_air = air_pocket_ticks (qt_tick q) b, dp_hash = topn_hash 20 b\<rparr>)"

definition level_px :: "f64 list \<Rightarrow> nat \<Rightarrow> f64 option" where
  "level_px levels i = (case get levels i of Some v \<Rightarrow> if v > 0 then Some v else None | None \<Rightarrow> None)"

text \<open>The change of the ten-level depth on Opinion, and whether it looks like a pull of liquidity.\<close>

definition flush_withdrawal :: "Depths \<Rightarrow> SecondAccumulator \<Rightarrow> TokenState \<Rightarrow> (f64 option \<times> int) \<times> TokenState" where
  "flush_withdrawal d acc s =
    (if ts_venue s \<noteq> Opinion then ((None, 0), s)
     else case (ts_prev_top10_bid s, ts_prev_top10_ask s, dp_top10_bid d, dp_top10_ask d) of
       (Some prev_bid, Some prev_ask, Some curr_bid, Some curr_ask) \<Rightarrow>
         let prev_sum = prev_bid + prev_ask; curr_sum = curr_bid + curr_ask in
         if prev_sum > 0 then
           let ratio = (curr_sum - prev_sum) / prev_sum;
               total = ac_add_updates acc + ac_cancel_updates acc + ac_match_updates acc;
               cancel_ratio = (if total > 0 then f64_of_int (ac_cancel_updates acc) / f64_of_int total else 0);
               w = shard_rw_push cancel_ratio (ts_cancel_ratio_window s);
               cancel_p90 = unwrap_or (shard_quantile w (lit (9 / 10))) 1
           in ((Some ratio, if ratio \<le> - lit (1 / 2) \<and> cancel_ratio \<ge> cancel_p90 then 1 else 0),
               s\<lparr>ts_cancel_ratio_window := w\<rparr>)
         else ((None, 0), s)
     | _ \<Rightarrow> ((None, 0), s))"

record BarFlags =
  bf_staleness_ms :: millis
  bf_gap :: bool
  bf_stale :: bool
  bf_resync :: bool
  bf_connection :: int

definition flush_flags :: "ShardConfig \<Rightarrow> int \<Rightarrow> TokenState \<Rightarrow> BarFlags" where
  "flush_flags cfg bar_second s =
    (let staleness = max (bar_second * 1000 - ts_last_event_local_ts_ms s) 0;
         gap = (staleness > cf_hard_clear_ms cfg);
         recent = (case ts_last_resync_bar_second s of
             Some last_resync \<Rightarrow> i64_sat (bar_second - last_resync) \<le> 10 | None \<Rightarrow> False);
         flags = (if recent then 0 OR HEALTH_RESYNC_RECENT else 0)
     in \<lparr>bf_staleness_ms = staleness, bf_gap = gap,
         bf_stale = (staleness > (case ts_venue s of Polymarket \<Rightarrow> cf_pm_staleness_ms cfg
                                  | Opinion \<Rightarrow> cf_other_staleness_ms cfg)),
         bf_resync = (ts_last_resync_bar_second s = Some bar_second),
         bf_connection = (if gap then flags OR HEALTH_EVENT_DROP else flags)\<rparr>)"

text \<open>A gap blanks an output.\<close>

definition unless_gap :: "bool \<Rightarrow> 'a option \<Rightarrow> 'a option" where
  "unless_gap gap x = (if gap then None else x)"

definition flag :: "bool \<Rightarrow> int" where
  "flag b = (if b then 1 else 0)"

definition bar_source :: "Venue \<Rightarrow> SecondAccumulator \<Rightarrow> ExchangeTsSource" where
  "bar_source venue acc =
    (let src = dominant_source acc in if venue = Opinion \<and> src = LocalFallback then Estimated else src)"

definition push_ofi :: "f64 \<Rightarrow> f64 list \<Rightarrow> f64 list" where
  "push_ofi x h = (let h = h @ [x] in if length h > 32 then tl h else h)"

definition flush_bar :: "(int list \<Rightarrow> f64 \<Rightarrow> int) \<Rightarrow> (int list \<Rightarrow> int) \<Rightarrow> int \<Rightarrow> Quote \<Rightarrow> Depths \<Rightarrow> f64 option \<times> int
    \<Rightarrow> BarFlags \<Rightarrow> f64 list \<Rightarrow> SecondAccumulator \<Rightarrow> TokenState \<Rightarrow> Bars1sToken" where
  "flush_bar hq hmax bar_second q d wd fl ofi acc s =
    (let g = bf_gap fl;
         (v50, v90, v99, vmax) = lat_snapshot hq hmax (ac_venue_latency acc);
         (e50, e90, e99, emax) = lat_snapshot hq hmax (ac_est_latency acc);
         upd = (ac_book_updates acc > 0);
         bid = unless_gap g (qt_bid q); ask = unless_gap g (qt_ask q); mid = unless_gap g (qt_mid q)
     in \<lparr>br_venue = ts_venue s, br_token_key = [], br_token_side = ts_token_side s, br_bar_second = bar_second,
         br_exchange_ts_source = bar_source (ts_venue s) acc,
         br_venue_p50 = v50, br_venue_p90 = v90, br_venue_p99 = v99, br_venue_max = vmax,
         br_est_p50 = e50, br_est_p90 = e90, br_est_p99 = e99, br_est_max = emax,
         br_health_flags = bf_connection fl, br_gap_flag = flag g, br_stale_flag = flag (bf_stale fl),
         br_staleness_ms = Some (bf_staleness_ms fl), br_event_count_1s = ac_event_count acc,
         br_ts_missing_count_1s = ac_ts_missing acc, br_ts_anomaly_count_1s = ac_ts_anomaly acc,
         br_book_resync_flag = flag (bf_resync fl),
         br_best_bid_px = (if upd then bid else None), br_best_ask_px = (if upd then ask else None),
         br_mid_px = (if upd then mid else None),
         br_best_bid_px_state = bid, br_best_ask_px_state = ask, br_mid_px_state = mid,
         br_last_price = unless_gap g (ts_last_price s), br_micro_px = unless_gap g (qt_micro q),
         br_spread_px = unless_gap g (qt_spread q), br_tick_px = unless_gap g (qt_tick q),
         br_spread_ticks = qt_spread_ticks q,
         br_top3_bid = unless_gap g (dp_top3_bid d), br_top3_ask = unless_gap g (dp_top3_ask d),
         br_bid_l1 = level_px (dp_bid_levels d) 0, br_bid_l2 = level_px (dp_bid_levels d) 1,
         br_bid_l3 = level_px (dp_bid_levels d) 2, br_ask_l1 = level_px (dp_ask_levels d) 0,
         br_ask_l2 = level_px (dp_ask_levels d) 1, br_ask_l3 = level_px (dp_ask_levels d) 2,
         br_top10_bid = unless_gap g (dp_top10_bid d), br_top10_ask = unless_gap g (dp_top10_ask d),
         br_depth_1pct_bid = unless_gap g (dp_1pct_bid d), br_depth_1pct_ask = unless_gap g (dp_1pct_ask d),
         br_imbalance_top10 = unless_gap g (dp_imbalance d),
         br_air_bid_ticks = unless_gap g (fst (dp_air d)), br_air_ask_ticks = unless_gap g (snd (dp_air d)),
         br_book_updates_1s = ac_book_updates acc, br_add_updates_1s = ac_add_updates acc,
         br_cancel_updates_1s = ac_cancel_updates acc, br_match_updates_1s = ac_match_updates acc,
         br_remove_unknown_updates_1s = ac_remove_unknown_updates acc,
         br_trade_count_1s = ac_trade_count acc, br_volume_shares_1s = ac_volume_shares acc,
         br_volume_notional_1s = ac_volume_notional acc, br_vwap_1s = vwap acc,
         br_buy_notional_1s = ac_buy_notional acc, br_sell_notional_1s = ac_sell_notional acc,
         br_cvd_delta_1s = ac_cvd_delta acc, br_trade_side_missing_count_1s = ac_trade_side_missing acc,
         br_ofi_1s = ac_ofi acc, br_ofi_250ms = ac_ofi_250ms acc,
         br_bid_delta_250ms = ac_bid_delta_250ms acc, br_ask_delta_250ms = ac_ask_delta_250ms acc,
         br_mid_slope_250ms = ac_mid_slope_250ms acc, br_ofi_10s = sum_last_f64 ofi 10,
         br_ofi_z_30s = zscore_from_window ofi (ac_ofi acc),
         br_levels_crossed_1s = ac_levels_crossed acc, br_max_trade_notional_1s = ac_max_trade_notional acc,
         br_buy_notional_250ms = ac_buy_notional_250ms acc, br_sell_notional_250ms = ac_sell_notional_250ms acc,
         br_max_trade_notional_250ms = ac_max_trade_notional_250ms acc,
         br_depth_withdrawal_ratio = unless_gap g (fst wd), br_liquidity_pull_flag = (if g then 0 else snd wd),
         br_venue_book_hash = unless_gap g (ts_last_venue_hash s),
         br_local_topn_hash = unless_gap g (dp_hash d)\<rparr>)"

definition bar_input :: "Bars1sToken \<Rightarrow> SecondAccumulator \<Rightarrow> BarInput" where
  "bar_input bar acc =
    \<lparr>b_bar_second = br_bar_second bar, b_micro_px = or_else (br_micro_px bar) (br_mid_px_state bar),
     b_tick_px = br_tick_px bar,
     b_micro_mid_gap = (case (br_micro_px bar, br_mid_px_state bar) of
         (Some micro, Some mid) \<Rightarrow> Some (micro - mid) | _ \<Rightarrow> None),
     b_add_updates_1s = ac_add_updates acc, b_cancel_updates_1s = ac_cancel_updates acc,
     b_volume_notional_1s = ac_volume_notional acc, b_buy_notional_1s = ac_buy_notional acc,
     b_sell_notional_1s = ac_sell_notional acc, b_cvd_delta_1s = ac_cvd_delta acc, b_ofi_1s = ac_ofi acc,
     b_levels_crossed_1s = ac_levels_crossed acc, b_trade_count_1s = ac_trade_count acc,
     b_trade_side_missing_count_1s = ac_trade_side_missing acc,
     b_max_trade_notional_1s = ac_max_trade_notional acc, b_wall_pull = ac_wall_pull_signal acc\<rparr>"

text \<open>The third-party code that closing a second uses.\<close>

record Ext =
  x_ln :: "f64 \<Rightarrow> f64"
  x_keys :: "(ShockType \<rightharpoonup> PendingShock) \<Rightarrow> ShockType list"
  x_hq :: "int list \<Rightarrow> f64 \<Rightarrow> int"
  x_hmax :: "int list \<Rightarrow> int"

record FlushResult =
  fr_bar :: Bars1sToken
  fr_shocks :: "ShockSignal list"

definition flush :: "Ext \<Rightarrow> ShardConfig \<Rightarrow> int \<Rightarrow> SecondAccumulator \<Rightarrow> TokenState \<Rightarrow> TokenState \<times> FlushResult" where
  "flush x cfg bar_second acc s =
    (let (q, s) = flush_quote s;
         d = flush_depths q (ts_orderbook s);
         (wd, s) = flush_withdrawal d acc s;
         fl = flush_flags cfg bar_second s;
         ofi = push_ofi (ac_ofi acc) (ts_ofi_history s);
         bar = flush_bar (x_hq x) (x_hmax x) bar_second q d wd fl ofi acc s;
         s = (if bf_gap fl then s\<lparr>ts_last_bbo_bid_px := None, ts_last_bbo_ask_px := None\<rparr> else s);
         s = s\<lparr>ts_ofi_history := ofi\<rparr>;
         (s, shocks) = (case ts_shock_engine s of
             None \<Rightarrow> (s, [])
           | Some engine \<Rightarrow>
               let (engine, sigs) = on_bar (x_ln x) (x_keys x) (bar_input bar acc) engine
               in (s\<lparr>ts_shock_engine := Some engine\<rparr>, sigs))
     in (s\<lparr>ts_prev_top10_bid := dp_top10_bid d, ts_prev_top10_ask := dp_top10_ask d,
           ts_last_local_topn_hash := dp_hash d\<rparr>, \<lparr>fr_bar = bar, fr_shocks = shocks\<rparr>))"

end
