(* ===== verification/Worker.thy ===== *)
theory Worker
  imports Flush Registry Health Sharding "HOL-Library.Signed_Division"
begin

text \<open>
  The shard worker of \<open>src/shard.rs\<close>: events and ticks in, bars, shocks and logs out. One handler call
  reads the registry, the health state and the clock from an environment record, which also fixes the
  order in which hash containers list their elements and whether a pair queue takes a message. What
  the worker sends is recorded in order: rows for the database queue, messages for the pair shards.
\<close>

unbundle bit_operations_syntax

datatype DbRow = RowEvent Event | RowResync ResyncLog | RowBar Bars1sToken | RowShock ShockEvent
  | RowShockUpdate ShockEventUpdate

datatype SendOutcome = SendOk | SendFull | SendClosed

record Env =
  en_ext :: Ext
  en_now :: millis
  en_registry :: RegistryState
  en_health :: HealthState
  en_order :: "string set \<Rightarrow> string list"
  en_send :: "nat \<Rightarrow> PairMessage \<Rightarrow> SendOutcome"
  en_pair_shards :: nat

text \<open>The metrics slot of the shard.\<close>

record ShardMetricSlot =
  ms_token_states :: nat
  ms_orderbook_levels :: nat
  ms_pending_shocks :: nat
  ms_book_count_pm :: nat
  ms_book_count_opi :: nat
  ms_max_nonzero_levels :: nat
  ms_max_nonzero_levels_token_key :: string

definition slot_new :: ShardMetricSlot where
  "slot_new = \<lparr>ms_token_states = 0, ms_orderbook_levels = 0, ms_pending_shocks = 0, ms_book_count_pm = 0,
     ms_book_count_opi = 0, ms_max_nonzero_levels = 0, ms_max_nonzero_levels_token_key = []\<rparr>"

record ShardWorker =
  wk_state :: "string \<rightharpoonup> TokenState"
  wk_dirty_tokens :: "string set"
  wk_state_init_count :: nat
  wk_rest_snapshot_applied :: nat
  wk_rest_snapshot_received :: nat
  wk_event_count :: nat
  wk_tick_count :: nat
  wk_metrics_update_count :: nat
  wk_config :: ShardConfig
  wk_slot :: ShardMetricSlot
  wk_bootstrap_applied :: nat
  wk_shock_counter :: int
  wk_pair_drops :: nat
  wk_pair_closed :: nat
  wk_db_out :: "DbRow list"
  wk_pair_out :: "(nat \<times> PairMessage) list"

definition worker_new :: "ShardConfig \<Rightarrow> int \<Rightarrow> ShardWorker" where
  "worker_new cfg next_shock =
    \<lparr>wk_state = Map.empty, wk_dirty_tokens = {}, wk_state_init_count = 0, wk_rest_snapshot_applied = 0,
     wk_rest_snapshot_received = 0, wk_event_count = 0, wk_tick_count = 0, wk_metrics_update_count = 0,
     wk_config = cfg, wk_slot = slot_new, wk_bootstrap_applied = 0, wk_shock_counter = next_shock,
     wk_pair_drops = 0, wk_pair_closed = 0, wk_db_out = [], wk_pair_out = []\<rparr>"

definition init_shock_counter :: "int \<Rightarrow> ShardWorker \<Rightarrow> ShardWorker" where
  "init_shock_counter next_id w = w\<lparr>wk_shock_counter := max next_id 1\<rparr>"

definition try_send_db :: "DbRow \<Rightarrow> ShardWorker \<Rightarrow> ShardWorker" where
  "try_send_db row w = w\<lparr>wk_db_out := wk_db_out w @ [row]\<rparr>"

text \<open>Alpha capture gates every row.\<close>

definition capture :: "DbRow \<Rightarrow> ShardWorker \<Rightarrow> ShardWorker" where
  "capture row w = (if cf_alpha_capture_enabled (wk_config w) then try_send_db row w else w)"

definition try_send_pair_message :: "Env \<Rightarrow> int \<Rightarrow> PairMessage \<Rightarrow> ShardWorker \<Rightarrow> ShardWorker" where
  "try_send_pair_message env pair_id msg w =
    (let shard = pick_pair_shard pair_id (en_pair_shards env) in
     if shard < en_pair_shards env then
       (case en_send env shard msg of
          SendOk \<Rightarrow> w\<lparr>wk_pair_out := wk_pair_out w @ [(shard, msg)]\<rparr>
        | SendFull \<Rightarrow> w\<lparr>wk_pair_drops := wk_pair_drops w + 1\<rparr>
        | SendClosed \<Rightarrow> w\<lparr>wk_pair_closed := wk_pair_closed w + 1\<rparr>)
     else w)"

definition next_shock_id :: "ShardWorker \<Rightarrow> int \<times> ShardWorker" where
  "next_shock_id w = (wk_shock_counter w, w\<lparr>wk_shock_counter := wk_shock_counter w + 1\<rparr>)"

definition upd_token :: "string \<Rightarrow> (TokenState \<Rightarrow> TokenState) \<Rightarrow> ShardWorker \<Rightarrow> ShardWorker" where
  "upd_token token_key f w =
    (case wk_state w token_key of
       None \<Rightarrow> w
     | Some s \<Rightarrow> w\<lparr>wk_state := (wk_state w)(token_key \<mapsto> f s)\<rparr>)"

subsection \<open>One event at its token\<close>

definition with_second :: "int option \<Rightarrow> (SecondAccumulator \<Rightarrow> SecondAccumulator) \<Rightarrow> TokenState \<Rightarrow> TokenState" where
  "with_second ms f s = (case ms of None \<Rightarrow> s | Some sec \<Rightarrow> accumulator_mut sec f s)"

text \<open>The watermark follows the event; an event of a flushed second is marked out of order and gets no
  accumulator.\<close>

definition advance_watermark :: "int \<Rightarrow> TokenState \<Rightarrow> TokenState" where
  "advance_watermark bar_second s =
    (if ts_watermark_second s \<le> 0 then
       s\<lparr>ts_watermark_second := bar_second, ts_last_flushed_second := i64_sat (bar_second - 1)\<rparr>
     else if bar_second > ts_watermark_second s then s\<lparr>ts_watermark_second := bar_second\<rparr> else s)"

definition metrics_second_of :: "int \<Rightarrow> TokenState \<Rightarrow> int option" where
  "metrics_second_of bar_second s = (if bar_second \<le> ts_last_flushed_second s then None else Some bar_second)"

definition mark_late :: "int option \<Rightarrow> Event \<Rightarrow> Event" where
  "mark_late ms event =
    (if ms = None then event\<lparr>e_flags := (e_flags event)\<lparr>f_out_of_order := True\<rparr>\<rparr> else event)"

definition count_event :: "Event \<Rightarrow> int option \<Rightarrow> TokenState \<Rightarrow> TokenState" where
  "count_event event ms s =
    with_second ms (\<lambda>acc.
      let acc = record_latency (e_exchange_ts_source event) (e_local_ts_ms event) (e_exchange_ts_ms event) acc;
          acc = (if f_ts_missing (e_flags event) then acc\<lparr>ac_ts_missing := ac_ts_missing acc + 1\<rparr> else acc)
      in if f_ts_anomaly (e_flags event) then acc\<lparr>ac_ts_anomaly := ac_ts_anomaly acc + 1\<rparr> else acc)
     (s\<lparr>ts_last_event_local_ts_ms := e_local_ts_ms event\<rparr>)"

definition add_anomalies :: "int option \<Rightarrow> int \<Rightarrow> TokenState \<Rightarrow> TokenState" where
  "add_anomalies ms n = with_second ms (\<lambda>acc. acc\<lparr>ac_ts_anomaly := ac_ts_anomaly acc + n\<rparr>)"

definition count_book_update :: "int option \<Rightarrow> TokenState \<Rightarrow> TokenState" where
  "count_book_update ms = with_second ms (\<lambda>acc. acc\<lparr>ac_book_updates := ac_book_updates acc + 1,
     ac_critical_event_count := ac_critical_event_count acc + 1\<rparr>)"

definition set_venue_hash :: "Event \<Rightarrow> TokenState \<Rightarrow> TokenState" where
  "set_venue_hash event s =
    (case p_hash (e_payload event) of Some h \<Rightarrow> s\<lparr>ts_last_venue_hash := Some h\<rparr> | None \<Rightarrow> s)"

definition flow_and_levels :: "Event \<Rightarrow> int option \<Rightarrow> TokenState \<Rightarrow> TokenState" where
  "flow_and_levels event ms s =
    (case ms of None \<Rightarrow> s | Some sec \<Rightarrow> update_ofi_and_levels sec (e_local_ts_ms event) s)"

definition load_snapshot :: "Event \<Rightarrow> int option \<Rightarrow> TokenState \<Rightarrow> TokenState" where
  "load_snapshot event ms s =
    (let bids = p_bids (e_payload event); asks = p_asks (e_payload event) in
     if bids \<noteq> None \<or> asks \<noteq> None then
       let (invalid, b) = apply_snapshot bids asks (e_local_ts_ms event) (ts_orderbook s);
           s = s\<lparr>ts_orderbook := b\<rparr>;
           s = (if invalid > 0 then add_anomalies ms (int invalid) s else s);
           s = s\<lparr>ts_book_initialized := True\<rparr>;
           (book_bid, book_ask) = best_bid_ask b
       in update_bbo book_bid book_ask s
     else s)"

definition snapshot_event :: "Event \<Rightarrow> int \<Rightarrow> int option \<Rightarrow> TokenState \<Rightarrow> TokenState \<times> ResyncLog option" where
  "snapshot_event event bar_second ms s =
    (let drift = (if e_venue event = Opinion \<and> e_exchange_ts_source event = VenueRest
           then check_opinion_snapshot_drift event s else None);
         s = (if drift \<noteq> None then mark_resync bar_second s else s);
         s = load_snapshot event ms s;
         s = s\<lparr>ts_resync_needed := False\<rparr>;
         s = count_book_update ms s;
         s = set_venue_hash event s;
         s = flow_and_levels event ms s;
         (s, log) = (if drift = None then check_resync event bar_second s else (s, drift))
     in case log of
          None \<Rightarrow> (s, None)
        | Some l \<Rightarrow>
            let s = mark_resync bar_second s
            in (if rl_reason l \<noteq> ''rest_mismatch'' then s\<lparr>ts_resync_needed := True\<rparr> else s, Some l))"

definition count_delta :: "DeltaType \<Rightarrow> SecondAccumulator \<Rightarrow> SecondAccumulator" where
  "count_delta delta_type acc =
    (case delta_type of
       AddDelta \<Rightarrow> acc\<lparr>ac_add_updates := ac_add_updates acc + 1\<rparr>
     | AddOrUpdate \<Rightarrow> acc\<lparr>ac_add_updates := ac_add_updates acc + 1\<rparr>
     | CancelDelta \<Rightarrow> acc\<lparr>ac_cancel_updates := ac_cancel_updates acc + 1\<rparr>
     | MatchDelta \<Rightarrow> acc\<lparr>ac_match_updates := ac_match_updates acc + 1\<rparr>
     | UnknownDelta \<Rightarrow> acc\<lparr>ac_remove_unknown_updates := ac_remove_unknown_updates acc + 1\<rparr>)"

definition apply_level :: "Event \<Rightarrow> int option \<Rightarrow> bool \<Rightarrow> BookSide \<Rightarrow> f64 \<Rightarrow> f64 \<Rightarrow> TokenState \<Rightarrow> TokenState" where
  "apply_level event ms allow_apply side price sz s =
    (let s = (if allow_apply \<and> \<not> ts_resync_needed s then
           let s = (case check_wall_pull side price sz (ts_orderbook s) of
                 Some signal \<Rightarrow> with_second ms (\<lambda>acc. acc\<lparr>ac_wall_pull_signal := Some signal\<rparr>) s
               | None \<Rightarrow> s);
               (bad, b) = apply_delta side price sz (e_local_ts_ms event) (ts_orderbook s);
               s = s\<lparr>ts_orderbook := b\<rparr>
           in if bad then add_anomalies ms 1 s else s
         else s);
         delta_type = unwrap_or (p_delta_type (e_payload event)) UnknownDelta;
         s = with_second ms (count_delta delta_type) s
     in case ms of
          None \<Rightarrow> s
        | Some sec \<Rightarrow> update_bid_ask_delta sec (e_local_ts_ms event) side delta_type price sz s)"

definition delta_event :: "Event \<Rightarrow> int \<Rightarrow> int option \<Rightarrow> TokenState \<Rightarrow> TokenState \<times> ResyncLog option" where
  "delta_event event bar_second ms s =
    (let allow_apply = (\<not> (e_venue event = Opinion \<and> \<not> ts_book_initialized s));
         p = e_payload event;
         s = update_bbo (p_best_bid p) (p_best_ask p) s;
         s = (case (p_side p, p_price p, p_size p) of
             (Some side, Some price, Some sz) \<Rightarrow> apply_level event ms allow_apply side price sz s
           | _ \<Rightarrow> s);
         s = count_book_update ms s;
         s = (if allow_apply \<and> \<not> ts_resync_needed s then flow_and_levels event ms s else s);
         s = set_venue_hash event s
     in if allow_apply then
          (let (s, log) = check_resync event bar_second s
           in if log \<noteq> None then ((mark_resync bar_second s)\<lparr>ts_resync_needed := True\<rparr>, log) else (s, None))
        else (s, None))"

definition set_last_price :: "Event \<Rightarrow> TokenState \<Rightarrow> TokenState" where
  "set_last_price event s =
    (case p_price (e_payload event) of Some price \<Rightarrow> s\<lparr>ts_last_price := Some price\<rparr> | None \<Rightarrow> s)"

definition count_trade :: "EventPayload \<Rightarrow> SecondAccumulator \<Rightarrow> SecondAccumulator" where
  "count_trade p acc =
    (let acc = acc\<lparr>ac_trade_count := ac_trade_count acc + 1\<rparr>;
         acc = (case (p_price p, p_size p) of
             (Some price, Some sz) \<Rightarrow>
               let notional = sz * price;
                   acc = acc\<lparr>ac_volume_shares := ac_volume_shares acc + sz,
                     ac_volume_notional := ac_volume_notional acc + notional\<rparr>
               in if notional > ac_max_trade_notional acc then acc\<lparr>ac_max_trade_notional := notional\<rparr> else acc
           | _ \<Rightarrow> acc)
     in acc\<lparr>ac_match_updates := ac_match_updates acc + 1,
            ac_critical_event_count := ac_critical_event_count acc + 1\<rparr>)"

definition count_side :: "BookSide \<Rightarrow> f64 \<Rightarrow> SecondAccumulator \<Rightarrow> SecondAccumulator" where
  "count_side side notional acc =
    (case side of
       Bid \<Rightarrow> acc\<lparr>ac_buy_notional := ac_buy_notional acc + notional, ac_cvd_delta := ac_cvd_delta acc + notional\<rparr>
     | Ask \<Rightarrow> acc\<lparr>ac_sell_notional := ac_sell_notional acc + notional, ac_cvd_delta := ac_cvd_delta acc - notional\<rparr>)"

definition trade_event :: "Event \<Rightarrow> int option \<Rightarrow> TokenState \<Rightarrow> TokenState" where
  "trade_event event ms s =
    (let s = set_last_price event s; p = e_payload event in
     case ms of
       None \<Rightarrow> s
     | Some sec \<Rightarrow>
         let s = accumulator_mut sec (count_trade p) s in
         case p_side p of
           Some side \<Rightarrow>
             let notional = unwrap_or (p_price p) 0 * unwrap_or (p_size p) 0
             in update_trade_window sec (e_local_ts_ms event) side notional
                  (accumulator_mut sec (count_side side notional) s)
         | None \<Rightarrow>
             if f_trade_side_missing (e_flags event) then
               accumulator_mut sec (\<lambda>acc. acc\<lparr>ac_trade_side_missing := ac_trade_side_missing acc + 1\<rparr>) s
             else s)"

definition token_event :: "Event \<Rightarrow> int \<Rightarrow> int option \<Rightarrow> TokenState \<Rightarrow> TokenState \<times> ResyncLog option" where
  "token_event event bar_second ms s =
    (let s = count_event event ms s in
     case e_kind event of
       BookSnapshot \<Rightarrow> snapshot_event event bar_second ms s
     | BookDelta \<Rightarrow> delta_event event bar_second ms s
     | Trade \<Rightarrow> (trade_event event ms s, None)
     | LastPrice \<Rightarrow> (with_second ms (\<lambda>acc. acc\<lparr>ac_critical_event_count := ac_critical_event_count acc + 1\<rparr>)
          (set_last_price event s), None)
     | TickSizeChange \<Rightarrow>
         (case p_tick_size (e_payload event) of
            Some tick \<Rightarrow> s\<lparr>ts_orderbook := (ts_orderbook s)\<lparr>bk_tick_px := Some tick\<rparr>\<rparr> | None \<Rightarrow> s, None)
     | HealthEvent \<Rightarrow> (s, None))"

subsection \<open>Emitting a bar\<close>

definition emit_flags :: "ConnectionHealthRow \<Rightarrow> Venue \<Rightarrow> bool \<Rightarrow> int \<Rightarrow> int" where
  "emit_flags row venue drops flags =
    (let flags = (if ch_ws_state row = ws_code Up then flags OR HEALTH_WS_CONNECTED else flags);
         flags = (case venue of
             Opinion \<Rightarrow> if unwrap_or (ch_heartbeat_fail row) 0 = 0 then flags OR HEALTH_HEARTBEAT_OK else flags
           | Polymarket \<Rightarrow> flags OR HEALTH_HEARTBEAT_OK)
     in if drops then flags OR HEALTH_EVENT_DROP else flags)"

definition pair_input :: "int \<Rightarrow> Bars1sToken \<Rightarrow> PairInput" where
  "pair_input pair_id bar =
    \<lparr>pi_pair_id = pair_id, pi_token_side = br_token_side bar, pi_bar_second = br_bar_second bar,
     pi_venue = br_venue bar, pi_token_key = br_token_key bar, pi_best_bid = br_best_bid_px bar,
     pi_best_ask = br_best_ask_px bar, pi_mid = br_mid_px bar, pi_best_bid_state = br_best_bid_px_state bar,
     pi_best_ask_state = br_best_ask_px_state bar, pi_mid_state = br_mid_px_state bar,
     pi_last_price = br_last_price bar, pi_micro = br_micro_px bar, pi_staleness_ms = br_staleness_ms bar,
     pi_bar_gap_flag = (br_gap_flag bar \<noteq> 0), pi_bar_stale_flag = (br_stale_flag bar \<noteq> 0),
     pi_spread = br_spread_px bar, pi_top10_depth_bid = br_top10_bid bar, pi_top10_depth_ask = br_top10_ask bar,
     pi_bid_l1_notional = br_bid_l1 bar, pi_bid_l2_notional = br_bid_l2 bar, pi_bid_l3_notional = br_bid_l3 bar,
     pi_ask_l1_notional = br_ask_l1 bar, pi_ask_l2_notional = br_ask_l2 bar, pi_ask_l3_notional = br_ask_l3 bar,
     pi_volume_notional_1s = br_volume_notional_1s bar, pi_cvd_delta_1s = br_cvd_delta_1s bar,
     pi_buy_notional_1s = br_buy_notional_1s bar, pi_sell_notional_1s = br_sell_notional_1s bar,
     pi_ofi_250ms = br_ofi_250ms bar, pi_bid_delta_notional_250ms = br_bid_delta_250ms bar,
     pi_ask_delta_notional_250ms = br_ask_delta_250ms bar, pi_mid_slope_250ms = br_mid_slope_250ms bar,
     pi_buy_notional_250ms = br_buy_notional_250ms bar, pi_sell_notional_250ms = br_sell_notional_250ms bar,
     pi_max_trade_notional_250ms = br_max_trade_notional_250ms bar,
     pi_max_trade_notional_1s = br_max_trade_notional_1s bar,
     pi_liquidity_pull_flag = br_liquidity_pull_flag bar,
     pi_depth_withdrawal_ratio = br_depth_withdrawal_ratio bar, pi_obs_latency_p99_ms = br_venue_p99 bar\<rparr>"

definition shock_event_of :: "int \<Rightarrow> int \<Rightarrow> Bars1sToken \<Rightarrow> ShockPending \<Rightarrow> ShockEvent" where
  "shock_event_of shock_id pair_id bar p =
    \<lparr>ev_shock_id = shock_id, ev_token_key = br_token_key bar, ev_pair_id = Some pair_id,
     ev_token_side = br_token_side bar, ev_shock_type = sp_shock_type p, ev_direction = sp_direction p,
     ev_noise_flag = sp_noise_flag p, ev_start_ts_ms = sp_start_ts_ms p, ev_trigger_ts_ms = sp_trigger_ts_ms p,
     ev_peak_ts_ms = sp_trigger_ts_ms p, ev_magnitude = sp_magnitude p, ev_context = sp_context p,
     ev_obs_latency_ms = br_venue_p99 bar, ev_health_flags = br_health_flags bar, ev_status = StatusPending,
     ev_peak_finalized = 0\<rparr>"

definition shock_input_of :: "int \<Rightarrow> int \<Rightarrow> Bars1sToken \<Rightarrow> ShockPending \<Rightarrow> ShockInput" where
  "shock_input_of shock_id pair_id bar p =
    \<lparr>si_shock_id = shock_id, si_pair_id = pair_id, si_token_side = br_token_side bar,
     si_trigger_bar_second = br_bar_second bar, si_shock_type = sp_shock_type p, si_direction = sp_direction p,
     si_magnitude = sp_magnitude p, si_noise_flag = sp_noise_flag p, si_obs_latency_poly_p99_ms = br_venue_p99 bar\<rparr>"

definition shock_update_of :: "int \<Rightarrow> ShockFinal \<Rightarrow> ShockEventUpdate" where
  "shock_update_of shock_id f =
    \<lparr>eu_shock_id = shock_id, eu_start_ts_ms = sf_start_ts_ms f, eu_peak_ts_ms = sf_peak_ts_ms f,
     eu_magnitude = sf_magnitude f, eu_context = sf_context f, eu_direction = sf_direction f,
     eu_noise_flag = sf_noise_flag f, eu_status = StatusFinal, eu_peak_finalized = 1\<rparr>"

definition emit_signal :: "Env \<Rightarrow> string \<Rightarrow> int \<Rightarrow> Bars1sToken \<Rightarrow> ShockSignal \<Rightarrow> ShardWorker \<Rightarrow> ShardWorker" where
  "emit_signal env token_key pair_id bar sig w =
    (case sig of
       PendingSig p \<Rightarrow>
         let (shock_id, w) = next_shock_id w;
             w = upd_token token_key (\<lambda>s. s\<lparr>ts_pending_shocks :=
               (ts_pending_shocks s)((pair_id, sp_shock_type p, sp_trigger_ts_ms p) \<mapsto> shock_id)\<rparr>) w;
             w = capture (RowShock (shock_event_of shock_id pair_id bar p)) w
         in try_send_pair_message env pair_id (PairShock (shock_input_of shock_id pair_id bar p)) w
     | FinalSig f \<Rightarrow>
         let key = (pair_id, sf_shock_type f, sf_trigger_ts_ms f);
             shock_id = Option.bind (wk_state w token_key) (\<lambda>s. ts_pending_shocks s key);
             w = upd_token token_key (\<lambda>s. s\<lparr>ts_pending_shocks := (ts_pending_shocks s)(key := None)\<rparr>) w
         in case shock_id of
              None \<Rightarrow> w
            | Some i \<Rightarrow> capture (RowShockUpdate (shock_update_of i f)) w)"

definition emit_result :: "Env \<Rightarrow> string \<Rightarrow> FlushResult \<Rightarrow> ShardWorker \<Rightarrow> ShardWorker" where
  "emit_result env token_key r w =
    (let bar = fr_bar r;
         row = health_snapshot (en_health env) (en_now env) (br_venue bar) (br_bar_second bar);
         drops = (case wk_state w token_key of
             Some s \<Rightarrow> ch_dropped_events row > ts_last_drop_count s | None \<Rightarrow> False);
         w = (if drops then upd_token token_key (\<lambda>s. s\<lparr>ts_last_drop_count := ch_dropped_events row\<rparr>) w else w);
         bar = bar\<lparr>br_health_flags := emit_flags row (br_venue bar) drops (br_health_flags bar),
           br_token_key := token_key\<rparr>;
         w = capture (RowBar bar) w
     in case rs_token_pairs (en_registry env) token_key of
          None \<Rightarrow> w
        | Some pair_ids \<Rightarrow>
            fold (\<lambda>pair_id w. fold (emit_signal env token_key pair_id bar) (fr_shocks r)
              (try_send_pair_message env pair_id (TokenBar (pair_input pair_id bar)) w)) pair_ids w)"

subsection \<open>Flushing, ticks and events\<close>

definition flush_second :: "Ext \<Rightarrow> ShardConfig \<Rightarrow> int \<Rightarrow> TokenState \<times> FlushResult list \<Rightarrow> TokenState \<times> FlushResult list" where
  "flush_second x cfg current st =
    (let (s, results) = st;
         acc = unwrap_or (ts_accumulators s current) acc_default;
         (s, r) = flush x cfg current acc (s\<lparr>ts_accumulators := (ts_accumulators s)(current := None)\<rparr>)
     in (s, results @ [r]))"

definition flush_state :: "Ext \<Rightarrow> ShardConfig \<Rightarrow> TokenState \<Rightarrow> TokenState \<times> FlushResult list" where
  "flush_state x cfg s =
    (let cutoff = ts_watermark_second s - LATE_EVENT_BUFFER_SECS in
     if ts_watermark_second s \<le> 0 \<or> cutoff \<le> ts_last_flushed_second s then (s, [])
     else
       let (s, results) = fold (flush_second x cfg) [ts_last_flushed_second s + 1..cutoff] (s, [])
       in (s\<lparr>ts_last_flushed_second := cutoff\<rparr>, results))"

definition flush_ready :: "Env \<Rightarrow> string \<Rightarrow> ShardWorker \<Rightarrow> ShardWorker" where
  "flush_ready env token_key w =
    (case wk_state w token_key of
       None \<Rightarrow> w
     | Some s \<Rightarrow>
         let (s, results) = flush_state (en_ext env) (wk_config w) s
         in fold (emit_result env token_key) results (w\<lparr>wk_state := (wk_state w)(token_key \<mapsto> s)\<rparr>))"

definition metrics_step :: "(string \<rightharpoonup> TokenState) \<Rightarrow> string \<Rightarrow> ShardMetricSlot \<Rightarrow> ShardMetricSlot" where
  "metrics_step st token_key m =
    (case st token_key of
       None \<Rightarrow> m
     | Some s \<Rightarrow>
         let levels = levels_len (ts_orderbook s);
             m = m\<lparr>ms_orderbook_levels := ms_orderbook_levels m + levels,
               ms_pending_shocks := ms_pending_shocks m + card (dom (ts_pending_shocks s))\<rparr>;
             m = (case ts_venue s of
                 Polymarket \<Rightarrow> m\<lparr>ms_book_count_pm := ms_book_count_pm m + 1\<rparr>
               | Opinion \<Rightarrow> m\<lparr>ms_book_count_opi := ms_book_count_opi m + 1\<rparr>)
         in if levels > ms_max_nonzero_levels m then
              m\<lparr>ms_max_nonzero_levels := levels, ms_max_nonzero_levels_token_key := token_key\<rparr> else m)"

definition record_metrics :: "Env \<Rightarrow> ShardWorker \<Rightarrow> ShardWorker" where
  "record_metrics env w =
    w\<lparr>wk_metrics_update_count := wk_metrics_update_count w + 1,
      wk_slot := fold (metrics_step (wk_state w)) (en_order env (dom (wk_state w)))
        (slot_new\<lparr>ms_token_states := card (dom (wk_state w))\<rparr>)\<rparr>"

definition receive_event :: "Event \<Rightarrow> ShardWorker \<Rightarrow> ShardWorker" where
  "receive_event event w =
    w\<lparr>wk_event_count := wk_event_count w + 1,
      wk_rest_snapshot_received := (if e_exchange_ts_source event = VenueRest \<and> e_kind event = BookSnapshot
        then wk_rest_snapshot_received w + 1 else wk_rest_snapshot_received w)\<rparr>"

definition ensure_token :: "Env \<Rightarrow> Event \<Rightarrow> int \<Rightarrow> ShardWorker \<Rightarrow> ShardWorker" where
  "ensure_token env event bar_second w =
    (if wk_state w (e_token_key event) \<noteq> None then w
     else w\<lparr>wk_state := (wk_state w)(e_token_key event \<mapsto> token_new (en_now env) (e_venue event)
              (unwrap_or (rs_token_sides (en_registry env) (e_token_key event)) UnknownSide) bar_second),
            wk_state_init_count := wk_state_init_count w + 1\<rparr>)"

definition snapshot_counters :: "Env \<Rightarrow> Event \<Rightarrow> ShardWorker \<Rightarrow> ShardWorker" where
  "snapshot_counters env event w =
    (if e_kind event \<noteq> BookSnapshot then w
     else
       let rest = (e_exchange_ts_source event = VenueRest);
           w = (if rest then w\<lparr>wk_bootstrap_applied := wk_bootstrap_applied w + 1,
                  wk_rest_snapshot_applied := wk_rest_snapshot_applied w + 1\<rparr> else w)
       in if (if rest then wk_rest_snapshot_applied w = 1 \<or> wk_rest_snapshot_applied w mod 1 = 0
              else wk_event_count w = 1 \<or> wk_event_count w mod 100 = 0)
          then record_metrics env w else w)"

definition handle_event :: "Env \<Rightarrow> Event \<Rightarrow> ShardWorker \<Rightarrow> ShardWorker" where
  "handle_event env event w =
    (let token_key = e_token_key event;
         bar_second = e_exchange_ts_ms event sdiv 1000;
         w = ensure_token env event bar_second (receive_event event w)
     in case wk_state w token_key of
          None \<Rightarrow> w
        | Some s \<Rightarrow>
            let s = advance_watermark bar_second s;
                ms = metrics_second_of bar_second s;
                event = mark_late ms event;
                (s, log) = token_event event bar_second ms s;
                w = snapshot_counters env event (w\<lparr>wk_state := (wk_state w)(token_key \<mapsto> s)\<rparr>);
                w = w\<lparr>wk_dirty_tokens := insert token_key (wk_dirty_tokens w)\<rparr>;
                w = flush_ready env token_key w;
                event = event\<lparr>e_payload := (e_payload event)\<lparr>p_bids := None, p_asks := None\<rparr>\<rparr>;
                w = capture (RowEvent event) w
            in case log of Some l \<Rightarrow> capture (RowResync l) w | None \<Rightarrow> w)"

definition tick_token :: "Env \<Rightarrow> int \<Rightarrow> string \<Rightarrow> ShardWorker \<Rightarrow> ShardWorker" where
  "tick_token env bar_second token_key w =
    flush_ready env token_key (upd_token token_key (\<lambda>s.
      if ts_watermark_second s > 0 \<and> bar_second > ts_watermark_second s
      then s\<lparr>ts_watermark_second := bar_second\<rparr> else s) w)"

definition handle_tick :: "Env \<Rightarrow> int \<Rightarrow> ShardWorker \<Rightarrow> ShardWorker" where
  "handle_tick env bar_second w =
    (let token_keys = en_order env (wk_dirty_tokens w);
         w = w\<lparr>wk_tick_count := wk_tick_count w + 1, wk_dirty_tokens := {}\<rparr>;
         w = fold (tick_token env bar_second) token_keys w
     in if bar_second mod 5 = 0 then record_metrics env w else w)"

end
