(* ===== verification/WorkerRuns.thy ===== *)
theory WorkerRuns
  imports Worker BookSpec
begin

text \<open>
  Runs of the shard worker: what every handler leaves alone (the frame lemmas), that the bars of a
  token cover consecutive seconds once each, that every event that is not late is counted in the bar
  of its second, and that every book of a worker is reachable by book operations.
\<close>

subsection \<open>Frames at a token\<close>

definition acc_events :: "TokenState \<Rightarrow> int \<Rightarrow> int" where
  "acc_events s sec = (case ts_accumulators s sec of None \<Rightarrow> 0 | Some acc \<Rightarrow> ac_event_count acc)"

definition clocks :: "TokenState \<Rightarrow> int \<times> int \<times> millis \<times> Venue \<times> TokenSide" where
  "clocks s = (ts_watermark_second s, ts_last_flushed_second s, ts_last_event_local_ts_ms s, ts_venue s, ts_token_side s)"

text \<open>A step that leaves the clocks, the event counts and the pending shocks alone, and treats the book
  with its own operations only.\<close>

definition quiet_step :: "TokenState \<Rightarrow> TokenState \<Rightarrow> bool" where
  "quiet_step s s' \<longleftrightarrow> clocks s' = clocks s \<and> ts_pending_shocks s' = ts_pending_shocks s \<and>
     acc_events s' = acc_events s \<and> (book_reach (ts_orderbook s) \<longrightarrow> book_reach (ts_orderbook s'))"

named_theorems quiet_intros

lemma quiet_refl [quiet_intros]: "quiet_step s s"
  by (simp add: quiet_step_def)

lemma quiet_trans: "quiet_step s s' \<Longrightarrow> quiet_step s' s'' \<Longrightarrow> quiet_step s s''"
  by (simp add: quiet_step_def)

lemma acc_events_mut: "ac_event_count (f (unwrap_or (ts_accumulators s sec) acc_default)) = ac_event_count (unwrap_or (ts_accumulators s sec) acc_default)
    \<Longrightarrow> acc_events (accumulator_mut sec f s) = acc_events s"
  by (rule ext) (auto simp: acc_events_def accumulator_mut_def unwrap_or_def acc_default_def split: option.splits)

lemma quiet_mut [quiet_intros]:
  assumes "\<And>acc. ac_event_count (f acc) = ac_event_count acc"
  shows "quiet_step s (accumulator_mut sec f s)"
  using acc_events_mut[of f s sec] assms by (simp add: quiet_step_def clocks_def accumulator_mut_def)

lemma quiet_with_second [quiet_intros]:
  "(\<And>acc. ac_event_count (f acc) = ac_event_count acc) \<Longrightarrow> quiet_step s (with_second ms f s)"
  by (cases ms) (simp_all add: with_second_def quiet_intros)

lemma quiet_fields [quiet_intros]:
  "quiet_step s (s\<lparr>ts_last_price := a\<rparr>)" "quiet_step s (s\<lparr>ts_last_bbo_bid_px := a\<rparr>)"
  "quiet_step s (s\<lparr>ts_last_bbo_ask_px := a\<rparr>)" "quiet_step s (s\<lparr>ts_resync_needed := c\<rparr>)"
  "quiet_step s (s\<lparr>ts_last_venue_hash := h\<rparr>)" "quiet_step s (s\<lparr>ts_last_resync_bar_second := r\<rparr>)"
  "quiet_step s (s\<lparr>ts_ofi_window := w\<rparr>)" "quiet_step s (s\<lparr>ts_mid_window := w\<rparr>)"
  "quiet_step s (s\<lparr>ts_bid_delta_window := w\<rparr>)" "quiet_step s (s\<lparr>ts_ask_delta_window := w\<rparr>)"
  "quiet_step s (s\<lparr>ts_trade_window := tw\<rparr>)" "quiet_step s (s\<lparr>ts_book_initialized := c\<rparr>)"
  "quiet_step s (s\<lparr>ts_prev_best_bid_px := a, ts_prev_best_ask_px := a', ts_prev_best_bid_sz := z, ts_prev_best_ask_sz := z'\<rparr>)"
  by (simp_all add: quiet_step_def clocks_def acc_events_def fun_eq_iff)

lemma quiet_book:
  "(book_reach (ts_orderbook s) \<Longrightarrow> book_reach b) \<Longrightarrow> quiet_step s (s\<lparr>ts_orderbook := b\<rparr>)"
  by (simp add: quiet_step_def clocks_def acc_events_def fun_eq_iff)

lemma quiet_bbo [quiet_intros]: "quiet_step s (update_bbo a b s)"
proof -
  define t where "t = (case a of Some x \<Rightarrow> if price_to_idx x \<noteq> None then s\<lparr>ts_last_bbo_bid_px := Some x\<rparr> else s | None \<Rightarrow> s)"
  have "quiet_step s t" by (simp add: t_def quiet_intros split: option.split)
  moreover have "quiet_step t (update_bbo a b s)"
    by (simp add: update_bbo_def t_def[symmetric] quiet_intros split: option.split)
  ultimately show ?thesis by (rule quiet_trans)
qed

lemma quiet_hash [quiet_intros]: "quiet_step s (set_venue_hash e s)"
  by (simp add: set_venue_hash_def quiet_intros split: option.split)

lemma quiet_price [quiet_intros]: "quiet_step s (set_last_price e s)"
  by (simp add: set_last_price_def quiet_intros split: option.split)

lemma quiet_mark [quiet_intros]: "quiet_step s (mark_resync sec s)"
  by (simp add: mark_resync_def quiet_intros)

lemma quiet_check [quiet_intros]: "quiet_step s (fst (check_resync e sec s))"
  by (simp add: check_resync_def quiet_intros split: option.split)

lemma quiet_count_book [quiet_intros]: "quiet_step s (count_book_update ms s)"
  by (simp add: count_book_update_def quiet_intros)

lemma quiet_anomalies [quiet_intros]: "quiet_step s (add_anomalies ms n s)"
  by (simp add: add_anomalies_def quiet_intros)

lemma quiet_ofi: "quiet_step s (update_ofi sec ts a b c d s)"
proof -
  have "quiet_step s (accumulator_mut sec f (s\<lparr>ts_ofi_window := w\<rparr>))"
    if "\<And>acc. ac_event_count (f acc) = ac_event_count acc" for f w
    by (rule quiet_trans[OF quiet_fields(7) quiet_mut]) (rule that)
  then show ?thesis by (auto simp: update_ofi_def Let_def quiet_refl split: option.split)
qed

lemma quiet_mid: "quiet_step s (update_mid sec ts a b s)"
  unfolding update_mid_def Let_def by (rule quiet_trans[OF quiet_fields(8) quiet_mut]) simp

lemma quiet_levels [quiet_intros]: "quiet_step s (update_ofi_and_levels sec ts s)"
proof -
  have "quiet_step s ((update_mid sec ts a b (update_ofi sec ts a c b d s))\<lparr>ts_prev_best_bid_px := x, ts_prev_best_ask_px := x',
      ts_prev_best_bid_sz := z, ts_prev_best_ask_sz := z'\<rparr>)" for a b c d x x' z z'
    by (rule quiet_trans[OF quiet_trans[OF quiet_ofi quiet_mid] quiet_fields(13)])
  then show ?thesis by (auto simp: update_ofi_and_levels_def quiet_refl split: prod.split option.split)
qed

lemma quiet_flow [quiet_intros]: "quiet_step s (flow_and_levels e ms s)"
  by (simp add: flow_and_levels_def quiet_intros split: option.split)

lemma quiet_delta_window [quiet_intros]: "quiet_step s (update_bid_ask_delta sec ts side dt p z s)"
proof -
  have "quiet_step s (accumulator_mut sec f (case side of Bid \<Rightarrow> s\<lparr>ts_bid_delta_window := w\<rparr> | Ask \<Rightarrow> s\<lparr>ts_ask_delta_window := w'\<rparr>))"
    if "\<And>acc. ac_event_count (f acc) = ac_event_count acc" for f w w'
    by (rule quiet_trans[OF _ quiet_mut[OF that]]) (simp add: quiet_intros split: BookSide.split)
  then show ?thesis by (simp add: update_bid_ask_delta_def Let_def quiet_refl)
qed

lemma quiet_trade_window [quiet_intros]: "quiet_step s (update_trade_window sec ts side n s)"
proof -
  have "quiet_step s (accumulator_mut sec f (s\<lparr>ts_trade_window := w\<rparr>))"
    if "\<And>acc. ac_event_count (f acc) = ac_event_count acc" for f w
    by (rule quiet_trans[OF quiet_fields(11) quiet_mut]) (rule that)
  then show ?thesis by (auto simp: update_trade_window_def Let_def quiet_refl split: prod.split)
qed

lemma quiet_load [quiet_intros]: "quiet_step s (load_snapshot e ms s)"
proof -
  define bids where "bids = p_bids (e_payload e)"
  define asks where "asks = p_asks (e_payload e)"
  obtain n b where ap: "apply_snapshot bids asks (e_local_ts_ms e) (ts_orderbook s) = (n, b)" by force
  obtain bb ba where bba: "best_bid_ask b = (bb, ba)" by force
  define s1 where "s1 = s\<lparr>ts_orderbook := b\<rparr>"
  define s2 where "s2 = (if n > 0 then add_anomalies ms (int n) s1 else s1)"
  have "quiet_step s s1" unfolding s1_def
    by (rule quiet_book) (use ap reach_snapshot[of "ts_orderbook s" bids asks "e_local_ts_ms e"] in simp)
  moreover have "quiet_step s1 s2" by (simp add: s2_def quiet_intros)
  moreover have "quiet_step s2 (s2\<lparr>ts_book_initialized := True\<rparr>)" by (rule quiet_intros)
  moreover have "quiet_step (s2\<lparr>ts_book_initialized := True\<rparr>) (update_bbo bb ba (s2\<lparr>ts_book_initialized := True\<rparr>))"
    by (rule quiet_intros)
  ultimately have "quiet_step s (update_bbo bb ba (s2\<lparr>ts_book_initialized := True\<rparr>))"
    by (meson quiet_trans)
  moreover have "load_snapshot e ms s = (if bids \<noteq> None \<or> asks \<noteq> None
      then update_bbo bb ba (s2\<lparr>ts_book_initialized := True\<rparr>) else s)"
    by (simp add: load_snapshot_def Let_def bids_def[symmetric] asks_def[symmetric] ap bba s1_def s2_def)
  ultimately show ?thesis by (simp add: quiet_refl)
qed

lemma quiet_if: "quiet_step s t \<Longrightarrow> quiet_step s u \<Longrightarrow> quiet_step s (if c then t else u)"
  by simp

lemma quiet_snapshot: "quiet_step s (fst (snapshot_event e sec ms s))"
proof -
  define drift where "drift = (if e_venue e = Opinion \<and> e_exchange_ts_source e = VenueRest
    then check_opinion_snapshot_drift e s else None)"
  define s1 where "s1 = (if drift \<noteq> None then mark_resync sec s else s)"
  define s2 where "s2 = flow_and_levels e ms (set_venue_hash e (count_book_update ms ((load_snapshot e ms s1)\<lparr>ts_resync_needed := False\<rparr>)))"
  define r where "r = (if drift = None then check_resync e sec s2 else (s2, drift))"
  have "quiet_step s s1" unfolding s1_def by (intro quiet_if quiet_intros)
  moreover have "quiet_step s1 s2" unfolding s2_def
    by (rule quiet_trans[OF quiet_load quiet_trans[OF quiet_fields(4) quiet_trans[OF quiet_count_book
      quiet_trans[OF quiet_hash quiet_flow]]]])
  moreover have "quiet_step s2 (fst r)" by (simp add: r_def quiet_intros)
  moreover have "quiet_step (fst r) ((mark_resync sec (fst r))\<lparr>ts_resync_needed := True\<rparr>)" "quiet_step (fst r) (mark_resync sec (fst r))"
    by (rule quiet_trans[OF quiet_mark quiet_fields(4)], rule quiet_mark)
  ultimately have "quiet_step s (fst r)" "quiet_step s (mark_resync sec (fst r))"
    "quiet_step s ((mark_resync sec (fst r))\<lparr>ts_resync_needed := True\<rparr>)" by (meson quiet_trans)+
  moreover have "snapshot_event e sec ms s = (case snd r of None \<Rightarrow> (fst r, None)
      | Some l \<Rightarrow> (if rl_reason l \<noteq> ''rest_mismatch'' then (mark_resync sec (fst r))\<lparr>ts_resync_needed := True\<rparr>
          else mark_resync sec (fst r), Some l))"
    unfolding snapshot_event_def drift_def[symmetric] Let_def s1_def[symmetric] s2_def[symmetric] r_def[symmetric]
    by (simp add: case_prod_beta')
  ultimately show ?thesis by (simp split: option.split)
qed

lemma count_delta_events [simp]: "ac_event_count (count_delta d acc) = ac_event_count acc"
  by (cases d) (simp_all add: count_delta_def)

lemma quiet_apply_level: "quiet_step s (apply_level e ms allow side price sz s)"
proof -
  define s1 where "s1 = (case check_wall_pull side price sz (ts_orderbook s) of
      Some signal \<Rightarrow> with_second ms (\<lambda>acc. acc\<lparr>ac_wall_pull_signal := Some signal\<rparr>) s | None \<Rightarrow> s)"
  obtain bad b where ap: "apply_delta side price sz (e_local_ts_ms e) (ts_orderbook s1) = (bad, b)" by force
  define s2 where "s2 = s1\<lparr>ts_orderbook := b\<rparr>"
  define s3 where "s3 = (if allow \<and> \<not> ts_resync_needed s then if bad then add_anomalies ms 1 s2 else s2 else s)"
  define d where "d = unwrap_or (p_delta_type (e_payload e)) UnknownDelta"
  define s4 where "s4 = with_second ms (count_delta d) s3"
  have "quiet_step s s1" by (simp add: s1_def quiet_intros split: option.split)
  moreover have "quiet_step s1 s2" unfolding s2_def
    by (rule quiet_book) (use ap reach_delta[of "ts_orderbook s1" side price sz "e_local_ts_ms e"] in simp)
  moreover have "quiet_step s2 (if bad then add_anomalies ms 1 s2 else s2)" by (intro quiet_if quiet_intros)
  ultimately have "quiet_step s (if bad then add_anomalies ms 1 s2 else s2)" by (meson quiet_trans)
  then have "quiet_step s s3" unfolding s3_def by (rule quiet_if[OF _ quiet_refl])
  moreover have "quiet_step s3 s4" by (simp add: s4_def quiet_intros)
  moreover have "quiet_step s4 (case ms of None \<Rightarrow> s4 | Some sec \<Rightarrow> update_bid_ask_delta sec (e_local_ts_ms e) side d price sz s4)"
    by (simp add: quiet_intros split: option.split)
  ultimately have "quiet_step s (case ms of None \<Rightarrow> s4 | Some sec \<Rightarrow> update_bid_ask_delta sec (e_local_ts_ms e) side d price sz s4)"
    by (meson quiet_trans)
  moreover have "apply_level e ms allow side price sz s =
      (case ms of None \<Rightarrow> s4 | Some sec \<Rightarrow> update_bid_ask_delta sec (e_local_ts_ms e) side d price sz s4)"
    unfolding apply_level_def Let_def s1_def[symmetric] ap prod.case s2_def[symmetric] d_def[symmetric] s3_def[symmetric] s4_def[symmetric]
    by simp
  ultimately show ?thesis by simp
qed

lemma quiet_delta: "quiet_step s (fst (delta_event e sec ms s))"
proof -
  define allow where "allow = (\<not> (e_venue e = Opinion \<and> \<not> ts_book_initialized s))"
  define p where "p = e_payload e"
  define s1 where "s1 = update_bbo (p_best_bid p) (p_best_ask p) s"
  define s2 where "s2 = (case (p_side p, p_price p, p_size p) of
      (Some side, Some price, Some sz) \<Rightarrow> apply_level e ms allow side price sz s1 | _ \<Rightarrow> s1)"
  define s3 where "s3 = count_book_update ms s2"
  define s4 where "s4 = set_venue_hash e (if allow \<and> \<not> ts_resync_needed s3 then flow_and_levels e ms s3 else s3)"
  define r where "r = check_resync e sec s4"
  have "quiet_step s s1" by (simp add: s1_def quiet_intros)
  moreover have "quiet_step s1 s2" by (simp add: s2_def quiet_apply_level quiet_intros split: option.split)
  moreover have "quiet_step s2 s3" by (simp add: s3_def quiet_intros)
  moreover have "quiet_step s3 s4" unfolding s4_def by (rule quiet_trans[OF _ quiet_hash]) (intro quiet_if quiet_intros)
  moreover have "quiet_step s4 (fst r)" by (simp add: r_def quiet_intros)
  moreover have "quiet_step (fst r) ((mark_resync sec (fst r))\<lparr>ts_resync_needed := True\<rparr>)"
    by (rule quiet_trans[OF quiet_mark quiet_fields(4)])
  ultimately have "quiet_step s s4" "quiet_step s (fst r)" "quiet_step s ((mark_resync sec (fst r))\<lparr>ts_resync_needed := True\<rparr>)"
    by (meson quiet_trans)+
  moreover have "delta_event e sec ms s = (if allow then if snd r \<noteq> None then ((mark_resync sec (fst r))\<lparr>ts_resync_needed := True\<rparr>, snd r)
      else (fst r, None) else (s4, None))"
    unfolding delta_event_def Let_def allow_def[symmetric] p_def[symmetric] s1_def[symmetric] s2_def[symmetric]
      s3_def[symmetric] s4_def[symmetric] r_def[symmetric] by (simp add: case_prod_beta')
  ultimately show ?thesis by simp
qed

lemma count_trade_events [simp]: "ac_event_count (count_trade p acc) = ac_event_count acc"
  by (simp add: count_trade_def Let_def split: option.split)

lemma count_side_events [simp]: "ac_event_count (count_side sd n acc) = ac_event_count acc"
  by (cases sd) (simp_all add: count_side_def)

lemma quiet_trade: "quiet_step s (trade_event e ms s)"
proof (cases ms)
  case None
  then show ?thesis by (simp add: trade_event_def quiet_intros)
next
  case (Some sec)
  define s1 where "s1 = accumulator_mut sec (count_trade (e_payload e)) (set_last_price e s)"
  have "quiet_step s s1" unfolding s1_def by (rule quiet_trans[OF quiet_price quiet_mut]) simp
  moreover have "quiet_step s1 (update_trade_window sec t sd n (accumulator_mut sec (count_side sd n) s1))" for t sd n
    by (rule quiet_trans[OF quiet_mut quiet_trade_window]) simp
  moreover have "quiet_step s1 (accumulator_mut sec (\<lambda>acc. acc\<lparr>ac_trade_side_missing := ac_trade_side_missing acc + 1\<rparr>) s1)"
    by (rule quiet_mut) simp
  ultimately show ?thesis
    unfolding trade_event_def Let_def Some option.case s1_def[symmetric]
    by (simp split: option.split) (meson quiet_trans)
qed

lemma token_event_quiet: "quiet_step (count_event e ms s) (fst (token_event e sec ms s))"
proof -
  define t where "t = count_event e ms s"
  have "quiet_step t (with_second ms (\<lambda>acc. acc\<lparr>ac_critical_event_count := ac_critical_event_count acc + 1\<rparr>) (set_last_price e t))"
    by (rule quiet_trans[OF quiet_price quiet_with_second]) simp
  moreover have "quiet_step t (t\<lparr>ts_orderbook := (ts_orderbook t)\<lparr>bk_tick_px := x\<rparr>\<rparr>)" for x
    by (rule quiet_book) (rule reach_tick)
  ultimately show ?thesis
    unfolding token_event_def Let_def t_def[symmetric]
    by (cases "e_kind e") (simp_all add: quiet_snapshot quiet_delta quiet_trade quiet_refl split: option.split)
qed

subsection \<open>Frames of a flush\<close>

text \<open>What a flush of a second leaves alone, and what its bar says.\<close>

lemma flush_quote_frame:
  "quiet_step s (snd (flush_quote s)) \<and> ts_accumulators (snd (flush_quote s)) = ts_accumulators s"
proof -
  have "quiet_step s (s\<lparr>ts_orderbook := (if c then (ts_orderbook s)\<lparr>bk_tick_px := t\<rparr> else ts_orderbook s)\<rparr>)" for c t
    by (rule quiet_book) (auto intro: reach_tick)
  then show ?thesis by (simp add: flush_quote_def Let_def split: prod.split)
qed

lemma flush_withdrawal_frame:
  "quiet_step s (snd (flush_withdrawal d acc s)) \<and> ts_accumulators (snd (flush_withdrawal d acc s)) = ts_accumulators s"
proof -
  have "quiet_step s (s\<lparr>ts_cancel_ratio_window := w\<rparr>)" for w
    by (simp add: quiet_step_def clocks_def acc_events_def fun_eq_iff)
  then show ?thesis by (simp add: flush_withdrawal_def Let_def quiet_refl split: option.split)
qed

text \<open>The part of a bar that the runs are about.\<close>

definition bar_key :: "Bars1sToken \<Rightarrow> int \<times> int \<times> millis option" where
  "bar_key bar = (br_bar_second bar, br_event_count_1s bar, br_staleness_ms bar)"

lemma flush_bar_key:
  "bar_key (flush_bar hq hmax sec q d wd fl ofi acc s) = (sec, ac_event_count acc, Some (bf_staleness_ms fl))"
  by (simp add: flush_bar_def bar_key_def Let_def split: prod.split)

lemma flush_frame:
  assumes "flush x cfg sec acc s = (s', r)"
  shows "quiet_step s s' \<and> ts_accumulators s' = ts_accumulators s \<and>
    bar_key (fr_bar r) = (sec, ac_event_count acc, Some (max (sec * 1000 - ts_last_event_local_ts_ms s) 0))"
proof -
  obtain q s1 where q: "flush_quote s = (q, s1)" by force
  define d where "d = flush_depths q (ts_orderbook s1)"
  obtain wd s2 where w: "flush_withdrawal d acc s1 = (wd, s2)" by (cases "flush_withdrawal d acc s1")
  define fl where "fl = flush_flags cfg sec s2"
  define ofi where "ofi = push_ofi (ac_ofi acc) (ts_ofi_history s2)"
  define bar where "bar = flush_bar (x_hq x) (x_hmax x) sec q d wd fl ofi acc s2"
  define s3 where "s3 = (if bf_gap fl then s2\<lparr>ts_last_bbo_bid_px := None, ts_last_bbo_ask_px := None\<rparr> else s2)"
  obtain s5 sh where e: "(case ts_shock_engine (s3\<lparr>ts_ofi_history := ofi\<rparr>) of None \<Rightarrow> (s3\<lparr>ts_ofi_history := ofi\<rparr>, [])
      | Some engine \<Rightarrow> let (engine, sigs) = on_bar (x_ln x) (x_keys x) (bar_input bar acc) engine
          in (s3\<lparr>ts_ofi_history := ofi\<rparr>\<lparr>ts_shock_engine := Some engine\<rparr>, sigs)) = (s5, sh)" by force
  have F: "flush x cfg sec acc s = (s5\<lparr>ts_prev_top10_bid := dp_top10_bid d, ts_prev_top10_ask := dp_top10_ask d,
      ts_last_local_topn_hash := dp_hash d\<rparr>, \<lparr>fr_bar = bar, fr_shocks = sh\<rparr>)"
    unfolding flush_def Let_def q prod.case d_def[symmetric] w fl_def[symmetric] ofi_def[symmetric] bar_def[symmetric]
      s3_def[symmetric] e[unfolded Let_def] ..
  have acc: "ts_accumulators s2 = ts_accumulators s" and q2: "quiet_step s s2"
    using flush_quote_frame[of s] flush_withdrawal_frame[of s1 d acc] quiet_trans[of s s1 s2] unfolding q w by auto
  have "ts_accumulators s5 = ts_accumulators s2 \<and> quiet_step s2 s5"
    using e by (auto simp: s3_def quiet_step_def clocks_def acc_events_def fun_eq_iff split: option.splits prod.splits if_splits)
  then have "ts_accumulators s' = ts_accumulators s \<and> quiet_step s2 s'" using assms F acc
    by (auto simp: quiet_step_def clocks_def acc_events_def fun_eq_iff)
  moreover have "ts_last_event_local_ts_ms s2 = ts_last_event_local_ts_ms s" using q2 by (simp add: quiet_step_def clocks_def)
  then have "bar_key (fr_bar r) = (sec, ac_event_count acc, Some (max (sec * 1000 - ts_last_event_local_ts_ms s) 0))"
    using assms F by (auto simp: bar_def flush_bar_key fl_def flush_flags_def Let_def)
  ultimately show ?thesis using q2 quiet_trans by blast
qed

text \<open>The loop over the seconds.\<close>

definition close_seconds :: "(int \<Rightarrow> int) \<Rightarrow> int list \<Rightarrow> int \<Rightarrow> int" where
  "close_seconds ev secs sec = (if sec \<in> set secs then 0 else ev sec)"

lemma flush_second_frame:
  assumes "flush_second x cfg sec (s, rs) = (s', rs')"
  shows "clocks s' = clocks s \<and> ts_pending_shocks s' = ts_pending_shocks s \<and>
    (book_reach (ts_orderbook s) \<longrightarrow> book_reach (ts_orderbook s')) \<and> acc_events s' = (acc_events s)(sec := 0) \<and>
    (\<exists>r. rs' = rs @ [r] \<and>
      bar_key (fr_bar r) = (sec, acc_events s sec, Some (max (sec * 1000 - ts_last_event_local_ts_ms s) 0)))"
proof -
  define acc where "acc = unwrap_or (ts_accumulators s sec) acc_default"
  define t where "t = s\<lparr>ts_accumulators := (ts_accumulators s)(sec := None)\<rparr>"
  obtain s2 r where f: "flush x cfg sec acc t = (s2, r)" by force
  have "ac_event_count acc = acc_events s sec"
    by (simp add: acc_def acc_events_def unwrap_or_def acc_default_def split: option.split)
  moreover have "acc_events t = (acc_events s)(sec := 0)" by (auto simp: t_def acc_events_def)
  moreover have "clocks t = clocks s" "ts_pending_shocks t = ts_pending_shocks s" "ts_orderbook t = ts_orderbook s"
    "ts_last_event_local_ts_ms t = ts_last_event_local_ts_ms s" by (simp_all add: t_def clocks_def)
  moreover have "s' = s2" "rs' = rs @ [r]"
    using assms unfolding flush_second_def Let_def prod.case acc_def[symmetric] t_def[symmetric] f by simp_all
  ultimately show ?thesis using flush_frame[OF f] by (auto simp: quiet_step_def)
qed

lemma flush_seconds_frame:
  assumes "fold (flush_second x cfg) secs (s, rs) = (s', rs')" "distinct secs"
  shows "clocks s' = clocks s \<and> ts_pending_shocks s' = ts_pending_shocks s \<and>
    (book_reach (ts_orderbook s) \<longrightarrow> book_reach (ts_orderbook s')) \<and>
    acc_events s' = close_seconds (acc_events s) secs \<and>
    (\<exists>new. rs' = rs @ new \<and> map (bar_key \<circ> fr_bar) new =
      map (\<lambda>sec. (sec, acc_events s sec, Some (max (sec * 1000 - ts_last_event_local_ts_ms s) 0))) secs)"
  using assms
proof (induction secs arbitrary: s rs)
  case Nil
  then show ?case by (simp add: close_seconds_def fun_eq_iff)
next
  case (Cons sec secs)
  obtain s1 rs1 where 1: "flush_second x cfg sec (s, rs) = (s1, rs1)" by force
  note f = flush_second_frame[OF 1]
  have d: "sec \<notin> set secs" "distinct secs" using Cons.prems(2) by simp_all
  have "fold (flush_second x cfg) secs (s1, rs1) = (s', rs')" using Cons.prems(1) 1 by simp
  note ih = Cons.IH[OF this d(2)]
  have l: "ts_last_event_local_ts_ms s1 = ts_last_event_local_ts_ms s" using f by (simp add: clocks_def)
  have "close_seconds (acc_events s1) secs = close_seconds (acc_events s) (sec # secs)"
    using f by (auto simp: close_seconds_def fun_eq_iff)
  moreover have "map (\<lambda>i. (i, acc_events s1 i, Some (max (i * 1000 - ts_last_event_local_ts_ms s1) 0))) secs
      = map (\<lambda>i. (i, acc_events s i, Some (max (i * 1000 - ts_last_event_local_ts_ms s) 0))) secs"
    using f d(1) l by (auto intro!: map_cong)
  moreover obtain r where "rs1 = rs @ [r]"
    "bar_key (fr_bar r) = (sec, acc_events s sec, Some (max (sec * 1000 - ts_last_event_local_ts_ms s) 0))" using f by blast
  moreover obtain new where "rs' = rs1 @ new" "map (bar_key \<circ> fr_bar) new =
      map (\<lambda>i. (i, acc_events s1 i, Some (max (i * 1000 - ts_last_event_local_ts_ms s1) 0))) secs" using ih by blast
  ultimately have "\<exists>new. rs' = rs @ new \<and> map (bar_key \<circ> fr_bar) new =
      map (\<lambda>i. (i, acc_events s i, Some (max (i * 1000 - ts_last_event_local_ts_ms s) 0))) (sec # secs)"
    by (intro exI[of _ "r # new"]) simp
  moreover have "acc_events s' = close_seconds (acc_events s) (sec # secs)"
    using ih \<open>close_seconds (acc_events s1) secs = _\<close> by simp
  moreover have "clocks s' = clocks s \<and> ts_pending_shocks s' = ts_pending_shocks s \<and>
    (book_reach (ts_orderbook s) \<longrightarrow> book_reach (ts_orderbook s'))" using ih f by simp
  ultimately show ?case by blast
qed

lemma flush_state_frame:
  assumes "flush_state x cfg s = (s', rs)"
  defines "cutoff \<equiv> (if ts_watermark_second s \<le> 0 then ts_last_flushed_second s
    else max (ts_last_flushed_second s) (ts_watermark_second s - 2))"
  shows "ts_watermark_second s' = ts_watermark_second s \<and> ts_last_flushed_second s' = cutoff \<and>
    ts_last_event_local_ts_ms s' = ts_last_event_local_ts_ms s \<and> ts_pending_shocks s' = ts_pending_shocks s \<and>
    (book_reach (ts_orderbook s) \<longrightarrow> book_reach (ts_orderbook s')) \<and>
    acc_events s' = close_seconds (acc_events s) [ts_last_flushed_second s + 1..cutoff] \<and>
    map (bar_key \<circ> fr_bar) rs = map (\<lambda>sec. (sec, acc_events s sec, Some (max (sec * 1000 - ts_last_event_local_ts_ms s) 0)))
      [ts_last_flushed_second s + 1..cutoff]"
proof (cases "ts_watermark_second s \<le> 0 \<or> ts_watermark_second s - 2 \<le> ts_last_flushed_second s")
  case True
  then have "cutoff = ts_last_flushed_second s" by (auto simp: cutoff_def)
  moreover have "s' = s" "rs = []" using assms(1) True by (auto simp: flush_state_def Let_def LATE_EVENT_BUFFER_SECS_def)
  ultimately show ?thesis by (simp add: close_seconds_def fun_eq_iff)
next
  case False
  then have c: "cutoff = ts_watermark_second s - 2" by (simp add: cutoff_def)
  obtain t rs0 where f: "fold (flush_second x cfg) [ts_last_flushed_second s + 1..cutoff] (s, []) = (t, rs0)" by force
  have "s' = t\<lparr>ts_last_flushed_second := cutoff\<rparr>" "rs = rs0"
    using assms(1) False f unfolding flush_state_def Let_def LATE_EVENT_BUFFER_SECS_def c by auto
  moreover have "acc_events (t\<lparr>ts_last_flushed_second := cutoff\<rparr>) = acc_events t" by (simp add: acc_events_def fun_eq_iff)
  ultimately show ?thesis using flush_seconds_frame[OF f] by (auto simp: clocks_def)
qed

end
