(* ===== verification/WorkerSafety.thy ===== *)
theory WorkerSafety
  imports WorkerRuns
begin

text \<open>
  Runs of the shard worker as sequences of inputs, and what holds in all of them: the bars of a token,
  the count of events, the books.
\<close>

subsection \<open>Frames of the emission\<close>

text \<open>Emission writes two fields of a token state; the rest of it is its core.\<close>

definition core :: "TokenState \<Rightarrow> TokenState" where
  "core s = s\<lparr>ts_last_drop_count := 0, ts_pending_shocks := Map.empty\<rparr>"

lemma core_idem [simp]: "core (core s) = core s"
  by (simp add: core_def)

lemma core_writes [simp]: "core (s\<lparr>ts_last_drop_count := n\<rparr>) = core s" "core (s\<lparr>ts_pending_shocks := p\<rparr>) = core s"
  by (simp_all add: core_def)

lemma core_fields [simp]:
  "clocks (core s) = clocks s" "acc_events (core s) = acc_events s" "ts_orderbook (core s) = ts_orderbook s"
  "ts_watermark_second (core s) = ts_watermark_second s" "ts_last_flushed_second (core s) = ts_last_flushed_second s"
  "ts_last_event_local_ts_ms (core s) = ts_last_event_local_ts_ms s"
  by (simp_all add: core_def clocks_def acc_events_def fun_eq_iff)

fun bars_of :: "DbRow list \<Rightarrow> Bars1sToken list" where
  "bars_of [] = []"
| "bars_of (RowBar b # rows) = b # bars_of rows"
| "bars_of (_ # rows) = bars_of rows"

lemma bars_of_append [simp]: "bars_of (xs @ ys) = bars_of xs @ bars_of ys"
  by (induction xs rule: bars_of.induct) simp_all

definition token_bars :: "string \<Rightarrow> ShardWorker \<Rightarrow> Bars1sToken list" where
  "token_bars k w = filter (\<lambda>b. br_token_key b = k) (bars_of (wk_db_out w))"

definition cores :: "ShardWorker \<Rightarrow> string \<Rightarrow> TokenState option" where
  "cores w = (\<lambda>k. map_option core (wk_state w k))"

definition same_view :: "ShardWorker \<Rightarrow> ShardWorker \<Rightarrow> bool" where
  "same_view w w' \<longleftrightarrow> cores w' = cores w \<and> wk_config w' = wk_config w \<and> wk_dirty_tokens w' = wk_dirty_tokens w \<and>
     (\<forall>k. token_bars k w' = token_bars k w)"

lemma same_refl [simp]: "same_view w w"
  by (simp add: same_view_def)

lemma same_view_trans: "same_view w w' \<Longrightarrow> same_view w' w'' \<Longrightarrow> same_view w w''"
  by (simp add: same_view_def)

lemma same_fold: "(\<And>x w. x \<in> set xs \<Longrightarrow> same_view w (f x w)) \<Longrightarrow> same_view w (fold f xs w)"
proof (induction xs arbitrary: w)
  case (Cons x xs)
  then have "same_view w (f x w)" "same_view (f x w) (fold f xs (f x w))" by simp_all
  then show ?case by (simp add: same_view_trans[of w "f x w"])
qed simp

lemma same_upd: "(\<And>s. core (f s) = core s) \<Longrightarrow> same_view w (upd_token k f w)"
  by (auto simp: upd_token_def same_view_def cores_def token_bars_def fun_eq_iff split: option.split)

lemma same_capture: "\<forall>b. row \<noteq> RowBar b \<Longrightarrow> same_view w (capture row w)"
  by (cases row) (simp_all add: capture_def try_send_db_def same_view_def cores_def token_bars_def)

lemma same_send: "same_view w (try_send_pair_message env p m w)"
  by (simp add: try_send_pair_message_def Let_def same_view_def cores_def token_bars_def split: SendOutcome.split)

lemma same_next: "same_view w (snd (next_shock_id w))"
  by (simp add: next_shock_id_def same_view_def cores_def token_bars_def)

lemma same_signal: "same_view w (emit_signal env k p bar sig w)"
proof (cases sig)
  case (PendingSig q)
  have "same_view w (try_send_pair_message env p m (capture (RowShock r) (upd_token k (\<lambda>s. s\<lparr>ts_pending_shocks := g s\<rparr>) (snd (next_shock_id w)))))"
    for m r g
    by (rule same_view_trans[OF same_next same_view_trans[OF same_upd same_view_trans[OF same_capture same_send]]]) simp_all
  then show ?thesis by (simp add: PendingSig emit_signal_def Let_def next_shock_id_def)
next
  case (FinalSig f)
  have "same_view w (upd_token k (\<lambda>s. s\<lparr>ts_pending_shocks := g s\<rparr>) w)" for g by (rule same_upd) simp
  moreover have "same_view v (capture (RowShockUpdate u) v)" for u v by (rule same_capture) simp
  ultimately show ?thesis by (simp add: FinalSig emit_signal_def Let_def split: option.split) (meson same_view_trans)
qed

lemma emit_result_frame:
  assumes "cf_alpha_capture_enabled (wk_config w)"
  shows "cores (emit_result env k r w) = cores w \<and> wk_config (emit_result env k r w) = wk_config w \<and>
    wk_dirty_tokens (emit_result env k r w) = wk_dirty_tokens w \<and>
    (\<exists>bar. bar_key bar = bar_key (fr_bar r) \<and>
      (\<forall>j. token_bars j (emit_result env k r w) = token_bars j w @ (if j = k then [bar] else [])))"
proof -
  define row where "row = health_snapshot (en_health env) (en_now env) (br_venue (fr_bar r)) (br_bar_second (fr_bar r))"
  define drops where "drops = (case wk_state w k of
      Some s \<Rightarrow> ch_dropped_events row > ts_last_drop_count s | None \<Rightarrow> False)"
  define w1 where "w1 = (if drops then upd_token k (\<lambda>s. s\<lparr>ts_last_drop_count := ch_dropped_events row\<rparr>) w else w)"
  define bar where "bar = (fr_bar r)\<lparr>br_health_flags := emit_flags row (br_venue (fr_bar r)) drops (br_health_flags (fr_bar r)),
      br_token_key := k\<rparr>"
  define w2 where "w2 = capture (RowBar bar) w1"
  define w3 where "w3 = (case rs_token_pairs (en_registry env) k of None \<Rightarrow> w2
    | Some pair_ids \<Rightarrow> fold (\<lambda>pair_id w. fold (emit_signal env k pair_id bar) (fr_shocks r)
        (try_send_pair_message env pair_id (TokenBar (pair_input pair_id bar)) w)) pair_ids w2)"
  have e: "emit_result env k r w = w3"
    unfolding emit_result_def Let_def row_def[symmetric] drops_def[symmetric] w1_def[symmetric] bar_def[symmetric] w2_def[symmetric]
      w3_def[symmetric] ..
  have 1: "same_view w w1" by (simp add: w1_def same_upd)
  have "cores w2 = cores w1 \<and> wk_config w2 = wk_config w1 \<and> wk_dirty_tokens w2 = wk_dirty_tokens w1 \<and>
      (\<forall>j. token_bars j w2 = token_bars j w1 @ (if j = k then [bar] else []))"
    using assms 1 by (auto simp: w2_def capture_def try_send_db_def same_view_def cores_def token_bars_def bar_def)
  moreover have "same_view w2 w3"
  proof (cases "rs_token_pairs (en_registry env) k")
    case (Some ids)
    have "same_view v (fold (emit_signal env k p bar) (fr_shocks r) (try_send_pair_message env p m v))" for v p m
      by (rule same_view_trans[OF same_send same_fold]) (rule same_signal)
    then show ?thesis unfolding w3_def Some option.case by (rule same_fold)
  qed (simp add: w3_def)
  moreover have "bar_key bar = bar_key (fr_bar r)" by (simp add: bar_key_def bar_def)
  ultimately show ?thesis using 1 unfolding e same_view_def by auto
qed

lemma emit_results_frame:
  assumes "cf_alpha_capture_enabled (wk_config w)"
  shows "cores (fold (emit_result env k) rs w) = cores w \<and> wk_config (fold (emit_result env k) rs w) = wk_config w \<and>
    wk_dirty_tokens (fold (emit_result env k) rs w) = wk_dirty_tokens w \<and>
    (\<forall>j. map bar_key (token_bars j (fold (emit_result env k) rs w)) =
      map bar_key (token_bars j w) @ (if j = k then map (bar_key \<circ> fr_bar) rs else []))"
  using assms
proof (induction rs arbitrary: w)
  case (Cons r rs)
  note f = emit_result_frame[OF Cons.prems, of env k r]
  then have "cf_alpha_capture_enabled (wk_config (emit_result env k r w))" using Cons.prems by simp
  from Cons.IH[OF this] f show ?case by auto
qed simp

lemma flush_ready_frame:
  assumes cap: "cf_alpha_capture_enabled (wk_config w)" and s: "wk_state w k = Some s"
    and f: "flush_state (en_ext env) (wk_config w) s = (s', rs)"
  shows "cores (flush_ready env k w) = (cores w)(k \<mapsto> core s') \<and> wk_config (flush_ready env k w) = wk_config w \<and>
    wk_dirty_tokens (flush_ready env k w) = wk_dirty_tokens w \<and>
    (\<forall>j. map bar_key (token_bars j (flush_ready env k w)) =
      map bar_key (token_bars j w) @ (if j = k then map (bar_key \<circ> fr_bar) rs else []))"
proof -
  define w1 where "w1 = w\<lparr>wk_state := (wk_state w)(k \<mapsto> s')\<rparr>"
  have "flush_ready env k w = fold (emit_result env k) rs w1"
    by (simp add: flush_ready_def s f w1_def)
  moreover have "cores w1 = (cores w)(k \<mapsto> core s')" "token_bars j w1 = token_bars j w" "wk_config w1 = wk_config w"
    "wk_dirty_tokens w1 = wk_dirty_tokens w" for j
    by (auto simp: w1_def cores_def token_bars_def fun_eq_iff)
  ultimately show ?thesis using emit_results_frame[of w1 env k rs] cap by simp
qed

subsection \<open>Frames of the handlers\<close>

text \<open>The state that an event meets: the token's, or a new one; then the watermark.\<close>

definition met_state :: "Env \<Rightarrow> Event \<Rightarrow> ShardWorker \<Rightarrow> TokenState" where
  "met_state env event w =
    advance_watermark (e_exchange_ts_ms event sdiv 1000)
      (case wk_state w (e_token_key event) of Some s \<Rightarrow> s
       | None \<Rightarrow> token_new (en_now env) (e_venue event)
           (unwrap_or (rs_token_sides (en_registry env) (e_token_key event)) UnknownSide)
           (e_exchange_ts_ms event sdiv 1000))"

lemma count_event_frame:
  "acc_events (count_event e ms s) = (case ms of None \<Rightarrow> acc_events s | Some sec \<Rightarrow> (acc_events s)(sec := acc_events s sec + 1))"
  "ts_watermark_second (count_event e ms s) = ts_watermark_second s"
  "ts_last_flushed_second (count_event e ms s) = ts_last_flushed_second s"
  "ts_last_event_local_ts_ms (count_event e ms s) = e_local_ts_ms e"
  "ts_orderbook (count_event e ms s) = ts_orderbook s"
proof -
  define f where "f = (\<lambda>acc.
      let acc = record_latency (e_exchange_ts_source e) (e_local_ts_ms e) (e_exchange_ts_ms e) acc;
          acc = (if f_ts_missing (e_flags e) then acc\<lparr>ac_ts_missing := ac_ts_missing acc + 1\<rparr> else acc)
      in if f_ts_anomaly (e_flags e) then acc\<lparr>ac_ts_anomaly := ac_ts_anomaly acc + 1\<rparr> else acc)"
  have "ac_event_count (record_latency src a b acc) = ac_event_count acc + 1" for src a b acc
    by (cases src) (simp_all add: record_latency_def Let_def)
  then have "ac_event_count (f acc) = ac_event_count acc + 1" for acc by (simp add: f_def Let_def)
  moreover have "count_event e ms s = with_second ms f (s\<lparr>ts_last_event_local_ts_ms := e_local_ts_ms e\<rparr>)"
    by (simp add: count_event_def f_def)
  ultimately show "acc_events (count_event e ms s) = (case ms of None \<Rightarrow> acc_events s | Some sec \<Rightarrow> (acc_events s)(sec := acc_events s sec + 1))"
    "ts_watermark_second (count_event e ms s) = ts_watermark_second s"
    "ts_last_flushed_second (count_event e ms s) = ts_last_flushed_second s"
    "ts_last_event_local_ts_ms (count_event e ms s) = e_local_ts_ms e"
    "ts_orderbook (count_event e ms s) = ts_orderbook s"
    by (auto simp: with_second_def accumulator_mut_def acc_events_def acc_default_def unwrap_or_def fun_eq_iff split: option.split)
qed

text \<open>Before the flush: the event at its token.\<close>

definition event_state :: "Env \<Rightarrow> Event \<Rightarrow> ShardWorker \<Rightarrow> TokenState" where
  "event_state env event w =
    (let sec = e_exchange_ts_ms event sdiv 1000; s = met_state env event w; ms = metrics_second_of sec s
     in fst (token_event (mark_late ms event) sec ms s))"

lemma event_state_frame:
  fixes env event w
  defines "s \<equiv> met_state env event w" and "sec \<equiv> e_exchange_ts_ms event sdiv 1000"
  shows "acc_events (event_state env event w) =
      (if sec \<le> ts_last_flushed_second s then acc_events s else (acc_events s)(sec := acc_events s sec + 1))"
    "ts_watermark_second (event_state env event w) = ts_watermark_second s"
    "ts_last_flushed_second (event_state env event w) = ts_last_flushed_second s"
    "ts_last_event_local_ts_ms (event_state env event w) = e_local_ts_ms event"
    "book_reach (ts_orderbook s) \<Longrightarrow> book_reach (ts_orderbook (event_state env event w))"
proof -
  define ms where "ms = metrics_second_of sec s"
  have "event_state env event w = fst (token_event (mark_late ms event) sec ms s)"
    by (simp add: event_state_def Let_def s_def sec_def ms_def)
  then have q: "quiet_step (count_event (mark_late ms event) ms s) (event_state env event w)"
    using token_event_quiet by metis
  have l: "e_local_ts_ms (mark_late ms event) = e_local_ts_ms event" by (simp add: mark_late_def)
  show "acc_events (event_state env event w) =
      (if sec \<le> ts_last_flushed_second s then acc_events s else (acc_events s)(sec := acc_events s sec + 1))"
    using q by (simp add: quiet_step_def count_event_frame ms_def metrics_second_of_def)
  show "ts_watermark_second (event_state env event w) = ts_watermark_second s"
    "ts_last_flushed_second (event_state env event w) = ts_last_flushed_second s"
    "ts_last_event_local_ts_ms (event_state env event w) = e_local_ts_ms event"
    using q by (simp_all add: quiet_step_def clocks_def count_event_frame l)
  show "book_reach (ts_orderbook s) \<Longrightarrow> book_reach (ts_orderbook (event_state env event w))"
    using q by (simp add: quiet_step_def count_event_frame)
qed

lemma snapshot_counters_frame:
  "wk_state (snapshot_counters env e w) = wk_state w" "wk_config (snapshot_counters env e w) = wk_config w"
  "wk_db_out (snapshot_counters env e w) = wk_db_out w" "wk_dirty_tokens (snapshot_counters env e w) = wk_dirty_tokens w"
  by (simp_all add: snapshot_counters_def Let_def record_metrics_def)

lemma handle_event_frame:
  assumes cap: "cf_alpha_capture_enabled (wk_config w)"
    and f: "flush_state (en_ext env) (wk_config w) (event_state env event w) = (s', rs)"
  defines "k \<equiv> e_token_key event"
  shows "cores (handle_event env event w) = (cores w)(k \<mapsto> core s') \<and>
    wk_config (handle_event env event w) = wk_config w \<and>
    wk_dirty_tokens (handle_event env event w) = insert k (wk_dirty_tokens w) \<and>
    (\<forall>j. map bar_key (token_bars j (handle_event env event w)) =
      map bar_key (token_bars j w) @ (if j = k then map (bar_key \<circ> fr_bar) rs else []))"
proof -
  define sec where "sec = e_exchange_ts_ms event sdiv 1000"
  define w1 where "w1 = ensure_token env event sec (receive_event event w)"
  define s0 where "s0 = (case wk_state w k of Some s \<Rightarrow> s | None \<Rightarrow> token_new (en_now env) (e_venue event)
           (unwrap_or (rs_token_sides (en_registry env) k) UnknownSide) sec)"
  have w1: "wk_state w1 = (wk_state w)(k \<mapsto> s0)" "wk_config w1 = wk_config w" "wk_db_out w1 = wk_db_out w"
    "wk_dirty_tokens w1 = wk_dirty_tokens w"
    by (auto simp: w1_def ensure_token_def receive_event_def s0_def k_def fun_eq_iff split: option.split)
  then have w1k: "wk_state w1 k = Some s0" by simp
  define s1 where "s1 = advance_watermark sec s0"
  have s1: "s1 = met_state env event w" unfolding s1_def met_state_def s0_def k_def sec_def ..
  define ms where "ms = metrics_second_of sec s1"
  obtain s2 log where te: "token_event (mark_late ms event) sec ms s1 = (s2, log)" by force
  have s2: "s2 = event_state env event w"
    using te by (simp add: event_state_def Let_def s1[symmetric] ms_def[symmetric] sec_def[symmetric])
  define ev where "ev = (mark_late ms event)\<lparr>e_payload := (e_payload (mark_late ms event))\<lparr>p_bids := None, p_asks := None\<rparr>\<rparr>"
  define w2 where "w2 = snapshot_counters env (mark_late ms event) (w1\<lparr>wk_state := (wk_state w1)(k \<mapsto> s2)\<rparr>)"
  define w3 where "w3 = w2\<lparr>wk_dirty_tokens := insert k (wk_dirty_tokens w2)\<rparr>"
  define w4 where "w4 = flush_ready env k w3"
  define w5 where "w5 = capture (RowEvent ev) w4"
  have H: "handle_event env event w = (case log of Some l \<Rightarrow> capture (RowResync l) w5 | None \<Rightarrow> w5)"
    unfolding handle_event_def Let_def sec_def[symmetric] k_def[symmetric] w1_def[symmetric] w1k option.case
      s1_def[symmetric] ms_def[symmetric] te prod.case w2_def[symmetric] w3_def[symmetric] w4_def[symmetric]
      ev_def[symmetric] w5_def[symmetric] ..
  have w3: "wk_state w3 k = Some s2" "wk_config w3 = wk_config w" "wk_dirty_tokens w3 = insert k (wk_dirty_tokens w)"
    "cores w3 = (cores w)(k \<mapsto> core s2)" "\<And>j. token_bars j w3 = token_bars j w"
    by (auto simp: w3_def w2_def snapshot_counters_frame w1 cores_def token_bars_def fun_eq_iff)
  have "same_view w4 w5" unfolding w5_def by (rule same_capture) simp
  moreover have "same_view w5 (case log of Some l \<Rightarrow> capture (RowResync l) w5 | None \<Rightarrow> w5)"
    by (auto split: option.split intro!: same_capture)
  ultimately have v: "same_view w4 (handle_event env event w)" unfolding H by (rule same_view_trans)
  have "cf_alpha_capture_enabled (wk_config w3)" "flush_state (en_ext env) (wk_config w3) s2 = (s', rs)"
    using cap f w3(2) s2 by simp_all
  from flush_ready_frame[OF this(1) w3(1) this(2)] v show ?thesis
    unfolding same_view_def w4_def[symmetric] w3 by simp
qed

lemma tick_token_frame:
  assumes cap: "cf_alpha_capture_enabled (wk_config w)" and s: "wk_state w k = Some s"
    and f: "flush_state (en_ext env) (wk_config w)
      (if ts_watermark_second s > 0 \<and> b > ts_watermark_second s then s\<lparr>ts_watermark_second := b\<rparr> else s) = (s', rs)"
  shows "cores (tick_token env b k w) = (cores w)(k \<mapsto> core s') \<and> wk_config (tick_token env b k w) = wk_config w \<and>
    wk_dirty_tokens (tick_token env b k w) = wk_dirty_tokens w \<and>
    (\<forall>j. map bar_key (token_bars j (tick_token env b k w)) =
      map bar_key (token_bars j w) @ (if j = k then map (bar_key \<circ> fr_bar) rs else []))"
proof -
  define g where "g = (\<lambda>s :: TokenState. if ts_watermark_second s > 0 \<and> b > ts_watermark_second s then s\<lparr>ts_watermark_second := b\<rparr> else s)"
  define w1 where "w1 = upd_token k g w"
  have w1: "wk_state w1 k = Some (g s)" "wk_config w1 = wk_config w" "wk_dirty_tokens w1 = wk_dirty_tokens w"
    "cores w1 = (cores w)(k \<mapsto> core (g s))" "\<And>j. token_bars j w1 = token_bars j w"
    by (auto simp: w1_def upd_token_def s cores_def token_bars_def fun_eq_iff)
  have "tick_token env b k w = flush_ready env k w1" by (simp add: tick_token_def w1_def g_def)
  moreover have "flush_state (en_ext env) (wk_config w1) (g s) = (s', rs)" using f w1(2) by (simp add: g_def)
  moreover have "cf_alpha_capture_enabled (wk_config w1)" using cap w1(2) by simp
  ultimately show ?thesis using flush_ready_frame[of w1 k "g s" env s' rs] w1 by simp
qed

lemma tick_token_absent: "wk_state w k = None \<Longrightarrow> tick_token env b k w = w"
  by (simp add: tick_token_def upd_token_def flush_ready_def)

end
