(* ===== verification/WorkerProps.thy ===== *)
theory WorkerProps
  imports WorkerSafety
begin

text \<open>
  The properties of the shard worker: bars and events over whole runs, and what happens to a token
  that stays silent.
\<close>

datatype WorkerInput = InEvent Event | InTick int

fun worker_step :: "Env \<times> WorkerInput \<Rightarrow> ShardWorker \<Rightarrow> ShardWorker" where
  "worker_step (env, InEvent event) w = handle_event env event w"
| "worker_step (env, InTick bar_second) w = handle_tick env bar_second w"

definition worker_run :: "ShardConfig \<Rightarrow> int \<Rightarrow> (Env \<times> WorkerInput) list \<Rightarrow> ShardWorker" where
  "worker_run cfg next_shock ops = fold worker_step ops (worker_new cfg next_shock)"

text \<open>The keys of the bars sent for a token.\<close>

definition bar_keys :: "string \<Rightarrow> ShardWorker \<Rightarrow> (int \<times> int \<times> millis option) list" where
  "bar_keys k w = map bar_key (token_bars k w)"

lemmas handler_frames = handle_event_frame[folded bar_keys_def] tick_token_frame[folded bar_keys_def]

subsection \<open>Invariants of a token\<close>

text \<open>
  What a fact about a token state and the keys of its bars has to withstand: creation, the watermark,
  an event, and a flush. It then holds for every token in every run.
\<close>

locale token_invariant =
  fixes P :: "TokenState \<Rightarrow> (int \<times> int \<times> millis option) list \<Rightarrow> bool"
  assumes on_core: "P (core s) bs \<longleftrightarrow> P s bs"
    and on_new: "P (token_new now venue side sec) []"
    and on_watermark: "P s bs \<Longrightarrow> P (advance_watermark sec s) bs"
    and on_tick: "P s bs \<Longrightarrow> 0 < ts_watermark_second s \<Longrightarrow> ts_watermark_second s < b \<Longrightarrow> P (s\<lparr>ts_watermark_second := b\<rparr>) bs"
    and on_event: "P s bs \<Longrightarrow> P (fst (token_event event sec ms s)) bs"
    and on_flush: "P s bs \<Longrightarrow> flush_state x cfg s = (s', rs) \<Longrightarrow> P s' (bs @ map (bar_key \<circ> fr_bar) rs)"
begin

definition holds :: "ShardWorker \<Rightarrow> bool" where
  "holds w \<longleftrightarrow> cf_alpha_capture_enabled (wk_config w) \<and>
     (\<forall>k. (cores w k = None \<longrightarrow> bar_keys k w = []) \<and> (\<forall>s. cores w k = Some s \<longrightarrow> P s (bar_keys k w)))"

lemma holds_token: "holds w \<Longrightarrow> wk_state w k = Some s \<Longrightarrow> P s (bar_keys k w)"
  by (auto simp: holds_def cores_def on_core dest: spec[of _ k])

lemma holds_absent: "holds w \<Longrightarrow> wk_state w k = None \<Longrightarrow> bar_keys k w = []"
  by (auto simp: holds_def cores_def dest: spec[of _ k])

lemma holds_event:
  assumes h: "holds w"
  shows "holds (handle_event env event w)"
proof -
  define k where "k = e_token_key event"
  define bs where "bs = bar_keys k w"
  have "P (met_state env event w) bs"
  proof (cases "wk_state w k")
    case None
    then show ?thesis
      using holds_absent[OF h None] on_watermark[OF on_new] by (simp add: met_state_def k_def bs_def)
  next
    case (Some s)
    then show ?thesis
      using on_watermark[OF holds_token[OF h Some]] by (simp add: met_state_def k_def bs_def)
  qed
  then have e: "P (event_state env event w) bs" unfolding event_state_def Let_def by (rule on_event)
  obtain s' rs where f: "flush_state (en_ext env) (wk_config w) (event_state env event w) = (s', rs)" by force
  have "P (core s') (bs @ map (bar_key \<circ> fr_bar) rs)" using on_flush[OF e f] by (simp add: on_core)
  moreover have "cf_alpha_capture_enabled (wk_config w)" using h by (simp add: holds_def)
  moreover note handler_frames(1)[OF this f]
  ultimately show ?thesis using h by (auto simp: holds_def k_def bs_def split: if_splits)
qed

lemma holds_tick_token:
  assumes h: "holds w"
  shows "holds (tick_token env b k w)"
proof (cases "wk_state w k")
  case None
  then show ?thesis using h by (simp add: tick_token_absent)
next
  case (Some s)
  define bs where "bs = bar_keys k w"
  define t where "t = (if ts_watermark_second s > 0 \<and> b > ts_watermark_second s then s\<lparr>ts_watermark_second := b\<rparr> else s)"
  have t: "P t bs" using holds_token[OF h Some] on_tick by (simp add: t_def bs_def)
  obtain s' rs where f: "flush_state (en_ext env) (wk_config w) t = (s', rs)" by force
  have "P (core s') (bs @ map (bar_key \<circ> fr_bar) rs)" using on_flush[OF t f] by (simp add: on_core)
  moreover have "cf_alpha_capture_enabled (wk_config w)" using h by (simp add: holds_def)
  moreover note handler_frames(2)[OF this Some f[unfolded t_def]]
  ultimately show ?thesis using h by (auto simp: holds_def bs_def split: if_splits)
qed

lemma holds_view:
  assumes "holds w" "wk_state w' = wk_state w" "wk_config w' = wk_config w" "wk_db_out w' = wk_db_out w"
  shows "holds w'"
  using assms(1) unfolding holds_def cores_def bar_keys_def token_bars_def assms(2-4) .

lemma holds_tick: "holds w \<Longrightarrow> holds (handle_tick env b w)"
proof -
  assume h: "holds w"
  define w1 where "w1 = w\<lparr>wk_tick_count := wk_tick_count w + 1, wk_dirty_tokens := {}\<rparr>"
  define w2 where "w2 = fold (tick_token env b) (en_order env (wk_dirty_tokens w)) w1"
  have "holds w1" by (rule holds_view[OF h]) (simp_all add: w1_def)
  moreover have "holds v \<Longrightarrow> holds (fold (tick_token env b) ks v)" for v ks
    by (induction ks arbitrary: v) (simp_all add: holds_tick_token)
  ultimately have "holds w2" by (simp add: w2_def)
  moreover have "handle_tick env b w = (if b mod 5 = 0 then record_metrics env w2 else w2)"
    unfolding handle_tick_def Let_def w1_def[symmetric] w2_def[symmetric] ..
  moreover have "holds (record_metrics env w2)" if "holds w2"
    by (rule holds_view[OF that]) (simp_all add: record_metrics_def)
  ultimately show ?thesis by simp
qed

lemma holds_run: "cf_alpha_capture_enabled cfg \<Longrightarrow> holds (worker_run cfg n ops)"
proof -
  assume "cf_alpha_capture_enabled cfg"
  then have "holds (worker_new cfg n)" by (simp add: holds_def worker_new_def cores_def bar_keys_def token_bars_def)
  moreover have "holds w \<Longrightarrow> holds (fold worker_step ops w)" for w
  proof (induction ops arbitrary: w)
    case (Cons op ops)
    obtain env i where "op = (env, i)" by force
    with Cons show ?case by (cases i) (simp_all add: holds_event holds_tick)
  qed simp
  ultimately show ?thesis by (simp add: worker_run_def)
qed

end

text \<open>The bars of a token so far: consecutive seconds up to the last one flushed.\<close>

definition gapless :: "TokenState \<Rightarrow> (int \<times> int \<times> millis option) list \<Rightarrow> bool" where
  "gapless s bs \<longleftrightarrow> (ts_watermark_second s \<le> 0 \<longrightarrow> bs = []) \<and>
     (\<exists>a\<le>ts_last_flushed_second s + 1. map fst bs = [a..ts_last_flushed_second s])"

lemma quiet_clocks: "quiet_step s s' \<Longrightarrow> ts_watermark_second s' = ts_watermark_second s \<and>
    ts_last_flushed_second s' = ts_last_flushed_second s"
  by (simp add: quiet_step_def clocks_def)

lemma token_event_clocks:
  "ts_watermark_second (fst (token_event e sec ms s)) = ts_watermark_second s"
  "ts_last_flushed_second (fst (token_event e sec ms s)) = ts_last_flushed_second s"
  using quiet_clocks[OF token_event_quiet[of e ms s sec]] by (simp_all add: count_event_frame)

lemma upto_join:
  assumes "a \<le> m + 1" "m \<le> (c::int)"
  shows "[a..m] @ [m + 1..c] = [a..c]"
proof (cases "a \<le> m")
  case True
  then show ?thesis using upto_split2[OF True assms(2)] by simp
next
  case False
  then have "a = m + 1" using assms(1) by simp
  then show ?thesis by simp
qed

lemma gapless_flush:
  assumes g: "gapless s bs" and f: "flush_state x cfg s = (s', rs)"
  shows "gapless s' (bs @ map (bar_key \<circ> fr_bar) rs)"
proof -
  define c where "c = ts_last_flushed_second s'"
  note F = flush_state_frame[OF f]
  have c: "c = (if ts_watermark_second s \<le> 0 then ts_last_flushed_second s
      else max (ts_last_flushed_second s) (ts_watermark_second s - 2))" using F by (simp add: c_def)
  have m: "map (bar_key \<circ> fr_bar) rs = map (\<lambda>sec. (sec, acc_events s sec, Some (max (sec * 1000 - ts_last_event_local_ts_ms s) 0)))
      [ts_last_flushed_second s + 1..c]" using F by (simp add: c_def)
  obtain a where a: "a \<le> ts_last_flushed_second s + 1" "map fst bs = [a..ts_last_flushed_second s]"
    using g by (auto simp: gapless_def)
  have "[a..ts_last_flushed_second s] @ [ts_last_flushed_second s + 1..c] = [a..c]"
    using a(1) c by (intro upto_join) auto
  moreover have "map fst (bs @ map (bar_key \<circ> fr_bar) rs) = [a..ts_last_flushed_second s] @ [ts_last_flushed_second s + 1..c]"
    unfolding m by (simp add: a(2) comp_def)
  moreover have "bs = []" "rs = []" if "ts_watermark_second s \<le> 0"
    using that g c m by (auto simp: gapless_def)
  moreover have "a \<le> c + 1" using a(1) c by auto
  moreover have "ts_watermark_second s' = ts_watermark_second s" using F by simp
  ultimately show ?thesis by (auto simp: gapless_def c_def[symmetric])
qed

interpretation bars: token_invariant gapless
proof
  fix s bs and now :: millis and venue side sec b event ms x cfg s' rs
  show "gapless (core s) bs \<longleftrightarrow> gapless s bs" by (simp add: gapless_def)
  show "gapless (token_new now venue side sec) []"
    by (auto simp: gapless_def token_new_def Let_def intro!: exI[of _ "_ + 1 :: int"])
  show "gapless s bs \<Longrightarrow> gapless (advance_watermark sec s) bs"
    by (auto simp: gapless_def advance_watermark_def intro!: exI[of _ "_ + 1 :: int"])
  show "gapless s bs \<Longrightarrow> 0 < ts_watermark_second s \<Longrightarrow> ts_watermark_second s < b \<Longrightarrow> gapless (s\<lparr>ts_watermark_second := b\<rparr>) bs"
    by (simp add: gapless_def)
  show "gapless s bs \<Longrightarrow> gapless (fst (token_event event sec ms s)) bs"
    by (simp add: gapless_def token_event_clocks)
  show "gapless s bs \<Longrightarrow> flush_state x cfg s = (s', rs) \<Longrightarrow> gapless s' (bs @ map (bar_key \<circ> fr_bar) rs)"
    by (rule gapless_flush)
qed

interpretation books: token_invariant "\<lambda>s _. book_reach (ts_orderbook s)"
proof
  fix s :: TokenState and now :: millis and venue side sec b event ms x cfg s' rs
  show "book_reach (ts_orderbook (core s)) \<longleftrightarrow> book_reach (ts_orderbook s)" by simp
  show "book_reach (ts_orderbook (token_new now venue side sec))"
    by (simp add: token_new_def Let_def reach_default)
  show "book_reach (ts_orderbook s) \<Longrightarrow> book_reach (ts_orderbook (advance_watermark sec s))"
    by (simp add: advance_watermark_def)
  show "book_reach (ts_orderbook s) \<Longrightarrow> book_reach (ts_orderbook (s\<lparr>ts_watermark_second := b\<rparr>))" by simp
  show "book_reach (ts_orderbook s) \<Longrightarrow> book_reach (ts_orderbook (fst (token_event event sec ms s)))"
    using token_event_quiet[of event ms s sec] by (simp add: quiet_step_def count_event_frame)
  show "book_reach (ts_orderbook s) \<Longrightarrow> flush_state x cfg s = (s', rs) \<Longrightarrow> book_reach (ts_orderbook s')"
    using flush_state_frame[of x cfg s s' rs] by simp
qed

subsection \<open>Bars and events over a run\<close>

lemma bar_keys_seconds: "map fst (bar_keys k w) = map br_bar_second (token_bars k w)"
  by (simp add: bar_keys_def bar_key_def comp_def)

text \<open>
  C17. In every run of a shard worker that captures its bars, the bars of a token cover consecutive
  seconds, each exactly once and in order, up to the last second flushed; a token without a state has
  no bar.
\<close>

theorem worker_bars_consecutive:
  assumes "cf_alpha_capture_enabled cfg"
  shows "case wk_state (worker_run cfg n ops) k of
      None \<Rightarrow> token_bars k (worker_run cfg n ops) = []
    | Some s \<Rightarrow> \<exists>a. map br_bar_second (token_bars k (worker_run cfg n ops)) = [a..ts_last_flushed_second s]"
proof (cases "wk_state (worker_run cfg n ops) k")
  case None
  then show ?thesis using bars.holds_absent[OF bars.holds_run[OF assms] None] by (simp add: bar_keys_def)
next
  case (Some s)
  then show ?thesis using bars.holds_token[OF bars.holds_run[OF assms] Some] bar_keys_seconds by (auto simp: gapless_def)
qed

text \<open>The events that a run counts for a token and second: those that are not late when they arrive.\<close>

definition on_time :: "string \<Rightarrow> int \<Rightarrow> Env \<times> WorkerInput \<Rightarrow> ShardWorker \<Rightarrow> int" where
  "on_time k sec op w =
    (case op of
       (env, InEvent event) \<Rightarrow>
         if e_token_key event = k \<and> e_exchange_ts_ms event sdiv 1000 = sec \<and>
           metrics_second_of sec (met_state env event w) \<noteq> None then 1 else 0
     | (env, InTick b) \<Rightarrow> 0)"

fun on_time_count :: "string \<Rightarrow> int \<Rightarrow> (Env \<times> WorkerInput) list \<Rightarrow> ShardWorker \<Rightarrow> int" where
  "on_time_count k sec [] w = 0"
| "on_time_count k sec (op # ops) w = on_time k sec op w + on_time_count k sec ops (worker_step op w)"

definition open_events :: "ShardWorker \<Rightarrow> string \<Rightarrow> int \<Rightarrow> int" where
  "open_events w k sec = (case wk_state w k of None \<Rightarrow> 0 | Some s \<Rightarrow> acc_events s sec)"

definition counted :: "string \<Rightarrow> int \<Rightarrow> ShardWorker \<Rightarrow> int" where
  "counted k sec w =
    sum_list (map (\<lambda>key. fst (snd key)) (filter (\<lambda>key. fst key = sec) (bar_keys k w))) + open_events w k sec"

lemma open_events_cores: "open_events w k sec = (case cores w k of None \<Rightarrow> 0 | Some s \<Rightarrow> acc_events s sec)"
  by (simp add: open_events_def cores_def split: option.split)

lemma sum_closed:
  assumes "distinct secs"
  shows "sum_list (map (\<lambda>key. fst (snd key)) (filter (\<lambda>key. fst key = sec) (map (\<lambda>i. (i, ev i, z i)) secs))) +
    close_seconds ev secs sec = ev sec"
  using assms by (induction secs) (auto simp: close_seconds_def filter_empty_conv)

lemma counted_flush:
  assumes "flush_state x cfg s = (s', rs)"
  shows "sum_list (map (\<lambda>key. fst (snd key)) (filter (\<lambda>key. fst key = sec) (map (bar_key \<circ> fr_bar) rs))) + acc_events s' sec = acc_events s sec"
proof -
  define c where "c = (if ts_watermark_second s \<le> 0 then ts_last_flushed_second s
    else max (ts_last_flushed_second s) (ts_watermark_second s - 2))"
  have "acc_events s' = close_seconds (acc_events s) [ts_last_flushed_second s + 1..c]"
    "map (bar_key \<circ> fr_bar) rs = map (\<lambda>sec. (sec, acc_events s sec, Some (max (sec * 1000 - ts_last_event_local_ts_ms s) 0)))
      [ts_last_flushed_second s + 1..c]" using flush_state_frame[OF assms] by (auto simp: c_def)
  then show ?thesis using sum_closed[of "[ts_last_flushed_second s + 1..c]" sec "acc_events s"] by simp
qed

lemma met_state_events:
  "acc_events (met_state env event w) sec = open_events w (e_token_key event) sec"
  by (auto simp: met_state_def advance_watermark_def open_events_def acc_events_def token_new_def Let_def split: option.split)

lemma counted_event:
  assumes cap: "cf_alpha_capture_enabled (wk_config w)"
  shows "counted k sec (handle_event env event w) = counted k sec w + on_time k sec (env, InEvent event) w"
proof -
  obtain s' rs where f: "flush_state (en_ext env) (wk_config w) (event_state env event w) = (s', rs)" by force
  note H = handler_frames(1)[OF cap f]
  have e: "acc_events (event_state env event w) sec = open_events w (e_token_key event) sec
      + (if e_exchange_ts_ms event sdiv 1000 = sec \<and> metrics_second_of sec (met_state env event w) \<noteq> None then 1 else 0)"
    by (auto simp: event_state_frame(1) met_state_events metrics_second_of_def)
  show ?thesis
    using H e counted_flush[OF f, of sec]
    by (cases "k = e_token_key event") (simp_all add: counted_def open_events_cores on_time_def)
qed

lemma counted_tick_token:
  assumes cap: "cf_alpha_capture_enabled (wk_config w)"
  shows "counted k sec (tick_token env b j w) = counted k sec w \<and> wk_config (tick_token env b j w) = wk_config w"
proof (cases "wk_state w j")
  case None
  then show ?thesis by (simp add: tick_token_absent)
next
  case (Some s)
  define t where "t = (if ts_watermark_second s > 0 \<and> b > ts_watermark_second s then s\<lparr>ts_watermark_second := b\<rparr> else s)"
  obtain s' rs where f: "flush_state (en_ext env) (wk_config w) t = (s', rs)" by force
  have "acc_events t = acc_events s" by (simp add: t_def acc_events_def fun_eq_iff)
  then show ?thesis
    using handler_frames(2)[OF cap Some f[unfolded t_def]] counted_flush[OF f, of sec] Some
    by (cases "k = j") (simp_all add: counted_def open_events_cores cores_def)
qed

lemma counted_view: "wk_state w' = wk_state w \<Longrightarrow> wk_db_out w' = wk_db_out w \<Longrightarrow> counted k sec w' = counted k sec w"
  by (simp add: counted_def open_events_def bar_keys_def token_bars_def)

lemma fold_tick_counted:
  "cf_alpha_capture_enabled (wk_config w) \<Longrightarrow>
    counted k sec (fold (tick_token env b) js w) = counted k sec w \<and> wk_config (fold (tick_token env b) js w) = wk_config w"
  by (induction js arbitrary: w) (simp_all add: counted_tick_token)

lemma counted_step:
  assumes cap: "cf_alpha_capture_enabled (wk_config w)"
  shows "counted k sec (worker_step op w) = counted k sec w + on_time k sec op w \<and> wk_config (worker_step op w) = wk_config w"
proof -
  obtain env i where op: "op = (env, i)" by force
  show ?thesis
  proof (cases i)
    case (InEvent event)
    obtain s' rs where "flush_state (en_ext env) (wk_config w) (event_state env event w) = (s', rs)" by force
    from handler_frames(1)[OF cap this] counted_event[OF cap] show ?thesis by (simp add: op InEvent)
  next
    case (InTick b)
    define w1 where "w1 = w\<lparr>wk_tick_count := wk_tick_count w + 1, wk_dirty_tokens := {}\<rparr>"
    define w2 where "w2 = fold (tick_token env b) (en_order env (wk_dirty_tokens w)) w1"
    have "counted k sec w1 = counted k sec w" "wk_config w1 = wk_config w"
      by (rule counted_view) (simp_all add: w1_def)
    then have "counted k sec w2 = counted k sec w" "wk_config w2 = wk_config w"
      using fold_tick_counted[of w1] cap by (simp_all add: w2_def)
    moreover have "handle_tick env b w = (if b mod 5 = 0 then record_metrics env w2 else w2)"
      unfolding handle_tick_def Let_def w1_def[symmetric] w2_def[symmetric] ..
    moreover have "counted k sec (record_metrics env w2) = counted k sec w2" "wk_config (record_metrics env w2) = wk_config w2"
      by (rule counted_view) (simp_all add: record_metrics_def)
    ultimately show ?thesis by (simp add: op InTick on_time_def)
  qed
qed

lemma counted_run:
  "cf_alpha_capture_enabled (wk_config w) \<Longrightarrow>
    counted k sec (fold worker_step ops w) = counted k sec w + on_time_count k sec ops w"
proof (induction ops arbitrary: w)
  case (Cons op ops)
  from counted_step[OF Cons.prems, of k sec op] Cons.prems Cons.IH[of "worker_step op w"] show ?case by simp
qed simp

text \<open>
  C16. Events are neither lost nor counted twice: in every run, the event counts of the bars of a token
  and second, plus the count still open in its accumulator, are the number of its events of that
  second that were not late on arrival.
\<close>

theorem worker_events_counted:
  assumes "cf_alpha_capture_enabled cfg"
  shows "sum_list (map br_event_count_1s (filter (\<lambda>b. br_bar_second b = sec) (token_bars k (worker_run cfg n ops)))) +
    open_events (worker_run cfg n ops) k sec = on_time_count k sec ops (worker_new cfg n)"
proof -
  have "counted k sec (worker_new cfg n) = 0" "cf_alpha_capture_enabled (wk_config (worker_new cfg n))"
    using assms by (simp_all add: counted_def worker_new_def bar_keys_def token_bars_def open_events_def)
  with counted_run[of "worker_new cfg n" k sec ops]
  have "counted k sec (worker_run cfg n ops) = on_time_count k sec ops (worker_new cfg n)" by (simp add: worker_run_def)
  moreover have "sum_list (map (\<lambda>key. fst (snd key)) (filter (\<lambda>key. fst key = sec) (map bar_key bs))) =
      sum_list (map br_event_count_1s (filter (\<lambda>b. br_bar_second b = sec) bs))" for bs
    by (induction bs) (simp_all add: bar_key_def)
  ultimately show ?thesis by (simp add: counted_def bar_keys_def)
qed

text \<open>
  Every order book of a worker stays exact: in every run, each token's book is one that book
  operations reach, so its best prices are the true ones and its counts match its levels.
\<close>

theorem worker_books_exact:
  assumes "cf_alpha_capture_enabled cfg" "wk_state (worker_run cfg n ops) k = Some s"
  shows "book_reach (ts_orderbook s) \<and>
    levels_len (ts_orderbook s) = card {i. i \<le> 10000 \<and> bk_bids (ts_orderbook s) ! i > 0}
      + card {i. i \<le> 10000 \<and> bk_asks (ts_orderbook s) ! i > 0}"
proof -
  have r: "book_reach (ts_orderbook s)"
    by (rule books.holds_token[OF books.holds_run[OF assms(1)] assms(2)])
  moreover have "levels_len b = card {i. i \<le> 10000 \<and> bk_bids b ! i > 0} + card {i. i \<le> 10000 \<and> bk_asks b ! i > 0}"
    if "book_reach b" for b
    using book_counts[OF that] by (simp add: levels_len_def)
  ultimately show ?thesis by simp
qed

end
