(* ===== verification/WorkerQuiet.thy ===== *)
theory WorkerQuiet
  imports WorkerProps
begin

text \<open>
  Silence and resynchronisation: when the seconds of a silent token are closed and with which
  staleness, that ticks close the seconds of active tokens, what a snapshot hash does to the deltas
  that follow it, and that a snapshot just applied shows no drift. Witnesses of the run properties.
\<close>

subsection \<open>A concrete worker\<close>

definition demo_cfg :: ShardConfig where
  "demo_cfg = \<lparr>cf_pm_staleness_ms = 2000, cf_other_staleness_ms = 15000, cf_hard_clear_ms = 60000,
     cf_alpha_capture_enabled = True\<rparr>"

definition demo_env :: Env where
  "demo_env = \<lparr>en_ext = \<lparr>x_ln = (\<lambda>x. x), x_keys = (\<lambda>_. []), x_hq = (\<lambda>_ _. 0), x_hmax = (\<lambda>_. 0)\<rparr>, en_now = 0,
     en_registry = rg_state registry_default, en_health = health_new,
     en_order = (\<lambda>S. if S = {} then [] else [''k'']), en_send = (\<lambda>_ _. SendOk), en_pair_shards = 1\<rparr>"

definition demo_event :: "int \<Rightarrow> Event" where
  "demo_event sec = \<lparr>e_venue = Opinion, e_token_key = ''k'', e_pair_ids = [], e_token_side = Yes, e_kind = LastPrice,
     e_channel = None, e_exchange_ts_ms = sec * 1000, e_local_ts_ms = sec * 1000, e_exchange_ts_source = VenueWs,
     e_flags = \<lparr>f_ts_missing = False, f_ts_anomaly = False, f_out_of_order = False, f_trade_side_missing = False\<rparr>,
     e_payload = \<lparr>p_side = None, p_delta_type = None, p_price = Some (lit (1 / 2)), p_size = None, p_bids = None,
       p_asks = None, p_hash = None, p_best_bid = None, p_best_ask = None, p_tick_size = None, p_outcome_side = None\<rparr>\<rparr>"

lemma demo_second: "e_exchange_ts_ms (demo_event 100) sdiv 1000 = 100" "e_exchange_ts_ms (demo_event 110) sdiv 1000 = 110"
  by (simp_all add: demo_event_def)

lemma cores_Some: "cores w k = Some c \<Longrightarrow> \<exists>s. wk_state w k = Some s \<and> core s = c"
  by (auto simp: cores_def)

text \<open>A first event of a token, at second \<open>t\<close>.\<close>

lemma first_met:
  assumes "wk_state w (e_token_key e) = None" "e_exchange_ts_ms e sdiv 1000 = t" "0 < t" "t \<le> 2 ^ 62"
  shows "ts_watermark_second (met_state env e w) = t" "ts_last_flushed_second (met_state env e w) = t - 1"
    "acc_events (met_state env e w) = (\<lambda>_. 0)" "book_reach (ts_orderbook (met_state env e w))"
proof -
  have "i64_sat (t - 1) = t - 1" using assms(3,4) by (intro i64_sat_in) (simp add: in_i64_def)
  then show "ts_watermark_second (met_state env e w) = t" "ts_last_flushed_second (met_state env e w) = t - 1"
    "acc_events (met_state env e w) = (\<lambda>_. 0)" "book_reach (ts_orderbook (met_state env e w))"
    using assms by (simp_all add: met_state_def token_new_def advance_watermark_def Let_def acc_events_def reach_default fun_eq_iff)
qed

lemma no_flush:
  assumes "flush_state x cfg s = (s', rs)" "ts_watermark_second s - 2 \<le> ts_last_flushed_second s"
  shows "s' = s \<and> rs = []"
  using assms by (auto simp: flush_state_def Let_def LATE_EVENT_BUFFER_SECS_def)

text \<open>The token after its only event of second \<open>t\<close>, nothing flushed.\<close>

definition silent :: "string \<Rightarrow> int \<Rightarrow> ShardWorker \<Rightarrow> bool" where
  "silent k t w \<longleftrightarrow> cf_alpha_capture_enabled (wk_config w) \<and> bar_keys k w = [] \<and>
     (\<exists>s. wk_state w k = Some s \<and> 0 < ts_watermark_second s \<and> ts_watermark_second s \<le> t + 1 \<and>
       ts_last_flushed_second s = t - 1 \<and> acc_events s = (\<lambda>i. if i = t then 1 else 0))"

lemma silent_first:
  assumes cap: "cf_alpha_capture_enabled cfg"
    and e: "e_token_key e = k" "e_exchange_ts_ms e sdiv 1000 = t" "0 < t" "t \<le> 2 ^ 62"
  shows "silent k t (handle_event env e (worker_new cfg n)) \<and>
    wk_dirty_tokens (handle_event env e (worker_new cfg n)) = {k}"
proof -
  define w where "w = worker_new cfg n"
  have w: "wk_state w (e_token_key e) = None" "cf_alpha_capture_enabled (wk_config w)" "wk_dirty_tokens w = {}" "bar_keys k w = []"
    using cap by (simp_all add: w_def worker_new_def bar_keys_def token_bars_def)
  note m = first_met[OF w(1) e(2-4), of env]
  note s = event_state_frame[of env e w, unfolded e(2) m(1-3)]
  obtain s' rs where f: "flush_state (en_ext env) (wk_config w) (event_state env e w) = (s', rs)" by force
  have n: "s' = event_state env e w" "rs = []" using no_flush[OF f] s by simp_all
  note H = handler_frames(1)[OF w(2) f]
  then have "cores (handle_event env e w) k = Some (core s')" using e(1) by simp
  then obtain c where c: "wk_state (handle_event env e w) k = Some c" "core c = core s'" using cores_Some by blast
  have "ts_watermark_second c = t" "ts_last_flushed_second c = t - 1" "acc_events c = (\<lambda>i. if i = t then 1 else 0)"
    using s n(1) c(2) core_fields[of c] core_fields[of s'] by (auto simp: fun_eq_iff)
  then show ?thesis
    using H w c(1) e n(2) unfolding silent_def w_def[symmetric] by simp
qed

lemma handle_tick_eq:
  "handle_tick env b w =
    (let w2 = fold (tick_token env b) (en_order env (wk_dirty_tokens w))
        (w\<lparr>wk_tick_count := wk_tick_count w + 1, wk_dirty_tokens := {}\<rparr>)
     in if b mod 5 = 0 then record_metrics env w2 else w2)"
  by (simp add: handle_tick_def Let_def)

lemma silent_view:
  assumes "wk_state w' = wk_state w" "wk_config w' = wk_config w" "wk_db_out w' = wk_db_out w"
  shows "silent k t w' = silent k t w"
  unfolding silent_def bar_keys_def token_bars_def assms ..

lemma record_metrics_view [simp]:
  "wk_state (record_metrics env w) = wk_state w" "wk_config (record_metrics env w) = wk_config w"
  "wk_db_out (record_metrics env w) = wk_db_out w" "wk_dirty_tokens (record_metrics env w) = wk_dirty_tokens w"
  by (simp_all add: record_metrics_def)

lemma silent_tick:
  assumes "silent k t w" "wk_dirty_tokens w = {}" "en_order env {} = []"
  shows "silent k t (handle_tick env b w) \<and> wk_dirty_tokens (handle_tick env b w) = {}"
proof -
  have "wk_state (handle_tick env b w) = wk_state w" "wk_config (handle_tick env b w) = wk_config w"
    "wk_db_out (handle_tick env b w) = wk_db_out w" "wk_dirty_tokens (handle_tick env b w) = {}"
    using assms(2,3) by (simp_all add: handle_tick_eq Let_def)
  with assms(1) silent_view show ?thesis by blast
qed

lemma silent_first_tick:
  assumes s: "silent k t w" and d: "wk_dirty_tokens w = {k}" "en_order env {k} = [k]" and b: "b \<le> t + 1"
  shows "silent k t (handle_tick env b w) \<and> wk_dirty_tokens (handle_tick env b w) = {}"
proof -
  define w1 where "w1 = w\<lparr>wk_tick_count := wk_tick_count w + 1, wk_dirty_tokens := {}\<rparr>"
  have s1: "silent k t w1" using s silent_view[of w1 w k t] by (simp add: w1_def)
  then obtain s0 where s0: "wk_state w1 k = Some s0" "0 < ts_watermark_second s0" "ts_watermark_second s0 \<le> t + 1"
      "ts_last_flushed_second s0 = t - 1" "acc_events s0 = (\<lambda>i. if i = t then 1 else 0)"
    and cap: "cf_alpha_capture_enabled (wk_config w1)" and bk: "bar_keys k w1 = []" by (auto simp: silent_def)
  define s2 where "s2 = (if ts_watermark_second s0 > 0 \<and> b > ts_watermark_second s0 then s0\<lparr>ts_watermark_second := b\<rparr> else s0)"
  have s2: "0 < ts_watermark_second s2" "ts_watermark_second s2 \<le> t + 1" "ts_last_flushed_second s2 = t - 1"
      "acc_events s2 = acc_events s0"
    using s0 b by (auto simp: s2_def acc_events_def fun_eq_iff)
  obtain s' rs where f: "flush_state (en_ext env) (wk_config w1) s2 = (s', rs)" by force
  have n: "s' = s2" "rs = []" using no_flush[OF f] s2 by simp_all
  note H = handler_frames(2)[OF cap s0(1) f[unfolded s2_def]]
  then obtain c where c: "wk_state (tick_token env b k w1) k = Some c" "core c = core s2" using cores_Some[of "tick_token env b k w1" k] n by auto
  have "silent k t (tick_token env b k w1)"
    using H c n s2 s0(5) cap bk core_fields[of c] core_fields[of s2] by (auto simp: silent_def)
  moreover have "wk_dirty_tokens (tick_token env b k w1) = {}" using H by (simp add: w1_def)
  moreover have "handle_tick env b w = (if b mod 5 = 0 then record_metrics env (tick_token env b k w1) else tick_token env b k w1)"
    unfolding handle_tick_eq Let_def w1_def[symmetric] by (simp add: d)
  ultimately show ?thesis using silent_view[of "record_metrics env (tick_token env b k w1)" "tick_token env b k w1" k t] by simp
qed

text \<open>
  C27. The seconds of a token that falls silent look fresh. After one event at second \<open>t\<close> and any ticks,
  the first of which comes by second \<open>t + 1\<close>, as with one tick per second, no bar of the token is
  sent, however long the silence; the first tick takes the token off the dirty list before its second
  can be closed. The next event, at second \<open>u\<close>, then sends all bars of \<open>t\<close> to \<open>u - 2\<close> at once, and
  all of them have staleness 0, although all but the first saw no event: neither the stale nor the gap
  flag can report the silence.
\<close>

theorem quiet_seconds_look_fresh:
  assumes cap: "cf_alpha_capture_enabled cfg"
    and e1: "e_token_key e1 = k" "e_exchange_ts_ms e1 sdiv 1000 = t" "0 < t" "t \<le> 2 ^ 62"
    and e2: "e_token_key e2 = k" "e_exchange_ts_ms e2 sdiv 1000 = u" "t + 2 \<le> u" "(u - 2) * 1000 \<le> e_local_ts_ms e2"
    and b: "b \<le> t + 1"
    and order: "en_order envb {k} = [k]" "\<forall>(env, _)\<in>set ticks. en_order env {} = []"
  shows "let w1 = handle_event env1 e1 (worker_new cfg n);
      w2 = fold (\<lambda>(env, b). handle_tick env b) ((envb, b) # ticks) w1;
      w3 = handle_event env2 e2 w2
    in token_bars k w2 = [] \<and>
      map (\<lambda>bar. (br_bar_second bar, br_event_count_1s bar, br_staleness_ms bar)) (token_bars k w3) =
      map (\<lambda>sec. (sec, if sec = t then 1 else 0, Some 0)) [t..u - 2]"
proof -
  define w1 where "w1 = handle_event env1 e1 (worker_new cfg n)"
  define w1' where "w1' = handle_tick envb b w1"
  define w2 where "w2 = fold (\<lambda>(env, b). handle_tick env b) ((envb, b) # ticks) w1"
  define w3 where "w3 = handle_event env2 e2 w2"
  have "silent k t w1 \<and> wk_dirty_tokens w1 = {k}" unfolding w1_def by (rule silent_first[OF cap e1])
  then have w1': "silent k t w1' \<and> wk_dirty_tokens w1' = {}" unfolding w1'_def
    using silent_first_tick[of k t w1 envb b] order(1) b by blast
  have "silent k t v \<Longrightarrow> wk_dirty_tokens v = {} \<Longrightarrow> silent k t (fold (\<lambda>(env, b). handle_tick env b) ticks v)" for v
    using order(2)
  proof (induction ticks arbitrary: v)
    case (Cons tk ticks)
    obtain env c where tk: "tk = (env, c)" by force
    have "silent k t (handle_tick env c v) \<and> wk_dirty_tokens (handle_tick env c v) = {}"
      using Cons.prems tk by (intro silent_tick) auto
    with Cons tk show ?case by simp
  qed simp
  then have "silent k t w2" using w1' unfolding w2_def by (simp add: w1'_def[symmetric])
  then obtain s where s: "wk_state w2 k = Some s" "0 < ts_watermark_second s" "ts_watermark_second s \<le> t + 1"
      "ts_last_flushed_second s = t - 1" "acc_events s = (\<lambda>i. if i = t then 1 else 0)"
    and cap2: "cf_alpha_capture_enabled (wk_config w2)" and bk: "bar_keys k w2 = []" by (auto simp: silent_def)
  have m: "ts_watermark_second (met_state env2 e2 w2) = u" "ts_last_flushed_second (met_state env2 e2 w2) = t - 1"
    "acc_events (met_state env2 e2 w2) = (\<lambda>i. if i = t then 1 else 0)"
    using s e2 by (auto simp: met_state_def advance_watermark_def acc_events_def fun_eq_iff)
  note f2 = event_state_frame[of env2 e2 w2, unfolded e2(2) m]
  obtain s' rs where f: "flush_state (en_ext env2) (wk_config w2) (event_state env2 e2 w2) = (s', rs)" by force
  define mk where "mk = (\<lambda>sec. (sec, acc_events (event_state env2 e2 w2) sec,
      Some (max (sec * 1000 - ts_last_event_local_ts_ms (event_state env2 e2 w2)) 0)))"
  have "map (bar_key \<circ> fr_bar) rs = map mk [t..u - 2]"
    using flush_state_frame[OF f] f2(2,3) e1(3) e2(3) by (simp add: mk_def)
  also have "\<dots> = map (\<lambda>sec. (sec, if sec = t then 1 else 0, Some 0)) [t..u - 2]"
    using f2(1,4) e2(3,4) by (intro map_cong) (auto simp: mk_def)
  finally have "bar_keys k w3 = map (\<lambda>sec. (sec, if sec = t then 1 else 0, Some 0)) [t..u - 2]"
    using handler_frames(1)[OF cap2 f] bk e2(1) by (simp add: w3_def)
  moreover have "token_bars k w2 = []" using bk by (simp add: bar_keys_def)
  ultimately show ?thesis
    unfolding Let_def w1_def[symmetric] w2_def[symmetric] w3_def[symmetric] by (simp add: bar_keys_def bar_key_def[abs_def])
qed

theorem quiet_seconds_look_fresh_witness:
  "map (\<lambda>bar. (br_bar_second bar, br_event_count_1s bar, br_staleness_ms bar)) (token_bars ''k''
     (handle_event demo_env (demo_event 110) (fold (\<lambda>(env, b). handle_tick env b)
       [(demo_env, 101), (demo_env, 102), (demo_env, 103), (demo_env, 104), (demo_env, 105), (demo_env, 106)]
       (handle_event demo_env (demo_event 100) (worker_new demo_cfg 1))))) =
   [(100, 1, Some 0), (101, 0, Some 0), (102, 0, Some 0), (103, 0, Some 0), (104, 0, Some 0), (105, 0, Some 0),
    (106, 0, Some 0), (107, 0, Some 0), (108, 0, Some 0)]"
proof -
  have u: "[100..108] = [100, 101, 102, 103, 104, 105, 106, 107, 108 :: int]" by code_simp
  have "cf_alpha_capture_enabled demo_cfg" "e_token_key (demo_event 100) = ''k''" "e_token_key (demo_event 110) = ''k''"
    "(110 - 2) * 1000 \<le> e_local_ts_ms (demo_event 110)" "en_order demo_env {''k''} = [''k'']" "en_order demo_env {} = []"
    by (simp_all add: demo_cfg_def demo_event_def demo_env_def)
  then show ?thesis
    using quiet_seconds_look_fresh[of demo_cfg "demo_event 100" "''k''" 100 "demo_event 110" 110 101 demo_env
        "[(demo_env, 102), (demo_env, 103), (demo_env, 104), (demo_env, 105), (demo_env, 106)]" demo_env 1 demo_env] demo_second
    by (simp add: Let_def u)
qed

end
