(* ===== verification/Resync.thy ===== *)
theory Resync
  imports WorkerQuiet
begin

text \<open>
  Resynchronisation of a token: the hash that a snapshot carries against the local hash, the state in
  which deltas are ignored, and the drift check of REST snapshots.
\<close>

subsection \<open>The local hash is short\<close>

lemma show_hex_length: "0 < k \<Longrightarrow> n < 16 ^ k \<Longrightarrow> length (show_hex n) \<le> k"
proof (induction k arbitrary: n)
  case (Suc k)
  show ?case
  proof (cases "n < 16")
    case True
    then show ?thesis by (subst show_hex.simps) simp
  next
    case False
    have "n div 16 < 16 ^ k" using Suc.prems(2) by (simp add: less_mult_imp_div_less mult.commute)
    moreover have "0 < k" using False Suc.prems(2) by (cases k) simp_all
    ultimately have "length (show_hex (n div 16)) \<le> k" by (rule Suc.IH[rotated])
    then show ?thesis using False by (subst show_hex.simps) simp
  qed
qed simp

lemma topn_hash_length: "topn_hash n b = Some h \<Longrightarrow> length h \<le> 16"
proof -
  have "length (show_hex (unat (x :: u64))) \<le> 16" for x
    using unsigned_less[of x, where ?'a = nat] by (intro show_hex_length) simp_all
  then show "topn_hash n b = Some h \<Longrightarrow> length h \<le> 16"
    by (auto simp: topn_hash_def Let_def split: if_splits)
qed

lemma topn_hash_Some: "levels_len b \<noteq> 0 \<Longrightarrow> \<exists>h. topn_hash n b = Some h"
  by (simp add: topn_hash_def Let_def)

subsection \<open>What leaves the book and the resynchronisation state alone\<close>

definition book_view :: "TokenState \<Rightarrow> DenseBook \<times> int option \<times> bool" where
  "book_view s = (ts_orderbook s, ts_last_resync_bar_second s, ts_resync_needed s)"

lemma view_fields:
  "ts_orderbook s = fst (book_view s)" "ts_last_resync_bar_second s = fst (snd (book_view s))"
  "ts_resync_needed s = snd (snd (book_view s))"
  by (simp_all add: book_view_def)

lemma view_mut [simp]: "book_view (accumulator_mut sec f s) = book_view s"
  by (simp add: accumulator_mut_def book_view_def)

lemma view_second [simp]: "book_view (with_second ms f s) = book_view s"
  by (simp add: with_second_def split: option.split)

lemma view_updates [simp]:
  "book_view (s\<lparr>ts_last_price := a\<rparr>) = book_view s" "book_view (s\<lparr>ts_last_venue_hash := h\<rparr>) = book_view s"
  "book_view (s\<lparr>ts_last_bbo_bid_px := a\<rparr>) = book_view s" "book_view (s\<lparr>ts_last_bbo_ask_px := a\<rparr>) = book_view s"
  "book_view (s\<lparr>ts_ofi_window := w\<rparr>) = book_view s" "book_view (s\<lparr>ts_mid_window := w\<rparr>) = book_view s"
  "book_view (s\<lparr>ts_bid_delta_window := w\<rparr>) = book_view s" "book_view (s\<lparr>ts_ask_delta_window := w\<rparr>) = book_view s"
  "book_view (s\<lparr>ts_trade_window := tw\<rparr>) = book_view s" "book_view (s\<lparr>ts_last_event_local_ts_ms := t\<rparr>) = book_view s"
  "book_view (s\<lparr>ts_prev_best_bid_px := a, ts_prev_best_ask_px := a', ts_prev_best_bid_sz := z, ts_prev_best_ask_sz := z'\<rparr>) = book_view s"
  by (simp_all add: book_view_def)

lemma view_hash [simp]: "book_view (set_venue_hash e s) = book_view s"
  by (simp add: set_venue_hash_def split: option.split)

lemma view_price [simp]: "book_view (set_last_price e s) = book_view s"
  by (simp add: set_last_price_def split: option.split)

lemma view_bbo [simp]: "book_view (update_bbo a b s) = book_view s"
  by (simp add: update_bbo_def Let_def split: option.split)

lemma view_count [simp]: "book_view (count_event e ms s) = book_view s"
  by (simp add: count_event_def)

lemma view_book_count [simp]: "book_view (count_book_update ms s) = book_view s"
  by (simp add: count_book_update_def)

lemma view_levels [simp]: "book_view (update_ofi_and_levels sec ts s) = book_view s"
  by (simp add: update_ofi_and_levels_def update_mid_def update_ofi_def Let_def split: option.split prod.split)

lemma view_flow [simp]: "book_view (flow_and_levels e ms s) = book_view s"
  by (simp add: flow_and_levels_def split: option.split)

lemma view_delta_window [simp]: "book_view (update_bid_ask_delta sec ts side d p z s) = book_view s"
  by (simp add: update_bid_ask_delta_def Let_def split: BookSide.split)

lemma view_trade_window [simp]: "book_view (update_trade_window sec ts side n s) = book_view s"
  by (simp add: update_trade_window_def Let_def split: prod.split)

text \<open>While a resynchronisation is needed, only a snapshot changes the levels of the book.\<close>

definition frozen :: "int list \<Rightarrow> int list \<Rightarrow> TokenState \<Rightarrow> bool" where
  "frozen bids asks s \<longleftrightarrow> ts_resync_needed s \<and> bk_bids (ts_orderbook s) = bids \<and> bk_asks (ts_orderbook s) = asks"

lemma frozen_view: "book_view s' = book_view s \<Longrightarrow> frozen bids asks s' = frozen bids asks s"
  unfolding frozen_def view_fields by simp

lemma frozen_delta:
  assumes "frozen bids asks s"
  shows "frozen bids asks (fst (delta_event e sec ms s))"
proof -
  have A: "book_view (apply_level e ms a side p z t) = book_view t" if "frozen bids asks t" for a side p z t
    using that by (simp add: apply_level_def frozen_def Let_def split: option.split)
  define allow where "allow = (\<not> (e_venue e = Opinion \<and> \<not> ts_book_initialized s))"
  define p where "p = e_payload e"
  define s1 where "s1 = update_bbo (p_best_bid p) (p_best_ask p) s"
  define s2 where "s2 = (case (p_side p, p_price p, p_size p) of
      (Some side, Some price, Some sz) \<Rightarrow> apply_level e ms allow side price sz s1 | _ \<Rightarrow> s1)"
  define s3 where "s3 = count_book_update ms s2"
  define s4 where "s4 = set_venue_hash e (if allow \<and> \<not> ts_resync_needed s3 then flow_and_levels e ms s3 else s3)"
  define r where "r = check_resync e sec s4"
  have 1: "frozen bids asks s1" using assms frozen_view[of s1 s] by (simp add: s1_def)
  then have "book_view s2 = book_view s1" by (simp add: s2_def A split: option.split)
  then have "frozen bids asks s2" using 1 frozen_view by blast
  moreover have "book_view s4 = book_view s2" by (simp add: s4_def s3_def)
  ultimately have 4: "frozen bids asks s4" using frozen_view by blast
  have r: "frozen bids asks (fst r)" using 4 by (auto simp: r_def check_resync_def frozen_def split: option.split)
  have "delta_event e sec ms s = (if allow then if snd r \<noteq> None then ((mark_resync sec (fst r))\<lparr>ts_resync_needed := True\<rparr>, snd r)
      else (fst r, None) else (s4, None))"
    unfolding delta_event_def Let_def allow_def[symmetric] p_def[symmetric] s1_def[symmetric] s2_def[symmetric]
      s3_def[symmetric] s4_def[symmetric] r_def[symmetric] by (simp add: case_prod_beta')
  with r 4 show ?thesis by (simp add: frozen_def mark_resync_def)
qed

lemma frozen_event:
  assumes "frozen bids asks s" "e_kind e \<noteq> BookSnapshot"
  shows "frozen bids asks (fst (token_event e sec ms s))"
proof -
  define t where "t = count_event e ms s"
  have t: "frozen bids asks t" using assms(1) frozen_view[of t s] by (simp add: t_def)
  have "book_view (trade_event e ms t) = book_view t"
    by (simp add: trade_event_def Let_def split: option.split)
  then have trade: "frozen bids asks (trade_event e ms t)" using t frozen_view by blast
  have lastp: "frozen bids asks (with_second ms f (set_last_price e t))" for f
    using t frozen_view[of "with_second ms f (set_last_price e t)" t] by simp
  have tick: "frozen bids asks (case p_tick_size (e_payload e) of Some tick \<Rightarrow> t\<lparr>ts_orderbook := (ts_orderbook t)\<lparr>bk_tick_px := Some tick\<rparr>\<rparr> | None \<Rightarrow> t)"
    using t by (simp add: frozen_def split: option.split)
  show ?thesis
    using assms(2) t trade lastp tick frozen_delta[OF t]
    unfolding token_event_def Let_def t_def[symmetric] by (cases "e_kind e") simp_all
qed

text \<open>
  C28. A snapshot hash that is longer than 16 characters freezes the book: the local hash has at most
  16 hexadecimal digits, so a Polymarket snapshot with a longer hash and at least one level never
  matches and leaves the token in need of a resynchronisation (unless one was marked in the same
  second); from then on no delta, trade, price or tick event changes a level, until the next snapshot.
\<close>

theorem venue_hash_freezes_book:
  assumes e: "e_kind e = BookSnapshot" "e_venue e = Polymarket" "p_hash (e_payload e) = Some h" "16 < length h"
    and s: "ts_last_resync_bar_second s \<noteq> Some sec" "levels_len (ts_orderbook (load_snapshot e ms (count_event e ms s))) \<noteq> 0"
    and evs: "list_all (\<lambda>(ev, _, _). e_kind ev \<noteq> BookSnapshot) evs"
  shows "let s1 = fst (token_event e sec ms s);
      s2 = fold (\<lambda>(ev, sec, ms) s. fst (token_event ev sec ms s)) evs s1
    in ts_resync_needed s1 \<and> ts_resync_needed s2 \<and> bk_bids (ts_orderbook s2) = bk_bids (ts_orderbook s1) \<and>
      bk_asks (ts_orderbook s2) = bk_asks (ts_orderbook s1)"
proof -
  define t where "t = load_snapshot e ms (count_event e ms s)"
  define u where "u = flow_and_levels e ms (set_venue_hash e (count_book_update ms (t\<lparr>ts_resync_needed := False\<rparr>)))"
  define s1 where "s1 = fst (token_event e sec ms s)"
  have "book_view u = book_view (t\<lparr>ts_resync_needed := False\<rparr>)" by (simp add: u_def)
  then have u: "ts_orderbook u = ts_orderbook t" "ts_last_resync_bar_second u = ts_last_resync_bar_second t"
    by (simp_all add: book_view_def)
  have "book_view (add_anomalies ms n s) = book_view s" for n s by (simp add: add_anomalies_def)
  then have "ts_last_resync_bar_second (load_snapshot e ms v) = ts_last_resync_bar_second v" for v
    unfolding view_fields load_snapshot_def Let_def
    by (simp split: prod.split) (simp add: book_view_def)
  then have l: "ts_last_resync_bar_second u \<noteq> Some sec" using s(1) view_count[of e ms s] by (simp add: u t_def book_view_def)
  obtain x where x: "topn_hash 20 (ts_orderbook u) = Some x" "length x \<le> 16"
    using topn_hash_Some[of "ts_orderbook u" 20] s(2) topn_hash_length by (auto simp: u t_def)
  then have "hash_mismatch e (ts_orderbook u)" using e by (auto simp: hash_mismatch_def)
  then have "resync_reason e u \<noteq> None \<and> resync_reason e u \<noteq> Some ''rest_mismatch''"
    using e(1) by (simp add: resync_reason_def)
  then obtain reason where rr: "resync_reason e u = Some reason" "reason \<noteq> ''rest_mismatch''" by auto
  have "s1 = (mark_resync sec (fst (check_resync e sec u)))\<lparr>ts_resync_needed := True\<rparr>"
    unfolding s1_def token_event_def snapshot_event_def Let_def
    using e l rr by (simp add: t_def[symmetric] u_def[symmetric] check_resync_def)
  then have "frozen (bk_bids (ts_orderbook s1)) (bk_asks (ts_orderbook s1)) s1" by (simp add: frozen_def)
  moreover have "frozen B A v \<Longrightarrow> frozen B A (fold (\<lambda>(ev, sec, ms) s. fst (token_event ev sec ms s)) evs v)" for B A v
    using evs
  proof (induction evs arbitrary: v)
    case (Cons ev evs)
    obtain a b c where "ev = (a, b, c)" by (cases ev)
    with Cons frozen_event[of B A v a b c] show ?case by simp
  qed simp
  ultimately show ?thesis unfolding Let_def s1_def[symmetric] by (simp add: frozen_def)
qed

subsection \<open>Drift\<close>

lemma depth_mismatch_same: "\<not> depth_mismatch d d"
proof -
  have "\<not> \<bar>d - d\<bar> / f64_max d (lit (1 / 1000000000)) \<ge> OPI_RESYNC_DEPTH_RATIO" if "d > 0"
  proof -
    have "OPI_RESYNC_DEPTH_RATIO = Fin (3602879701896397 / 72057594037927936)"
      by (simp add: OPI_RESYNC_DEPTH_RATIO_def f64_eval)
    then obtain r where r: "OPI_RESYNC_DEPTH_RATIO = Fin r" "0 < r" by simp
    have "lit (1 / 1000000000) = Fin (4835703278458517 / 4835703278458516698824704) \<and>
        (0 :: rat) < 4835703278458517 / 4835703278458516698824704" by (simp add: f64_eval)
    then obtain l where l: "lit (1 / 1000000000) = Fin l" "0 < l" by blast
    from that consider "d = Inf False" | q where "d = Fin q" "0 < q" by (auto simp: f64_cases_less_0)
    then show ?thesis
    proof cases
      case 1
      then show ?thesis by (simp add: minus_f64_def abs_f64_def divide_f64_def)
    next
      case 2
      then have "\<bar>d - d\<bar> = Fin 0" by (simp add: minus_f64_def abs_f64_def)
      moreover obtain x where "f64_max d (lit (1 / 1000000000)) = Fin x" "0 < x"
        using 2 l by (cases "q < l") (auto simp: f64_max_def)
      ultimately show ?thesis using r(2) unfolding r(1) by (simp add: divide_f64_def)
    qed
  qed
  then show ?thesis by (simp add: depth_mismatch_def)
qed

text \<open>
  A snapshot that was just applied shows no drift: for every reachable book and every message with
  both sides, the drift check of the same message right after loading it reports nothing.
\<close>

theorem no_drift_after_snapshot:
  assumes "book_reach (ts_orderbook s)" "p_bids (e_payload e) = Some bids" "p_asks (e_payload e) = Some asks"
  shows "check_opinion_snapshot_drift e (load_snapshot e ms s) = None"
proof -
  define b where "b = snd (apply_snapshot (Some bids) (Some asks) (e_local_ts_ms e) (ts_orderbook s))"
  have m: "snapshot_metrics bids asks =
    \<lparr>sn_best_bid_idx = bk_best_bid_idx b, sn_best_ask_idx = bk_best_ask_idx b, sn_topn_hash = topn_hash 20 b,
     sn_depth_top10 = unwrap_or (depth_top_n Bid 10 b) 0 + unwrap_or (depth_top_n Ask 10 b) 0\<rparr>"
    unfolding b_def by (rule snapshot_agrees[OF assms(1)])
  have "book_view (add_anomalies ms n s) = book_view s" for n s by (simp add: add_anomalies_def)
  then have o: "ts_orderbook (load_snapshot e ms s) = b"
    unfolding load_snapshot_def Let_def assms(2,3) view_fields
    by (simp split: prod.split) (simp add: book_view_def b_def)
  show ?thesis
    unfolding check_opinion_snapshot_drift_def Let_def o
    by (simp add: assms(2,3) m depth_mismatch_same split: option.split)
qed

definition demo_level :: "rat \<Rightarrow> BookLevel" where
  "demo_level p = \<lparr>bl_price = lit p, bl_size = lit 1\<rparr>"

definition demo_snapshot :: Event where
  "demo_snapshot = (demo_event 100)\<lparr>e_venue := Polymarket, e_kind := BookSnapshot, e_payload := (e_payload (demo_event 100))
     \<lparr>p_bids := Some [demo_level (1 / 2)], p_asks := Some [], p_hash := Some ''0123456789abcdef0123''\<rparr>\<rparr>"

definition demo_delta :: Event where
  "demo_delta = (demo_event 101)\<lparr>e_venue := Polymarket, e_kind := BookDelta, e_payload := (e_payload (demo_event 101))
     \<lparr>p_side := Some Bid, p_price := Some (lit (3 / 5)), p_size := Some (lit 5)\<rparr>\<rparr>"

lemma demo_loaded: "levels_len (ts_orderbook (load_snapshot demo_snapshot (Some 100) (count_event demo_snapshot (Some 100) (token_new 0 Polymarket Yes 100)))) \<noteq> 0"
proof -
  define s where "s = count_event demo_snapshot (Some 100) (token_new 0 Polymarket Yes 100)"
  have "ts_orderbook s = book_default" by (simp add: s_def count_event_frame token_new_def Let_def)
  moreover have "book_view (add_anomalies ms n s) = book_view s" for ms n s by (simp add: add_anomalies_def)
  ultimately have "ts_orderbook (load_snapshot demo_snapshot (Some 100) s) =
      snd (apply_snapshot (Some [demo_level (1 / 2)]) (Some []) (e_local_ts_ms demo_snapshot) book_default)"
    unfolding load_snapshot_def Let_def view_fields
    by (simp add: demo_snapshot_def split: prod.split) (simp add: book_view_def)
  also have "bk_bid_nonzero \<dots> = 1"
    by (simp add: apply_snapshot_def snap_bid_def demo_level_def price_to_idx_def size_to_int_def PRICE_SCALE_def SIZE_SCALE_def
        PRICE_MAX_IDX_def f64_eval Let_def book_default_def clear_bids_def clear_asks_def PRICE_LEVELS_def)
  finally show ?thesis by (simp add: levels_len_def s_def)
qed

theorem venue_hash_freezes_book_witness:
  "let s1 = fst (token_event demo_snapshot 100 (Some 100) (token_new 0 Polymarket Yes 100));
      s2 = fst (token_event demo_delta 101 (Some 101) s1)
    in ts_resync_needed s2 \<and> bk_bids (ts_orderbook s2) = bk_bids (ts_orderbook s1)"
proof -
  have "e_kind demo_snapshot = BookSnapshot" "e_venue demo_snapshot = Polymarket"
    "p_hash (e_payload demo_snapshot) = Some ''0123456789abcdef0123''" "16 < length ''0123456789abcdef0123''"
    "ts_last_resync_bar_second (token_new 0 Polymarket Yes 100) \<noteq> Some 100"
    "list_all (\<lambda>(ev, _, _). e_kind ev \<noteq> BookSnapshot) [(demo_delta, 101 :: int, Some 101 :: int option)]"
    by (simp_all add: demo_snapshot_def demo_delta_def token_new_def Let_def)
  from venue_hash_freezes_book[OF this(1-5) demo_loaded this(6)] show ?thesis by (simp add: Let_def)
qed

theorem no_drift_after_snapshot_witness:
  "check_opinion_snapshot_drift demo_snapshot (load_snapshot demo_snapshot None (token_new 0 Opinion Yes 100)) = None"
  by (rule no_drift_after_snapshot[where bids = "[demo_level (1 / 2)]" and asks = "[]"])
    (simp_all add: token_new_def Let_def reach_default demo_snapshot_def)

subsection \<open>Ticks close the seconds of dirty tokens\<close>

lemma tick_token_last:
  assumes cap: "cf_alpha_capture_enabled (wk_config w)" and s: "wk_state w k = Some s" "0 < ts_watermark_second s"
  shows "(\<exists>s'. wk_state (tick_token env b k w) k = Some s' \<and> ts_watermark_second s' = max (ts_watermark_second s) b \<and>
      ts_last_flushed_second s' = max (ts_last_flushed_second s) (max (ts_watermark_second s) b - 2)) \<and>
    wk_config (tick_token env b k w) = wk_config w \<and> (\<forall>j. j \<noteq> k \<longrightarrow> cores (tick_token env b k w) j = cores w j)"
proof -
  define t where "t = (if ts_watermark_second s > 0 \<and> b > ts_watermark_second s then s\<lparr>ts_watermark_second := b\<rparr> else s)"
  have t: "ts_watermark_second t = max (ts_watermark_second s) b" "ts_last_flushed_second t = ts_last_flushed_second s"
    using s(2) by (auto simp: t_def)
  obtain s' rs where f: "flush_state (en_ext env) (wk_config w) t = (s', rs)" by force
  note H = handler_frames(2)[OF cap s(1) f[unfolded t_def]]
  then obtain c where c: "wk_state (tick_token env b k w) k = Some c" "core c = core s'"
    using cores_Some[of "tick_token env b k w" k] by auto
  have "ts_watermark_second c = ts_watermark_second s'" "ts_last_flushed_second c = ts_last_flushed_second s'"
    using c(2) core_fields[of c] core_fields[of s'] by simp_all
  then show ?thesis using flush_state_frame[OF f] t s(2) c(1) H by auto
qed

definition due :: "int \<Rightarrow> TokenState \<Rightarrow> int" where
  "due b s = max (ts_last_flushed_second s) (max (ts_watermark_second s) b - 2)"

lemma fold_ticks:
  assumes "cf_alpha_capture_enabled (wk_config w)" "\<exists>s. wk_state w k = Some s \<and> 0 < ts_watermark_second s \<and> due b s = d \<and>
      (k \<notin> set ks \<longrightarrow> ts_last_flushed_second s = d)"
  shows "\<exists>s. wk_state (fold (tick_token env b) ks w) k = Some s \<and> ts_last_flushed_second s = d"
  using assms
proof (induction ks arbitrary: w)
  case (Cons j ks)
  obtain s where s: "wk_state w k = Some s" "0 < ts_watermark_second s" "due b s = d" "k \<notin> set (j # ks) \<longrightarrow> ts_last_flushed_second s = d"
    using Cons.prems(2) by blast
  show ?case
  proof (cases "j = k")
    case True
    then obtain s' where s': "wk_state (tick_token env b j w) k = Some s'" "ts_watermark_second s' = max (ts_watermark_second s) b"
        "ts_last_flushed_second s' = d" "wk_config (tick_token env b j w) = wk_config w"
      using tick_token_last[OF Cons.prems(1) s(1,2), of env b] s(3) unfolding due_def by blast
    then have "due b s' = d" "0 < ts_watermark_second s'" using s(2,3) by (auto simp: due_def)
    with s' Cons.prems(1) Cons.IH[of "tick_token env b j w"] show ?thesis by simp
  next
    case False
    show ?thesis
    proof (cases "wk_state w j")
      case None
      with False s Cons.prems(1) Cons.IH[of w] show ?thesis by (simp add: tick_token_absent)
    next
      case (Some sj)
      define t where "t = (if ts_watermark_second sj > 0 \<and> b > ts_watermark_second sj then sj\<lparr>ts_watermark_second := b\<rparr> else sj)"
      obtain s' rs where f: "flush_state (en_ext env) (wk_config w) t = (s', rs)" by force
      note H = handler_frames(2)[OF Cons.prems(1) Some f[unfolded t_def]]
      then have "cores (tick_token env b j w) k = Some (core s)" using False s(1) by (simp add: cores_def)
      then obtain c where c: "wk_state (tick_token env b j w) k = Some c" "core c = core s" using cores_Some by blast
      have "ts_watermark_second c = ts_watermark_second s" "ts_last_flushed_second c = ts_last_flushed_second s"
        using c(2) core_fields[of c] core_fields[of s] by simp_all
      then show ?thesis using Cons.IH[of "tick_token env b j w"] c(1) H Cons.prems(1) s False by (simp add: due_def)
    qed
  qed
qed auto

text \<open>
  C36. A tick closes what is due: after a tick of second \<open>b\<close>, every token that had an event since the
  last tick is flushed up to two seconds before the later of \<open>b\<close> and its newest event.
\<close>

theorem tick_flushes_dirty:
  assumes "cf_alpha_capture_enabled (wk_config w)" "set (en_order env (wk_dirty_tokens w)) = wk_dirty_tokens w"
    and "k \<in> wk_dirty_tokens w" "wk_state w k = Some s" "0 < ts_watermark_second s"
  shows "\<exists>s'. wk_state (handle_tick env b w) k = Some s' \<and>
    ts_last_flushed_second s' = max (ts_last_flushed_second s) (max (ts_watermark_second s) b - 2)"
proof -
  define w1 where "w1 = w\<lparr>wk_tick_count := wk_tick_count w + 1, wk_dirty_tokens := {}\<rparr>"
  define w2 where "w2 = fold (tick_token env b) (en_order env (wk_dirty_tokens w)) w1"
  have "\<exists>s'. wk_state w2 k = Some s' \<and> ts_last_flushed_second s' = due b s"
    unfolding w2_def by (rule fold_ticks) (use assms in \<open>auto simp: w1_def\<close>)
  moreover have "wk_state (handle_tick env b w) = wk_state w2"
    unfolding handle_tick_eq Let_def w1_def[symmetric] w2_def[symmetric] by simp
  ultimately show ?thesis by (simp add: due_def)
qed

theorem tick_flushes_dirty_witness:
  "\<exists>s'. wk_state (handle_tick demo_env 103 (handle_event demo_env (demo_event 100) (worker_new demo_cfg 1))) ''k'' = Some s' \<and>
    ts_last_flushed_second s' = 101"
proof -
  define w where "w = handle_event demo_env (demo_event 100) (worker_new demo_cfg 1)"
  have s: "silent ''k'' 100 w \<and> wk_dirty_tokens w = {''k''}" unfolding w_def
    by (rule silent_first) (simp_all add: demo_cfg_def demo_event_def)
  then obtain s where "wk_state w ''k'' = Some s" "0 < ts_watermark_second s" "ts_watermark_second s \<le> 101"
      "ts_last_flushed_second s = 99" "cf_alpha_capture_enabled (wk_config w)" by (auto simp: silent_def)
  then show ?thesis
    using tick_flushes_dirty[of w demo_env "''k''" s 103] s unfolding w_def[symmetric] by (simp add: demo_env_def)
qed

subsection \<open>Witnesses of the run properties\<close>

lemma demo_run: "worker_run demo_cfg 1 [(demo_env, InEvent (demo_event 100))] = handle_event demo_env (demo_event 100) (worker_new demo_cfg 1)"
  by (simp add: worker_run_def)

lemma demo_state:
  "\<exists>s. wk_state (worker_run demo_cfg 1 [(demo_env, InEvent (demo_event 100))]) ''k'' = Some s \<and> ts_last_flushed_second s = 99"
proof -
  have "silent ''k'' 100 (handle_event demo_env (demo_event 100) (worker_new demo_cfg 1)) \<and>
      wk_dirty_tokens (handle_event demo_env (demo_event 100) (worker_new demo_cfg 1)) = {''k''}"
    by (rule silent_first) (simp_all add: demo_cfg_def demo_event_def)
  then show ?thesis by (auto simp: silent_def demo_run)
qed

theorem worker_bars_consecutive_witness:
  "\<exists>a. map br_bar_second (token_bars ''k'' (worker_run demo_cfg 1 [(demo_env, InEvent (demo_event 100))])) = [a..99]"
  using worker_bars_consecutive[where cfg = demo_cfg and k = "''k''" and n = 1
      and ops = "[(demo_env, InEvent (demo_event 100))]"] demo_state
  by (auto simp: demo_cfg_def)

theorem worker_events_counted_witness:
  "sum_list (map br_event_count_1s (filter (\<lambda>b. br_bar_second b = 100)
      (token_bars ''k'' (worker_run demo_cfg 1 [(demo_env, InEvent (demo_event 100))])))) +
    open_events (worker_run demo_cfg 1 [(demo_env, InEvent (demo_event 100))]) ''k'' 100 = 1"
proof -
  have "ts_last_flushed_second (met_state demo_env (demo_event 100) (worker_new demo_cfg 1)) = 99"
    by (rule first_met(2)[where t = 100, simplified]) (simp_all add: worker_new_def demo_event_def)
  then have "on_time_count ''k'' 100 [(demo_env, InEvent (demo_event 100))] (worker_new demo_cfg 1) = 1"
    by (simp add: on_time_def demo_second metrics_second_of_def) (simp add: demo_event_def)
  then show ?thesis
    using worker_events_counted[where cfg = demo_cfg and sec = 100 and k = "''k''" and n = 1
      and ops = "[(demo_env, InEvent (demo_event 100))]"] by (simp add: demo_cfg_def)
qed

theorem worker_books_exact_witness:
  "book_reach (ts_orderbook (the (wk_state (worker_run demo_cfg 1 [(demo_env, InEvent (demo_event 100))]) ''k'')))"
  using worker_books_exact[where cfg = demo_cfg and k = "''k''" and n = 1
      and ops = "[(demo_env, InEvent (demo_event 100))]"] demo_state
  by (auto simp: demo_cfg_def)

end
