(* ===== verification/Amounts.thy ===== *)
theory Amounts
  imports Prelude Models "HOL-Library.While_Combinator"
begin

text \<open>
  The order amounts of \<open>src/trade/opinion_private.rs\<close>: from a price and a requested size to the
  maker and taker amounts that are signed. Prices pass through their decimal text, so the text
  routines of the standard library that the path uses (\<open>{:.n}\<close> formatting of an \<open>f64\<close>, parsing of
  integers and decimals) are defined first. \<open>U256\<close> values are naturals with the saturation written
  out. The \<open>Decimal\<close> type of \<open>rust_decimal\<close> is a parameter: the record \<open>decimal_ops\<close> of the operations
  that the code calls, on an arbitrary type; \<open>decimal_text_ok\<close> states the documented behaviour of
  its parser and its comparison.
\<close>

section \<open>Decimal text\<close>

definition digit_char :: "nat \<Rightarrow> char" where
  "digit_char d = char_of (48 + d)"

definition is_digit :: "char \<Rightarrow> bool" where
  "is_digit c \<longleftrightarrow> 48 \<le> (of_char c :: nat) \<and> (of_char c :: nat) \<le> 57"

definition digit_val :: "char \<Rightarrow> nat" where
  "digit_val c = of_char c - 48"

fun nat_str :: "nat \<Rightarrow> string" where
  "nat_str n = (if n < 10 then [digit_char n] else nat_str (n div 10) @ [digit_char (n mod 10)])"

declare nat_str.simps [simp del]

definition digits_val :: "string \<Rightarrow> nat" where
  "digits_val s = fold (\<lambda>c a. 10 * a + digit_val c) s 0"

text \<open>The decimal digits of a fraction: exactly \<open>k\<close> of them, padded with zeros on the left.\<close>

fun pad_digits :: "nat \<Rightarrow> nat \<Rightarrow> string" where
  "pad_digits 0 n = []"
| "pad_digits (Suc k) n = pad_digits k (n div 10) @ [digit_char (n mod 10)]"

text \<open>\<open>format!("{:.k}", x)\<close>: the exact value rounded half to even at \<open>k\<close> decimals.\<close>

fun format_fixed :: "nat \<Rightarrow> f64 \<Rightarrow> string" where
  "format_fixed k NaN = ''NaN''"
| "format_fixed k (Inf s) = (if s then ''-inf'' else ''inf'')"
| "format_fixed k x =
     (let n = nat (rne (\<bar>fval x\<bar> * 10 ^ k))
      in (if fneg x then ''-'' else []) @ nat_str (n div 10 ^ k) @
         (if k = 0 then [] else CHR ''.'' # pad_digits k (n mod 10 ^ k)))"

text \<open>\<open>str::parse\<close> for \<open>u64\<close>: an optional plus sign and at least one digit, without overflow.\<close>

definition parse_u64 :: "string \<Rightarrow> nat option" where
  "parse_u64 s = (let ds = (case s of [] \<Rightarrow> [] | c # cs \<Rightarrow> if c = CHR ''+'' \<and> cs \<noteq> [] then cs else s)
     in if ds \<noteq> [] \<and> list_all is_digit ds \<and> digits_val ds < 2 ^ 64 then Some (digits_val ds) else None)"

text \<open>\<open>s.split('.').collect()\<close>: one part more than there are dots.\<close>

fun split_dot :: "string \<Rightarrow> string list" where
  "split_dot [] = [[]]"
| "split_dot (c # cs) = (if c = CHR ''.'' then [] # split_dot cs
     else case split_dot cs of [] \<Rightarrow> [[c]] | p # ps \<Rightarrow> (c # p) # ps)"

text \<open>Plain decimal text as an exact number with its number of decimals; \<open>str::parse\<close> for \<open>f64\<close> on
  such text rounds the exact number once. The other spellings that the standard library accepts
  (exponents, a missing whole part) do not occur in the text that is parsed here.\<close>

definition parse_fixed :: "string \<Rightarrow> (rat \<times> nat) option" where
  "parse_fixed s = (let neg = (case s of c # _ \<Rightarrow> c = CHR ''-'' | [] \<Rightarrow> False); body = (if neg then tl s else s);
       sg = (if neg then - 1 else 1 :: rat) in
     case split_dot body of
       [w] \<Rightarrow> if w \<noteq> [] \<and> list_all is_digit w then Some (sg * of_nat (digits_val w), 0) else None
     | [w, f] \<Rightarrow> if w \<noteq> [] \<and> f \<noteq> [] \<and> list_all is_digit w \<and> list_all is_digit f
         then Some (sg * (of_nat (digits_val w) + of_nat (digits_val f) / 10 ^ List.length f), List.length f) else None
     | _ \<Rightarrow> None)"

definition parse_f64 :: "string \<Rightarrow> f64 option" where
  "parse_f64 s = (if s = ''NaN'' then Some NaN else if s = ''inf'' then Some (Inf False)
     else if s = ''-inf'' then Some (Inf True)
     else map_option (\<lambda>(q, _). rnd (s \<noteq> [] \<and> hd s = CHR ''-'') q) (parse_fixed s))"

section \<open>Parameters and errors\<close>

record 'd decimal_ops =
  dec_from_str :: "string \<Rightarrow> 'd option"
  dec_scale :: "'d \<Rightarrow> nat"
  dec_lt :: "'d \<Rightarrow> 'd \<Rightarrow> bool"
  dec_zero :: 'd
  dec_one :: 'd
  dec_of_int :: "int \<Rightarrow> 'd"
  dec_mul :: "'d \<Rightarrow> 'd \<Rightarrow> 'd"
  dec_div :: "'d \<Rightarrow> 'd \<Rightarrow> 'd"
  dec_trunc :: "'d \<Rightarrow> 'd"
  dec_to_string :: "'d \<Rightarrow> string"
  dec_new :: "int \<Rightarrow> nat \<Rightarrow> 'd"

datatype amount_error =
    PriceNotFinite | PriceOutOfRange | PricePrecision | InvalidPrice | InvalidPriceNumber | PriceOverflow
  | InvalidDenominator | InvalidDecimal | AmountBelowOne | ZeroPrice | MakerNotPositive
  | AmountNotPositive | DecimalsTooLarge | AmountZero | AmountTooLarge | InvalidAmounts | Diverges

datatype OrderSide = Buy | Sell

datatype OrderAmount = Quote f64 | Base f64

definition as_int :: "OrderSide \<Rightarrow> int" where
  "as_int s = (case s of Buy \<Rightarrow> 0 | Sell \<Rightarrow> 1)"

definition MAX_DECIMALS :: nat where
  "MAX_DECIMALS = 18"

text \<open>\<open>U256\<close>: unsigned integers below \<open>2^256\<close>; the code uses the saturating operations, plain
  division and remainder, and \<open>checked_mul\<close> with \<open>U256::MAX\<close> as the fallback, which saturates too.\<close>

definition u256_max :: nat where
  "u256_max = 2 ^ 256 - 1"

definition u256_mul :: "nat \<Rightarrow> nat \<Rightarrow> nat" where
  "u256_mul a b = min (a * b) u256_max"

definition u256_add :: "nat \<Rightarrow> nat \<Rightarrow> nat" where
  "u256_add a b = min (a + b) u256_max"

text \<open>\<open>U256::from_dec_str\<close>: digits only (an empty text is zero), an error on overflow.\<close>

definition u256_from_dec_str :: "string \<Rightarrow> nat option" where
  "u256_from_dec_str s = (if list_all is_digit s \<and> digits_val s \<le> u256_max then Some (digits_val s) else None)"

section \<open>Prices\<close>

definition format_price_checked :: "f64 \<Rightarrow> amount_error + string" where
  "format_price_checked value = (let rounded = unwrap_or (parse_f64 (format_fixed 6 value)) value in
     if lit (1 / 1000000000) < \<bar>value - rounded\<bar> then Inl PricePrecision else Inr (format_fixed 6 rounded))"

definition validate_price :: "f64 \<Rightarrow> amount_error + string" where
  "validate_price value = (if \<not> is_finite value then Inl PriceNotFinite
     else if value < lit (1 / 1000) \<or> lit (999 / 1000) < value then Inl PriceOutOfRange
     else format_price_checked value)"

text \<open>The loop of \<open>gcd\<close> as a loop: \<open>None\<close> would mean that it runs forever.\<close>

definition gcd_loop :: "nat \<times> nat \<Rightarrow> (nat \<times> nat) option" where
  "gcd_loop = while_option (\<lambda>(a, b). b \<noteq> 0) (\<lambda>(a, b). (b, a mod b))"

definition gcd_u64 :: "nat \<Rightarrow> nat \<Rightarrow> nat option" where
  "gcd_u64 a b = map_option (\<lambda>(a, _). if a = 0 then 1 else a) (gcd_loop (a, b))"

text \<open>The numerator and denominator as written. \<open>10u64.pow\<close> wraps in a release build, where a
  fraction of 64 digits gives the denominator zero.\<close>

definition price_parts :: "string \<Rightarrow> amount_error + nat \<times> nat" where
  "price_parts price = (case split_dot price of
       [w] \<Rightarrow> (case parse_u64 w of None \<Rightarrow> Inl InvalidPriceNumber | Some n \<Rightarrow> Inr (n, 1))
     | [w, fr] \<Rightarrow> (case parse_u64 w of None \<Rightarrow> Inl InvalidPriceNumber | Some whole \<Rightarrow>
         (let pw = 10 ^ List.length fr mod 2 ^ 64 in
          case (if fr = [] then Some 0 else parse_u64 fr) of None \<Rightarrow> Inl InvalidPriceNumber
          | Some frac_val \<Rightarrow> if whole * pw < 2 ^ 64 \<and> whole * pw + frac_val < 2 ^ 64
              then Inr (whole * pw + frac_val, pw) else Inl PriceOverflow))
     | _ \<Rightarrow> Inr (0, 1))"

definition price_to_fraction :: "'d decimal_ops \<Rightarrow> string \<Rightarrow> amount_error + nat \<times> nat" where
  "price_to_fraction D price = (case dec_from_str D price of None \<Rightarrow> Inl InvalidPrice | Some price_decimal \<Rightarrow>
     let min_price = unwrap_or (dec_from_str D ''0.001'') (dec_new D 1 3);
         max_price = unwrap_or (dec_from_str D ''0.999'') (dec_new D 999 3)
     in if dec_lt D price_decimal min_price \<or> dec_lt D max_price price_decimal then Inl PriceOutOfRange
        else if 6 < dec_scale D price_decimal then Inl PricePrecision
        else case price_parts price of Inl e \<Rightarrow> Inl e | Inr (numerator, denominator) \<Rightarrow>
          if denominator = 0 then Inl InvalidDenominator
          else case gcd_u64 numerator denominator of None \<Rightarrow> Inl Diverges
            | Some g \<Rightarrow> Inr (numerator div g, denominator div g))"

definition round_price_for_side :: "f64 \<Rightarrow> OrderSide \<Rightarrow> f64" where
  "round_price_for_side price side = (if \<not> is_finite price then price
     else case side of Buy \<Rightarrow> f64_floor (price * lit 1000) / lit 1000
          | Sell \<Rightarrow> f64_ceil (price * lit 1000) / lit 1000)"

section \<open>Amounts\<close>

fun strip_zeros :: "string \<Rightarrow> string" where
  "strip_zeros [] = []"
| "strip_zeros (c # cs) = (let t = strip_zeros cs in if t = [] \<and> c = CHR ''0'' then [] else c # t)"

definition decimal_text :: "f64 \<Rightarrow> string" where
  "decimal_text value = (let s = format_fixed 18 value in
     if CHR ''.'' \<in> set s
     then (let t = strip_zeros s in if t \<noteq> [] \<and> List.last t = CHR ''.'' then butlast t else t) else s)"

definition decimal_from_f64 :: "'d decimal_ops \<Rightarrow> f64 \<Rightarrow> amount_error + 'd" where
  "decimal_from_f64 D value = (if \<not> is_finite value then Inl InvalidDecimal
     else case dec_from_str D (decimal_text value) of None \<Rightarrow> Inl InvalidDecimal | Some d \<Rightarrow> Inr d)"

definition at_least_one :: "'d decimal_ops \<Rightarrow> f64 \<Rightarrow> amount_error + 'd" where
  "at_least_one D value = (case decimal_from_f64 D value of Inl e \<Rightarrow> Inl e
     | Inr d \<Rightarrow> if dec_lt D d (dec_one D) then Inl AmountBelowOne else Inr d)"

definition dec_positive :: "'d decimal_ops \<Rightarrow> 'd \<Rightarrow> bool" where
  "dec_positive D d \<longleftrightarrow> dec_lt D (dec_zero D) d"

definition compute_maker_amount :: "'d decimal_ops \<Rightarrow> OrderSide \<Rightarrow> OrderAmount \<Rightarrow> string \<Rightarrow> amount_error + 'd" where
  "compute_maker_amount D side amount price_str = (case dec_from_str D price_str of None \<Rightarrow> Inl InvalidPrice
   | Some price \<Rightarrow>
     (case (case side of
         Buy \<Rightarrow> (case amount of
             Base v \<Rightarrow> (case at_least_one D v of Inl e \<Rightarrow> Inl e | Inr base \<Rightarrow> Inr (dec_mul D base price))
           | Quote v \<Rightarrow> at_least_one D v)
       | Sell \<Rightarrow> (case amount of
             Base v \<Rightarrow> at_least_one D v
           | Quote v \<Rightarrow> (case at_least_one D v of Inl e \<Rightarrow> Inl e | Inr quote \<Rightarrow>
               if \<not> dec_lt D price (dec_zero D) \<and> \<not> dec_lt D (dec_zero D) price then Inl ZeroPrice
               else Inr (dec_div D quote price)))) of
       Inl e \<Rightarrow> Inl e
     | Inr maker_amount \<Rightarrow> if dec_positive D maker_amount then Inr maker_amount else Inl MakerNotPositive))"

definition safe_amount_to_wei :: "'d decimal_ops \<Rightarrow> 'd \<Rightarrow> nat \<Rightarrow> amount_error + nat" where
  "safe_amount_to_wei D amount decimals = (if \<not> dec_positive D amount then Inl AmountNotPositive
     else if MAX_DECIMALS < decimals then Inl DecimalsTooLarge
     else let result_decimal = dec_trunc D (dec_mul D amount (dec_of_int D (10 ^ decimals))) in
       if \<not> dec_positive D result_decimal then Inl AmountZero
       else case u256_from_dec_str (hd (split_dot (dec_to_string D result_decimal))) of
         None \<Rightarrow> Inl AmountTooLarge
       | Some result \<Rightarrow> if result = 0 then Inl AmountZero else Inr result)"

definition round_to_significant_digits :: "nat \<Rightarrow> nat \<Rightarrow> nat" where
  "round_to_significant_digits value n = (if value = 0 then 0 else
     let magnitude = List.length (nat_str value) in
     if magnitude \<le> n then value else
     let divisor = (((\<lambda>d. u256_mul d 10) ^^ (magnitude - n)) 1);
         quotient = value div divisor;
         remainder = value mod divisor;
         twice = u256_mul remainder 2;
         rounded = (if divisor < twice then u256_add quotient 1
                    else if twice = divisor \<and> odd quotient then u256_add quotient 1 else quotient)
     in u256_mul rounded divisor)"

definition calculate_order_amounts :: "'d decimal_ops \<Rightarrow> string \<Rightarrow> nat \<Rightarrow> OrderSide \<Rightarrow> amount_error + nat \<times> nat" where
  "calculate_order_amounts D price maker_amount side =
    (case price_to_fraction D price of Inl e \<Rightarrow> Inl e | Inr (price_num, price_denom) \<Rightarrow>
     let maker_4digit = round_to_significant_digits maker_amount 4;
         k0 = (case side of Buy \<Rightarrow> maker_4digit div price_num | Sell \<Rightarrow> maker_4digit div price_denom);
         k = (if k0 = 0 then 1 else k0);
         (m0, t0) = (case side of Buy \<Rightarrow> (u256_mul k price_num, u256_mul k price_denom)
                     | Sell \<Rightarrow> (u256_mul k price_denom, u256_mul k price_num));
         recalculated = (if m0 = 0 then 1 else m0);
         taker = (if t0 = 0 then 1 else t0);
         calculated_price = f64_of_int (int price_num) / f64_of_int (int price_denom)
     in if calculated_price < lit (1 / 1000) \<or> lit (999 / 1000) < calculated_price then Inl InvalidAmounts
        else Inr (recalculated, taker))"

text \<open>The amount part of \<open>place_limit_order\<close>: what is signed for a price, a size and the decimals of
  the quote token.\<close>

definition limit_order_amounts ::
    "'d decimal_ops \<Rightarrow> OrderSide \<Rightarrow> f64 \<Rightarrow> OrderAmount \<Rightarrow> nat \<Rightarrow> amount_error + string \<times> nat \<times> nat" where
  "limit_order_amounts D side price amount decimals =
    (case validate_price price of Inl e \<Rightarrow> Inl e | Inr price_str \<Rightarrow>
     case compute_maker_amount D side amount price_str of Inl e \<Rightarrow> Inl e | Inr maker_amount \<Rightarrow>
     case safe_amount_to_wei D maker_amount decimals of Inl e \<Rightarrow> Inl e | Inr maker_wei \<Rightarrow>
     case calculate_order_amounts D price_str maker_wei side of Inl e \<Rightarrow> Inl e
     | Inr (m, t) \<Rightarrow> Inr (price_str, m, t))"

definition min_threshold :: "nat \<Rightarrow> nat" where
  "min_threshold decimals = u256_mul 1000000000 (((\<lambda>p. u256_mul p 10) ^^ decimals) 1)"

end
