(* ===== verification/AmountsText.thy ===== *)
theory AmountsText
  imports Amounts
begin

text \<open>
  The text routines of \<open>Amounts\<close> undo each other: digits that are printed parse to the number they
  print, a fixed-point text splits at its dot, and the text of a validated price is the rational
  number with six decimals that it stands for.
\<close>

section \<open>Digits\<close>

named_theorems digit_text

lemma is_digit_not_sep: "is_digit c \<Longrightarrow> c \<noteq> CHR ''.'' \<and> c \<noteq> CHR ''-'' \<and> c \<noteq> CHR ''+''"
  by (auto simp: is_digit_def)

lemma digit_char_simps [digit_text]:
  assumes "d < 10"
  shows "is_digit (digit_char d)" "digit_val (digit_char d) = d" "digit_char d \<noteq> CHR ''.''"
    "digit_char d \<noteq> CHR ''-''" "digit_char d \<noteq> CHR ''+''"
proof -
  show "is_digit (digit_char d)" "digit_val (digit_char d) = d"
    using assms by (simp_all add: is_digit_def digit_val_def digit_char_def)
  then show "digit_char d \<noteq> CHR ''.''" "digit_char d \<noteq> CHR ''-''" "digit_char d \<noteq> CHR ''+''"
    using is_digit_not_sep by blast+
qed

lemma digits_val_snoc: "digits_val (s @ [c]) = 10 * digits_val s + digit_val c"
  by (simp add: digits_val_def)

lemma digits_nat_str: "digits_val (nat_str n) = n \<and> list_all is_digit (nat_str n)"
proof (induction n rule: nat_str.induct)
  case (1 n)
  then show ?case
    by (cases "n < 10") (simp_all add: nat_str.simps[of n] digit_text digits_val_snoc,
      simp add: digits_val_def digit_text)
qed

lemma nat_str_not_Nil [simp]: "nat_str n \<noteq> []"
  by (subst nat_str.simps) simp

lemma pad_digits_simps [digit_text]:
  "digits_val (pad_digits k n) = n mod 10 ^ k" "list_all is_digit (pad_digits k n)"
  "List.length (pad_digits k n) = k"
proof -
  show "digits_val (pad_digits k n) = n mod 10 ^ k"
  proof (induction k arbitrary: n)
    case (Suc k)
    have "n mod 10 ^ Suc k = 10 * (n div 10 mod 10 ^ k) + n mod 10"
      using mod_mult2_eq[of n 10 "10 ^ k"] by simp
    with Suc show ?case by (simp add: digits_val_snoc digit_text)
  qed (simp add: digits_val_def)
  show "list_all is_digit (pad_digits k n)" by (induction k n rule: pad_digits.induct) (simp_all add: digit_text)
  show "List.length (pad_digits k n) = k" by (induction k n rule: pad_digits.induct) simp_all
qed

lemma split_dot_digits: "list_all is_digit s \<Longrightarrow> split_dot s = [s]"
  by (induction s) (auto dest: is_digit_not_sep)

lemma split_dot_fixed:
  "list_all is_digit w \<Longrightarrow> list_all is_digit f \<Longrightarrow> split_dot (w @ CHR ''.'' # f) = [w, f]"
  by (induction w) (auto simp: split_dot_digits dest: is_digit_not_sep)

lemma parse_u64_digits:
  assumes "list_all is_digit s" "s \<noteq> []" "digits_val s < 2 ^ 64"
  shows "parse_u64 s = Some (digits_val s)"
proof -
  obtain c cs where s: "s = c # cs" using assms(2) by (cases s) auto
  with assms(1) have "c \<noteq> CHR ''+''" using is_digit_not_sep by auto
  with assms s show ?thesis unfolding parse_u64_def by simp
qed

text \<open>Printing then parsing an unsigned number, and counting its digits.\<close>

lemma parse_u64_nat_str: "n < 2 ^ 64 \<Longrightarrow> parse_u64 (nat_str n) = Some n"
  using parse_u64_digits[of "nat_str n"] digits_nat_str[of n] by simp

lemma u256_dec_str_nat_str: "n \<le> u256_max \<Longrightarrow> u256_from_dec_str (nat_str n) = Some n"
  using digits_nat_str[of n] by (simp add: u256_from_dec_str_def)

lemma nat_str_length: "0 < n \<Longrightarrow> 10 ^ (List.length (nat_str n) - 1) \<le> n \<and> n < 10 ^ List.length (nat_str n)"
proof (induction n rule: nat_str.induct)
  case (1 n)
  show ?case
  proof (cases "n < 10")
    case True
    with 1 show ?thesis by (simp add: nat_str.simps[of n])
  next
    case False
    let ?l = "List.length (nat_str (n div 10))"
    have l: "0 < ?l" by simp
    have "10 ^ (?l - 1) \<le> n div 10 \<and> n div 10 < 10 ^ ?l" using 1 False by simp
    then have "10 * 10 ^ (?l - 1) \<le> n \<and> n < 10 * 10 ^ ?l" by auto
    moreover have "(10::nat) * 10 ^ (?l - 1) = 10 ^ ?l" using l by (cases ?l) auto
    ultimately show ?thesis using False by (simp add: nat_str.simps[of n])
  qed
qed

section \<open>The text of a price\<close>

definition price_text :: "nat \<Rightarrow> string" where
  "price_text n = CHR ''0'' # CHR ''.'' # pad_digits 6 n"

lemma price_text_parts:
  assumes "n < 10 ^ 6"
  shows "split_dot (price_text n) = [''0'', pad_digits 6 n]"
    and "price_parts (price_text n) = Inr (n, 10 ^ 6)"
    and "parse_fixed (price_text n) = Some (of_nat n / 10 ^ 6, 6)"
proof -
  have d0: "is_digit CHR ''0''" "digits_val ''0'' = 0" "pad_digits 6 n \<noteq> []"
    using pad_digits_simps(3)[of 6 n] by (auto simp: is_digit_def digits_val_def digit_val_def)
  show s: "split_dot (price_text n) = [''0'', pad_digits 6 n]"
    using split_dot_fixed[of "''0''" "pad_digits 6 n"] d0(1) by (simp add: price_text_def digit_text)
  have p0: "parse_u64 ''0'' = Some 0" using parse_u64_digits[of "''0''"] d0 by simp
  have p1: "parse_u64 (pad_digits 6 n) = Some n"
    using parse_u64_digits[of "pad_digits 6 n"] assms d0(3) by (simp add: digit_text)
  show "price_parts (price_text n) = Inr (n, 10 ^ 6)"
    using assms d0(3) by (simp add: price_parts_def s p0 p1 digit_text)
  show "parse_fixed (price_text n) = Some (of_nat n / 10 ^ 6, 6)"
    using assms d0 s by (simp add: parse_fixed_def price_text_def digit_text Let_def)
qed

lemma format_price_text:
  assumes "0 < q" "rne (q * 10 ^ 6) = int n" "n < 10 ^ 6"
  shows "format_fixed 6 (Fin q) = price_text n"
proof -
  have "digit_char 0 = CHR ''0''" by code_simp
  then have "nat_str (n div 10 ^ 6) = ''0''" using assms(3) by (subst nat_str.simps) simp
  with assms show ?thesis by (simp add: price_text_def Let_def)
qed

lemma rndq_near:
  assumes "1 / 2000 \<le> q" "q \<le> 1"
  shows "\<bar>rndq q - q\<bar> \<le> 1 / 2 ^ 53"
proof -
  have "(2::rat) powi (-1022) \<le> 2 powi (-11)" by (rule power_int_increasing) auto
  also have "\<dots> \<le> q" using assms(1) by (simp add: power_int_minus)
  finally have "\<bar>rndq q - q\<bar> \<le> \<bar>q\<bar> * 2 powi (-53)" using assms(1) by (intro rndq_error) simp
  also have "\<dots> \<le> 1 * 2 powi (-53)" using assms by (intro mult_right_mono) auto
  finally show ?thesis by (simp add: power_int_minus)
qed

text \<open>A number of six decimals between 0.001 and 0.999 survives the passage through \<open>f64\<close>.\<close>

lemma rne_rndq_price:
  assumes "1000 \<le> n" "n \<le> 999000"
  shows "rne (rndq (of_nat n / 10 ^ 6) * 10 ^ 6) = int n" "0 < rndq (of_nat n / 10 ^ 6)"
    "rnd s (of_nat n / 10 ^ 6) = Fin (rndq (of_nat n / 10 ^ 6))"
proof -
  let ?q = "of_nat n / 10 ^ 6 :: rat" and ?r = "rndq (of_nat n / 10 ^ 6)"
  have b: "1 / 1000 \<le> ?q" "?q \<le> 999 / 1000" using assms by (simp_all add: field_simps)
  then have e: "\<bar>?r - ?q\<bar> \<le> 1 / 2 ^ 53" by (intro rndq_near) auto
  have small: "(1::rat) / 2 ^ 53 < 1 / 1000" by simp
  from e have "?q - 1 / 2 ^ 53 \<le> ?r" "?r \<le> ?q + 1 / 2 ^ 53" by (simp_all only: abs_le_iff) linarith+
  with small b have r: "0 < ?r" "?r < 2" by linarith+
  show "0 < ?r" by (rule r(1))
  have "\<bar>?r - ?q\<bar> * 10 ^ 6 \<le> 1 / 2 ^ 53 * 10 ^ 6" using e by (rule mult_right_mono) simp
  also have "\<dots> < 1 / 4" by simp
  finally have "\<bar>(?r - ?q) * 10 ^ 6\<bar> < 1 / 4" by (simp only: abs_mult) simp
  moreover have "(?r - ?q) * 10 ^ 6 = ?r * 10 ^ 6 - of_nat n" by (simp add: left_diff_distrib)
  ultimately have "\<bar>?r * 10 ^ 6 - of_nat n\<bar> < 1 / 4" by (simp only:)
  moreover have "\<bar>of_int (rne (?r * 10 ^ 6)) - ?r * 10 ^ 6\<bar> \<le> 1 / 2" by (rule rne_error)
  ultimately have "\<bar>of_int (rne (?r * 10 ^ 6)) - of_nat n :: rat\<bar> < 1" by linarith
  then have "\<bar>of_int (rne (?r * 10 ^ 6) - int n) :: rat\<bar> < 1" by simp
  then have "\<bar>rne (?r * 10 ^ 6) - int n\<bar> < 1" by linarith
  then show "rne (?r * 10 ^ 6) = int n" by simp
  note r(2)
  also have "(2::rat) < f64_limit" by (simp add: f64_limit_def)
  finally show "rnd s ?q = Fin ?r" using r(1) by (simp add: rnd_def Let_def)
qed

end
