(* ===== verification/AmountsProps.thy ===== *)
theory AmountsProps
  imports AmountsText
begin

text \<open>
  What the order amounts promise. A price that passes validation is the text of a number of
  millionths \<open>n\<close> between 1000 and 999000; its fraction is reduced; the loop that reduces it returns;
  and the two amounts that are signed have exactly that price as their ratio.
\<close>

section \<open>The decimal type\<close>

text \<open>The documented behaviour of \<open>Decimal\<close> that the path relies on: plain decimal text with at most
  28 decimals and a coefficient below \<open>2^96\<close> is read as its exact value with that many decimals, and
  comparisons compare the values.\<close>

definition decimal_text_ok :: "'d decimal_ops \<Rightarrow> ('d \<Rightarrow> rat) \<Rightarrow> bool" where
  "decimal_text_ok D val \<longleftrightarrow>
     (\<forall>s q k. parse_fixed s = Some (q, k) \<longrightarrow> k \<le> 28 \<longrightarrow> \<bar>q\<bar> * 10 ^ k < 2 ^ 96 \<longrightarrow>
        (\<exists>d. dec_from_str D s = Some d \<and> val d = q \<and> dec_scale D d = k)) \<and>
     (\<forall>a b. dec_lt D a b \<longleftrightarrow> val a < val b)"

lemma decimal_text_okD:
  assumes "decimal_text_ok D val" "parse_fixed s = Some (q, k)" "k \<le> 28" "\<bar>q\<bar> * 10 ^ k < 2 ^ 96"
  obtains d where "dec_from_str D s = Some d" "val d = q" "dec_scale D d = k"
  using assms unfolding decimal_text_ok_def by blast

lemma decimal_ltD: "decimal_text_ok D val \<Longrightarrow> dec_lt D a b \<longleftrightarrow> val a < val b"
  unfolding decimal_text_ok_def by blast

section \<open>Validated prices\<close>

lemma lit_price: "lit (1 / 1000) = Fin (rndq (1 / 1000))" "lit (999 / 1000) = Fin (rndq (999 / 1000))"
  using rne_rndq_price(3)[of 1000 False] rne_rndq_price(3)[of 999000 False] by (simp_all add: lit_def)

lemma in_range_millionths:
  assumes q: "rndq (1 / 1000) \<le> q" "q \<le> rndq (999 / 1000)" and n: "rne (q * 10 ^ 6) = m"
  shows "1000 \<le> m" "m \<le> 999000"
proof -
  have a: "rne (rndq (1 / 1000) * 10 ^ 6) = 1000" "rne (rndq (999 / 1000) * 10 ^ 6) = 999000"
    using rne_rndq_price(1)[of 1000] rne_rndq_price(1)[of 999000] by simp_all
  have "rndq (1 / 1000) * 10 ^ 6 \<le> q * 10 ^ 6" using q(1) by (rule mult_right_mono) simp
  moreover have "q * 10 ^ 6 \<le> rndq (999 / 1000) * 10 ^ 6" using q(2) by (rule mult_right_mono) simp
  ultimately show "1000 \<le> m" "m \<le> 999000" unfolding n[symmetric] using rne_mono a by metis+
qed

lemma parse_price_text:
  assumes "1000 \<le> n" "n \<le> 999000"
  shows "parse_f64 (price_text n) = Some (Fin (rndq (of_nat n / 10 ^ 6)))"
proof -
  have "price_text n \<noteq> ''NaN''" "price_text n \<noteq> ''inf''" "price_text n \<noteq> ''-inf''"
    by (simp_all add: price_text_def)
  moreover have "hd (price_text n) \<noteq> CHR ''-''" by (simp add: price_text_def)
  ultimately show ?thesis
    using price_text_parts(3)[of n] rne_rndq_price(3)[OF assms] assms by (simp add: parse_f64_def)
qed

lemma validate_priceD:
  assumes "validate_price p = Inr s"
  obtains q n where "p = Fin q" "0 < q" "1000 \<le> n" "n \<le> 999000" "s = price_text n"
    "rne (q * 10 ^ 6) = int n" "\<not> lit (1 / 1000000000) < \<bar>p - Fin (rndq (of_nat n / 10 ^ 6))\<bar>"
proof -
  have fin: "is_finite p" and lo: "\<not> p < lit (1 / 1000)" and hi: "\<not> lit (999 / 1000) < p"
    and f: "format_price_checked p = Inr s"
    using assms by (auto simp: validate_price_def split: if_splits)
  have pos: "0 < rndq (1 / 1000)" using rne_rndq_price(2)[of 1000] by simp
  obtain q where p: "p = Fin q" using fin lo pos by (cases p) (auto simp: lit_price)
  have q: "rndq (1 / 1000) \<le> q" "q \<le> rndq (999 / 1000)" using lo hi by (auto simp: p lit_price)
  define n where "n = nat (rne (q * 10 ^ 6))"
  have r: "1000 \<le> rne (q * 10 ^ 6)" "rne (q * 10 ^ 6) \<le> 999000" using in_range_millionths[OF q] by blast+
  then have n: "1000 \<le> n" "n \<le> 999000" "rne (q * 10 ^ 6) = int n" by (auto simp: n_def)
  have q0: "0 < q" using q(1) pos by simp
  have t: "format_fixed 6 p = price_text n" unfolding p using q0 n by (intro format_price_text) auto
  have u: "unwrap_or (parse_f64 (format_fixed 6 p)) p = Fin (rndq (of_nat n / 10 ^ 6))"
    by (simp only: t parse_price_text[OF n(1,2)] unwrap_or_def option.case)
  have v: "format_fixed 6 (Fin (rndq (of_nat n / 10 ^ 6))) = price_text n"
    using rne_rndq_price[OF n(1,2)] n by (intro format_price_text) auto
  have "s = price_text n" and "\<not> lit (1 / 1000000000) < \<bar>p - Fin (rndq (of_nat n / 10 ^ 6))\<bar>"
    using f unfolding format_price_checked_def u Let_def v by (auto split: if_splits)
  with p q0 n show thesis by (intro that[of q n])
qed

section \<open>The fraction\<close>

lemma gcd_loop_unfold: "gcd_loop (a, b) = (if b = 0 then Some (a, b) else gcd_loop (b, a mod b))"
  unfolding gcd_loop_def by (subst while_option_unfold) simp

lemma gcd_loop_gcd: "gcd_loop (a, b) = Some (gcd a b, 0)"
proof (induction b arbitrary: a rule: less_induct)
  case (less b)
  then show ?case
    by (subst gcd_loop_unfold) (auto simp: gcd.commute[of b] simp flip: gcd_red_nat)
qed

text \<open>The step shared by the properties, under a name of its own.\<close>

lemma gcd_u64_gcd: "gcd_u64 a b = Some (if a = 0 \<and> b = 0 then 1 else gcd a b)"
  by (auto simp: gcd_u64_def gcd_loop_gcd)

text \<open>
  C35. The loop of \<open>gcd\<close> returns on all inputs, with a positive common divisor, so the reduced price
  fraction never divides by zero; the two quotients are coprime and have the ratio of the inputs.
\<close>

theorem gcd_loop_returns:
  "\<exists>g. gcd_u64 a b = Some g \<and> 0 < g \<and> g dvd a \<and> g dvd b \<and> (a = 0 \<and> b = 0 \<or> coprime (a div g) (b div g))
     \<and> (a div g) * b = a * (b div g)"
proof -
  let ?g = "if a = 0 \<and> b = 0 then 1 else gcd a b"
  have g: "0 < ?g" "?g dvd a" "?g dvd b" by auto
  have c: "a = 0 \<and> b = 0 \<or> coprime (a div ?g) (b div ?g)" by (auto intro: div_gcd_coprime)
  have "(a div ?g) * b = a * (b div ?g)" using g(2,3) by (metis div_mult_swap mult.commute)
  with g c show ?thesis by (intro exI[of _ ?g]) (simp only: gcd_u64_gcd)
qed

lemma price_fraction:
  assumes ok: "decimal_text_ok D val" and n: "1000 \<le> n" "n \<le> 999000"
  shows "price_to_fraction D (price_text n) = Inr (n div gcd n (10 ^ 6), 10 ^ 6 div gcd n (10 ^ 6))"
proof -
  have n6: "n < 10 ^ 6" using n by simp
  then have "(of_nat n :: rat) < 10 ^ 6" by (metis of_nat_less_iff of_nat_numeral of_nat_power)
  then have "\<bar>of_nat n / 10 ^ 6 :: rat\<bar> * 10 ^ 6 < 2 ^ 96" by simp
  then obtain d where d: "dec_from_str D (price_text n) = Some d" "val d = of_nat n / 10 ^ 6" "dec_scale D d = 6"
    using decimal_text_okD[OF ok price_text_parts(3)[OF n6]] by auto
  have pf: "parse_fixed ''0.001'' = Some (1 / 1000, 3)" "parse_fixed ''0.999'' = Some (999 / 1000, 3)"
    by (simp_all add: parse_fixed_def is_digit_def digits_val_def digit_val_def Let_def)
  obtain lo where lo: "dec_from_str D ''0.001'' = Some lo" "val lo = 1 / 1000"
    by (rule decimal_text_okD[OF ok pf(1)]) auto
  obtain hi where hi: "dec_from_str D ''0.999'' = Some hi" "val hi = 999 / 1000"
    by (rule decimal_text_okD[OF ok pf(2)]) auto
  have "\<not> dec_lt D d lo" "\<not> dec_lt D hi d"
    using n by (auto simp: decimal_ltD[OF ok] d lo hi field_simps)
  moreover have "price_parts (price_text n) = Inr (n, 10 ^ 6)" by (rule price_text_parts(2)[OF n6])
  ultimately show ?thesis
    using n by (simp add: price_to_fraction_def unwrap_or_def d(1,3) lo(1) hi(1) gcd_u64_gcd)
qed

lemma fraction_facts:
  assumes n: "1000 \<le> n" "n \<le> 999000"
  defines "a \<equiv> n div gcd n (10 ^ 6)" and "b \<equiv> 10 ^ 6 div gcd n (10 ^ 6)"
  shows "0 < a" "0 < b" "a < b" "b \<le> 10 ^ 6" "a * 10 ^ 6 = n * b" "(of_nat a / of_nat b :: rat) = of_nat n / 10 ^ 6"
proof -
  let ?g = "gcd n (10 ^ 6)"
  have g: "0 < ?g" "?g dvd n" "?g dvd 10 ^ 6" by simp_all
  have na: "n = a * ?g" and nb: "10 ^ 6 = b * ?g" unfolding a_def b_def by simp_all
  show a: "0 < a" using na n by (intro Nat.gr0I) auto
  show b: "0 < b" using nb by (intro Nat.gr0I) auto
  have "a * ?g < b * ?g" unfolding na[symmetric] nb[symmetric] using n by simp
  then show "a < b" by (simp only: mult_less_cancel2)
  show "b \<le> 10 ^ 6" unfolding b_def by (rule div_le_dividend)
  show e: "a * 10 ^ 6 = n * b" using na nb by (metis mult.assoc mult.commute)
  then have "(of_nat a * 10 ^ 6 :: rat) = of_nat n * of_nat b" by (metis of_nat_mult of_nat_numeral of_nat_power)
  then show "(of_nat a / of_nat b :: rat) = of_nat n / 10 ^ 6" using b by (simp add: field_simps)
qed

text \<open>The quotient of the reduced fraction in \<open>f64\<close> is in the range that was checked before: the
  last guard of \<open>calculate_order_amounts\<close> never fires.\<close>

lemma fraction_in_range:
  assumes n: "1000 \<le> n" "n \<le> 999000"
  defines "x \<equiv> f64_of_int (int (n div gcd n (10 ^ 6))) / f64_of_int (int (10 ^ 6 div gcd n (10 ^ 6)))"
  shows "\<not> x < lit (1 / 1000)" "\<not> lit (999 / 1000) < x"
proof -
  note f = fraction_facts[OF n]
  let ?a = "n div gcd n (10 ^ 6)" and ?b = "10 ^ 6 div gcd n (10 ^ 6)"
  have b: "?b \<le> 2 ^ 53" using f(4) by (rule order_trans) simp
  then have "?a \<le> 2 ^ 53" using f(3) by (rule order_trans[OF less_imp_le, rotated])
  with b have "int ?a \<le> int (2 ^ 53)" "int ?b \<le> int (2 ^ 53)" by (simp_all only: of_nat_le_iff)
  then have s: "\<bar>int ?a\<bar> \<le> 2 ^ 53" "\<bar>int ?b\<bar> \<le> 2 ^ 53" by (simp_all del: of_nat_div)
  have "x = rnd False (of_nat ?a / of_nat ?b)"
    unfolding x_def f64_of_int_Fin[OF s(1)] f64_of_int_Fin[OF s(2)] divide_f64_def
    using f(1,2) by (simp del: of_nat_div)
  then have x: "x = rnd False (of_nat n / 10 ^ 6)" by (simp only: f(6))
  have "(1::rat) / 1000 \<le> of_nat n / 10 ^ 6" "of_nat n / 10 ^ 6 \<le> (999::rat) / 1000"
    using n by (simp_all add: field_simps)
  then have "lit (1 / 1000) \<le> x" "x \<le> lit (999 / 1000)" unfolding x lit_def by (auto intro: rnd_mono)
  then show "\<not> x < lit (1 / 1000)" "\<not> lit (999 / 1000) < x" using f64_less_not_le by blast+
qed

section \<open>Rounding to significant digits\<close>

lemma u256_mul_small: "a * b \<le> u256_max \<Longrightarrow> u256_mul a b = a * b"
  by (simp add: u256_mul_def)

lemma u256_pow10: "10 ^ k \<le> u256_max \<Longrightarrow> ((\<lambda>d. u256_mul d 10) ^^ k) 1 = 10 ^ k"
proof (induction k)
  case (Suc k)
  then have "(10::nat) ^ k \<le> u256_max" by simp
  with Suc show ?case by (simp add: u256_mul_def mult.commute)
qed simp

lemma half_even_near:
  fixes v d :: nat
  assumes "0 < d"
  defines "r \<equiv> (if d < 2 * (v mod d) then v div d + 1
      else if 2 * (v mod d) = d \<and> odd (v div d) then v div d + 1 else v div d)"
  shows "2 * \<bar>int (r * d) - int v\<bar> \<le> int d"
proof -
  have v: "v = v div d * d + v mod d" by simp
  have m: "v mod d < d" using assms by simp
  have "2 * \<bar>(int (v div d) + 1) * int d - int v\<bar> \<le> int d" if "d \<le> 2 * (v mod d)"
  proof -
    have "int v = int (v div d) * int d + int (v mod d)" by (subst v) (simp only: of_nat_add of_nat_mult)
    then have "(int (v div d) + 1) * int d - int v = int d - int (v mod d)" by (simp add: distrib_right)
    with that m show ?thesis by simp
  qed
  moreover have "2 * \<bar>int (v div d) * int d - int v\<bar> \<le> int d" if "2 * (v mod d) \<le> d"
  proof -
    have "int v = int (v div d) * int d + int (v mod d)" by (subst v) (simp only: of_nat_add of_nat_mult)
    then have "int (v div d) * int d - int v = - int (v mod d)" by simp
    with that show ?thesis by simp
  qed
  ultimately show ?thesis unfolding r_def by (auto simp: not_less add.commute)
qed

lemma near_le:
  fixes x v d :: int
  assumes "c * \<bar>x - v\<bar> \<le> d" "1 \<le> c"
  shows "x \<le> v + d"
proof -
  have "1 * \<bar>x - v\<bar> \<le> c * \<bar>x - v\<bar>" using assms(2) by (rule mult_right_mono) simp
  then have "\<bar>x - v\<bar> \<le> d" using assms(1) by simp
  then have "x - v \<le> d" by (rule abs_le_D1)
  then show ?thesis by simp
qed


lemma round4_near:
  assumes v: "0 < v" "v \<le> 2 ^ 200"
  shows "2000 * \<bar>int (round_to_significant_digits v 4) - int v\<bar> \<le> int v"
    and "10 ^ 6 \<le> v \<Longrightarrow> 10 ^ 6 \<le> round_to_significant_digits v 4"
proof -
  let ?l = "List.length (nat_str v)"
  note l = nat_str_length[OF v(1)]
  have "2000 * \<bar>int (round_to_significant_digits v 4) - int v\<bar> \<le> int v
    \<and> (10 ^ 6 \<le> v \<longrightarrow> 10 ^ 6 \<le> round_to_significant_digits v 4)"
  proof (cases "?l \<le> 4")
    case True
    then show ?thesis using v by (simp add: round_to_significant_digits_def)
  next
    case False
    define k where "k = ?l - 4"
    define d :: nat where "d = 10 ^ k"
    define r where "r = (if d < 2 * (v mod d) then v div d + 1
      else if 2 * (v mod d) = d \<and> odd (v div d) then v div d + 1 else v div d)"
    have "?l - 1 = 3 + k" using False by (simp add: k_def)
    then have dv: "1000 * d \<le> v" using l by (simp add: d_def power_add)
    have big: "2 ^ 200 * 10 \<le> u256_max" by (simp add: u256_max_def)
    then have dm: "d \<le> u256_max" using dv v by simp
    have d0: "0 < d" by (simp add: d_def)
    have t: "u256_mul (v mod d) 2 = 2 * (v mod d)"
    proof -
      have "v mod d \<le> v" by simp
      with big v have "v mod d * 2 \<le> u256_max" by linarith
      then show ?thesis by (simp add: u256_mul_def)
    qed
    have near: "2 * \<bar>int (r * d) - int v\<bar> \<le> int d" unfolding r_def by (rule half_even_near[OF d0])
    have "int (r * d) \<le> int v + int d" using near by (rule near_le) simp
    then have "int (r * d) \<le> int (v + d)" by simp
    then have "r * d \<le> v + d" by (simp only: of_nat_le_iff)
    then have rd: "r * d \<le> 2 * v" using dv by simp
    have add: "u256_add (v div d) (Suc 0) = Suc (v div d)"
    proof -
      have "v div d \<le> v" by simp
      moreover have "1 \<le> (2::nat) ^ 200" by simp
      ultimately have "v div d + Suc 0 \<le> u256_max" using big v(2) by linarith
      then show ?thesis by (simp add: u256_add_def min_absorb1)
    qed
    have "round_to_significant_digits v 4 = u256_mul r d"
      using False v u256_pow10[of k] dm
      by (simp add: round_to_significant_digits_def Let_def flip: k_def d_def) (simp add: t add r_def)
    also have "\<dots> = r * d" using rd big v by (intro u256_mul_small) linarith
    finally have w: "round_to_significant_digits v 4 = r * d" .
    have "10 ^ 6 \<le> r * d" if "10 ^ 6 \<le> v"
    proof -
      have "6 < ?l"
      proof (rule ccontr)
        assume "\<not> 6 < ?l"
        then have "(10::nat) ^ ?l \<le> 10 ^ 6" by (intro power_increasing) auto
        with l that show False by simp
      qed
      then have "(10::nat) ^ 3 \<le> d" unfolding d_def by (intro power_increasing) (auto simp: k_def)
      moreover have "10 ^ 3 \<le> r"
        using dv d0 by (auto simp: r_def less_eq_div_iff_mult_less_eq intro: le_SucI)
      ultimately have "(10::nat) ^ 3 * 10 ^ 3 \<le> r * d" by (intro mult_le_mono)
      then show ?thesis by simp
    qed
    with near dv show ?thesis unfolding w by simp
  qed
  then show "2000 * \<bar>int (round_to_significant_digits v 4) - int v\<bar> \<le> int v"
    "10 ^ 6 \<le> v \<Longrightarrow> 10 ^ 6 \<le> round_to_significant_digits v 4" by auto
qed

section \<open>The amounts that are signed\<close>

lemma amounts_of_price:
  assumes ok: "decimal_text_ok D val" and n: "1000 \<le> n" "n \<le> 999000"
    and v: "0 < v" "v \<le> 2 ^ 200"
  defines "a \<equiv> n div gcd n (10 ^ 6)" and "b \<equiv> 10 ^ 6 div gcd n (10 ^ 6)"
  defines "w \<equiv> round_to_significant_digits v 4"
  shows "calculate_order_amounts D (price_text n) v side = Inr (case side of
      Buy \<Rightarrow> (max 1 (w div a) * a, max 1 (w div a) * b) | Sell \<Rightarrow> (max 1 (w div b) * b, max 1 (w div b) * a))"
proof -
  note f = fraction_facts[OF n, folded a_def b_def] and g = fraction_in_range[OF n, folded a_def b_def]
  have "int w \<le> int v + int v" using round4_near(1)[OF v] unfolding w_def by (rule near_le) simp
  then have "w \<le> 2 * v" by simp
  then have wm: "w \<le> 2 ^ 201" using v(2) by simp
  have k: "max 1 (w div c) \<le> 2 ^ 201" for c
    by (intro max.boundedI order_trans[OF div_le_dividend wm]) simp
  have m: "u256_mul (max 1 (w div c)) x = max 1 (w div c) * x" if "x \<le> 10 ^ 6" for c x
  proof -
    have "max 1 (w div c) * x \<le> 2 ^ 201 * 10 ^ 6" using k that by (rule mult_le_mono)
    also have "\<dots> \<le> u256_max" by (simp add: u256_max_def)
    finally show ?thesis by (rule u256_mul_small)
  qed
  have ab: "a \<le> 10 ^ 6" "b \<le> 10 ^ 6" using f by simp_all
  have mx: "(if k = 0 then 1 else k) = max 1 k" for k :: nat by simp
  have pos: "max 1 (max 1 k * x) = max 1 k * x" if "0 < x" for k x :: nat using that by (simp add: max_absorb2)
  show ?thesis
    unfolding calculate_order_amounts_def price_fraction[OF ok n, folded a_def b_def] sum.case prod.case Let_def
      w_def[symmetric] mx
    using g f(1,2) by (cases side) (simp_all only: OrderSide.case prod.case if_False simp_thms m[OF ab(1)] m[OF ab(2)] pos)
qed

text \<open>The precision check, in exact numbers.\<close>

lemma abs_rnd: "d \<noteq> 0 \<Longrightarrow> \<bar>rnd s d\<bar> = rnd t \<bar>d\<bar>"
  using rndq_nonneg[of d] rndq_nonpos[of d] f64_limit_pos(1)
  by (cases "0 < d") (auto simp: rnd_def abs_f64_def Let_def abs_if split: if_splits)

lemma nano_less: "lit (1 / 1000000000) < lit (2 / 10 ^ 9)"
proof -
  have e: "\<bar>rndq q - q\<bar> \<le> q / 2 ^ 53" if "1 / 10 ^ 9 \<le> q" for q
  proof -
    have "(2::rat) powi (-1022) \<le> 2 powi (-30)" by (rule power_int_increasing) auto
    also have "\<dots> \<le> q" using that by (simp add: power_int_minus)
    finally show ?thesis using that rndq_error[of q] by (simp add: power_int_minus)
  qed
  let ?x = "1 / 10 ^ 9 :: rat" and ?y = "2 / 10 ^ 9 :: rat"
  have "rndq ?x - ?x \<le> ?x / 2 ^ 53" by (rule abs_le_D1[OF e]) simp
  moreover have "- (rndq ?y - ?y) \<le> ?y / 2 ^ 53" by (rule abs_le_D2[OF e]) simp
  moreover have "?x + ?x / 2 ^ 53 < ?y - ?y / 2 ^ 53" by simp
  ultimately have "rndq ?x < rndq ?y" by linarith
  moreover have "rndq ?y \<le> rndq 1" by (rule rndq_mono) simp
  moreover have "rndq 1 < f64_limit" using rndq_of_int[of 1] by (simp add: f64_limit_def)
  moreover have "0 \<le> rndq ?x" by (rule rndq_nonneg) simp
  ultimately show ?thesis by (simp add: less_key lit_def rnd_key)
qed

lemma price_near:
  assumes near: "\<not> lit (1 / 1000000000) < \<bar>Fin q - Fin (rndq (of_nat n / 10 ^ 6))\<bar>"
    and n: "1000 \<le> n" "n \<le> 999000"
  shows "\<bar>q - of_nat n / 10 ^ 6\<bar> \<le> 3 / 10 ^ 9"
proof -
  let ?x = "of_nat n / 10 ^ 6 :: rat" and ?r = "rndq (of_nat n / 10 ^ 6)"
  have "1 / 1000 \<le> ?x" "?x \<le> 999 / 1000" using n by (simp_all add: field_simps)
  then have xr: "\<bar>?r - ?x\<bar> \<le> 1 / 2 ^ 53" by (intro rndq_near) auto
  have r0: "?r \<noteq> 0" using rne_rndq_price(2)[OF n] by simp
  have "\<bar>q - ?r\<bar> \<le> 2 / 10 ^ 9"
  proof (rule ccontr)
    assume big: "\<not> \<bar>q - ?r\<bar> \<le> 2 / 10 ^ 9"
    then have d: "q - ?r \<noteq> 0" by auto
    have "Fin q - Fin ?r = rnd (q < 0 \<and> fneg (f64_neg (Fin ?r))) (q - ?r)"
      using r0 by (simp add: minus_f64_def)
    then have e: "\<bar>Fin q - Fin ?r\<bar> = rnd False \<bar>q - ?r\<bar>" by (simp only: abs_rnd[OF d, where t = False])
    have "lit (2 / 10 ^ 9) \<le> rnd False \<bar>q - ?r\<bar>" unfolding lit_def using big by (intro rnd_mono) simp
    with near e show False using f64_trans(2)[OF nano_less] by simp
  qed
  from this xr have "\<bar>q - ?r\<bar> + \<bar>?r - ?x\<bar> \<le> 2 / 10 ^ 9 + 1 / 2 ^ 53" by (rule add_mono)
  moreover have "\<bar>q - ?x\<bar> \<le> \<bar>q - ?r\<bar> + \<bar>?r - ?x\<bar>" using abs_triangle_ineq[of "q - ?r" "?r - ?x"] by simp
  ultimately show ?thesis by simp
qed

text \<open>
  C29. A limit order is signed at exactly the validated price. Every price that validation accepts
  stands for a whole number \<open>n\<close> of millionths between 1000 and 999000 that is within three
  billionths of the price asked for, and the two amounts have the ratio \<open>n / 10^6\<close>, maker over
  taker for a buy and taker over maker for a sell; no rounding enters the ratio.
\<close>

theorem order_amounts_price:
  assumes ok: "decimal_text_ok D val" and p: "validate_price p = Inr s" and v: "0 < v" "v \<le> 2 ^ 200"
  shows "\<exists>n m t. s = price_text n \<and> 1000 \<le> n \<and> n \<le> 999000 \<and> \<bar>fval p - of_nat n / 10 ^ 6\<bar> \<le> 3 / 10 ^ 9
    \<and> calculate_order_amounts D s v side = Inr (m, t) \<and> 0 < m \<and> 0 < t
    \<and> (case side of Buy \<Rightarrow> m * 10 ^ 6 = t * n | Sell \<Rightarrow> t * 10 ^ 6 = m * n)"
proof -
  obtain q n where q: "p = Fin q" "0 < q" and n: "1000 \<le> n" "n \<le> 999000" and s: "s = price_text n"
    and near: "\<not> lit (1 / 1000000000) < \<bar>p - Fin (rndq (of_nat n / 10 ^ 6))\<bar>"
    by (rule validate_priceD[OF p])
  note f = fraction_facts[OF n]
  let ?a = "n div gcd n (10 ^ 6)" and ?b = "10 ^ 6 div gcd n (10 ^ 6)"
  obtain m t k where c: "calculate_order_amounts D s v side = Inr (m, t)" and k: "0 < k"
    and mt: "(m, t) = (case side of Buy \<Rightarrow> (k * ?a, k * ?b) | Sell \<Rightarrow> (k * ?b, k * ?a))"
    unfolding s amounts_of_price[OF ok n v] by (cases side) (force simp: less_max_iff_disj)+
  have "0 < m" "0 < t" using mt k f(1,2) by (cases side; simp)+
  moreover have "case side of Buy \<Rightarrow> m * 10 ^ 6 = t * n | Sell \<Rightarrow> t * 10 ^ 6 = m * n"
    using mt f(5) by (cases side) (simp_all add: mult.assoc mult.commute[of n])
  moreover have "\<bar>fval p - of_nat n / 10 ^ 6\<bar> \<le> 3 / 10 ^ 9"
    unfolding q(1) fval.simps using near n unfolding q(1) by (rule price_near)
  ultimately show ?thesis using s n c by blast
qed


section \<open>Errors\<close>

lemma compute_maker_errors:
  assumes "compute_maker_amount D side amount s = Inl e"
  shows "e \<in> {InvalidPrice, InvalidDecimal, AmountBelowOne, ZeroPrice, MakerNotPositive}"
  using assms
  by (auto simp: compute_maker_amount_def at_least_one_def decimal_from_f64_def
      split: option.splits OrderSide.splits OrderAmount.splits sum.splits if_splits)

lemma safe_amount_errors:
  assumes "safe_amount_to_wei D x decimals = Inl e"
  shows "e \<in> {AmountNotPositive, DecimalsTooLarge, AmountZero, AmountTooLarge}"
  using assms by (auto simp: safe_amount_to_wei_def Let_def split: option.splits if_splits)

lemma calculate_no_error:
  assumes "decimal_text_ok D val" "1000 \<le> n" "n \<le> 999000"
  shows "\<exists>m t. calculate_order_amounts D (price_text n) w side = Inr (m, t)"
  using fraction_in_range[OF assms(2,3)]
  by (simp only: calculate_order_amounts_def price_fraction[OF assms] sum.case prod.case Let_def if_False simp_thms
      split: OrderSide.split) auto

lemma price_text_not_zero:
  assumes ok: "decimal_text_ok D val" and n: "1000 \<le> n" "n \<le> 999000"
    and e: "compute_maker_amount D side amount (price_text n) = Inl e" and z: "val (dec_zero D) = 0"
  shows "e \<noteq> InvalidPrice" "e \<noteq> ZeroPrice"
proof -
  have n6: "n < 10 ^ 6" using n by simp
  then have "(of_nat n :: rat) < 10 ^ 6" by (metis of_nat_less_iff of_nat_numeral of_nat_power)
  then have "\<bar>of_nat n / 10 ^ 6 :: rat\<bar> * 10 ^ 6 < 2 ^ 96" by simp
  then obtain d where d: "dec_from_str D (price_text n) = Some d" "val d = of_nat n / 10 ^ 6"
    using decimal_text_okD[OF ok price_text_parts(3)[OF n6]] by auto
  have "dec_lt D (dec_zero D) d" using n by (simp add: decimal_ltD[OF ok] d z)
  with e show "e \<noteq> InvalidPrice" "e \<noteq> ZeroPrice"
    by (auto simp: compute_maker_amount_def at_least_one_def decimal_from_f64_def d(1)
        split: option.splits OrderSide.splits OrderAmount.splits sum.splits if_splits)
qed

text \<open>
  C33. The price checks come first and are complete. An order fails with a price error exactly when
  validation rejects the price. Once the price is accepted the only errors left are those of the
  amount and of the quote token's decimals; in particular the text of the price always parses again,
  its fraction never overflows, and the guard on the final ratio never fires.
\<close>

theorem limit_order_errors:
  assumes ok: "decimal_text_ok D val" and z: "val (dec_zero D) = 0"
  shows "(\<forall>e. validate_price p = Inl e \<longrightarrow> limit_order_amounts D side p amount decimals = Inl e)
    \<and> (\<forall>s e. validate_price p = Inr s \<longrightarrow> limit_order_amounts D side p amount decimals = Inl e \<longrightarrow>
        e \<in> {InvalidDecimal, AmountBelowOne, MakerNotPositive, AmountNotPositive, DecimalsTooLarge,
              AmountZero, AmountTooLarge})"
proof (intro conjI allI impI)
  fix e
  assume "validate_price p = Inl e"
  then show "limit_order_amounts D side p amount decimals = Inl e" by (simp add: limit_order_amounts_def)
next
  fix s e
  assume v: "validate_price p = Inr s" and l: "limit_order_amounts D side p amount decimals = Inl e"
  obtain q n where n: "1000 \<le> n" "n \<le> 999000" and s: "s = price_text n" by (rule validate_priceD[OF v])
  show "e \<in> {InvalidDecimal, AmountBelowOne, MakerNotPositive, AmountNotPositive, DecimalsTooLarge,
      AmountZero, AmountTooLarge}"
  proof (cases "compute_maker_amount D side amount s")
    case (Inl e')
    then have "e' = e" using v l by (simp add: limit_order_amounts_def)
    with Inl show ?thesis
      using compute_maker_errors[of D side amount s e] price_text_not_zero[OF ok n _ z, of side amount e] s by auto
  next
    case maker: (Inr x)
    show ?thesis
    proof (cases "safe_amount_to_wei D x decimals")
      case (Inl e')
      then have "e' = e" using v l maker by (simp add: limit_order_amounts_def)
      with Inl show ?thesis using safe_amount_errors[of D x decimals e] by auto
    next
      case (Inr w)
      obtain m t where "calculate_order_amounts D s w side = Inr (m, t)"
        using calculate_no_error[OF ok n] s by blast
      with v l maker Inr show ?thesis by (simp add: limit_order_amounts_def)
    qed
  qed
qed

section \<open>Prices rounded to the tick\<close>

text \<open>The converse of \<open>validate_priceD\<close>: numbers of millionths validate to their own text.\<close>

lemma validate_price_exact:
  assumes n: "1000 \<le> n" "n \<le> 999000"
  shows "validate_price (Fin (rndq (of_nat n / 10 ^ 6))) = Inr (price_text n)"
proof -
  let ?x = "of_nat n / 10 ^ 6 :: rat"
  have "1 / 1000 \<le> ?x" "?x \<le> 999 / 1000" using n by (simp_all add: field_simps)
  then have "rndq (1 / 1000) \<le> rndq ?x" "rndq ?x \<le> rndq (999 / 1000)" by (auto intro: rndq_mono)
  then have r: "\<not> Fin (rndq ?x) < lit (1 / 1000)" "\<not> lit (999 / 1000) < Fin (rndq ?x)"
    by (simp_all add: lit_price)
  have t: "format_fixed 6 (Fin (rndq ?x)) = price_text n"
    using rne_rndq_price[OF n] n by (intro format_price_text) auto
  have "Fin (rndq ?x) - Fin (rndq ?x) = Fin 0"
    using rne_rndq_price(2)[OF n] by (simp add: minus_f64_def)
  moreover have "Fin 0 \<le> lit (1 / 1000000000)" unfolding lit_def by (rule rnd_ge_zeros(1)) simp
  ultimately have "\<not> lit (1 / 1000000000) < \<bar>Fin (rndq ?x) - Fin (rndq ?x)\<bar>"
    using f64_less_not_le[of "lit (1 / 1000000000)" "Fin 0"] by (auto simp: abs_f64_def)
  with r show ?thesis
    by (simp only: validate_price_def is_finite_simps format_price_checked_def t parse_price_text[OF n]
        unwrap_or_def option.case Let_def) simp
qed

lemma lit_1000: "lit 1000 = Fin 1000"
  using rnd_of_int[of 1000 False] by (simp add: lit_def)

lemma tick_quotient:
  assumes "signed_int b k / lit 1000 = r" "lit (1 / 1000) \<le> r" "r \<le> lit (999 / 1000)"
  shows "1 \<le> k \<and> k \<le> 999 \<and> r = Fin (rndq (of_nat (nat (1000 * k)) / 10 ^ 6))"
proof -
  have pos: "Fin 0 < lit (1 / 1000)" using rne_rndq_price(2)[of 1000] by (simp add: lit_price)
  have r: "k \<noteq> 0" "r = rnd (k < 0) (of_int k / 1000)"
    using assms f64_trans(2)[OF pos assms(2)] by (auto simp: lit_1000 signed_int_def divide_f64_def split: if_splits)
  have hi: "rndq (999 / 1000) < 1"
  proof -
    have "\<bar>rndq (999 / 1000) - 999 / 1000\<bar> \<le> 1 / 2 ^ 53" by (rule rndq_near) auto
    then have "rndq (999 / 1000) - 999 / 1000 \<le> 1 / 2 ^ 53" by (rule abs_le_D1)
    moreover have "999 / 1000 + 1 / 2 ^ 53 < (1::rat)" by simp
    ultimately show ?thesis by linarith
  qed
  have "1 \<le> k"
  proof (rule ccontr)
    assume "\<not> 1 \<le> k"
    then have "r \<le> Fin 0" unfolding r(2) by (intro rnd_ge_zeros(3)) simp
    then show False using assms(2) pos f64_trans(2)[OF pos assms(2)] f64_less_not_le by blast
  qed
  moreover have "k \<le> 999"
  proof (rule ccontr)
    assume "\<not> k \<le> 999"
    then have "rnd False 1 \<le> r" unfolding r(2) by (intro rnd_mono) simp
    moreover have "rnd False 1 = Fin 1" using rnd_of_int[of 1 False] by simp
    ultimately have "Fin 1 \<le> lit (999 / 1000)" using f64_trans(1)[OF _ assms(3)] by simp
    then show False using hi by (simp add: lit_price)
  qed
  ultimately show ?thesis
    using rne_rndq_price(3)[of "nat (1000 * k)" "k < 0"] r(2) by simp
qed

text \<open>
  A price rounded for its side is on the venue's tick of one thousandth and, if it is in the
  accepted range, it passes validation with exactly that text: the whole number of thousandths just
  below the price for a buy, just above it for a sell (in the arithmetic of the code).
\<close>

theorem rounded_price_valid:
  assumes p: "is_finite p" and r: "r = round_price_for_side p side"
    and range: "lit (1 / 1000) \<le> r" "r \<le> lit (999 / 1000)"
  shows "\<exists>k. 1 \<le> k \<and> k \<le> 999 \<and> validate_price r = Inr (price_text (1000 * k))
    \<and> int k = (case side of Buy \<Rightarrow> \<lfloor>fval (p * lit 1000)\<rfloor> | Sell \<Rightarrow> \<lceil>fval (p * lit 1000)\<rceil>)"
proof -
  let ?y = "p * lit 1000"
  let ?k = "case side of Buy \<Rightarrow> \<lfloor>fval ?y\<rfloor> | Sell \<Rightarrow> \<lceil>fval ?y\<rceil>"
  have pos: "Fin 0 < lit (1 / 1000)" using rne_rndq_price(2)[of 1000] by (simp add: lit_price)
  have nz: "r \<noteq> NZ" "\<And>s. r \<noteq> Inf s"
    using range pos f64_trans(2)[OF pos range(1)] by (auto simp: lit_price)
  obtain b where "signed_int b ?k / lit 1000 = r"
  proof (cases ?y)
    case NaN
    with p show thesis by (cases p) (auto simp: times_f64_def lit_1000 rnd_def Let_def split: if_splits)
  next
    case (Inf s)
    with r p nz show thesis by (cases side) (auto simp: round_price_for_side_def lit_1000 divide_f64_def)
  next
    case NZ
    with r p nz show thesis by (cases side) (auto simp: round_price_for_side_def lit_1000 divide_f64_def)
  next
    case (Fin q)
    with r p that[of "case side of Buy \<Rightarrow> False | Sell \<Rightarrow> q < 0"] show thesis
      by (cases side) (auto simp: round_price_for_side_def)
  qed
  note t = tick_quotient[OF this range]
  then have e: "nat (1000 * ?k) = 1000 * nat ?k" by (simp add: nat_mult_distrib)
  from t have "validate_price r = Inr (price_text (1000 * nat ?k))"
    using validate_price_exact[of "1000 * nat ?k"] by (simp only: e) linarith
  with t show ?thesis by (intro exI[of _ "nat ?k"]) auto
qed

section \<open>Witnesses\<close>

text \<open>Exact decimals with their scale, an instance of the parameter.\<close>

definition rat_decimal :: "(rat \<times> nat) decimal_ops" where
  "rat_decimal = \<lparr> dec_from_str = parse_fixed, dec_scale = snd, dec_lt = (\<lambda>a b. fst a < fst b),
     dec_zero = (0, 0), dec_one = (1, 0), dec_of_int = (\<lambda>i. (of_int i, 0)),
     dec_mul = (\<lambda>a b. (fst a * fst b, snd a + snd b)), dec_div = (\<lambda>a b. (fst a / fst b, 28)),
     dec_trunc = (\<lambda>a. (of_int (rnd_zero (fst a)), 0)),
     dec_to_string = (\<lambda>a. nat_str (nat \<lfloor>fst a\<rfloor>)), dec_new = (\<lambda>i s. (of_int i / 10 ^ s, s)) \<rparr>"

lemma rat_decimal_ok: "decimal_text_ok rat_decimal fst"
  by (simp add: decimal_text_ok_def rat_decimal_def)

lemma rat_decimal_zero: "fst (dec_zero rat_decimal) = 0"
  by (simp add: rat_decimal_def)

text \<open>The price one half.\<close>

lemma validate_half: "validate_price (Fin (1 / 2)) = Inr (price_text 500000)"
proof -
  have "repr (1 / 2)" unfolding repr_def by (intro exI[of _ 1] exI[of _ "- 1"]) simp
  then show ?thesis using validate_price_exact[of 500000] by (simp add: rndq_repr)
qed

lemma price_text_inj_half: "price_text 500000 = price_text n \<Longrightarrow> n < 10 ^ 6 \<Longrightarrow> n = 500000"
  using price_text_parts(2)[of n] price_text_parts(2)[of 500000] by simp

theorem order_amounts_price_witness:
  "\<exists>m t. calculate_order_amounts rat_decimal (price_text 500000) 7 Buy = Inr (m, t) \<and> 0 < m \<and> m * 10 ^ 6 = t * 500000"
proof -
  obtain n m t where "price_text 500000 = price_text n" "n \<le> 999000"
    "calculate_order_amounts rat_decimal (price_text 500000) 7 Buy = Inr (m, t)" "0 < m" "m * 10 ^ 6 = t * n"
    using order_amounts_price[OF rat_decimal_ok validate_half, of 7 Buy] by auto
  then show ?thesis using price_text_inj_half[of n] by auto
qed


theorem limit_order_errors_witness:
  "limit_order_amounts rat_decimal Buy (Fin 2) (Base (Fin 5)) 18 = Inl PriceOutOfRange"
proof -
  have "\<bar>rndq (999 / 1000) - 999 / 1000\<bar> \<le> 1 / 2 ^ 53" by (rule rndq_near) auto
  then have "rndq (999 / 1000) - 999 / 1000 \<le> 1 / 2 ^ 53" by (rule abs_le_D1)
  moreover have "999 / 1000 + 1 / 2 ^ 53 < (2::rat)" by simp
  ultimately have "rndq (999 / 1000) < 2" by linarith
  then have "validate_price (Fin 2) = Inl PriceOutOfRange" by (simp add: validate_price_def lit_price)
  then show ?thesis
    using limit_order_errors[OF rat_decimal_ok rat_decimal_zero, of "Fin 2" Buy "Base (Fin 5)" 18] by auto
qed

theorem rounded_price_valid_witness:
  "\<exists>k. 1 \<le> k \<and> k \<le> 999 \<and> validate_price (round_price_for_side (Fin (1 / 2)) Sell) = Inr (price_text (1000 * k))"
proof -
  have h: "repr (1 / 2)" unfolding repr_def by (intro exI[of _ 1] exI[of _ "- 1"]) simp
  have "Fin (1 / 2) * lit 1000 = Fin 500"
    using rnd_of_int[of 500 False] by (simp add: lit_1000 times_f64_def)
  then have r: "round_price_for_side (Fin (1 / 2)) Sell = Fin (1 / 2)"
    using rnd_exact[OF h, of False]
    by (simp add: round_price_for_side_def signed_int_def lit_1000 divide_f64_def f64_limit_def)
  have "lit (1 / 1000) \<le> rnd False (1 / 2)" "rnd False (1 / 2) \<le> lit (999 / 1000)"
    unfolding lit_def by (intro rnd_mono; simp)+
  moreover have "rnd False (1 / 2) = Fin (1 / 2)" using rnd_exact[OF h] by (simp add: f64_limit_def)
  ultimately have b: "lit (1 / 1000) \<le> Fin (1 / 2)" "Fin (1 / 2) \<le> lit (999 / 1000)" by simp_all
  show ?thesis using rounded_price_valid[OF _ r[symmetric] b] by (auto simp: r)
qed

end
