(* ===== verification/PairBars.thy ===== *)
theory PairBars
  imports Bars Fee Chain Flush
begin

text \<open>
  The bars of paired tokens: the pure part of \<open>src/pair_aggregator.rs\<close>. A bucket holds the
  one-second inputs of the two venues for a pair, a side and a second; a pair bar is built from it,
  the fees and chain metrics of that second, and the statistics kept per pair (last prices, the last
  600 returns, windows of 30 trade sums). The natural logarithm and the order in which a hash map
  lists its keys are parameters.
\<close>

section \<open>Data\<close>

record Bars1sPair =
  pb_pair_id :: int
  pb_token_side :: TokenSide
  pb_bar_second :: int
  pb_poly_bar_gap_flag :: int
  pb_opi_bar_gap_flag :: int
  pb_bar_gap_flag :: int
  pb_poly_bar_stale_flag :: int
  pb_opi_bar_stale_flag :: int
  pb_bar_stale_flag :: int
  pb_poly_staleness_ms :: "int option"
  pb_opi_staleness_ms :: "int option"
  pb_poly_best_bid :: "f64 option"
  pb_poly_best_ask :: "f64 option"
  pb_poly_mid :: "f64 option"
  pb_poly_micro :: "f64 option"
  pb_poly_best_bid_state :: "f64 option"
  pb_poly_best_ask_state :: "f64 option"
  pb_poly_mid_state :: "f64 option"
  pb_opi_best_bid :: "f64 option"
  pb_opi_best_ask :: "f64 option"
  pb_opi_mid :: "f64 option"
  pb_opi_best_bid_state :: "f64 option"
  pb_opi_best_ask_state :: "f64 option"
  pb_opi_mid_state :: "f64 option"
  pb_opi_last_price :: "f64 option"
  pb_opi_taker_buy_notional_1s :: "f64 option"
  pb_opi_taker_sell_notional_1s :: "f64 option"
  pb_opi_micro :: "f64 option"
  pb_opi_bid_l1_notional :: "f64 option"
  pb_opi_bid_l2_notional :: "f64 option"
  pb_opi_bid_l3_notional :: "f64 option"
  pb_opi_ask_l1_notional :: "f64 option"
  pb_opi_ask_l2_notional :: "f64 option"
  pb_opi_ask_l3_notional :: "f64 option"
  pb_poly_fee_bps :: "int option"
  pb_opi_fee_bps :: "int option"
  pb_gas_cost :: "f64 option"
  pb_network_congestion_flag :: int
  pb_gross_spread_buy :: "f64 option"
  pb_gross_spread_sell :: "f64 option"
  pb_true_net_spread_buy_opinion :: "f64 option"
  pb_true_net_spread_sell_opinion :: "f64 option"
  pb_arb_mode_flag :: int
  pb_directional_mode_flag :: int
  pb_poly_cvd_30s :: "f64 option"
  pb_poly_buy_sell_ratio_30s :: "f64 option"
  pb_price_pressure_index :: "f64 option"
  pb_poly_ofi_250ms :: "f64 option"
  pb_poly_buy_notional_1s :: "f64 option"
  pb_poly_sell_notional_1s :: "f64 option"
  pb_poly_max_trade_notional_1s :: "f64 option"
  pb_poly_buy_notional_250ms :: "f64 option"
  pb_poly_sell_notional_250ms :: "f64 option"
  pb_poly_max_trade_notional_250ms :: "f64 option"
  pb_poly_bid_delta_notional_250ms :: "f64 option"
  pb_poly_ask_delta_notional_250ms :: "f64 option"
  pb_poly_mid_slope_250ms :: "f64 option"
  pb_poly_obs_latency_p99_ms :: "int option"
  pb_opi_obs_latency_p99_ms :: "int option"
  pb_rolling_corr_5m :: "f64 option"
  pb_rolling_corr_samples_5m :: "int option"
  pb_estimated_lag_s :: "int option"
  pb_lag_confidence :: "f64 option"
  pb_beta_1m :: "f64 option"
  pb_follow_score_raw :: "f64 option"
  pb_follow_score_adj :: "f64 option"
  pb_poly_depth_imbalance_top10 :: "f64 option"
  pb_poly_book_pressure_250ms :: "f64 option"
  pb_poly_spread_bps :: "f64 option"
  pb_poly_micro_bias_bps :: "f64 option"
  pb_book_alpha_raw :: "f64 option"
  pb_book_alpha_adj :: "f64 option"


record PairBucket =
  bu_pm :: "PairInput option"
  bu_opi :: "PairInput option"

record ReturnPoint =
  rp_bar_second :: int
  rp_pm_ret :: "f64 option"
  rp_opi_ret :: "f64 option"

record PairStats =
  ps_last_pm_mid :: "f64 option"
  ps_last_opi_price :: "f64 option"
  ps_returns :: "ReturnPoint list"
  ps_pm_buy_hist :: "f64 list"
  ps_pm_sell_hist :: "f64 list"
  ps_pm_cvd_hist :: "f64 list"
  ps_last_lag_s :: "int option"
  ps_last_lag_confidence :: "f64 option"

definition pair_stats_default :: PairStats where
  "pair_stats_default = \<lparr>ps_last_pm_mid = None, ps_last_opi_price = None, ps_returns = [], ps_pm_buy_hist = [],
     ps_pm_sell_hist = [], ps_pm_cvd_hist = [], ps_last_lag_s = None, ps_last_lag_confidence = None\<rparr>"

record BuildContext =
  bc_fee_bps_polymarket :: int
  bc_fee_bps_opinion :: int
  bc_gas_cost :: "f64 option"
  bc_congestion_flag :: int

definition load_build_context :: "FeeScheduleState \<Rightarrow> ChainMetricsState \<Rightarrow> int \<Rightarrow> BuildContext" where
  "load_build_context fees chain bar_second =
    (let ts_ms = bar_second * 1000; since_ms = i64_sat (ts_ms - 10000)
     in \<lparr>bc_fee_bps_polymarket = fee_bps fees Polymarket ts_ms, bc_fee_bps_opinion = fee_bps fees Opinion ts_ms,
         bc_gas_cost = p90_recent chain since_ms, bc_congestion_flag = cm_last_congestion_flag chain\<rparr>)"

section \<open>Windows, correlation, lag\<close>

definition log_return :: "(f64 \<Rightarrow> f64) \<Rightarrow> f64 option \<Rightarrow> f64 option \<Rightarrow> f64 option" where
  "log_return lnf current prev = (case (current, prev) of
     (Some cur, Some pr) \<Rightarrow> if 0 < cur \<and> 0 < pr then Some (lnf (cur / pr)) else None
   | _ \<Rightarrow> None)"

fun trim_returns :: "'a list \<Rightarrow> nat \<Rightarrow> 'a list" where
  "trim_returns [] m = []"
| "trim_returns (v # vs) m = (if m < List.length (v # vs) then trim_returns vs m else v # vs)"

definition push_window :: "'a list \<Rightarrow> 'a \<Rightarrow> nat \<Rightarrow> 'a list" where
  "push_window values v m = (if m \<le> List.length values then tl values else values) @ [v]"

definition f64_sum :: "f64 list \<Rightarrow> f64" where
  "f64_sum xs = foldl (+) 0 xs"

definition sum_window :: "f64 list \<Rightarrow> f64 option" where
  "sum_window values = (if values = [] then None else Some (f64_sum values))"

definition f64_len :: "'a list \<Rightarrow> f64" where
  "f64_len xs = f64_of_int (int (List.length xs))"

definition corr_sums :: "f64 list \<Rightarrow> f64 list \<Rightarrow> f64 \<times> f64 \<times> f64" where
  "corr_sums xs ys = (let mean_x = f64_sum xs / f64_len xs; mean_y = f64_sum ys / f64_len ys in
     foldl (\<lambda>(cov, var_x, var_y) (x, y). (let dx = x - mean_x; dy = y - mean_y
       in (cov + dx * dy, var_x + dx * dx, var_y + dy * dy))) (0, 0, 0) (zip xs ys))"

definition correlation :: "f64 list \<Rightarrow> f64 list \<Rightarrow> f64 option" where
  "correlation xs ys = (if List.length xs < 2 \<or> List.length xs \<noteq> List.length ys then None
     else let (cov, var_x, var_y) = corr_sums xs ys in
       if var_x \<le> 0 \<or> var_y \<le> 0 then None
       else Some (cov / (f64_sqrt var_x * f64_sqrt var_y)))"

definition beta :: "f64 list \<Rightarrow> f64 list \<Rightarrow> f64 option" where
  "beta xs ys = (if List.length xs < 2 \<or> List.length xs \<noteq> List.length ys then None
     else let (cov, var_x, _) = corr_sums xs ys in
       if var_x \<le> 0 then None else Some (cov / var_x))"

definition both_returns :: "ReturnPoint \<Rightarrow> (f64 \<times> f64) option" where
  "both_returns p = (case (rp_pm_ret p, rp_opi_ret p) of (Some x, Some y) \<Rightarrow> Some (x, y) | _ \<Rightarrow> None)"

definition compute_corr_beta :: "ReturnPoint list \<Rightarrow> f64 option \<times> f64 option \<times> nat" where
  "compute_corr_beta values =
    (let ps = List.map_filter both_returns (take 300 (rev values)); xs = map fst ps; ys = map snd ps
     in (correlation xs ys, beta xs ys, List.length xs))"

text \<open>The returns by second; scanning backwards, so an older point overwrites a newer one of the
  same second.\<close>

definition ret_map :: "(ReturnPoint \<Rightarrow> f64 option) \<Rightarrow> ReturnPoint list \<Rightarrow> (int \<rightharpoonup> f64)" where
  "ret_map f values = foldl (\<lambda>m p. case f p of Some v \<Rightarrow> m(rp_bar_second p \<mapsto> v) | None \<Rightarrow> m)
     Map.empty (take 600 (rev values))"

definition lag_pairs :: "int list \<Rightarrow> (int \<rightharpoonup> f64) \<Rightarrow> (int \<rightharpoonup> f64) \<Rightarrow> int \<Rightarrow> (f64 \<times> f64) list" where
  "lag_pairs ts pm_map opi_map shift =
    List.map_filter (\<lambda>t. case (pm_map t, opi_map (t + shift)) of (Some p, Some q) \<Rightarrow> Some (p, q) | _ \<Rightarrow> None) ts"

definition lag_step :: "int list \<Rightarrow> (int \<rightharpoonup> f64) \<Rightarrow> (int \<rightharpoonup> f64) \<Rightarrow> int option \<times> f64 \<Rightarrow> int \<Rightarrow> int option \<times> f64" where
  "lag_step ts pm_map opi_map best shift =
    (let ps = lag_pairs ts pm_map opi_map shift in
     if List.length ps < 30 then best
     else case correlation (map fst ps) (map snd ps) of
       None \<Rightarrow> best
     | Some corr \<Rightarrow> if \<bar>snd best\<bar> < \<bar>corr\<bar> then (Some shift, corr) else best)"

text \<open>\<open>keys\<close> lists the keys of a map once each, in the order of the hash map.\<close>

definition estimate_lag ::
    "((int \<rightharpoonup> f64) \<Rightarrow> int list) \<Rightarrow> ReturnPoint list \<Rightarrow> int \<Rightarrow> int option \<times> f64 option" where
  "estimate_lag keys values max_shift =
    (let pm_map = ret_map rp_pm_ret values; opi_map = ret_map rp_opi_ret values;
         (best_shift, best_corr) = foldl (lag_step (keys pm_map) pm_map opi_map) (None, 0) [- max_shift..max_shift]
     in case best_shift of None \<Rightarrow> (None, None) | Some s \<Rightarrow> (Some s, Some \<bar>best_corr\<bar>))"

definition depth_bucket_idx :: "f64 option \<Rightarrow> nat" where
  "depth_bucket_idx depth = (case depth of None \<Rightarrow> 5
   | Some v \<Rightarrow> if 0 \<le> v \<and> v < lit 10 then 0 else if v < lit 100 then 1 else if v < lit 1000 then 2
       else if v < lit 10000 then 3 else 4)"

section \<open>Spreads\<close>

definition px_state :: "(PairInput \<Rightarrow> f64 option) \<Rightarrow> (PairInput \<Rightarrow> f64 option) \<Rightarrow> PairInput option \<Rightarrow> f64 option" where
  "px_state st raw x = Option.bind x (\<lambda>v. or_else (st v) (raw v))"

definition opt_diff :: "f64 option \<Rightarrow> f64 option \<Rightarrow> f64 option" where
  "opt_diff x y = (case (x, y) of (Some a, Some b) \<Rightarrow> Some (a - b) | _ \<Rightarrow> None)"

definition fee_rate :: "int \<Rightarrow> f64" where
  "fee_rate bps = f64_of_int bps / lit 10000"

definition net_spread :: "f64 \<Rightarrow> f64 \<Rightarrow> f64 \<Rightarrow> f64 option \<Rightarrow> f64 option \<Rightarrow> f64 option" where
  "net_spread sell_fee buy_fee gas bid ask = (case (bid, ask) of
     (Some b, Some a) \<Rightarrow> Some (b * (1 - sell_fee) - a * (1 + buy_fee) - gas)
   | _ \<Rightarrow> None)"

definition arb_flag :: "f64 option \<Rightarrow> f64 option \<Rightarrow> int" where
  "arb_flag buy sell = (if 0 < unwrap_or buy 0 \<or> 0 < unwrap_or sell 0 then 1 else 0)"

section \<open>Statistics\<close>

definition push_trades :: "PairInput option \<Rightarrow> PairStats \<Rightarrow> PairStats" where
  "push_trades pm s = (case pm of None \<Rightarrow> s | Some v \<Rightarrow>
     if \<not> pi_bar_gap_flag v \<and> \<not> pi_bar_stale_flag v
     then s\<lparr>ps_pm_buy_hist := push_window (ps_pm_buy_hist s) (pi_buy_notional_1s v) 30,
            ps_pm_sell_hist := push_window (ps_pm_sell_hist s) (pi_sell_notional_1s v) 30,
            ps_pm_cvd_hist := push_window (ps_pm_cvd_hist s) (pi_cvd_delta_1s v) 30\<rparr>
     else s)"

definition push_returns :: "(f64 \<Rightarrow> f64) \<Rightarrow> int \<Rightarrow> f64 option \<Rightarrow> f64 option \<Rightarrow> PairStats \<Rightarrow> PairStats" where
  "push_returns lnf bar_second pm_mid opi_price s =
    (let p = \<lparr>rp_bar_second = bar_second, rp_pm_ret = log_return lnf pm_mid (ps_last_pm_mid s),
              rp_opi_ret = log_return lnf opi_price (ps_last_opi_price s)\<rparr>
     in s\<lparr>ps_last_pm_mid := or_else pm_mid (ps_last_pm_mid s),
          ps_last_opi_price := or_else opi_price (ps_last_opi_price s),
          ps_returns := trim_returns (ps_returns s @ [p]) 600\<rparr>)"

section \<open>Depth, pressure and scores\<close>

definition flag01 :: "bool \<Rightarrow> int" where
  "flag01 b = (if b then 1 else 0)"

text \<open>Gap and staleness of the two venues; before the bootstrap of the second venue has finished its
  absence counts as stale, not as a gap.\<close>

definition pair_gaps :: "PairInput option \<Rightarrow> PairInput option \<Rightarrow> bool \<Rightarrow> bool \<times> bool" where
  "pair_gaps pm opi opi_ready =
    (unwrap_or (map_option pi_bar_gap_flag pm) True,
     if opi = None \<and> \<not> opi_ready then False else unwrap_or (map_option pi_bar_gap_flag opi) True)"

definition pair_stales :: "PairInput option \<Rightarrow> PairInput option \<Rightarrow> bool \<Rightarrow> bool \<times> bool" where
  "pair_stales pm opi opi_ready =
    (unwrap_or (map_option pi_bar_stale_flag pm) False,
     if opi = None \<and> \<not> opi_ready then True else unwrap_or (map_option pi_bar_stale_flag opi) False)"

definition pm_depths :: "PairInput option \<Rightarrow> f64 option \<times> f64 option" where
  "pm_depths pm = (Option.bind pm (\<lambda>v. or_else (pi_top10_depth_bid v) (pi_bid_l1_notional v)),
                   Option.bind pm (\<lambda>v. or_else (pi_top10_depth_ask v) (pi_ask_l1_notional v)))"

definition depth_sum :: "f64 option \<Rightarrow> f64 option \<Rightarrow> f64 option" where
  "depth_sum bid ask = (case (bid, ask) of (Some b, Some a) \<Rightarrow> Some (b + a) | (Some b, None) \<Rightarrow> Some b
     | (None, Some a) \<Rightarrow> Some a | _ \<Rightarrow> None)"

definition depth_imbalance :: "f64 option \<Rightarrow> f64 option \<Rightarrow> f64 option" where
  "depth_imbalance bid ask = (case (bid, ask) of
     (Some b, Some a) \<Rightarrow> if 0 < b + a then Some ((b - a) / (b + a)) else None | _ \<Rightarrow> None)"

definition book_pressure :: "PairInput option \<Rightarrow> f64 option \<Rightarrow> f64 option" where
  "book_pressure pm depth = Option.bind pm (\<lambda>v. case depth of
     Some d \<Rightarrow> if 0 < d then Some ((pi_bid_delta_notional_250ms v - pi_ask_delta_notional_250ms v) / d) else None
   | None \<Rightarrow> None)"

definition spread_bps :: "f64 option \<Rightarrow> f64 option \<Rightarrow> f64 option \<Rightarrow> f64 option" where
  "spread_bps bid ask mid = (case (bid, ask, mid) of
     (Some b, Some a, Some m) \<Rightarrow> if 0 < m then Some ((a - b) / m * lit 10000) else None | _ \<Rightarrow> None)"

definition micro_bias_bps :: "f64 option \<Rightarrow> f64 option \<Rightarrow> f64 option" where
  "micro_bias_bps micro mid = (case (micro, mid) of
     (Some x, Some m) \<Rightarrow> if 0 < m then Some ((x - m) / m * lit 10000) else None | _ \<Rightarrow> None)"

definition book_alpha :: "f64 option \<Rightarrow> f64 option \<Rightarrow> f64 option" where
  "book_alpha pressure imbalance = (case (pressure, imbalance) of
     (Some p, Some i) \<Rightarrow> Some (lit (6 / 10) * p + lit (4 / 10) * i) | (Some p, None) \<Rightarrow> Some p
   | (None, Some i) \<Rightarrow> Some i | _ \<Rightarrow> None)"

definition arb_proximity :: "f64 option \<Rightarrow> f64 option \<Rightarrow> f64 option" where
  "arb_proximity buy sell = (case (buy, sell) of
     (Some b, Some s) \<Rightarrow> Some (- f64_min \<bar>b\<bar> \<bar>s\<bar>) | (Some b, None) \<Rightarrow> Some (- \<bar>b\<bar>)
   | (None, Some s) \<Rightarrow> Some (- \<bar>s\<bar>) | _ \<Rightarrow> None)"

definition latency_penalty :: "PairInput option \<Rightarrow> PairInput option \<Rightarrow> f64" where
  "latency_penalty pm opi =
    (let pm_lat = f64_of_int (unwrap_or (Option.bind pm pi_obs_latency_p99_ms) 0);
         opi_lat = f64_of_int (unwrap_or (Option.bind opi pi_obs_latency_p99_ms) 0)
     in f64_min (f64_max pm_lat opi_lat / lit 5000) 1)"

definition positive_ratio :: "f64 option \<Rightarrow> f64 option \<Rightarrow> f64 option" where
  "positive_ratio x y = (case (x, y) of (Some a, Some b) \<Rightarrow> if 0 < b then Some (a / b) else None | _ \<Rightarrow> None)"

section \<open>The bar\<close>

text \<open>Everything that \<open>build_bar_with_context\<close> computes from the statistics of the pair: the bar, the
  new statistics, and the depth bucket that is counted.\<close>

definition build_bar :: "(f64 \<Rightarrow> f64) \<Rightarrow> ((int \<rightharpoonup> f64) \<Rightarrow> int list) \<Rightarrow> int \<times> TokenSide \<times> int \<Rightarrow> PairBucket \<Rightarrow>
    BuildContext \<Rightarrow> bool \<Rightarrow> PairStats \<Rightarrow> Bars1sPair \<times> PairStats \<times> nat" where
  "build_bar lnf keys key bucket ctx opi_ready stats = (case key of (pair_id, token_side, bar_second) \<Rightarrow>
   let pm = bu_pm bucket; opi = bu_opi bucket;
       poly_best_bid = Option.bind pm pi_best_bid; poly_best_ask = Option.bind pm pi_best_ask;
       opi_best_bid = Option.bind opi pi_best_bid; opi_best_ask = Option.bind opi pi_best_ask;
       poly_best_bid_state = px_state pi_best_bid_state pi_best_bid pm;
       poly_best_ask_state = px_state pi_best_ask_state pi_best_ask pm;
       opi_best_bid_state = px_state pi_best_bid_state pi_best_bid opi;
       opi_best_ask_state = px_state pi_best_ask_state pi_best_ask opi;
       gross_spread_buy = opt_diff poly_best_bid_state opi_best_ask_state;
       gross_spread_sell = opt_diff opi_best_bid_state poly_best_ask_state;
       fee_bps_polymarket = bc_fee_bps_polymarket ctx; fee_bps_opinion = bc_fee_bps_opinion ctx;
       poly_fee = fee_rate fee_bps_polymarket; opi_fee = fee_rate fee_bps_opinion;
       gas_cost = bc_gas_cost ctx; congestion_flag = bc_congestion_flag ctx;
       gas_cost_value = unwrap_or gas_cost 0;
       true_net_spread_buy_opinion = net_spread poly_fee opi_fee gas_cost_value poly_best_bid_state opi_best_ask_state;
       true_net_spread_sell_opinion = net_spread opi_fee poly_fee gas_cost_value opi_best_bid_state poly_best_ask_state;
       arb_mode_flag = arb_flag true_net_spread_buy_opinion true_net_spread_sell_opinion;
       (poly_gap, opi_gap) = pair_gaps pm opi opi_ready;
       (poly_stale, opi_stale) = pair_stales pm opi opi_ready;
       bar_gap_flag = flag01 (poly_gap \<or> opi_gap); bar_stale_flag = flag01 (poly_stale \<or> opi_stale);
       pm_mid = px_state pi_mid_state pi_mid pm; opi_mid = px_state pi_mid_state pi_mid opi;
       opi_last_price = Option.bind opi pi_last_price; opi_price_signal = or_else opi_last_price opi_mid;
       stats = push_returns lnf bar_second pm_mid opi_price_signal stats;
       stats = push_trades pm stats;
       poly_cvd_30s = sum_window (ps_pm_cvd_hist stats);
       poly_buy_sell_ratio_30s = positive_ratio (sum_window (ps_pm_buy_hist stats)) (sum_window (ps_pm_sell_hist stats));
       price_pressure_index = positive_ratio poly_cvd_30s (Option.bind opi pi_top10_depth_ask);
       (rolling_corr_5m, beta_1m, corr_samples_5m) = compute_corr_beta (ps_returns stats);
       (estimated_lag_s, lag_confidence) = estimate_lag keys (ps_returns stats) 60;
       stats = stats\<lparr>ps_last_lag_s := estimated_lag_s, ps_last_lag_confidence := lag_confidence\<rparr>;
       (pm_depth_bid, pm_depth_ask) = pm_depths pm;
       pm_depth = depth_sum pm_depth_bid pm_depth_ask;
       pm_depth_imbalance = depth_imbalance pm_depth_bid pm_depth_ask;
       pm_pressure_250ms = book_pressure pm pm_depth;
       pm_spread_bps = spread_bps poly_best_bid_state poly_best_ask_state pm_mid;
       pm_micro_bias_bps = micro_bias_bps (Option.bind pm pi_micro) pm_mid;
       book_alpha_raw = book_alpha pm_pressure_250ms pm_depth_imbalance;
       arb_prox = arb_proximity true_net_spread_buy_opinion true_net_spread_sell_opinion;
       staleness_factor = unwrap_or (map_option (\<lambda>v. f64_min (f64_of_int v / lit 1000) (lit 5) / lit 5)
         (Option.bind opi pi_staleness_ms)) 0;
       pm_staleness_factor = unwrap_or (map_option (\<lambda>v. f64_min (f64_of_int v / lit 10000) 1)
         (Option.bind pm pi_staleness_ms)) 0;
       lag_score = \<bar>unwrap_or lag_confidence 0\<bar>; pressure_score = \<bar>unwrap_or price_pressure_index 0\<bar>;
       follow_score_raw = map_option (\<lambda>arb. \<bar>arb\<bar> * (1 + staleness_factor) * (1 + pressure_score) * lag_score) arb_prox;
       latency_pen = latency_penalty pm opi;
       liquidity_penalty = unwrap_or (map_option (\<lambda>v. if pi_liquidity_pull_flag v = 1 then 1 else 0) opi) 0;
       gas_penalty = (if congestion_flag = 1 then 1 else 0);
       follow_score_adj = map_option (\<lambda>raw. raw * (1 - latency_pen) * (1 - liquidity_penalty) * (1 - gas_penalty)) follow_score_raw;
       book_alpha_adj = map_option (\<lambda>raw. raw * (1 - pm_staleness_factor) * (1 - latency_pen)) book_alpha_raw
   in (\<lparr>pb_pair_id = pair_id,
     pb_token_side = token_side,
     pb_bar_second = bar_second,
     pb_poly_bar_gap_flag = flag01 poly_gap,
     pb_opi_bar_gap_flag = flag01 opi_gap,
     pb_bar_gap_flag = bar_gap_flag,
     pb_poly_bar_stale_flag = flag01 poly_stale,
     pb_opi_bar_stale_flag = flag01 opi_stale,
     pb_bar_stale_flag = bar_stale_flag,
     pb_poly_staleness_ms = Option.bind pm pi_staleness_ms,
     pb_opi_staleness_ms = Option.bind opi pi_staleness_ms,
     pb_poly_best_bid = poly_best_bid,
     pb_poly_best_ask = poly_best_ask,
     pb_poly_mid = Option.bind pm pi_mid,
     pb_poly_micro = Option.bind pm pi_micro,
     pb_poly_best_bid_state = poly_best_bid_state,
     pb_poly_best_ask_state = poly_best_ask_state,
     pb_poly_mid_state = pm_mid,
     pb_opi_best_bid = opi_best_bid,
     pb_opi_best_ask = opi_best_ask,
     pb_opi_mid = Option.bind opi pi_mid,
     pb_opi_best_bid_state = opi_best_bid_state,
     pb_opi_best_ask_state = opi_best_ask_state,
     pb_opi_mid_state = opi_mid,
     pb_opi_last_price = opi_last_price,
     pb_opi_taker_buy_notional_1s = map_option pi_buy_notional_1s opi,
     pb_opi_taker_sell_notional_1s = map_option pi_sell_notional_1s opi,
     pb_opi_micro = Option.bind opi pi_micro,
     pb_opi_bid_l1_notional = Option.bind opi pi_bid_l1_notional,
     pb_opi_bid_l2_notional = Option.bind opi pi_bid_l2_notional,
     pb_opi_bid_l3_notional = Option.bind opi pi_bid_l3_notional,
     pb_opi_ask_l1_notional = Option.bind opi pi_ask_l1_notional,
     pb_opi_ask_l2_notional = Option.bind opi pi_ask_l2_notional,
     pb_opi_ask_l3_notional = Option.bind opi pi_ask_l3_notional,
     pb_poly_fee_bps = Some fee_bps_polymarket,
     pb_opi_fee_bps = Some fee_bps_opinion,
     pb_gas_cost = gas_cost,
     pb_network_congestion_flag = congestion_flag,
     pb_gross_spread_buy = gross_spread_buy,
     pb_gross_spread_sell = gross_spread_sell,
     pb_true_net_spread_buy_opinion = true_net_spread_buy_opinion,
     pb_true_net_spread_sell_opinion = true_net_spread_sell_opinion,
     pb_arb_mode_flag = arb_mode_flag,
     pb_directional_mode_flag = 1 - arb_mode_flag,
     pb_poly_cvd_30s = poly_cvd_30s,
     pb_poly_buy_sell_ratio_30s = poly_buy_sell_ratio_30s,
     pb_price_pressure_index = price_pressure_index,
     pb_poly_ofi_250ms = map_option pi_ofi_250ms pm,
     pb_poly_buy_notional_1s = map_option pi_buy_notional_1s pm,
     pb_poly_sell_notional_1s = map_option pi_sell_notional_1s pm,
     pb_poly_max_trade_notional_1s = map_option pi_max_trade_notional_1s pm,
     pb_poly_buy_notional_250ms = map_option pi_buy_notional_250ms pm,
     pb_poly_sell_notional_250ms = map_option pi_sell_notional_250ms pm,
     pb_poly_max_trade_notional_250ms = map_option pi_max_trade_notional_250ms pm,
     pb_poly_bid_delta_notional_250ms = map_option pi_bid_delta_notional_250ms pm,
     pb_poly_ask_delta_notional_250ms = map_option pi_ask_delta_notional_250ms pm,
     pb_poly_mid_slope_250ms = Option.bind pm pi_mid_slope_250ms,
     pb_poly_obs_latency_p99_ms = Option.bind pm pi_obs_latency_p99_ms,
     pb_opi_obs_latency_p99_ms = Option.bind opi pi_obs_latency_p99_ms,
     pb_rolling_corr_5m = rolling_corr_5m,
     pb_rolling_corr_samples_5m = Some (int corr_samples_5m),
     pb_estimated_lag_s = estimated_lag_s,
     pb_lag_confidence = lag_confidence,
     pb_beta_1m = beta_1m,
     pb_follow_score_raw = follow_score_raw,
     pb_follow_score_adj = follow_score_adj,
     pb_poly_depth_imbalance_top10 = pm_depth_imbalance,
     pb_poly_book_pressure_250ms = pm_pressure_250ms,
     pb_poly_spread_bps = pm_spread_bps,
     pb_poly_micro_bias_bps = pm_micro_bias_bps,
     pb_book_alpha_raw = book_alpha_raw,
     pb_book_alpha_adj = book_alpha_adj\<rparr>,
       stats, depth_bucket_idx pm_depth))"

end
