(* ===== verification/PairAgg.thy ===== *)
theory PairAgg
  imports PairBars Worker
begin

text \<open>
  The state of the pair aggregator of \<open>src/pair_aggregator.rs\<close> and the operations of its critical
  sections. Buckets wait for their second venue; an ordered index by second tells which are stale; a
  tick moves stale buckets to the flush queue and due responses to the channel of a worker. The loops
  that watch a time budget take the number of clock reads that come back within the budget. Poisoned
  locks, log lines and the caches that only throttle log lines are left out.
\<close>

section \<open>Ordered maps\<close>

text \<open>A \<open>BTreeMap\<close> as its list of entries in key order.\<close>

fun bt_insert :: "int \<Rightarrow> 'a \<Rightarrow> (int \<times> 'a) list \<Rightarrow> (int \<times> 'a) list" where
  "bt_insert k v [] = [(k, v)]"
| "bt_insert k v ((k', v') # xs) = (if k < k' then (k, v) # (k', v') # xs
     else if k = k' then (k, v) # xs else (k', v') # bt_insert k v xs)"

definition bt_push :: "int \<Rightarrow> 'a \<Rightarrow> (int \<times> 'a list) list \<Rightarrow> (int \<times> 'a list) list" where
  "bt_push k x m = bt_insert k (unwrap_or (map_of m k) [] @ [x]) m"

section \<open>State\<close>

type_synonym pair_key = "int \<times> TokenSide \<times> int"

record PendingResponse =
  pr_shock_id :: int
  pr_resp_pair_id :: int
  pr_token_side :: TokenSide
  pr_trigger_bar_second :: int
  pr_horizon_s :: int
  pr_opi_token_key :: "string option"
  pr_baseline_mid :: "f64 option"
  pr_baseline_spread :: "f64 option"
  pr_baseline_staleness :: "int option"
  pr_baseline_depth :: "f64 option"
  pr_baseline_liquidity_pull_flag :: "int option"
  pr_true_net_spread_at_t0 :: "f64 option"
  pr_arb_mode_flag_at_t0 :: "int option"
  pr_estimated_lag_s_at_t0 :: "int option"
  pr_lag_confidence_at_t0 :: "f64 option"
  pr_obs_latency_poly_p99_at_t0 :: "int option"
  pr_obs_latency_opi_p99_at_t0 :: "int option"

record OpinionResponseRow =
  or_shock_id :: int
  or_horizon_s :: int
  or_sample_valid_flag :: int
  or_move_flag :: int
  or_first_move_lag_s :: "int option"
  or_opi_return :: "f64 option"
  or_opi_price_delta :: "f64 option"
  or_opi_volume_sum :: "f64 option"
  or_opi_cvd_sum :: "f64 option"
  or_opi_spread_change :: "f64 option"
  or_opi_depth_change :: "f64 option"
  or_opi_staleness_at_t0_ms :: "int option"
  or_opi_liquidity_pull_flag_at_t0 :: "int option"
  or_true_net_spread_at_t0 :: "f64 option"
  or_arb_mode_flag_at_t0 :: "int option"
  or_estimated_lag_s_at_t0 :: "int option"
  or_lag_confidence_at_t0 :: "f64 option"
  or_obs_latency_poly_p99_at_t0 :: "int option"
  or_obs_latency_opi_p99_at_t0 :: "int option"

record FlushStats =
  fs_ready_on_time :: nat
  fs_ready_late :: nat
  fs_timeout_full :: nat
  fs_timeout_missing :: nat
  fs_timeout_missing_pm :: nat
  fs_timeout_missing_opi :: nat
  fs_timeout_opi_not_ready :: nat

record ArrivalStats =
  as_pm_total :: nat
  as_opi_total :: nat
  as_pm_late :: nat
  as_opi_late :: nat

text \<open>The reasons and samples of missing sides, once per venue.\<close>

record MissingReasons =
  mr_uninitialized :: nat
  mr_lagging :: nat
  mr_ahead :: nat
  mr_no_seen :: nat
  mr_lag_max_s :: int
  mr_ahead_min_s :: int

record MissingSample =
  sm_key :: pair_key
  sm_token_key :: string
  sm_last_seen :: int
  sm_lag_s :: int
  sm_current_tick :: int
  sm_cutoff :: int

record GapStaleStats =
  gs_total :: nat
  gs_gap :: nat
  gs_stale :: nat

record PairAggState =
  pa_buckets :: "pair_key \<rightharpoonup> PairBucket"
  pa_bucket_index :: "(int \<times> pair_key list) list"
  pa_current_tick :: int
  pa_opi_token_map :: "int \<times> TokenSide \<rightharpoonup> string"
  pa_pm_token_map :: "int \<times> TokenSide \<rightharpoonup> string"
  pa_pending_by_target :: "(int \<times> PendingResponse list) list"
  pa_pending_count :: nat
  pa_pair_stats :: "int \<times> TokenSide \<rightharpoonup> PairStats"
  pa_late_arrival_buffer_s :: int
  pa_last_stats_log_second :: int
  pa_flush_stats :: FlushStats
  pa_arrival_stats :: ArrivalStats
  pa_missing_reasons :: "Venue \<Rightarrow> MissingReasons"
  pa_gap_stale_stats :: GapStaleStats
  pa_liquidity_total :: "nat list"
  pa_liquidity_mid_nonnull :: "nat list"
  pa_last_seen_pm :: "string \<rightharpoonup> int"
  pa_last_seen_opi :: "string \<rightharpoonup> int"
  pa_samples_lagging :: "Venue \<Rightarrow> MissingSample list"
  pa_samples_ahead :: "Venue \<Rightarrow> MissingSample list"
  pa_last_pending_log_second :: int
  pa_flush_queue :: "pair_key list"
  pa_flush_pending_keys :: "pair_key set"

definition flush_stats_default :: FlushStats where
  "flush_stats_default = \<lparr>fs_ready_on_time = 0, fs_ready_late = 0, fs_timeout_full = 0, fs_timeout_missing = 0,
     fs_timeout_missing_pm = 0, fs_timeout_missing_opi = 0, fs_timeout_opi_not_ready = 0\<rparr>"

definition arrival_stats_default :: ArrivalStats where
  "arrival_stats_default = \<lparr>as_pm_total = 0, as_opi_total = 0, as_pm_late = 0, as_opi_late = 0\<rparr>"

definition missing_reasons_default :: MissingReasons where
  "missing_reasons_default = \<lparr>mr_uninitialized = 0, mr_lagging = 0, mr_ahead = 0, mr_no_seen = 0,
     mr_lag_max_s = 0, mr_ahead_min_s = 0\<rparr>"

definition gap_stale_stats_default :: GapStaleStats where
  "gap_stale_stats_default = \<lparr>gs_total = 0, gs_gap = 0, gs_stale = 0\<rparr>"

definition pair_agg_new :: "int \<Rightarrow> (int \<times> TokenSide \<rightharpoonup> string) \<Rightarrow> (int \<times> TokenSide \<rightharpoonup> string) \<Rightarrow> PairAggState" where
  "pair_agg_new late_arrival_buffer_s opi_token_map pm_token_map =
    \<lparr>pa_buckets = Map.empty, pa_bucket_index = [], pa_current_tick = 0, pa_opi_token_map = opi_token_map,
     pa_pm_token_map = pm_token_map, pa_pending_by_target = [], pa_pending_count = 0, pa_pair_stats = Map.empty,
     pa_late_arrival_buffer_s = max late_arrival_buffer_s 0, pa_last_stats_log_second = 0,
     pa_flush_stats = flush_stats_default, pa_arrival_stats = arrival_stats_default,
     pa_missing_reasons = (\<lambda>_. missing_reasons_default), pa_gap_stale_stats = gap_stale_stats_default,
     pa_liquidity_total = replicate 6 0, pa_liquidity_mid_nonnull = replicate 6 0,
     pa_last_seen_pm = Map.empty, pa_last_seen_opi = Map.empty, pa_samples_lagging = (\<lambda>_. []),
     pa_samples_ahead = (\<lambda>_. []), pa_last_pending_log_second = 0, pa_flush_queue = [], pa_flush_pending_keys = {}\<rparr>"

section \<open>Arrivals\<close>

definition late_cutoff :: "PairAggState \<Rightarrow> int" where
  "late_cutoff s = i64_sat (pa_current_tick s - max (pa_late_arrival_buffer_s s) 0)"

definition record_arrival :: "PairInput \<Rightarrow> PairAggState \<Rightarrow> PairAggState" where
  "record_arrival inp s =
    (let is_late = (0 < pa_current_tick s \<and> pi_bar_second inp < late_cutoff s); a = pa_arrival_stats s;
         n = (if is_late then 1 else 0)
     in case pi_venue inp of
       Polymarket \<Rightarrow> s\<lparr>pa_arrival_stats := a\<lparr>as_pm_total := as_pm_total a + 1, as_pm_late := as_pm_late a + n\<rparr>,
         pa_last_seen_pm := (pa_last_seen_pm s)(pi_token_key inp \<mapsto> pi_bar_second inp)\<rparr>
     | Opinion \<Rightarrow> s\<lparr>pa_arrival_stats := a\<lparr>as_opi_total := as_opi_total a + 1, as_opi_late := as_opi_late a + n\<rparr>,
         pa_last_seen_opi := (pa_last_seen_opi s)(pi_token_key inp \<mapsto> pi_bar_second inp)\<rparr>)"

definition input_key :: "PairInput \<Rightarrow> pair_key" where
  "input_key inp = (pi_pair_id inp, pi_token_side inp, pi_bar_second inp)"

definition learn_token :: "PairInput \<Rightarrow> PairAggState \<Rightarrow> PairAggState" where
  "learn_token inp s = (let p = (pi_pair_id inp, pi_token_side inp) in
     case pi_venue inp of
       Opinion \<Rightarrow> s\<lparr>pa_opi_token_map := (pa_opi_token_map s)(p \<mapsto> pi_token_key inp)\<rparr>
     | Polymarket \<Rightarrow> s\<lparr>pa_pm_token_map := (pa_pm_token_map s)(p \<mapsto> pi_token_key inp)\<rparr>)"

definition fill_bucket :: "PairInput \<Rightarrow> PairBucket \<Rightarrow> PairBucket" where
  "fill_bucket inp b = (case pi_venue inp of Polymarket \<Rightarrow> b\<lparr>bu_pm := Some inp\<rparr> | Opinion \<Rightarrow> b\<lparr>bu_opi := Some inp\<rparr>)"

text \<open>The first critical section of a token bar: the bucket that became complete, if any, is taken out.\<close>

definition store_input :: "PairInput \<Rightarrow> PairAggState \<Rightarrow> PairBucket option \<times> PairAggState" where
  "store_input inp s =
    (let key = input_key inp;
         s = learn_token inp (record_arrival inp s);
         s = (if pa_buckets s key = None
              then s\<lparr>pa_bucket_index := bt_push (pi_bar_second inp) key (pa_bucket_index s)\<rparr> else s);
         b = fill_bucket inp (unwrap_or (pa_buckets s key) \<lparr>bu_pm = None, bu_opi = None\<rparr>)
     in if bu_pm b \<noteq> None \<and> bu_opi b \<noteq> None
        then (Some b, s\<lparr>pa_buckets := (pa_buckets s)(key := None),
                        pa_flush_pending_keys := pa_flush_pending_keys s - {key}\<rparr>)
        else (None, s\<lparr>pa_buckets := (pa_buckets s)(key \<mapsto> b)\<rparr>))"

section \<open>Stale buckets\<close>

definition REORDER_EXTRA_CAP_S :: int where
  "REORDER_EXTRA_CAP_S = 120"

definition reorder_extra :: "(int \<times> TokenSide \<rightharpoonup> string) \<Rightarrow> (string \<rightharpoonup> int) \<Rightarrow> pair_key \<Rightarrow> int \<Rightarrow> int" where
  "reorder_extra token_map last_seen key extra = (case key of (pair_id, token_side, bar_second) \<Rightarrow>
     case Option.bind (token_map (pair_id, token_side)) last_seen of
       None \<Rightarrow> extra
     | Some seen \<Rightarrow> let ahead = i64_sat (seen - bar_second) in
         if 0 < ahead then max extra (min ahead REORDER_EXTRA_CAP_S) else extra)"

definition should_flush_bucket :: "PairAggState \<Rightarrow> pair_key \<Rightarrow> PairBucket \<Rightarrow> bool \<Rightarrow> bool" where
  "should_flush_bucket s key bucket opi_ready =
    (if pa_current_tick s \<le> 0 then False
     else let extra = (if bu_pm bucket = None then reorder_extra (pa_pm_token_map s) (pa_last_seen_pm s) key 0 else 0);
              extra = (if bu_opi bucket = None \<and> opi_ready
                       then reorder_extra (pa_opi_token_map s) (pa_last_seen_opi s) key extra else extra);
              cutoff = i64_sat (pa_current_tick s - i64_sat (max (pa_late_arrival_buffer_s s) 0 + extra))
          in snd (snd key) < cutoff)"

definition FLUSH_STALE_MAX_KEYS :: nat where
  "FLUSH_STALE_MAX_KEYS = 500"

text \<open>The keys of one second: clock reads left, state, keys queued, keys to put back.\<close>

fun scan_keys :: "bool \<Rightarrow> nat \<Rightarrow> PairAggState \<Rightarrow> nat \<Rightarrow> pair_key list \<Rightarrow> pair_key list \<Rightarrow>
    nat \<times> PairAggState \<times> nat \<times> pair_key list" where
  "scan_keys opi_ready reads s processed [] remaining = (reads, s, processed, remaining)"
| "scan_keys opi_ready reads s processed (key # ks) remaining =
    (if FLUSH_STALE_MAX_KEYS \<le> processed \<or> reads = 0 then (reads, s, processed, remaining @ key # ks)
     else if key \<in> pa_flush_pending_keys s then scan_keys opi_ready (reads - 1) s processed ks remaining
     else case pa_buckets s key of
       None \<Rightarrow> scan_keys opi_ready (reads - 1) s processed ks remaining
     | Some bucket \<Rightarrow> if should_flush_bucket s key bucket opi_ready
         then scan_keys opi_ready (reads - 1)
           (s\<lparr>pa_flush_pending_keys := insert key (pa_flush_pending_keys s), pa_flush_queue := pa_flush_queue s @ [key]\<rparr>)
           (processed + 1) ks remaining
         else scan_keys opi_ready (reads - 1) s processed ks (remaining @ [key]))"

lemma scan_keys_reads: "fst (scan_keys r n s p ks rem) \<le> n"
proof (induction r n s p ks rem rule: scan_keys.induct)
  case (2 opi_ready reads s processed key ks remaining)
  have le: "x \<le> reads - 1 \<Longrightarrow> x \<le> reads" for x by simp
  from 2 show ?case
    by (cases "key \<in> pa_flush_pending_keys s") (auto intro!: le split: option.split)
qed simp

function flush_stale_loop :: "bool \<Rightarrow> int \<Rightarrow> nat \<Rightarrow> PairAggState \<Rightarrow> nat \<Rightarrow> PairAggState \<times> nat" where
  "flush_stale_loop opi_ready cutoff reads s processed =
    (if FLUSH_STALE_MAX_KEYS \<le> processed \<or> reads = 0 then (s, processed)
     else case pa_bucket_index s of
       [] \<Rightarrow> (s, processed)
     | (bar_second, ks) # rest \<Rightarrow>
         if cutoff \<le> bar_second then (s, processed)
         else case scan_keys opi_ready (reads - 1) (s\<lparr>pa_bucket_index := rest\<rparr>) processed ks [] of
           (reads', s', processed', remaining) \<Rightarrow>
             flush_stale_loop opi_ready cutoff reads'
               (if remaining = [] then s'
                else s'\<lparr>pa_bucket_index := bt_insert bar_second remaining (pa_bucket_index s')\<rparr>) processed')"
  by pat_completeness auto
termination
proof (relation "measure (\<lambda>(_, _, reads, _, _). reads)", goal_cases)
  case (2 opi_ready cutoff reads s processed e rest bar_second ks reads' t)
  then have "reads' \<le> reads - 1" using scan_keys_reads by (metis fst_conv)
  with 2 show ?case by auto
qed simp

declare flush_stale_loop.simps [simp del]

definition flush_stale :: "bool \<Rightarrow> nat \<Rightarrow> PairAggState \<Rightarrow> PairAggState \<times> nat" where
  "flush_stale opi_ready reads s = (if pa_current_tick s \<le> 0 then (s, 0)
     else flush_stale_loop opi_ready (late_cutoff s) reads s 0)"

definition FLUSH_BUILD_MAX_KEYS :: nat where
  "FLUSH_BUILD_MAX_KEYS = 500"

fun drain_loop :: "nat \<Rightarrow> nat \<Rightarrow> PairAggState \<Rightarrow> pair_key list \<Rightarrow> PairAggState \<times> pair_key list" where
  "drain_loop 0 processed s ks = (s, ks)"
| "drain_loop (Suc reads) processed s ks =
    (if FLUSH_BUILD_MAX_KEYS \<le> processed then (s, ks)
     else case pa_flush_queue s of
       [] \<Rightarrow> (s, ks)
     | key # q \<Rightarrow> let s = s\<lparr>pa_flush_queue := q\<rparr> in
         if key \<notin> pa_flush_pending_keys s then drain_loop reads processed s ks
         else drain_loop reads (processed + 1)
           (s\<lparr>pa_flush_pending_keys := pa_flush_pending_keys s - {key}\<rparr>) (ks @ [key]))"

definition drain_flush_queue :: "nat \<Rightarrow> PairAggState \<Rightarrow> PairAggState \<times> pair_key list" where
  "drain_flush_queue reads s = (if pa_flush_queue s = [] then (s, []) else drain_loop reads 0 s [])"

section \<open>Building a bar\<close>

definition bump :: "nat \<Rightarrow> nat list \<Rightarrow> nat list" where
  "bump i xs = (if i < List.length xs then xs[i := xs ! i + 1] else xs)"

definition count_gap_stale :: "Bars1sPair \<Rightarrow> GapStaleStats \<Rightarrow> GapStaleStats" where
  "count_gap_stale bar g = g\<lparr>gs_total := gs_total g + 1, gs_gap := gs_gap g + (if pb_bar_gap_flag bar \<noteq> 0 then 1 else 0),
     gs_stale := gs_stale g + (if pb_bar_stale_flag bar \<noteq> 0 then 1 else 0)\<rparr>"

definition build_bar_with_context :: "(f64 \<Rightarrow> f64) \<Rightarrow> ((int \<rightharpoonup> f64) \<Rightarrow> int list) \<Rightarrow> pair_key \<Rightarrow> PairBucket \<Rightarrow>
    BuildContext \<Rightarrow> bool \<Rightarrow> PairAggState \<Rightarrow> Bars1sPair \<times> PairAggState" where
  "build_bar_with_context lnf keys key bucket ctx opi_ready s =
    (let p = (fst key, fst (snd key));
         stats = unwrap_or (pa_pair_stats s p) pair_stats_default;
         (bar, stats, depth_idx) = build_bar lnf keys key bucket ctx opi_ready stats
     in (bar, s\<lparr>pa_pair_stats := (pa_pair_stats s)(p \<mapsto> stats),
                pa_gap_stale_stats := count_gap_stale bar (pa_gap_stale_stats s),
                pa_liquidity_total := bump depth_idx (pa_liquidity_total s),
                pa_liquidity_mid_nonnull := (if pb_poly_mid_state bar \<noteq> None
                  then bump depth_idx (pa_liquidity_mid_nonnull s) else pa_liquidity_mid_nonnull s)\<rparr>))"

definition record_flush_ready :: "int \<Rightarrow> PairAggState \<Rightarrow> PairAggState" where
  "record_flush_ready bar_second s = (let f = pa_flush_stats s in
     if 0 < pa_current_tick s \<and> bar_second < pa_current_tick s
     then s\<lparr>pa_flush_stats := f\<lparr>fs_ready_late := fs_ready_late f + 1\<rparr>\<rparr>
     else s\<lparr>pa_flush_stats := f\<lparr>fs_ready_on_time := fs_ready_on_time f + 1\<rparr>\<rparr>)"

definition MISSING_SAMPLE_LIMIT :: nat where
  "MISSING_SAMPLE_LIMIT = 20"

definition push_missing_sample :: "MissingSample \<Rightarrow> MissingSample list \<Rightarrow> MissingSample list" where
  "push_missing_sample x xs = (if List.length xs < MISSING_SAMPLE_LIMIT then xs @ [x] else xs)"

definition venue_tokens :: "Venue \<Rightarrow> PairAggState \<Rightarrow> (int \<times> TokenSide \<rightharpoonup> string)" where
  "venue_tokens v s = (case v of Polymarket \<Rightarrow> pa_pm_token_map s | Opinion \<Rightarrow> pa_opi_token_map s)"

definition venue_seen :: "Venue \<Rightarrow> PairAggState \<Rightarrow> (string \<rightharpoonup> int)" where
  "venue_seen v s = (case v of Polymarket \<Rightarrow> pa_last_seen_pm s | Opinion \<Rightarrow> pa_last_seen_opi s)"

definition upd_reasons :: "Venue \<Rightarrow> (MissingReasons \<Rightarrow> MissingReasons) \<Rightarrow> PairAggState \<Rightarrow> PairAggState" where
  "upd_reasons v f s = s\<lparr>pa_missing_reasons := (pa_missing_reasons s)(v := f (pa_missing_reasons s v))\<rparr>"

definition record_missing_reason :: "Venue \<Rightarrow> pair_key \<Rightarrow> PairAggState \<Rightarrow> PairAggState" where
  "record_missing_reason v key s = (case key of (pair_id, token_side, bar_second) \<Rightarrow>
     case venue_tokens v s (pair_id, token_side) of
       None \<Rightarrow> upd_reasons v (\<lambda>m. m\<lparr>mr_uninitialized := mr_uninitialized m + 1\<rparr>) s
     | Some token_key \<Rightarrow>
       (case venue_seen v s token_key of
         None \<Rightarrow> upd_reasons v (\<lambda>m. m\<lparr>mr_no_seen := mr_no_seen m + 1\<rparr>) s
       | Some last_seen \<Rightarrow>
         let lag = bar_second - last_seen;
             sample = \<lparr>sm_key = key, sm_token_key = token_key, sm_last_seen = last_seen, sm_lag_s = lag,
                       sm_current_tick = pa_current_tick s, sm_cutoff = late_cutoff s\<rparr>
         in if 0 < lag then
              (upd_reasons v (\<lambda>m. m\<lparr>mr_lagging := mr_lagging m + 1,
                 mr_lag_max_s := (if mr_lag_max_s m < lag then lag else mr_lag_max_s m)\<rparr>) s)
              \<lparr>pa_samples_lagging := (pa_samples_lagging s)(v := push_missing_sample sample (pa_samples_lagging s v))\<rparr>
            else if lag < 0 then
              (upd_reasons v (\<lambda>m. m\<lparr>mr_ahead := mr_ahead m + 1,
                 mr_ahead_min_s := (if mr_ahead_min_s m = 0 \<or> lag < mr_ahead_min_s m then lag else mr_ahead_min_s m)\<rparr>) s)
              \<lparr>pa_samples_ahead := (pa_samples_ahead s)(v := push_missing_sample sample (pa_samples_ahead s v))\<rparr>
            else s))"

definition upd_flush :: "(FlushStats \<Rightarrow> FlushStats) \<Rightarrow> PairAggState \<Rightarrow> PairAggState" where
  "upd_flush f s = s\<lparr>pa_flush_stats := f (pa_flush_stats s)\<rparr>"

definition record_flush_timeout :: "pair_key \<Rightarrow> PairBucket \<Rightarrow> bool \<Rightarrow> PairAggState \<Rightarrow> PairAggState" where
  "record_flush_timeout key bucket opi_ready s =
    (let has_pm = (bu_pm bucket \<noteq> None); has_opi = (bu_opi bucket \<noteq> None) in
     if has_pm \<and> has_opi then upd_flush (\<lambda>f. f\<lparr>fs_timeout_full := fs_timeout_full f + 1\<rparr>) s
     else
       let s = upd_flush (\<lambda>f. f\<lparr>fs_timeout_missing := fs_timeout_missing f + 1\<rparr>) s;
           s = (if has_pm then s else record_missing_reason Polymarket key
                  (upd_flush (\<lambda>f. f\<lparr>fs_timeout_missing_pm := fs_timeout_missing_pm f + 1\<rparr>) s))
       in if has_opi then s
          else if opi_ready then record_missing_reason Opinion key
                 (upd_flush (\<lambda>f. f\<lparr>fs_timeout_missing_opi := fs_timeout_missing_opi f + 1\<rparr>) s)
          else upd_flush (\<lambda>f. f\<lparr>fs_timeout_opi_not_ready := fs_timeout_opi_not_ready f + 1\<rparr>) s)"

text \<open>The resets of the periodic log, every 60 seconds, and its companion of 10 seconds.\<close>

definition maybe_log_stats :: "PairAggState \<Rightarrow> PairAggState" where
  "maybe_log_stats s =
    (if pa_current_tick s \<le> 0 then s
     else if pa_last_stats_log_second s = 0 then s\<lparr>pa_last_stats_log_second := pa_current_tick s\<rparr>
     else if pa_current_tick s - pa_last_stats_log_second s < 60 then s
     else s\<lparr>pa_last_stats_log_second := pa_current_tick s, pa_flush_stats := flush_stats_default,
            pa_arrival_stats := arrival_stats_default, pa_missing_reasons := (\<lambda>_. missing_reasons_default),
            pa_samples_lagging := (\<lambda>_. []), pa_samples_ahead := (\<lambda>_. []),
            pa_gap_stale_stats := gap_stale_stats_default,
            pa_liquidity_total := replicate 6 0, pa_liquidity_mid_nonnull := replicate 6 0\<rparr>)"

definition maybe_log_pending_stats :: "PairAggState \<Rightarrow> PairAggState" where
  "maybe_log_pending_stats s =
    (if pa_current_tick s \<le> 0 then s
     else if pa_last_pending_log_second s = 0 then s\<lparr>pa_last_pending_log_second := pa_current_tick s\<rparr>
     else if pa_current_tick s - pa_last_pending_log_second s < 10 then s
     else s\<lparr>pa_last_pending_log_second := pa_current_tick s\<rparr>)"

section \<open>Histories\<close>

definition store_bar :: "PairInput \<Rightarrow> (string \<rightharpoonup> PairInput list) \<Rightarrow> (string \<rightharpoonup> PairInput list)" where
  "store_bar inp history =
    (let entry = unwrap_or (history (pi_token_key inp)) [] @ [inp]
     in history(pi_token_key inp \<mapsto> if 600 < List.length entry then tl entry else entry))"

text \<open>The scans run backwards over the history.\<close>

fun find_bar_rev :: "int \<Rightarrow> PairInput list \<Rightarrow> PairInput option" where
  "find_bar_rev bar_second [] = None"
| "find_bar_rev bar_second (b # bs) =
    (if pi_bar_second b = bar_second then Some b
     else if pi_bar_second b < i64_sat (bar_second - 1) \<and> pi_bar_second b + 5 < bar_second then None
     else find_bar_rev bar_second bs)"

definition find_bar :: "PairInput list \<Rightarrow> int \<Rightarrow> PairInput option" where
  "find_bar history bar_second = find_bar_rev bar_second (rev history)"

fun lookback_rev :: "int \<Rightarrow> int \<Rightarrow> PairInput list \<Rightarrow> PairInput option" where
  "lookback_rev bar_second min_second [] = None"
| "lookback_rev bar_second min_second (b # bs) =
    (if bar_second < pi_bar_second b then lookback_rev bar_second min_second bs
     else if pi_bar_second b < min_second then None else Some b)"

definition find_bar_with_lookback :: "PairInput list \<Rightarrow> int \<Rightarrow> nat \<Rightarrow> PairInput option" where
  "find_bar_with_lookback history bar_second gap_allow =
    lookback_rev bar_second (i64_sat (bar_second - int gap_allow)) (rev history)"

function first_index_loop :: "PairInput list \<Rightarrow> int \<Rightarrow> nat \<Rightarrow> nat \<Rightarrow> nat" where
  "first_index_loop history bar_second lo hi =
    (if lo < hi then
       let mid = (lo + hi) div 2 in
       if pi_bar_second (history ! mid) \<le> bar_second then first_index_loop history bar_second (mid + 1) hi
       else first_index_loop history bar_second lo mid
     else lo)"
  by pat_completeness auto
termination by (relation "measure (\<lambda>(_, _, lo, hi). hi - lo)") auto

declare first_index_loop.simps [simp del]

definition first_index_after :: "PairInput list \<Rightarrow> int \<Rightarrow> nat" where
  "first_index_after history bar_second = first_index_loop history bar_second 0 (List.length history)"

section \<open>Responses\<close>

definition price_signal :: "PairInput \<Rightarrow> f64 option" where
  "price_signal b = or_else (or_else (pi_last_price b) (pi_mid_state b)) (pi_mid b)"

definition is_bar_valid :: "int \<Rightarrow> PairInput \<Rightarrow> bool" where
  "is_bar_valid analysis_staleness_ms b \<longleftrightarrow> price_signal b \<noteq> None \<and>
     (case pi_staleness_ms b of Some v \<Rightarrow> v \<le> analysis_staleness_ms | None \<Rightarrow> False)"

definition bar_depth :: "PairInput \<Rightarrow> f64" where
  "bar_depth b = unwrap_or (pi_top10_depth_bid b) 0 + unwrap_or (pi_top10_depth_ask b) 0"

definition moved :: "f64 \<Rightarrow> f64 \<Rightarrow> f64 \<Rightarrow> bool" where
  "moved eps base price \<longleftrightarrow> eps < \<bar>price - base\<bar>"

text \<open>The first valid bar of the range whose price moved.\<close>

fun first_move :: "int \<Rightarrow> f64 \<Rightarrow> int \<Rightarrow> f64 \<Rightarrow> PairInput list \<Rightarrow> int option" where
  "first_move staleness_ms eps trigger base [] = None"
| "first_move staleness_ms eps trigger base (b # bs) =
    (if \<not> is_bar_valid staleness_ms b then first_move staleness_ms eps trigger base bs
     else case price_signal b of
       Some price \<Rightarrow> if moved eps base price then Some (pi_bar_second b - trigger)
         else first_move staleness_ms eps trigger base bs
     | None \<Rightarrow> first_move staleness_ms eps trigger base bs)"

definition opt2 :: "(f64 \<Rightarrow> f64 \<Rightarrow> 'a option) \<Rightarrow> f64 option \<Rightarrow> f64 option \<Rightarrow> 'a option" where
  "opt2 f x y = (case (x, y) of (Some a, Some b) \<Rightarrow> f a b | _ \<Rightarrow> None)"

definition response_range :: "PairInput list \<Rightarrow> int \<Rightarrow> int \<Rightarrow> PairInput list" where
  "response_range history trigger target =
    (let range_start = first_index_after history trigger;
         range_end = max (first_index_after history target) range_start
     in drop range_start (take range_end history))"

definition build_response_from_history :: "(f64 \<Rightarrow> f64) \<Rightarrow> (string \<rightharpoonup> PairInput list) \<Rightarrow> PendingResponse \<Rightarrow>
    int \<Rightarrow> nat \<Rightarrow> int \<Rightarrow> f64 \<Rightarrow> OpinionResponseRow option" where
  "build_response_from_history lnf opi_history p target_bar_second gap_allow staleness_ms move_eps =
    Option.bind (pr_opi_token_key p) (\<lambda>token_key. Option.bind (opi_history token_key) (\<lambda>history.
      let baseline_bar = find_bar_with_lookback history (pr_trigger_bar_second p) gap_allow;
          target_bar = find_bar_with_lookback history target_bar_second gap_allow;
          baseline_mid = Option.bind baseline_bar price_signal; target_mid = Option.bind target_bar price_signal;
          baseline_spread = Option.bind baseline_bar pi_spread; target_spread = Option.bind target_bar pi_spread;
          baseline_depth = map_option bar_depth baseline_bar; target_depth = map_option bar_depth target_bar;
          ok = (\<lambda>b. case b of Some v \<Rightarrow> is_bar_valid staleness_ms v | None \<Rightarrow> False);
          move_flag = (case (baseline_mid, target_mid) of (Some a, Some b) \<Rightarrow> if moved move_eps a b then 1 else 0 | _ \<Rightarrow> 0);
          range = response_range history (pr_trigger_bar_second p) target_bar_second;
          first_lag = Option.bind baseline_mid
            (\<lambda>base. first_move staleness_ms move_eps (pr_trigger_bar_second p) base range);
          diff = opt2 (\<lambda>a b. Some (b - a))
      in Some \<lparr>or_shock_id = pr_shock_id p, or_horizon_s = pr_horizon_s p,
           or_sample_valid_flag = (if ok baseline_bar \<and> ok target_bar then 1 else 0), or_move_flag = move_flag,
           or_first_move_lag_s = first_lag,
           or_opi_return = opt2 (\<lambda>a b. if 0 < a \<and> 0 < b then Some (lnf (b / a)) else None) baseline_mid target_mid,
           or_opi_price_delta = diff baseline_mid target_mid,
           or_opi_volume_sum = Some (foldl (+) 0 (map pi_volume_notional_1s range)),
           or_opi_cvd_sum = Some (foldl (+) 0 (map pi_cvd_delta_1s range)),
           or_opi_spread_change = diff baseline_spread target_spread,
           or_opi_depth_change = diff baseline_depth target_depth,
           or_opi_staleness_at_t0_ms = Option.bind baseline_bar pi_staleness_ms,
           or_opi_liquidity_pull_flag_at_t0 = map_option pi_liquidity_pull_flag baseline_bar,
           or_true_net_spread_at_t0 = pr_true_net_spread_at_t0 p, or_arb_mode_flag_at_t0 = pr_arb_mode_flag_at_t0 p,
           or_estimated_lag_s_at_t0 = pr_estimated_lag_s_at_t0 p, or_lag_confidence_at_t0 = pr_lag_confidence_at_t0 p,
           or_obs_latency_poly_p99_at_t0 = pr_obs_latency_poly_p99_at_t0 p,
           or_obs_latency_opi_p99_at_t0 = pr_obs_latency_opi_p99_at_t0 p\<rparr>))"

end
