(* ===== verification/PairTasks.thy ===== *)
theory PairTasks
  imports PairAgg
begin

text \<open>
  The tasks of \<open>src/pair_aggregator.rs\<close>: the aggregator that handles messages, the flush worker that
  builds the bars of stale buckets, and the worker that answers pending responses. They share the state
  under a lock, so each critical section is one definition, and \<open>pair_step\<close> interleaves them. What
  happens outside (fees, chain metrics, the bootstrap flag, the clock reads that a time budget allows,
  whether the trading queue takes a message) comes from the environment of each step.
\<close>

section \<open>State of the tasks\<close>

datatype TradeMessage = TradePairBar Bars1sPair | TradeShock ShockInput

datatype PairRow = RowPairBar Bars1sPair | RowResponse OpinionResponseRow

record PairEnv =
  pe_ln :: "f64 \<Rightarrow> f64"
  pe_keys :: "(int \<rightharpoonup> f64) \<Rightarrow> int list"
  pe_fees :: FeeScheduleState
  pe_chain :: ChainMetricsState
  pe_opi_ready :: bool
  pe_reads :: nat
  pe_trade_send :: "TradeMessage \<Rightarrow> SendOutcome"
  pe_now_ms :: millis
  pe_handle_ms :: nat

record PairHandleStats =
  hs_window_start_ms :: millis
  hs_total :: nat
  hs_tokenbar :: nat
  hs_shock :: nat
  hs_tick :: nat
  hs_handle_ms_sum :: nat
  hs_handle_ms_max :: nat
  hs_slow_count :: nat

text \<open>Where the aggregator stands inside a message: a complete bucket that waits to be built, or the
  responses of a shock that wait to be stored.\<close>

datatype PairJob = Idle | Building pair_key PairBucket bool | Pushing "PendingResponse list"

record PairAggregator =
  ag_state :: PairAggState
  ag_alpha_capture_enabled :: bool
  ag_has_trade_sender :: bool
  ag_analysis_staleness_ms :: int
  ag_analysis_gap_allow :: nat
  ag_analysis_move_eps :: f64
  ag_opi_bar_history :: "string \<rightharpoonup> PairInput list"
  ag_pm_bar_history :: "string \<rightharpoonup> PairInput list"
  ag_pending_channel :: "PendingResponse list"
  ag_pending_inflight :: int
  ag_pending_try_send_fail :: nat
  ag_pending_worker_processed :: nat
  ag_handle_stats :: PairHandleStats
  ag_last_handle_log_ms :: millis
  ag_job :: PairJob
  ag_flush_permit :: bool
  ag_worker_active :: bool
  ag_drained :: "pair_key list"
  ag_db_out :: "PairRow list"
  ag_trade_out :: "TradeMessage list"
  ag_trade_dropped :: nat
  ag_trade_closed :: nat

definition handle_stats_reset :: "millis \<Rightarrow> PairHandleStats" where
  "handle_stats_reset now_ms = \<lparr>hs_window_start_ms = now_ms, hs_total = 0, hs_tokenbar = 0, hs_shock = 0,
     hs_tick = 0, hs_handle_ms_sum = 0, hs_handle_ms_max = 0, hs_slow_count = 0\<rparr>"

definition pair_aggregator_new :: "bool \<Rightarrow> bool \<Rightarrow> int \<Rightarrow> nat \<Rightarrow> f64 \<Rightarrow> PairAggState \<Rightarrow> PairAggregator" where
  "pair_aggregator_new alpha has_trade staleness_ms gap_allow move_eps s =
    \<lparr>ag_state = s, ag_alpha_capture_enabled = alpha, ag_has_trade_sender = has_trade,
     ag_analysis_staleness_ms = staleness_ms, ag_analysis_gap_allow = gap_allow, ag_analysis_move_eps = move_eps,
     ag_opi_bar_history = Map.empty, ag_pm_bar_history = Map.empty, ag_pending_channel = [],
     ag_pending_inflight = 0, ag_pending_try_send_fail = 0, ag_pending_worker_processed = 0,
     ag_handle_stats = handle_stats_reset 0, ag_last_handle_log_ms = 0, ag_job = Idle,
     ag_flush_permit = False, ag_worker_active = False, ag_drained = [], ag_db_out = [], ag_trade_out = [],
     ag_trade_dropped = 0, ag_trade_closed = 0\<rparr>"

definition upd_state :: "(PairAggState \<Rightarrow> PairAggState) \<Rightarrow> PairAggregator \<Rightarrow> PairAggregator" where
  "upd_state f a = a\<lparr>ag_state := f (ag_state a)\<rparr>"

section \<open>Sending\<close>

definition try_send_trade :: "PairEnv \<Rightarrow> TradeMessage \<Rightarrow> PairAggregator \<Rightarrow> PairAggregator" where
  "try_send_trade env msg a = (case pe_trade_send env msg of
     SendOk \<Rightarrow> a\<lparr>ag_trade_out := ag_trade_out a @ [msg]\<rparr>
   | SendFull \<Rightarrow> a\<lparr>ag_trade_dropped := ag_trade_dropped a + 1\<rparr>
   | SendClosed \<Rightarrow> a\<lparr>ag_trade_closed := ag_trade_closed a + 1\<rparr>)"

definition emit_bar :: "PairEnv \<Rightarrow> Bars1sPair \<Rightarrow> PairAggregator \<Rightarrow> PairAggregator" where
  "emit_bar env bar a =
    (let a = (if ag_alpha_capture_enabled a then a\<lparr>ag_db_out := ag_db_out a @ [RowPairBar bar]\<rparr> else a)
     in if ag_has_trade_sender a then try_send_trade env (TradePairBar bar) a else a)"

section \<open>Messages\<close>

text \<open>A token bar up to the end of its first critical section.\<close>

definition token_bar_store :: "PairEnv \<Rightarrow> PairInput \<Rightarrow> PairAggregator \<Rightarrow> PairAggregator" where
  "token_bar_store env inp a =
    (let h = ag_handle_stats a; a = a\<lparr>ag_handle_stats := h\<lparr>hs_tokenbar := hs_tokenbar h + 1\<rparr>\<rparr>;
         a = (case pi_venue inp of
                Opinion \<Rightarrow> a\<lparr>ag_opi_bar_history := store_bar inp (ag_opi_bar_history a)\<rparr>
              | Polymarket \<Rightarrow> a\<lparr>ag_pm_bar_history := store_bar inp (ag_pm_bar_history a)\<rparr>);
         (ready, s) = store_input inp (ag_state a)
     in a\<lparr>ag_state := s, ag_job := (case ready of None \<Rightarrow> Idle
            | Some b \<Rightarrow> Building (input_key inp) b (pe_opi_ready env))\<rparr>)"

text \<open>The second one, with the fees and chain metrics loaded in between.\<close>

definition token_bar_build :: "PairEnv \<Rightarrow> pair_key \<Rightarrow> PairBucket \<Rightarrow> bool \<Rightarrow> PairAggregator \<Rightarrow> PairAggregator" where
  "token_bar_build env key bucket opi_ready a =
    (let ctx = load_build_context (pe_fees env) (pe_chain env) (snd (snd key));
         (bar, s) = build_bar_with_context (pe_ln env) (pe_keys env) key bucket ctx opi_ready (ag_state a);
         a = a\<lparr>ag_state := record_flush_ready (snd (snd key)) s, ag_job := Idle\<rparr>
     in emit_bar env bar a)"

definition PENDING_PROCESS_MAX :: nat where
  "PENDING_PROCESS_MAX = 500"

definition PENDING_WORKER_QUEUE_CAPACITY :: nat where
  "PENDING_WORKER_QUEUE_CAPACITY = 10000"

text \<open>The items of one due target: clock reads left, items processed, items to put back.\<close>

fun send_pending :: "nat \<Rightarrow> nat \<Rightarrow> PendingResponse list \<Rightarrow> PairAggregator \<Rightarrow>
    nat \<times> nat \<times> PendingResponse list \<times> PairAggregator" where
  "send_pending reads processed [] a = (reads, processed, [], a)"
| "send_pending reads processed (p # ps) a =
    (if PENDING_PROCESS_MAX \<le> processed \<or> reads = 0 then (reads, processed, p # ps, a)
     else if \<not> ag_alpha_capture_enabled a then
       send_pending (reads - 1) (processed + 1) ps
         (upd_state (\<lambda>s. s\<lparr>pa_pending_count := pa_pending_count s - 1\<rparr>) a)
     else if List.length (ag_pending_channel a) < PENDING_WORKER_QUEUE_CAPACITY then
       send_pending (reads - 1) (processed + 1) ps
         ((upd_state (\<lambda>s. s\<lparr>pa_pending_count := pa_pending_count s - 1\<rparr>) a)
          \<lparr>ag_pending_channel := ag_pending_channel a @ [p], ag_pending_inflight := ag_pending_inflight a + 1\<rparr>)
     else (reads - 1, processed, p # ps, a\<lparr>ag_pending_try_send_fail := ag_pending_try_send_fail a + 1\<rparr>))"

text \<open>The due targets in order; the first one that keeps items ends the loop.\<close>

fun flush_targets :: "nat \<Rightarrow> nat \<Rightarrow> (int \<times> PendingResponse list) list \<Rightarrow> PairAggregator \<Rightarrow> PairAggregator" where
  "flush_targets reads processed [] a = a"
| "flush_targets reads processed ((target, ps) # ts) a =
    (let a = upd_state (\<lambda>s. s\<lparr>pa_pending_by_target := filter (\<lambda>e. fst e \<noteq> target) (pa_pending_by_target s)\<rparr>) a;
         (reads, processed, remaining, a) = send_pending reads processed ps a
     in if remaining = [] then flush_targets reads processed ts a
        else upd_state (\<lambda>s. s\<lparr>pa_pending_by_target := bt_insert target remaining (pa_pending_by_target s)\<rparr>) a)"

definition flush_pending :: "nat \<Rightarrow> PairAggregator \<Rightarrow> PairAggregator" where
  "flush_pending reads a =
    flush_targets reads 0 (takeWhile (\<lambda>e. fst e \<le> pa_current_tick (ag_state a)) (pa_pending_by_target (ag_state a))) a"

definition pair_tick :: "PairEnv \<Rightarrow> int \<Rightarrow> PairAggregator \<Rightarrow> PairAggregator" where
  "pair_tick env bar_second a =
    (let h = ag_handle_stats a; a = a\<lparr>ag_handle_stats := h\<lparr>hs_tick := hs_tick h + 1\<rparr>\<rparr>;
         (s, enqueued) = flush_stale (pe_opi_ready env) (pe_reads env) ((ag_state a)\<lparr>pa_current_tick := bar_second\<rparr>);
         a = a\<lparr>ag_state := s, ag_flush_permit := (ag_flush_permit a \<or> 0 < enqueued)\<rparr>;
         a = flush_pending (pe_reads env) a
     in upd_state (\<lambda>s. maybe_log_stats (maybe_log_pending_stats s)) a)"

definition compute_true_net_spread ::
    "PairEnv \<Rightarrow> PairInput option \<Rightarrow> PairInput option \<Rightarrow> int \<Rightarrow> f64 option \<times> int option" where
  "compute_true_net_spread env pm opi bar_second =
    (let ctx = load_build_context (pe_fees env) (pe_chain env) bar_second;
         poly_fee = fee_rate (bc_fee_bps_polymarket ctx); opi_fee = fee_rate (bc_fee_bps_opinion ctx);
         gas = unwrap_or (bc_gas_cost ctx) 0;
         buy = net_spread poly_fee opi_fee gas (px_state pi_best_bid_state pi_best_bid pm) (px_state pi_best_ask_state pi_best_ask opi);
         sell = net_spread opi_fee poly_fee gas (px_state pi_best_bid_state pi_best_bid opi) (px_state pi_best_ask_state pi_best_ask pm);
         spread = (case (buy, sell) of (Some b, Some s) \<Rightarrow> Some (f64_max b s) | (Some b, None) \<Rightarrow> Some b
           | (None, Some s) \<Rightarrow> Some s | _ \<Rightarrow> None)
     in (spread, Some (arb_flag buy sell)))"

definition horizons :: "int list" where
  "horizons = [10, 30, 60, 120, 300]"

definition response_of :: "PairEnv \<Rightarrow> ShockInput \<Rightarrow> PairAggregator \<Rightarrow> int \<Rightarrow> PendingResponse" where
  "response_of env shock a horizon =
    (let p = (si_pair_id shock, si_token_side shock); s = ag_state a; t0 = si_trigger_bar_second shock;
         opi_token_key = pa_opi_token_map s p; pm_token_key = pa_pm_token_map s p;
         lag_pair = (case pa_pair_stats s p of Some st \<Rightarrow> (ps_last_lag_s st, ps_last_lag_confidence st) | None \<Rightarrow> (None, None));
         baseline_opi = Option.bind (Option.bind opi_token_key (ag_opi_bar_history a))
           (\<lambda>h. find_bar_with_lookback h t0 (ag_analysis_gap_allow a));
         baseline_pm = Option.bind (Option.bind pm_token_key (ag_pm_bar_history a)) (\<lambda>h. find_bar h t0);
         spread_arb = compute_true_net_spread env baseline_pm baseline_opi t0
     in \<lparr>pr_shock_id = si_shock_id shock, pr_resp_pair_id = si_pair_id shock, pr_token_side = si_token_side shock,
         pr_trigger_bar_second = t0, pr_horizon_s = horizon, pr_opi_token_key = opi_token_key,
         pr_baseline_mid = Option.bind baseline_opi price_signal, pr_baseline_spread = Option.bind baseline_opi pi_spread,
         pr_baseline_staleness = Option.bind baseline_opi pi_staleness_ms,
         pr_baseline_depth = map_option bar_depth baseline_opi,
         pr_baseline_liquidity_pull_flag = map_option pi_liquidity_pull_flag baseline_opi,
         pr_true_net_spread_at_t0 = fst spread_arb, pr_arb_mode_flag_at_t0 = snd spread_arb,
         pr_estimated_lag_s_at_t0 = fst lag_pair, pr_lag_confidence_at_t0 = snd lag_pair,
         pr_obs_latency_poly_p99_at_t0 = si_obs_latency_poly_p99_ms shock,
         pr_obs_latency_opi_p99_at_t0 = Option.bind baseline_opi pi_obs_latency_p99_ms\<rparr>)"

definition shock_read :: "PairEnv \<Rightarrow> ShockInput \<Rightarrow> PairAggregator \<Rightarrow> PairAggregator" where
  "shock_read env shock a =
    (let h = ag_handle_stats a; a = a\<lparr>ag_handle_stats := h\<lparr>hs_shock := hs_shock h + 1\<rparr>\<rparr>;
         a = (if ag_has_trade_sender a then try_send_trade env (TradeShock shock) a else a)
     in if \<not> ag_alpha_capture_enabled a then a\<lparr>ag_job := Idle\<rparr>
        else a\<lparr>ag_job := Pushing (map (response_of env shock a) horizons)\<rparr>)"

definition shock_push :: "PendingResponse list \<Rightarrow> PairAggregator \<Rightarrow> PairAggregator" where
  "shock_push ps a = (upd_state (\<lambda>s. fold (\<lambda>p s. s\<lparr>
       pa_pending_by_target := bt_push (pr_trigger_bar_second p + pr_horizon_s p) p (pa_pending_by_target s),
       pa_pending_count := pa_pending_count s + 1\<rparr>) ps s) a)\<lparr>ag_job := Idle\<rparr>"

text \<open>The bookkeeping at the end of every message, with \<open>maybe_log_handle_stats\<close>.\<close>

definition finish_handle :: "PairEnv \<Rightarrow> PairAggregator \<Rightarrow> PairAggregator" where
  "finish_handle env a =
    (let h = ag_handle_stats a; ms = pe_handle_ms env;
         h = h\<lparr>hs_total := hs_total h + 1, hs_handle_ms_sum := hs_handle_ms_sum h + ms,
               hs_handle_ms_max := max (hs_handle_ms_max h) ms,
               hs_slow_count := hs_slow_count h + (if 50 < ms then 1 else 0)\<rparr>
     in if hs_window_start_ms h = 0
        then a\<lparr>ag_handle_stats := handle_stats_reset (pe_now_ms env), ag_last_handle_log_ms := pe_now_ms env\<rparr>
        else if i64_sat (pe_now_ms env - ag_last_handle_log_ms a) < 60000 then a\<lparr>ag_handle_stats := h\<rparr>
        else a\<lparr>ag_handle_stats := handle_stats_reset (pe_now_ms env), ag_last_handle_log_ms := pe_now_ms env\<rparr>)"

section \<open>Workers\<close>

text \<open>The flush worker: woken by a permit, it drains keys and builds their buckets one by one, until a
  drain returns nothing or the queue is empty after a round.\<close>

definition worker_wake :: "PairAggregator \<Rightarrow> PairAggregator" where
  "worker_wake a = a\<lparr>ag_flush_permit := False, ag_worker_active := True\<rparr>"

definition worker_drain :: "PairEnv \<Rightarrow> PairAggregator \<Rightarrow> PairAggregator" where
  "worker_drain env a = (let (s, ks) = drain_flush_queue (pe_reads env) (ag_state a)
     in a\<lparr>ag_state := s, ag_drained := ks, ag_worker_active := (ks \<noteq> [])\<rparr>)"

definition flush_bucket :: "PairEnv \<Rightarrow> pair_key \<Rightarrow> PairAggregator \<Rightarrow> PairAggregator" where
  "flush_bucket env key a = (case pa_buckets (ag_state a) key of None \<Rightarrow> a
   | Some bucket \<Rightarrow>
     let ctx = load_build_context (pe_fees env) (pe_chain env) (snd (snd key));
         (bar, s) = build_bar_with_context (pe_ln env) (pe_keys env) key bucket ctx (pe_opi_ready env) (ag_state a);
         s = record_flush_timeout key bucket (pe_opi_ready env) s
     in emit_bar env bar (a\<lparr>ag_state := s\<lparr>pa_buckets := (pa_buckets s)(key := None)\<rparr>\<rparr>))"

definition worker_flush :: "PairEnv \<Rightarrow> PairAggregator \<Rightarrow> PairAggregator" where
  "worker_flush env a = (case ag_drained a of [] \<Rightarrow> a | key # ks \<Rightarrow>
     let a = flush_bucket env key (a\<lparr>ag_drained := ks\<rparr>)
     in if ks = [] \<and> pa_flush_queue (ag_state a) = [] then a\<lparr>ag_worker_active := False\<rparr> else a)"

text \<open>The response worker takes one item of the channel.\<close>

definition response_worker :: "PairEnv \<Rightarrow> PairAggregator \<Rightarrow> PairAggregator" where
  "response_worker env a = (case ag_pending_channel a of [] \<Rightarrow> a | p # ps \<Rightarrow>
     let row = build_response_from_history (pe_ln env) (ag_opi_bar_history a) p
           (pr_trigger_bar_second p + pr_horizon_s p) (ag_analysis_gap_allow a)
           (ag_analysis_staleness_ms a) (ag_analysis_move_eps a);
         a = a\<lparr>ag_pending_channel := ps\<rparr>;
         a = (case row of Some r \<Rightarrow> if ag_alpha_capture_enabled a
                then a\<lparr>ag_db_out := ag_db_out a @ [RowResponse r]\<rparr> else a | None \<Rightarrow> a)
     in a\<lparr>ag_pending_inflight := ag_pending_inflight a - 1,
          ag_pending_worker_processed := ag_pending_worker_processed a + 1\<rparr>)"

section \<open>Interleaving\<close>

datatype PairLabel = LStore PairInput | LBuild | LTick int | LShock ShockInput | LPush
  | LWake | LDrain | LFlush | LRespond

inductive pair_step :: "PairEnv \<Rightarrow> PairLabel \<Rightarrow> PairAggregator \<Rightarrow> PairAggregator \<Rightarrow> bool" for env where
  step_store: "ag_job a = Idle \<Longrightarrow> a' = token_bar_store env inp a \<Longrightarrow>
     pair_step env (LStore inp) a (if ag_job a' = Idle then finish_handle env a' else a')"
| step_build: "ag_job a = Building key bucket r \<Longrightarrow>
     pair_step env LBuild a (finish_handle env (token_bar_build env key bucket r a))"
| step_tick: "ag_job a = Idle \<Longrightarrow> pair_step env (LTick sec) a (finish_handle env (pair_tick env sec a))"
| step_shock: "ag_job a = Idle \<Longrightarrow> a' = shock_read env shock a \<Longrightarrow>
     pair_step env (LShock shock) a (if ag_job a' = Idle then finish_handle env a' else a')"
| step_push: "ag_job a = Pushing ps \<Longrightarrow> pair_step env LPush a (finish_handle env (shock_push ps a))"
| step_wake: "ag_flush_permit a \<Longrightarrow> \<not> ag_worker_active a \<Longrightarrow> pair_step env LWake a (worker_wake a)"
| step_drain: "ag_worker_active a \<Longrightarrow> ag_drained a = [] \<Longrightarrow> pair_step env LDrain a (worker_drain env a)"
| step_flush: "ag_worker_active a \<Longrightarrow> ag_drained a \<noteq> [] \<Longrightarrow> pair_step env LFlush a (worker_flush env a)"
| step_respond: "ag_pending_channel a \<noteq> [] \<Longrightarrow> pair_step env LRespond a (response_worker env a)"

inductive_cases pair_stepE: "pair_step env l a a'"

inductive pair_reach :: "PairAggregator \<Rightarrow> (PairEnv \<times> PairLabel) list \<Rightarrow> PairAggregator \<Rightarrow> bool" for a0 where
  reach_init: "pair_reach a0 [] a0"
| reach_step: "pair_reach a0 tr a \<Longrightarrow> pair_step env l a a' \<Longrightarrow> pair_reach a0 (tr @ [(env, l)]) a'"

end
