(* ===== verification/PairSched.thy ===== *)
theory PairSched
  imports PairTasks
begin

text \<open>
  The schedule of the buckets of \<open>PairTasks\<close>. In every run each stored bucket is indexed, queued or in
  the hands of the flush worker, so none is forgotten. On the other hand a single bucket whose missing
  venue keeps sending holds back every bucket of a later second.
\<close>

section \<open>Ordered maps\<close>

named_theorems pair_frame

definition bt_ok :: "(int \<times> 'a) list \<Rightarrow> bool" where
  "bt_ok m \<longleftrightarrow> sorted_wrt (<) (map fst m)"

lemma bt_ok_Cons [simp]: "bt_ok (e # m) \<longleftrightarrow> (\<forall>x \<in> set m. fst e < fst x) \<and> bt_ok m"
  by (simp add: bt_ok_def)

lemma bt_ok_Nil [simp]: "bt_ok []"
  by (simp add: bt_ok_def)

lemma fst_bt_insert: "fst ` set (bt_insert k v m) = insert k (fst ` set m)"
  by (induction k v m rule: bt_insert.induct) auto

lemma bt_ok_insert: "bt_ok m \<Longrightarrow> bt_ok (bt_insert k v m)"
proof (induction k v m rule: bt_insert.induct)
  case (2 k v k' v' xs)
  have "\<forall>x \<in> set (bt_insert k v xs). k' < fst x" if "k' < k"
  proof
    fix x assume "x \<in> set (bt_insert k v xs)"
    then have "fst x \<in> fst ` set (bt_insert k v xs)" by (rule imageI)
    then have "fst x \<in> insert k (fst ` set xs)" by (simp only: fst_bt_insert)
    moreover have "\<forall>y \<in> fst ` set xs. k' < y" using 2(2) by simp
    ultimately show "k' < fst x" using that by blast
  qed
  then have tail: "k' < k \<Longrightarrow> bt_ok ((k', v') # bt_insert k v xs)" using 2 by simp
  have lt: "\<forall>x \<in> set xs. k' < fst x" using 2(2) by simp
  have head: "\<forall>x \<in> set xs. k < fst x" if "k < k'"
    using lt less_trans[OF that] by blast
  consider "k < k'" | "k = k'" | "k' < k" by linarith
  then show ?case
  proof cases
    case 1
    with 2(2) head show ?thesis by simp
  next
    case 2
    with \<open>bt_ok ((k', v') # xs)\<close> show ?thesis by simp
  next
    case 3
    with tail show ?thesis by simp
  qed
qed simp

lemma map_of_bt_insert: "bt_ok m \<Longrightarrow> map_of (bt_insert k v m) = (map_of m)(k \<mapsto> v)"
proof (induction k v m rule: bt_insert.induct)
  case (2 k v k' v' xs)
  then show ?case by (auto simp: fun_eq_iff)
qed simp

lemma bt_insert_head: "bt_ok ((k, v) # m) \<Longrightarrow> bt_insert k w m = (k, w) # m"
  by (cases m) auto

definition idx_set :: "(int \<times> 'a list) list \<Rightarrow> 'a set" where
  "idx_set m = {x. \<exists>sec ks. map_of m sec = Some ks \<and> x \<in> set ks}"

lemma idx_set_I: "map_of m sec = Some ks \<Longrightarrow> x \<in> set ks \<Longrightarrow> x \<in> idx_set m"
  by (auto simp: idx_set_def)

lemma idx_set_Cons:
  assumes "bt_ok ((sec, ks) # m)"
  shows "idx_set ((sec, ks) # m) = set ks \<union> idx_set m"
proof -
  have none: "map_of m sec = None" using assms by (force simp: map_of_eq_None_iff)
  show ?thesis
  proof (intro set_eqI iffI)
    fix x assume "x \<in> idx_set ((sec, ks) # m)"
    then show "x \<in> set ks \<union> idx_set m" by (auto simp: idx_set_def split: if_splits)
  next
    fix x assume "x \<in> set ks \<union> idx_set m"
    then consider "x \<in> set ks" | sec' ks' where "map_of m sec' = Some ks'" "x \<in> set ks'"
      by (auto simp: idx_set_def)
    then show "x \<in> idx_set ((sec, ks) # m)"
    proof cases
      case 1
      then show ?thesis by (intro idx_set_I[of _ sec]) auto
    next
      case 2
      then have "sec' \<noteq> sec" using none by auto
      with 2 show ?thesis by (intro idx_set_I[of _ sec']) auto
    qed
  qed
qed

lemma idx_set_push:
  assumes "bt_ok m"
  shows "idx_set (bt_push k x m) = insert x (idx_set m)"
proof (intro set_eqI iffI)
  fix y assume "y \<in> idx_set (bt_push k x m)"
  then show "y \<in> insert x (idx_set m)"
    by (auto simp: idx_set_def bt_push_def map_of_bt_insert[OF assms] unwrap_or_def split: if_splits option.splits)
next
  have new: "map_of (bt_push k x m) k = Some (unwrap_or (map_of m k) [] @ [x])"
    by (simp add: bt_push_def map_of_bt_insert[OF assms])
  fix y assume "y \<in> insert x (idx_set m)"
  then consider "y = x" | sec ks where "map_of m sec = Some ks" "y \<in> set ks" by (auto simp: idx_set_def)
  then show "y \<in> idx_set (bt_push k x m)"
  proof cases
    case 1
    with new show ?thesis by (intro idx_set_I[of _ k]) auto
  next
    case 2
    show ?thesis
    proof (cases "sec = k")
      case True
      with 2 new show ?thesis by (intro idx_set_I[of _ k "ks @ [x]"]) (simp_all add: unwrap_or_def)
    next
      case False
      with 2 show ?thesis by (intro idx_set_I[of _ sec]) (auto simp: bt_push_def map_of_bt_insert[OF assms])
    qed
  qed
qed

lemma bt_ok_push: "bt_ok m \<Longrightarrow> bt_ok (bt_push k x m)"
  by (simp add: bt_push_def bt_ok_insert)

lemma idx_set_insert_fresh:
  "bt_ok ((sec, ks) # m) \<Longrightarrow> idx_set (bt_insert sec rem m) = set rem \<union> idx_set m"
  by (subst bt_insert_head, assumption) (auto intro!: idx_set_Cons)

section \<open>No bucket is forgotten\<close>

definition scheduled :: "pair_key set \<Rightarrow> PairAggState \<Rightarrow> bool" where
  "scheduled held s \<longleftrightarrow> bt_ok (pa_bucket_index s) \<and> pa_flush_pending_keys s \<subseteq> set (pa_flush_queue s) \<and>
     dom (pa_buckets s) \<subseteq> idx_set (pa_bucket_index s) \<union> pa_flush_pending_keys s \<union> held"

text \<open>Operations that leave the schedule's fields alone.\<close>

definition sched_core :: "PairAggState \<Rightarrow> (pair_key \<rightharpoonup> PairBucket) \<times> (int \<times> pair_key list) list \<times> pair_key list \<times> pair_key set" where
  "sched_core s = (pa_buckets s, pa_bucket_index s, pa_flush_queue s, pa_flush_pending_keys s)"

lemma scheduled_core: "sched_core s' = sched_core s \<Longrightarrow> scheduled held s' = scheduled held s"
  by (simp add: scheduled_def sched_core_def)

lemma core_ops [pair_frame]:
  "sched_core (record_arrival inp s) = sched_core s"
  "sched_core (learn_token inp s) = sched_core s"
  "sched_core (snd (build_bar_with_context lnf keys key b ctx r s)) = sched_core s"
  "sched_core (record_flush_ready sec s) = sched_core s"
  "sched_core (upd_reasons v f s) = sched_core s"
  "sched_core (upd_flush g s) = sched_core s"
  "sched_core (record_missing_reason v key s) = sched_core s"
  "sched_core (maybe_log_stats s) = sched_core s"
  "sched_core (maybe_log_pending_stats s) = sched_core s"
proof -
  show u: "sched_core (upd_reasons v f s) = sched_core s" for v f s by (simp add: upd_reasons_def sched_core_def)
  have c: "sched_core (s\<lparr>pa_samples_lagging := x\<rparr>) = sched_core s" "sched_core (s\<lparr>pa_samples_ahead := y\<rparr>) = sched_core s"
    for s x y by (simp_all add: sched_core_def)
  show "sched_core (record_missing_reason v key s) = sched_core s"
    by (simp add: record_missing_reason_def Let_def c u split: prod.split option.split)
  show "sched_core (record_arrival inp s) = sched_core s"
    by (simp add: sched_core_def record_arrival_def Let_def split: Venue.split)
  show "sched_core (learn_token inp s) = sched_core s"
    by (simp add: sched_core_def learn_token_def Let_def split: Venue.split)
  show "sched_core (snd (build_bar_with_context lnf keys key b ctx r s)) = sched_core s"
    by (simp add: sched_core_def build_bar_with_context_def Let_def split: prod.split)
  show "sched_core (record_flush_ready sec s) = sched_core s"
    by (simp add: sched_core_def record_flush_ready_def Let_def)
  show "sched_core (upd_flush g s) = sched_core s" by (simp add: sched_core_def upd_flush_def)
  show "sched_core (maybe_log_stats s) = sched_core s" by (simp add: sched_core_def maybe_log_stats_def)
  show "sched_core (maybe_log_pending_stats s) = sched_core s"
    by (simp add: sched_core_def maybe_log_pending_stats_def)
qed

lemma core_timeout [pair_frame]: "sched_core (record_flush_timeout key b r s) = sched_core s"
  by (simp add: record_flush_timeout_def Let_def pair_frame)

lemma scheduled_drop_bucket:
  assumes "scheduled (insert k held) s"
  shows "scheduled held (s\<lparr>pa_buckets := (pa_buckets s)(k := None)\<rparr>)"
proof -
  have "dom ((pa_buckets s)(k := None)) = dom (pa_buckets s) - {k}" by simp
  with assms show ?thesis unfolding scheduled_def by (simp; blast)
qed

lemma scheduled_take:
  assumes "scheduled held s"
  shows "scheduled held (s\<lparr>pa_buckets := (pa_buckets s)(k := None), pa_flush_pending_keys := pa_flush_pending_keys s - {k}\<rparr>)"
proof -
  have "dom ((pa_buckets s)(k := None)) = dom (pa_buckets s) - {k}" by simp
  with assms show ?thesis unfolding scheduled_def by (simp; blast)
qed

lemma scheduled_put:
  assumes "scheduled held s" "k \<in> idx_set (pa_bucket_index s) \<union> pa_flush_pending_keys s \<union> held"
  shows "scheduled held (s\<lparr>pa_buckets := (pa_buckets s)(k \<mapsto> b)\<rparr>)"
  using assms unfolding scheduled_def by (simp; blast)

lemma scheduled_store:
  assumes "scheduled held s" "store_input inp s = (ready, s')"
  shows "scheduled held s'"
proof -
  define s1 where "s1 = learn_token inp (record_arrival inp s)"
  have "sched_core s1 = sched_core s" by (simp add: s1_def pair_frame)
  from scheduled_core[OF this, of held] have 1: "scheduled held s1" using assms(1) by simp
  let ?key = "input_key inp"
  define s2 where "s2 = (if pa_buckets s1 ?key = None
    then s1\<lparr>pa_bucket_index := bt_push (pi_bar_second inp) ?key (pa_bucket_index s1)\<rparr> else s1)"
  have ok: "bt_ok (pa_bucket_index s1)" using 1 by (simp add: scheduled_def)
  have 2: "scheduled held s2"
  proof (cases "pa_buckets s1 ?key = None")
    case True
    have "scheduled held (s1\<lparr>pa_bucket_index := bt_push (pi_bar_second inp) ?key (pa_bucket_index s1)\<rparr>)"
      using 1 unfolding scheduled_def by (simp add: idx_set_push[OF ok] bt_ok_push[OF ok]) blast
    with True show ?thesis by (simp add: s2_def)
  next
    case False
    with 1 show ?thesis by (simp only: s2_def if_False)
  qed
  have key: "?key \<in> idx_set (pa_bucket_index s2) \<union> pa_flush_pending_keys s2 \<union> held"
  proof (cases "pa_buckets s1 ?key = None")
    case True
    then show ?thesis using ok by (simp add: s2_def idx_set_push)
  next
    case False
    then have "?key \<in> dom (pa_buckets s1)" by (simp add: domIff)
    then have "?key \<in> idx_set (pa_bucket_index s1) \<union> pa_flush_pending_keys s1 \<union> held"
      using 1 unfolding scheduled_def by blast
    then show ?thesis by (simp only: s2_def False if_False)
  qed
  from assms(2) show ?thesis
    unfolding store_input_def Let_def s1_def[symmetric] s2_def[symmetric]
    using scheduled_take[OF 2, of ?key] scheduled_put[OF 2 key] by (auto split: if_splits)
qed

lemma scan_keys_sched:
  assumes "scan_keys r n s p ks rem = (n', s', p', rem')" "pa_flush_pending_keys s \<subseteq> set (pa_flush_queue s)"
  shows "pa_buckets s' = pa_buckets s \<and> pa_bucket_index s' = pa_bucket_index s
    \<and> pa_flush_pending_keys s \<subseteq> pa_flush_pending_keys s' \<and> pa_flush_pending_keys s' \<subseteq> set (pa_flush_queue s')
    \<and> set rem \<subseteq> set rem'
    \<and> (\<forall>k \<in> set ks. pa_buckets s k \<noteq> None \<longrightarrow> k \<in> pa_flush_pending_keys s' \<or> k \<in> set rem')"
  using assms
proof (induction r n s p ks rem arbitrary: n' s' p' rem' rule: scan_keys.induct)
  case (2 r n s p key ks rem)
  consider (stop) "FLUSH_STALE_MAX_KEYS \<le> p \<or> n = 0"
    | (pend) "\<not> (FLUSH_STALE_MAX_KEYS \<le> p \<or> n = 0)" "key \<in> pa_flush_pending_keys s"
    | (gone) "\<not> (FLUSH_STALE_MAX_KEYS \<le> p \<or> n = 0)" "key \<notin> pa_flush_pending_keys s" "pa_buckets s key = None"
    | (flush) b where "\<not> (FLUSH_STALE_MAX_KEYS \<le> p \<or> n = 0)" "key \<notin> pa_flush_pending_keys s"
        "pa_buckets s key = Some b" "should_flush_bucket s key b r"
    | (keep) b where "\<not> (FLUSH_STALE_MAX_KEYS \<le> p \<or> n = 0)" "key \<notin> pa_flush_pending_keys s"
        "pa_buckets s key = Some b" "\<not> should_flush_bucket s key b r"
    by (cases "pa_buckets s key") blast+
  then show ?case
  proof cases
    case stop
    with 2(5,6) show ?thesis by auto
  next
    case pend
    with 2(5,6) 2(1)[OF pend, of n' s' p' rem'] show ?thesis by auto
  next
    case gone
    with 2(5,6) 2(2)[OF gone, of n' s' p' rem'] show ?thesis by auto
  next
    case flush
    with 2(5,6) 2(3)[OF flush, of n' s' p' rem'] show ?thesis by auto
  next
    case keep
    with 2(5,6) 2(4)[OF keep, of n' s' p' rem'] show ?thesis by auto
  qed
qed simp

lemma scheduled_flush_loop:
  "scheduled held s \<Longrightarrow> scheduled held (fst (flush_stale_loop r cutoff n s p))"
proof (induction r cutoff n s p rule: flush_stale_loop.induct)
  case (1 r cutoff n s p)
  show ?case
  proof (cases "FLUSH_STALE_MAX_KEYS \<le> p \<or> n = 0 \<or> pa_bucket_index s = [] \<or> cutoff \<le> fst (hd (pa_bucket_index s))")
    case True
    then show ?thesis using 1(2) by (subst flush_stale_loop.simps) (auto split: list.split)
  next
    case False
    then obtain sec ks rest where idx: "pa_bucket_index s = (sec, ks) # rest" and c: "\<not> cutoff \<le> sec"
      and np: "\<not> (FLUSH_STALE_MAX_KEYS \<le> p \<or> n = 0)" by (cases "pa_bucket_index s") auto
    obtain n' s' p' rem where sc: "scan_keys r (n - 1) (s\<lparr>pa_bucket_index := rest\<rparr>) p ks [] = (n', s', p', rem)"
      by (cases "scan_keys r (n - 1) (s\<lparr>pa_bucket_index := rest\<rparr>) p ks []") blast
    let ?s2 = "if rem = [] then s' else s'\<lparr>pa_bucket_index := bt_insert sec rem (pa_bucket_index s')\<rparr>"
    have ok: "bt_ok ((sec, ks) # rest)" using 1(2) idx by (simp add: scheduled_def)
    have q: "pa_flush_pending_keys s \<subseteq> set (pa_flush_queue s)" using 1(2) by (simp add: scheduled_def)
    have f: "pa_buckets s' = pa_buckets s" "pa_bucket_index s' = rest"
      "pa_flush_pending_keys s \<subseteq> pa_flush_pending_keys s'" "pa_flush_pending_keys s' \<subseteq> set (pa_flush_queue s')"
      "\<And>k. k \<in> set ks \<Longrightarrow> pa_buckets s k \<noteq> None \<Longrightarrow> k \<in> pa_flush_pending_keys s' \<or> k \<in> set rem"
      using scan_keys_sched[OF sc] q by auto
    have old: "dom (pa_buckets s) \<subseteq> set ks \<union> idx_set rest \<union> pa_flush_pending_keys s \<union> held"
      using 1(2) unfolding scheduled_def idx idx_set_Cons[OF ok] by blast
    have new: "dom (pa_buckets s') \<subseteq> set rem \<union> idx_set rest \<union> pa_flush_pending_keys s' \<union> held"
    proof
      fix k assume k: "k \<in> dom (pa_buckets s')"
      then have "k \<in> set ks \<union> idx_set rest \<union> pa_flush_pending_keys s \<union> held" using old f(1) by auto
      moreover have "k \<in> set ks \<Longrightarrow> k \<in> pa_flush_pending_keys s' \<union> set rem" using k f(1) f(5)[of k] by auto
      ultimately show "k \<in> set rem \<union> idx_set rest \<union> pa_flush_pending_keys s' \<union> held" using f(3) by blast
    qed
    have "scheduled held ?s2"
      using f(2,4) ok new idx_set_insert_fresh[OF ok] by (auto simp: scheduled_def bt_ok_insert)
    then have "scheduled held (fst (flush_stale_loop r cutoff n' ?s2 p'))"
      by (rule 1(1)[OF np idx refl c sc[symmetric] refl refl])
    moreover have "flush_stale_loop r cutoff n s p = flush_stale_loop r cutoff n' ?s2 p'"
      using np c by (subst flush_stale_loop.simps) (simp only: idx sc if_False list.case prod.case)
    ultimately show ?thesis by simp
  qed
qed

lemma scheduled_flush: "scheduled held s \<Longrightarrow> scheduled held (fst (flush_stale r n s))"
  by (simp add: flush_stale_def scheduled_flush_loop)

lemma scheduled_drain_loop:
  "scheduled (held \<union> set ks) s \<Longrightarrow> drain_loop n p s ks = (s', ks') \<Longrightarrow> scheduled (held \<union> set ks') s'"
proof (induction n p s ks rule: drain_loop.induct)
  case (2 n p s ks)
  show ?case
  proof (cases "FLUSH_BUILD_MAX_KEYS \<le> p \<or> pa_flush_queue s = []")
    case True
    with 2 show ?thesis by (auto split: list.splits)
  next
    case False
    then obtain key q where q: "pa_flush_queue s = key # q" and np: "\<not> FLUSH_BUILD_MAX_KEYS \<le> p"
      by (cases "pa_flush_queue s") auto
    show ?thesis
    proof (cases "key \<in> pa_flush_pending_keys s")
      case True
      have "scheduled (held \<union> set (ks @ [key])) (s\<lparr>pa_flush_queue := q, pa_flush_pending_keys := pa_flush_pending_keys s - {key}\<rparr>)"
        using 2(3) q unfolding scheduled_def by (simp; blast)
      with True 2(2)[OF np q refl] 2(4) q np show ?thesis by simp
    next
      case out: False
      have "scheduled (held \<union> set ks) (s\<lparr>pa_flush_queue := q\<rparr>)"
        using 2(3) q out unfolding scheduled_def by (simp; blast)
      with out 2(1)[OF np q refl] 2(4) q np show ?thesis by simp
    qed
  qed
qed simp

lemma scheduled_drain:
  assumes "scheduled held s" "drain_flush_queue n s = (s', ks)"
  shows "scheduled (held \<union> set ks) s'"
  using assms scheduled_drain_loop[of held "[]" s n 0 s' ks]
  by (auto simp: drain_flush_queue_def split: if_splits)

section \<open>Frames of the tasks\<close>

definition pair_sched :: "PairAggregator \<Rightarrow> bool" where
  "pair_sched a \<longleftrightarrow> scheduled (set (ag_drained a)) (ag_state a) \<and> (ag_drained a \<noteq> [] \<longrightarrow> ag_worker_active a)"

text \<open>What the schedule depends on, over the whole aggregator.\<close>

definition task_core :: "PairAggregator \<Rightarrow> ((pair_key \<rightharpoonup> PairBucket) \<times> (int \<times> pair_key list) list \<times> pair_key list \<times> pair_key set)
    \<times> pair_key list \<times> bool" where
  "task_core a = (sched_core (ag_state a), ag_drained a, ag_worker_active a)"

lemma pair_sched_core: "task_core a' = task_core a \<Longrightarrow> pair_sched a' = pair_sched a"
  using scheduled_core[of "ag_state a'" "ag_state a" "set (ag_drained a)"]
  by (simp add: pair_sched_def task_core_def)

lemma task_frames [pair_frame]:
  "task_core (finish_handle env a) = task_core a"
  "task_core (try_send_trade env msg a) = task_core a"
  "task_core (emit_bar env bar a) = task_core a"
  "task_core (shock_read env shock a) = task_core a"
  "task_core (response_worker env a) = task_core a"
proof -
  show t: "task_core (try_send_trade env msg a) = task_core a" for a msg
    by (simp add: try_send_trade_def task_core_def split: SendOutcome.split)
  show "task_core (finish_handle env a) = task_core a"
    by (simp add: finish_handle_def task_core_def Let_def)
  have db: "task_core (a\<lparr>ag_db_out := x\<rparr>) = task_core a" "task_core (a\<lparr>ag_job := j\<rparr>) = task_core a"
    "task_core (a\<lparr>ag_handle_stats := h\<rparr>) = task_core a" for a x j h by (simp_all add: task_core_def)
  show "task_core (emit_bar env bar a) = task_core a" by (simp add: emit_bar_def Let_def t db)
  show "task_core (shock_read env shock a) = task_core a" by (simp add: shock_read_def Let_def t db)
  show "task_core (response_worker env a) = task_core a"
    by (simp add: response_worker_def task_core_def Let_def split: list.split option.split)
qed

lemma core_upd_state: "(\<And>s. sched_core (f s) = sched_core s) \<Longrightarrow> task_core (upd_state f a) = task_core a"
  by (simp add: upd_state_def task_core_def)

lemma core_pending: "sched_core (s\<lparr>pa_pending_by_target := x\<rparr>) = sched_core s"
  "sched_core (s\<lparr>pa_pending_count := n\<rparr>) = sched_core s"
  by (simp_all add: sched_core_def)

lemma core_channel:
  "task_core (a\<lparr>ag_pending_channel := c, ag_pending_inflight := i\<rparr>) = task_core a"
  "task_core (a\<lparr>ag_pending_try_send_fail := n\<rparr>) = task_core a"
  by (simp_all add: task_core_def)

lemma send_pending_core: "task_core (snd (snd (snd (send_pending n p ps a)))) = task_core a"
proof (induction n p ps a rule: send_pending.induct)
  case (2 n p x ps a)
  have c: "task_core (upd_state (\<lambda>s. s\<lparr>pa_pending_count := pa_pending_count s - 1\<rparr>) a) = task_core a"
    by (rule core_upd_state) (simp add: core_pending)
  from 2 show ?case by (simp add: core_channel c[unfolded One_nat_def])
qed simp

lemma flush_targets_core: "task_core (flush_targets n p ts a) = task_core a"
proof (induction n p ts a rule: flush_targets.induct)
  case (2 n p target ps ts a)
  let ?a = "upd_state (\<lambda>s. s\<lparr>pa_pending_by_target := filter (\<lambda>e. fst e \<noteq> target) (pa_pending_by_target s)\<rparr>) a"
  obtain n' p' rem a' where sp: "send_pending n p ps ?a = (n', p', rem, a')" by (cases "send_pending n p ps ?a") blast
  have "task_core a' = task_core ?a" using send_pending_core[of n p ps ?a] by (simp add: sp)
  also have "\<dots> = task_core a" by (rule core_upd_state) (simp add: core_pending)
  finally have a': "task_core a' = task_core a" .
  have "task_core (upd_state (\<lambda>s. s\<lparr>pa_pending_by_target := bt_insert target rem (pa_pending_by_target s)\<rparr>) a') = task_core a'"
    by (rule core_upd_state) (simp add: core_pending)
  with a' 2[OF refl sp[symmetric] refl refl] show ?case by (simp add: Let_def sp)
qed simp

lemma shock_push_core: "task_core (shock_push ps a) = task_core a"
proof -
  have "sched_core (fold (\<lambda>p s. s\<lparr>
       pa_pending_by_target := bt_push (pr_trigger_bar_second p + pr_horizon_s p) p (pa_pending_by_target s),
       pa_pending_count := pa_pending_count s + 1\<rparr>) ps s) = sched_core s" for s
    by (induction ps arbitrary: s) (simp_all add: core_pending)
  then show ?thesis by (simp add: shock_push_def task_core_def upd_state_def)
qed

lemma token_bar_build_core: "task_core (token_bar_build env key b r a) = task_core a"
proof -
  obtain bar s where b: "build_bar_with_context (pe_ln env) (pe_keys env) key b
      (load_build_context (pe_fees env) (pe_chain env) (snd (snd key))) r (ag_state a) = (bar, s)"
    by (cases "build_bar_with_context (pe_ln env) (pe_keys env) key b
      (load_build_context (pe_fees env) (pe_chain env) (snd (snd key))) r (ag_state a)") blast
  have "sched_core s = sched_core (ag_state a)" using core_ops(3) b by (metis snd_conv)
  then show ?thesis unfolding token_bar_build_def Let_def b by (simp add: pair_frame) (simp add: task_core_def pair_frame)
qed

lemma pair_sched_tick: "pair_sched a \<Longrightarrow> pair_sched (pair_tick env sec a)"
proof -
  assume s: "pair_sched a"
  let ?s0 = "(ag_state a)\<lparr>pa_current_tick := sec\<rparr>"
  obtain s1 n where f: "flush_stale (pe_opi_ready env) (pe_reads env) ?s0 = (s1, n)"
    by (cases "flush_stale (pe_opi_ready env) (pe_reads env) ?s0") blast
  have "scheduled (set (ag_drained a)) ?s0" using s by (simp add: pair_sched_def scheduled_def)
  from scheduled_flush[OF this, of "pe_opi_ready env" "pe_reads env"] have "scheduled (set (ag_drained a)) s1" by (simp add: f)
  with s have 1: "pair_sched (a\<lparr>ag_handle_stats := h, ag_state := s1, ag_flush_permit := p\<rparr>)" for h p
    by (simp add: pair_sched_def)
  let ?h = "(ag_handle_stats a)\<lparr>hs_tick := hs_tick (ag_handle_stats a) + 1\<rparr>"
  let ?a1 = "a\<lparr>ag_handle_stats := ?h, ag_state := s1, ag_flush_permit := (ag_flush_permit a \<or> 0 < n)\<rparr>"
  have "task_core (upd_state (\<lambda>s. maybe_log_stats (maybe_log_pending_stats s)) b) = task_core b" for b
    by (rule core_upd_state) (simp add: pair_frame)
  moreover have "task_core (flush_pending (pe_reads env) ?a1) = task_core ?a1"
    unfolding flush_pending_def by (rule flush_targets_core)
  moreover have "pair_tick env sec a
      = upd_state (\<lambda>s. maybe_log_stats (maybe_log_pending_stats s)) (flush_pending (pe_reads env) ?a1)"
    by (simp add: pair_tick_def Let_def f)
  ultimately have "task_core (pair_tick env sec a) = task_core ?a1" by (simp only:)
  then show ?thesis using 1[where h = ?h and p = "ag_flush_permit a \<or> 0 < n"] pair_sched_core by blast
qed

lemma pair_sched_store: "pair_sched a \<Longrightarrow> pair_sched (token_bar_store env inp a)"
proof -
  assume s: "pair_sched a"
  obtain ready s' where st: "store_input inp (ag_state a) = (ready, s')"
    by (cases "store_input inp (ag_state a)") blast
  have "scheduled (set (ag_drained a)) s'" using s scheduled_store[OF _ st] by (simp add: pair_sched_def)
  then show ?thesis
    using s by (cases "pi_venue inp") (simp_all add: token_bar_store_def Let_def st pair_sched_def)
qed

lemma pair_sched_drain: "pair_sched a \<Longrightarrow> ag_drained a = [] \<Longrightarrow> pair_sched (worker_drain env a)"
proof -
  assume s: "pair_sched a" and d: "ag_drained a = []"
  obtain s' ks where dr: "drain_flush_queue (pe_reads env) (ag_state a) = (s', ks)"
    by (cases "drain_flush_queue (pe_reads env) (ag_state a)") blast
  have "scheduled (set [] \<union> set ks) s'" using s d by (intro scheduled_drain[OF _ dr]) (simp add: pair_sched_def)
  then show ?thesis by (simp add: worker_drain_def dr pair_sched_def)
qed

text \<open>The state after one bucket, up to the fields of the schedule.\<close>

lemma flush_bucket_core:
  "task_core (flush_bucket env key a) = task_core (upd_state (\<lambda>s. s\<lparr>pa_buckets := (pa_buckets s)(key := None)\<rparr>) a)"
proof (cases "pa_buckets (ag_state a) key")
  case None
  then have "(pa_buckets (ag_state a))(key := None) = pa_buckets (ag_state a)" by (simp add: fun_upd_idem)
  with None show ?thesis by (simp add: flush_bucket_def upd_state_def task_core_def sched_core_def)
next
  case (Some b)
  obtain bar s1 where bb: "build_bar_with_context (pe_ln env) (pe_keys env) key b
      (load_build_context (pe_fees env) (pe_chain env) (snd (snd key))) (pe_opi_ready env) (ag_state a) = (bar, s1)"
    by (cases "build_bar_with_context (pe_ln env) (pe_keys env) key b
      (load_build_context (pe_fees env) (pe_chain env) (snd (snd key))) (pe_opi_ready env) (ag_state a)") blast
  let ?s2 = "record_flush_timeout key b (pe_opi_ready env) s1"
  have "sched_core s1 = sched_core (ag_state a)" using core_ops(3) bb by (metis snd_conv)
  then have "sched_core ?s2 = sched_core (ag_state a)" by (simp add: core_timeout)
  then have "sched_core (?s2\<lparr>pa_buckets := (pa_buckets ?s2)(key := None)\<rparr>)
      = sched_core ((ag_state a)\<lparr>pa_buckets := (pa_buckets (ag_state a))(key := None)\<rparr>)"
    by (simp add: sched_core_def)
  moreover have "flush_bucket env key a
      = emit_bar env bar (a\<lparr>ag_state := ?s2\<lparr>pa_buckets := (pa_buckets ?s2)(key := None)\<rparr>\<rparr>)"
    by (simp add: flush_bucket_def Some bb Let_def)
  ultimately show ?thesis by (simp add: pair_frame) (simp add: task_core_def upd_state_def)
qed

lemma pair_sched_flush: "pair_sched a \<Longrightarrow> ag_worker_active a \<Longrightarrow> pair_sched (worker_flush env a)"
proof -
  assume s: "pair_sched a" and act: "ag_worker_active a"
  show ?thesis
  proof (cases "ag_drained a")
    case Nil
    with s show ?thesis by (simp add: worker_flush_def)
  next
    case (Cons key ks)
    let ?a1 = "flush_bucket env key (a\<lparr>ag_drained := ks\<rparr>)"
    have "scheduled (insert key (set ks)) (ag_state a)" using s Cons by (simp add: pair_sched_def)
    then have "scheduled (set ks) ((ag_state a)\<lparr>pa_buckets := (pa_buckets (ag_state a))(key := None)\<rparr>)"
      by (rule scheduled_drop_bucket)
    then have "pair_sched (upd_state (\<lambda>s. s\<lparr>pa_buckets := (pa_buckets s)(key := None)\<rparr>) (a\<lparr>ag_drained := ks\<rparr>))"
      using act by (simp add: pair_sched_def upd_state_def)
    then have "pair_sched ?a1" using pair_sched_core[OF flush_bucket_core] by blast
    moreover have "ag_drained ?a1 = ks"
      using flush_bucket_core[of env key "a\<lparr>ag_drained := ks\<rparr>"] by (simp add: task_core_def upd_state_def)
    ultimately show ?thesis by (auto simp: worker_flush_def Cons Let_def pair_sched_def)
  qed
qed

lemma pair_sched_step: "pair_step env l a a' \<Longrightarrow> pair_sched a \<Longrightarrow> pair_sched a'"
proof (induction rule: pair_step.induct)
  case (step_store a a' inp)
  then have "pair_sched a'" using pair_sched_store by blast
  then show ?case using pair_sched_core[OF task_frames(1)] by simp
next
  case (step_build a key bucket r)
  then show ?case using pair_sched_core[OF HOL.trans[OF task_frames(1) token_bar_build_core]] by blast
next
  case (step_tick a sec)
  then show ?case using pair_sched_core[OF task_frames(1)] pair_sched_tick by blast
next
  case (step_shock a a' shock)
  then have "pair_sched a'" using pair_sched_core[OF task_frames(4)] by blast
  then show ?case using pair_sched_core[OF task_frames(1)] by simp
next
  case (step_push a ps)
  then show ?case using pair_sched_core[OF HOL.trans[OF task_frames(1) shock_push_core]] by blast
next
  case (step_wake a)
  then show ?case by (auto simp: worker_wake_def pair_sched_def)
next
  case (step_drain a)
  then show ?case by (intro pair_sched_drain)
next
  case (step_flush a)
  then show ?case by (intro pair_sched_flush)
next
  case (step_respond a)
  then show ?case using pair_sched_core[OF task_frames(5)] by blast
qed

definition pair_start :: "bool \<Rightarrow> bool \<Rightarrow> int \<Rightarrow> nat \<Rightarrow> f64 \<Rightarrow> int \<Rightarrow> (int \<times> TokenSide \<rightharpoonup> string) \<Rightarrow>
    (int \<times> TokenSide \<rightharpoonup> string) \<Rightarrow> PairAggregator" where
  "pair_start alpha has_trade staleness gap_allow eps buffer opi_map pm_map =
    pair_aggregator_new alpha has_trade staleness gap_allow eps (pair_agg_new buffer opi_map pm_map)"

lemma pair_sched_start: "pair_sched (pair_start alpha tr st g e b om pm)"
  by (simp add: pair_start_def pair_aggregator_new_def pair_agg_new_def pair_sched_def scheduled_def)

lemma pair_sched_reach: "pair_reach a0 tr a \<Longrightarrow> pair_sched a0 \<Longrightarrow> pair_sched a"
  by (induction rule: pair_reach.induct) (auto intro: pair_sched_step)

text \<open>
  C30. No bucket of the pair aggregator is forgotten: in every interleaving of the message handler, the
  flush worker and the response worker, each stored bucket is listed in the index that ticks scan, or
  waits in the flush queue, or is among the keys that an active flush worker has drained.
\<close>

theorem pair_buckets_scheduled:
  assumes "pair_reach (pair_start alpha has_trade st gap eps buffer om pm) tr a"
    and "pa_buckets (ag_state a) key = Some bucket"
  shows "(\<exists>sec ks. map_of (pa_bucket_index (ag_state a)) sec = Some ks \<and> key \<in> set ks)
    \<or> (key \<in> pa_flush_pending_keys (ag_state a) \<and> key \<in> set (pa_flush_queue (ag_state a)))
    \<or> (key \<in> set (ag_drained a) \<and> ag_worker_active a)"
proof -
  have s: "pair_sched a" by (rule pair_sched_reach[OF assms(1) pair_sched_start])
  have "key \<in> dom (pa_buckets (ag_state a))" using assms(2) by (simp add: domIff)
  then have "key \<in> idx_set (pa_bucket_index (ag_state a)) \<union> pa_flush_pending_keys (ag_state a) \<union> set (ag_drained a)"
    using s unfolding pair_sched_def scheduled_def by blast
  moreover have "pa_flush_pending_keys (ag_state a) \<subseteq> set (pa_flush_queue (ag_state a))"
    using s unfolding pair_sched_def scheduled_def by blast
  moreover have "key \<in> set (ag_drained a) \<Longrightarrow> ag_worker_active a"
    using s unfolding pair_sched_def by auto
  ultimately show ?thesis unfolding idx_set_def by blast
qed

section \<open>A bucket that holds back the others\<close>








text \<open>A first input of a pair, and the environment of a quiet run.\<close>

definition demo_pair_input :: PairInput where
  "demo_pair_input = \<lparr>pi_pair_id = 1, pi_token_side = Yes, pi_bar_second = 100, pi_venue = Polymarket, pi_token_key = ''a'',
     pi_best_bid = None, pi_best_ask = None, pi_mid = Some 1, pi_best_bid_state = None,
     pi_best_ask_state = None, pi_mid_state = None, pi_last_price = None, pi_micro = None,
     pi_staleness_ms = Some 0, pi_bar_gap_flag = False, pi_bar_stale_flag = False, pi_spread = None,
     pi_top10_depth_bid = None, pi_top10_depth_ask = None, pi_bid_l1_notional = None,
     pi_bid_l2_notional = None, pi_bid_l3_notional = None, pi_ask_l1_notional = None,
     pi_ask_l2_notional = None, pi_ask_l3_notional = None, pi_volume_notional_1s = 0, pi_cvd_delta_1s = 0,
     pi_buy_notional_1s = 0, pi_sell_notional_1s = 0, pi_ofi_250ms = 0, pi_bid_delta_notional_250ms = 0,
     pi_ask_delta_notional_250ms = 0, pi_mid_slope_250ms = None, pi_buy_notional_250ms = 0,
     pi_sell_notional_250ms = 0, pi_max_trade_notional_250ms = 0, pi_max_trade_notional_1s = 0,
     pi_liquidity_pull_flag = 0, pi_depth_withdrawal_ratio = None, pi_obs_latency_p99_ms = None\<rparr>"

definition demo_pair_env :: PairEnv where
  "demo_pair_env = \<lparr>pe_ln = (\<lambda>x. x), pe_keys = (\<lambda>_. []), pe_fees = fee_new 0 0, pe_chain = chain_new 4,
     pe_opi_ready = True, pe_reads = 100, pe_trade_send = (\<lambda>_. SendOk), pe_now_ms = 1000, pe_handle_ms = 1\<rparr>"

definition demo_pair_start :: PairAggregator where
  "demo_pair_start = pair_start True False 1000 0 0 5 Map.empty Map.empty"

lemma demo_pair_store:
  "pair_reach demo_pair_start [(demo_pair_env, LStore demo_pair_input)]
     (finish_handle demo_pair_env (token_bar_store demo_pair_env demo_pair_input demo_pair_start))"
  "pa_buckets (ag_state (finish_handle demo_pair_env (token_bar_store demo_pair_env demo_pair_input demo_pair_start)))
     (1, Yes, 100) = Some \<lparr>bu_pm = Some demo_pair_input, bu_opi = None\<rparr>"
proof -
  let ?a' = "token_bar_store demo_pair_env demo_pair_input demo_pair_start"
  have v: "pi_venue demo_pair_input = Polymarket" "input_key demo_pair_input = (1, Yes, 100)"
    by (simp_all add: demo_pair_input_def input_key_def)
  have st: "store_input demo_pair_input (pair_agg_new 5 Map.empty Map.empty) = (None, s)
      \<Longrightarrow> pa_buckets s (1, Yes, 100) = Some \<lparr>bu_pm = Some demo_pair_input, bu_opi = None\<rparr>" for s
    by (auto simp: store_input_def Let_def v fill_bucket_def record_arrival_def learn_token_def pair_agg_new_def unwrap_or_def)
  obtain s where s: "store_input demo_pair_input (pair_agg_new 5 Map.empty Map.empty) = (None, s)"
    by (simp add: store_input_def Let_def v fill_bucket_def record_arrival_def learn_token_def pair_agg_new_def unwrap_or_def)
  have a': "ag_job ?a' = Idle" "ag_state ?a' = s"
    by (simp_all add: token_bar_store_def demo_pair_start_def pair_start_def pair_aggregator_new_def v s Let_def)
  have "ag_job demo_pair_start = Idle"
    by (simp add: demo_pair_start_def pair_start_def pair_aggregator_new_def)
  from step_store[OF this refl, of demo_pair_env demo_pair_input]
  have "pair_step demo_pair_env (LStore demo_pair_input) demo_pair_start (finish_handle demo_pair_env ?a')"
    by (simp add: a')
  from reach_step[OF reach_init this]
  show "pair_reach demo_pair_start [(demo_pair_env, LStore demo_pair_input)] (finish_handle demo_pair_env ?a')" by simp
  have "ag_state (finish_handle demo_pair_env ?a') = s" by (simp add: finish_handle_def Let_def a')
  then show "pa_buckets (ag_state (finish_handle demo_pair_env ?a')) (1, Yes, 100)
      = Some \<lparr>bu_pm = Some demo_pair_input, bu_opi = None\<rparr>" using st[OF s] by simp
qed

theorem pair_buckets_scheduled_witness:
  "\<exists>a. pair_reach demo_pair_start [(demo_pair_env, LStore demo_pair_input)] a \<and>
     (1, Yes, 100) \<in> dom (pa_buckets (ag_state a)) \<and>
     ((\<exists>sec ks. map_of (pa_bucket_index (ag_state a)) sec = Some ks \<and> (1, Yes, 100) \<in> set ks) \<or>
      (1, Yes, 100) \<in> pa_flush_pending_keys (ag_state a) \<and> (1, Yes, 100) \<in> set (pa_flush_queue (ag_state a)) \<or>
      (1, Yes, 100) \<in> set (ag_drained a) \<and> ag_worker_active a)"
  using pair_buckets_scheduled[OF demo_pair_store(1)[unfolded demo_pair_start_def] demo_pair_store(2)[unfolded demo_pair_start_def]]
    demo_pair_store demo_pair_start_def by (metis domI)

end
