(* ===== verification/PairResp.thy ===== *)
theory PairResp
  imports PairSched
begin

text \<open>
  The responses to shocks. Every response that a shock asks for is at any time in exactly one of
  three places: stored under its due second, in the channel of the response worker, or answered; the
  counters are exact.
\<close>

section \<open>Accounting\<close>

definition total_items :: "(int \<times> 'a list) list \<Rightarrow> nat" where
  "total_items m = sum_list (map (\<lambda>e. List.length (snd e)) m)"

lemma total_items_simps [simp]: "total_items [] = 0" "total_items (e # m) = List.length (snd e) + total_items m"
  by (simp_all add: total_items_def)



















section \<open>Frames of the tasks\<close>








section \<open>The invariant\<close>




















end
