(* ===== verification/PairHist.thy ===== *)
theory PairHist
  imports PairSched
begin

text \<open>
  The lookups in the bar histories (\<open>first_index_after\<close>, \<open>find_bar_with_lookback\<close> and the range of
  \<open>build_response_from_history\<close> in \<open>src/pair_aggregator.rs\<close>) agree with reference definitions by
  filtering, on histories in the order of their seconds.
\<close>

lemma first_index_loop_bounds:
  assumes "sorted (map pi_bar_second h)" "lo \<le> hi" "hi \<le> List.length h"
    "\<forall>i < lo. pi_bar_second (h ! i) \<le> s" "\<forall>i. hi \<le> i \<and> i < List.length h \<longrightarrow> s < pi_bar_second (h ! i)"
  shows "first_index_loop h s lo hi \<le> List.length h
    \<and> (\<forall>i < first_index_loop h s lo hi. pi_bar_second (h ! i) \<le> s)
    \<and> (\<forall>i. first_index_loop h s lo hi \<le> i \<and> i < List.length h \<longrightarrow> s < pi_bar_second (h ! i))"
  using assms
proof (induction h s lo hi rule: first_index_loop.induct)
  case (1 h s lo hi)
  show ?case
  proof (cases "lo < hi")
    case True
    let ?mid = "(lo + hi) div 2"
    have m: "lo \<le> ?mid" "?mid < hi" using True by auto
    have le: "pi_bar_second (h ! i) \<le> pi_bar_second (h ! j)" if "i \<le> j" "j < List.length h" for i j
      using sorted_nth_mono[OF 1(3) that(1)] that by simp
    show ?thesis
    proof (cases "pi_bar_second (h ! ?mid) \<le> s")
      case c: True
      have "\<forall>i < ?mid + 1. pi_bar_second (h ! i) \<le> s"
      proof (intro allI impI)
        fix i assume "i < ?mid + 1"
        then have "pi_bar_second (h ! i) \<le> pi_bar_second (h ! ?mid)" using le[of i ?mid] m 1(5) by simp
        then show "pi_bar_second (h ! i) \<le> s" using c by simp
      qed
      then have r: "first_index_loop h s (?mid + 1) hi \<le> List.length h
          \<and> (\<forall>i < first_index_loop h s (?mid + 1) hi. pi_bar_second (h ! i) \<le> s)
          \<and> (\<forall>i. first_index_loop h s (?mid + 1) hi \<le> i \<and> i < List.length h \<longrightarrow> s < pi_bar_second (h ! i))"
        using m 1(5,7) by (intro 1(1)[OF True refl c 1(3)]) auto
      have e: "first_index_loop h s lo hi = first_index_loop h s (?mid + 1) hi"
        by (subst first_index_loop.simps) (simp only: True c if_True Let_def)
      show ?thesis using r unfolding e .
    next
      case c: False
      have "\<forall>i. ?mid \<le> i \<and> i < List.length h \<longrightarrow> s < pi_bar_second (h ! i)"
      proof (intro allI impI)
        fix i assume "?mid \<le> i \<and> i < List.length h"
        then have "pi_bar_second (h ! ?mid) \<le> pi_bar_second (h ! i)" using le[of ?mid i] by simp
        then show "s < pi_bar_second (h ! i)" using c by simp
      qed
      then have r: "first_index_loop h s lo ?mid \<le> List.length h
          \<and> (\<forall>i < first_index_loop h s lo ?mid. pi_bar_second (h ! i) \<le> s)
          \<and> (\<forall>i. first_index_loop h s lo ?mid \<le> i \<and> i < List.length h \<longrightarrow> s < pi_bar_second (h ! i))"
        using m 1(5,6) by (intro 1(2)[OF True refl c 1(3)]) auto
      have e: "first_index_loop h s lo hi = first_index_loop h s lo ?mid"
        by (subst first_index_loop.simps) (simp only: True c if_True if_False Let_def)
      show ?thesis using r unfolding e .
    qed
  next
    case False
    then have e: "first_index_loop h s lo hi = lo" by (subst first_index_loop.simps) simp
    show ?thesis using False 1(4-7) unfolding e by auto
  qed
qed

lemma first_index_after_iff:
  assumes "sorted (map pi_bar_second h)"
  shows "first_index_after h s \<le> List.length h"
    "i < List.length h \<Longrightarrow> pi_bar_second (h ! i) \<le> s \<longleftrightarrow> i < first_index_after h s"
proof -
  have b: "first_index_after h s \<le> List.length h \<and>
    (\<forall>i < first_index_after h s. pi_bar_second (h ! i) \<le> s) \<and>
    (\<forall>i. first_index_after h s \<le> i \<and> i < List.length h \<longrightarrow> s < pi_bar_second (h ! i))"
    unfolding first_index_after_def by (rule first_index_loop_bounds[OF assms]) auto
  then show "first_index_after h s \<le> List.length h" by simp
  show "i < List.length h \<Longrightarrow> pi_bar_second (h ! i) \<le> s \<longleftrightarrow> i < first_index_after h s"
    using b by (meson not_le)
qed

lemma filter_slice:
  assumes "a \<le> b" "b \<le> List.length xs" "\<And>i. i < List.length xs \<Longrightarrow> P (xs ! i) \<longleftrightarrow> a \<le> i \<and> i < b"
  shows "filter P xs = drop a (take b xs)"
proof -
  have none: "filter P (take a xs) = []" "filter P (drop b xs) = []"
    using assms by (auto simp: filter_empty_conv in_set_conv_nth)
  have every: "filter P (drop a (take b xs)) = drop a (take b xs)"
    by (rule filter_True) (use assms in \<open>auto simp: in_set_conv_nth\<close>)
  have "xs = take a (take b xs) @ drop a (take b xs) @ drop b xs"
    by (metis append.assoc append_take_drop_id)
  then have "filter P xs = filter P (take a (take b xs)) @ filter P (drop a (take b xs)) @ filter P (drop b xs)"
    by (metis filter_append)
  then show ?thesis using none every assms(1) by simp
qed

lemma lookback_filter:
  "lookback_rev s mn bs = (case filter (\<lambda>b. pi_bar_second b \<le> s) bs of [] \<Rightarrow> None
     | b # _ \<Rightarrow> if pi_bar_second b < mn then None else Some b)"
  by (induction s mn bs rule: lookback_rev.induct) auto

text \<open>
  On a history in the order of its seconds, the binary search ends at the number of bars that are
  not later than the second asked for, and the bars summed for a response (\<open>build_response_from_history\<close>)
  are exactly those after the trigger second up to the target second, in order. The lookup with lookback
  returns the latest bar that is not later than the second asked for, unless it is too old.
\<close>

theorem history_lookups_exact:
  assumes "sorted (map pi_bar_second history)"
  shows "first_index_after history sec = List.length (filter (\<lambda>b. pi_bar_second b \<le> sec) history)
    \<and> response_range history trigger target
        = filter (\<lambda>b. trigger < pi_bar_second b \<and> pi_bar_second b \<le> target) history
    \<and> find_bar_with_lookback history sec gap =
        (if filter (\<lambda>b. pi_bar_second b \<le> sec) history = [] then None
         else let b = List.last (filter (\<lambda>b. pi_bar_second b \<le> sec) history) in
              if pi_bar_second b < i64_sat (sec - int gap) then None else Some b)"
proof (intro conjI)
  note ix = first_index_after_iff[OF assms]
  have "filter (\<lambda>b. pi_bar_second b \<le> sec) history = drop 0 (take (first_index_after history sec) history)"
    by (rule filter_slice) (simp_all add: ix)
  then show "first_index_after history sec = List.length (filter (\<lambda>b. pi_bar_second b \<le> sec) history)"
    using ix(1)[of sec] by simp
  let ?a = "first_index_after history trigger" and ?b = "first_index_after history target"
  have "trigger < pi_bar_second (history ! i) \<and> pi_bar_second (history ! i) \<le> target
      \<longleftrightarrow> ?a \<le> i \<and> i < max ?b ?a" if "i < List.length history" for i
    using ix(2)[OF that, of trigger] ix(2)[OF that, of target] by auto
  then show "response_range history trigger target
      = filter (\<lambda>b. trigger < pi_bar_second b \<and> pi_bar_second b \<le> target) history"
    unfolding response_range_def Let_def using ix(1) by (intro filter_slice[symmetric]) auto
  show "find_bar_with_lookback history sec gap =
      (if filter (\<lambda>b. pi_bar_second b \<le> sec) history = [] then None
       else let b = List.last (filter (\<lambda>b. pi_bar_second b \<le> sec) history) in
            if pi_bar_second b < i64_sat (sec - int gap) then None else Some b)"
    by (cases "filter (\<lambda>b. pi_bar_second b \<le> sec) history" rule: rev_cases)
      (simp_all add: find_bar_with_lookback_def lookback_filter rev_filter[symmetric] Let_def)
qed

definition demo_bar :: "int \<Rightarrow> PairInput" where
  "demo_bar sec = demo_pair_input\<lparr>pi_bar_second := sec\<rparr>"

definition demo_history :: "PairInput list" where
  "demo_history = [demo_bar 100, demo_bar 101, demo_bar 103]"

theorem history_lookups_exact_witness:
  "response_range demo_history 100 102 = [demo_bar 101] \<and> first_index_after demo_history 102 = 2
   \<and> find_bar_with_lookback demo_history 102 1 = Some (demo_bar 101)"
proof -
  have "sorted (map pi_bar_second demo_history)" by (simp add: demo_history_def demo_bar_def)
  from history_lookups_exact[OF this, of 102 100 102 1]
  show ?thesis by (simp add: demo_history_def demo_bar_def i64_sat_def sat_def)
qed

end
