(* ===== verification/TradeCfg.thy ===== *)
theory TradeCfg
  imports Prelude
begin

text \<open>
  The settings of the trading engine (\<open>TradeConfig\<close> in \<open>src/config.rs\<close>) and their defaults. A number
  written with a fraction stands for the binary64 number nearest to it.
\<close>

record TradeConfig =
  cfg_enabled :: bool
  cfg_dry_run :: bool
  cfg_engine_shards :: nat
  cfg_queue_capacity :: nat
  cfg_order_executor_concurrency :: nat
  cfg_opinion_account_file :: string
  cfg_opinion_account_id :: string
  cfg_opinion_private_base :: string
  cfg_opinion_prefetch_base :: string
  cfg_opinion_prefetch_interval_ms :: nat
  cfg_opinion_check_approval :: bool
  cfg_opinion_enable_trading_on_startup :: bool
  cfg_opinion_enable_retry_ms :: int
  cfg_opinion_force_eoa_orders :: bool
  cfg_order_poll_interval_ms :: nat
  cfg_order_client_prefix :: string
  cfg_ws_user_channels_enabled :: bool
  cfg_ws_user_channel_stale_ms :: int
  cfg_post_only :: bool
  cfg_entry_ttl_ms :: int
  cfg_alpha_a_entry_ttl_ms :: int
  cfg_alpha_a_entry_ttl_frac :: f64
  cfg_alpha_a_entry_ttl_cap_ms :: int
  cfg_alpha_b_entry_ttl_frac :: f64
  cfg_alpha_b_entry_ttl_cap_ms :: int
  cfg_exit_ttl_ms :: int
  cfg_alpha_source :: string
  cfg_alpha_log_enabled :: bool
  cfg_alpha_log_jsonl_path :: string
  cfg_alpha_log_csv_path :: string
  cfg_alpha_log_interval_sec :: int
  cfg_alpha_min :: f64
  cfg_move_min :: f64
  cfg_mom_min :: f64
  cfg_edge_min :: f64
  cfg_book_decay_block :: f64
  cfg_book_support_block :: f64
  cfg_book_decay_scale :: f64
  cfg_book_support_scale :: f64
  cfg_book_scale_min :: f64
  cfg_entry_fraction :: f64
  cfg_entry_fraction_free :: f64
  cfg_entry_pool_frac :: f64
  cfg_min_order_notional_usd :: f64
  cfg_max_open_positions :: nat
  cfg_max_global_exposure_frac :: f64
  cfg_max_per_pair_exposure_frac :: f64
  cfg_gas_mult :: f64
  cfg_gas_buffer_usd :: f64
  cfg_gas_est_usd :: f64
  cfg_gas_lookback_ms :: int
  cfg_gas_include_cancel_allowance :: bool
  cfg_gas_cancel_allowance_factor :: f64
  cfg_gas_emergency_pause_enabled :: bool
  cfg_gas_emergency_max_usd :: f64
  cfg_cancel_check_interval_ms :: int
  cfg_entry_cancel_shock_mom_ratio_min :: f64
  cfg_entry_cancel_mom_floor :: f64
  cfg_entry_cancel_shock_floor :: f64
  cfg_entry_cancel_mom_decay_min :: f64
  cfg_retrace_cancel :: f64
  cfg_retrace_exit :: f64
  cfg_cooldown_sec :: int
  cfg_cooldown_after_cancel_ms :: int
  cfg_cooldown_after_exit_ms :: int
  cfg_cooldown_after_postonly_reject_ms :: int
  cfg_per_pair_min_interval_ms :: int
  cfg_base_alpha :: f64
  cfg_move_eps :: f64
  cfg_tick_px :: f64
  cfg_entry_tick_offset :: int
  cfg_entry_spread_max_ticks :: int
  cfg_entry_spread_max_pct :: f64
  cfg_entry_spread_size_scale :: f64
  cfg_entry_aggr_enabled :: bool
  cfg_entry_aggr_shock_max :: f64
  cfg_entry_aggr_shock_min :: f64
  cfg_entry_aggr_shock_early_ratio :: f64
  cfg_entry_aggr_gap :: f64
  cfg_entry_aggr_default :: f64
  cfg_exit_tick_offset :: int
  cfg_max_chase_ticks :: int
  cfg_chase_step_ticks :: int
  cfg_inv_k :: f64
  cfg_target_decay_per_sec :: f64
  cfg_target_floor_gas_mult :: f64
  cfg_ofi_entry_min :: f64
  cfg_ofi_cancel_low :: f64
  cfg_ofi_cancel_med :: f64
  cfg_trade_cancel_usd :: f64
  cfg_ask_add_usd :: f64
  cfg_bid_withdraw_usd :: f64
  cfg_opi_mid_ret_cancel_bps :: f64
  cfg_opi_spread_bps_min :: f64
  cfg_opi_edge_min_bps :: f64
  cfg_opi_imbalance_cancel :: f64
  cfg_opi_bid_withdraw_usd :: f64
  cfg_opi_ask_add_usd :: f64
  cfg_opi_taker_buy_cancel_usd :: f64
  cfg_opi_taker_sell_cancel_usd :: f64
  cfg_opi_trade_imbalance_cancel :: f64
  cfg_opi_cancel_staleness_ms :: int
  cfg_signal_staleness_ms :: int
  cfg_opi_snapshot_on_demand_min_interval_ms :: int
  cfg_log_blocked_signals :: bool
  cfg_log_blocked_interval_ms :: int
  cfg_max_bar_gap_ratio_1m :: f64
  cfg_max_opi_staleness_p90_ms :: int
  cfg_max_poly_latency_p99_ms :: int
  cfg_max_opi_latency_p99_ms :: int
  cfg_balance_total_usd :: f64
  cfg_balance_free_usd :: f64
  cfg_k_edge :: f64
  cfg_k_mom :: f64
  cfg_k_shock :: f64
  cfg_tp_a1 :: f64
  cfg_tp_a2 :: f64
  cfg_tp_a3 :: f64
  cfg_tp_a4_shock :: f64
  cfg_alpha_a_enabled :: bool
  cfg_alpha_a_opi_stale_max_ms :: int
  cfg_alpha_a_opi_stale_soft_start_ms :: int
  cfg_alpha_a_opi_stale_soft_tau_ms :: int
  cfg_alpha_a_opi_stale_soft_min_scale :: f64
  cfg_alpha_a_use_pair_quantile :: bool
  cfg_alpha_a_pair_p50_plus_ms :: int
  cfg_alpha_a_edge_norm_min :: f64
  cfg_alpha_a_edge_raw_min_abs :: f64
  cfg_alpha_a_cost_mult :: f64
  cfg_alpha_a_max_age_s :: int
  cfg_alpha_a_allowed_shock_types :: "string list"
  cfg_alpha_a_require_noise_zero :: bool
  cfg_alpha_a_decay_per_sec :: f64
  cfg_alpha_a_horizon_default_s :: int
  cfg_alpha_a_horizon_by_shock_type :: "string \<rightharpoonup> int"
  cfg_alpha_b_enabled :: bool
  cfg_alpha_b_opi_stale_max_ms :: int
  cfg_alpha_b_use_pair_quantile :: bool
  cfg_alpha_b_pair_p50_plus_ms :: int
  cfg_alpha_b_move_min :: f64
  cfg_alpha_b_mom_min :: f64
  cfg_alpha_b_ofi_entry_min :: f64
  cfg_alpha_b_edge_norm_min :: f64
  cfg_alpha_b_cost_mult :: f64
  cfg_alpha_b_retrace_cancel_ratio :: f64
  cfg_alpha_b_ofi_flip_cancel_usd :: f64
  cfg_alpha_b_decay_per_sec :: f64
  cfg_alpha_b_horizon_default_s :: int
  cfg_alpha_c_enabled :: bool
  cfg_alpha_c_use_lag_clamp :: bool
  cfg_alpha_c_lookback_fixed_s :: int
  cfg_alpha_c_lookback_min_s :: int
  cfg_alpha_c_lookback_max_s :: int
  cfg_alpha_c_min_abs_return :: f64
  cfg_alpha_c_align_bonus :: f64
  cfg_alpha_c_conflict_penalty :: f64
  cfg_alpha_c_block_b_on_conflict :: bool
  cfg_rank_top_k_a :: nat
  cfg_rank_top_k_b :: nat
  cfg_rank_w_edge :: f64
  cfg_rank_w_driver :: f64
  cfg_rank_w_stale :: f64
  cfg_rank_w_cost :: f64
  cfg_rank_w_bookshape :: f64
  cfg_rank_ofi_scale :: f64
  cfg_strategy_cap_a :: f64
  cfg_strategy_cap_b :: f64
  cfg_strategy_cap_c :: f64
  cfg_per_trade_cap_a :: f64
  cfg_per_trade_cap_b :: f64
  cfg_per_trade_cap_c :: f64
  cfg_follow_min_corr :: f64
  cfg_follow_min_lag_conf :: f64
  cfg_follow_min_range :: f64
  cfg_follow_corr_min_samples :: nat
  cfg_follow_corr_min_range :: f64

definition trade_config_default :: TradeConfig where
  "trade_config_default = \<lparr>
     cfg_enabled = False, cfg_dry_run = True, cfg_engine_shards = 8, cfg_queue_capacity = 8192,
     cfg_order_executor_concurrency = 16,
     cfg_opinion_account_file = ''/data/polymarket/polymarket_opinion_bot/config/accounts.example.json'',
     cfg_opinion_account_id = ''opinion_acc'',
     cfg_opinion_private_base = ''https://proxy.opinion.trade:8443/openapi'',
     cfg_opinion_prefetch_base = '''', cfg_opinion_prefetch_interval_ms = 250,
     cfg_opinion_check_approval = True, cfg_opinion_enable_trading_on_startup = True,
     cfg_opinion_enable_retry_ms = 60000, cfg_opinion_force_eoa_orders = False,
     cfg_order_poll_interval_ms = 2000, cfg_order_client_prefix = ''monitor'',
     cfg_ws_user_channels_enabled = True, cfg_ws_user_channel_stale_ms = 30000, cfg_post_only = True,
     cfg_entry_ttl_ms = 6000, cfg_alpha_a_entry_ttl_ms = 0, cfg_alpha_a_entry_ttl_frac = lit (1 / 4),
     cfg_alpha_a_entry_ttl_cap_ms = 3000, cfg_alpha_b_entry_ttl_frac = lit (7 / 20),
     cfg_alpha_b_entry_ttl_cap_ms = 6000, cfg_exit_ttl_ms = 15000, cfg_alpha_source = ''follow_score_raw'',
     cfg_alpha_log_enabled = False, cfg_alpha_log_jsonl_path = ''/data/polymarket/records/alpha_log.jsonl'',
     cfg_alpha_log_csv_path = ''/data/polymarket/records/alpha_log.csv'', cfg_alpha_log_interval_sec = 60,
     cfg_alpha_min = 0, cfg_move_min = 0, cfg_mom_min = 0, cfg_edge_min = 0,
     cfg_book_decay_block = lit (19 / 20), cfg_book_support_block = lit (1 / 20),
     cfg_book_decay_scale = lit (3 / 4), cfg_book_support_scale = lit (1 / 5),
     cfg_book_scale_min = lit (1 / 5), cfg_entry_fraction = 1, cfg_entry_fraction_free = 1,
     cfg_entry_pool_frac = lit (1 / 4), cfg_min_order_notional_usd = lit (5), cfg_max_open_positions = 60,
     cfg_max_global_exposure_frac = lit (3 / 5), cfg_max_per_pair_exposure_frac = lit (1 / 50),
     cfg_gas_mult = lit (5 / 2), cfg_gas_buffer_usd = lit (1 / 5), cfg_gas_est_usd = 0,
     cfg_gas_lookback_ms = 60000, cfg_gas_include_cancel_allowance = False,
     cfg_gas_cancel_allowance_factor = 1, cfg_gas_emergency_pause_enabled = False,
     cfg_gas_emergency_max_usd = 0, cfg_cancel_check_interval_ms = 100,
     cfg_entry_cancel_shock_mom_ratio_min = 0, cfg_entry_cancel_mom_floor = lit (1 / 1000000),
     cfg_entry_cancel_shock_floor = lit (1 / 1000000), cfg_entry_cancel_mom_decay_min = 0,
     cfg_retrace_cancel = lit (2 / 5), cfg_retrace_exit = lit (1 / 2), cfg_cooldown_sec = 10,
     cfg_cooldown_after_cancel_ms = 15000, cfg_cooldown_after_exit_ms = 5000,
     cfg_cooldown_after_postonly_reject_ms = 5000, cfg_per_pair_min_interval_ms = 2000,
     cfg_base_alpha = lit (33 / 1000), cfg_move_eps = lit (1 / 1000000), cfg_tick_px = lit (1 / 10000),
     cfg_entry_tick_offset = 1, cfg_entry_spread_max_ticks = 0, cfg_entry_spread_max_pct = lit (1 / 20),
     cfg_entry_spread_size_scale = 0, cfg_entry_aggr_enabled = True, cfg_entry_aggr_shock_max = 1,
     cfg_entry_aggr_shock_min = lit (3 / 10), cfg_entry_aggr_shock_early_ratio = lit (3 / 10),
     cfg_entry_aggr_gap = lit (1 / 5), cfg_entry_aggr_default = lit (3 / 10), cfg_exit_tick_offset = 1,
     cfg_max_chase_ticks = 3, cfg_chase_step_ticks = 1, cfg_inv_k = lit (4 / 5),
     cfg_target_decay_per_sec = lit (1 / 125), cfg_target_floor_gas_mult = lit (6 / 5), cfg_ofi_entry_min = 0,
     cfg_ofi_cancel_low = - lit (1000), cfg_ofi_cancel_med = - lit (5000), cfg_trade_cancel_usd = lit (1000),
     cfg_ask_add_usd = lit (1000), cfg_bid_withdraw_usd = lit (2000), cfg_opi_mid_ret_cancel_bps = lit (5),
     cfg_opi_spread_bps_min = 1, cfg_opi_edge_min_bps = 0, cfg_opi_imbalance_cancel = lit (3 / 10),
     cfg_opi_bid_withdraw_usd = lit (2000), cfg_opi_ask_add_usd = lit (2000),
     cfg_opi_taker_buy_cancel_usd = lit (2000), cfg_opi_taker_sell_cancel_usd = lit (2000),
     cfg_opi_trade_imbalance_cancel = lit (3 / 5), cfg_opi_cancel_staleness_ms = 15000,
     cfg_signal_staleness_ms = 10000, cfg_opi_snapshot_on_demand_min_interval_ms = 5000,
     cfg_log_blocked_signals = False, cfg_log_blocked_interval_ms = 30000,
     cfg_max_bar_gap_ratio_1m = lit (4 / 5), cfg_max_opi_staleness_p90_ms = 120000,
     cfg_max_poly_latency_p99_ms = 5000, cfg_max_opi_latency_p99_ms = 120000, cfg_balance_total_usd = 0,
     cfg_balance_free_usd = 0, cfg_k_edge = lit (3 / 5), cfg_k_mom = lit (2 / 5), cfg_k_shock = lit (3 / 5),
     cfg_tp_a1 = 1, cfg_tp_a2 = lit (1 / 2), cfg_tp_a3 = lit (7 / 10), cfg_tp_a4_shock = 1,
     cfg_alpha_a_enabled = True, cfg_alpha_a_opi_stale_max_ms = 120000,
     cfg_alpha_a_opi_stale_soft_start_ms = 50000, cfg_alpha_a_opi_stale_soft_tau_ms = 30000,
     cfg_alpha_a_opi_stale_soft_min_scale = lit (1 / 5), cfg_alpha_a_use_pair_quantile = True,
     cfg_alpha_a_pair_p50_plus_ms = 10000, cfg_alpha_a_edge_norm_min = 0, cfg_alpha_a_edge_raw_min_abs = 0,
     cfg_alpha_a_cost_mult = 1, cfg_alpha_a_max_age_s = 120,
     cfg_alpha_a_allowed_shock_types = [''PRICE_VELOCITY_5S'', ''PRICE_ACCEL_10S'', ''RV_JUMP_5S'', ''SWEEP'', ''OFI_SPIKE_10S'', ''LARGE_TRADE''],
     cfg_alpha_a_require_noise_zero = True, cfg_alpha_a_decay_per_sec = lit (3 / 200),
     cfg_alpha_a_horizon_default_s = 60,
     cfg_alpha_a_horizon_by_shock_type = [''PRICE_VELOCITY_5S'' \<mapsto> 30, ''PRICE_ACCEL_10S'' \<mapsto> 60, ''RV_JUMP_5S'' \<mapsto> 60, ''SWEEP'' \<mapsto> 30, ''OFI_SPIKE_10S'' \<mapsto> 30, ''LARGE_TRADE'' \<mapsto> 30],
     cfg_alpha_b_enabled = True, cfg_alpha_b_opi_stale_max_ms = 20000, cfg_alpha_b_use_pair_quantile = True,
     cfg_alpha_b_pair_p50_plus_ms = 5000, cfg_alpha_b_move_min = lit (3 / 2000),
     cfg_alpha_b_mom_min = lit (3 / 5000), cfg_alpha_b_ofi_entry_min = lit (1000),
     cfg_alpha_b_edge_norm_min = lit (3 / 1000), cfg_alpha_b_cost_mult = lit (2),
     cfg_alpha_b_retrace_cancel_ratio = lit (2 / 5), cfg_alpha_b_ofi_flip_cancel_usd = lit (1000),
     cfg_alpha_b_decay_per_sec = lit (1 / 125), cfg_alpha_b_horizon_default_s = 60,
     cfg_alpha_c_enabled = True, cfg_alpha_c_use_lag_clamp = True, cfg_alpha_c_lookback_fixed_s = 30,
     cfg_alpha_c_lookback_min_s = 10, cfg_alpha_c_lookback_max_s = 60,
     cfg_alpha_c_min_abs_return = lit (1 / 1250), cfg_alpha_c_align_bonus = lit (1 / 5),
     cfg_alpha_c_conflict_penalty = lit (3 / 10), cfg_alpha_c_block_b_on_conflict = True,
     cfg_rank_top_k_a = 20, cfg_rank_top_k_b = 30, cfg_rank_w_edge = 1, cfg_rank_w_driver = lit (4 / 5),
     cfg_rank_w_stale = lit (3 / 5), cfg_rank_w_cost = lit (2 / 5), cfg_rank_w_bookshape = lit (3 / 10),
     cfg_rank_ofi_scale = lit (1000), cfg_strategy_cap_a = lit (1 / 10), cfg_strategy_cap_b = lit (1 / 20),
     cfg_strategy_cap_c = lit (1 / 100), cfg_per_trade_cap_a = lit (1 / 50),
     cfg_per_trade_cap_b = lit (1 / 100), cfg_per_trade_cap_c = lit (1 / 500),
     cfg_follow_min_corr = lit (4 / 5), cfg_follow_min_lag_conf = lit (1 / 4),
     cfg_follow_min_range = lit (1 / 50), cfg_follow_corr_min_samples = 30,
     cfg_follow_corr_min_range = lit (1 / 50)\<rparr>"

end
