(* ===== verification/TradeState.thy ===== *)
theory TradeState
  imports TradeCfg PairBars Amounts
begin

text \<open>
  The state that the trading engine (\<open>src/trade/mod.rs\<close>) keeps for a pair and side, its life cycle
  from \<open>Idle\<close> over an entry and a position to the cooldown, the windows it keeps of the bars, and
  the readings of a bar. A pair and side is a \<open>trade_key\<close>.
\<close>

type_synonym trade_key = "int \<times> TokenSide"

definition OPI_STALE_WINDOW_LEN :: nat where "OPI_STALE_WINDOW_LEN = 120"
definition GAP_WINDOW_LEN :: nat where "GAP_WINDOW_LEN = 60"

datatype TradeState = Idle | EntryReady | EntryPlacing | EntryWorking | PositionOpen | ExitWorking | Cooldown

datatype AlphaType = ShockA | GapB | LagC

fun alpha_type_str :: "AlphaType \<Rightarrow> string" where
  "alpha_type_str ShockA = ''A_SHOCK''"
| "alpha_type_str GapB = ''B_GAP''"
| "alpha_type_str LagC = ''C_LAG_MOD''"

record ShockSignal =
  sg_shock_id :: int
  sg_shock_type :: string
  sg_direction :: int
  sg_magnitude :: f64
  sg_noise_flag :: int
  sg_trigger_bar_second :: int

record PendingEntry =
  pn_key :: trade_key
  pn_bar :: Bars1sPair
  pn_pm_move :: f64
  pn_pm_mom :: f64
  pn_direction :: int
  pn_alpha_type :: AlphaType
  pn_shock :: "ShockSignal option"
  pn_ofi_value :: f64
  pn_opi_mid :: "f64 option"
  pn_base_pm :: f64
  pn_pm_mid :: f64
  pn_edge_raw :: f64
  pn_edge_norm :: f64
  pn_score :: f64
  pn_conf_score :: f64
  pn_cost_mult :: f64
  pn_horizon_s :: "int option"
  pn_alpha_source :: string
  pn_alpha_source_cfg :: "string option"
  pn_alpha_value :: "f64 option"
  pn_stale_scale :: f64
  pn_entry_ttl_override_ms :: "int option"
  pn_c_pred_dir :: "int option"
  pn_c_ret :: "f64 option"
  pn_c_modifier :: "f64 option"

record PendingEntryMeta =
  pm_theo_price :: f64
  pm_price_limit :: f64
  pm_price_ref :: f64
  pm_tick_px :: f64

record PendingExitPlaceContext =
  px_pm_move :: f64
  px_pm_mom :: f64
  px_ofi_value :: f64
  px_target :: f64
  px_exit_price :: f64
  px_gas_est :: f64
  px_retrace_ratio :: "f64 option"
  px_inv_ratio :: "f64 option"
  px_inv_factor :: "f64 option"
  px_decay_factor :: "f64 option"
  px_obs_latency_poly_p99_ms :: "int option"
  px_obs_latency_opi_p99_ms :: "int option"
  px_bar_gap_flag :: "int option"
  px_poly_bar_gap_flag :: "int option"
  px_opi_bar_gap_flag :: "int option"
  px_poly_staleness_ms :: "int option"
  px_opi_staleness_ms :: "int option"

record PairTradeState =
  pt_state :: TradeState
  pt_base_pm :: "f64 option"
  pt_last_pm_move :: "f64 option"
  pt_last_pm_mom :: "f64 option"
  pt_last_ofi_250ms :: "f64 option"
  pt_last_base_pm :: "f64 option"
  pt_pm_peak :: "f64 option"
  pt_pm_move_entry :: "f64 option"
  pt_pm_mom_entry :: "f64 option"
  pt_entry_price :: "f64 option"
  pt_entry_qty :: "f64 option"
  pt_entry_notional :: "f64 option"
  pt_entry_ts_ms :: "int option"
  pt_entry_bar_second :: "int option"
  pt_exit_price_target :: "f64 option"
  pt_exit_price :: "f64 option"
  pt_entry_order_id :: "string option"
  pt_entry_client_id :: "string option"
  pt_exit_order_id :: "string option"
  pt_exit_client_id :: "string option"
  pt_entry_cancel_pending :: bool
  pt_entry_cancel_reason :: "string option"
  pt_entry_cancel_req_id :: "64 word option"
  pt_exit_cancel_pending :: bool
  pt_exit_cancel_reason :: "string option"
  pt_exit_cancel_req_id :: "64 word option"
  pt_last_fill_poll_ms :: "int option"
  pt_last_exit_place_ms :: "int option"
  pt_direction :: int
  pt_cooldown_until :: "int option"
  pt_mae :: "f64 option"
  pt_mfe :: "f64 option"
  pt_book_decay :: "f64 option"
  pt_book_support :: "f64 option"
  pt_book_scale :: "f64 option"
  pt_edge_raw :: "f64 option"
  pt_edge_norm :: "f64 option"
  pt_ofi_250ms :: "f64 option"
  pt_min_profit_usd :: "f64 option"
  pt_last_opi_mid :: "f64 option"
  pt_last_opi_spread_bps :: "f64 option"
  pt_last_opi_bid_l1 :: "f64 option"
  pt_last_opi_ask_l1 :: "f64 option"
  pt_last_opi_bid_l3 :: "f64 option"
  pt_last_opi_ask_l3 :: "f64 option"
  pt_last_opi_bar_second :: "int option"
  pt_alpha_type :: "AlphaType option"
  pt_alpha_source :: "string option"
  pt_shock :: "ShockSignal option"
  pt_horizon_s :: "int option"
  pt_chase_count :: int
  pt_entry_ttl_override_ms :: "int option"
  pt_pm_micro_history :: "(int \<times> f64) list"
  pt_opi_stale_hist :: "int list"
  pt_opi_stale_p50_ms :: "int option"
  pt_opi_stale_p90_ms :: "int option"
  pt_gap_hist :: "int list"
  pt_gap_ratio_1m :: "f64 option"
  pt_last_entry_attempt_ms :: "int option"
  pt_last_bar :: "Bars1sPair option"
  pt_entry_place_req_id :: "64 word option"
  pt_exit_place_req_id :: "64 word option"
  pt_fill_poll_req_id :: "64 word option"
  pt_pending_entry :: "PendingEntry option"
  pt_pending_entry_meta :: "PendingEntryMeta option"
  pt_pending_exit_ctx :: "PendingExitPlaceContext option"

definition pair_trade_default :: PairTradeState where
  "pair_trade_default = \<lparr>
     pt_state = Idle, pt_base_pm = None, pt_last_pm_move = None, pt_last_pm_mom = None,
     pt_last_ofi_250ms = None, pt_last_base_pm = None, pt_pm_peak = None, pt_pm_move_entry = None,
     pt_pm_mom_entry = None, pt_entry_price = None, pt_entry_qty = None, pt_entry_notional = None,
     pt_entry_ts_ms = None, pt_entry_bar_second = None, pt_exit_price_target = None, pt_exit_price = None,
     pt_entry_order_id = None, pt_entry_client_id = None, pt_exit_order_id = None, pt_exit_client_id = None,
     pt_entry_cancel_pending = False, pt_entry_cancel_reason = None, pt_entry_cancel_req_id = None,
     pt_exit_cancel_pending = False, pt_exit_cancel_reason = None, pt_exit_cancel_req_id = None,
     pt_last_fill_poll_ms = None, pt_last_exit_place_ms = None, pt_direction = 0, pt_cooldown_until = None,
     pt_mae = None, pt_mfe = None, pt_book_decay = None, pt_book_support = None, pt_book_scale = None,
     pt_edge_raw = None, pt_edge_norm = None, pt_ofi_250ms = None, pt_min_profit_usd = None,
     pt_last_opi_mid = None, pt_last_opi_spread_bps = None, pt_last_opi_bid_l1 = None,
     pt_last_opi_ask_l1 = None, pt_last_opi_bid_l3 = None, pt_last_opi_ask_l3 = None,
     pt_last_opi_bar_second = None, pt_alpha_type = None, pt_alpha_source = None, pt_shock = None,
     pt_horizon_s = None, pt_chase_count = 0, pt_entry_ttl_override_ms = None, pt_pm_micro_history = [],
     pt_opi_stale_hist = [], pt_opi_stale_p50_ms = None, pt_opi_stale_p90_ms = None, pt_gap_hist = [],
     pt_gap_ratio_1m = None, pt_last_entry_attempt_ms = None, pt_last_bar = None,
     pt_entry_place_req_id = None, pt_exit_place_req_id = None, pt_fill_poll_req_id = None,
     pt_pending_entry = None, pt_pending_entry_meta = None, pt_pending_exit_ctx = None\<rparr>"

section \<open>Life cycle\<close>

definition update_peak :: "f64 \<Rightarrow> int \<Rightarrow> PairTradeState \<Rightarrow> PairTradeState" where
  "update_peak pm_move direction st = (if direction = 0 then st else st\<lparr>pt_pm_peak := Some (case pt_pm_peak st of
       Some prev \<Rightarrow> if 0 < direction then f64_max prev pm_move else f64_min prev pm_move
     | None \<Rightarrow> pm_move)\<rparr>)"

definition reset_for_idle :: "PairTradeState \<Rightarrow> PairTradeState" where
  "reset_for_idle st = st\<lparr>
     pt_state := Idle, pt_entry_price := None, pt_entry_qty := None, pt_entry_notional := None,
     pt_entry_ts_ms := None, pt_entry_bar_second := None, pt_exit_price_target := None, pt_exit_price := None,
     pt_entry_order_id := None, pt_entry_client_id := None, pt_exit_order_id := None,
     pt_exit_client_id := None, pt_entry_cancel_pending := False, pt_entry_cancel_reason := None,
     pt_entry_cancel_req_id := None, pt_exit_cancel_pending := False, pt_exit_cancel_reason := None,
     pt_exit_cancel_req_id := None, pt_last_fill_poll_ms := None, pt_last_exit_place_ms := None,
     pt_direction := 0, pt_pm_peak := None, pt_pm_move_entry := None, pt_pm_mom_entry := None, pt_mae := None,
     pt_mfe := None, pt_book_decay := None, pt_book_support := None, pt_book_scale := None,
     pt_edge_raw := None, pt_edge_norm := None, pt_ofi_250ms := None, pt_min_profit_usd := None,
     pt_last_opi_mid := None, pt_last_opi_spread_bps := None, pt_last_opi_bid_l1 := None,
     pt_last_opi_ask_l1 := None, pt_last_opi_bid_l3 := None, pt_last_opi_ask_l3 := None,
     pt_last_opi_bar_second := None, pt_alpha_type := None, pt_alpha_source := None, pt_shock := None,
     pt_horizon_s := None, pt_chase_count := 0, pt_entry_ttl_override_ms := None,
     pt_entry_place_req_id := None, pt_exit_place_req_id := None, pt_fill_poll_req_id := None,
     pt_pending_entry := None, pt_pending_entry_meta := None, pt_pending_exit_ctx := None\<rparr>"

definition enter_cooldown :: "int \<Rightarrow> millis \<Rightarrow> PairTradeState \<Rightarrow> PairTradeState" where
  "enter_cooldown bar_second cooldown_ms st = st\<lparr>
     pt_state := Cooldown, pt_cooldown_until := Some (bar_second + (max cooldown_ms 0 + 999) div 1000),
     pt_entry_order_id := None, pt_entry_client_id := None, pt_exit_order_id := None,
     pt_exit_client_id := None, pt_entry_cancel_pending := False, pt_entry_cancel_reason := None,
     pt_entry_cancel_req_id := None, pt_exit_cancel_pending := False, pt_exit_cancel_reason := None,
     pt_exit_cancel_req_id := None, pt_last_exit_place_ms := None, pt_entry_place_req_id := None,
     pt_exit_place_req_id := None, pt_fill_poll_req_id := None, pt_pending_entry := None,
     pt_pending_entry_meta := None, pt_pending_exit_ctx := None, pt_pm_mom_entry := None\<rparr>"

definition check_cooldown :: "int \<Rightarrow> PairTradeState \<Rightarrow> PairTradeState" where
  "check_cooldown bar_second st = (if pt_state st \<noteq> Cooldown then st
     else case pt_cooldown_until st of None \<Rightarrow> st
     | Some until \<Rightarrow> if until \<le> bar_second then (reset_for_idle st)\<lparr>pt_cooldown_until := None\<rparr> else st)"

section \<open>Readings of a bar\<close>

definition opi_best_bid_from_bar :: "Bars1sPair \<Rightarrow> f64 option" where
  "opi_best_bid_from_bar bar = or_else (pb_opi_best_bid_state bar) (pb_opi_best_bid bar)"

definition opi_best_ask_from_bar :: "Bars1sPair \<Rightarrow> f64 option" where
  "opi_best_ask_from_bar bar = or_else (pb_opi_best_ask_state bar) (pb_opi_best_ask bar)"

definition pm_mid_from_bar :: "Bars1sPair \<Rightarrow> f64 option" where
  "pm_mid_from_bar bar = or_else (pb_poly_mid_state bar) (pb_poly_mid bar)"

definition mid_if_positive :: "f64 option \<Rightarrow> f64 option \<Rightarrow> f64 option" where
  "mid_if_positive bid ask = (case (bid, ask) of
     (Some bid, Some ask) \<Rightarrow> if 0 < bid \<and> 0 < ask then Some ((bid + ask) / lit 2) else None | _ \<Rightarrow> None)"

definition opi_mid_state_from_bar :: "Bars1sPair \<Rightarrow> f64 option" where
  "opi_mid_state_from_bar bar =
    or_else (pb_opi_mid_state bar) (mid_if_positive (pb_opi_best_bid_state bar) (pb_opi_best_ask_state bar))"

definition opi_mid_from_bar :: "Bars1sPair \<Rightarrow> f64 option" where
  "opi_mid_from_bar bar = or_else (or_else (or_else (pb_opi_mid_state bar) (pb_opi_mid bar))
     (mid_if_positive (opi_best_bid_from_bar bar) (opi_best_ask_from_bar bar))) (pb_opi_last_price bar)"

definition opi_spread_bps_from_bar :: "Bars1sPair \<Rightarrow> f64 option \<Rightarrow> f64 option" where
  "opi_spread_bps_from_bar bar opi_mid = Option.bind opi_mid (\<lambda>mid. if mid \<le> 0 then None
     else Option.bind (opi_best_bid_from_bar bar) (\<lambda>bid. Option.bind (opi_best_ask_from_bar bar) (\<lambda>ask.
       if bid \<le> 0 \<or> ask \<le> 0 then None else Some ((ask - bid) / mid * lit 10000))))"

definition l3_sum :: "f64 option \<Rightarrow> f64 option \<Rightarrow> f64 option \<Rightarrow> f64 option" where
  "l3_sum l1 l2 l3 = map_option (\<lambda>v. v + unwrap_or l2 0 + unwrap_or l3 0) l1"

definition opi_bid_l3 :: "Bars1sPair \<Rightarrow> f64 option" where
  "opi_bid_l3 bar = l3_sum (pb_opi_bid_l1_notional bar) (pb_opi_bid_l2_notional bar) (pb_opi_bid_l3_notional bar)"

definition opi_ask_l3 :: "Bars1sPair \<Rightarrow> f64 option" where
  "opi_ask_l3 bar = l3_sum (pb_opi_ask_l1_notional bar) (pb_opi_ask_l2_notional bar) (pb_opi_ask_l3_notional bar)"

section \<open>Windows\<close>

definition update_opi_snapshot :: "Bars1sPair \<Rightarrow> PairTradeState \<Rightarrow> PairTradeState" where
  "update_opi_snapshot bar st =
    (let opi_mid = opi_mid_from_bar bar; spread_bps = opi_spread_bps_from_bar bar opi_mid;
         bid_l1 = pb_opi_bid_l1_notional bar; ask_l1 = pb_opi_ask_l1_notional bar;
         bid_l3 = opi_bid_l3 bar; ask_l3 = opi_ask_l3 bar;
         updated = (\<exists>v \<in> set [opi_mid, spread_bps, bid_l1, ask_l1, bid_l3, ask_l3]. v \<noteq> None)
     in st\<lparr>pt_last_opi_mid := or_else opi_mid (pt_last_opi_mid st),
           pt_last_opi_spread_bps := or_else spread_bps (pt_last_opi_spread_bps st),
           pt_last_opi_bid_l1 := or_else bid_l1 (pt_last_opi_bid_l1 st),
           pt_last_opi_ask_l1 := or_else ask_l1 (pt_last_opi_ask_l1 st),
           pt_last_opi_bid_l3 := or_else bid_l3 (pt_last_opi_bid_l3 st),
           pt_last_opi_ask_l3 := or_else ask_l3 (pt_last_opi_ask_l3 st),
           pt_last_opi_bar_second := (if updated then Some (pb_bar_second bar) else pt_last_opi_bar_second st)\<rparr>)"

definition update_opi_staleness :: "Bars1sPair \<Rightarrow> nat \<Rightarrow> PairTradeState \<Rightarrow> PairTradeState" where
  "update_opi_staleness bar max_len st = (case pb_opi_staleness_ms bar of None \<Rightarrow> st
   | Some stale \<Rightarrow>
     let hist = last_n max_len (pt_opi_stale_hist st @ [max stale 0]);
         st = st\<lparr>pt_opi_stale_hist := hist\<rparr>
     in if 5 \<le> List.length hist
        then st\<lparr>pt_opi_stale_p50_ms := Some (sort hist ! (List.length hist div 2)),
                pt_opi_stale_p90_ms := Some (sort hist ! ((List.length hist - 1) * 9 div 10))\<rparr>
        else st)"

definition update_gap_ratio :: "Bars1sPair \<Rightarrow> nat \<Rightarrow> PairTradeState \<Rightarrow> PairTradeState" where
  "update_gap_ratio bar max_len st =
    (let hist = last_n max_len (pt_gap_hist st @ [flag01 (pb_bar_gap_flag bar \<noteq> 0)]);
         st = st\<lparr>pt_gap_hist := hist\<rparr>
     in if hist \<noteq> []
        then st\<lparr>pt_gap_ratio_1m := Some (f64_of_int (sum_list hist) / f64_of_int (int (List.length hist)))\<rparr>
        else st)"

definition update_pm_micro_history :: "int \<Rightarrow> f64 \<Rightarrow> nat \<Rightarrow> PairTradeState \<Rightarrow> PairTradeState" where
  "update_pm_micro_history bar_second price max_len st =
    (let hist = pt_pm_micro_history st in
     if price \<le> 0 then st
     else if hist \<noteq> [] \<and> fst (List.last hist) = bar_second
     then if \<not> f64_eq (snd (List.last hist)) price
          then st\<lparr>pt_pm_micro_history := butlast hist @ [(bar_second, price)]\<rparr> else st
     else st\<lparr>pt_pm_micro_history := last_n max_len (hist @ [(bar_second, price)])\<rparr>)"

end
