(* ===== verification/TradeBase.thy ===== *)
theory TradeBase
  imports TradeState
begin

text \<open>
  The messages of the trading engine (\<open>src/trade/mod.rs\<close>), its requests to the order executor and
  their responses, the rows it records, and the engine's state with the risk state that all engines
  share. \<open>TradeEnv\<close> is what a handler reads from outside: the clock, the fee and chain states, the
  outcomes of sends and of calls to the venue, and the random jitters. The JSON text of an audit row
  (\<open>detail_json\<close>) and the log lines with their throttling are left out.
\<close>

section \<open>Messages\<close>

datatype PlaceKind = PlaceEntry | PlaceExit

datatype FillKind = FillEntry | FillExit

record OpinionUserOrderUpdate =
  ou_pair_id :: int
  ou_token_side :: TokenSide
  ou_order_id :: string
  ou_order_update_type :: "string option"
  ou_status :: "int option"
  ou_side :: "string option"
  ou_outcome_side :: "int option"
  ou_price :: "f64 option"
  ou_shares :: "f64 option"
  ou_amount :: "f64 option"
  ou_filled_shares :: "f64 option"
  ou_filled_amount :: "f64 option"
  ou_ts_ms :: "int option"
  ou_market_id :: "string option"

record OpinionUserTradeRecord =
  otr_pair_id :: int
  otr_token_side :: TokenSide
  otr_order_id :: string
  otr_side :: "string option"
  otr_outcome_side :: "int option"
  otr_price :: "f64 option"
  otr_shares :: "f64 option"
  otr_amount :: "f64 option"
  otr_ts_ms :: "int option"
  otr_market_id :: "string option"

record OpinionOrderTarget =
  ot_market_id :: int
  ot_token_id :: string

record PlacedOrder =
  po_order_id :: string
  po_client_order_id :: "string option"

record TradeFill =
  tf_order_id :: "string option"
  tf_client_order_id :: "string option"
  tf_side :: "string option"
  tf_price :: "f64 option"
  tf_size :: "f64 option"
  tf_ts_ms :: "int option"

datatype TradeMessage = PairBar Bars1sPair | Shock ShockInput
  | OpinionOrderUpdate OpinionUserOrderUpdate | OpinionTradeRecord OpinionUserTradeRecord

datatype OrderRequestKind =
    ReqPlaceChase trade_key PlaceKind int string OrderSide f64 "f64 list" string string bool
  | ReqCancelOrder string
  | ReqFetchFills trade_key FillKind int string "int option"

record OrderRequest =
  rq_id :: "64 word"
  rq_kind :: OrderRequestKind

record PlaceResult =
  pr_order :: "PlacedOrder option"
  pr_client_id_used :: "string option"
  pr_price_used :: "f64 option"
  pr_chase_count :: int
  pr_post_only_rejects :: int
  pr_last_err :: "string option"

record CancelResult =
  cr_ok :: bool
  cr_rate_limited :: bool
  cr_server_error :: bool
  cr_error :: "string option"

record FillPollResult =
  fp_fills :: "TradeFill list"
  fp_rate_limited :: bool
  fp_error :: "string option"

datatype OrderResponse = RespPlaceChase "64 word" trade_key PlaceKind PlaceResult
  | RespCancelOrder "64 word" string CancelResult
  | RespFetchFills "64 word" trade_key FillKind FillPollResult

section \<open>Rows\<close>

record TradeAuditRow =
  ar_event_ts_ms :: int
  ar_pair_id :: int
  ar_token_side :: TokenSide
  ar_phase :: string
  ar_direction :: int
  ar_reason :: "string option"
  ar_pm_move :: "f64 option"
  ar_pm_mom :: "f64 option"
  ar_ofi_250ms :: "f64 option"
  ar_edge_raw :: "f64 option"
  ar_edge_norm :: "f64 option"
  ar_entry_price :: "f64 option"
  ar_entry_qty :: "f64 option"
  ar_exit_price_target :: "f64 option"
  ar_exit_price :: "f64 option"
  ar_gas_est_usd :: "f64 option"
  ar_min_profit_usd :: "f64 option"
  ar_book_decay :: "f64 option"
  ar_book_support :: "f64 option"
  ar_book_scale :: "f64 option"
  ar_retrace_ratio :: "f64 option"
  ar_inv_ratio :: "f64 option"
  ar_inv_factor :: "f64 option"
  ar_decay_factor :: "f64 option"
  ar_pnl_usd_net :: "f64 option"
  ar_holding_ms :: "int option"
  ar_mae :: "f64 option"
  ar_mfe :: "f64 option"
  ar_obs_latency_poly_p99_ms :: "int option"
  ar_obs_latency_opi_p99_ms :: "int option"
  ar_bar_gap_flag :: "int option"
  ar_poly_bar_gap_flag :: "int option"
  ar_opi_bar_gap_flag :: "int option"
  ar_poly_staleness_ms :: "int option"
  ar_opi_staleness_ms :: "int option"

record CancelTriggerSnapshotRow =
  cs_event_ts_ms :: int
  cs_pair_id :: int
  cs_token_side :: TokenSide
  cs_direction :: int
  cs_order_role :: string
  cs_order_id :: "string option"
  cs_client_id :: "string option"
  cs_cancel_reason :: string
  cs_cancel_priority :: int
  cs_ofi_250ms :: "f64 option"
  cs_pm_sell_trade_notional_250ms :: "f64 option"
  cs_pm_retrace_ratio :: "f64 option"
  cs_delta_bid_notional_250ms :: "f64 option"
  cs_delta_ask_notional_250ms :: "f64 option"
  cs_opi_book_decay :: "f64 option"
  cs_opi_book_support :: "f64 option"
  cs_opi_spread_ticks :: "int option"

datatype TradeRow = TradeAudit TradeAuditRow | CancelTriggerSnapshot CancelTriggerSnapshotRow

section \<open>State\<close>

record CancelRateLimiter =
  rl_tokens :: f64
  rl_last_refill_ms :: millis

record CancelRetryState =
  cy_failures :: nat
  cy_next_allowed_ms :: millis

record OpenOrdersCache =
  oc_fetched_ms :: millis
  oc_order_ids :: "string set"
  oc_complete :: bool

record BudgetCaps =
  bp_total :: f64
  bp_free :: f64
  bp_entry_pool_cap :: f64
  bp_pool_available :: f64
  bp_global_cap :: f64
  bp_available_global :: f64
  bp_max_per_pair :: f64
  bp_available_pair :: f64
  bp_strategy_cap :: f64
  bp_available_strategy :: f64
  bp_per_trade_cap :: f64
  bp_notional_base :: f64
  bp_notional_final :: f64

record BudgetDecision =
  bn_notional :: f64
  bn_caps :: BudgetCaps

record OpiDerived =
  od_mid :: "f64 option"
  od_spread_bps :: "f64 option"
  od_mid_ret_bps_1s :: "f64 option"
  od_mid_ret_abs_bps_1s :: "f64 option"
  od_bid_l1 :: "f64 option"
  od_ask_l1 :: "f64 option"
  od_bid_l3 :: "f64 option"
  od_ask_l3 :: "f64 option"
  od_bid_delta :: "f64 option"
  od_ask_delta :: "f64 option"
  od_imbalance_l1 :: "f64 option"
  od_imbalance_l3 :: "f64 option"
  od_taker_buy_notional_1s :: "f64 option"
  od_taker_sell_notional_1s :: "f64 option"
  od_trade_imbalance_1s :: "f64 option"
  od_order_edge_bps :: "f64 option"

record BookShape =
  bh_decay :: f64
  bh_support :: f64
  bh_scale :: f64

type_synonym exposure_key = "int \<times> TokenSide \<times> int"

record TradeRiskState =
  rk_exposure_used :: f64
  rk_strategy_exposure :: "AlphaType \<rightharpoonup> f64"
  rk_open_positions :: nat
  rk_entry_pool_second :: "int option"
  rk_entry_pool_remaining :: f64

definition risk_default :: TradeRiskState where
  "risk_default = \<lparr>rk_exposure_used = 0, rk_strategy_exposure = Map.empty, rk_open_positions = 0,
     rk_entry_pool_second = None, rk_entry_pool_remaining = 0\<rparr>"

text \<open>An order that the engine placed itself, through the client.\<close>

record VenueOrder =
  vo_side :: OrderSide
  vo_price :: f64
  vo_qty :: f64
  vo_order :: PlacedOrder

text \<open>The last four fields are what has been sent so far: requests to the executor, orders placed
  directly, snapshot triggers with their reasons, and rows for the database.\<close>

record TradeEngine =
  te_cfg :: TradeConfig
  te_has_client :: bool
  te_has_snapshot_trigger :: bool
  te_order_targets :: "trade_key \<rightharpoonup> OpinionOrderTarget"
  te_order_poll_interval_ms :: millis
  te_next_order_req_id :: "64 word"
  te_risk :: TradeRiskState
  te_opi_snapshot_last_ms :: "string \<rightharpoonup> millis"
  te_last_ws_user_msg_ms :: "millis option"
  te_fill_poll_backoff_until_ms :: "millis option"
  te_fill_poll_backoff_ms :: millis
  te_cancel_backoff_until_ms :: "millis option"
  te_cancel_backoff_ms :: millis
  te_cancel_consecutive_failures :: int
  te_cancel_last_failure_ms :: "millis option"
  te_cancel_dedup_recent :: "string \<rightharpoonup> millis"
  te_cancel_dedup_queue :: "(millis \<times> string) list"
  te_cancel_rate_limiter :: CancelRateLimiter
  te_cancel_retry :: "string \<rightharpoonup> CancelRetryState"
  te_open_orders_cache :: "int \<rightharpoonup> OpenOrdersCache"
  te_states :: "trade_key \<rightharpoonup> PairTradeState"
  te_pair_exposure :: "exposure_key \<rightharpoonup> f64"
  te_pending_second :: "int option"
  te_pending_entries :: "PendingEntry list"
  te_pending_keys :: "trade_key set"
  te_shock_signals :: "trade_key \<rightharpoonup> ShockSignal list"
  te_requests :: "OrderRequest list"
  te_placed :: "VenueOrder list"
  te_snapshots :: "(string \<times> string) list"
  te_rows :: "TradeRow list"

record TradeEnv =
  tv_now :: millis
  tv_ln :: "f64 \<Rightarrow> f64"
  tv_exp :: "f64 \<Rightarrow> f64"
  tv_fees :: "FeeScheduleState option"
  tv_chain :: "ChainMetricsState option"
  tv_executor_open :: bool
  tv_trigger_sent :: bool
  tv_place :: "nat \<Rightarrow> f64 \<Rightarrow> string + PlacedOrder"
  tv_open_order_ids :: "(string set \<times> bool) option"
  tv_cancel_jitter :: f64
  tv_retry_jitter :: f64
  tv_keys :: "trade_key list"

definition CANCEL_RATE_LIMIT_BURST :: f64 where "CANCEL_RATE_LIMIT_BURST = lit 10"

definition rate_limiter_new :: "millis \<Rightarrow> CancelRateLimiter" where
  "rate_limiter_new now_ms = \<lparr>rl_tokens = CANCEL_RATE_LIMIT_BURST, rl_last_refill_ms = now_ms\<rparr>"

definition trade_engine_new :: "TradeConfig \<Rightarrow> bool \<Rightarrow> bool \<Rightarrow> (trade_key \<rightharpoonup> OpinionOrderTarget) \<Rightarrow>
    TradeRiskState \<Rightarrow> millis \<Rightarrow> TradeEngine" where
  "trade_engine_new cfg has_client has_trigger targets risk now_ms = \<lparr>te_cfg = cfg, te_has_client = has_client,
     te_has_snapshot_trigger = has_trigger, te_order_targets = targets,
     te_order_poll_interval_ms = int (max (cfg_order_poll_interval_ms cfg) 250),
     te_next_order_req_id = 0, te_risk = risk, te_opi_snapshot_last_ms = Map.empty,
     te_last_ws_user_msg_ms = None, te_fill_poll_backoff_until_ms = None, te_fill_poll_backoff_ms = 0,
     te_cancel_backoff_until_ms = None, te_cancel_backoff_ms = 0, te_cancel_consecutive_failures = 0,
     te_cancel_last_failure_ms = None, te_cancel_dedup_recent = Map.empty, te_cancel_dedup_queue = [],
     te_cancel_rate_limiter = rate_limiter_new now_ms, te_cancel_retry = Map.empty,
     te_open_orders_cache = Map.empty, te_states = Map.empty, te_pair_exposure = Map.empty,
     te_pending_second = None, te_pending_entries = [], te_pending_keys = {}, te_shock_signals = Map.empty,
     te_requests = [], te_placed = [], te_snapshots = [], te_rows = []\<rparr>"

definition is_live :: "TradeEngine \<Rightarrow> bool" where
  "is_live e \<longleftrightarrow> te_has_client e \<and> \<not> cfg_dry_run (te_cfg e)"

definition trade_fee_bps :: "TradeEnv \<Rightarrow> f64" where
  "trade_fee_bps env = (case tv_fees env of Some fees \<Rightarrow> f64_of_int (fee_bps fees Opinion (tv_now env)) | None \<Rightarrow> 0)"

definition emit_row :: "TradeRow \<Rightarrow> TradeEngine \<Rightarrow> TradeEngine" where
  "emit_row row e = e\<lparr>te_rows := te_rows e @ [row]\<rparr>"

text \<open>An audit row: the health readings of the bar (\<open>audit_health\<close>), what the row takes from the
  state of the pair, and empty fields otherwise; each place that emits a row sets the rest.\<close>

definition audit_row :: "millis \<Rightarrow> trade_key \<Rightarrow> Bars1sPair option \<Rightarrow> string \<Rightarrow> int \<Rightarrow> string option \<Rightarrow> TradeAuditRow" where
  "audit_row now_ms key bar phase direction reason = \<lparr>ar_event_ts_ms = now_ms, ar_pair_id = fst key,
     ar_token_side = snd key, ar_phase = phase, ar_direction = direction, ar_reason = reason,
     ar_pm_move = None, ar_pm_mom = None, ar_ofi_250ms = None, ar_edge_raw = None, ar_edge_norm = None,
     ar_entry_price = None, ar_entry_qty = None, ar_exit_price_target = None, ar_exit_price = None,
     ar_gas_est_usd = None, ar_min_profit_usd = None, ar_book_decay = None, ar_book_support = None,
     ar_book_scale = None, ar_retrace_ratio = None, ar_inv_ratio = None, ar_inv_factor = None,
     ar_decay_factor = None, ar_pnl_usd_net = None, ar_holding_ms = None, ar_mae = None, ar_mfe = None,
     ar_obs_latency_poly_p99_ms = Option.bind bar pb_poly_obs_latency_p99_ms,
     ar_obs_latency_opi_p99_ms = Option.bind bar pb_opi_obs_latency_p99_ms,
     ar_bar_gap_flag = map_option pb_bar_gap_flag bar, ar_poly_bar_gap_flag = map_option pb_poly_bar_gap_flag bar,
     ar_opi_bar_gap_flag = map_option pb_opi_bar_gap_flag bar,
     ar_poly_staleness_ms = Option.bind bar pb_poly_staleness_ms,
     ar_opi_staleness_ms = Option.bind bar pb_opi_staleness_ms\<rparr>"

definition with_signal :: "f64 \<Rightarrow> f64 \<Rightarrow> f64 \<Rightarrow> TradeAuditRow \<Rightarrow> TradeAuditRow" where
  "with_signal pm_move pm_mom ofi_value row =
    row\<lparr>ar_pm_move := Some pm_move, ar_pm_mom := Some pm_mom, ar_ofi_250ms := Some ofi_value\<rparr>"

definition with_state :: "PairTradeState \<Rightarrow> TradeAuditRow \<Rightarrow> TradeAuditRow" where
  "with_state st row = row\<lparr>ar_edge_raw := pt_edge_raw st, ar_edge_norm := pt_edge_norm st,
     ar_entry_price := pt_entry_price st, ar_entry_qty := pt_entry_qty st, ar_min_profit_usd := pt_min_profit_usd st,
     ar_book_decay := pt_book_decay st, ar_book_support := pt_book_support st, ar_book_scale := pt_book_scale st\<rparr>"

end
