(* ===== verification/TradeLimits.thy ===== *)
theory TradeLimits
  imports TradeBase
begin

text \<open>
  The limits of the trading engine (\<open>src/trade/mod.rs\<close>): the token bucket of cancellations, the
  backoffs of fill polls and cancellations with their circuit breaker, retries and deduplication of
  cancellations, the entry pool of a second, exposures, and the budget of an entry.
\<close>

section \<open>Cancellation rate\<close>

definition CANCEL_RATE_LIMIT_RPS :: f64 where "CANCEL_RATE_LIMIT_RPS = lit 5"
definition CANCEL_RATE_EXIT_RESERVE :: f64 where "CANCEL_RATE_EXIT_RESERVE = 1"

definition refill :: "millis \<Rightarrow> CancelRateLimiter \<Rightarrow> CancelRateLimiter" where
  "refill now_ms l =
    (let elapsed_ms = i64_sat (now_ms - rl_last_refill_ms l) in
     if elapsed_ms \<le> 0 then l
     else \<lparr>rl_tokens = f64_min (rl_tokens l + f64_of_int elapsed_ms / lit 1000 * CANCEL_RATE_LIMIT_RPS)
             CANCEL_RATE_LIMIT_BURST,
           rl_last_refill_ms = now_ms\<rparr>)"

definition allow :: "millis \<Rightarrow> bool \<Rightarrow> CancelRateLimiter \<Rightarrow> bool \<times> CancelRateLimiter" where
  "allow now_ms is_exit l0 =
    (let l = refill now_ms l0; taken = l\<lparr>rl_tokens := rl_tokens l - 1\<rparr> in
     if is_exit then if 1 \<le> rl_tokens l then (True, taken) else (False, l)
     else if CANCEL_RATE_EXIT_RESERVE \<le> rl_tokens l - 1 then (True, taken) else (False, l))"

section \<open>Backoffs\<close>

definition FILL_POLL_BACKOFF_MIN_MS :: millis where "FILL_POLL_BACKOFF_MIN_MS = 2000"
definition FILL_POLL_BACKOFF_MAX_MS :: millis where "FILL_POLL_BACKOFF_MAX_MS = 60000"
definition CANCEL_BACKOFF_MIN_MS :: millis where "CANCEL_BACKOFF_MIN_MS = 2000"
definition CANCEL_BACKOFF_MAX_MS :: millis where "CANCEL_BACKOFF_MAX_MS = 60000"
definition CANCEL_DEDUP_WINDOW_MS :: millis where "CANCEL_DEDUP_WINDOW_MS = 1000"
definition CANCEL_RETRY_BASE_MS :: millis where "CANCEL_RETRY_BASE_MS = 5000"
definition CANCEL_RETRY_MAX_MS :: millis where "CANCEL_RETRY_MAX_MS = 120000"
definition CANCEL_RETRY_MAX_FAILURES :: nat where "CANCEL_RETRY_MAX_FAILURES = 8"
definition CANCEL_CIRCUIT_FAILS :: int where "CANCEL_CIRCUIT_FAILS = 5"
definition CANCEL_CIRCUIT_OPEN_MS :: millis where "CANCEL_CIRCUIT_OPEN_MS = 30000"
definition CANCEL_FAIL_RESET_MS :: millis where "CANCEL_FAIL_RESET_MS = 60000"

definition next_backoff :: "millis \<Rightarrow> millis \<Rightarrow> millis \<Rightarrow> millis \<Rightarrow> millis" where
  "next_backoff poll_interval current lowest highest =
    (if 0 < current then min (i64_sat (current * 2)) highest else max (poll_interval * 2) lowest)"

definition update_fill_poll_backoff :: "TradeEnv \<Rightarrow> bool \<Rightarrow> bool \<Rightarrow> TradeEngine \<Rightarrow> TradeEngine" where
  "update_fill_poll_backoff env rate_limited success e =
    (if rate_limited then
       let next_ms = next_backoff (te_order_poll_interval_ms e) (te_fill_poll_backoff_ms e)
             FILL_POLL_BACKOFF_MIN_MS FILL_POLL_BACKOFF_MAX_MS
       in e\<lparr>te_fill_poll_backoff_ms := next_ms,
            te_fill_poll_backoff_until_ms := Some (i64_sat (tv_now env + next_ms))\<rparr>
     else if success \<and> 0 < te_fill_poll_backoff_ms e
     then e\<lparr>te_fill_poll_backoff_ms := 0, te_fill_poll_backoff_until_ms := None\<rparr>
     else e)"

definition ws_user_channel_active :: "millis \<Rightarrow> TradeEngine \<Rightarrow> bool" where
  "ws_user_channel_active now_ms e \<longleftrightarrow> cfg_ws_user_channels_enabled (te_cfg e)
     \<and> \<not> cfg_ws_user_channel_stale_ms (te_cfg e) \<le> 0
     \<and> (case te_last_ws_user_msg_ms e of None \<Rightarrow> False
        | Some seen \<Rightarrow> i64_sat (now_ms - seen) \<le> cfg_ws_user_channel_stale_ms (te_cfg e))"

definition cancel_backoff_active :: "millis \<Rightarrow> TradeEngine \<Rightarrow> bool" where
  "cancel_backoff_active now_ms e \<longleftrightarrow>
    (case te_cancel_backoff_until_ms e of Some until_ms \<Rightarrow> now_ms < until_ms | None \<Rightarrow> False)"

text \<open>The three parts of \<open>update_cancel_backoff\<close> after a failure: the count, the backoff with its
  jitter, and the circuit breaker.\<close>

definition count_cancel_failure :: "millis \<Rightarrow> TradeEngine \<Rightarrow> TradeEngine" where
  "count_cancel_failure now_ms e =
    (let failures = (case te_cancel_last_failure_ms e of
           Some seen \<Rightarrow> if CANCEL_FAIL_RESET_MS < i64_sat (now_ms - seen) then 0 else te_cancel_consecutive_failures e
         | None \<Rightarrow> te_cancel_consecutive_failures e)
     in e\<lparr>te_cancel_last_failure_ms := Some now_ms, te_cancel_consecutive_failures := i64_sat (failures + 1)\<rparr>)"

definition jittered_backoff :: "millis \<Rightarrow> f64 \<Rightarrow> millis" where
  "jittered_backoff next_ms jitter =
    (let j = f64_to_i64 (f64_round (f64_of_int next_ms * jitter))
     in if j < CANCEL_BACKOFF_MIN_MS then CANCEL_BACKOFF_MIN_MS
        else if CANCEL_BACKOFF_MAX_MS < j then CANCEL_BACKOFF_MAX_MS else j)"

definition start_cancel_backoff :: "TradeEnv \<Rightarrow> TradeEngine \<Rightarrow> TradeEngine" where
  "start_cancel_backoff env e =
    (let next_ms = next_backoff (te_order_poll_interval_ms e) (te_cancel_backoff_ms e)
           CANCEL_BACKOFF_MIN_MS CANCEL_BACKOFF_MAX_MS
     in e\<lparr>te_cancel_backoff_ms := next_ms,
          te_cancel_backoff_until_ms := Some (i64_sat (tv_now env + jittered_backoff next_ms (tv_cancel_jitter env)))\<rparr>)"

definition open_cancel_circuit :: "millis \<Rightarrow> TradeEngine \<Rightarrow> TradeEngine" where
  "open_cancel_circuit now_ms e =
    (if CANCEL_CIRCUIT_FAILS \<le> te_cancel_consecutive_failures e then
       let until_ms = i64_sat (now_ms + CANCEL_CIRCUIT_OPEN_MS);
           replace = (case te_cancel_backoff_until_ms e of Some existing \<Rightarrow> existing < until_ms | None \<Rightarrow> True)
       in if replace then e\<lparr>te_cancel_backoff_until_ms := Some until_ms\<rparr> else e
     else e)"

definition update_cancel_backoff :: "TradeEnv \<Rightarrow> CancelResult \<Rightarrow> TradeEngine \<Rightarrow> TradeEngine" where
  "update_cancel_backoff env result e =
    (if cr_ok result then
       if 0 < te_cancel_backoff_ms e \<or> 0 < te_cancel_consecutive_failures e
       then e\<lparr>te_cancel_backoff_ms := 0, te_cancel_backoff_until_ms := None,
              te_cancel_consecutive_failures := 0, te_cancel_last_failure_ms := None\<rparr>
       else e
     else
       let e = count_cancel_failure (tv_now env) e;
           e = (if cr_rate_limited result \<or> cr_server_error result then start_cancel_backoff env e else e)
       in open_cancel_circuit (tv_now env) e)"

section \<open>Retries and deduplication\<close>

definition cancel_retry_allowed :: "string \<Rightarrow> millis \<Rightarrow> TradeEngine \<Rightarrow> bool" where
  "cancel_retry_allowed order_id now_ms e \<longleftrightarrow>
    (case te_cancel_retry e order_id of Some st \<Rightarrow> cy_next_allowed_ms st \<le> now_ms | None \<Rightarrow> True)"

fun double_capped :: "nat \<Rightarrow> millis \<Rightarrow> millis" where
  "double_capped 0 backoff = backoff"
| "double_capped (Suc n) backoff = double_capped n (min (backoff * 2) CANCEL_RETRY_MAX_MS)"

definition retry_backoff :: "nat \<Rightarrow> f64 \<Rightarrow> millis" where
  "retry_backoff failures jitter =
    (let backoff = double_capped (failures - 1) CANCEL_RETRY_BASE_MS;
         backoff = f64_to_i64 (f64_round (f64_of_int backoff * jitter));
         backoff = (if backoff < CANCEL_RETRY_BASE_MS then CANCEL_RETRY_BASE_MS else backoff)
     in if CANCEL_RETRY_MAX_FAILURES \<le> failures then CANCEL_RETRY_MAX_MS else backoff)"

definition record_cancel_failure :: "TradeEnv \<Rightarrow> string \<Rightarrow> millis \<Rightarrow> TradeEngine \<Rightarrow> TradeEngine" where
  "record_cancel_failure env order_id now_ms e =
    (let failures = min ((case te_cancel_retry e order_id of Some st \<Rightarrow> cy_failures st | None \<Rightarrow> 0) + 1) (2 ^ 32 - 1)
     in e\<lparr>te_cancel_retry := (te_cancel_retry e)(order_id \<mapsto> \<lparr>cy_failures = failures,
          cy_next_allowed_ms = i64_sat (now_ms + retry_backoff failures (tv_retry_jitter env))\<rparr>)\<rparr>)"

definition clear_cancel_retry :: "string \<Rightarrow> TradeEngine \<Rightarrow> TradeEngine" where
  "clear_cancel_retry order_id e = e\<lparr>te_cancel_retry := (te_cancel_retry e)(order_id := None)\<rparr>"

definition evict_open_order_cache :: "int \<Rightarrow> string \<Rightarrow> TradeEngine \<Rightarrow> TradeEngine" where
  "evict_open_order_cache market_id order_id e = (case te_open_orders_cache e market_id of None \<Rightarrow> e
   | Some c \<Rightarrow> e\<lparr>te_open_orders_cache := (te_open_orders_cache e)(market_id \<mapsto>
       c\<lparr>oc_order_ids := oc_order_ids c - {order_id}\<rparr>)\<rparr>)"

fun evict_dedup_loop :: "millis \<Rightarrow> (millis \<times> string) list \<Rightarrow> (string \<rightharpoonup> millis) \<Rightarrow>
    (millis \<times> string) list \<times> (string \<rightharpoonup> millis)" where
  "evict_dedup_loop now_ms [] recent = ([], recent)"
| "evict_dedup_loop now_ms ((ts, order_id) # q) recent =
    (if \<not> CANCEL_DEDUP_WINDOW_MS \<le> i64_sat (now_ms - ts) then ((ts, order_id) # q, recent)
     else evict_dedup_loop now_ms q (if recent order_id = Some ts then recent(order_id := None) else recent))"

definition evict_cancel_dedup :: "millis \<Rightarrow> TradeEngine \<Rightarrow> TradeEngine" where
  "evict_cancel_dedup now_ms e =
    (let (q, recent) = evict_dedup_loop now_ms (te_cancel_dedup_queue e) (te_cancel_dedup_recent e)
     in e\<lparr>te_cancel_dedup_queue := q, te_cancel_dedup_recent := recent\<rparr>)"

section \<open>Requests to the executor\<close>

definition next_order_req_id :: "TradeEngine \<Rightarrow> 64 word \<times> TradeEngine" where
  "next_order_req_id e = (let n = te_next_order_req_id e + 1 in (n, e\<lparr>te_next_order_req_id := n\<rparr>))"

definition enqueue_order_request :: "TradeEnv \<Rightarrow> 64 word \<Rightarrow> OrderRequestKind \<Rightarrow> TradeEngine \<Rightarrow> bool \<times> TradeEngine" where
  "enqueue_order_request env n kind e = (if tv_executor_open env
     then (True, e\<lparr>te_requests := te_requests e @ [\<lparr>rq_id = n, rq_kind = kind\<rparr>]\<rparr>) else (False, e))"

definition enqueue_place_chase :: "TradeEnv \<Rightarrow> trade_key \<Rightarrow> PlaceKind \<Rightarrow> OrderSide \<Rightarrow> f64 \<Rightarrow> f64 list \<Rightarrow> string \<Rightarrow>
    TradeEngine \<Rightarrow> 64 word option \<times> TradeEngine" where
  "enqueue_place_chase env pair_key kind side qty candidate_prices client_tag e =
    (case te_order_targets e pair_key of None \<Rightarrow> (None, e)
     | Some target \<Rightarrow>
       let (n, e) = next_order_req_id e;
           (sent, e) = enqueue_order_request env n (ReqPlaceChase pair_key kind (ot_market_id target)
             (ot_token_id target) side qty candidate_prices (cfg_order_client_prefix (te_cfg e)) client_tag
             (cfg_post_only (te_cfg e))) e
       in (if sent then Some n else None, e))"

definition undo_cancel_dedup :: "millis \<Rightarrow> string \<Rightarrow> TradeEngine \<Rightarrow> TradeEngine" where
  "undo_cancel_dedup now_ms order_id e = e\<lparr>te_cancel_dedup_recent := (te_cancel_dedup_recent e)(order_id := None),
     te_cancel_dedup_queue := (let q = te_cancel_dedup_queue e in
       if q \<noteq> [] \<and> List.last q = (now_ms, order_id) then butlast q else q)\<rparr>"

definition enqueue_cancel_order :: "TradeEnv \<Rightarrow> string \<Rightarrow> TradeEngine \<Rightarrow> 64 word option \<times> TradeEngine" where
  "enqueue_cancel_order env order_id e0 =
    (let now_ms = tv_now env; e = evict_cancel_dedup now_ms e0 in
     if (case te_cancel_dedup_recent e order_id of Some seen \<Rightarrow> i64_sat (now_ms - seen) < CANCEL_DEDUP_WINDOW_MS
         | None \<Rightarrow> False) then (None, e)
     else
       let e = e\<lparr>te_cancel_dedup_recent := (te_cancel_dedup_recent e)(order_id \<mapsto> now_ms),
                 te_cancel_dedup_queue := te_cancel_dedup_queue e @ [(now_ms, order_id)]\<rparr>;
           (n, e) = next_order_req_id e;
           (sent, e) = enqueue_order_request env n (ReqCancelOrder order_id) e
       in if sent then (Some n, e) else (None, undo_cancel_dedup now_ms order_id e))"

definition maybe_enqueue_entry_cancel :: "TradeEnv \<Rightarrow> PairTradeState \<Rightarrow> TradeEngine \<Rightarrow> PairTradeState \<times> TradeEngine" where
  "maybe_enqueue_entry_cancel env st e =
    (if \<not> pt_entry_cancel_pending st \<or> pt_entry_cancel_req_id st \<noteq> None \<or> cancel_backoff_active (tv_now env) e
     then (st, e)
     else let (ok, l) = allow (tv_now env) False (te_cancel_rate_limiter e);
              e = e\<lparr>te_cancel_rate_limiter := l\<rparr>
          in if \<not> ok then (st, e)
             else case pt_entry_order_id st of None \<Rightarrow> (st, e)
             | Some order_id \<Rightarrow>
               if \<not> cancel_retry_allowed order_id (tv_now env) e then (st, e)
               else let (n, e) = enqueue_cancel_order env order_id e
                    in (if n = None then st else st\<lparr>pt_entry_cancel_req_id := n\<rparr>, e))"

definition maybe_enqueue_exit_cancel :: "TradeEnv \<Rightarrow> PairTradeState \<Rightarrow> TradeEngine \<Rightarrow> PairTradeState \<times> TradeEngine" where
  "maybe_enqueue_exit_cancel env st e =
    (if \<not> pt_exit_cancel_pending st \<or> pt_exit_cancel_req_id st \<noteq> None \<or> cancel_backoff_active (tv_now env) e
     then (st, e)
     else let (ok, l) = allow (tv_now env) True (te_cancel_rate_limiter e);
              e = e\<lparr>te_cancel_rate_limiter := l\<rparr>
          in if \<not> ok then (st, e)
             else case pt_exit_order_id st of None \<Rightarrow> (st, e)
             | Some order_id \<Rightarrow>
               if \<not> cancel_retry_allowed order_id (tv_now env) e then (st, e)
               else let (n, e) = enqueue_cancel_order env order_id e
                    in (if n = None then st else st\<lparr>pt_exit_cancel_req_id := n\<rparr>, e))"

definition maybe_enqueue_fill_poll :: "TradeEnv \<Rightarrow> PairTradeState \<Rightarrow> trade_key \<Rightarrow> FillKind \<Rightarrow> TradeEngine \<Rightarrow>
    PairTradeState \<times> TradeEngine" where
  "maybe_enqueue_fill_poll env st pair_key kind e =
    (let now_ms = tv_now env;
         no_order = (case kind of FillEntry \<Rightarrow> pt_entry_order_id st = None \<and> pt_entry_client_id st = None
                     | FillExit \<Rightarrow> pt_exit_order_id st = None \<and> pt_exit_client_id st = None)
     in if no_order \<or> pt_fill_poll_req_id st \<noteq> None
          \<or> cfg_ws_user_channels_enabled (te_cfg e) \<and> ws_user_channel_active now_ms e
          \<or> (case te_fill_poll_backoff_until_ms e of Some until_ms \<Rightarrow> now_ms < until_ms | None \<Rightarrow> False)
          \<or> (case pt_last_fill_poll_ms st of Some seen \<Rightarrow> i64_sat (now_ms - seen) < te_order_poll_interval_ms e
             | None \<Rightarrow> False)
        then (st, e)
        else case te_order_targets e pair_key of None \<Rightarrow> (st, e)
        | Some target \<Rightarrow>
          let (n, e) = next_order_req_id e;
              (sent, e) = enqueue_order_request env n
                (ReqFetchFills pair_key kind (ot_market_id target) (ot_token_id target) (pt_entry_ts_ms st)) e
          in (st\<lparr>pt_last_fill_poll_ms := Some now_ms, pt_fill_poll_req_id := (if sent then Some n else None)\<rparr>, e))"

section \<open>Entry pool, exposure, budget\<close>

definition reset_entry_pool :: "int \<Rightarrow> f64 \<Rightarrow> TradeEngine \<Rightarrow> TradeEngine" where
  "reset_entry_pool bar_second total_balance e = (let r = te_risk e in
     if rk_entry_pool_second r = Some bar_second then e
     else e\<lparr>te_risk := r\<lparr>rk_entry_pool_second := Some bar_second,
            rk_entry_pool_remaining := total_balance * cfg_entry_pool_frac (te_cfg e)\<rparr>\<rparr>)"

definition entry_pool_available :: "int \<Rightarrow> f64 \<Rightarrow> TradeEngine \<Rightarrow> f64 \<times> TradeEngine" where
  "entry_pool_available bar_second total_balance e =
    (let e = reset_entry_pool bar_second total_balance e
     in (f64_max (rk_entry_pool_remaining (te_risk e)) 0, e))"

definition reserve_entry_pool :: "int \<Rightarrow> f64 \<Rightarrow> f64 \<Rightarrow> TradeEngine \<Rightarrow> TradeEngine" where
  "reserve_entry_pool bar_second total_balance notional e =
    (let e = reset_entry_pool bar_second total_balance e; r = te_risk e
     in e\<lparr>te_risk := r\<lparr>rk_entry_pool_remaining := f64_max (rk_entry_pool_remaining r - notional) 0\<rparr>\<rparr>)"

definition release_entry_pool :: "int \<Rightarrow> f64 \<Rightarrow> f64 \<Rightarrow> TradeEngine \<Rightarrow> TradeEngine" where
  "release_entry_pool bar_second total_balance notional e =
    (let e = reset_entry_pool bar_second total_balance e; r = te_risk e;
         max_pool = total_balance * cfg_entry_pool_frac (te_cfg e)
     in e\<lparr>te_risk := r\<lparr>rk_entry_pool_remaining := f64_min (rk_entry_pool_remaining r + notional) max_pool\<rparr>\<rparr>)"

fun strategy_cap :: "TradeConfig \<Rightarrow> AlphaType \<Rightarrow> f64" where
  "strategy_cap cfg ShockA = cfg_strategy_cap_a cfg"
| "strategy_cap cfg GapB = cfg_strategy_cap_b cfg"
| "strategy_cap cfg LagC = cfg_strategy_cap_c cfg"

fun per_trade_cap :: "TradeConfig \<Rightarrow> AlphaType \<Rightarrow> f64" where
  "per_trade_cap cfg ShockA = cfg_per_trade_cap_a cfg"
| "per_trade_cap cfg GapB = cfg_per_trade_cap_b cfg"
| "per_trade_cap cfg LagC = cfg_per_trade_cap_c cfg"

definition min_if :: "bool \<Rightarrow> f64 \<Rightarrow> f64 \<Rightarrow> f64" where
  "min_if b x y = (if b then f64_min x y else x)"

definition budget_for_entry :: "exposure_key \<Rightarrow> int \<Rightarrow> f64 option \<Rightarrow> AlphaType \<Rightarrow> TradeEngine \<Rightarrow>
    BudgetDecision option \<times> TradeEngine" where
  "budget_for_entry key bar_second pool_override alpha_type e =
    (let cfg = te_cfg e; total = cfg_balance_total_usd cfg; free = cfg_balance_free_usd cfg in
     if total \<le> 0 \<or> free \<le> 0 then (None, e)
     else let e = reset_entry_pool bar_second total e; r = te_risk e in
     if cfg_max_open_positions cfg \<le> rk_open_positions r then (None, e)
     else let global_cap = total * cfg_max_global_exposure_frac cfg;
              available_global = f64_max (global_cap - rk_exposure_used r) 0 in
     if available_global \<le> 0 then (None, e)
     else let entry_pool_cap = total * cfg_entry_pool_frac cfg;
              notional_base = f64_min free entry_pool_cap;
              notional_base = min_if (0 < cfg_entry_fraction cfg) notional_base (total * cfg_entry_fraction cfg);
              notional_base = min_if (0 < cfg_entry_fraction_free cfg) notional_base (free * cfg_entry_fraction_free cfg);
              pool_available = (case pool_override of Some pool \<Rightarrow> f64_min pool (rk_entry_pool_remaining r)
                                | None \<Rightarrow> rk_entry_pool_remaining r);
              notional = f64_min (f64_min notional_base pool_available) available_global;
              max_per_pair = total * cfg_max_per_pair_exposure_frac cfg;
              available_pair = f64_max (max_per_pair - unwrap_or (te_pair_exposure e key) 0) 0;
              notional = f64_min notional available_pair;
              strat_cap = total * strategy_cap cfg alpha_type;
              available_strategy = f64_max (strat_cap - unwrap_or (rk_strategy_exposure r alpha_type) 0) 0;
              notional = min_if (0 < strat_cap) notional available_strategy;
              trade_cap = total * per_trade_cap cfg alpha_type;
              notional = min_if (0 < trade_cap) notional trade_cap
          in (if notional \<le> 0 then None
              else Some \<lparr>bn_notional = notional, bn_caps = \<lparr>bp_total = total, bp_free = free,
                bp_entry_pool_cap = entry_pool_cap, bp_pool_available = pool_available, bp_global_cap = global_cap,
                bp_available_global = available_global, bp_max_per_pair = max_per_pair,
                bp_available_pair = available_pair, bp_strategy_cap = strat_cap,
                bp_available_strategy = available_strategy, bp_per_trade_cap = trade_cap,
                bp_notional_base = notional_base, bp_notional_final = notional\<rparr>\<rparr>, e))"

definition add_exposure :: "exposure_key \<Rightarrow> f64 \<Rightarrow> AlphaType \<Rightarrow> TradeEngine \<Rightarrow> TradeEngine" where
  "add_exposure key notional alpha_type e = (if notional \<le> 0 then e else
     let r = te_risk e in e\<lparr>te_risk := r\<lparr>rk_exposure_used := rk_exposure_used r + notional,
         rk_open_positions := rk_open_positions r + 1,
         rk_strategy_exposure := (rk_strategy_exposure r)(alpha_type \<mapsto>
           unwrap_or (rk_strategy_exposure r alpha_type) 0 + notional)\<rparr>,
       te_pair_exposure := (te_pair_exposure e)(key \<mapsto> unwrap_or (te_pair_exposure e key) 0 + notional)\<rparr>)"

definition sub_floor :: "f64 \<Rightarrow> f64 option \<Rightarrow> f64 option" where
  "sub_floor notional = map_option (\<lambda>v. f64_max (v - notional) 0)"

definition release_exposure :: "exposure_key \<Rightarrow> f64 \<Rightarrow> AlphaType \<Rightarrow> TradeEngine \<Rightarrow> TradeEngine" where
  "release_exposure key notional alpha_type e = (if notional \<le> 0 then e else
     let r = te_risk e in e\<lparr>te_risk := r\<lparr>rk_exposure_used := f64_max (rk_exposure_used r - notional) 0,
         rk_open_positions := rk_open_positions r - 1,
         rk_strategy_exposure := (rk_strategy_exposure r)(alpha_type :=
           sub_floor notional (rk_strategy_exposure r alpha_type))\<rparr>,
       te_pair_exposure := (te_pair_exposure e)(key := sub_floor notional (te_pair_exposure e key))\<rparr>)"

definition release_held :: "exposure_key \<Rightarrow> PairTradeState \<Rightarrow> TradeEngine \<Rightarrow> PairTradeState \<times> TradeEngine" where
  "release_held key st e = (case pt_entry_notional st of None \<Rightarrow> (st, e)
   | Some notional \<Rightarrow> (st\<lparr>pt_entry_notional := None\<rparr>,
       release_exposure key notional (unwrap_or (pt_alpha_type st) GapB) e))"

definition gas_est_usd :: "TradeEnv \<Rightarrow> TradeEngine \<Rightarrow> f64" where
  "gas_est_usd env e =
    (let cfg = te_cfg e; since_ms = tv_now env - cfg_gas_lookback_ms cfg;
         estimate = (case tv_chain env of None \<Rightarrow> cfg_gas_est_usd cfg
           | Some chain \<Rightarrow> (case p90_recent chain since_ms of None \<Rightarrow> cfg_gas_est_usd cfg
             | Some p90 \<Rightarrow> if cfg_gas_est_usd cfg < p90 then p90 else cfg_gas_est_usd cfg))
     in if cfg_gas_include_cancel_allowance cfg \<and> 1 < cfg_gas_cancel_allowance_factor cfg
        then estimate * cfg_gas_cancel_allowance_factor cfg else estimate)"

end
