(* ===== verification/TradeSignals.thy ===== *)
theory TradeSignals
  imports TradeLimits
begin

text \<open>
  What the trading engine (\<open>src/trade/mod.rs\<close>) reads out of a bar and a pair's state: freshness, edges,
  the shape of the book, signals and horizons, the gates of a candidate entry (\<open>build_candidate\<close>), and
  the target of an exit. \<open>clamp\<close> of the standard library panics when its bounds are the wrong way round;
  the model is about settings whose bounds are in order. Log lines of gates are left out.
\<close>

section \<open>Readings\<close>

definition ascii_lower :: "string \<Rightarrow> string" where
  "ascii_lower = map (\<lambda>c. let n = of_char c :: nat in if 65 \<le> n \<and> n \<le> 90 then char_of (n + 32) else c)"

definition ascii_upper :: "string \<Rightarrow> string" where
  "ascii_upper = map (\<lambda>c. let n = of_char c :: nat in if 97 \<le> n \<and> n \<le> 122 then char_of (n - 32) else c)"

definition is_space :: "char \<Rightarrow> bool" where
  "is_space c \<longleftrightarrow> (let n = of_char c :: nat in n = 32 \<or> 9 \<le> n \<and> n \<le> 13)"

definition trim_spaces :: "string \<Rightarrow> string" where
  "trim_spaces s = rev (dropWhile is_space (rev (dropWhile is_space s)))"

definition clamp_int :: "int \<Rightarrow> int \<Rightarrow> int \<Rightarrow> int" where
  "clamp_int x lo hi = (if x < lo then lo else if hi < x then hi else x)"

definition tick_of :: "TradeConfig \<Rightarrow> f64" where
  "tick_of cfg = (if 0 < cfg_tick_px cfg then cfg_tick_px cfg else lit (1 / 10000))"

definition is_bar_fresh :: "TradeConfig \<Rightarrow> Bars1sPair \<Rightarrow> bool" where
  "is_bar_fresh cfg bar \<longleftrightarrow>
    (let max_opi_stale = max (max (cfg_alpha_a_opi_stale_max_ms cfg) (cfg_alpha_b_opi_stale_max_ms cfg))
           (cfg_signal_staleness_ms cfg)
     in (case pb_poly_staleness_ms bar of Some s \<Rightarrow> s \<le> cfg_signal_staleness_ms cfg | None \<Rightarrow> False)
        \<and> (case pb_opi_staleness_ms bar of Some s \<Rightarrow> s \<le> max_opi_stale | None \<Rightarrow> False))"

definition imbalance :: "f64 option \<Rightarrow> f64 option \<Rightarrow> f64 option" where
  "imbalance x y = (case (x, y) of (Some a, Some b) \<Rightarrow> if 0 < a + b then Some ((a - b) / (a + b)) else None | _ \<Rightarrow> None)"

definition diff_opt :: "f64 option \<Rightarrow> f64 option \<Rightarrow> f64 option" where
  "diff_opt prev cur = (case (prev, cur) of (Some p, Some c) \<Rightarrow> Some (c - p) | _ \<Rightarrow> None)"

definition derive_opi_signals :: "PairTradeState \<Rightarrow> Bars1sPair \<Rightarrow> OpiDerived" where
  "derive_opi_signals st bar =
    (let mid = opi_mid_from_bar bar; spread = opi_spread_bps_from_bar bar mid;
         bid_l1 = pb_opi_bid_l1_notional bar; ask_l1 = pb_opi_ask_l1_notional bar;
         bid_l3 = opi_bid_l3 bar; ask_l3 = opi_ask_l3 bar;
         delta_ok = (pb_bar_gap_flag bar = 0 \<and> pb_opi_bar_gap_flag bar = 0
           \<and> pt_last_opi_bar_second st = Some (i64_sat (pb_bar_second bar - 1)));
         mid_ret = (if delta_ok then case (pt_last_opi_mid st, mid) of
             (Some prev, Some cur) \<Rightarrow> if 0 < prev then Some ((cur - prev) / prev * lit 10000) else None
           | _ \<Rightarrow> None else None);
         buy = pb_opi_taker_buy_notional_1s bar; sell = pb_opi_taker_sell_notional_1s bar
     in \<lparr>od_mid = mid, od_spread_bps = spread, od_mid_ret_bps_1s = mid_ret,
         od_mid_ret_abs_bps_1s = map_option abs mid_ret, od_bid_l1 = bid_l1, od_ask_l1 = ask_l1,
         od_bid_l3 = bid_l3, od_ask_l3 = ask_l3,
         od_bid_delta = (if delta_ok then diff_opt (pt_last_opi_bid_l3 st) bid_l3 else None),
         od_ask_delta = (if delta_ok then diff_opt (pt_last_opi_ask_l3 st) ask_l3 else None),
         od_imbalance_l1 = imbalance bid_l1 ask_l1, od_imbalance_l3 = imbalance bid_l3 ask_l3,
         od_taker_buy_notional_1s = buy, od_taker_sell_notional_1s = sell,
         od_trade_imbalance_1s = imbalance buy sell, od_order_edge_bps = None\<rparr>)"

definition compute_edge :: "f64 \<Rightarrow> f64 \<Rightarrow> int \<Rightarrow> f64 \<Rightarrow> f64 \<times> f64" where
  "compute_edge pm_mid opi_mid direction base_pm =
    (let raw = f64_of_int direction * (pm_mid - opi_mid)
     in (raw, if 0 < base_pm then raw / base_pm else 0))"

definition opi_edge_band_px :: "TradeConfig \<Rightarrow> Bars1sPair \<Rightarrow> f64" where
  "opi_edge_band_px cfg bar =
    (let spread = (case (opi_best_bid_from_bar bar, opi_best_ask_from_bar bar) of
           (Some bid, Some ask) \<Rightarrow> if bid < ask \<and> 0 < bid then ask - bid else 0 | _ \<Rightarrow> 0)
     in spread + lit 2 * f64_max (tick_of cfg) 0)"

definition range_step :: "int \<times> f64 \<Rightarrow> f64 \<times> f64 \<Rightarrow> f64 \<times> f64" where
  "range_step p mm = (let price = snd p; (mn, mx) = mm in
     if 0 < price then (if price < mn then price else mn, if mx < price then price else mx) else (mn, mx))"

definition compute_pm_range_ratio :: "PairTradeState \<Rightarrow> f64 \<Rightarrow> f64 option" where
  "compute_pm_range_ratio st base_pm =
    (if base_pm \<le> 0 \<or> List.length (pt_pm_micro_history st) < 10 then None
     else let (mn, mx) = fold range_step (pt_pm_micro_history st) (Inf False, Inf True)
          in if \<not> is_finite mn \<or> \<not> is_finite mx \<or> mx \<le> mn then None else Some ((mx - mn) / base_pm))"

definition book_shape :: "TradeConfig \<Rightarrow> Bars1sPair \<Rightarrow> int \<Rightarrow> BookShape option" where
  "book_shape cfg bar direction =
    (let (l1, l2, l3) = (if 0 < direction
           then (pb_opi_bid_l1_notional bar, pb_opi_bid_l2_notional bar, pb_opi_bid_l3_notional bar)
           else (pb_opi_ask_l1_notional bar, pb_opi_ask_l2_notional bar, pb_opi_ask_l3_notional bar))
     in Option.bind l1 (\<lambda>n1. let n2 = unwrap_or l2 0; n3 = unwrap_or l3 0 in
       if n1 \<le> 0 then None
       else let decay = f64_max ((n1 - n2) / n1) 0; support = f64_max ((n2 + n3) / n1) 0 in
       if cfg_book_decay_block cfg < decay \<or> support < cfg_book_support_block cfg
       then Some \<lparr>bh_decay = decay, bh_support = support, bh_scale = 0\<rparr>
       else let scale = 1;
                scale = (if cfg_book_decay_scale cfg < decay
                  then f64_min scale (1 - lit 2 * (decay - cfg_book_decay_scale cfg)) else scale);
                scale = (if support < cfg_book_support_scale cfg
                  then f64_min scale (support / cfg_book_support_scale cfg) else scale);
                scale = (if scale < cfg_book_scale_min cfg then cfg_book_scale_min cfg else scale);
                scale = (if 1 < scale then 1 else scale)
            in Some \<lparr>bh_decay = decay, bh_support = support, bh_scale = scale\<rparr>))"

definition retrace_ratio :: "f64 \<Rightarrow> f64 option \<Rightarrow> int \<Rightarrow> f64 option" where
  "retrace_ratio pm_move peak direction = Option.bind peak (\<lambda>peak.
     if \<bar>peak\<bar> \<le> lit (1 / 10 ^ 9) then None
     else Some ((if 0 < direction then peak - pm_move else pm_move - peak) / \<bar>peak\<bar>))"

section \<open>Settings by alpha\<close>

definition alpha_stale_max_ms :: "TradeConfig \<Rightarrow> AlphaType \<Rightarrow> int option \<Rightarrow> int" where
  "alpha_stale_max_ms cfg alpha_type opi_p50_ms =
    (case alpha_type of ShockA \<Rightarrow> cfg_alpha_a_opi_stale_max_ms cfg
     | _ \<Rightarrow> let base = cfg_alpha_b_opi_stale_max_ms cfg in
       (case (cfg_alpha_b_use_pair_quantile cfg, opi_p50_ms) of
          (True, Some p50) \<Rightarrow> min base (i64_sat (p50 + max (cfg_alpha_b_pair_p50_plus_ms cfg) 0))
        | _ \<Rightarrow> base))"

definition alpha_edge_norm_min :: "TradeConfig \<Rightarrow> AlphaType \<Rightarrow> f64" where
  "alpha_edge_norm_min cfg alpha_type =
    (case alpha_type of ShockA \<Rightarrow> cfg_alpha_a_edge_norm_min cfg | _ \<Rightarrow> cfg_alpha_b_edge_norm_min cfg)"

definition alpha_edge_raw_min_abs :: "TradeConfig \<Rightarrow> AlphaType \<Rightarrow> f64" where
  "alpha_edge_raw_min_abs cfg alpha_type =
    (case alpha_type of ShockA \<Rightarrow> cfg_alpha_a_edge_raw_min_abs cfg | _ \<Rightarrow> 0)"

definition alpha_cost_mult :: "TradeConfig \<Rightarrow> AlphaType \<Rightarrow> f64" where
  "alpha_cost_mult cfg alpha_type = (case alpha_type of ShockA \<Rightarrow> f64_max (cfg_alpha_a_cost_mult cfg) 1
     | GapB \<Rightarrow> f64_max (cfg_alpha_b_cost_mult cfg) 1 | LagC \<Rightarrow> 1)"

definition alpha_decay_per_sec :: "TradeConfig \<Rightarrow> AlphaType \<Rightarrow> f64" where
  "alpha_decay_per_sec cfg alpha_type = (case alpha_type of ShockA \<Rightarrow> cfg_alpha_a_decay_per_sec cfg
     | GapB \<Rightarrow> cfg_alpha_b_decay_per_sec cfg | LagC \<Rightarrow> cfg_target_decay_per_sec cfg)"

definition decay_over :: "f64 \<Rightarrow> f64 \<Rightarrow> f64" where
  "decay_over decay_per_sec holding_sec = f64_max (1 - decay_per_sec * holding_sec) (lit (1 / 10))"

definition entry_decay_factor :: "TradeConfig \<Rightarrow> millis \<Rightarrow> PairTradeState \<Rightarrow> f64 option" where
  "entry_decay_factor cfg now_ms st = Option.bind (pt_alpha_type st) (\<lambda>alpha_type.
     Option.bind (pt_entry_ts_ms st) (\<lambda>entry_ts_ms.
       Some (decay_over (alpha_decay_per_sec cfg alpha_type) (f64_of_int (i64_sat (now_ms - entry_ts_ms)) / lit 1000))))"

definition entry_ttl_ms_for :: "TradeConfig \<Rightarrow> AlphaType option \<Rightarrow> millis" where
  "entry_ttl_ms_for cfg alpha_type = (if alpha_type = Some ShockA \<and> 0 < cfg_alpha_a_entry_ttl_ms cfg
     then cfg_alpha_a_entry_ttl_ms cfg else cfg_entry_ttl_ms cfg)"

definition compute_score :: "TradeConfig \<Rightarrow> f64 \<Rightarrow> f64 \<Rightarrow> int \<Rightarrow> f64 \<Rightarrow> f64 \<Rightarrow> f64" where
  "compute_score cfg edge_norm driver_strength opi_staleness_ms cost_mult book_scale =
    (let stale_s = f64_of_int (max opi_staleness_ms 0) / lit 1000;
         edge_adj = \<bar>edge_norm\<bar> / f64_max cost_mult 1;
         book_penalty = f64_max (1 - book_scale) 0
     in cfg_rank_w_edge cfg * edge_adj + cfg_rank_w_driver cfg * driver_strength
        - cfg_rank_w_stale cfg * stale_s - cfg_rank_w_cost cfg * cost_mult
        - cfg_rank_w_bookshape cfg * book_penalty)"

definition alpha_source_value :: "TradeConfig \<Rightarrow> Bars1sPair \<Rightarrow> f64 option" where
  "alpha_source_value cfg bar = (let s = ascii_lower (cfg_alpha_source cfg) in
     if s = ''follow_score_raw'' then pb_follow_score_raw bar
     else if s = ''follow_score_adj'' then pb_follow_score_adj bar
     else if s = ''book_alpha_raw'' then pb_book_alpha_raw bar
     else if s = ''book_alpha_adj'' then pb_book_alpha_adj bar else None)"

definition alpha_source_is_book_alpha :: "TradeConfig \<Rightarrow> bool" where
  "alpha_source_is_book_alpha cfg \<longleftrightarrow> ascii_lower (cfg_alpha_source cfg) \<in> {''book_alpha_raw'', ''book_alpha_adj''}"

definition alpha_source_cfg :: "TradeConfig \<Rightarrow> string option" where
  "alpha_source_cfg cfg = (let value = trim_spaces (cfg_alpha_source cfg) in if value = [] then None else Some value)"

section \<open>Shocks and lags\<close>

definition shock_type_str :: "ShockType \<Rightarrow> string" where
  "shock_type_str t = (case t of PRICE_VELOCITY_5S \<Rightarrow> ''PRICE_VELOCITY_5S'' | PRICE_ACCEL_10S \<Rightarrow> ''PRICE_ACCEL_10S''
   | RV_JUMP_5S \<Rightarrow> ''RV_JUMP_5S'' | RV_JUMP_1M \<Rightarrow> ''RV_JUMP_1M'' | LARGE_TRADE \<Rightarrow> ''LARGE_TRADE''
   | TAKER_IMBALANCE_30S \<Rightarrow> ''TAKER_IMBALANCE_30S'' | CVD_SPIKE_30S \<Rightarrow> ''CVD_SPIKE_30S''
   | QUOTE_BURST_ADD \<Rightarrow> ''QUOTE_BURST_ADD'' | QUOTE_BURST_CANCEL \<Rightarrow> ''QUOTE_BURST_CANCEL''
   | OFI_SPIKE_10S \<Rightarrow> ''OFI_SPIKE_10S'' | SWEEP \<Rightarrow> ''SWEEP'' | FAKE_WALL_PULL \<Rightarrow> ''FAKE_WALL_PULL''
   | WASH_TRADE \<Rightarrow> ''WASH_TRADE'')"

definition handle_shock :: "ShockInput \<Rightarrow> TradeEngine \<Rightarrow> TradeEngine" where
  "handle_shock shock e =
    (let key = (si_pair_id shock, si_token_side shock);
         signals = unwrap_or (te_shock_signals e key) [] @ [\<lparr>sg_shock_id = si_shock_id shock,
           sg_shock_type = shock_type_str (si_shock_type shock), sg_direction = si_direction shock,
           sg_magnitude = si_magnitude shock, sg_noise_flag = si_noise_flag shock,
           sg_trigger_bar_second = si_trigger_bar_second shock\<rparr>];
         max_age = max (cfg_alpha_a_max_age_s (te_cfg e)) 0;
         signals = filter (\<lambda>s. i64_sat (si_trigger_bar_second shock - sg_trigger_bar_second s) \<le> max_age) signals
     in e\<lparr>te_shock_signals := (te_shock_signals e)(key \<mapsto> last_n 50 signals)\<rparr>)"

definition shock_allowed :: "TradeConfig \<Rightarrow> ShockSignal \<Rightarrow> bool" where
  "shock_allowed cfg shock \<longleftrightarrow>
    \<not> (cfg_alpha_a_require_noise_zero cfg \<and> sg_noise_flag shock \<noteq> 0)
    \<and> (cfg_alpha_a_allowed_shock_types cfg = [] \<or> sg_shock_type shock \<in> set (cfg_alpha_a_allowed_shock_types cfg))"

definition young_shock :: "TradeConfig \<Rightarrow> int \<Rightarrow> ShockSignal \<Rightarrow> bool" where
  "young_shock cfg bar_second s \<longleftrightarrow>
     i64_sat (bar_second - sg_trigger_bar_second s) \<le> max (cfg_alpha_a_max_age_s cfg) 0 \<and> shock_allowed cfg s"

definition pick_shock_candidate :: "trade_key \<Rightarrow> int \<Rightarrow> TradeEngine \<Rightarrow> ShockSignal option" where
  "pick_shock_candidate key bar_second e = Option.bind (te_shock_signals e key)
     (\<lambda>signals. List.find (young_shock (te_cfg e) bar_second) (rev signals))"

definition reverse_shock_active :: "trade_key \<Rightarrow> int \<Rightarrow> int \<Rightarrow> TradeEngine \<Rightarrow> bool" where
  "reverse_shock_active key bar_second direction e \<longleftrightarrow> (case te_shock_signals e key of None \<Rightarrow> False
   | Some signals \<Rightarrow> list_ex (\<lambda>s. young_shock (te_cfg e) bar_second s \<and> sg_direction s = - direction) signals)"

definition lag_or :: "TradeConfig \<Rightarrow> Bars1sPair \<Rightarrow> int \<Rightarrow> int" where
  "lag_or cfg bar d = (case pb_estimated_lag_s bar of
     Some lag \<Rightarrow> clamp_int lag (cfg_alpha_c_lookback_min_s cfg) (cfg_alpha_c_lookback_max_s cfg) | None \<Rightarrow> d)"

definition alpha_c_signal :: "TradeConfig \<Rightarrow> (f64 \<Rightarrow> f64) \<Rightarrow> PairTradeState \<Rightarrow> Bars1sPair \<Rightarrow> (int \<times> f64 \<times> f64) option" where
  "alpha_c_signal cfg lnf st bar =
    (if \<not> cfg_alpha_c_enabled cfg then None
     else let lookback_s = (if cfg_alpha_c_use_lag_clamp cfg then lag_or cfg bar (cfg_alpha_c_lookback_fixed_s cfg)
                else cfg_alpha_c_lookback_fixed_s cfg);
              target_second = i64_sat (pb_bar_second bar - max lookback_s 1);
              hist = pt_pm_micro_history st;
              prior = List.find (\<lambda>p. fst p \<le> target_second) (rev hist)
          in if hist = [] then None else let (cur_sec, cur_price) = List.last hist in
             if cur_sec < target_second then None
             else Option.bind prior (\<lambda>(_, prev_price).
               if prev_price \<le> 0 \<or> cur_price \<le> 0 then None
               else let ret = lnf (cur_price / prev_price) in
                 if \<bar>ret\<bar> < cfg_alpha_c_min_abs_return cfg then None
                 else Some (if 0 \<le> ret then 1 else - 1, ret, f64_of_int lookback_s)))"

definition horizon_for :: "TradeConfig \<Rightarrow> Bars1sPair \<Rightarrow> AlphaType \<Rightarrow> ShockSignal option \<Rightarrow> int" where
  "horizon_for cfg bar alpha_type shock =
    (if alpha_type = ShockA then
       (case Option.bind shock (\<lambda>s. cfg_alpha_a_horizon_by_shock_type cfg (sg_shock_type s)) of
          Some value \<Rightarrow> clamp_int value 30 120
        | None \<Rightarrow> clamp_int (lag_or cfg bar (cfg_alpha_a_horizon_default_s cfg)) 30 120)
     else lag_or cfg bar (cfg_alpha_b_horizon_default_s cfg))"

section \<open>Candidates\<close>

text \<open>The gates of \<open>build_candidate\<close> in their order. A gate that only relaxes for an alpha lets it pass.\<close>

record Signal =
  sn_bar :: Bars1sPair
  sn_alpha_type :: AlphaType
  sn_direction :: int
  sn_pm_move :: f64
  sn_pm_mom :: f64
  sn_ofi_value :: f64
  sn_base_pm :: f64
  sn_pm_mid :: f64
  sn_opi_mid :: f64
  sn_alpha_value :: "f64 option"
  sn_shock :: "ShockSignal option"
  sn_c_signal :: "(int \<times> f64 \<times> f64) option"
  sn_opi_stale_p50_ms :: "int option"
  sn_pm_peak :: "f64 option"
  sn_pm_range_ratio :: "f64 option"
  sn_gap_ratio_1m :: "f64 option"
  sn_opi_stale_p90_ms :: "int option"

definition corr_samples_ok :: "TradeConfig \<Rightarrow> Signal \<Rightarrow> bool" where
  "corr_samples_ok cfg n \<longleftrightarrow> cfg_follow_corr_min_samples cfg = 0
     \<or> cfg_follow_corr_min_samples cfg \<le> nat (max (unwrap_or (pb_rolling_corr_samples_5m (sn_bar n)) 0) 0)"

definition corr_ready :: "TradeConfig \<Rightarrow> Signal \<Rightarrow> bool" where
  "corr_ready cfg n \<longleftrightarrow> corr_samples_ok cfg n
     \<and> (cfg_follow_corr_min_range cfg \<le> 0 \<or> cfg_follow_corr_min_range cfg \<le> unwrap_or (sn_pm_range_ratio n) 0)"

definition gate_alpha :: "TradeConfig \<Rightarrow> Signal \<Rightarrow> bool" where
  "gate_alpha cfg n \<longleftrightarrow> (case sn_alpha_value n of
     Some value \<Rightarrow> \<not> (0 < cfg_alpha_min cfg \<and> \<bar>value\<bar> < cfg_alpha_min cfg) | None \<Rightarrow> True)"

definition gate_corr :: "TradeConfig \<Rightarrow> Signal \<Rightarrow> bool" where
  "gate_corr cfg n \<longleftrightarrow> (if 0 < cfg_follow_min_corr cfg then
     if \<not> corr_ready cfg n then sn_alpha_type n \<noteq> GapB
     else \<not> unwrap_or (pb_rolling_corr_5m (sn_bar n)) (- 1) < cfg_follow_min_corr cfg
   else True)"

definition gate_lag :: "TradeConfig \<Rightarrow> Signal \<Rightarrow> bool" where
  "gate_lag cfg n \<longleftrightarrow> (if 0 < cfg_follow_min_lag_conf cfg
     \<and> unwrap_or (pb_lag_confidence (sn_bar n)) 0 < cfg_follow_min_lag_conf cfg
   then sn_alpha_type n \<noteq> GapB else True)"

definition gate_range :: "TradeConfig \<Rightarrow> Signal \<Rightarrow> bool" where
  "gate_range cfg n \<longleftrightarrow> (if 0 < cfg_follow_min_range cfg
     \<and> (\<not> corr_ready cfg n \<or> unwrap_or (sn_pm_range_ratio n) 0 < cfg_follow_min_range cfg)
   then sn_alpha_type n \<noteq> GapB else True)"

definition below_max :: "int \<Rightarrow> int option \<Rightarrow> bool" where
  "below_max limit v \<longleftrightarrow> \<not> (0 < limit \<and> (case v of Some x \<Rightarrow> limit < x | None \<Rightarrow> False))"

definition gate_quality :: "TradeConfig \<Rightarrow> Signal \<Rightarrow> bool" where
  "gate_quality cfg n \<longleftrightarrow>
     \<not> (0 < cfg_max_bar_gap_ratio_1m cfg \<and> (case sn_gap_ratio_1m n of
          Some ratio \<Rightarrow> cfg_max_bar_gap_ratio_1m cfg < ratio | None \<Rightarrow> False))
     \<and> below_max (cfg_max_opi_staleness_p90_ms cfg) (sn_opi_stale_p90_ms n)
     \<and> below_max (cfg_max_poly_latency_p99_ms cfg) (pb_poly_obs_latency_p99_ms (sn_bar n))
     \<and> below_max (cfg_max_opi_latency_p99_ms cfg) (pb_opi_obs_latency_p99_ms (sn_bar n))"

definition stale_scale_of :: "TradeConfig \<Rightarrow> (f64 \<Rightarrow> f64) \<Rightarrow> Signal \<Rightarrow> int \<Rightarrow> int \<Rightarrow> f64" where
  "stale_scale_of cfg expf n opi_stale stale_limit =
    (if sn_alpha_type n \<noteq> ShockA then 1
     else let soft = max (cfg_alpha_a_opi_stale_soft_start_ms cfg) 0;
              soft = (case (cfg_alpha_a_use_pair_quantile cfg, sn_opi_stale_p50_ms n) of
                (True, Some p50) \<Rightarrow> if 0 < p50 then p50 else soft | _ \<Rightarrow> soft);
              soft = min soft (max stale_limit 0);
              tau_ms = max (cfg_alpha_a_opi_stale_soft_tau_ms cfg) 0
          in if 0 < soft \<and> 0 < tau_ms \<and> soft < opi_stale
             then f64_clamp (expf (- f64_of_int (opi_stale - soft) / f64_of_int tau_ms))
                    (cfg_alpha_a_opi_stale_soft_min_scale cfg) 1
             else 1)"

definition gate_edge :: "TradeConfig \<Rightarrow> Signal \<Rightarrow> f64 \<Rightarrow> f64 \<Rightarrow> bool" where
  "gate_edge cfg n edge_raw edge_norm \<longleftrightarrow>
    (if sn_alpha_type n = ShockA then \<not> edge_raw < - opi_edge_band_px cfg (sn_bar n)
     else \<not> edge_raw \<le> 0 \<and> \<not> edge_norm < alpha_edge_norm_min cfg (sn_alpha_type n)
       \<and> \<not> (0 < alpha_edge_raw_min_abs cfg (sn_alpha_type n)
            \<and> \<bar>edge_raw\<bar> < alpha_edge_raw_min_abs cfg (sn_alpha_type n)))"

definition gate_gapb :: "TradeConfig \<Rightarrow> Signal \<Rightarrow> bool" where
  "gate_gapb cfg n \<longleftrightarrow> sn_alpha_type n \<noteq> GapB \<or>
    (\<not> (0 < cfg_alpha_b_retrace_cancel_ratio cfg
        \<and> (case retrace_ratio (sn_pm_move n) (sn_pm_peak n) (sn_direction n) of
             Some ratio \<Rightarrow> cfg_alpha_b_retrace_cancel_ratio cfg \<le> ratio | None \<Rightarrow> False))
     \<and> (let flip = cfg_alpha_b_ofi_flip_cancel_usd cfg in
        \<not> (0 < flip \<and> (0 < sn_direction n \<and> sn_ofi_value n \<le> - flip \<or> sn_direction n < 0 \<and> flip \<le> sn_ofi_value n))))"

definition driver_strength_of :: "TradeConfig \<Rightarrow> Signal \<Rightarrow> f64" where
  "driver_strength_of cfg n = (case sn_alpha_type n of
     ShockA \<Rightarrow> (case sn_shock n of Some s \<Rightarrow> \<bar>sg_magnitude s\<bar> | None \<Rightarrow> 0)
   | GapB \<Rightarrow> \<bar>sn_pm_move n\<bar> + \<bar>sn_pm_mom n\<bar> + \<bar>sn_ofi_value n\<bar> / f64_max (cfg_rank_ofi_scale cfg) 1
   | LagC \<Rightarrow> \<bar>sn_pm_move n\<bar>)"

definition c_modifier_of :: "TradeConfig \<Rightarrow> Signal \<Rightarrow> (int \<times> f64 \<times> f64) option" where
  "c_modifier_of cfg n = map_option (\<lambda>(pred_dir, ret, _). (pred_dir, ret,
     if pred_dir = sn_direction n then cfg_alpha_c_align_bonus cfg else - cfg_alpha_c_conflict_penalty cfg)) (sn_c_signal n)"

definition gate_conflict :: "TradeConfig \<Rightarrow> Signal \<Rightarrow> bool" where
  "gate_conflict cfg n \<longleftrightarrow> (case sn_c_signal n of None \<Rightarrow> True
   | Some (pred_dir, _, _) \<Rightarrow>
       \<not> (sn_alpha_type n = GapB \<and> pred_dir \<noteq> sn_direction n \<and> cfg_alpha_c_block_b_on_conflict cfg))"

definition entry_ttl_override :: "TradeConfig \<Rightarrow> AlphaType \<Rightarrow> int \<Rightarrow> f64 \<Rightarrow> int option" where
  "entry_ttl_override cfg alpha_type horizon stale_scale =
    (let horizon_ms = i64_sat (horizon * 1000);
         (ttl_frac, ttl_cap_ms) = (case alpha_type of
             ShockA \<Rightarrow> (cfg_alpha_a_entry_ttl_frac cfg, cfg_alpha_a_entry_ttl_cap_ms cfg)
           | GapB \<Rightarrow> (cfg_alpha_b_entry_ttl_frac cfg, cfg_alpha_b_entry_ttl_cap_ms cfg) | LagC \<Rightarrow> (0, 0))
     in if 0 < ttl_frac \<and> 0 < horizon_ms then
          let ttl = f64_to_i64 (f64_round (f64_of_int horizon_ms * ttl_frac));
              ttl = (if 0 < ttl_cap_ms then min ttl ttl_cap_ms else ttl);
              ttl = (if alpha_type = ShockA \<and> stale_scale < 1
                     then f64_to_i64 (f64_round (f64_of_int ttl * stale_scale)) else ttl)
          in if 0 < ttl then Some ttl else None
        else None)"

definition gap_move_ok :: "TradeConfig \<Rightarrow> f64 \<Rightarrow> f64 \<Rightarrow> bool" where
  "gap_move_ok cfg pm_move pm_mom \<longleftrightarrow> cfg_alpha_b_move_min cfg \<le> \<bar>pm_move\<bar> \<and> cfg_alpha_b_mom_min cfg \<le> \<bar>pm_mom\<bar>"

definition gap_ofi_ok :: "TradeConfig \<Rightarrow> f64 \<Rightarrow> bool" where
  "gap_ofi_ok cfg ofi_value \<longleftrightarrow> cfg_alpha_b_ofi_entry_min cfg \<le> \<bar>ofi_value\<bar>"

definition alpha_source_of :: "TradeConfig \<Rightarrow> Signal \<Rightarrow> string" where
  "alpha_source_of cfg n = (case sn_alpha_type n of
     ShockA \<Rightarrow> (case sn_shock n of Some s \<Rightarrow> ''A_SHOCK:'' @ sg_shock_type s | None \<Rightarrow> ''A_SHOCK'')
   | GapB \<Rightarrow> if gap_move_ok cfg (sn_pm_move n) (sn_pm_mom n) then ''B_GAP:MOVE_MOM''
             else if gap_ofi_ok cfg (sn_ofi_value n) then ''B_GAP:OFI_ONLY'' else ''B_GAP''
   | LagC \<Rightarrow> ''C_LAG_MOD'')"

definition build_candidate :: "TradeConfig \<Rightarrow> (f64 \<Rightarrow> f64) \<Rightarrow> Signal \<Rightarrow> PendingEntry option" where
  "build_candidate cfg expf n =
    (let bar = sn_bar n; alpha_type = sn_alpha_type n; direction = sn_direction n in
     if direction = 0 \<or> \<not> gate_alpha cfg n \<or> \<not> gate_corr cfg n \<or> \<not> gate_lag cfg n \<or> \<not> gate_range cfg n
        \<or> \<not> gate_quality cfg n then None
     else Option.bind (pb_opi_staleness_ms bar) (\<lambda>opi_stale.
       let stale_limit = alpha_stale_max_ms cfg alpha_type (sn_opi_stale_p50_ms n) in
       if stale_limit < opi_stale then None
       else let stale_scale = stale_scale_of cfg expf n opi_stale stale_limit;
                (edge_raw, edge_norm) = compute_edge (sn_pm_mid n) (sn_opi_mid n) direction (sn_base_pm n) in
       if \<not> gate_edge cfg n edge_raw edge_norm \<or> \<not> gate_gapb cfg n \<or> \<not> gate_conflict cfg n then None
       else let cost_mult = alpha_cost_mult cfg alpha_type;
                book_scale = (case book_shape cfg bar direction of Some shape \<Rightarrow> bh_scale shape | None \<Rightarrow> 1);
                score0 = compute_score cfg edge_norm (driver_strength_of cfg n) opi_stale cost_mult book_scale;
                c = c_modifier_of cfg n;
                score = (case c of Some (_, _, modifier) \<Rightarrow> score0 + modifier | None \<Rightarrow> score0);
                horizon = horizon_for cfg bar alpha_type (sn_shock n)
            in Some \<lparr>pn_key = (pb_pair_id bar, pb_token_side bar), pn_bar = bar, pn_pm_move = sn_pm_move n,
                 pn_pm_mom = sn_pm_mom n, pn_direction = direction, pn_alpha_type = alpha_type,
                 pn_shock = sn_shock n, pn_ofi_value = sn_ofi_value n, pn_opi_mid = Some (sn_opi_mid n),
                 pn_base_pm = sn_base_pm n, pn_pm_mid = sn_pm_mid n, pn_edge_raw = edge_raw,
                 pn_edge_norm = edge_norm, pn_score = score, pn_conf_score = score, pn_cost_mult = cost_mult,
                 pn_horizon_s = Some horizon, pn_alpha_source = alpha_source_of cfg n,
                 pn_alpha_source_cfg = alpha_source_cfg cfg, pn_alpha_value = sn_alpha_value n,
                 pn_stale_scale = stale_scale,
                 pn_entry_ttl_override_ms = entry_ttl_override cfg alpha_type horizon stale_scale,
                 pn_c_pred_dir = map_option fst c, pn_c_ret = map_option (\<lambda>x. fst (snd x)) c,
                 pn_c_modifier = map_option (\<lambda>x. snd (snd x)) c\<rparr>))"

section \<open>Exit target\<close>

definition compute_exit_target :: "TradeEnv \<Rightarrow> PairTradeState \<Rightarrow> f64 \<Rightarrow> f64 \<Rightarrow> f64 \<Rightarrow> f64 \<Rightarrow> TradeEngine \<Rightarrow>
    f64 option \<times> f64 option \<times> f64 option \<times> f64 option" where
  "compute_exit_target env st pm_move pm_mom base_pm gas_est e =
    (let cfg = te_cfg e; now_ms = tv_now env; dir = f64_of_int (pt_direction st) in
     case (pt_entry_price st, pt_entry_qty st) of
       (Some entry_price, Some entry_qty) \<Rightarrow>
         let pm_peak = unwrap_or (pt_pm_peak st) pm_move;
             pm_move_entry = unwrap_or (pt_pm_move_entry st) pm_move;
             base_edge = cfg_tp_a1 cfg * pm_move + cfg_tp_a2 cfg * (pm_peak - pm_move_entry) + cfg_tp_a3 cfg * pm_mom;
             base_edge = (case (pt_alpha_type st, pt_shock st) of
                 (Some ShockA, Some shock) \<Rightarrow> base_edge + cfg_tp_a4_shock cfg * sg_magnitude shock
               | _ \<Rightarrow> base_edge);
             edge_price = base_edge * base_pm;
             fee_est = trade_fee_bps env / lit 10000 * entry_price * entry_qty * lit 2;
             min_profit_usd = gas_est * cfg_gas_mult cfg + cfg_gas_buffer_usd cfg + fee_est;
             min_profit_per_unit = (if 0 < entry_qty then min_profit_usd / entry_qty else 0);
             edge = edge_price * dir;
             edge = (if \<bar>edge\<bar> < min_profit_per_unit then min_profit_per_unit * dir else edge);
             holding_ms = (case pt_entry_ts_ms st of Some ts \<Rightarrow> max (now_ms - ts) 0 | None \<Rightarrow> 0);
             decay_per_sec = (case pt_alpha_type st of Some t \<Rightarrow> alpha_decay_per_sec cfg t
                              | None \<Rightarrow> cfg_target_decay_per_sec cfg);
             decay_factor = decay_over decay_per_sec (f64_of_int holding_ms / lit 1000);
             global_cap = f64_max (cfg_balance_total_usd cfg) 1 * cfg_max_global_exposure_frac cfg;
             inv_ratio = (if 0 < global_cap then f64_clamp (rk_exposure_used (te_risk e) / global_cap) 0 1 else 0);
             inv_factor = f64_clamp (1 - cfg_inv_k cfg * inv_ratio) (lit (1 / 2)) 1;
             target_edge = edge * decay_factor * inv_factor;
             floor_edge = min_profit_per_unit * cfg_target_floor_gas_mult cfg * dir;
             target_edge = (if \<bar>target_edge\<bar> < \<bar>floor_edge\<bar> then floor_edge else target_edge)
         in (Some (entry_price + target_edge), Some inv_ratio, Some inv_factor, Some decay_factor)
     | _ \<Rightarrow> (None, None, None, None))"

end
