(* ===== verification/TradeExec.thy ===== *)
theory TradeExec
  imports TradeSignals "HOL-Library.Sublist"
begin

text \<open>
  Placing and cancelling orders: the classification of errors by their text, the executor's tasks
  (\<open>place_with_chase\<close>, \<open>cancel_order\<close>, \<open>fetch_fills\<close>), and the placement of exits by the engine itself
  (\<open>place_exit_with_chase\<close>), all of \<open>src/trade/mod.rs\<close>. A call of the client is its outcome, an error
  text or a value; the text of an error of the HTTP layer is that of \<open>src/trade/opinion_private.rs\<close>.
\<close>

section \<open>Errors\<close>

fun contains :: "string \<Rightarrow> string \<Rightarrow> bool" where
  "contains sub [] \<longleftrightarrow> sub = []"
| "contains sub (c # cs) \<longleftrightarrow> prefix sub (c # cs) \<or> contains sub cs"

definition is_post_only_reject :: "string \<Rightarrow> bool" where
  "is_post_only_reject err \<longleftrightarrow> (let msg = ascii_lower err in contains ''post'' msg \<or> contains ''maker'' msg
     \<or> contains ''post-only'' msg \<or> contains ''post only'' msg \<or> contains ''would cross'' msg \<or> contains ''cross'' msg)"

definition is_order_id_missing :: "string \<Rightarrow> bool" where
  "is_order_id_missing err \<longleftrightarrow>
    (let msg = ascii_lower err in contains ''order_id missing'' msg \<or> contains ''order id missing'' msg)"

definition is_rate_limited_error :: "string \<Rightarrow> bool" where
  "is_rate_limited_error err \<longleftrightarrow> (let msg = ascii_lower err in contains ''status=429'' msg
     \<or> contains ''429 too many requests'' msg \<or> contains ''rate limit'' msg \<or> contains ''rate_limit'' msg)"

text \<open>The text after the first occurrence of \<open>sub\<close>.\<close>

fun after :: "string \<Rightarrow> string \<Rightarrow> string option" where
  "after sub [] = (if sub = [] then Some [] else None)"
| "after sub (c # cs) = (if prefix sub (c # cs) then Some (drop (List.length sub) (c # cs)) else after sub cs)"

definition extract_status_code :: "string \<Rightarrow> string \<Rightarrow> nat option" where
  "extract_status_code msg needle = Option.bind (after needle msg) (\<lambda>rest.
     let digits = take 3 (takeWhile is_digit (dropWhile (\<lambda>c. \<not> is_digit c) rest))
     in if List.length digits = 3 then Some (digits_val digits) else None)"

definition is_server_error :: "string \<Rightarrow> bool" where
  "is_server_error err \<longleftrightarrow>
    (let msg = ascii_lower err; server = (\<lambda>code. 500 \<le> code \<and> code \<le> (599 :: nat))
     in contains ''internal server error'' msg
        \<or> (case extract_status_code msg ''status='' of Some code \<Rightarrow> server code
           | None \<Rightarrow> (case extract_status_code msg ''errno='' of Some code \<Rightarrow> server code | None \<Rightarrow> False)))"

text \<open>The error that the client returns for a response with an HTTP error status.\<close>

definition http_error_text :: "string \<Rightarrow> string \<Rightarrow> string \<Rightarrow> string \<Rightarrow> string" where
  "http_error_text method url status text = ''opinion openapi http error method='' @ method @ '' url='' @ url
     @ '' status='' @ status @ '' body='' @ text"

section \<open>Executor\<close>

definition int_str :: "int \<Rightarrow> string" where
  "int_str i = (if i < 0 then CHR ''-'' # nat_str (nat (- i)) else nat_str (nat i))"

definition build_client_order_id :: "string \<Rightarrow> int \<Rightarrow> TokenSide \<Rightarrow> string \<Rightarrow> millis \<Rightarrow> string" where
  "build_client_order_id prefx pair_id token_side tag now_ms = prefx @ '':'' @ int_str pair_id @ '':''
     @ side_str token_side @ '':'' @ tag @ ''-'' @ int_str now_ms"

definition order_amount_for :: "OrderSide \<Rightarrow> f64 \<Rightarrow> f64 \<Rightarrow> OrderAmount" where
  "order_amount_for side price qty = (case side of Buy \<Rightarrow> Quote (price * qty) | Sell \<Rightarrow> Base qty)"

definition chase_start :: PlaceResult where
  "chase_start = \<lparr>pr_order = None, pr_client_id_used = None, pr_price_used = None, pr_chase_count = 0,
     pr_post_only_rejects = 0, pr_last_err = None\<rparr>"

fun chase_loop :: "(nat \<Rightarrow> f64 \<Rightarrow> string + PlacedOrder) \<Rightarrow> (nat \<Rightarrow> string) \<Rightarrow> nat \<Rightarrow> f64 list \<Rightarrow>
    PlaceResult \<Rightarrow> PlaceResult" where
  "chase_loop place client_id n [] r = r"
| "chase_loop place client_id n (price # prices) r =
    (let r = r\<lparr>pr_chase_count := pr_chase_count r + 1\<rparr> in
     case place n price of
       Inr order \<Rightarrow> r\<lparr>pr_order := Some order, pr_client_id_used := Some (client_id n),
         pr_price_used := Some price, pr_last_err := None\<rparr>
     | Inl err \<Rightarrow>
         if is_order_id_missing err
         then r\<lparr>pr_client_id_used := Some (client_id n), pr_price_used := Some price,
                pr_last_err := Some ''order_id_missing''\<rparr>
         else if \<not> is_post_only_reject err then r\<lparr>pr_last_err := Some err\<rparr>
         else chase_loop place client_id (Suc n) prices
           (r\<lparr>pr_post_only_rejects := pr_post_only_rejects r + 1, pr_last_err := Some err\<rparr>))"

definition place_with_chase :: "(nat \<Rightarrow> OrderSide \<Rightarrow> f64 \<Rightarrow> OrderAmount \<Rightarrow> string + PlacedOrder) option \<Rightarrow>
    (nat \<Rightarrow> string) \<Rightarrow> OrderSide \<Rightarrow> f64 \<Rightarrow> f64 list \<Rightarrow> PlaceResult" where
  "place_with_chase client client_id side qty candidate_prices = (case client of
     None \<Rightarrow> chase_start\<lparr>pr_last_err := Some ''opinion client unavailable''\<rparr>
   | Some place_limit_order \<Rightarrow> chase_loop (\<lambda>n price. place_limit_order n side price (order_amount_for side price qty))
       client_id 0 candidate_prices chase_start)"

definition cancel_order :: "(string \<Rightarrow> string + unit) option \<Rightarrow> string \<Rightarrow> CancelResult" where
  "cancel_order client order_id = (case client of
     None \<Rightarrow> \<lparr>cr_ok = False, cr_rate_limited = False, cr_server_error = False,
              cr_error = Some ''opinion client unavailable''\<rparr>
   | Some cancel \<Rightarrow> (case cancel order_id of
       Inr _ \<Rightarrow> \<lparr>cr_ok = True, cr_rate_limited = False, cr_server_error = False, cr_error = None\<rparr>
     | Inl err \<Rightarrow> \<lparr>cr_ok = False, cr_rate_limited = is_rate_limited_error err,
                   cr_server_error = is_server_error err, cr_error = Some err\<rparr>))"

definition fetch_fills :: "(int \<Rightarrow> string \<Rightarrow> int option \<Rightarrow> string + TradeFill list) option \<Rightarrow> int \<Rightarrow> string \<Rightarrow>
    int option \<Rightarrow> FillPollResult" where
  "fetch_fills client market_id token_id since_ms = (case client of
     None \<Rightarrow> \<lparr>fp_fills = [], fp_rate_limited = False, fp_error = Some ''opinion client unavailable''\<rparr>
   | Some fetch \<Rightarrow> (case fetch market_id token_id since_ms of
       Inr fills \<Rightarrow> \<lparr>fp_fills = fills, fp_rate_limited = False, fp_error = None\<rparr>
     | Inl err \<Rightarrow> \<lparr>fp_fills = [], fp_rate_limited = is_rate_limited_error err, fp_error = Some err\<rparr>))"

text \<open>One request of the executor (\<open>OrderExecutor::run\<close>); the semaphore bounds how many of these run
  at a time.\<close>

record ExecClient =
  ec_place :: "nat \<Rightarrow> OrderSide \<Rightarrow> f64 \<Rightarrow> OrderAmount \<Rightarrow> string + PlacedOrder"
  ec_cancel :: "string \<Rightarrow> string + unit"
  ec_fetch :: "int \<Rightarrow> string \<Rightarrow> int option \<Rightarrow> string + TradeFill list"

definition execute_request :: "ExecClient option \<Rightarrow> (nat \<Rightarrow> millis) \<Rightarrow> OrderRequest \<Rightarrow> OrderResponse" where
  "execute_request client clock req = (case rq_kind req of
     ReqPlaceChase pair_key kind market_id token_id side qty candidate_prices client_prefix client_tag post_only \<Rightarrow>
       RespPlaceChase (rq_id req) pair_key kind (place_with_chase (map_option ec_place client)
         (\<lambda>n. build_client_order_id client_prefix (fst pair_key) (snd pair_key) client_tag (clock n))
         side qty candidate_prices)
   | ReqCancelOrder order_id \<Rightarrow> RespCancelOrder (rq_id req) order_id (cancel_order (map_option ec_cancel client) order_id)
   | ReqFetchFills pair_key kind market_id token_id since_ms \<Rightarrow>
       RespFetchFills (rq_id req) pair_key kind (fetch_fills (map_option ec_fetch client) market_id token_id since_ms))"

section \<open>Exits placed by the engine\<close>

definition maker_ok :: "Bars1sPair \<Rightarrow> int \<Rightarrow> f64 \<Rightarrow> bool" where
  "maker_ok bar direction price \<longleftrightarrow> (if 0 < direction
     then (case opi_best_bid_from_bar bar of Some bid \<Rightarrow> bid < price | None \<Rightarrow> True)
     else (case opi_best_ask_from_bar bar of Some ask \<Rightarrow> price < ask | None \<Rightarrow> True))"

definition step_price :: "int \<Rightarrow> f64 \<Rightarrow> f64 \<Rightarrow> int \<Rightarrow> f64" where
  "step_price direction base_price tick n = (if 0 < direction then base_price + tick * f64_of_int n
     else base_price - tick * f64_of_int n)"

definition exit_candidate_prices :: "TradeConfig \<Rightarrow> Bars1sPair \<Rightarrow> int \<Rightarrow> f64 \<Rightarrow> f64 \<Rightarrow> f64 list" where
  "exit_candidate_prices cfg bar direction base_price tick =
    (if base_price \<le> 0 then []
     else let step_ticks = max (cfg_chase_step_ticks cfg) 1; max_steps = max (cfg_max_chase_ticks cfg) 0;
              prices = map (\<lambda>step_idx. step_price direction base_price tick (step_ticks * step_idx)) [0..max_steps]
          in filter (maker_ok bar direction) (takeWhile (\<lambda>price. \<not> price \<le> 0) prices))"

text \<open>The loop of \<open>place_exit_with_chase\<close>; unlike the executor's it has no branch for a missing order id.\<close>

fun exit_chase_loop :: "(nat \<Rightarrow> f64 \<Rightarrow> string + PlacedOrder) \<Rightarrow> string \<Rightarrow> nat \<Rightarrow> f64 list \<Rightarrow>
    PlaceResult \<Rightarrow> PlaceResult" where
  "exit_chase_loop place client_id n [] r = r"
| "exit_chase_loop place client_id n (price # prices) r =
    (let r = r\<lparr>pr_chase_count := pr_chase_count r + 1\<rparr> in
     case place n price of
       Inr order \<Rightarrow> r\<lparr>pr_order := Some order, pr_client_id_used := Some client_id,
         pr_price_used := Some price, pr_last_err := None\<rparr>
     | Inl err \<Rightarrow>
         if is_post_only_reject err
         then exit_chase_loop place client_id (Suc n) prices
           (r\<lparr>pr_post_only_rejects := pr_post_only_rejects r + 1, pr_last_err := Some err\<rparr>)
         else r\<lparr>pr_last_err := Some err\<rparr>)"

definition place_live_order :: "TradeEnv \<Rightarrow> trade_key \<Rightarrow> TradeEngine \<Rightarrow> nat \<Rightarrow> f64 \<Rightarrow> string + PlacedOrder" where
  "place_live_order env key e n price =
    (if te_order_targets e key = None then Inl ''missing opinion token mapping''
     else if \<not> te_has_client e then Inl ''opinion client unavailable''
     else tv_place env n price)"

definition place_exit_with_chase :: "TradeEnv \<Rightarrow> trade_key \<Rightarrow> OrderSide \<Rightarrow> f64 \<Rightarrow> f64 \<Rightarrow> Bars1sPair \<Rightarrow> int \<Rightarrow> f64 \<Rightarrow>
    TradeEngine \<Rightarrow> PlaceResult \<times> TradeEngine" where
  "place_exit_with_chase env key side base_price qty bar direction tick e =
    (let candidates = exit_candidate_prices (te_cfg e) bar direction base_price tick;
         client_id = build_client_order_id (cfg_order_client_prefix (te_cfg e)) (pb_pair_id bar) (pb_token_side bar)
           ''X'' (tv_now env);
         r = exit_chase_loop (place_live_order env key e) client_id 0 candidates chase_start
     in (r, case (pr_order r, pr_price_used r) of
              (Some order, Some price) \<Rightarrow> e\<lparr>te_placed := te_placed e @
                 [\<lparr>vo_side = side, vo_price = price, vo_qty = qty, vo_order = order\<rparr>]\<rparr>
            | _ \<Rightarrow> e))"

end
