(* ===== verification/TradeEntry.thy ===== *)
theory TradeEntry
  imports TradeExec
begin

text \<open>
  Entries of the trading engine (\<open>src/trade/mod.rs\<close>): the checks, sizes and prices of \<open>maybe_enter\<close>,
  the watch over a working entry (\<open>check_entry\<close>), its fills and its cancellation.
\<close>

section \<open>Entering\<close>

definition clamp01 :: "f64 \<Rightarrow> f64" where
  "clamp01 x = f64_clamp x 0 1"

definition entry_aggressiveness :: "TradeConfig \<Rightarrow> PendingEntry \<Rightarrow> millis \<Rightarrow> f64" where
  "entry_aggressiveness cfg entry now_ms = (case pn_alpha_type entry of
     ShockA \<Rightarrow>
       let g_high = cfg_entry_aggr_shock_max cfg; g_low = cfg_entry_aggr_shock_min cfg;
           early_ratio = clamp01 (cfg_entry_aggr_shock_early_ratio cfg);
           horizon_s = unwrap_or (pn_horizon_s entry) 0 in
       if horizon_s \<le> 0 then clamp01 g_high
       else let signal_ms = i64_sat (pb_bar_second (pn_bar entry) * 1000);
                dt_s = f64_of_int (max (i64_sat (now_ms - signal_ms)) 0) / lit 1000;
                ratio = clamp01 (dt_s / f64_of_int horizon_s)
            in if 1 \<le> early_ratio \<or> ratio \<le> early_ratio then clamp01 g_high
               else let t = clamp01 ((ratio - early_ratio) / (1 - early_ratio))
                    in clamp01 (g_high + (g_low - g_high) * t)
   | GapB \<Rightarrow> clamp01 (cfg_entry_aggr_gap cfg)
   | LagC \<Rightarrow> clamp01 (cfg_entry_aggr_default cfg))"

definition entry_quote :: "Bars1sPair \<Rightarrow> (f64 \<times> f64) option" where
  "entry_quote bar = (case (opi_best_bid_from_bar bar, opi_best_ask_from_bar bar) of
     (Some bid, Some ask) \<Rightarrow> if 0 < bid \<and> 0 < ask then Some (bid, ask) else None | _ \<Rightarrow> None)"

definition spread_too_wide :: "TradeConfig \<Rightarrow> f64 \<Rightarrow> f64 \<Rightarrow> bool" where
  "spread_too_wide cfg best_bid best_ask =
    (let spread = best_ask - best_bid;
         spread_ticks_gate = f64_to_i64 (f64_max (f64_round (spread / tick_of cfg)) 0);
         mid = (best_bid + best_ask) / lit 2; spread_pct = (if 0 < mid then spread / mid else 0)
     in 0 < cfg_entry_spread_max_ticks cfg \<and> cfg_entry_spread_max_ticks cfg < spread_ticks_gate
        \<or> 0 < cfg_entry_spread_max_pct cfg \<and> cfg_entry_spread_max_pct cfg < spread_pct)"

definition entry_qty :: "f64 \<Rightarrow> f64 \<Rightarrow> f64 \<Rightarrow> PendingEntry \<Rightarrow> f64" where
  "entry_qty qty_base shape_scale spread_scale entry =
    (let qty = qty_base * shape_scale;
         qty = (case pn_c_modifier entry of
             Some modifier \<Rightarrow> qty * f64_clamp (1 + modifier) (lit (1 / 5)) (lit (3 / 2)) | None \<Rightarrow> qty);
         qty = (if 0 < pn_stale_scale entry \<and> is_finite (pn_stale_scale entry)
                then qty * clamp01 (pn_stale_scale entry) else qty)
     in if spread_scale < 1 then qty * spread_scale else qty)"

definition entry_start_ticks :: "TradeConfig \<Rightarrow> f64 \<Rightarrow> int \<Rightarrow> int" where
  "entry_start_ticks cfg entry_aggr spread_ticks_price =
    (let start = (if cfg_entry_aggr_enabled cfg then
           if spread_ticks_price \<le> 1 then 0 else if spread_ticks_price = 2 then 1
           else let span = f64_of_int (max (spread_ticks_price - 1) 1)
                in f64_to_i64 (f64_clamp (f64_round (entry_aggr * span)) 0 span)
         else max (cfg_entry_tick_offset cfg) 0)
     in if 0 < spread_ticks_price then min start (max (spread_ticks_price - 1) 0) else start)"

definition theo_price_of :: "TradeConfig \<Rightarrow> PendingEntry \<Rightarrow> f64 \<Rightarrow> f64" where
  "theo_price_of cfg entry price_ref =
    (let pm_mom_price = pn_pm_mom entry * pn_base_pm entry;
         shock = (case pn_shock entry of Some s \<Rightarrow> sg_magnitude s | None \<Rightarrow> 0)
     in if 0 < pn_direction entry
        then price_ref + cfg_k_edge cfg * pn_edge_raw entry + cfg_k_mom cfg * pm_mom_price + cfg_k_shock cfg * shock
        else price_ref - cfg_k_edge cfg * pn_edge_raw entry - cfg_k_mom cfg * pm_mom_price - cfg_k_shock cfg * shock)"

definition push_price :: "f64 \<Rightarrow> f64 list \<Rightarrow> f64 list" where
  "push_price price prices = (if prices \<noteq> [] \<and> f64_eq (List.last prices) price then prices else prices @ [price])"

definition entry_price_ok :: "int \<Rightarrow> f64 \<Rightarrow> f64 \<Rightarrow> f64 \<Rightarrow> f64 \<Rightarrow> bool" where
  "entry_price_ok direction price_limit best_bid best_ask price \<longleftrightarrow>
    (if 0 < direction then price \<le> price_limit \<and> \<not> best_ask \<le> price
     else price_limit \<le> price \<and> \<not> price \<le> best_bid)"

definition entry_candidate_prices :: "TradeConfig \<Rightarrow> int \<Rightarrow> f64 \<Rightarrow> f64 \<Rightarrow> f64 \<Rightarrow> f64 \<Rightarrow> f64 \<Rightarrow> f64 list" where
  "entry_candidate_prices cfg direction price0 price_limit best_bid best_ask tick =
    (let side = (if 0 < direction then Buy else Sell);
         step_ticks = max (cfg_chase_step_ticks cfg) 1; max_steps = max (cfg_max_chase_ticks cfg) 0;
         price_at = (\<lambda>step_idx. let offset = tick * f64_of_int (step_ticks * step_idx) in
           round_price_for_side (if 0 < direction then price0 - offset else price0 + offset) side);
         prices = takeWhile (\<lambda>price. \<not> price \<le> 0) (map price_at [0..max_steps])
     in fold push_price (filter (entry_price_ok direction price_limit best_bid best_ask) prices) [])"

definition entry_row :: "TradeEnv \<Rightarrow> PendingEntry \<Rightarrow> string \<Rightarrow> string option \<Rightarrow> TradeAuditRow" where
  "entry_row env entry phase reason =
    (let bar = pn_bar entry in
     (with_signal (pn_pm_move entry) (pn_pm_mom entry) (pn_ofi_value entry)
       (audit_row (tv_now env) (pb_pair_id bar, pb_token_side bar) (Some bar) phase (pn_direction entry) reason))
     \<lparr>ar_edge_raw := Some (pn_edge_raw entry), ar_edge_norm := Some (pn_edge_norm entry)\<rparr>)"

definition with_shape :: "BookShape \<Rightarrow> TradeAuditRow \<Rightarrow> TradeAuditRow" where
  "with_shape shape row = row\<lparr>ar_book_decay := Some (bh_decay shape), ar_book_support := Some (bh_support shape),
     ar_book_scale := Some (bh_scale shape)\<rparr>"

text \<open>What \<open>maybe_enter\<close> has decided once all checks have passed.\<close>

record EntryPlan =
  ep_price :: f64
  ep_qty :: f64
  ep_candidates :: "f64 list"
  ep_gas_est :: f64
  ep_min_profit_usd :: f64
  ep_meta :: PendingEntryMeta

definition take_entry :: "PendingEntry \<Rightarrow> BookShape \<Rightarrow> EntryPlan \<Rightarrow> PairTradeState \<Rightarrow> PairTradeState" where
  "take_entry entry shape p st = st\<lparr>pt_direction := pn_direction entry, pt_entry_price := Some (ep_price p),
     pt_entry_qty := Some (ep_qty p), pt_entry_notional := Some (ep_price p * ep_qty p),
     pt_entry_bar_second := Some (pb_bar_second (pn_bar entry)), pt_pm_move_entry := Some (pn_pm_move entry),
     pt_pm_peak := Some (pn_pm_move entry), pt_book_decay := Some (bh_decay shape),
     pt_book_support := Some (bh_support shape), pt_book_scale := Some (bh_scale shape),
     pt_edge_raw := Some (pn_edge_raw entry), pt_edge_norm := Some (pn_edge_norm entry),
     pt_ofi_250ms := Some (pn_ofi_value entry), pt_min_profit_usd := Some (ep_min_profit_usd p),
     pt_alpha_type := Some (pn_alpha_type entry), pt_alpha_source := Some (pn_alpha_source entry),
     pt_shock := pn_shock entry, pt_horizon_s := pn_horizon_s entry,
     pt_entry_ttl_override_ms := pn_entry_ttl_override_ms entry\<rparr>"

definition plan_row :: "TradeEnv \<Rightarrow> PendingEntry \<Rightarrow> BookShape \<Rightarrow> EntryPlan \<Rightarrow> string \<Rightarrow> string option \<Rightarrow> TradeAuditRow" where
  "plan_row env entry shape p phase reason = (with_shape shape (entry_row env entry phase reason))
     \<lparr>ar_entry_price := Some (ep_price p), ar_entry_qty := Some (ep_qty p), ar_gas_est_usd := Some (ep_gas_est p),
      ar_min_profit_usd := Some (ep_min_profit_usd p)\<rparr>"

text \<open>The end of \<open>maybe_enter\<close>: the pool is reserved, then the order goes to the executor, or is
  simulated as working at once.\<close>

definition commit_entry :: "TradeEnv \<Rightarrow> PendingEntry \<Rightarrow> BookShape \<Rightarrow> EntryPlan \<Rightarrow> PairTradeState \<Rightarrow> TradeEngine \<Rightarrow>
    PairTradeState \<times> TradeEngine" where
  "commit_entry env entry shape p st e =
    (let cfg = te_cfg e; bar = pn_bar entry; direction = pn_direction entry;
         total_balance = cfg_balance_total_usd cfg; reserved = ep_price p * ep_qty p;
         e = reserve_entry_pool (pb_bar_second bar) total_balance reserved e;
         e = emit_row (TradeAudit (plan_row env entry shape p ''ENTRY_READY'' None)) e;
         e = emit_row (TradeAudit (plan_row env entry shape p ''ENTRY_PLACING'' None)) e
     in if is_live e then
          let st = (take_entry entry shape p st)\<lparr>pt_state := EntryPlacing, pt_pending_entry := Some entry,
                     pt_pending_entry_meta := Some (ep_meta p)\<rparr>;
              (req_id, e) = enqueue_place_chase env (pn_key entry) PlaceEntry (if 0 < direction then Buy else Sell)
                (ep_qty p) (ep_candidates p) ''E'' e
          in (case req_id of
               Some n \<Rightarrow> (st\<lparr>pt_entry_place_req_id := Some n\<rparr>, e)
             | None \<Rightarrow> (enter_cooldown (pb_bar_second bar) (cfg_cooldown_after_postonly_reject_ms cfg) st,
                 emit_row (TradeAudit (plan_row env entry shape p ''ENTRY_PLACE_FAILED'' (Some ''entry_enqueue_failed'')))
                   (release_entry_pool (pb_bar_second bar) total_balance reserved e)))
        else
          let st = (take_entry entry shape p st)\<lparr>pt_state := EntryWorking, pt_entry_ts_ms := Some (tv_now env),
                     pt_chase_count := 0\<rparr>;
              e = add_exposure (pb_pair_id bar, pb_token_side bar, direction) reserved (pn_alpha_type entry) e
          in (st, emit_row (TradeAudit (plan_row env entry shape p ''ENTRY_WORKING'' None)) e))"

text \<open>Price and size of the order, with the checks on the way (from the budget on).\<close>

definition price_entry :: "TradeEnv \<Rightarrow> PendingEntry \<Rightarrow> BookShape \<Rightarrow> f64 \<Rightarrow> f64 \<Rightarrow> f64 \<Rightarrow> f64 \<Rightarrow> PairTradeState \<Rightarrow>
    TradeEngine \<Rightarrow> PairTradeState \<times> TradeEngine" where
  "price_entry env entry shape notional spread_scale best_bid best_ask st e =
    (let cfg = te_cfg e; bar = pn_bar entry; direction = pn_direction entry; tick = tick_of cfg;
         gas_est = gas_est_usd env e; fee_bps = trade_fee_bps env;
         price_ref = (if 0 < direction then best_bid else best_ask);
         qty = entry_qty (notional / price_ref) (bh_scale shape) spread_scale entry;
         row = (\<lambda>phase reason. (with_shape shape (entry_row env entry phase (Some reason)))
           \<lparr>ar_entry_qty := Some qty, ar_gas_est_usd := Some gas_est\<rparr>)
     in if qty \<le> 0 then (st, e)
        else if cfg_gas_emergency_pause_enabled cfg \<and> 0 < cfg_gas_emergency_max_usd cfg
                \<and> cfg_gas_emergency_max_usd cfg \<le> gas_est
        then (st, emit_row (TradeAudit (row ''ENTRY_BLOCKED_GAS_EMERGENCY'' ''gas_emergency_pause'')) e)
        else
          let fee_est = fee_bps / lit 10000 * price_ref * qty * lit 2;
              min_profit_usd = gas_est * cfg_gas_mult cfg + cfg_gas_buffer_usd cfg + fee_est;
              min_profit_mult = f64_max (pn_cost_mult entry) 1;
              theo_price = theo_price_of cfg entry price_ref;
              expected = (if pn_alpha_type entry = ShockA
                then f64_of_int direction * (theo_price - price_ref) - opi_edge_band_px cfg bar else pn_edge_raw entry);
              min_profit_per_unit = min_profit_usd * min_profit_mult / qty;
              price_limit = (if 0 < direction then theo_price - min_profit_per_unit else theo_price + min_profit_per_unit);
              spread_ticks_price = f64_to_i64 (f64_max (f64_floor ((best_ask - best_bid) / tick)) 1);
              entry_aggr = (if cfg_entry_aggr_enabled cfg then entry_aggressiveness cfg entry (tv_now env) else 0);
              start_ticks = entry_start_ticks cfg entry_aggr spread_ticks_price;
              base_price = step_price direction price_ref tick start_ticks;
              price0 = (if 0 < direction then f64_min base_price price_limit else f64_max base_price price_limit);
              candidates = entry_candidate_prices cfg direction price0 price_limit best_bid best_ask tick
          in if candidates = [] \<or> \<not> 0 < hd candidates
             then (enter_cooldown (pb_bar_second bar) (cfg_cooldown_after_postonly_reject_ms cfg) st,
                   emit_row (TradeAudit ((row ''ENTRY_REJECTED'' ''post_only_reject'')
                     \<lparr>ar_min_profit_usd := Some min_profit_usd\<rparr>)) e)
             else
               let entry_price = hd candidates; min_notional = cfg_min_order_notional_usd cfg;
                   notional_now = entry_price * qty; min_qty = min_notional / entry_price;
                   max_qty = notional / entry_price; small = (0 < min_notional \<and> notional_now < min_notional);
                   priced = (\<lambda>q phase reason. (row phase reason)\<lparr>ar_entry_price := Some entry_price,
                     ar_entry_qty := Some q\<rparr>)
               in if small \<and> \<not> (0 < min_qty \<and> min_qty \<le> max_qty)
                  then (st, emit_row (TradeAudit (priced qty ''ENTRY_BLOCKED_NOTIONAL'' ''min_notional'')) e)
                  else
                    let qty' = (if small then min_qty else qty) in
                    if expected * qty' < min_profit_usd * min_profit_mult
                    then (st, emit_row (TradeAudit ((priced qty' ''ENTRY_BLOCKED_GAS'' ''edge_lt_min_profit'')
                           \<lparr>ar_min_profit_usd := Some min_profit_usd\<rparr>)) e)
                    else commit_entry env entry shape \<lparr>ep_price = entry_price, ep_qty = qty', ep_candidates = candidates,
                           ep_gas_est = gas_est, ep_min_profit_usd = min_profit_usd,
                           ep_meta = \<lparr>pm_theo_price = theo_price, pm_price_limit = price_limit,
                             pm_price_ref = price_ref, pm_tick_px = tick\<rparr>\<rparr> st e)"

definition maybe_enter :: "TradeEnv \<Rightarrow> PairTradeState \<Rightarrow> PendingEntry \<Rightarrow> f64 option \<Rightarrow> TradeEngine \<Rightarrow>
    PairTradeState \<times> TradeEngine" where
  "maybe_enter env st entry pool_override e =
    (let cfg = te_cfg e; bar = pn_bar entry; direction = pn_direction entry; now_ms = tv_now env in
     if 0 < cfg_per_pair_min_interval_ms cfg
        \<and> (case pt_last_entry_attempt_ms st of Some seen \<Rightarrow> i64_sat (now_ms - seen) < cfg_per_pair_min_interval_ms cfg
           | None \<Rightarrow> False) then (st, e)
     else let st = st\<lparr>pt_last_entry_attempt_ms := Some now_ms\<rparr> in
     if direction = 0 \<or> \<not> (case pn_opi_mid entry of Some v \<Rightarrow> 0 < v | None \<Rightarrow> False) then (st, e)
     else case (case book_shape cfg bar direction of Some shape \<Rightarrow> if 0 < bh_scale shape then Some shape else None
                | None \<Rightarrow> None) of
       None \<Rightarrow> (st, emit_row (TradeAudit (entry_row env entry ''ENTRY_BLOCKED_BOOK'' (Some ''book_shape_block''))) e)
     | Some shape \<Rightarrow>
       let (budget, e) = budget_for_entry (pb_pair_id bar, pb_token_side bar, direction) (pb_bar_second bar)
             pool_override (pn_alpha_type entry) e
       in (case (budget, entry_quote bar) of
            (Some b, Some (best_bid, best_ask)) \<Rightarrow>
              if best_ask - best_bid \<le> 0 then (st, e)
              else if spread_too_wide cfg best_bid best_ask then
                if 0 < cfg_entry_spread_size_scale cfg
                then price_entry env entry shape (bn_notional b) (clamp01 (cfg_entry_spread_size_scale cfg))
                       best_bid best_ask st e
                else (st, emit_row (TradeAudit (with_shape shape
                       (entry_row env entry ''ENTRY_BLOCKED_SPREAD'' (Some ''spread_wide'')))) e)
              else price_entry env entry shape (bn_notional b) 1 best_bid best_ask st e
          | _ \<Rightarrow> (st, e)))"

end
