(* ===== verification/TradeWatch.thy ===== *)
theory TradeWatch
  imports TradeEntry
begin

text \<open>
  The watch over working orders of the trading engine (\<open>src/trade/mod.rs\<close>): the triggers read from a
  bar, the cancellation of an entry, entry fills, and \<open>check_entry\<close>.
\<close>

section \<open>Triggers\<close>

definition side_of :: "int \<Rightarrow> 'a \<Rightarrow> 'a \<Rightarrow> 'a" where
  "side_of direction long short = (if 0 < direction then long else short)"

definition ofi_low_trigger :: "TradeConfig \<Rightarrow> int \<Rightarrow> f64 \<Rightarrow> bool" where
  "ofi_low_trigger cfg direction ofi_value \<longleftrightarrow>
    side_of direction (ofi_value \<le> cfg_ofi_cancel_low cfg) (- cfg_ofi_cancel_low cfg \<le> ofi_value)"

definition ofi_med_trigger :: "TradeConfig \<Rightarrow> int \<Rightarrow> f64 \<Rightarrow> bool" where
  "ofi_med_trigger cfg direction ofi_value \<longleftrightarrow>
    side_of direction (ofi_value \<le> cfg_ofi_cancel_med cfg) (- cfg_ofi_cancel_med cfg \<le> ofi_value)"

definition aggressive_flow :: "TradeConfig \<Rightarrow> Bars1sPair \<Rightarrow> int \<Rightarrow> f64 \<Rightarrow> f64 \<Rightarrow> bool" where
  "aggressive_flow cfg bar direction pm_mom ofi_value \<longleftrightarrow>
    (let get = (\<lambda>f. unwrap_or (f bar) 0); usd = cfg_trade_cancel_usd cfg;
         low = ofi_low_trigger cfg direction ofi_value;
         mom_bad = side_of direction (pm_mom < 0) (0 < pm_mom);
         slope_against = side_of direction (get pb_poly_mid_slope_250ms < 0) (0 < get pb_poly_mid_slope_250ms);
         added = side_of direction (get pb_poly_ask_delta_notional_250ms) (get pb_poly_bid_delta_notional_250ms)
     in usd \<le> get pb_poly_max_trade_notional_250ms
        \<or> 0 < direction \<and> usd \<le> get pb_poly_sell_notional_250ms
        \<or> direction < 0 \<and> usd \<le> get pb_poly_buy_notional_250ms
        \<or> low \<and> (mom_bad \<or> slope_against) \<or> cfg_ask_add_usd cfg \<le> added \<and> low)"

definition bid_withdraw :: "TradeConfig \<Rightarrow> Bars1sPair \<Rightarrow> int \<Rightarrow> f64 \<Rightarrow> bool" where
  "bid_withdraw cfg bar direction ofi_value \<longleftrightarrow>
    side_of direction (unwrap_or (pb_poly_bid_delta_notional_250ms bar) 0)
        (unwrap_or (pb_poly_ask_delta_notional_250ms bar) 0) \<le> - cfg_bid_withdraw_usd cfg
    \<and> ofi_med_trigger cfg direction ofi_value"

definition book_bad :: "TradeConfig \<Rightarrow> Bars1sPair \<Rightarrow> int \<Rightarrow> bool" where
  "book_bad cfg bar direction \<longleftrightarrow>
    (case book_shape cfg bar direction of Some shape \<Rightarrow> bh_scale shape \<le> 0 | None \<Rightarrow> True)"

definition opt_holds :: "('a \<Rightarrow> bool) \<Rightarrow> 'a option \<Rightarrow> bool" where
  "opt_holds P x \<longleftrightarrow> (case x of Some v \<Rightarrow> P v | None \<Rightarrow> False)"

definition opi_cancel_reason :: "TradeConfig \<Rightarrow> PairTradeState \<Rightarrow> OpiDerived \<Rightarrow> int \<Rightarrow> string option" where
  "opi_cancel_reason cfg st s direction =
    (let up = (0 < direction);
         against = (\<lambda>lim v. side_of direction (v \<le> - lim) (direction < 0 \<and> lim \<le> v));
         edge_bps = (case (pt_entry_price st, od_mid s) of
             (Some entry, Some mid) \<Rightarrow> if 0 < mid then Some (if up then (mid - entry) / mid * lit 10000
               else (entry - mid) / mid * lit 10000) else None
           | _ \<Rightarrow> None)
     in if opt_holds (against (cfg_opi_mid_ret_cancel_bps cfg)) (od_mid_ret_bps_1s s) then Some ''opi_mid_ret''
        else if opt_holds (\<lambda>v. v \<le> cfg_opi_spread_bps_min cfg) (od_spread_bps s) then Some ''opi_spread''
        else if opt_holds (\<lambda>v. v \<le> cfg_opi_edge_min_bps cfg) edge_bps then Some ''opi_edge''
        else if opt_holds (against (cfg_opi_imbalance_cancel cfg)) (or_else (od_imbalance_l1 s) (od_imbalance_l3 s))
        then Some ''opi_imbalance''
        else if (if up then opt_holds (\<lambda>v. v \<le> - cfg_opi_bid_withdraw_usd cfg) (od_bid_delta s)
                     \<or> opt_holds (\<lambda>v. cfg_opi_ask_add_usd cfg \<le> v) (od_ask_delta s)
                 else opt_holds (\<lambda>v. cfg_opi_ask_add_usd cfg \<le> v) (od_bid_delta s)
                     \<or> opt_holds (\<lambda>v. v \<le> - cfg_opi_bid_withdraw_usd cfg) (od_ask_delta s))
        then Some ''opi_depth_flow''
        else if (if up then cfg_opi_taker_sell_cancel_usd cfg \<le> unwrap_or (od_taker_sell_notional_1s s) 0
                     \<or> opt_holds (\<lambda>v. v \<le> - cfg_opi_trade_imbalance_cancel cfg) (od_trade_imbalance_1s s)
                 else cfg_opi_taker_buy_cancel_usd cfg \<le> unwrap_or (od_taker_buy_notional_1s s) 0
                     \<or> opt_holds (\<lambda>v. cfg_opi_trade_imbalance_cancel cfg \<le> v) (od_trade_imbalance_1s s))
        then Some ''opi_taker_flow'' else None)"

definition alpha_decay_reason :: "TradeConfig \<Rightarrow> PairTradeState \<Rightarrow> f64 \<Rightarrow> string option" where
  "alpha_decay_reason cfg st pm_mom =
    (let mom_floor = f64_max (cfg_entry_cancel_mom_floor cfg) (lit (1 / 10 ^ 12));
         shock_floor = f64_max (cfg_entry_cancel_shock_floor cfg) (lit (1 / 10 ^ 12));
         mom_abs = f64_max \<bar>pm_mom\<bar> mom_floor
     in if pt_alpha_type st = Some ShockA \<and> 0 < cfg_entry_cancel_shock_mom_ratio_min cfg
           \<and> opt_holds (\<lambda>shock. mom_abs / f64_max \<bar>sg_magnitude shock\<bar> shock_floor
                         < cfg_entry_cancel_shock_mom_ratio_min cfg) (pt_shock st)
        then Some ''alpha_decay_mom_over_shock''
        else if 0 < cfg_entry_cancel_mom_decay_min cfg
           \<and> opt_holds (\<lambda>entry_mom. mom_abs / f64_max \<bar>entry_mom\<bar> mom_floor < cfg_entry_cancel_mom_decay_min cfg)
               (pt_pm_mom_entry st)
        then Some ''alpha_decay_mom_entry'' else None)"

definition entry_cancel_reason :: "PairTradeState \<Rightarrow> Bars1sPair \<Rightarrow> f64 \<Rightarrow> f64 \<Rightarrow> f64 \<Rightarrow> trade_key \<Rightarrow> TradeEngine \<Rightarrow>
    string option" where
  "entry_cancel_reason st bar pm_move pm_mom ofi_value pair_key e =
    (let cfg = te_cfg e; direction = pt_direction st;
         opi_fresh = (pb_opi_bar_gap_flag bar = 0
           \<and> opt_holds (\<lambda>s. s \<le> cfg_opi_cancel_staleness_ms cfg) (pb_opi_staleness_ms bar));
         decay = alpha_decay_reason cfg st pm_mom;
         opi = (if opi_fresh then opi_cancel_reason cfg st (derive_opi_signals st bar) direction else None)
     in if pt_alpha_type st = Some ShockA \<and> reverse_shock_active pair_key (pb_bar_second bar) direction e
        then Some ''reverse_shock''
        else if decay \<noteq> None then decay
        else if aggressive_flow cfg bar direction pm_mom ofi_value then Some ''aggressive_flow''
        else if opt_holds (\<lambda>ratio. cfg_retrace_cancel cfg \<le> ratio) (retrace_ratio pm_move (pt_pm_peak st) direction)
        then Some ''retrace_cancel''
        else if bid_withdraw cfg bar direction ofi_value then Some ''bid_withdraw''
        else if opi \<noteq> None then opi
        else if book_bad cfg bar direction then Some ''book_shape_deterioration'' else None)"

section \<open>Cancelling\<close>

definition cancel_priority_for :: "string \<Rightarrow> int" where
  "cancel_priority_for reason =
    (if reason = ''reverse_shock'' then 1 else if reason = ''aggressive_flow'' then 2
     else if reason = ''retrace_cancel'' \<or> reason = ''retrace_exit'' then 3
     else if reason = ''bid_withdraw'' then 4 else if prefix ''opi_'' reason then 5
     else if reason = ''book_shape_deterioration'' then 6 else if reason = ''ttl'' then 7 else 9)"

definition emit_cancel_snapshot :: "TradeEnv \<Rightarrow> PairTradeState \<Rightarrow> Bars1sPair \<Rightarrow> string \<Rightarrow> string \<Rightarrow> string option \<Rightarrow>
    string option \<Rightarrow> f64 \<Rightarrow> f64 \<Rightarrow> TradeEngine \<Rightarrow> TradeEngine" where
  "emit_cancel_snapshot env st bar reason order_role order_id client_id pm_move ofi_value e =
    (let cfg = te_cfg e; direction = pt_direction st; shape = book_shape cfg bar direction;
         spread_ticks = (case (opi_best_bid_from_bar bar, opi_best_ask_from_bar bar) of
             (Some bid, Some ask) \<Rightarrow> if bid < ask \<and> 0 < tick_of cfg
                then Some (f64_to_i64 (f64_round ((ask - bid) / tick_of cfg))) else None
           | _ \<Rightarrow> None)
     in emit_row (CancelTriggerSnapshot \<lparr>cs_event_ts_ms = tv_now env, cs_pair_id = pb_pair_id bar,
          cs_token_side = pb_token_side bar, cs_direction = direction, cs_order_role = order_role,
          cs_order_id = order_id, cs_client_id = client_id, cs_cancel_reason = reason,
          cs_cancel_priority = cancel_priority_for reason, cs_ofi_250ms = Some ofi_value,
          cs_pm_sell_trade_notional_250ms = pb_poly_sell_notional_250ms bar,
          cs_pm_retrace_ratio = retrace_ratio pm_move (pt_pm_peak st) direction,
          cs_delta_bid_notional_250ms = pb_poly_bid_delta_notional_250ms bar,
          cs_delta_ask_notional_250ms = pb_poly_ask_delta_notional_250ms bar,
          cs_opi_book_decay = (case shape of Some sh \<Rightarrow> Some (bh_decay sh) | None \<Rightarrow> pt_book_decay st),
          cs_opi_book_support = (case shape of Some sh \<Rightarrow> Some (bh_support sh) | None \<Rightarrow> pt_book_support st),
          cs_opi_spread_ticks = spread_ticks\<rparr>) e)"

definition state_row :: "TradeEnv \<Rightarrow> PairTradeState \<Rightarrow> Bars1sPair \<Rightarrow> f64 \<Rightarrow> f64 \<Rightarrow> f64 \<Rightarrow> string \<Rightarrow> string option \<Rightarrow>
    TradeAuditRow" where
  "state_row env st bar pm_move pm_mom ofi_value phase reason = with_state st (with_signal pm_move pm_mom ofi_value
     (audit_row (tv_now env) (pb_pair_id bar, pb_token_side bar) (Some bar) phase (pt_direction st) reason))"

definition finalize_entry_cancel :: "TradeEnv \<Rightarrow> PairTradeState \<Rightarrow> Bars1sPair \<Rightarrow> f64 \<Rightarrow> f64 \<Rightarrow> f64 \<Rightarrow> string \<Rightarrow>
    trade_key \<Rightarrow> TradeEngine \<Rightarrow> PairTradeState \<times> TradeEngine" where
  "finalize_entry_cancel env st bar pm_move pm_mom ofi_value reason pair_key e =
    (let cfg = te_cfg e;
         row = (\<lambda>st phase reason. (state_row env st bar pm_move pm_mom ofi_value phase (Some reason))
           \<lparr>ar_decay_factor := entry_decay_factor cfg (tv_now env) st, ar_mae := pt_mae st, ar_mfe := pt_mfe st\<rparr>);
         (st, e) = release_held (fst pair_key, snd pair_key, pt_direction st) st e;
         e = emit_row (TradeAudit (row st ''ENTRY_CANCEL'' reason)) e;
         st = enter_cooldown (pb_bar_second bar) (cfg_cooldown_after_cancel_ms cfg) st
     in (st, emit_row (TradeAudit (row st ''COOLDOWN'' (''after_cancel:'' @ reason))) e))"

definition request_entry_cancel :: "TradeEnv \<Rightarrow> PairTradeState \<Rightarrow> Bars1sPair \<Rightarrow> f64 \<Rightarrow> f64 \<Rightarrow> f64 \<Rightarrow> string \<Rightarrow>
    trade_key \<Rightarrow> TradeEngine \<Rightarrow> PairTradeState \<times> TradeEngine" where
  "request_entry_cancel env st bar pm_move pm_mom ofi_value reason pair_key e =
    (let (st, e) = (if \<not> pt_entry_cancel_pending st then
           let st = st\<lparr>pt_entry_cancel_pending := True, pt_entry_cancel_reason := Some reason\<rparr>
           in (st, emit_cancel_snapshot env st bar reason ''ENTRY'' (pt_entry_order_id st) (pt_entry_client_id st)
                     pm_move ofi_value e)
         else if pt_entry_cancel_reason st = None then (st\<lparr>pt_entry_cancel_reason := Some reason\<rparr>, e)
         else (st, e))
     in if \<not> is_live e then finalize_entry_cancel env st bar pm_move pm_mom ofi_value reason pair_key e
        else maybe_enqueue_entry_cancel env st e)"

section \<open>Fills of an entry\<close>

definition fill_side_matches :: "int \<Rightarrow> string option \<Rightarrow> bool" where
  "fill_side_matches direction side \<longleftrightarrow> (let want_buy = (0 < direction) in case side of None \<Rightarrow> False
   | Some raw \<Rightarrow> if ascii_lower raw = ''buy'' then want_buy
                 else if ascii_lower raw = ''sell'' then \<not> want_buy
                 else if raw = ''0'' then want_buy
                 else if raw = ''1'' then \<not> want_buy else False)"

definition fill_matches :: "string option \<Rightarrow> string option \<Rightarrow> int \<Rightarrow> TradeFill \<Rightarrow> bool" where
  "fill_matches order_id client_id direction fill \<longleftrightarrow>
     (order_id \<noteq> None \<and> tf_order_id fill = order_id \<or> client_id \<noteq> None \<and> tf_client_order_id fill = client_id)
     \<and> fill_side_matches direction (tf_side fill)"

definition fill_entry :: "millis \<Rightarrow> f64 \<Rightarrow> TradeFill \<Rightarrow> PairTradeState \<Rightarrow> PairTradeState" where
  "fill_entry now_ms pm_move fill st =
    (let st = st\<lparr>pt_entry_cancel_pending := False, pt_entry_cancel_reason := None, pt_entry_cancel_req_id := None,
                 pt_state := PositionOpen, pt_entry_price := or_else (tf_price fill) (pt_entry_price st)\<rparr>;
         st = (case tf_size fill of None \<Rightarrow> st
           | Some filled \<Rightarrow> st\<lparr>pt_entry_qty := Some filled,
               pt_entry_notional := map_option (\<lambda>p. p * filled) (pt_entry_price st)\<rparr>)
     in st\<lparr>pt_entry_ts_ms := or_else (tf_ts_ms fill) (Some now_ms), pt_pm_move_entry := Some pm_move\<rparr>)"

definition apply_entry_fills :: "TradeEnv \<Rightarrow> PairTradeState \<Rightarrow> Bars1sPair \<Rightarrow> f64 \<Rightarrow> f64 \<Rightarrow> f64 \<Rightarrow> TradeFill list \<Rightarrow>
    TradeEngine \<Rightarrow> bool \<times> PairTradeState \<times> TradeEngine" where
  "apply_entry_fills env st bar pm_move pm_mom ofi_value fills e =
    (if pt_entry_order_id st = None \<and> pt_entry_client_id st = None then (False, st, e)
     else case List.find (fill_matches (pt_entry_order_id st) (pt_entry_client_id st) (pt_direction st)) fills of
       None \<Rightarrow> (False, st, e)
     | Some fill \<Rightarrow>
       let st = fill_entry (tv_now env) pm_move fill st;
           row = (\<lambda>phase. TradeAudit (state_row env st bar pm_move pm_mom ofi_value phase None))
       in (True, st, emit_row (row ''POSITION_OPEN'') (emit_row (row ''ENTRY_FILLED'') e)))"

section \<open>Watching an entry\<close>

definition sim_fill_price :: "Bars1sPair \<Rightarrow> int \<Rightarrow> f64 option" where
  "sim_fill_price bar direction = or_else (or_else (pb_opi_last_price bar)
     (side_of direction (opi_best_ask_from_bar bar) (opi_best_bid_from_bar bar))) (opi_mid_from_bar bar)"

definition sim_entry_fill :: "TradeEnv \<Rightarrow> PairTradeState \<Rightarrow> Bars1sPair \<Rightarrow> f64 \<Rightarrow> f64 \<Rightarrow> f64 \<Rightarrow> TradeEngine \<Rightarrow>
    PairTradeState \<times> TradeEngine" where
  "sim_entry_fill env st bar pm_move pm_mom ofi_value e =
    (let direction = pt_direction st; fill_price = sim_fill_price bar direction;
         filled = (case (pt_entry_price st, fill_price) of
             (Some entry_price, Some price) \<Rightarrow> if direction = 1 then price \<le> entry_price
               else if direction = - 1 then entry_price \<le> price else False
           | _ \<Rightarrow> False);
         ratio = retrace_ratio pm_move (pt_pm_peak st) direction
     in if \<not> filled then (st, e)
        else let st = st\<lparr>pt_state := PositionOpen, pt_entry_price := or_else fill_price (pt_entry_price st),
                         pt_entry_ts_ms := Some (tv_now env), pt_pm_move_entry := Some pm_move\<rparr>;
                 row = (\<lambda>phase. TradeAudit ((state_row env st bar pm_move pm_mom ofi_value phase None)
                   \<lparr>ar_retrace_ratio := ratio\<rparr>))
             in (st, emit_row (row ''POSITION_OPEN'') (emit_row (row ''ENTRY_FILLED'') e)))"

definition entry_ttl_expired :: "TradeEnv \<Rightarrow> PairTradeState \<Rightarrow> TradeEngine \<Rightarrow> bool" where
  "entry_ttl_expired env st e \<longleftrightarrow>
    (let ttl = unwrap_or (pt_entry_ttl_override_ms st) (entry_ttl_ms_for (te_cfg e) (pt_alpha_type st))
     in 0 < ttl \<and> opt_holds (\<lambda>ts. ttl \<le> i64_sat (tv_now env - ts)) (pt_entry_ts_ms st))"

definition watch_entry :: "TradeEnv \<Rightarrow> PairTradeState \<Rightarrow> Bars1sPair \<Rightarrow> f64 \<Rightarrow> f64 \<Rightarrow> f64 \<Rightarrow> trade_key \<Rightarrow>
    TradeEngine \<Rightarrow> PairTradeState \<times> TradeEngine" where
  "watch_entry env st bar pm_move pm_mom ofi_value pair_key e =
    (if entry_ttl_expired env st e
     then request_entry_cancel env st bar pm_move pm_mom ofi_value ''ttl'' pair_key e
     else case entry_cancel_reason st bar pm_move pm_mom ofi_value pair_key e of
       Some reason \<Rightarrow> request_entry_cancel env st bar pm_move pm_mom ofi_value reason pair_key e
     | None \<Rightarrow> if is_live e then (st, e) else sim_entry_fill env st bar pm_move pm_mom ofi_value e)"

definition check_entry :: "TradeEnv \<Rightarrow> PairTradeState \<Rightarrow> Bars1sPair \<Rightarrow> f64 \<Rightarrow> f64 \<Rightarrow> f64 \<Rightarrow> trade_key \<Rightarrow>
    TradeEngine \<Rightarrow> PairTradeState \<times> TradeEngine" where
  "check_entry env st bar pm_move pm_mom ofi_value pair_key e =
    (if pt_direction st = 0 then (reset_for_idle st, e)
     else if is_live e then
       if pt_entry_place_req_id st \<noteq> None then (st, e)
       else let (st, e) = maybe_enqueue_fill_poll env st pair_key FillEntry e
            in if pt_entry_cancel_pending st then maybe_enqueue_entry_cancel env st e
               else watch_entry env st bar pm_move pm_mom ofi_value pair_key e
     else if pt_entry_cancel_pending st
       then finalize_entry_cancel env st bar pm_move pm_mom ofi_value
              (unwrap_or (pt_entry_cancel_reason st) ''entry_cancel'') pair_key e
     else watch_entry env st bar pm_move pm_mom ofi_value pair_key e)"

end
