(* ===== verification/TradeExit.thy ===== *)
theory TradeExit
  imports TradeWatch
begin

text \<open>
  Exits of the trading engine (\<open>src/trade/mod.rs\<close>): the fills of an exit and \<open>check_exit\<close>, which prices
  an exit, replaces or accelerates its order, and simulates the fill when the engine is not live.
\<close>

section \<open>Closing\<close>

definition pnl_net_of :: "TradeEnv \<Rightarrow> int \<Rightarrow> f64 \<Rightarrow> f64 \<Rightarrow> f64 \<Rightarrow> f64 \<Rightarrow> f64" where
  "pnl_net_of env direction entry_price exit_price_final qty gas_est =
    (let pnl = f64_of_int direction * (exit_price_final - entry_price) * qty;
         fee = trade_fee_bps env / lit 10000 * (entry_price * qty + exit_price_final * qty)
     in pnl - fee - gas_est)"

definition holding_ms_of :: "TradeEnv \<Rightarrow> PairTradeState \<Rightarrow> int option" where
  "holding_ms_of env st = map_option (\<lambda>ts. max (tv_now env - ts) 0) (pt_entry_ts_ms st)"

definition apply_exit_fills :: "TradeEnv \<Rightarrow> PairTradeState \<Rightarrow> Bars1sPair \<Rightarrow> f64 \<Rightarrow> f64 \<Rightarrow> f64 \<Rightarrow> f64 \<Rightarrow>
    TradeFill list \<Rightarrow> TradeEngine \<Rightarrow> PairTradeState \<times> TradeEngine" where
  "apply_exit_fills env st bar pm_move pm_mom ofi_value gas_est fills e =
    (if pt_exit_order_id st = None \<and> pt_exit_client_id st = None then (st, e)
     else case List.find (fill_matches (pt_exit_order_id st) (pt_exit_client_id st) (- pt_direction st)) fills of
       None \<Rightarrow> (st, e)
     | Some fill \<Rightarrow>
       let st = st\<lparr>pt_exit_cancel_pending := False, pt_exit_cancel_reason := None, pt_exit_cancel_req_id := None\<rparr>
       in (case (pt_entry_price st, pt_entry_qty st) of
         (Some entry_price, Some qty) \<Rightarrow>
           let exit_price_final = unwrap_or (or_else (tf_price fill) (pt_exit_price st)) entry_price;
               pnl_net = pnl_net_of env (pt_direction st) entry_price exit_price_final qty gas_est;
               holding_ms = holding_ms_of env st;
               row = (\<lambda>st phase reason. TradeAudit ((state_row env st bar pm_move pm_mom ofi_value phase reason)
                 \<lparr>ar_exit_price_target := pt_exit_price_target st, ar_exit_price := Some exit_price_final,
                  ar_gas_est_usd := Some gas_est, ar_pnl_usd_net := Some pnl_net, ar_holding_ms := holding_ms,
                  ar_mae := pt_mae st, ar_mfe := pt_mfe st\<rparr>));
               e = emit_row (row st ''EXIT_FILLED'' None) e;
               (st, e) = release_held (pb_pair_id bar, pb_token_side bar, pt_direction st) st e;
               st = enter_cooldown (pb_bar_second bar) (cfg_cooldown_after_exit_ms (te_cfg e)) st
           in (st, emit_row (row st ''COOLDOWN'' (Some ''after_exit'')) e)
       | _ \<Rightarrow> (st, e)))"

section \<open>Pricing an exit\<close>

text \<open>What \<open>check_exit\<close> works out before it acts.\<close>

record ExitView =
  xv_entry_price :: f64
  xv_qty :: f64
  xv_gas_est :: f64
  xv_target :: f64
  xv_exit_price :: f64
  xv_reason :: "string option"
  xv_ttl_expired :: bool
  xv_retrace :: "f64 option"
  xv_inv_ratio :: "f64 option"
  xv_inv_factor :: "f64 option"
  xv_decay_factor :: "f64 option"

definition track_excursion :: "Bars1sPair \<Rightarrow> f64 \<Rightarrow> f64 \<Rightarrow> PairTradeState \<Rightarrow> PairTradeState" where
  "track_excursion bar entry_price qty st = (case opi_mid_from_bar bar of None \<Rightarrow> st
   | Some price \<Rightarrow> let pnl = f64_of_int (pt_direction st) * (price - entry_price) * qty
     in st\<lparr>pt_mae := Some (case pt_mae st of Some v \<Rightarrow> f64_min v pnl | None \<Rightarrow> pnl),
           pt_mfe := Some (case pt_mfe st of Some v \<Rightarrow> f64_max v pnl | None \<Rightarrow> pnl)\<rparr>)"

definition exit_reason_of :: "PairTradeState \<Rightarrow> Bars1sPair \<Rightarrow> f64 option \<Rightarrow> f64 \<Rightarrow> f64 \<Rightarrow> trade_key \<Rightarrow> bool \<Rightarrow>
    TradeEngine \<Rightarrow> string option" where
  "exit_reason_of st bar retrace pm_mom ofi_value pair_key ttl_expired e =
    (let cfg = te_cfg e; direction = pt_direction st in
     if pt_alpha_type st = Some ShockA \<and> reverse_shock_active pair_key (pb_bar_second bar) direction e
     then Some ''reverse_shock''
     else if aggressive_flow cfg bar direction pm_mom ofi_value then Some ''aggressive_flow''
     else if opt_holds (\<lambda>ratio. cfg_retrace_exit cfg \<le> ratio) retrace then Some ''retrace_exit''
     else if bid_withdraw cfg bar direction ofi_value then Some ''bid_withdraw''
     else if book_bad cfg bar direction then Some ''book_shape_deterioration''
     else if ttl_expired then Some ''ttl'' else None)"

definition exit_price_of :: "TradeConfig \<Rightarrow> Bars1sPair \<Rightarrow> int \<Rightarrow> f64 \<Rightarrow> f64" where
  "exit_price_of cfg bar direction target =
    (let tick = tick_of cfg; offset = f64_of_int (max (cfg_exit_tick_offset cfg) 0) * tick;
         bid = opi_best_bid_from_bar bar; ask = opi_best_ask_from_bar bar in
     if 0 < direction then
       let candidate = (case ask of Some a \<Rightarrow> a - offset | None \<Rightarrow> target);
           candidate = (case bid of Some b \<Rightarrow> if candidate \<le> b then b + tick else candidate | None \<Rightarrow> candidate)
       in f64_max candidate target
     else
       let candidate = (case bid of Some b \<Rightarrow> b + offset | None \<Rightarrow> target);
           candidate = (case ask of Some a \<Rightarrow> if a \<le> candidate then a - tick else candidate | None \<Rightarrow> candidate)
       in f64_min candidate target)"

definition view_exit :: "TradeEnv \<Rightarrow> PairTradeState \<Rightarrow> Bars1sPair \<Rightarrow> f64 \<Rightarrow> f64 \<Rightarrow> f64 \<Rightarrow> f64 \<Rightarrow> trade_key \<Rightarrow> f64 \<Rightarrow> f64 \<Rightarrow>
    TradeEngine \<Rightarrow> ExitView \<times> PairTradeState" where
  "view_exit env st bar pm_move pm_mom ofi_value base_pm pair_key entry_price qty e =
    (let cfg = te_cfg e; now_ms = tv_now env;
         st = track_excursion bar entry_price qty st;
         gas_est = gas_est_usd env e;
         (target_price, inv_ratio, inv_factor, decay_factor) = compute_exit_target env st pm_move pm_mom base_pm gas_est e;
         st = (case target_price of Some t \<Rightarrow> st\<lparr>pt_exit_price_target := Some t\<rparr> | None \<Rightarrow> st);
         retrace = retrace_ratio pm_move (pt_pm_peak st) (pt_direction st);
         target = unwrap_or (pt_exit_price_target st) entry_price;
         ttl_expired = (0 < cfg_exit_ttl_ms cfg
           \<and> opt_holds (\<lambda>placed. cfg_exit_ttl_ms cfg \<le> i64_sat (now_ms - placed)) (pt_last_exit_place_ms st));
         reason = exit_reason_of st bar retrace pm_mom ofi_value pair_key ttl_expired e;
         target = (if reason \<noteq> None \<and> reason \<noteq> Some ''ttl''
           then entry_price + (target - entry_price) * lit (7 / 10) else target)
     in (\<lparr>xv_entry_price = entry_price, xv_qty = qty, xv_gas_est = gas_est, xv_target = target,
          xv_exit_price = exit_price_of cfg bar (pt_direction st) target, xv_reason = reason,
          xv_ttl_expired = ttl_expired, xv_retrace = retrace, xv_inv_ratio = inv_ratio,
          xv_inv_factor = inv_factor, xv_decay_factor = decay_factor\<rparr>, st))"

section \<open>Acting on an exit\<close>

definition exit_row :: "TradeEnv \<Rightarrow> PairTradeState \<Rightarrow> Bars1sPair \<Rightarrow> f64 \<Rightarrow> f64 \<Rightarrow> f64 \<Rightarrow> ExitView \<Rightarrow> string \<Rightarrow>
    string option \<Rightarrow> TradeAuditRow" where
  "exit_row env st bar pm_move pm_mom ofi_value v phase reason =
    (state_row env st bar pm_move pm_mom ofi_value phase reason)
     \<lparr>ar_exit_price_target := Some (xv_target v), ar_exit_price := Some (xv_exit_price v),
      ar_gas_est_usd := Some (xv_gas_est v), ar_retrace_ratio := xv_retrace v, ar_inv_ratio := xv_inv_ratio v,
      ar_inv_factor := xv_inv_factor v, ar_decay_factor := xv_decay_factor v, ar_mae := pt_mae st, ar_mfe := pt_mfe st\<rparr>"

text \<open>The direct placement, twice in \<open>check_exit\<close>: a retry of a missing order, and the first order.\<close>

definition place_exit :: "TradeEnv \<Rightarrow> PairTradeState \<Rightarrow> Bars1sPair \<Rightarrow> f64 \<Rightarrow> f64 \<Rightarrow> f64 \<Rightarrow> trade_key \<Rightarrow> ExitView \<Rightarrow>
    string \<Rightarrow> string \<Rightarrow> TradeEngine \<Rightarrow> PairTradeState \<times> TradeEngine" where
  "place_exit env st bar pm_move pm_mom ofi_value pair_key v phase default_err e =
    (let direction = pt_direction st;
         st = st\<lparr>pt_last_exit_place_ms := Some (tv_now env)\<rparr>;
         (r, e) = place_exit_with_chase env pair_key (if 0 < direction then Sell else Buy) (xv_exit_price v) (xv_qty v)
           bar direction (tick_of (te_cfg e)) e
     in (case pr_order r of
           Some order \<Rightarrow> (st\<lparr>pt_exit_order_id := Some (po_order_id order),
               pt_exit_client_id := or_else (po_client_order_id order) (pr_client_id_used r),
               pt_exit_price := or_else (pr_price_used r) (pt_exit_price st)\<rparr>, e)
         | None \<Rightarrow> (st, emit_row (TradeAudit (exit_row env st bar pm_move pm_mom ofi_value v phase
               (Some (unwrap_or (pr_last_err r) default_err)))) e)))"

definition sim_exit_fill :: "TradeEnv \<Rightarrow> PairTradeState \<Rightarrow> Bars1sPair \<Rightarrow> f64 \<Rightarrow> f64 \<Rightarrow> f64 \<Rightarrow> trade_key \<Rightarrow> ExitView \<Rightarrow>
    TradeEngine \<Rightarrow> PairTradeState \<times> TradeEngine" where
  "sim_exit_fill env st bar pm_move pm_mom ofi_value pair_key v e =
    (let direction = pt_direction st;
         fill_price = or_else (or_else (side_of direction (opi_best_bid_from_bar bar) (opi_best_ask_from_bar bar))
           (pb_opi_last_price bar)) (opi_mid_from_bar bar);
         filled = (case fill_price of Some price \<Rightarrow> if direction = 1 then xv_exit_price v \<le> price
             else if direction = - 1 then price \<le> xv_exit_price v else False
           | None \<Rightarrow> False)
     in if \<not> filled then (st, e)
        else let final = unwrap_or fill_price (xv_exit_price v);
                 pnl_net = pnl_net_of env direction (xv_entry_price v) final (xv_qty v) (xv_gas_est v);
                 holding_ms = holding_ms_of env st;
                 row = (\<lambda>st phase reason. TradeAudit ((exit_row env st bar pm_move pm_mom ofi_value v phase reason)
                   \<lparr>ar_exit_price := Some final, ar_pnl_usd_net := Some pnl_net, ar_holding_ms := holding_ms\<rparr>));
                 e = emit_row (row st ''EXIT_FILLED'' None) e;
                 (st, e) = release_held (fst pair_key, snd pair_key, direction) st e;
                 st = enter_cooldown (pb_bar_second bar) (cfg_cooldown_after_exit_ms (te_cfg e)) st
             in (st, emit_row (row st ''COOLDOWN'' (Some ''after_exit'')) e))"

definition start_exit :: "TradeEnv \<Rightarrow> PairTradeState \<Rightarrow> Bars1sPair \<Rightarrow> f64 \<Rightarrow> f64 \<Rightarrow> f64 \<Rightarrow> trade_key \<Rightarrow> ExitView \<Rightarrow>
    TradeEngine \<Rightarrow> PairTradeState \<times> TradeEngine" where
  "start_exit env st bar pm_move pm_mom ofi_value pair_key v e =
    (if pt_state st = ExitWorking then (st, e)
     else let st = st\<lparr>pt_state := ExitWorking\<rparr>;
              e = emit_row (TradeAudit (exit_row env st bar pm_move pm_mom ofi_value v ''EXIT_WORKING'' (xv_reason v))) e
          in if is_live e
             then place_exit env st bar pm_move pm_mom ofi_value pair_key v ''EXIT_PLACE_FAILED'' ''exit_place_failed'' e
             else (st, e))"

text \<open>Replacing the order: the old one is cancelled first; the new one follows once it is gone.\<close>

definition request_reprice :: "TradeEnv \<Rightarrow> PairTradeState \<Rightarrow> Bars1sPair \<Rightarrow> f64 \<Rightarrow> f64 \<Rightarrow> trade_key \<Rightarrow> ExitView \<Rightarrow>
    TradeEngine \<Rightarrow> PairTradeState \<times> TradeEngine" where
  "request_reprice env st bar pm_move ofi_value pair_key v e =
    (let reason = unwrap_or (xv_reason v) ''reprice'';
         (st, e) = (if \<not> pt_exit_cancel_pending st then
             let st = st\<lparr>pt_exit_cancel_pending := True, pt_exit_cancel_reason := Some reason\<rparr>
             in (st, emit_cancel_snapshot env st bar reason ''EXIT'' (pt_exit_order_id st) (pt_exit_client_id st)
                       pm_move ofi_value e)
           else (st, e));
         (st, e) = maybe_enqueue_exit_cancel env st e
     in maybe_enqueue_fill_poll env st pair_key FillExit e)"

definition has_exit_order :: "PairTradeState \<Rightarrow> bool" where
  "has_exit_order st \<longleftrightarrow> pt_exit_order_id st \<noteq> None \<or> pt_exit_client_id st \<noteq> None"

definition act_exit :: "TradeEnv \<Rightarrow> PairTradeState \<Rightarrow> Bars1sPair \<Rightarrow> f64 \<Rightarrow> f64 \<Rightarrow> f64 \<Rightarrow> trade_key \<Rightarrow> ExitView \<Rightarrow> bool \<Rightarrow>
    bool \<Rightarrow> TradeEngine \<Rightarrow> PairTradeState \<times> TradeEngine" where
  "act_exit env st bar pm_move pm_mom ofi_value pair_key v reprice_needed can_reprice e =
    (if is_live e \<and> pt_state st = ExitWorking \<and> reprice_needed \<and> can_reprice \<and> pt_exit_place_req_id st = None
        \<and> has_exit_order st
     then request_reprice env st bar pm_move ofi_value pair_key v e
     else
       let (st, e) = (if is_live e \<and> pt_state st = ExitWorking \<and> \<not> has_exit_order st \<and> can_reprice
             then place_exit env st bar pm_move pm_mom ofi_value pair_key v ''EXIT_RETRY_FAILED'' ''exit_retry_failed'' e
             else (st, e));
           (st, e) = start_exit env st bar pm_move pm_mom ofi_value pair_key v e
       in if is_live e then
            if pt_exit_place_req_id st \<noteq> None then (st, e) else maybe_enqueue_fill_poll env st pair_key FillExit e
          else sim_exit_fill env st bar pm_move pm_mom ofi_value pair_key v e)"

definition check_exit :: "TradeEnv \<Rightarrow> PairTradeState \<Rightarrow> Bars1sPair \<Rightarrow> f64 \<Rightarrow> f64 \<Rightarrow> f64 \<Rightarrow> f64 \<Rightarrow> trade_key \<Rightarrow>
    TradeEngine \<Rightarrow> PairTradeState \<times> TradeEngine" where
  "check_exit env st bar pm_move pm_mom ofi_value base_pm pair_key e =
    (case (pt_entry_price st, pt_entry_qty st) of
       (Some entry_price, Some qty) \<Rightarrow>
         let cfg = te_cfg e; now_ms = tv_now env; tick = tick_of cfg;
             (v, st) = view_exit env st bar pm_move pm_mom ofi_value base_pm pair_key entry_price qty e;
             prev_exit_price = pt_exit_price st;
             st = st\<lparr>pt_exit_price := Some (xv_exit_price v)\<rparr>;
             reprice_needed = ((case prev_exit_price of Some prev \<Rightarrow> tick \<le> \<bar>prev - xv_exit_price v\<bar> | None \<Rightarrow> True)
               \<or> xv_ttl_expired v);
             can_reprice = (case pt_last_exit_place_ms st of
               Some placed \<Rightarrow> te_order_poll_interval_ms e \<le> now_ms - placed | None \<Rightarrow> True)
         in if is_live e \<and> pt_exit_cancel_pending st then
              let (st, e) = maybe_enqueue_exit_cancel env st e
              in if pt_exit_place_req_id st \<noteq> None then (st, e)
                 else maybe_enqueue_fill_poll env st pair_key FillExit e
            else
              let e = (if xv_reason v \<noteq> None \<and> pt_state st = ExitWorking
                     \<and> (case pt_exit_price_target st of Some t \<Rightarrow> lit (1 / 10 ^ 9) < \<bar>t - xv_target v\<bar> | None \<Rightarrow> True)
                   then emit_row (TradeAudit (exit_row env st bar pm_move pm_mom ofi_value v ''EXIT_ACCELERATE''
                          (xv_reason v))) e else e)
              in act_exit env st bar pm_move pm_mom ofi_value pair_key v reprice_needed can_reprice e
     | _ \<Rightarrow> (st, e))"

end
