(* ===== verification/TradeTasks.thy ===== *)
theory TradeTasks
  imports TradeExit
begin

text \<open>
  The task of a trading engine (\<open>src/trade/mod.rs\<close>): candidates queued for the end of a second, bars,
  responses of the executor, updates of the user channel, and the cancel tick. A handler runs to its
  end before the next message is taken, so a step of the engine is one handler. \<open>HashMap\<close> iteration
  follows the key list of the environment.
\<close>

definition put_state :: "trade_key \<Rightarrow> PairTradeState \<times> TradeEngine \<Rightarrow> TradeEngine" where
  "put_state key r = (snd r)\<lparr>te_states := (te_states (snd r))(key \<mapsto> fst r)\<rparr>"

section \<open>Candidates of a second\<close>

definition queue_entry :: "PendingEntry \<Rightarrow> TradeEngine \<Rightarrow> TradeEngine" where
  "queue_entry entry e =
    (let bar_second = pb_bar_second (pn_bar entry);
         e = (case te_pending_second e of
             Some pending \<Rightarrow> if pending \<noteq> bar_second
               then e\<lparr>te_pending_entries := [], te_pending_keys := {}, te_pending_second := Some bar_second\<rparr> else e
           | None \<Rightarrow> e\<lparr>te_pending_second := Some bar_second\<rparr>)
     in if pn_key entry \<in> te_pending_keys e then e
        else e\<lparr>te_pending_keys := insert (pn_key entry) (te_pending_keys e),
               te_pending_entries := te_pending_entries e @ [entry]\<rparr>)"

text \<open>The stable sort by falling confidence; scores are not NaN.\<close>

fun insert_conf :: "PendingEntry \<Rightarrow> PendingEntry list \<Rightarrow> PendingEntry list" where
  "insert_conf x [] = [x]"
| "insert_conf x (y # ys) = (if pn_conf_score x < pn_conf_score y then y # insert_conf x ys else x # y # ys)"

definition sort_conf :: "PendingEntry list \<Rightarrow> PendingEntry list" where
  "sort_conf xs = foldr insert_conf xs []"

definition top_k :: "nat \<Rightarrow> 'a list \<Rightarrow> 'a list" where
  "top_k k xs = (if 0 < k \<and> k < List.length xs then take k xs else xs)"

definition rank_entries :: "TradeConfig \<Rightarrow> PendingEntry list \<Rightarrow> PendingEntry list" where
  "rank_entries cfg entries =
     top_k (cfg_rank_top_k_a cfg) (sort_conf (filter (\<lambda>x. pn_alpha_type x = ShockA) entries))
     @ top_k (cfg_rank_top_k_b cfg) (sort_conf (filter (\<lambda>x. pn_alpha_type x = GapB) entries))"

definition pool_or_zero :: "int \<Rightarrow> f64 \<Rightarrow> TradeEngine \<Rightarrow> f64 \<times> TradeEngine" where
  "pool_or_zero second balance e = (if 0 < balance then entry_pool_available second balance e else (0, e))"

fun enter_ranked :: "TradeEnv \<Rightarrow> int \<Rightarrow> PendingEntry list \<Rightarrow> TradeEngine \<Rightarrow> TradeEngine" where
  "enter_ranked env second [] e = e"
| "enter_ranked env second (entry # entries) e =
    (let (pool_available, e) = pool_or_zero second (cfg_balance_total_usd (te_cfg e)) e;
         min_notional = cfg_min_order_notional_usd (te_cfg e) in
     if 0 < min_notional \<and> pool_available < min_notional then e
     else let st = unwrap_or (te_states e (pn_key entry)) pair_trade_default;
              pool_override = (if 0 < pool_available then Some pool_available else None)
          in enter_ranked env second entries (put_state (pn_key entry)
               (if pt_state st \<noteq> Idle then (st, e) else maybe_enter env st entry pool_override e)))"

definition flush_pending_entries :: "TradeEnv \<Rightarrow> int \<Rightarrow> TradeEngine \<Rightarrow> TradeEngine" where
  "flush_pending_entries env current_bar_second e = (case te_pending_second e of None \<Rightarrow> e
   | Some second \<Rightarrow> if current_bar_second \<le> second then e
     else let entries = te_pending_entries e; balance = cfg_balance_total_usd (te_cfg e);
              e = e\<lparr>te_pending_entries := [], te_pending_keys := {}, te_pending_second := None\<rparr>
          in if entries = [] then e
             else enter_ranked env second (rank_entries (te_cfg e) entries)
                    (if 0 < balance then reset_entry_pool second balance e else e))"

section \<open>Bars\<close>

definition maybe_trigger_opi_snapshot :: "TradeEnv \<Rightarrow> trade_key \<Rightarrow> string \<Rightarrow> TradeEngine \<Rightarrow> bool \<times> TradeEngine" where
  "maybe_trigger_opi_snapshot env key reason e = (case (te_has_snapshot_trigger e, te_order_targets e key) of
     (True, Some target) \<Rightarrow>
       let token_key = ''opi:token:'' @ ot_token_id target; now_ms = tv_now env;
           min_interval = max (cfg_opi_snapshot_on_demand_min_interval_ms (te_cfg e)) 0 in
       if 0 < min_interval \<and> opt_holds (\<lambda>seen. i64_sat (now_ms - seen) < min_interval) (te_opi_snapshot_last_ms e token_key)
       then (False, e)
       else if tv_trigger_sent env
       then (True, e\<lparr>te_opi_snapshot_last_ms := (te_opi_snapshot_last_ms e)(token_key \<mapsto> now_ms),
               te_snapshots := te_snapshots e @ [(token_key, reason)]\<rparr>)
       else (False, e)
   | _ \<Rightarrow> (False, e))"

definition observe_bar :: "TradeConfig \<Rightarrow> Bars1sPair \<Rightarrow> PairTradeState \<Rightarrow> PairTradeState" where
  "observe_bar cfg bar st =
    (let st = update_gap_ratio bar GAP_WINDOW_LEN (update_opi_staleness bar OPI_STALE_WINDOW_LEN st);
         max_len = nat (max (max (cfg_alpha_c_lookback_max_s cfg) (cfg_alpha_c_lookback_fixed_s cfg)) 1) + 5;
         st = (case or_else (or_else (pb_poly_micro bar) (pb_poly_mid_state bar)) (pb_poly_mid bar) of
             Some pm_micro \<Rightarrow> update_pm_micro_history (pb_bar_second bar) pm_micro max_len st | None \<Rightarrow> st)
     in case pm_mid_from_bar bar of
          Some pm_mid \<Rightarrow> st\<lparr>pt_base_pm := Some (case pt_base_pm st of
              Some base \<Rightarrow> base * (1 - cfg_base_alpha cfg) + pm_mid * cfg_base_alpha cfg | None \<Rightarrow> pm_mid)\<rparr>
        | None \<Rightarrow> st)"

definition gap_direction :: "TradeConfig \<Rightarrow> f64 \<Rightarrow> f64 \<Rightarrow> f64 \<Rightarrow> f64 option \<Rightarrow> int" where
  "gap_direction cfg pm_move pm_mom ofi_value alpha_value =
    (let sign = (\<lambda>v. if (0::f64) \<le> v then 1 else - 1) in
     if gap_move_ok cfg pm_move pm_mom then sign pm_move
     else if gap_ofi_ok cfg ofi_value then sign ofi_value
     else if alpha_source_is_book_alpha cfg then
       (case alpha_value of Some value \<Rightarrow> if cfg_alpha_min cfg \<le> 0 \<or> cfg_alpha_min cfg \<le> \<bar>value\<bar> then sign value else 0
        | None \<Rightarrow> 0)
     else 0)"

definition idle_candidate :: "TradeEnv \<Rightarrow> trade_key \<Rightarrow> Bars1sPair \<Rightarrow> f64 \<Rightarrow> f64 \<Rightarrow> f64 \<Rightarrow> f64 \<Rightarrow> f64 \<Rightarrow> PairTradeState \<Rightarrow>
    TradeEngine \<Rightarrow> PendingEntry option \<times> TradeEngine" where
  "idle_candidate env key bar pm_move pm_mom ofi_value base_pm pm_mid st e =
    (let cfg = te_cfg e; alpha_value = alpha_source_value cfg bar; opi_mid_state = opi_mid_state_from_bar bar;
         signal = (\<lambda>alpha_type direction shock opi_mid. \<lparr>sn_bar = bar, sn_alpha_type = alpha_type,
           sn_direction = direction, sn_pm_move = pm_move, sn_pm_mom = pm_mom, sn_ofi_value = ofi_value,
           sn_base_pm = base_pm, sn_pm_mid = pm_mid, sn_opi_mid = opi_mid, sn_alpha_value = alpha_value,
           sn_shock = shock, sn_c_signal = alpha_c_signal cfg (tv_ln env) st bar,
           sn_opi_stale_p50_ms = pt_opi_stale_p50_ms st, sn_pm_peak = pt_pm_peak st,
           sn_pm_range_ratio = compute_pm_range_ratio st base_pm, sn_gap_ratio_1m = pt_gap_ratio_1m st,
           sn_opi_stale_p90_ms = pt_opi_stale_p90_ms st\<rparr>);
         build = (\<lambda>alpha_type direction shock. Option.bind opi_mid_state
           (\<lambda>opi_mid. build_candidate cfg (tv_exp env) (signal alpha_type direction shock opi_mid)));
         (candidate, e) = (case (if cfg_alpha_a_enabled cfg then pick_shock_candidate key (pb_bar_second bar) e else None) of
             Some shock \<Rightarrow> if sg_direction shock = 0 then (None, e)
               else if opi_mid_state = None
               then (None, snd (maybe_trigger_opi_snapshot env (pb_pair_id bar, pb_token_side bar) ''opi_mid_missing'' e))
               else (build ShockA (sg_direction shock) (Some shock), e)
           | None \<Rightarrow> (None, e))
     in if candidate = None \<and> cfg_alpha_b_enabled cfg then
          let direction = gap_direction cfg pm_move pm_mom ofi_value alpha_value
          in (if direction = 0 then None else build GapB direction None, e)
        else (candidate, e))"

definition bar_by_state :: "TradeEnv \<Rightarrow> trade_key \<Rightarrow> Bars1sPair \<Rightarrow> f64 \<Rightarrow> f64 \<Rightarrow> f64 \<Rightarrow> f64 \<Rightarrow> f64 \<Rightarrow> PairTradeState \<Rightarrow>
    TradeEngine \<Rightarrow> PairTradeState \<times> TradeEngine" where
  "bar_by_state env key bar pm_move pm_mom ofi_value base_pm pm_mid st e = (case pt_state st of
     Idle \<Rightarrow> let (candidate, e) = idle_candidate env key bar pm_move pm_mom ofi_value base_pm pm_mid st e
       in (st, case candidate of Some entry \<Rightarrow> queue_entry entry e | None \<Rightarrow> e)
   | EntryReady \<Rightarrow> check_entry env (update_peak pm_move (pt_direction st) st) bar pm_move pm_mom ofi_value key e
   | EntryPlacing \<Rightarrow> check_entry env (update_peak pm_move (pt_direction st) st) bar pm_move pm_mom ofi_value key e
   | EntryWorking \<Rightarrow> check_entry env (update_peak pm_move (pt_direction st) st) bar pm_move pm_mom ofi_value key e
   | PositionOpen \<Rightarrow> check_exit env (update_peak pm_move (pt_direction st) st) bar pm_move pm_mom ofi_value base_pm key e
   | ExitWorking \<Rightarrow> check_exit env (update_peak pm_move (pt_direction st) st) bar pm_move pm_mom ofi_value base_pm key e
   | Cooldown \<Rightarrow> (check_cooldown (pb_bar_second bar) st, e))"

definition handle_bar :: "TradeEnv \<Rightarrow> Bars1sPair \<Rightarrow> TradeEngine \<Rightarrow> TradeEngine" where
  "handle_bar env bar e0 =
    (let e = flush_pending_entries env (pb_bar_second bar) e0; cfg = te_cfg e;
         key = (pb_pair_id bar, pb_token_side bar); ofi_value = unwrap_or (pb_poly_ofi_250ms bar) 0;
         st = observe_bar cfg bar (unwrap_or (te_states e key) pair_trade_default);
         positive = (\<lambda>x. case x of Some v \<Rightarrow> if (0::f64) < v then Some v else None | None \<Rightarrow> None)
     in case (if is_bar_fresh cfg bar then positive (pm_mid_from_bar bar) else None, positive (pt_base_pm st)) of
          (Some pm_mid, Some base_pm) \<Rightarrow>
            let pm_move = (pm_mid - base_pm) / base_pm;
                pm_mom = (case pt_last_pm_move st of Some prev \<Rightarrow> pm_move - prev | None \<Rightarrow> 0);
                st = st\<lparr>pt_last_bar := Some bar, pt_last_pm_move := Some pm_move, pt_last_pm_mom := Some pm_mom,
                        pt_last_ofi_250ms := Some ofi_value, pt_last_base_pm := Some base_pm\<rparr>;
                st = (if pt_state st = Idle then update_peak pm_move (if 0 \<le> pm_move then 1 else - 1) st else st);
                (st, e) = bar_by_state env key bar pm_move pm_mom ofi_value base_pm pm_mid st e
            in put_state key (update_opi_snapshot bar st, e)
        | _ \<Rightarrow> put_state key (check_cooldown (pb_bar_second bar) st, e))"

section \<open>Fills\<close>

definition fills_at_entry :: "TradeEnv \<Rightarrow> trade_key \<Rightarrow> Bars1sPair \<Rightarrow> TradeFill list \<Rightarrow> PairTradeState \<Rightarrow> TradeEngine \<Rightarrow>
    PairTradeState \<times> TradeEngine" where
  "fills_at_entry env key bar fills st e =
    (let pm_move = unwrap_or (pt_last_pm_move st) 0; pm_mom = unwrap_or (pt_last_pm_mom st) 0;
         ofi_value = unwrap_or (pt_last_ofi_250ms st) 0;
         (filled, st, e) = apply_entry_fills env st bar pm_move pm_mom ofi_value fills e;
         base_pm = unwrap_or (or_else (pt_last_base_pm st) (pt_base_pm st)) 0
     in if filled \<and> is_live e \<and> 0 < base_pm
        then check_exit env st bar pm_move pm_mom ofi_value base_pm key e else (st, e))"

definition fills_at_exit :: "TradeEnv \<Rightarrow> Bars1sPair \<Rightarrow> TradeFill list \<Rightarrow> PairTradeState \<Rightarrow> TradeEngine \<Rightarrow>
    PairTradeState \<times> TradeEngine" where
  "fills_at_exit env bar fills st e = apply_exit_fills env st bar (unwrap_or (pt_last_pm_move st) 0)
     (unwrap_or (pt_last_pm_mom st) 0) (unwrap_or (pt_last_ofi_250ms st) 0) (gas_est_usd env e) fills e"

definition handle_fill_response :: "TradeEnv \<Rightarrow> trade_key \<Rightarrow> 64 word \<Rightarrow> FillKind \<Rightarrow> FillPollResult \<Rightarrow> TradeEngine \<Rightarrow>
    TradeEngine" where
  "handle_fill_response env pair_key req_id kind result e = (case te_states e pair_key of None \<Rightarrow> e
   | Some st \<Rightarrow> if pt_fill_poll_req_id st \<noteq> Some req_id then e
     else let st = st\<lparr>pt_fill_poll_req_id := None\<rparr>;
              e = update_fill_poll_backoff env (fp_rate_limited result) (fp_error result = None) e
          in put_state pair_key (case (fp_fills result, pt_last_bar st) of
               (_ # _, Some bar) \<Rightarrow> (case kind of
                   FillEntry \<Rightarrow> fills_at_entry env pair_key bar (fp_fills result) st e
                 | FillExit \<Rightarrow> fills_at_exit env bar (fp_fills result) st e)
             | _ \<Rightarrow> (st, e)))"

definition apply_ws_fills :: "TradeEnv \<Rightarrow> trade_key \<Rightarrow> bool \<Rightarrow> bool \<Rightarrow> TradeFill list \<Rightarrow> PairTradeState \<Rightarrow> TradeEngine \<Rightarrow>
    PairTradeState \<times> TradeEngine" where
  "apply_ws_fills env key matches_entry matches_exit fills st e = (case (fills, pt_last_bar st) of
     (_ # _, Some bar) \<Rightarrow>
       let pm_move = unwrap_or (pt_last_pm_move st) 0; pm_mom = unwrap_or (pt_last_pm_mom st) 0;
           ofi_value = unwrap_or (pt_last_ofi_250ms st) 0;
           st = st\<lparr>pt_fill_poll_req_id := None, pt_last_fill_poll_ms := Some (tv_now env)\<rparr>;
           e = e\<lparr>te_fill_poll_backoff_ms := 0, te_fill_poll_backoff_until_ms := None\<rparr>;
           (st, e) = (if matches_entry then fills_at_entry env key bar fills st e else (st, e))
       in if matches_exit then apply_exit_fills env st bar pm_move pm_mom ofi_value (gas_est_usd env e) fills e
          else (st, e)
   | _ \<Rightarrow> (st, e))"

section \<open>The user channel\<close>

definition filled_shares_of :: "OpinionUserOrderUpdate \<Rightarrow> bool \<Rightarrow> int \<Rightarrow> f64 option" where
  "filled_shares_of u is_fill_update status =
    (let shares = (if ou_filled_shares u = None \<and> (is_fill_update \<or> status = 2) then ou_shares u else ou_filled_shares u)
     in if shares \<noteq> None then shares
        else case (ou_price u, or_else (ou_filled_amount u) (ou_amount u)) of
          (Some price, Some amount) \<Rightarrow> if 0 < price then Some (amount / price) else None | _ \<Rightarrow> None)"

definition ws_cancelled :: "TradeEnv \<Rightarrow> trade_key \<Rightarrow> bool \<Rightarrow> PairTradeState \<Rightarrow> TradeEngine \<Rightarrow> PairTradeState \<times> TradeEngine" where
  "ws_cancelled env key matches_entry st e =
    (if matches_entry then
       let st = st\<lparr>pt_entry_cancel_pending := False, pt_entry_cancel_reason := None, pt_entry_cancel_req_id := None\<rparr>
       in (case pt_last_bar st of
            Some bar \<Rightarrow> finalize_entry_cancel env st bar (unwrap_or (pt_last_pm_move st) 0)
              (unwrap_or (pt_last_pm_mom st) 0) (unwrap_or (pt_last_ofi_250ms st) 0) ''ws_order_cancel'' key e
          | None \<Rightarrow> (enter_cooldown (unwrap_or (pt_entry_bar_second st) 0) (cfg_cooldown_after_cancel_ms (te_cfg e)) st, e))
     else (st\<lparr>pt_exit_order_id := None, pt_exit_client_id := None, pt_exit_cancel_pending := False,
              pt_exit_cancel_reason := None, pt_exit_cancel_req_id := None\<rparr>, e))"

definition handle_opinion_order_update :: "TradeEnv \<Rightarrow> OpinionUserOrderUpdate \<Rightarrow> TradeEngine \<Rightarrow> TradeEngine" where
  "handle_opinion_order_update env u e0 =
    (let e = e0\<lparr>te_last_ws_user_msg_ms := Some (tv_now env)\<rparr>; key = (ou_pair_id u, ou_token_side u);
         order_id = ou_order_id u in
     case te_states e key of None \<Rightarrow> e
     | Some st \<Rightarrow>
       let matches_entry = (pt_entry_order_id st = Some order_id);
           matches_exit = (pt_exit_order_id st = Some order_id);
           update_type = ascii_lower (unwrap_or (ou_order_update_type u) ''''); status = unwrap_or (ou_status u) 0;
           is_cancel = (update_type = ''ordercancel'' \<or> status \<in> {3, 4, 5});
           is_fill_update = (update_type = ''orderfill'' \<or> update_type = ''orderconfirm'');
           filled_shares = filled_shares_of u is_fill_update status
       in if \<not> matches_entry \<and> \<not> matches_exit then e
          else if is_cancel then put_state key (ws_cancelled env key matches_entry st (clear_cancel_retry order_id e))
          else if is_fill_update \<or> 0 < unwrap_or filled_shares 0 then
            put_state key (apply_ws_fills env key matches_entry matches_exit
              [\<lparr>tf_order_id = Some order_id, tf_client_order_id = None, tf_side = map_option ascii_upper (ou_side u),
                tf_price = ou_price u, tf_size = filled_shares, tf_ts_ms = or_else (ou_ts_ms u) (Some (tv_now env))\<rparr>] st e)
          else if status = 2 then put_state key (maybe_enqueue_fill_poll env st key
            (if matches_entry then FillEntry else FillExit) e)
          else e)"

definition handle_opinion_trade_record :: "TradeEnv \<Rightarrow> OpinionUserTradeRecord \<Rightarrow> TradeEngine \<Rightarrow> TradeEngine" where
  "handle_opinion_trade_record env r e0 =
    (let e = e0\<lparr>te_last_ws_user_msg_ms := Some (tv_now env)\<rparr>; key = (otr_pair_id r, otr_token_side r);
         order_id = otr_order_id r in
     case te_states e key of None \<Rightarrow> e
     | Some st \<Rightarrow>
       let matches_entry = (pt_entry_order_id st = Some order_id);
           matches_exit = (pt_exit_order_id st = Some order_id);
           filled = (if otr_shares r \<noteq> None then otr_shares r
             else case (otr_price r, otr_amount r) of
               (Some price, Some amount) \<Rightarrow> if 0 < price then Some (amount / price) else None | _ \<Rightarrow> None)
       in if \<not> matches_entry \<and> \<not> matches_exit then e
          else put_state key (apply_ws_fills env key matches_entry matches_exit
            [\<lparr>tf_order_id = Some order_id, tf_client_order_id = None, tf_side = map_option ascii_upper (otr_side r),
              tf_price = otr_price r, tf_size = filled, tf_ts_ms = or_else (otr_ts_ms r) (Some (tv_now env))\<rparr>] st e))"

section \<open>Responses of the executor\<close>

definition entry_placed :: "TradeEnv \<Rightarrow> PendingEntry \<Rightarrow> PlaceResult \<Rightarrow> PairTradeState \<Rightarrow> PairTradeState" where
  "entry_placed env entry result st =
    (let price = unwrap_or (or_else (pr_price_used result) (pt_entry_price st)) 0;
         qty = unwrap_or (pt_entry_qty st) 0
     in st\<lparr>pt_state := EntryWorking, pt_entry_price := Some price, pt_entry_qty := Some qty,
           pt_entry_notional := Some (price * qty), pt_entry_ts_ms := Some (tv_now env),
           pt_entry_bar_second := Some (pb_bar_second (pn_bar entry)), pt_pm_mom_entry := Some (pn_pm_mom entry),
           pt_entry_order_id := map_option po_order_id (pr_order result),
           pt_entry_client_id := or_else (Option.bind (pr_order result) po_client_order_id) (pr_client_id_used result),
           pt_chase_count := pr_chase_count result\<rparr>)"

definition placed_row :: "TradeEnv \<Rightarrow> PendingEntry \<Rightarrow> PairTradeState \<Rightarrow> TradeEngine \<Rightarrow> string \<Rightarrow> string option \<Rightarrow> TradeRow" where
  "placed_row env entry st e phase reason =
    (let bar = pn_bar entry in TradeAudit ((with_state st (with_signal (pn_pm_move entry) (pn_pm_mom entry) (pn_ofi_value entry)
       (audit_row (tv_now env) (pb_pair_id bar, pb_token_side bar) (Some bar) phase (pn_direction entry) reason)))
       \<lparr>ar_gas_est_usd := Some (f64_max (gas_est_usd env e) 0)\<rparr>))"

definition handle_entry_place_result :: "TradeEnv \<Rightarrow> trade_key \<Rightarrow> 64 word \<Rightarrow> PlaceResult \<Rightarrow> TradeEngine \<Rightarrow> TradeEngine" where
  "handle_entry_place_result env pair_key req_id result e = (case te_states e pair_key of None \<Rightarrow> e
   | Some st \<Rightarrow> if pt_entry_place_req_id st \<noteq> Some req_id then e
     else let pending = pt_pending_entry st; cfg = te_cfg e;
              st = st\<lparr>pt_entry_place_req_id := None, pt_pending_entry := None, pt_pending_entry_meta := None\<rparr> in
     (case pending of None \<Rightarrow> put_state pair_key (st, e)
      | Some entry \<Rightarrow>
        let bar = pn_bar entry;
            unknown_order = (pr_order result = None \<and> pr_last_err result = Some ''order_id_missing'')
        in if pr_order result \<noteq> None \<or> unknown_order then
             let st = entry_placed env entry result st;
                 e = add_exposure (fst pair_key, snd pair_key, pn_direction entry) (unwrap_or (pt_entry_notional st) 0)
                       (unwrap_or (pt_alpha_type st) (pn_alpha_type entry)) e
             in put_state pair_key (st, emit_row (placed_row env entry st e ''ENTRY_WORKING''
                  (if unknown_order then Some ''order_id_missing'' else None)) e)
           else
             let e = release_entry_pool (pb_bar_second bar) (cfg_balance_total_usd cfg)
                       (unwrap_or (pt_entry_notional st) 0) e;
                 st = enter_cooldown (pb_bar_second bar) (cfg_cooldown_after_postonly_reject_ms cfg)
                        (st\<lparr>pt_entry_notional := None\<rparr>)
             in put_state pair_key (st, emit_row (placed_row env entry st e ''ENTRY_PLACE_FAILED''
                  (Some (unwrap_or (pr_last_err result) ''entry_place_failed''))) e)))"

definition exit_result_row :: "TradeEnv \<Rightarrow> trade_key \<Rightarrow> PairTradeState \<Rightarrow> TradeEngine \<Rightarrow> TradeRow" where
  "exit_result_row env key st e = TradeAudit ((with_state st (audit_row (tv_now env) key None ''EXIT_WORKING''
     (pt_direction st) (Some ''order_id_missing'')))
     \<lparr>ar_pm_move := pt_last_pm_move st, ar_pm_mom := pt_last_pm_mom st, ar_ofi_250ms := pt_last_ofi_250ms st,
      ar_exit_price_target := pt_exit_price_target st, ar_exit_price := pt_exit_price st,
      ar_gas_est_usd := Some (f64_max (gas_est_usd env e) 0), ar_mae := pt_mae st, ar_mfe := pt_mfe st\<rparr>)"

definition replace_failed_row :: "TradeEnv \<Rightarrow> trade_key \<Rightarrow> PairTradeState \<Rightarrow> PendingExitPlaceContext \<Rightarrow> string \<Rightarrow> TradeRow" where
  "replace_failed_row env key st c reason = TradeAudit ((with_state st (with_signal (px_pm_move c) (px_pm_mom c) (px_ofi_value c)
     (audit_row (tv_now env) key None ''EXIT_REPLACE_FAILED'' (pt_direction st) (Some reason))))
     \<lparr>ar_exit_price_target := Some (px_target c), ar_exit_price := Some (px_exit_price c),
      ar_gas_est_usd := Some (px_gas_est c), ar_retrace_ratio := px_retrace_ratio c, ar_inv_ratio := px_inv_ratio c,
      ar_inv_factor := px_inv_factor c, ar_decay_factor := px_decay_factor c, ar_mae := pt_mae st, ar_mfe := pt_mfe st,
      ar_obs_latency_poly_p99_ms := px_obs_latency_poly_p99_ms c, ar_obs_latency_opi_p99_ms := px_obs_latency_opi_p99_ms c,
      ar_bar_gap_flag := px_bar_gap_flag c, ar_poly_bar_gap_flag := px_poly_bar_gap_flag c,
      ar_opi_bar_gap_flag := px_opi_bar_gap_flag c, ar_poly_staleness_ms := px_poly_staleness_ms c,
      ar_opi_staleness_ms := px_opi_staleness_ms c\<rparr>)"

definition handle_exit_place_result :: "TradeEnv \<Rightarrow> trade_key \<Rightarrow> 64 word \<Rightarrow> PlaceResult \<Rightarrow> TradeEngine \<Rightarrow> TradeEngine" where
  "handle_exit_place_result env pair_key req_id result e = (case te_states e pair_key of None \<Rightarrow> e
   | Some st \<Rightarrow> if pt_exit_place_req_id st \<noteq> Some req_id then e
     else let st = st\<lparr>pt_exit_place_req_id := None\<rparr>;
              known = (\<lambda>order_id client_id. st\<lparr>pt_last_exit_place_ms := Some (tv_now env), pt_exit_order_id := order_id,
                pt_exit_client_id := client_id, pt_exit_price := or_else (pr_price_used result) (pt_exit_price st),
                pt_pending_exit_ctx := None\<rparr>)
          in put_state pair_key (case pr_order result of
               Some order \<Rightarrow> (known (Some (po_order_id order)) (or_else (po_client_order_id order) (pr_client_id_used result)), e)
             | None \<Rightarrow>
               if pr_last_err result = Some ''order_id_missing''
               then let st = known None (pr_client_id_used result) in (st, emit_row (exit_result_row env pair_key st e) e)
               else case pt_pending_exit_ctx st of None \<Rightarrow> (st, e)
                 | Some c \<Rightarrow> let st = st\<lparr>pt_pending_exit_ctx := None\<rparr>
                   in (st, emit_row (replace_failed_row env pair_key st c
                        (unwrap_or (pr_last_err result) ''exit_replace_failed'')) e)))"

definition is_order_open_for_cancel :: "TradeEnv \<Rightarrow> trade_key \<Rightarrow> string \<Rightarrow> TradeEngine \<Rightarrow> bool option \<times> TradeEngine" where
  "is_order_open_for_cancel env pair_key order_id e =
    (let now_ms = tv_now env; verdict = (\<lambda>c. if order_id \<in> oc_order_ids c then Some True
           else if oc_complete c then Some False else None) in
     case (te_has_client e, te_order_targets e pair_key) of
       (True, Some target) \<Rightarrow>
         (case te_open_orders_cache e (ot_market_id target) of
            Some c \<Rightarrow> if i64_sat (now_ms - oc_fetched_ms c) \<le> 5000 then (verdict c, e)
              else (case tv_open_order_ids env of None \<Rightarrow> (None, e)
                | Some (ids, all_pages) \<Rightarrow>
                  let c = \<lparr>oc_fetched_ms = now_ms, oc_order_ids = ids, oc_complete = all_pages\<rparr>
                  in (verdict c, e\<lparr>te_open_orders_cache := (te_open_orders_cache e)(ot_market_id target \<mapsto> c)\<rparr>))
          | None \<Rightarrow> (case tv_open_order_ids env of None \<Rightarrow> (None, e)
              | Some (ids, all_pages) \<Rightarrow>
                let c = \<lparr>oc_fetched_ms = now_ms, oc_order_ids = ids, oc_complete = all_pages\<rparr>
                in (verdict c, e\<lparr>te_open_orders_cache := (te_open_orders_cache e)(ot_market_id target \<mapsto> c)\<rparr>)))
     | _ \<Rightarrow> (None, e))"

definition find_cancel :: "TradeEnv \<Rightarrow> 64 word \<Rightarrow> TradeEngine \<Rightarrow> (trade_key \<times> PairTradeState) option" where
  "find_cancel env req_id e = Option.bind (List.find (\<lambda>key. opt_holds (\<lambda>st. pt_entry_cancel_req_id st = Some req_id
       \<or> pt_exit_cancel_req_id st = Some req_id) (te_states e key)) (tv_keys env))
     (\<lambda>key. map_option (Pair key) (te_states e key))"

definition verify_cancel :: "TradeEnv \<Rightarrow> trade_key \<Rightarrow> string \<Rightarrow> CancelResult \<Rightarrow> TradeEngine \<Rightarrow> bool \<times> TradeEngine" where
  "verify_cancel env key order_id result e =
    (if \<not> cr_ok result \<and> (cr_rate_limited result \<or> cr_server_error result)
        \<and> (\<not> cfg_ws_user_channels_enabled (te_cfg e) \<or> \<not> ws_user_channel_active (tv_now env) e)
     then let (v, e) = is_order_open_for_cancel env key order_id e in (v = Some False, e)
     else (False, e))"

definition handle_cancel_response :: "TradeEnv \<Rightarrow> 64 word \<Rightarrow> string \<Rightarrow> CancelResult \<Rightarrow> TradeEngine \<Rightarrow> TradeEngine" where
  "handle_cancel_response env req_id order_id result e = (case find_cancel env req_id e of None \<Rightarrow> e
   | Some (key, st) \<Rightarrow>
     let is_entry = (pt_entry_cancel_req_id st = Some req_id);
         (verified, e) = verify_cancel env key order_id result e;
         e = update_cancel_backoff env result e;
         cancel_ok = (cr_ok result \<or> verified);
         e = (if cancel_ok then
                let e = clear_cancel_retry order_id e
                in (case te_order_targets e key of Some target \<Rightarrow> evict_open_order_cache (ot_market_id target) order_id e
                    | None \<Rightarrow> e)
              else record_cancel_failure env order_id (tv_now env) e)
     in if is_entry then
          let st = st\<lparr>pt_entry_cancel_req_id := None\<rparr> in
          put_state key (if \<not> cancel_ok then (st, e)
            else case pt_last_bar st of
              None \<Rightarrow> (enter_cooldown (unwrap_or (pt_entry_bar_second st) 0) (cfg_cooldown_after_cancel_ms (te_cfg e)) st, e)
            | Some bar \<Rightarrow> finalize_entry_cancel env st bar (unwrap_or (pt_last_pm_move st) 0)
                (unwrap_or (pt_last_pm_mom st) 0) (unwrap_or (pt_last_ofi_250ms st) 0)
                (unwrap_or (pt_entry_cancel_reason st) ''entry_cancel'') key e)
        else
          let st = st\<lparr>pt_exit_cancel_req_id := None\<rparr> in
          put_state key (if \<not> cancel_ok then (st, e)
            else (st\<lparr>pt_exit_order_id := None, pt_exit_client_id := None, pt_exit_cancel_pending := False,
                     pt_exit_cancel_reason := None\<rparr>, e)))"

definition handle_order_response :: "TradeEnv \<Rightarrow> OrderResponse \<Rightarrow> TradeEngine \<Rightarrow> TradeEngine" where
  "handle_order_response env resp e = (case resp of
     RespPlaceChase req_id pair_key PlaceEntry result \<Rightarrow> handle_entry_place_result env pair_key req_id result e
   | RespPlaceChase req_id pair_key PlaceExit result \<Rightarrow> handle_exit_place_result env pair_key req_id result e
   | RespFetchFills req_id pair_key kind result \<Rightarrow> handle_fill_response env pair_key req_id kind result e
   | RespCancelOrder req_id order_id result \<Rightarrow> handle_cancel_response env req_id order_id result e)"

section \<open>The cancel tick and the task\<close>

definition tick_key :: "TradeEnv \<Rightarrow> trade_key \<Rightarrow> TradeEngine \<Rightarrow> TradeEngine" where
  "tick_key env key e = (case te_states e key of None \<Rightarrow> e
   | Some st \<Rightarrow> (case (pt_state st \<in> {EntryWorking, ExitWorking}, pt_last_bar st) of
       (True, Some bar) \<Rightarrow>
         let pm_move = unwrap_or (pt_last_pm_move st) 0; pm_mom = unwrap_or (pt_last_pm_mom st) 0;
             ofi_value = unwrap_or (pt_last_ofi_250ms st) 0;
             base_pm = unwrap_or (or_else (pt_last_base_pm st) (pt_base_pm st)) 0;
             st = st\<lparr>pt_last_bar := None\<rparr>;
             (st, e) = (if pt_state st = EntryWorking then check_entry env st bar pm_move pm_mom ofi_value key e
               else if 0 < base_pm then check_exit env st bar pm_move pm_mom ofi_value base_pm key e else (st, e))
         in put_state key (st\<lparr>pt_last_bar := Some bar\<rparr>, e)
     | _ \<Rightarrow> e))"

definition cancel_check_tick :: "TradeEnv \<Rightarrow> TradeEngine \<Rightarrow> TradeEngine" where
  "cancel_check_tick env e = fold (tick_key env) (tv_keys env) e"

datatype TradeLabel = TradeMsg TradeMessage | TradeResp OrderResponse | CancelTick

definition trade_handle :: "TradeEnv \<Rightarrow> TradeLabel \<Rightarrow> TradeEngine \<Rightarrow> TradeEngine" where
  "trade_handle env l e = (if \<not> cfg_enabled (te_cfg e) then e else case l of
     TradeMsg (PairBar bar) \<Rightarrow> handle_bar env bar e
   | TradeMsg (Shock shock) \<Rightarrow> handle_shock shock e
   | TradeMsg (OpinionOrderUpdate u) \<Rightarrow> handle_opinion_order_update env u e
   | TradeMsg (OpinionTradeRecord r) \<Rightarrow> handle_opinion_trade_record env r e
   | TradeResp resp \<Rightarrow> handle_order_response env resp e
   | CancelTick \<Rightarrow> cancel_check_tick env e)"

text \<open>Runs of one engine. Between two of its steps the other engines may change the risk state.\<close>

inductive trade_reach :: "TradeEngine \<Rightarrow> TradeEngine \<Rightarrow> bool" for e0 where
  trade_init: "trade_reach e0 e0"
| trade_step: "trade_reach e0 e \<Longrightarrow> trade_reach e0 (trade_handle env l e)"
| trade_others: "trade_reach e0 e \<Longrightarrow> trade_reach e0 (e\<lparr>te_risk := risk\<rparr>)"

end
