(* ===== verification/TradeInv.thy ===== *)
theory TradeInv
  imports TradeTasks
begin

text \<open>
  The life cycle of a pair in the trading engine: what holds of the stored states in every run, and
  what an engine that is not live never does. Each operation works on the state of one pair and on
  the engine; \<open>keeps\<close> is what it guarantees.
\<close>

section \<open>The invariant\<close>

definition no_orders :: "PairTradeState \<Rightarrow> bool" where
  "no_orders st \<longleftrightarrow> pt_entry_order_id st = None \<and> pt_entry_client_id st = None \<and> pt_exit_order_id st = None
     \<and> pt_exit_client_id st = None \<and> pt_entry_cancel_req_id st = None \<and> pt_exit_cancel_req_id st = None
     \<and> pt_fill_poll_req_id st = None"

definition at_rest :: "PairTradeState \<Rightarrow> bool" where
  "at_rest st \<longleftrightarrow> no_orders st \<and> pt_entry_place_req_id st = None
     \<and> \<not> pt_entry_cancel_pending st \<and> \<not> pt_exit_cancel_pending st"

definition holding :: "PairTradeState \<Rightarrow> bool" where
  "holding st \<longleftrightarrow> pt_direction st \<noteq> 0 \<and> pt_entry_price st \<noteq> None \<and> pt_entry_qty st \<noteq> None"

definition pair_ok :: "bool \<Rightarrow> PairTradeState \<Rightarrow> bool" where
  "pair_ok live st \<longleftrightarrow> pt_exit_place_req_id st = None \<and> (\<not> live \<longrightarrow> no_orders st) \<and> (case pt_state st of
     Idle \<Rightarrow> at_rest st \<and> pt_direction st = 0 \<and> pt_entry_notional st = None
   | EntryReady \<Rightarrow> False
   | EntryPlacing \<Rightarrow> live \<and> holding st \<and> no_orders st \<and> pt_entry_place_req_id st \<noteq> None \<and> pt_pending_entry st \<noteq> None
       \<and> \<not> pt_entry_cancel_pending st \<and> \<not> pt_exit_cancel_pending st
   | EntryWorking \<Rightarrow> holding st \<and> pt_entry_place_req_id st = None \<and> pt_exit_order_id st = None
       \<and> pt_exit_client_id st = None \<and> pt_exit_cancel_req_id st = None \<and> \<not> pt_exit_cancel_pending st
   | PositionOpen \<Rightarrow> holding st \<and> pt_entry_place_req_id st = None
   | ExitWorking \<Rightarrow> holding st \<and> pt_entry_place_req_id st = None
   | Cooldown \<Rightarrow> at_rest st \<and> pt_cooldown_until st \<noteq> None)"

text \<open>What a step leaves as it is in the engine.\<close>

definition same_core :: "TradeEngine \<Rightarrow> TradeEngine \<Rightarrow> bool" where
  "same_core e0 e \<longleftrightarrow> te_cfg e = te_cfg e0 \<and> te_has_client e = te_has_client e0 \<and> te_states e = te_states e0
     \<and> te_pending_entries e = te_pending_entries e0"

definition sent_alike :: "TradeEngine \<Rightarrow> TradeEngine \<Rightarrow> bool" where
  "sent_alike e0 e \<longleftrightarrow> te_requests e = te_requests e0 \<and> te_placed e = te_placed e0"

definition keeps :: "PairTradeState \<Rightarrow> TradeEngine \<Rightarrow> PairTradeState \<times> TradeEngine \<Rightarrow> bool" where
  "keeps st0 e0 r \<longleftrightarrow> pair_ok (is_live e0) (fst r) \<and> pt_last_bar (fst r) = pt_last_bar st0
     \<and> same_core e0 (snd r) \<and> (\<not> is_live e0 \<longrightarrow> sent_alike e0 (snd r))"

lemma same_core_live: "same_core e0 e \<Longrightarrow> is_live e = is_live e0"
  by (simp add: same_core_def is_live_def)

lemma same_core_refl [simp]: "same_core e e" "sent_alike e e"
  by (simp_all add: same_core_def sent_alike_def)

lemma same_core_trans: "same_core e0 e1 \<Longrightarrow> same_core e1 e2 \<Longrightarrow> same_core e0 e2"
  by (simp add: same_core_def)

lemma keeps_trans: "keeps st0 e0 (st1, e1) \<Longrightarrow> (pair_ok (is_live e1) st1 \<Longrightarrow> keeps st1 e1 r) \<Longrightarrow> keeps st0 e0 r"
  by (auto simp: keeps_def same_core_live dest: same_core_trans simp: sent_alike_def)

lemma keeps_okD: "keeps st0 e0 (st, e) \<Longrightarrow> pair_ok (is_live e) st"
  using same_core_live[of e0 e] by (simp add: keeps_def)

lemma keeps_liveD: "keeps st0 e0 (st, e) \<Longrightarrow> is_live e = is_live e0"
  using same_core_live[of e0 e] by (simp add: keeps_def)

lemma keeps_refl: "pair_ok (is_live e) st \<Longrightarrow> keeps st e (st, e)"
  by (simp add: keeps_def)

text \<open>Steps of the engine alone that send nothing.\<close>

named_theorems core_simps

lemma core_emit_row [core_simps]: "same_core e0 (emit_row r e) = same_core e0 e" "sent_alike e0 (emit_row r e) = sent_alike e0 e"
  "is_live (emit_row r e) = is_live e" "te_cfg (emit_row r e) = te_cfg e"
  by (simp_all add: emit_row_def same_core_def sent_alike_def is_live_def)

lemma core_update: 
  "same_core e0 (e\<lparr>te_risk := r\<rparr>) = same_core e0 e" "sent_alike e0 (e\<lparr>te_risk := r\<rparr>) = sent_alike e0 e"
  "same_core e0 (e\<lparr>te_pair_exposure := x\<rparr>) = same_core e0 e" "sent_alike e0 (e\<lparr>te_pair_exposure := x\<rparr>) = sent_alike e0 e"
  "same_core e0 (e\<lparr>te_cancel_rate_limiter := l\<rparr>) = same_core e0 e" "sent_alike e0 (e\<lparr>te_cancel_rate_limiter := l\<rparr>) = sent_alike e0 e"
  by (simp_all add: same_core_def sent_alike_def)

lemma core_pool [core_simps]:
  "same_core e0 (reset_entry_pool s b e) = same_core e0 e" "sent_alike e0 (reset_entry_pool s b e) = sent_alike e0 e"
  "same_core e0 (reserve_entry_pool s b n e) = same_core e0 e" "sent_alike e0 (reserve_entry_pool s b n e) = sent_alike e0 e"
  "same_core e0 (release_entry_pool s b n e) = same_core e0 e" "sent_alike e0 (release_entry_pool s b n e) = sent_alike e0 e"
  "same_core e0 (add_exposure k n a e) = same_core e0 e" "sent_alike e0 (add_exposure k n a e) = sent_alike e0 e"
  "same_core e0 (release_exposure k n a e) = same_core e0 e" "sent_alike e0 (release_exposure k n a e) = sent_alike e0 e"
  "same_core e0 (snd (entry_pool_available s b e)) = same_core e0 e"
  "sent_alike e0 (snd (entry_pool_available s b e)) = sent_alike e0 e"
  "same_core e0 (snd (budget_for_entry k s p a e)) = same_core e0 e"
  "sent_alike e0 (snd (budget_for_entry k s p a e)) = sent_alike e0 e"
  by (simp_all add: reset_entry_pool_def reserve_entry_pool_def release_entry_pool_def add_exposure_def
      release_exposure_def entry_pool_available_def budget_for_entry_def Let_def core_update)


section \<open>Requests\<close>

lemma core_enqueue_cancel_order: "same_core e0 (snd (enqueue_cancel_order env oid e)) = same_core e0 e"
  by (simp add: enqueue_cancel_order_def evict_cancel_dedup_def next_order_req_id_def enqueue_order_request_def
      undo_cancel_dedup_def same_core_def Let_def split: prod.splits if_splits option.splits)

lemma core_enqueueD: "enqueue_cancel_order env oid (e\<lparr>te_cancel_rate_limiter := l\<rparr>) = (n, e') \<Longrightarrow> same_core e e'"
  using core_enqueue_cancel_order[of e env oid "e\<lparr>te_cancel_rate_limiter := l\<rparr>"] by (simp add: core_update)

lemma keeps_entry_cancel: "pair_ok (is_live e) st \<Longrightarrow> pt_state st = EntryWorking \<Longrightarrow>
    keeps st e (maybe_enqueue_entry_cancel env st e)"
  by (auto dest: core_enqueueD simp: maybe_enqueue_entry_cancel_def keeps_def core_update pair_ok_def no_orders_def holding_def Let_def
      split: prod.splits option.splits)

lemma keeps_exit_cancel: "pair_ok (is_live e) st \<Longrightarrow> pt_state st \<in> {PositionOpen, ExitWorking} \<Longrightarrow>
    keeps st e (maybe_enqueue_exit_cancel env st e)"
  by (auto dest: core_enqueueD simp: maybe_enqueue_exit_cancel_def keeps_def core_update pair_ok_def no_orders_def holding_def Let_def
      split: prod.splits option.splits)

lemma fill_poll_or: "maybe_enqueue_fill_poll env st key kind e = (st, e) \<or>
    (\<exists>n e'. maybe_enqueue_fill_poll env st key kind e =
      (st\<lparr>pt_last_fill_poll_ms := Some (tv_now env), pt_fill_poll_req_id := n\<rparr>, e') \<and> same_core e e' \<and> \<not> no_orders st)"
proof -
  have *: "same_core e (snd (enqueue_order_request env n k (e\<lparr>te_next_order_req_id := m\<rparr>)))" for n k m
    by (simp add: enqueue_order_request_def same_core_def)
  show ?thesis
    by (cases kind; cases "te_order_targets e key")
      (auto simp: maybe_enqueue_fill_poll_def Let_def no_orders_def next_order_req_id_def case_prod_unfold *)
qed

lemma fill_poll_cases:
  obtains "maybe_enqueue_fill_poll env st key kind e = (st, e)"
  | n e' where "maybe_enqueue_fill_poll env st key kind e =
      (st\<lparr>pt_last_fill_poll_ms := Some (tv_now env), pt_fill_poll_req_id := n\<rparr>, e')" "same_core e e'" "\<not> no_orders st"
  using fill_poll_or[of env st key kind e] by blast

lemma keeps_fill_poll: "pair_ok (is_live e) st \<Longrightarrow> keeps st e (maybe_enqueue_fill_poll env st key kind e)"
proof (cases rule: fill_poll_cases[of env st key kind e])
  case 1
  assume "pair_ok (is_live e) st"
  with 1 show ?thesis by (simp add: keeps_refl)
next
  case (2 n e')
  assume "pair_ok (is_live e) st"
  then show ?thesis using 2 unfolding keeps_def
    by (cases "pt_state st") (auto simp: pair_ok_def no_orders_def holding_def at_rest_def)
qed

lemma fill_poll_state: "maybe_enqueue_fill_poll env st key kind e = (st', e') \<Longrightarrow>
    pt_state st' = pt_state st \<and> pt_entry_cancel_pending st' = pt_entry_cancel_pending st
    \<and> pt_direction st' = pt_direction st"
  by (cases rule: fill_poll_cases[of env st key kind e]) auto

section \<open>Watching an entry\<close>

lemma pair_ok_cooldown [simp]: "pair_ok live (enter_cooldown s ms st)
    \<longleftrightarrow> pt_exit_place_req_id (enter_cooldown s ms st) = None"
  by (simp add: pair_ok_def enter_cooldown_def at_rest_def no_orders_def)

lemma cooldown_fields [simp]: "pt_exit_place_req_id (enter_cooldown s ms st) = None"
  "pt_last_bar (enter_cooldown s ms st) = pt_last_bar st"
  by (simp_all add: enter_cooldown_def)

lemma release_held_core: "release_held k st e = (st', e') \<Longrightarrow>
    (\<forall>e0. same_core e0 e' = same_core e0 e \<and> sent_alike e0 e' = sent_alike e0 e) \<and> pt_last_bar st' = pt_last_bar st"
  by (auto simp: release_held_def core_simps split: option.splits)

lemma core_cancel_snapshot [core_simps]:
  "same_core e0 (emit_cancel_snapshot env st bar reason role oid cid pm_move ofi_value e) = same_core e0 e"
  "sent_alike e0 (emit_cancel_snapshot env st bar reason role oid cid pm_move ofi_value e) = sent_alike e0 e"
  "is_live (emit_cancel_snapshot env st bar reason role oid cid pm_move ofi_value e) = is_live e"
  by (simp_all add: emit_cancel_snapshot_def core_simps Let_def)

lemma keeps_finalize: "keeps st e (finalize_entry_cancel env st bar pm_move pm_mom ofi_value reason key e)"
proof -
  obtain st1 e1 where r: "release_held (fst key, snd key, pt_direction st) st e = (st1, e1)" by fastforce
  note c = release_held_core[OF r]
  show ?thesis by (simp add: finalize_entry_cancel_def Let_def r keeps_def core_simps c)
qed

lemma keeps_request_cancel: "pair_ok (is_live e) st \<Longrightarrow> pt_state st = EntryWorking \<Longrightarrow>
    keeps st e (request_entry_cancel env st bar pm_move pm_mom ofi_value reason key e)"
proof -
  assume ok: "pair_ok (is_live e) st" "pt_state st = EntryWorking"
  define r where "r = (if \<not> pt_entry_cancel_pending st then
           let st = st\<lparr>pt_entry_cancel_pending := True, pt_entry_cancel_reason := Some reason\<rparr>
           in (st, emit_cancel_snapshot env st bar reason ''ENTRY'' (pt_entry_order_id st) (pt_entry_client_id st)
                     pm_move ofi_value e)
         else if pt_entry_cancel_reason st = None then (st\<lparr>pt_entry_cancel_reason := Some reason\<rparr>, e)
         else (st, e))"
  obtain st1 e1 where p: "r = (st1, e1)" by fastforce
  have k: "keeps st e (st1, e1)" and w: "pt_state st1 = EntryWorking"
    using p ok unfolding r_def
    by (auto simp: keeps_def pair_ok_def core_simps no_orders_def holding_def Let_def split: if_splits)
  have "keeps st1 e1 (request_entry_cancel env st bar pm_move pm_mom ofi_value reason key e)"
    unfolding request_entry_cancel_def r_def[symmetric] p Let_def[of r] prod.case
    using keeps_okD[OF k] w by (auto intro: keeps_finalize keeps_entry_cancel)
  with k show ?thesis by (auto intro: keeps_trans)
qed

lemma keeps_sim_entry: "pair_ok (is_live e) st \<Longrightarrow> pt_state st = EntryWorking \<Longrightarrow>
    keeps st e (sim_entry_fill env st bar pm_move pm_mom ofi_value e)"
  by (auto simp: sim_entry_fill_def keeps_def pair_ok_def no_orders_def holding_def core_simps Let_def or_else_def
      split: option.splits)

lemma keeps_watch_entry: "pair_ok (is_live e) st \<Longrightarrow> pt_state st = EntryWorking \<Longrightarrow>
    keeps st e (watch_entry env st bar pm_move pm_mom ofi_value key e)"
  by (auto simp: watch_entry_def intro: keeps_request_cancel keeps_sim_entry keeps_refl split: option.splits)

lemma keeps_check_entry: "pair_ok (is_live e) st \<Longrightarrow> pt_state st \<in> {EntryPlacing, EntryWorking} \<Longrightarrow>
    keeps st e (check_entry env st bar pm_move pm_mom ofi_value key e)"
proof (cases "is_live e \<and> pt_entry_place_req_id st = None")
  case True
  assume ok: "pair_ok (is_live e) st" "pt_state st \<in> {EntryPlacing, EntryWorking}"
  then have w: "pt_state st = EntryWorking" "pt_direction st \<noteq> 0" using True by (auto simp: pair_ok_def holding_def)
  obtain st1 e1 where r: "maybe_enqueue_fill_poll env st key FillEntry e = (st1, e1)" by fastforce
  have k: "keeps st e (st1, e1)" using keeps_fill_poll[OF ok(1), of env key FillEntry] r by simp
  then have "keeps st1 e1 (check_entry env st bar pm_move pm_mom ofi_value key e)"
    unfolding check_entry_def r Let_def prod.case using True w fill_poll_state[OF r] keeps_okD[OF k]
    by (auto intro: keeps_watch_entry keeps_entry_cancel)
  with k show ?thesis by (auto intro: keeps_trans)
next
  case False
  assume "pair_ok (is_live e) st" "pt_state st \<in> {EntryPlacing, EntryWorking}"
  with False show ?thesis
    by (auto simp: check_entry_def pair_ok_def holding_def intro: keeps_finalize keeps_watch_entry keeps_refl)
qed


section \<open>Fills and exits\<close>

lemma keeps_entry_fills: "pair_ok (is_live e) st \<Longrightarrow>
    keeps st e (snd (apply_entry_fills env st bar pm_move pm_mom ofi_value fills e))"
proof (cases "pt_entry_order_id st = None \<and> pt_entry_client_id st = None")
  case True
  assume "pair_ok (is_live e) st"
  with True show ?thesis by (simp add: apply_entry_fills_def keeps_refl)
next
  case False
  assume ok: "pair_ok (is_live e) st"
  then have "is_live e" "pt_state st \<in> {EntryWorking, PositionOpen, ExitWorking}"
    using False by (cases "pt_state st"; auto simp: pair_ok_def no_orders_def at_rest_def)+
  with ok show ?thesis
    by (auto simp: apply_entry_fills_def keeps_def fill_entry_def pair_ok_def holding_def core_simps Let_def or_else_def
        split: option.splits)
qed

lemma filled_state: "fst (apply_entry_fills env st bar pm_move pm_mom ofi_value fills e) \<Longrightarrow>
    pt_state (fst (snd (apply_entry_fills env st bar pm_move pm_mom ofi_value fills e))) = PositionOpen"
  by (auto simp: apply_entry_fills_def fill_entry_def Let_def split: option.splits if_splits)

lemma exit_cancel_cleared: "pair_ok live st \<Longrightarrow> pair_ok live
    (st\<lparr>pt_exit_cancel_pending := False, pt_exit_cancel_reason := r, pt_exit_cancel_req_id := None\<rparr>)"
  by (cases "pt_state st") (auto simp: pair_ok_def no_orders_def at_rest_def holding_def)

lemma keeps_close: "release_held k st1 (emit_row a e) = (st2, e2) \<Longrightarrow> pt_last_bar st1 = pt_last_bar st \<Longrightarrow>
    keeps st e (enter_cooldown s ms st2, emit_row b e2)"
proof -
  assume r: "release_held k st1 (emit_row a e) = (st2, e2)" "pt_last_bar st1 = pt_last_bar st"
  show ?thesis using release_held_core[OF r(1)] r(2) by (simp add: keeps_def core_simps)
qed

lemma keeps_exit_fills: "pair_ok (is_live e) st \<Longrightarrow>
    keeps st e (apply_exit_fills env st bar pm_move pm_mom ofi_value gas fills e)"
proof -
  assume ok: "pair_ok (is_live e) st"
  have *: "keeps st e (st\<lparr>pt_exit_cancel_pending := False, pt_exit_cancel_reason := None, pt_exit_cancel_req_id := None\<rparr>, e)"
    using exit_cancel_cleared[OF ok] by (simp add: keeps_def)
  show ?thesis using keeps_refl[OF ok] * unfolding apply_exit_fills_def Let_def
    by (simp del: pair_ok_cooldown add: keeps_close split: option.split prod.split)
qed

definition open_state :: "PairTradeState \<Rightarrow> bool" where
  "open_state st \<longleftrightarrow> pt_state st \<in> {PositionOpen, ExitWorking}"

lemma view_exit_state: "snd (view_exit env st bar pm_move pm_mom ofi_value base_pm key p q e)
    \<in> {track_excursion bar p q st} \<union> range (\<lambda>t. (track_excursion bar p q st)\<lparr>pt_exit_price_target := t\<rparr>)"
proof -
  obtain a b c d where t: "compute_exit_target env (track_excursion bar p q st) pm_move pm_mom base_pm
      (gas_est_usd env e) e = (a, b, c, d)" by (metis prod.exhaust)
  have "snd (view_exit env st bar pm_move pm_mom ofi_value base_pm key p q e) =
      (case a of Some t \<Rightarrow> (track_excursion bar p q st)\<lparr>pt_exit_price_target := Some t\<rparr> | None \<Rightarrow> track_excursion bar p q st)"
    by (simp only: view_exit_def Let_def t prod.case snd_conv)
  then show ?thesis by (simp split: option.split)
qed

text \<open>The fields that the invariant reads.\<close>

definition core_fields where
  "core_fields st = (pt_state st, pt_direction st, pt_entry_price st, pt_entry_qty st, pt_entry_notional st,
     (pt_entry_order_id st, pt_entry_client_id st, pt_exit_order_id st, pt_exit_client_id st, pt_entry_cancel_req_id st,
      pt_exit_cancel_req_id st, pt_fill_poll_req_id st), pt_entry_place_req_id st, pt_exit_place_req_id st,
     pt_entry_cancel_pending st, pt_exit_cancel_pending st, pt_pending_entry st, pt_cooldown_until st)"

lemma pair_ok_cong: "core_fields st' = core_fields st \<Longrightarrow> pair_ok live st' = pair_ok live st"
  unfolding pair_ok_def at_rest_def no_orders_def holding_def core_fields_def by (cases "pt_state st") simp_all

lemma open_state_cong: "core_fields st' = core_fields st \<Longrightarrow> open_state st' = open_state st"
  by (simp add: open_state_def core_fields_def)

lemma excursion_ok: "core_fields (track_excursion bar p q st) = core_fields st"
  "pt_last_bar (track_excursion bar p q st) = pt_last_bar st"
  by (cases "opi_mid_from_bar bar"; simp add: track_excursion_def Let_def core_fields_def)+

lemma target_ok: "core_fields (st\<lparr>pt_exit_price_target := t\<rparr>) = core_fields st"
  "core_fields (st\<lparr>pt_exit_price := u\<rparr>) = core_fields st"
  by (simp_all add: core_fields_def)

lemma keeps_view: "pair_ok (is_live e) st \<Longrightarrow> open_state st \<Longrightarrow>
    view_exit env st bar pm_move pm_mom ofi_value base_pm key entry_price qty e = (v, st') \<Longrightarrow>
    pair_ok (is_live e) st' \<and> open_state st' \<and> pt_last_bar st' = pt_last_bar st"
  using view_exit_state[of env st bar pm_move pm_mom ofi_value base_pm key entry_price qty e]
  by (auto simp: excursion_ok target_ok cong: pair_ok_cong open_state_cong
      intro: pair_ok_cong[THEN iffD2] open_state_cong[THEN iffD2])

lemma core_place_chase: "place_exit_with_chase env key side base qty bar direction tick e = (r, e') \<Longrightarrow>
    same_core e0 e' = same_core e0 e"
  by (auto simp: place_exit_with_chase_def Let_def same_core_def split: option.splits)

lemma exit_order_ok: "pair_ok True st \<Longrightarrow> open_state st \<Longrightarrow> pair_ok True
    (st\<lparr>pt_last_exit_place_ms := a, pt_exit_order_id := b, pt_exit_client_id := c, pt_exit_price := d\<rparr>)
    \<and> pair_ok True (st\<lparr>pt_last_exit_place_ms := a\<rparr>)"
  by (auto simp: pair_ok_def open_state_def holding_def)

lemma keeps_place_exit: "pair_ok (is_live e) st \<Longrightarrow> open_state st \<Longrightarrow> is_live e \<Longrightarrow>
    keeps st e (place_exit env st bar pm_move pm_mom ofi_value key v phase err e)
    \<and> open_state (fst (place_exit env st bar pm_move pm_mom ofi_value key v phase err e))"
proof -
  assume ok: "pair_ok (is_live e) st" "open_state st" "is_live e"
  obtain r e1 where p: "place_exit_with_chase env key (if 0 < pt_direction st then Sell else Buy) (xv_exit_price v) (xv_qty v)
      bar (pt_direction st) (tick_of (te_cfg e)) e = (r, e1)" by fastforce
  have c: "same_core e e1" using core_place_chase[OF p, of e] by simp
  show ?thesis
    using ok(2) by (cases "pr_order r") (auto simp: place_exit_def Let_def p keeps_def core_simps c ok open_state_def
        exit_order_ok[OF ok(1)[unfolded ok(3)[THEN eqTrueI]] ok(2)])
qed

lemma keeps_sim_exit: "pair_ok (is_live e) st \<Longrightarrow>
    keeps st e (sim_exit_fill env st bar pm_move pm_mom ofi_value key v e)"
  using keeps_refl[of e st] unfolding sim_exit_fill_def Let_def
  by (simp add: keeps_close split: prod.split)

lemma keeps_start_exit: "pair_ok (is_live e) st \<Longrightarrow> open_state st \<Longrightarrow>
    start_exit env st bar pm_move pm_mom ofi_value key v e = (st', e') \<Longrightarrow> keeps st e (st', e')"
proof -
  assume ok: "pair_ok (is_live e) st" "open_state st"
    and r: "start_exit env st bar pm_move pm_mom ofi_value key v e = (st', e')"
  define st1 where "st1 = st\<lparr>pt_state := ExitWorking\<rparr>"
  define e1 where "e1 = emit_row (TradeAudit (exit_row env st1 bar pm_move pm_mom ofi_value v ''EXIT_WORKING'' (xv_reason v))) e"
  have k: "keeps st e (st1, e1)" and o1: "open_state st1"
    using ok by (auto simp: st1_def e1_def keeps_def core_simps pair_ok_def open_state_def no_orders_def holding_def)
  have r1: "(st', e') = (if is_live e1
      then place_exit env st1 bar pm_move pm_mom ofi_value key v ''EXIT_PLACE_FAILED'' ''exit_place_failed'' e1 else (st1, e1))"
    if "pt_state st \<noteq> ExitWorking"
    unfolding r[symmetric] start_exit_def if_not_P[OF that] Let_def st1_def e1_def by simp
  have "pt_state st \<noteq> ExitWorking \<Longrightarrow> keeps st1 e1 (st', e')"
    using r1 keeps_place_exit[OF keeps_okD[OF k] o1] keeps_refl[OF keeps_okD[OF k]] by simp
  then show ?thesis using k r ok by (cases "pt_state st = ExitWorking") (auto simp: start_exit_def keeps_refl intro: keeps_trans)
qed

lemma keeps_reprice: "pair_ok (is_live e) st \<Longrightarrow> open_state st \<Longrightarrow> is_live e \<Longrightarrow>
    keeps st e (request_reprice env st bar pm_move ofi_value key v e)"
proof -
  assume ok: "pair_ok (is_live e) st" "open_state st" "is_live e"
  define reason where "reason = unwrap_or (xv_reason v) ''reprice''"
  define r where "r = (if \<not> pt_exit_cancel_pending st then
             let st = st\<lparr>pt_exit_cancel_pending := True, pt_exit_cancel_reason := Some reason\<rparr>
             in (st, emit_cancel_snapshot env st bar reason ''EXIT'' (pt_exit_order_id st) (pt_exit_client_id st)
                       pm_move ofi_value e)
           else (st, e))"
  obtain st1 e1 where p: "r = (st1, e1)" by fastforce
  have k: "keeps st e (st1, e1)" and o1: "open_state st1"
    using p ok unfolding r_def
    by (auto simp: keeps_def pair_ok_def core_simps no_orders_def holding_def open_state_def Let_def split: if_splits)
  obtain st2 e2 where q: "maybe_enqueue_exit_cancel env st1 e1 = (st2, e2)" by fastforce
  have k2: "keeps st1 e1 (st2, e2)" using keeps_exit_cancel[OF keeps_okD[OF k], of env] o1 q by (simp add: open_state_def)
  have "keeps st2 e2 (request_reprice env st bar pm_move ofi_value key v e)"
    unfolding request_reprice_def reason_def[symmetric] r_def[symmetric] p Let_def[of reason] Let_def[of "(st1, e1)"] Let_def[of "(st2, e2)"] prod.case q
    by (rule keeps_fill_poll[OF keeps_okD[OF k2]])
  with k k2 show ?thesis by (blast intro: keeps_trans)
qed


lemma keeps_act_exit: "pair_ok (is_live e) st \<Longrightarrow> open_state st \<Longrightarrow>
    keeps st e (act_exit env st bar pm_move pm_mom ofi_value key v reprice can e)"
proof -
  assume ok: "pair_ok (is_live e) st" "open_state st"
  define r where "r = (if is_live e \<and> pt_state st = ExitWorking \<and> \<not> has_exit_order st \<and> can
      then place_exit env st bar pm_move pm_mom ofi_value key v ''EXIT_RETRY_FAILED'' ''exit_retry_failed'' e else (st, e))"
  obtain st1 e1 where p: "r = (st1, e1)" by fastforce
  have k: "keeps st e (st1, e1)" and o1: "open_state st1"
    using p ok keeps_place_exit[OF ok] unfolding r_def by (metis fst_conv keeps_refl)+
  obtain st2 e2 where q: "start_exit env st1 bar pm_move pm_mom ofi_value key v e1 = (st2, e2)" by fastforce
  have k2: "keeps st1 e1 (st2, e2)" by (rule keeps_start_exit[OF keeps_okD[OF k] o1 q])
  note ok2 = keeps_okD[OF k2]
  have "keeps st2 e2 (if is_live e2 then if pt_exit_place_req_id st2 \<noteq> None then (st2, e2)
      else maybe_enqueue_fill_poll env st2 key FillExit e2
      else sim_exit_fill env st2 bar pm_move pm_mom ofi_value key v e2)" (is "keeps _ _ ?last")
    using keeps_refl[OF ok2] keeps_fill_poll[OF ok2] keeps_sim_exit[OF ok2] by simp
  then have l: "keeps st e ?last" using k k2 by (blast intro: keeps_trans)
  show ?thesis
    unfolding act_exit_def r_def[symmetric] p Let_def[of "(st1, e1)"] Let_def[of "(st2, e2)"] prod.case q
    using l keeps_reprice[OF ok] by simp
qed

lemma keeps_check_exit: "pair_ok (is_live e) st \<Longrightarrow> open_state st \<Longrightarrow>
    keeps st e (check_exit env st bar pm_move pm_mom ofi_value base_pm key e)"
proof (cases "pt_entry_price st = None \<or> pt_entry_qty st = None")
  case True
  assume "pair_ok (is_live e) st"
  with True show ?thesis by (auto simp: check_exit_def keeps_refl split: option.split)
next
  case False
  assume ok: "pair_ok (is_live e) st" "open_state st"
  from False obtain p q where pq: "pt_entry_price st = Some p" "pt_entry_qty st = Some q" by auto
  obtain v st1 where v: "view_exit env st bar pm_move pm_mom ofi_value base_pm key p q e = (v, st1)" by fastforce
  define st2 where "st2 = st1\<lparr>pt_exit_price := Some (xv_exit_price v)\<rparr>"
  have ok2: "pair_ok (is_live e) st2" "open_state st2" and lb: "pt_last_bar st2 = pt_last_bar st"
    using keeps_view[OF ok v] pair_ok_cong[OF target_ok(2)] open_state_cong[OF target_ok(2)] by (auto simp: st2_def)
  have 1: "keeps st2 e (let (st, e) = maybe_enqueue_exit_cancel env st2 e
      in if pt_exit_place_req_id st \<noteq> None then (st, e) else maybe_enqueue_fill_poll env st key FillExit e)"
  proof -
    obtain st3 e3 where m: "maybe_enqueue_exit_cancel env st2 e = (st3, e3)" by fastforce
    have k: "keeps st2 e (st3, e3)" using keeps_exit_cancel[OF ok2(1), of env] ok2(2) m by (simp add: open_state_def)
    then show ?thesis using keeps_fill_poll[OF keeps_okD[OF k], of env key FillExit]
      by (auto simp: m intro: keeps_trans)
  qed
  have 2: "keeps st2 e (act_exit env st2 bar pm_move pm_mom ofi_value key v a b (if c then emit_row d e else e))" for a b c d
  proof -
    have k: "keeps st2 e (st2, if c then emit_row d e else e)" using ok2(1) by (simp add: keeps_def core_simps)
    show ?thesis by (rule keeps_trans[OF k]) (rule keeps_act_exit[OF _ ok2(2)])
  qed
  have "keeps st2 e (check_exit env st bar pm_move pm_mom ofi_value base_pm key e)"
    unfolding check_exit_def pq option.case prod.case Let_def v st2_def[symmetric]
    using 1 2 by (simp add: Let_def)
  then show ?thesis by (simp add: keeps_def lb)
qed


section \<open>Entering\<close>

lemma keeps_Let: "(\<And>x. keeps st e (f x)) \<Longrightarrow> keeps st e (Let t f)"
  by (simp add: Let_def)

lemma keeps_if: "keeps st e a \<Longrightarrow> keeps st e b \<Longrightarrow> keeps st e (if c then a else b)"
  by simp

lemma core_place: "enqueue_place_chase env key kind side qty prices tag e = (n, e') \<Longrightarrow> same_core e0 e' = same_core e0 e"
  by (auto simp: enqueue_place_chase_def next_order_req_id_def enqueue_order_request_def same_core_def Let_def
      split: option.splits if_splits)

lemma taken_ok: "pt_state st = Idle \<Longrightarrow> pair_ok live st \<Longrightarrow> pn_direction entry \<noteq> 0 \<Longrightarrow>
    pair_ok True ((take_entry entry shape p st)\<lparr>pt_state := EntryPlacing, pt_pending_entry := Some entry,
      pt_pending_entry_meta := m, pt_entry_place_req_id := Some n\<rparr>)"
  "pt_state st = Idle \<Longrightarrow> pair_ok live st \<Longrightarrow> pn_direction entry \<noteq> 0 \<Longrightarrow>
    pair_ok l ((take_entry entry shape p st)\<lparr>pt_state := EntryWorking, pt_entry_ts_ms := t, pt_chase_count := 0\<rparr>)"
  "pt_last_bar (take_entry entry shape p st) = pt_last_bar st"
  by (auto simp: take_entry_def pair_ok_def at_rest_def no_orders_def holding_def)

lemma keeps_commit: "pair_ok (is_live e) st \<Longrightarrow> pt_state st = Idle \<Longrightarrow> pn_direction entry \<noteq> 0 \<Longrightarrow>
    keeps st e (commit_entry env entry shape p st e)"
proof -
  assume ok: "pair_ok (is_live e) st" "pt_state st = Idle" "pn_direction entry \<noteq> 0"
  define e1 where "e1 = emit_row (TradeAudit (plan_row env entry shape p ''ENTRY_PLACING'' None))
    (emit_row (TradeAudit (plan_row env entry shape p ''ENTRY_READY'' None))
      (reserve_entry_pool (pb_bar_second (pn_bar entry)) (cfg_balance_total_usd (te_cfg e)) (ep_price p * ep_qty p) e))"
  have c: "same_core e e1" "sent_alike e e1" by (simp_all add: e1_def core_simps)
  obtain n e2 where q: "enqueue_place_chase env (pn_key entry) PlaceEntry (if 0 < pn_direction entry then Buy else Sell)
      (ep_qty p) (ep_candidates p) ''E'' e1 = (n, e2)" by fastforce
  have c2: "same_core e e2" using core_place[OF q, of e] c by simp
  show ?thesis
    unfolding commit_entry_def Let_def e1_def[symmetric] q prod.case
    using c c2 ok taken_ok(1,2)[OF ok(2,1,3)] same_core_live[OF c(1)]
    by (cases n) (simp_all add: keeps_def core_simps taken_ok(3) core_update)
qed

lemma keeps_price_entry: "pair_ok (is_live e) st \<Longrightarrow> pt_state st = Idle \<Longrightarrow> pn_direction entry \<noteq> 0 \<Longrightarrow>
    keeps st e (price_entry env entry shape notional scale bid ask st e)"
proof -
  assume ok: "pair_ok (is_live e) st" "pt_state st = Idle" "pn_direction entry \<noteq> 0"
  have 1: "keeps st e (st, emit_row r e)" "keeps st e (enter_cooldown s ms st, emit_row r e)" for r s ms
    using ok(1) by (simp_all add: keeps_def core_simps)
  show ?thesis unfolding price_entry_def
    by (intro keeps_Let keeps_if 1 keeps_refl ok keeps_commit)
qed

lemma attempt_ok: "core_fields (st\<lparr>pt_last_entry_attempt_ms := t\<rparr>) = core_fields st"
  by (simp add: core_fields_def)

lemma keeps_enter: "pair_ok (is_live e) st \<Longrightarrow> pt_state st = Idle \<Longrightarrow>
    keeps st e (maybe_enter env st entry pool e)"
proof -
  assume ok: "pair_ok (is_live e) st" "pt_state st = Idle"
  define st1 where "st1 = st\<lparr>pt_last_entry_attempt_ms := Some (tv_now env)\<rparr>"
  have ok1: "pair_ok (is_live e) st1" "pt_state st1 = Idle" and lb: "pt_last_bar st1 = pt_last_bar st"
    using ok pair_ok_cong[OF attempt_ok] by (simp_all add: st1_def)
  have k1: "keeps st1 e (st1, e)" "keeps st1 e (st1, emit_row r e)" for r
    using ok1 by (simp_all add: keeps_def core_simps)
  have k2: "keeps st1 e (case budget_for_entry key s pool a e of (budget, e) \<Rightarrow> f budget e)"
    if "\<And>b e'. same_core e e' \<Longrightarrow> sent_alike e e' \<Longrightarrow> keeps st1 e' (f b e')" for key s a f
  proof -
    obtain b e' where b: "budget_for_entry key s pool a e = (b, e')" by fastforce
    have c: "same_core e e'" "sent_alike e e'"
      using core_pool(13,14)[where e = e and k = key and s = s and p = pool and a = a and ?e0.0 = e] b by simp_all
    have "keeps st1 e (st1, e')" using ok1 c by (simp add: keeps_def)
    then show ?thesis using that[OF c] b by (auto intro: keeps_trans)
  qed
  have k3: "keeps st1 e' (price_entry env entry shape n sc bid ask st1 e')" "keeps st1 e' (st1, e')"
    "keeps st1 e' (st1, emit_row r e')" if "same_core e e'" "pn_direction entry \<noteq> 0" for e' shape n sc bid ask r
  proof -
    have l: "pair_ok (is_live e') st1" using ok1(1) same_core_live[OF that(1)] by simp
    show "keeps st1 e' (price_entry env entry shape n sc bid ask st1 e')" by (rule keeps_price_entry[OF l ok1(2) that(2)])
    show "keeps st1 e' (st1, e')" "keeps st1 e' (st1, emit_row r e')" using l by (simp_all add: keeps_def core_simps)
  qed
  have "keeps st1 e (maybe_enter env st entry pool e)" if "\<not> (0 < cfg_per_pair_min_interval_ms (te_cfg e)
        \<and> (case pt_last_entry_attempt_ms st of Some seen \<Rightarrow> i64_sat (tv_now env - seen) < cfg_per_pair_min_interval_ms (te_cfg e)
           | None \<Rightarrow> False))"
    using that unfolding maybe_enter_def Let_def st1_def[symmetric] if_not_P[OF that]
    by (auto intro!: k1 k2 k3 keeps_if split: option.split)
  then show ?thesis
    using ok by (cases "0 < cfg_per_pair_min_interval_ms (te_cfg e)
        \<and> (case pt_last_entry_attempt_ms st of Some seen \<Rightarrow> i64_sat (tv_now env - seen) < cfg_per_pair_min_interval_ms (te_cfg e)
           | None \<Rightarrow> False)") (auto simp: maybe_enter_def keeps_refl keeps_def lb)
qed


section \<open>The engine\<close>

definition bar_seen :: "TradeEngine \<Rightarrow> trade_key \<Rightarrow> bool" where
  "bar_seen e key \<longleftrightarrow> (\<exists>st. te_states e key = Some st \<and> pt_last_bar st \<noteq> None)"

text \<open>\<open>fst cc\<close> are the settings and whether there is a client: neither changes. \<open>snd cc\<close> are pairs in
  cooldown, with the second at which it ends.\<close>

definition resting :: "PairTradeState \<Rightarrow> int \<Rightarrow> bool" where
  "resting st u \<longleftrightarrow> pt_state st = Cooldown \<and> pt_cooldown_until st = Some u"

definition trade_ok :: "(TradeConfig \<times> bool) \<times> (trade_key \<rightharpoonup> int) \<Rightarrow> TradeEngine \<Rightarrow> bool" where
  "trade_ok cc e \<longleftrightarrow> (te_cfg e, te_has_client e) = fst cc
     \<and> (\<forall>key u. snd cc key = Some u \<longrightarrow> (\<exists>st. te_states e key = Some st \<and> resting st u)) \<and>
     (\<forall>key st. te_states e key = Some st \<longrightarrow> pair_ok (is_live e) st \<and> (pt_state st \<noteq> Idle \<longrightarrow> pt_last_bar st \<noteq> None))
     \<and> (\<forall>p \<in> set (te_pending_entries e). bar_seen e (pn_key p))
     \<and> (\<not> is_live e \<longrightarrow> te_requests e = [] \<and> te_placed e = [])"

lemma trade_ok_state: "trade_ok cc e \<Longrightarrow> te_states e key = Some st \<Longrightarrow>
    pair_ok (is_live e) st \<and> (pt_state st \<noteq> Idle \<longrightarrow> pt_last_bar st \<noteq> None)"
  unfolding trade_ok_def by blast

lemma put_state_core [simp]: "te_states (put_state key r) = (te_states (snd r))(key \<mapsto> fst r)"
  "te_cfg (put_state key r) = te_cfg (snd r)" "te_pending_entries (put_state key r) = te_pending_entries (snd r)"
  "is_live (put_state key r) = is_live (snd r)" "te_requests (put_state key r) = te_requests (snd r)"
  "te_placed (put_state key r) = te_placed (snd r)" "te_has_client (put_state key r) = te_has_client (snd r)"
  by (simp_all add: put_state_def is_live_def)

lemma trade_ok_core: "trade_ok cc e \<Longrightarrow> same_core e e' \<Longrightarrow> (\<not> is_live e \<longrightarrow> sent_alike e e') \<Longrightarrow> trade_ok cc e'"
  by (auto simp: trade_ok_def same_core_def sent_alike_def is_live_def bar_seen_def simp del: split_paired_All)

lemma trade_ok_put: "trade_ok cc e \<Longrightarrow> pair_ok (is_live e) (fst r) \<Longrightarrow> same_core e (snd r) \<Longrightarrow>
    (\<not> is_live e \<longrightarrow> sent_alike e (snd r)) \<Longrightarrow> (pt_state (fst r) \<noteq> Idle \<Longrightarrow> pt_last_bar (fst r) \<noteq> None) \<Longrightarrow>
    (bar_seen e key \<Longrightarrow> pt_last_bar (fst r) \<noteq> None) \<Longrightarrow>
    (\<And>u. snd cc key = Some u \<Longrightarrow> resting (fst r) u) \<Longrightarrow> trade_ok cc (put_state key r)"
proof -
  assume a: "trade_ok cc e" "pair_ok (is_live e) (fst r)" "same_core e (snd r)" "\<not> is_live e \<longrightarrow> sent_alike e (snd r)"
    "pt_state (fst r) \<noteq> Idle \<Longrightarrow> pt_last_bar (fst r) \<noteq> None" "bar_seen e key \<Longrightarrow> pt_last_bar (fst r) \<noteq> None"
    "\<And>u. snd cc key = Some u \<Longrightarrow> resting (fst r) u"
  have l: "is_live (snd r) = is_live e" by (rule same_core_live[OF a(3)])
  show ?thesis unfolding trade_ok_def put_state_core l
    using a by (auto simp: trade_ok_def bar_seen_def same_core_def sent_alike_def
        simp del: split_paired_All split_paired_Ex)
qed

lemma trade_ok_resting: "trade_ok cc e \<Longrightarrow> snd cc key = Some u \<Longrightarrow> \<exists>st. te_states e key = Some st \<and> resting st u"
  unfolding trade_ok_def by blast

lemma trade_ok_put_keeps: "trade_ok cc e \<Longrightarrow> keeps st e r \<Longrightarrow> te_states e key = Some st \<Longrightarrow>
    (pt_state st = Cooldown \<Longrightarrow> fst r = st) \<Longrightarrow> pt_last_bar st \<noteq> None \<Longrightarrow> trade_ok cc (put_state key r)"
  by (rule trade_ok_put) (auto simp: keeps_def resting_def dest!: trade_ok_resting)

text \<open>The same for a step that starts from the stored state.\<close>

lemma trade_ok_step: "trade_ok cc e \<Longrightarrow> te_states e key = Some st \<Longrightarrow> pt_state st \<notin> {Idle, Cooldown} \<Longrightarrow> keeps st e r \<Longrightarrow>
    trade_ok cc (put_state key r)"
  by (rule trade_ok_put_keeps[of cc e st]) (auto dest: trade_ok_state)

lemma trade_ok_same: "trade_ok cc e \<Longrightarrow> te_states e key = Some st \<Longrightarrow> trade_ok cc (put_state key (st, e))"
  using trade_ok_state[of cc e key st] trade_ok_resting[of cc e key]
  by (intro trade_ok_put) (auto simp: bar_seen_def)

lemma core_pool_or_zero: "same_core e0 (snd (pool_or_zero s b e)) = same_core e0 e"
  "sent_alike e0 (snd (pool_or_zero s b e)) = sent_alike e0 e"
  by (simp_all add: pool_or_zero_def core_simps)

lemma trade_ok_ranked: "trade_ok cc e \<Longrightarrow> \<forall>p \<in> set entries. bar_seen e (pn_key p) \<Longrightarrow> trade_ok cc (enter_ranked env second entries e)"
proof (induction entries arbitrary: e)
  case Nil
  then show ?case by simp
next
  case (Cons entry entries)
  obtain pool e1 where p: "pool_or_zero second (cfg_balance_total_usd (te_cfg e)) e = (pool, e1)" by fastforce
  have c: "same_core e e1" "sent_alike e e1"
    using core_pool_or_zero[of e second "cfg_balance_total_usd (te_cfg e)" e] p by simp_all
  then have ok1: "trade_ok cc e1" using Cons(2) trade_ok_core by blast
  from Cons(3) c obtain st where st: "te_states e1 (pn_key entry) = Some st" "pt_last_bar st \<noteq> None"
    by (auto simp: bar_seen_def same_core_def)
  let ?r = "if pt_state st \<noteq> Idle then (st, e1)
    else maybe_enter env st entry (if 0 < pool then Some pool else None) e1"
  have k: "keeps st e1 ?r" using trade_ok_state[OF ok1 st(1)] by (simp add: keeps_refl keeps_enter)
  have ok2: "trade_ok cc (put_state (pn_key entry) ?r)" by (rule trade_ok_put_keeps[OF ok1 k st(1) _ st(2)]) auto
  have seen: "\<forall>p \<in> set entries. bar_seen (put_state (pn_key entry) ?r) (pn_key p)"
    using Cons(3) c k st(2) by (auto simp: bar_seen_def keeps_def same_core_def)
  show ?case
  proof (cases "0 < cfg_min_order_notional_usd (te_cfg e1) \<and> pool < cfg_min_order_notional_usd (te_cfg e1)")
    case True
    then show ?thesis using ok1 by (simp add: p)
  next
    case False
    have "trade_ok cc (enter_ranked env second entries (put_state (pn_key entry) ?r))" by (rule Cons(1)[OF ok2 seen])
    then show ?thesis unfolding enter_ranked.simps p Let_def prod.case if_not_P[OF False] by (auto simp: st(1) unwrap_or_def split: if_splits)
  qed
qed


section \<open>Bars\<close>

definition same_fields :: "PairTradeState \<Rightarrow> PairTradeState \<Rightarrow> bool" where
  "same_fields st0 st \<longleftrightarrow> core_fields st = core_fields st0 \<and> pt_last_bar st = pt_last_bar st0"

lemma window_fields:
  "core_fields (update_opi_staleness bar n st) = core_fields st" "core_fields (update_gap_ratio bar n st) = core_fields st"
  "core_fields (update_pm_micro_history s p n st) = core_fields st" "core_fields (update_peak m d st) = core_fields st"
  "core_fields (update_opi_snapshot bar st) = core_fields st" "core_fields (st\<lparr>pt_base_pm := x\<rparr>) = core_fields st"
  by (simp_all add: core_fields_def update_opi_staleness_def update_gap_ratio_def
      update_pm_micro_history_def update_peak_def update_opi_snapshot_def Let_def split: option.split)

lemma window_bar:
  "pt_last_bar (update_opi_staleness bar n st) = pt_last_bar st" "pt_last_bar (update_gap_ratio bar n st) = pt_last_bar st"
  "pt_last_bar (update_pm_micro_history s p n st) = pt_last_bar st" "pt_last_bar (update_peak m d st) = pt_last_bar st"
  "pt_last_bar (update_opi_snapshot bar st) = pt_last_bar st"
  by (simp_all add: update_opi_staleness_def update_gap_ratio_def
      update_pm_micro_history_def update_peak_def update_opi_snapshot_def Let_def split: option.split)

lemma same_fields_observe: "same_fields st (observe_bar cfg bar st)"
  unfolding observe_bar_def Let_def by (simp add: same_fields_def window_fields window_bar split: option.split)

lemma same_fields_peak: "same_fields st (update_peak m d st)" "same_fields st (update_opi_snapshot bar st)"
  by (simp_all add: same_fields_def window_fields window_bar)

lemma same_fields_ok: "same_fields st0 st \<Longrightarrow> pair_ok live st = pair_ok live st0"
  by (rule pair_ok_cong) (simp add: same_fields_def)

lemma same_fields_eq: "same_fields st0 st \<Longrightarrow> pt_state st = pt_state st0" "same_fields st0 st \<Longrightarrow> pt_last_bar st = pt_last_bar st0"
  by (simp_all add: same_fields_def core_fields_def)

lemma pair_ok_check_cooldown: "pair_ok live st \<Longrightarrow> pair_ok live (check_cooldown s st)"
  by (auto simp: check_cooldown_def pair_ok_def reset_for_idle_def at_rest_def no_orders_def split: option.split)

lemma check_cooldown_bar [simp]: "pt_last_bar (check_cooldown s st) = pt_last_bar st"
  "pt_state st = Idle \<Longrightarrow> pt_state (check_cooldown s st) = Idle"
  by (auto simp: check_cooldown_def reset_for_idle_def split: option.split)

lemma resting_cong: "core_fields st' = core_fields st \<Longrightarrow> resting st' u = resting st u"
  by (simp add: core_fields_def resting_def)

lemma resting_kept: "resting st u \<Longrightarrow> s < u \<Longrightarrow> resting (check_cooldown s st) u"
  by (simp add: check_cooldown_def resting_def)

lemma pair_ok_default: "pair_ok live pair_trade_default" "pt_state pair_trade_default = Idle" "pt_last_bar pair_trade_default = None"
  by (simp_all add: pair_ok_def pair_trade_default_def at_rest_def no_orders_def)

lemma trade_ok_drop_pending: "trade_ok cc e \<Longrightarrow> trade_ok cc (e\<lparr>te_pending_entries := [], te_pending_keys := ks, te_pending_second := s\<rparr>)"
  by (simp add: trade_ok_def is_live_def bar_seen_def del: split_paired_All)

lemma trade_ok_flush: "trade_ok cc e \<Longrightarrow> trade_ok cc (flush_pending_entries env now e)"
proof -
  assume ok: "trade_ok cc e"
  let ?e = "e\<lparr>te_pending_entries := [], te_pending_keys := {}, te_pending_second := None\<rparr>"
  have ok1: "trade_ok cc ?e" by (rule trade_ok_drop_pending[OF ok])
  have ok2: "trade_ok cc (if b then reset_entry_pool s t ?e else ?e)" for b s t
    using ok1 trade_ok_core[OF ok1, of "reset_entry_pool s t ?e"] by (simp add: core_simps)
  have sub: "set (rank_entries cfg entries) \<subseteq> set entries" for cfg entries
  proof -
    have "set (insert_conf x xs) = insert x (set xs)" for x xs by (induction xs) auto
    then have "set (sort_conf xs) = set xs" for xs unfolding sort_conf_def by (induction xs) auto
    then show ?thesis by (auto simp: rank_entries_def top_k_def dest: in_set_takeD split: if_splits)
  qed
  have seen: "\<forall>p \<in> set (te_pending_entries e). bar_seen (if b then reset_entry_pool s t ?e else ?e) (pn_key p)" for b s t
    using ok by (auto simp: trade_ok_def bar_seen_def reset_entry_pool_def Let_def)
  have r: "trade_ok cc (enter_ranked env s (rank_entries cfg (te_pending_entries e)) (if b then reset_entry_pool s t ?e else ?e))"
    for b s t cfg using trade_ok_ranked[OF ok2] seen sub by blast
  show ?thesis unfolding flush_pending_entries_def Let_def using ok ok1 r by (simp split: option.split)
qed


lemma core_snapshot: "same_core e0 (snd (maybe_trigger_opi_snapshot env key reason e)) = same_core e0 e"
  "sent_alike e0 (snd (maybe_trigger_opi_snapshot env key reason e)) = sent_alike e0 e"
  by (simp_all add: maybe_trigger_opi_snapshot_def same_core_def sent_alike_def Let_def split: option.split bool.split)

lemma build_candidate_key: "build_candidate cfg expf n = Some p \<Longrightarrow> pn_key p = (pb_pair_id (sn_bar n), pb_token_side (sn_bar n))"
  by (auto simp: build_candidate_def Let_def bind_eq_Some_conv split: if_splits prod.splits)

lemma idle_candidate_core: "idle_candidate env key bar pm_move pm_mom ofi_value base_pm pm_mid st e = (c, e') \<Longrightarrow>
    same_core e e' \<and> sent_alike e e' \<and> (\<forall>p. c = Some p \<longrightarrow> pn_key p = (pb_pair_id bar, pb_token_side bar))"
proof -
  define good where "good = (\<lambda>r :: PendingEntry option \<times> TradeEngine. same_core e (snd r) \<and> sent_alike e (snd r)
    \<and> (\<forall>p. fst r = Some p \<longrightarrow> pn_key p = (pb_pair_id bar, pb_token_side bar)))"
  have g0: "good (None, e')" if "same_core e e'" "sent_alike e e'" for e' using that by (simp add: good_def)
  have g: "good (Option.bind m (\<lambda>opi_mid. build_candidate cfg ex (f opi_mid)), e')"
    if "same_core e e'" "sent_alike e e'" "\<And>x. sn_bar (f x) = bar" for e' m cfg ex f
    using that by (auto simp: good_def bind_eq_Some_conv dest: build_candidate_key)
  have g_pair: "good (case x of (a, b) \<Rightarrow> h a b)" if "good x" "\<And>a b. good (a, b) \<Longrightarrow> good (h a b)" for x h
    using that by (cases x) simp
  have g_opt: "good (case x of None \<Rightarrow> a | Some y \<Rightarrow> h y)" if "good a" "\<And>y. good (h y)" for x a h
    using that by (cases x) simp_all
  have g_if: "good (if b then x else y)" if "good x" "good y" for b x y using that by simp
  have g_fst: "good (if b then None else x, e')" if "good (None, e')" "good (x, e')" for b x e' using that by simp
  have gd: "good (a, b) \<Longrightarrow> same_core e b" "good (a, b) \<Longrightarrow> sent_alike e b" for a b by (simp_all add: good_def)
  have "good (idle_candidate env key bar pm_move pm_mom ofi_value base_pm pm_mid st e)"
    unfolding idle_candidate_def Let_def
    by (intro g_pair g_opt g_if g_fst g0 g) (auto simp: core_snapshot dest: gd)
  then show "idle_candidate env key bar pm_move pm_mom ofi_value base_pm pm_mid st e = (c, e') \<Longrightarrow>
    same_core e e' \<and> sent_alike e e' \<and> (\<forall>p. c = Some p \<longrightarrow> pn_key p = (pb_pair_id bar, pb_token_side bar))"
    by (simp add: good_def)
qed

lemma queue_put: "put_state key (st, queue_entry p e) = queue_entry p (put_state key (st, e))"
  by (simp add: put_state_def queue_entry_def Let_def split: option.split)

lemma trade_ok_queue: "trade_ok cc e \<Longrightarrow> bar_seen e (pn_key p) \<Longrightarrow> trade_ok cc (queue_entry p e)"
  by (auto simp: trade_ok_def queue_entry_def Let_def is_live_def bar_seen_def split: option.split
      simp del: split_paired_All split_paired_Ex)

lemma bar_fields: "core_fields (st\<lparr>pt_last_bar := a, pt_last_pm_move := b, pt_last_pm_mom := c, pt_last_ofi_250ms := d,
    pt_last_base_pm := f\<rparr>) = core_fields st"
  by (simp add: core_fields_def)

lemma trade_ok_bar: "trade_ok cc e \<Longrightarrow> (\<And>u. snd cc (pb_pair_id bar, pb_token_side bar) = Some u \<Longrightarrow> pb_bar_second bar < u) \<Longrightarrow>
    trade_ok cc (handle_bar env bar e)"
proof -
  assume ok0: "trade_ok cc e" and early: "\<And>u. snd cc (pb_pair_id bar, pb_token_side bar) = Some u \<Longrightarrow> pb_bar_second bar < u"
  define e1 where "e1 = flush_pending_entries env (pb_bar_second bar) e"
  have ok: "trade_ok cc e1" unfolding e1_def by (rule trade_ok_flush[OF ok0])
  define key where "key = (pb_pair_id bar, pb_token_side bar)"
  define st0 where "st0 = unwrap_or (te_states e1 key) pair_trade_default"
  define st where "st = observe_bar (te_cfg e1) bar st0"
  have ok0': "pair_ok (is_live e1) st0" and seen0: "pt_state st0 \<noteq> Idle \<Longrightarrow> pt_last_bar st0 \<noteq> None"
      and seen1: "bar_seen e1 key \<Longrightarrow> pt_last_bar st0 \<noteq> None"
    using trade_ok_state[OF ok, of key]
    by (cases "te_states e1 key"; auto simp: st0_def unwrap_or_def pair_ok_default bar_seen_def)+
  have f: "same_fields st0 st" unfolding st_def by (rule same_fields_observe)
  have rest: "resting st u \<and> pb_bar_second bar < u" if frz: "snd cc key = Some u" for u
  proof -
    obtain x where x: "te_states e1 key = Some x" "resting x u" using trade_ok_resting[OF ok frz] by blast
    have "st0 = x" unfolding st0_def x(1) unwrap_or_def by simp
    moreover have "resting st u = resting st0 u" using f by (intro resting_cong) (simp add: same_fields_def)
    ultimately show ?thesis using x(2) early[of u] frz unfolding key_def by simp
  qed
  have 1: "trade_ok cc (put_state key (check_cooldown s st, e1))" if s: "s = pb_bar_second bar" for s
  proof -
    have "pt_state (check_cooldown s st) \<noteq> Idle \<Longrightarrow> pt_state st0 \<noteq> Idle"
      using check_cooldown_bar(2)[of st s] same_fields_eq(1)[OF f] by auto
    then show ?thesis
      using ok ok0' seen0 seen1 pair_ok_check_cooldown[of "is_live e1" st s] same_fields_ok[OF f] same_fields_eq[OF f]
        resting_kept[of st _ s] rest s
      by (intro trade_ok_put) auto
  qed
  have 2: "trade_ok cc (put_state key (update_opi_snapshot bar (fst r), snd r))"
    if s: "st1 = st\<lparr>pt_last_bar := Some bar, pt_last_pm_move := a, pt_last_pm_mom := b, pt_last_ofi_250ms := c,
      pt_last_base_pm := d\<rparr>" "st2 = (if pt_state st1 = Idle then update_peak m dir st1 else st1)"
      and r: "r = bar_by_state env key bar pm_move pm_mom ofi_value base_pm pm_mid st2 e1"
    for st1 st2 a b c d m dir pm_move pm_mom ofi_value base_pm pm_mid r
  proof -
    have c: "core_fields st2 = core_fields st0" using f by (simp add: s window_fields bar_fields same_fields_def)
    have rest2: "resting st2 u" if "snd cc key = Some u" for u
      using rest[OF that] resting_cong[of st2 st] c f by (simp add: same_fields_def)
    have p2: "pair_ok (is_live e1) st2" using ok0' pair_ok_cong[OF c] by simp
    have lb: "pt_last_bar st2 = Some bar" by (simp add: s window_bar)
    have up: "pair_ok (is_live e1) (update_peak pm_move (pt_direction st2) st2)"
        "pt_state (update_peak pm_move (pt_direction st2) st2) = pt_state st2"
        "pt_last_bar (update_peak pm_move (pt_direction st2) st2) = Some bar"
      using p2 lb same_fields_ok[OF same_fields_peak(1)] same_fields_eq[OF same_fields_peak(1)] by simp_all
    have k: "keeps (update_peak pm_move (pt_direction st2) st2) e1 r" if "pt_state st2 \<notin> {Idle, Cooldown}"
      using that r up p2 by (cases "pt_state st2")
        (auto simp: bar_by_state_def open_state_def pair_ok_def[of _ st2] intro!: keeps_check_entry keeps_check_exit)
    have fin: "trade_ok cc (put_state key (update_opi_snapshot bar st', e'))"
      if "pair_ok (is_live e1) st'" "pt_last_bar st' \<noteq> None" "same_core e1 e'" "\<not> is_live e1 \<longrightarrow> sent_alike e1 e'"
        "\<And>u. snd cc key = Some u \<Longrightarrow> resting st' u" for st' e'
      using that ok same_fields_ok[OF same_fields_peak(2)] same_fields_eq[OF same_fields_peak(2)]
        resting_cong[of "update_opi_snapshot bar st'" st'] same_fields_peak(2)[of st' bar]
      by (intro trade_ok_put) (auto simp: same_fields_def)
    show ?thesis
    proof (cases "pt_state st2 = Idle")
      case True
      obtain c' e' where i: "idle_candidate env key bar pm_move pm_mom ofi_value base_pm pm_mid st2 e1 = (c', e')" by fastforce
      note ic = idle_candidate_core[OF i]
      have t: "trade_ok cc (put_state key (update_opi_snapshot bar st2, e'))" using fin[of st2 e'] p2 lb ic rest2 by simp
      have "r = (st2, case c' of Some entry \<Rightarrow> queue_entry entry e' | None \<Rightarrow> e')"
        using r True i by (simp add: bar_by_state_def)
      then show ?thesis using t ic lb
        by (auto simp: queue_put key_def bar_seen_def window_bar intro!: trade_ok_queue split: option.split)
    next
      case False
      show ?thesis
      proof (cases "pt_state st2 = Cooldown")
        case True
        then have "r = (check_cooldown (pb_bar_second bar) st2, e1)" using r by (simp add: bar_by_state_def)
        then show ?thesis using fin p2 lb rest rest2 by (simp add: pair_ok_check_cooldown resting_kept)
      next
        case False
        with \<open>pt_state st2 \<noteq> Idle\<close> k have "keeps (update_peak pm_move (pt_direction st2) st2) e1 r" by simp
        moreover have "snd cc key = None" using False rest2 by (cases "snd cc key") (auto simp: resting_def)
        ultimately show ?thesis using fin[of "fst r" "snd r"] up by (simp add: keeps_def)
      qed
    qed
  qed
  show ?thesis
    unfolding handle_bar_def Let_def e1_def[symmetric] key_def[symmetric] st0_def[symmetric] st_def[symmetric]
    using 1 2 by (simp add: case_prod_unfold split: option.split)
qed


section \<open>Fills and updates\<close>

lemma keeps_at_entry: "pair_ok (is_live e) st \<Longrightarrow> keeps st e (fills_at_entry env key bar fills st e)"
proof -
  assume ok: "pair_ok (is_live e) st"
  obtain b st1 e1 where r: "apply_entry_fills env st bar (unwrap_or (pt_last_pm_move st) 0) (unwrap_or (pt_last_pm_mom st) 0)
      (unwrap_or (pt_last_ofi_250ms st) 0) fills e = (b, st1, e1)" by (metis prod.exhaust)
  have k: "keeps st e (st1, e1)" using keeps_entry_fills[OF ok, of env bar _ _ _ fills] r by (metis snd_conv)
  have o: "b \<Longrightarrow> open_state st1" using filled_state[of env st bar] r by (metis open_state_def fst_conv snd_conv insertI1)
  show ?thesis unfolding fills_at_entry_def Let_def r prod.case
    using k keeps_trans[OF k keeps_check_exit] o by simp
qed

lemma clear_poll_ok: "pair_ok live st \<Longrightarrow> pair_ok live (st\<lparr>pt_fill_poll_req_id := None\<rparr>)"
  "pair_ok live st \<Longrightarrow> pair_ok live (st\<lparr>pt_fill_poll_req_id := None, pt_last_fill_poll_ms := t\<rparr>)"
  by (cases "pt_state st"; simp add: pair_ok_def no_orders_def at_rest_def holding_def)+

lemma core_poll_backoff: "same_core e0 (update_fill_poll_backoff env a b e) = same_core e0 e"
  "sent_alike e0 (update_fill_poll_backoff env a b e) = sent_alike e0 e"
  "same_core e0 (e\<lparr>te_fill_poll_backoff_ms := x, te_fill_poll_backoff_until_ms := y\<rparr>) = same_core e0 e"
  "sent_alike e0 (e\<lparr>te_fill_poll_backoff_ms := x, te_fill_poll_backoff_until_ms := y\<rparr>) = sent_alike e0 e"
  by (simp_all add: update_fill_poll_backoff_def same_core_def sent_alike_def Let_def)

lemma pair_ok_orders: "pair_ok live st \<Longrightarrow> pt_entry_order_id st \<noteq> None \<or> pt_exit_order_id st \<noteq> None \<or> pt_fill_poll_req_id st \<noteq> None
    \<or> pt_entry_cancel_req_id st \<noteq> None \<or> pt_exit_cancel_req_id st \<noteq> None \<Longrightarrow>
    live \<and> pt_state st \<in> {EntryWorking, PositionOpen, ExitWorking}"
  by (cases "pt_state st") (auto simp: pair_ok_def no_orders_def at_rest_def)

lemma trade_ok_fill_response: "trade_ok cc e \<Longrightarrow> trade_ok cc (handle_fill_response env key n kind result e)"
proof (cases "\<exists>st. te_states e key = Some st \<and> pt_fill_poll_req_id st = Some n")
  case False
  assume "trade_ok cc e"
  with False show ?thesis by (auto simp: handle_fill_response_def split: option.split)
next
  case True
  assume ok: "trade_ok cc e"
  from True obtain st where st: "te_states e key = Some st" "pt_fill_poll_req_id st = Some n" by blast
  have p: "pair_ok (is_live e) st" using trade_ok_state[OF ok st(1)] by simp
  have w: "pt_state st \<notin> {Idle, Cooldown}" using pair_ok_orders[OF p] st(2) by auto
  define st1 where "st1 = st\<lparr>pt_fill_poll_req_id := None\<rparr>"
  define e1 where "e1 = update_fill_poll_backoff env (fp_rate_limited result) (fp_error result = None) e"
  have k: "keeps st e (st1, e1)"
    using clear_poll_ok(1)[OF p] by (simp add: keeps_def st1_def e1_def core_poll_backoff)
  note p1 = keeps_okD[OF k]
  have k2: "keeps st1 e1 (fills_at_exit env bar fills st1 e1)" for bar fills
    unfolding fills_at_exit_def by (rule keeps_exit_fills[OF p1])
  have "keeps st e (case (fp_fills result, pt_last_bar st1) of
               (_ # _, Some bar) \<Rightarrow> (case kind of
                   FillEntry \<Rightarrow> fills_at_entry env key bar (fp_fills result) st1 e1
                 | FillExit \<Rightarrow> fills_at_exit env bar (fp_fills result) st1 e1)
             | _ \<Rightarrow> (st1, e1))"
    using k keeps_trans[OF k keeps_at_entry] keeps_trans[OF k k2]
    by (simp split: list.split option.split FillKind.split)
  then have "trade_ok cc (put_state key (case (fp_fills result, pt_last_bar st1) of
               (_ # _, Some bar) \<Rightarrow> (case kind of
                   FillEntry \<Rightarrow> fills_at_entry env key bar (fp_fills result) st1 e1
                 | FillExit \<Rightarrow> fills_at_exit env bar (fp_fills result) st1 e1)
             | _ \<Rightarrow> (st1, e1)))" by (rule trade_ok_step[OF ok st(1) w])
  then show ?thesis unfolding handle_fill_response_def st(1) option.case Let_def st1_def e1_def st(2) by simp
qed

lemma keeps_ws_fills: "pair_ok (is_live e) st \<Longrightarrow> keeps st e (apply_ws_fills env key a b fills st e)"
proof (cases "fills = [] \<or> pt_last_bar st = None")
  case True
  assume "pair_ok (is_live e) st"
  with True show ?thesis by (auto simp: apply_ws_fills_def keeps_refl split: list.split option.split)
next
  case False
  assume ok: "pair_ok (is_live e) st"
  from False obtain f fs bar where f: "fills = f # fs" "pt_last_bar st = Some bar" by (auto simp: neq_Nil_conv)
  define st1 where "st1 = st\<lparr>pt_fill_poll_req_id := None, pt_last_fill_poll_ms := Some (tv_now env)\<rparr>"
  define e1 where "e1 = e\<lparr>te_fill_poll_backoff_ms := 0, te_fill_poll_backoff_until_ms := None\<rparr>"
  have k: "keeps st e (st1, e1)"
    using clear_poll_ok(2)[OF ok] by (simp add: keeps_def st1_def e1_def core_poll_backoff)
  obtain st2 e2 where r: "(if a then fills_at_entry env key bar (f # fs) st1 e1 else (st1, e1)) = (st2, e2)" by fastforce
  have k2: "keeps st e (st2, e2)" using r k keeps_trans[OF k keeps_at_entry[of e1 st1 env key bar "f # fs"]] by (auto split: if_splits)
  show ?thesis
    unfolding apply_ws_fills_def f list.case option.case prod.case Let_def st1_def[symmetric] e1_def[symmetric] r
    using k2 keeps_trans[OF k2 keeps_exit_fills] by simp
qed

lemma keeps_ws_cancelled: "pair_ok (is_live e) st \<Longrightarrow> m \<or> open_state st \<Longrightarrow> keeps st e (ws_cancelled env key m st e)"
proof (cases m)
  case True
  have "keeps (st\<lparr>pt_entry_cancel_pending := False, pt_entry_cancel_reason := None, pt_entry_cancel_req_id := None\<rparr>) e
    (ws_cancelled env key m st e)"
    unfolding ws_cancelled_def Let_def using True keeps_finalize
    by (auto simp: keeps_def split: option.split)
  then show ?thesis by (simp add: keeps_def)
next
  case False
  assume "pair_ok (is_live e) st" "m \<or> open_state st"
  with False show ?thesis by (auto simp: ws_cancelled_def keeps_def pair_ok_def open_state_def no_orders_def holding_def)
qed

lemma core_clear_retry: "same_core e0 (clear_cancel_retry oid e) = same_core e0 e"
  "sent_alike e0 (clear_cancel_retry oid e) = sent_alike e0 e"
  "same_core e0 (e\<lparr>te_last_ws_user_msg_ms := t\<rparr>) = same_core e0 e"
  "sent_alike e0 (e\<lparr>te_last_ws_user_msg_ms := t\<rparr>) = sent_alike e0 e"
  by (simp_all add: clear_cancel_retry_def same_core_def sent_alike_def)


lemma trade_ok_msg: "trade_ok cc e \<Longrightarrow> trade_ok cc (e\<lparr>te_last_ws_user_msg_ms := t\<rparr>)"
  using trade_ok_core[of cc e "e\<lparr>te_last_ws_user_msg_ms := t\<rparr>"] by (simp add: core_clear_retry)

lemma trade_ok_if: "(c \<Longrightarrow> trade_ok cc a) \<Longrightarrow> (\<not> c \<Longrightarrow> trade_ok cc b) \<Longrightarrow> trade_ok cc (if c then a else b)"
  by simp

lemma trade_ok_order_update: "trade_ok cc e \<Longrightarrow> trade_ok cc (handle_opinion_order_update env u e)"
proof -
  assume "trade_ok cc e"
  then have ok: "trade_ok cc (e\<lparr>te_last_ws_user_msg_ms := Some (tv_now env)\<rparr>)" (is "trade_ok cc ?e") by (rule trade_ok_msg)
  define key where "key = (ou_pair_id u, ou_token_side u)"
  show ?thesis
  proof (cases "\<exists>st. te_states ?e key = Some st \<and> (pt_entry_order_id st = Some (ou_order_id u) \<or> pt_exit_order_id st = Some (ou_order_id u))")
    case False
    then show ?thesis using ok unfolding handle_opinion_order_update_def Let_def key_def[symmetric]
      by (auto split: option.split)
  next
    case True
    then obtain st where st: "te_states ?e key = Some st"
      "pt_entry_order_id st = Some (ou_order_id u) \<or> pt_exit_order_id st = Some (ou_order_id u)" by blast
    define a where "a \<longleftrightarrow> pt_entry_order_id st = Some (ou_order_id u)"
    define b where "b \<longleftrightarrow> pt_exit_order_id st = Some (ou_order_id u)"
    have p: "pair_ok (is_live ?e) st" using trade_ok_state[OF ok st(1)] by simp
    have w: "pt_state st \<notin> {Idle, Cooldown}" and ao: "a \<or> open_state st"
      using pair_ok_orders[OF p] st(2) p by (auto simp: a_def open_state_def pair_ok_def)
    have k: "keeps st ?e (st, clear_cancel_retry oid ?e)" for oid using p by (simp add: keeps_def core_clear_retry)
    have 1: "trade_ok cc (put_state key (ws_cancelled env key a st (clear_cancel_retry oid ?e)))" for oid
      by (rule trade_ok_step[OF ok st(1) w]) (rule keeps_trans[OF k keeps_ws_cancelled[OF _ ao]])
    have 2: "trade_ok cc (put_state key (apply_ws_fills env key a b fills st ?e))" for fills
      by (rule trade_ok_step[OF ok st(1) w]) (rule keeps_ws_fills[OF p])
    have 3: "trade_ok cc (put_state key (maybe_enqueue_fill_poll env st key kind ?e))" for kind
      by (rule trade_ok_step[OF ok st(1) w]) (rule keeps_fill_poll[OF p])
    show ?thesis
      unfolding handle_opinion_order_update_def Let_def key_def[symmetric] st(1) option.case a_def[symmetric] b_def[symmetric]
      by (intro trade_ok_if ok 1 2 3)
  qed
qed

lemma trade_ok_trade_record: "trade_ok cc e \<Longrightarrow> trade_ok cc (handle_opinion_trade_record env u e)"
proof -
  assume "trade_ok cc e"
  then have ok: "trade_ok cc (e\<lparr>te_last_ws_user_msg_ms := Some (tv_now env)\<rparr>)" (is "trade_ok cc ?e") by (rule trade_ok_msg)
  define key where "key = (otr_pair_id u, otr_token_side u)"
  have "trade_ok cc (put_state key (apply_ws_fills env key (pt_entry_order_id st = Some (otr_order_id u))
      (pt_exit_order_id st = Some (otr_order_id u)) fills st ?e))"
    if st: "te_states ?e key = Some st" "pt_entry_order_id st = Some (otr_order_id u) \<or> pt_exit_order_id st = Some (otr_order_id u)"
    for st fills
  proof -
    have p: "pair_ok (is_live ?e) st" using trade_ok_state[OF ok st(1)] by simp
    have w: "pt_state st \<notin> {Idle, Cooldown}" using pair_ok_orders[OF p] st(2) by auto
    show ?thesis by (rule trade_ok_step[OF ok st(1) w]) (rule keeps_ws_fills[OF p])
  qed
  note step = this
  show ?thesis
  proof (cases "te_states ?e key")
    case None
    then show ?thesis using ok unfolding handle_opinion_trade_record_def Let_def key_def[symmetric] by simp
  next
    case (Some st)
    show ?thesis unfolding handle_opinion_trade_record_def Let_def key_def[symmetric] Some option.case
      by (intro trade_ok_if ok step[OF Some]) auto
  qed
qed

section \<open>Responses and ticks\<close>

lemma trade_ok_entry_result: "trade_ok cc e \<Longrightarrow> trade_ok cc (handle_entry_place_result env key n result e)"
proof (cases "\<exists>st. te_states e key = Some st \<and> pt_entry_place_req_id st = Some n")
  case False
  assume "trade_ok cc e"
  with False show ?thesis by (auto simp: handle_entry_place_result_def split: option.split)
next
  case True
  assume ok: "trade_ok cc e"
  from True obtain st where st: "te_states e key = Some st" "pt_entry_place_req_id st = Some n" by blast
  have p: "pair_ok (is_live e) st" using trade_ok_state[OF ok st(1)] by simp
  then have w: "pt_state st = EntryPlacing" using st(2) by (cases "pt_state st") (auto simp: pair_ok_def at_rest_def)
  then obtain entry where en: "pt_pending_entry st = Some entry" using p by (auto simp: pair_ok_def)
  define st1 where "st1 = st\<lparr>pt_entry_place_req_id := None, pt_pending_entry := None, pt_pending_entry_meta := None\<rparr>"
  have placed: "pair_ok (is_live e) (entry_placed env entry result st1)" "pt_last_bar (entry_placed env entry result st1) = pt_last_bar st"
    using p w by (auto simp: st1_def entry_placed_def pair_ok_def holding_def no_orders_def Let_def)
  have 1: "trade_ok cc (put_state key (entry_placed env entry result st1, emit_row r (add_exposure k x a e)))" for r k x a
    using placed by (intro trade_ok_step[OF ok st(1)]) (simp_all add: w keeps_def core_simps)
  have 2: "trade_ok cc (put_state key (enter_cooldown s ms (st1\<lparr>pt_entry_notional := None\<rparr>),
      emit_row r (release_entry_pool a b x e)))" for s ms r a b x
    by (intro trade_ok_step[OF ok st(1)]) (simp_all add: w keeps_def core_simps st1_def)
  show ?thesis
    unfolding handle_entry_place_result_def st(1) option.case Let_def en st1_def[symmetric]
    using st(2) 1 2 by simp
qed

lemma trade_ok_exit_result: "trade_ok cc e \<Longrightarrow> handle_exit_place_result env key n result e = e"
  using trade_ok_state[of cc e key]
  by (cases "te_states e key") (auto simp: handle_exit_place_result_def pair_ok_def)

lemma core_open: "same_core e0 (snd (is_order_open_for_cancel env key oid e)) = same_core e0 e"
  by (simp add: is_order_open_for_cancel_def same_core_def Let_def split: option.split bool.split)

lemma core_verify: "same_core e0 (snd (verify_cancel env key oid result e)) = same_core e0 e"
  using core_open[of e0 env key oid e] by (simp add: verify_cancel_def case_prod_unfold Let_def)

lemma core_backoffs: "same_core e0 (update_cancel_backoff env result e) = same_core e0 e"
  "same_core e0 (evict_open_order_cache m oid e) = same_core e0 e"
  "same_core e0 (record_cancel_failure env oid now e) = same_core e0 e"
  by (simp_all add: update_cancel_backoff_def count_cancel_failure_def start_cancel_backoff_def open_cancel_circuit_def
      evict_open_order_cache_def record_cancel_failure_def same_core_def Let_def split: option.split)


lemma find_cancel_Some: "find_cancel env n e = Some (key, st) \<Longrightarrow> te_states e key = Some st
    \<and> (pt_entry_cancel_req_id st = Some n \<or> pt_exit_cancel_req_id st = Some n)"
  by (auto simp: find_cancel_def bind_eq_Some_conv find_Some_iff opt_holds_def split: option.splits)

lemma trade_ok_cancel_response: "trade_ok cc e \<Longrightarrow> trade_ok cc (handle_cancel_response env n oid result e)"
proof (cases "find_cancel env n e")
  case None
  assume "trade_ok cc e"
  with None show ?thesis by (simp add: handle_cancel_response_def)
next
  case (Some kst)
  assume ok: "trade_ok cc e"
  obtain key st where kst: "kst = (key, st)" by fastforce
  have st: "te_states e key = Some st" and ids: "pt_entry_cancel_req_id st = Some n \<or> pt_exit_cancel_req_id st = Some n"
    using find_cancel_Some[of env n e key st] Some kst by simp_all
  have p: "pair_ok (is_live e) st" using trade_ok_state[OF ok st] by simp
  have live: "is_live e" and w: "pt_state st \<in> {EntryWorking, PositionOpen, ExitWorking}"
    using pair_ok_orders[OF p] ids by auto
  obtain v e1 where v: "verify_cancel env key oid result e = (v, e1)" by fastforce
  have c1: "same_core e e1" using core_verify[of e env key oid result e] v by simp
  define e2 where "e2 = (if cr_ok result \<or> v then
                let e = clear_cancel_retry oid (update_cancel_backoff env result e1)
                in (case te_order_targets e key of Some target \<Rightarrow> evict_open_order_cache (ot_market_id target) oid e
                    | None \<Rightarrow> e)
              else record_cancel_failure env oid (tv_now env) (update_cancel_backoff env result e1))"
  have c2: "same_core e e2" using c1 by (simp add: e2_def Let_def core_backoffs core_clear_retry split: option.split)
  have put: "trade_ok cc (put_state key (st', e'))"
    if "pair_ok True st'" "pt_last_bar st' = pt_last_bar st" "same_core e e'" for st' e'
    using that live w by (intro trade_ok_step[OF ok st]) (auto simp: keeps_def)
  have 1: "trade_ok cc (put_state key (st\<lparr>pt_entry_cancel_req_id := None\<rparr>, e2))"
    "trade_ok cc (put_state key (st\<lparr>pt_exit_cancel_req_id := None\<rparr>, e2))"
    using p live w by (auto intro!: put c2 simp: pair_ok_def no_orders_def holding_def)
  have 2: "trade_ok cc (put_state key (enter_cooldown s ms (st\<lparr>pt_entry_cancel_req_id := None\<rparr>), e2))" for s ms
    by (rule put) (simp_all add: c2)
  have 3: "trade_ok cc (put_state key (finalize_entry_cancel env (st\<lparr>pt_entry_cancel_req_id := None\<rparr>) bar a b c rs key e2))" for bar a b c rs
  proof -
    have "keeps (st\<lparr>pt_entry_cancel_req_id := None\<rparr>) e2 (finalize_entry_cancel env (st\<lparr>pt_entry_cancel_req_id := None\<rparr>) bar a b c rs key e2)"
      (is "keeps _ _ ?r") by (rule keeps_finalize)
    then show ?thesis using put[of "fst ?r" "snd ?r"] same_core_live[OF c2] live same_core_trans[OF c2]
      by (auto simp: keeps_def)
  qed
  have 4: "trade_ok cc (put_state key (st\<lparr>pt_exit_cancel_req_id := None, pt_exit_order_id := None, pt_exit_client_id := None,
      pt_exit_cancel_pending := False, pt_exit_cancel_reason := None\<rparr>, e2))"
    using p live w by (auto intro!: put c2 simp: pair_ok_def no_orders_def holding_def)
  show ?thesis
    unfolding handle_cancel_response_def Some kst option.case prod.case v Let_def[of "(v, e1)"]
      Let_def[of "update_cancel_backoff env result e1"] Let_def[of "cr_ok result \<or> v"] e2_def[symmetric]
    unfolding Let_def[of e2] Let_def[of "pt_entry_cancel_req_id st = Some n"]
    using 1 2 3 4 by (simp add: Let_def split: option.split)
qed

lemma trade_ok_tick: "trade_ok cc e \<Longrightarrow> trade_ok cc (tick_key env key e)"
proof -
  assume ok: "trade_ok cc e"
  have "trade_ok cc (put_state key (st'\<lparr>pt_last_bar := Some bar\<rparr>, e'))"
    if st: "te_states e key = Some st" "pt_state st \<in> {EntryWorking, ExitWorking}"
      and r: "(if pt_state st = EntryWorking then check_entry env (st\<lparr>pt_last_bar := None\<rparr>) bar a b c key e
        else if 0 < d then check_exit env (st\<lparr>pt_last_bar := None\<rparr>) bar a b c d key e
        else (st\<lparr>pt_last_bar := None\<rparr>, e)) = (st', e')" for st bar a b c d st' e'
  proof -
    let ?st = "st\<lparr>pt_last_bar := None\<rparr>"
    have f: "core_fields (x\<lparr>pt_last_bar := y\<rparr>) = core_fields x" for x y by (simp add: core_fields_def)
    have p: "pair_ok (is_live e) ?st" using trade_ok_state[OF ok st(1)] pair_ok_cong[OF f] by simp
    have "keeps ?st e (st', e')"
      using r st(2) keeps_check_entry[OF p, of env bar a b c key] keeps_check_exit[OF p, of env bar a b c d key] keeps_refl[OF p]
      by (auto simp: open_state_def split: if_splits)
    then show ?thesis using pair_ok_cong[OF f]
      using st trade_ok_resting[OF ok, of key] by (intro trade_ok_put[OF ok]) (auto simp: keeps_def resting_def)
  qed
  note step = this
  show ?thesis
  proof (cases "te_states e key")
    case None
    then show ?thesis using ok by (simp add: tick_key_def)
  next
    case (Some st)
    show ?thesis
    proof (cases "pt_state st \<in> {EntryWorking, ExitWorking} \<and> pt_last_bar st \<noteq> None")
      case False
      then show ?thesis using ok Some by (auto simp: tick_key_def split: option.split bool.split)
    next
      case True
      then obtain bar where w: "pt_state st \<in> {EntryWorking, ExitWorking}" and bar: "pt_last_bar st = Some bar" by auto
      obtain st' e' where r: "(if pt_state st = EntryWorking
          then check_entry env (st\<lparr>pt_last_bar := None\<rparr>) bar (unwrap_or (pt_last_pm_move st) 0)
            (unwrap_or (pt_last_pm_mom st) 0) (unwrap_or (pt_last_ofi_250ms st) 0) key e
          else if 0 < unwrap_or (or_else (pt_last_base_pm st) (pt_base_pm st)) 0
          then check_exit env (st\<lparr>pt_last_bar := None\<rparr>) bar (unwrap_or (pt_last_pm_move st) 0)
            (unwrap_or (pt_last_pm_mom st) 0) (unwrap_or (pt_last_ofi_250ms st) 0)
            (unwrap_or (or_else (pt_last_base_pm st) (pt_base_pm st)) 0) key e
          else (st\<lparr>pt_last_bar := None\<rparr>, e)) = (st', e')" by fastforce
      have u: "pt_state (st\<lparr>pt_last_bar := None\<rparr>) = pt_state st" by simp
      show ?thesis unfolding tick_key_def Some option.case bar w[THEN eqTrueI] bool.case prod.case Let_def u r
        by (rule step[OF Some w r])
    qed
  qed
qed

lemma trade_ok_handle: "trade_ok cc e \<Longrightarrow>
    (\<And>bar u. l = TradeMsg (PairBar bar) \<Longrightarrow> snd cc (pb_pair_id bar, pb_token_side bar) = Some u \<Longrightarrow> pb_bar_second bar < u) \<Longrightarrow>
    trade_ok cc (trade_handle env l e)"
proof -
  assume ok: "trade_ok cc e"
    and early: "\<And>bar u. l = TradeMsg (PairBar bar) \<Longrightarrow> snd cc (pb_pair_id bar, pb_token_side bar) = Some u \<Longrightarrow> pb_bar_second bar < u"
  have shock: "trade_ok cc (handle_shock s e)" for s
    by (rule trade_ok_core[OF ok]) (simp_all add: handle_shock_def same_core_def sent_alike_def Let_def)
  have tick: "trade_ok cc (fold (tick_key env) ks e)" for ks
    using ok by (induction ks arbitrary: e) (simp_all add: trade_ok_tick)
  show ?thesis
    using ok shock tick early by (auto simp: trade_handle_def handle_order_response_def cancel_check_tick_def
        trade_ok_bar trade_ok_order_update trade_ok_trade_record trade_ok_entry_result trade_ok_exit_result
        trade_ok_fill_response trade_ok_cancel_response
        split: TradeLabel.split TradeMessage.split OrderResponse.split PlaceKind.split)
qed

lemma trade_ok_new: "trade_ok ((cfg, c), Map.empty) (trade_engine_new cfg c t targets risk now)"
  by (simp add: trade_ok_def trade_engine_new_def)

lemma trade_ok_risk: "trade_ok cc e \<Longrightarrow> trade_ok cc (e\<lparr>te_risk := risk\<rparr>)"
  using trade_ok_core[of cc e "e\<lparr>te_risk := risk\<rparr>"] by (simp add: core_update)

lemma trade_ok_reach: "trade_reach e0 e \<Longrightarrow> trade_ok (c, Map.empty) e0 \<Longrightarrow> trade_ok (c, Map.empty) e"
proof (induction rule: trade_reach.induct)
  case (trade_step e env l)
  then show ?case by (intro trade_ok_handle) simp_all
qed (simp_all add: trade_ok_risk)

end
