(* ===== verification/TradeDemo.thy ===== *)
theory TradeDemo
  imports TradeInv
begin

text \<open>
  Concrete settings, bars and environments, for the witnesses of the trading engine: a pair whose
  Opinion book is one bid at 1 and one ask at 2 while Polymarket trades at 3.
\<close>

definition demo_bar :: "int \<Rightarrow> int option \<Rightarrow> Bars1sPair" where
  "demo_bar second staleness = \<lparr>
     pb_pair_id = 7, pb_token_side = Yes, pb_bar_second = second, pb_poly_bar_gap_flag = 0,
     pb_opi_bar_gap_flag = 0, pb_bar_gap_flag = 0, pb_poly_bar_stale_flag = 0, pb_opi_bar_stale_flag = 0,
     pb_bar_stale_flag = 0, pb_poly_staleness_ms = staleness, pb_opi_staleness_ms = staleness,
     pb_poly_best_bid = None, pb_poly_best_ask = None, pb_poly_mid = Some (Fin 3), pb_poly_micro = None,
     pb_poly_best_bid_state = None, pb_poly_best_ask_state = None, pb_poly_mid_state = None,
     pb_opi_best_bid = None, pb_opi_best_ask = None, pb_opi_mid = None,
     pb_opi_best_bid_state = Some (Fin 1), pb_opi_best_ask_state = Some (Fin 2),
     pb_opi_mid_state = Some (Fin (3 / 2)), pb_opi_last_price = None,
     pb_opi_taker_buy_notional_1s = None, pb_opi_taker_sell_notional_1s = None, pb_opi_micro = None,
     pb_opi_bid_l1_notional = Some (Fin 1), pb_opi_bid_l2_notional = None, pb_opi_bid_l3_notional = None,
     pb_opi_ask_l1_notional = None, pb_opi_ask_l2_notional = None, pb_opi_ask_l3_notional = None,
     pb_poly_fee_bps = None, pb_opi_fee_bps = None, pb_gas_cost = None, pb_network_congestion_flag = 0,
     pb_gross_spread_buy = None, pb_gross_spread_sell = None, pb_true_net_spread_buy_opinion = None,
     pb_true_net_spread_sell_opinion = None, pb_arb_mode_flag = 0, pb_directional_mode_flag = 0,
     pb_poly_cvd_30s = None, pb_poly_buy_sell_ratio_30s = None, pb_price_pressure_index = None,
     pb_poly_ofi_250ms = None, pb_poly_buy_notional_1s = None, pb_poly_sell_notional_1s = None,
     pb_poly_max_trade_notional_1s = None, pb_poly_buy_notional_250ms = None,
     pb_poly_sell_notional_250ms = None, pb_poly_max_trade_notional_250ms = None,
     pb_poly_bid_delta_notional_250ms = None, pb_poly_ask_delta_notional_250ms = None,
     pb_poly_mid_slope_250ms = None, pb_poly_obs_latency_p99_ms = None, pb_opi_obs_latency_p99_ms = None,
     pb_rolling_corr_5m = None, pb_rolling_corr_samples_5m = None, pb_estimated_lag_s = None,
     pb_lag_confidence = None, pb_beta_1m = None, pb_follow_score_raw = None, pb_follow_score_adj = None,
     pb_poly_depth_imbalance_top10 = None, pb_poly_book_pressure_250ms = None, pb_poly_spread_bps = None,
     pb_poly_micro_bias_bps = None, pb_book_alpha_raw = None, pb_book_alpha_adj = None\<rparr>"

definition demo_cfg :: "bool \<Rightarrow> f64 \<Rightarrow> TradeConfig" where
  "demo_cfg dry gas_buffer = trade_config_default\<lparr>cfg_enabled := True, cfg_dry_run := dry, cfg_gas_mult := 0,
     cfg_gas_buffer_usd := gas_buffer, cfg_alpha_a_enabled := False, cfg_alpha_c_enabled := False,
     cfg_follow_min_corr := 0, cfg_follow_min_lag_conf := 0, cfg_follow_min_range := 0,
     cfg_max_bar_gap_ratio_1m := 0, cfg_alpha_b_move_min := 0, cfg_alpha_b_mom_min := 0,
     cfg_alpha_b_edge_norm_min := 0, cfg_alpha_b_retrace_cancel_ratio := 0, cfg_alpha_b_ofi_flip_cancel_usd := 0,
     cfg_alpha_b_entry_ttl_frac := 0, cfg_alpha_b_cost_mult := 1,
     cfg_rank_w_edge := 0, cfg_rank_w_driver := 0, cfg_rank_w_stale := 0, cfg_rank_w_cost := 0,
     cfg_rank_w_bookshape := 0, cfg_rank_ofi_scale := 1,
     cfg_book_decay_block := 1, cfg_book_support_block := 0, cfg_book_decay_scale := 1, cfg_book_support_scale := 0,
     cfg_book_scale_min := 0, cfg_entry_fraction := 0, cfg_entry_fraction_free := 0, cfg_entry_pool_frac := 1,
     cfg_min_order_notional_usd := 0, cfg_max_global_exposure_frac := 1, cfg_max_per_pair_exposure_frac := 1,
     cfg_strategy_cap_b := 0, cfg_per_trade_cap_b := 0, cfg_balance_total_usd := Fin 100,
     cfg_balance_free_usd := Fin 100, cfg_entry_spread_max_pct := 0, cfg_entry_aggr_enabled := False,
     cfg_tick_px := 1, cfg_k_edge := 0, cfg_k_mom := 0, cfg_k_shock := 0, cfg_max_chase_ticks := 0,
     cfg_base_alpha := 0, cfg_alpha_b_use_pair_quantile := False, cfg_max_opi_staleness_p90_ms := 0\<rparr>"

lemma demo_bar_simps [simp]:
  "pb_pair_id (demo_bar second staleness) = 7"
  "pb_token_side (demo_bar second staleness) = Yes"
  "pb_bar_second (demo_bar second staleness) = second"
  "pb_poly_bar_gap_flag (demo_bar second staleness) = 0"
  "pb_opi_bar_gap_flag (demo_bar second staleness) = 0"
  "pb_bar_gap_flag (demo_bar second staleness) = 0"
  "pb_poly_bar_stale_flag (demo_bar second staleness) = 0"
  "pb_opi_bar_stale_flag (demo_bar second staleness) = 0"
  "pb_bar_stale_flag (demo_bar second staleness) = 0"
  "pb_poly_staleness_ms (demo_bar second staleness) = staleness"
  "pb_opi_staleness_ms (demo_bar second staleness) = staleness"
  "pb_poly_best_bid (demo_bar second staleness) = None"
  "pb_poly_best_ask (demo_bar second staleness) = None"
  "pb_poly_mid (demo_bar second staleness) = Some (Fin 3)"
  "pb_poly_micro (demo_bar second staleness) = None"
  "pb_poly_best_bid_state (demo_bar second staleness) = None"
  "pb_poly_best_ask_state (demo_bar second staleness) = None"
  "pb_poly_mid_state (demo_bar second staleness) = None"
  "pb_opi_best_bid (demo_bar second staleness) = None"
  "pb_opi_best_ask (demo_bar second staleness) = None"
  "pb_opi_mid (demo_bar second staleness) = None"
  "pb_opi_best_bid_state (demo_bar second staleness) = Some (Fin 1)"
  "pb_opi_best_ask_state (demo_bar second staleness) = Some (Fin 2)"
  "pb_opi_mid_state (demo_bar second staleness) = Some (Fin (3 / 2))"
  "pb_opi_last_price (demo_bar second staleness) = None"
  "pb_opi_taker_buy_notional_1s (demo_bar second staleness) = None"
  "pb_opi_taker_sell_notional_1s (demo_bar second staleness) = None"
  "pb_opi_micro (demo_bar second staleness) = None"
  "pb_opi_bid_l1_notional (demo_bar second staleness) = Some (Fin 1)"
  "pb_opi_bid_l2_notional (demo_bar second staleness) = None"
  "pb_opi_bid_l3_notional (demo_bar second staleness) = None"
  "pb_opi_ask_l1_notional (demo_bar second staleness) = None"
  "pb_opi_ask_l2_notional (demo_bar second staleness) = None"
  "pb_opi_ask_l3_notional (demo_bar second staleness) = None"
  "pb_poly_fee_bps (demo_bar second staleness) = None"
  "pb_opi_fee_bps (demo_bar second staleness) = None"
  "pb_gas_cost (demo_bar second staleness) = None"
  "pb_network_congestion_flag (demo_bar second staleness) = 0"
  "pb_gross_spread_buy (demo_bar second staleness) = None"
  "pb_gross_spread_sell (demo_bar second staleness) = None"
  "pb_true_net_spread_buy_opinion (demo_bar second staleness) = None"
  "pb_true_net_spread_sell_opinion (demo_bar second staleness) = None"
  "pb_arb_mode_flag (demo_bar second staleness) = 0"
  "pb_directional_mode_flag (demo_bar second staleness) = 0"
  "pb_poly_cvd_30s (demo_bar second staleness) = None"
  "pb_poly_buy_sell_ratio_30s (demo_bar second staleness) = None"
  "pb_price_pressure_index (demo_bar second staleness) = None"
  "pb_poly_ofi_250ms (demo_bar second staleness) = None"
  "pb_poly_buy_notional_1s (demo_bar second staleness) = None"
  "pb_poly_sell_notional_1s (demo_bar second staleness) = None"
  "pb_poly_max_trade_notional_1s (demo_bar second staleness) = None"
  "pb_poly_buy_notional_250ms (demo_bar second staleness) = None"
  "pb_poly_sell_notional_250ms (demo_bar second staleness) = None"
  "pb_poly_max_trade_notional_250ms (demo_bar second staleness) = None"
  "pb_poly_bid_delta_notional_250ms (demo_bar second staleness) = None"
  "pb_poly_ask_delta_notional_250ms (demo_bar second staleness) = None"
  "pb_poly_mid_slope_250ms (demo_bar second staleness) = None"
  "pb_poly_obs_latency_p99_ms (demo_bar second staleness) = None"
  "pb_opi_obs_latency_p99_ms (demo_bar second staleness) = None"
  "pb_rolling_corr_5m (demo_bar second staleness) = None"
  "pb_rolling_corr_samples_5m (demo_bar second staleness) = None"
  "pb_estimated_lag_s (demo_bar second staleness) = None"
  "pb_lag_confidence (demo_bar second staleness) = None"
  "pb_beta_1m (demo_bar second staleness) = None"
  "pb_follow_score_raw (demo_bar second staleness) = None"
  "pb_follow_score_adj (demo_bar second staleness) = None"
  "pb_poly_depth_imbalance_top10 (demo_bar second staleness) = None"
  "pb_poly_book_pressure_250ms (demo_bar second staleness) = None"
  "pb_poly_spread_bps (demo_bar second staleness) = None"
  "pb_poly_micro_bias_bps (demo_bar second staleness) = None"
  "pb_book_alpha_raw (demo_bar second staleness) = None"
  "pb_book_alpha_adj (demo_bar second staleness) = None"
  by (simp_all add: demo_bar_def)

lemma demo_cfg_simps [simp]:
  "cfg_enabled (demo_cfg dry gas_buffer) = True"
  "cfg_dry_run (demo_cfg dry gas_buffer) = dry"
  "cfg_gas_mult (demo_cfg dry gas_buffer) = 0"
  "cfg_gas_buffer_usd (demo_cfg dry gas_buffer) = gas_buffer"
  "cfg_alpha_a_enabled (demo_cfg dry gas_buffer) = False"
  "cfg_alpha_c_enabled (demo_cfg dry gas_buffer) = False"
  "cfg_follow_min_corr (demo_cfg dry gas_buffer) = 0"
  "cfg_follow_min_lag_conf (demo_cfg dry gas_buffer) = 0"
  "cfg_follow_min_range (demo_cfg dry gas_buffer) = 0"
  "cfg_max_bar_gap_ratio_1m (demo_cfg dry gas_buffer) = 0"
  "cfg_alpha_b_move_min (demo_cfg dry gas_buffer) = 0"
  "cfg_alpha_b_mom_min (demo_cfg dry gas_buffer) = 0"
  "cfg_alpha_b_edge_norm_min (demo_cfg dry gas_buffer) = 0"
  "cfg_alpha_b_retrace_cancel_ratio (demo_cfg dry gas_buffer) = 0"
  "cfg_alpha_b_ofi_flip_cancel_usd (demo_cfg dry gas_buffer) = 0"
  "cfg_alpha_b_entry_ttl_frac (demo_cfg dry gas_buffer) = 0"
  "cfg_alpha_b_cost_mult (demo_cfg dry gas_buffer) = 1"
  "cfg_rank_w_edge (demo_cfg dry gas_buffer) = 0"
  "cfg_rank_w_driver (demo_cfg dry gas_buffer) = 0"
  "cfg_rank_w_stale (demo_cfg dry gas_buffer) = 0"
  "cfg_rank_w_cost (demo_cfg dry gas_buffer) = 0"
  "cfg_rank_w_bookshape (demo_cfg dry gas_buffer) = 0"
  "cfg_rank_ofi_scale (demo_cfg dry gas_buffer) = 1"
  "cfg_book_decay_block (demo_cfg dry gas_buffer) = 1"
  "cfg_book_support_block (demo_cfg dry gas_buffer) = 0"
  "cfg_book_decay_scale (demo_cfg dry gas_buffer) = 1"
  "cfg_book_support_scale (demo_cfg dry gas_buffer) = 0"
  "cfg_book_scale_min (demo_cfg dry gas_buffer) = 0"
  "cfg_entry_fraction (demo_cfg dry gas_buffer) = 0"
  "cfg_entry_fraction_free (demo_cfg dry gas_buffer) = 0"
  "cfg_entry_pool_frac (demo_cfg dry gas_buffer) = 1"
  "cfg_min_order_notional_usd (demo_cfg dry gas_buffer) = 0"
  "cfg_max_global_exposure_frac (demo_cfg dry gas_buffer) = 1"
  "cfg_max_per_pair_exposure_frac (demo_cfg dry gas_buffer) = 1"
  "cfg_strategy_cap_b (demo_cfg dry gas_buffer) = 0"
  "cfg_per_trade_cap_b (demo_cfg dry gas_buffer) = 0"
  "cfg_balance_total_usd (demo_cfg dry gas_buffer) = Fin 100"
  "cfg_balance_free_usd (demo_cfg dry gas_buffer) = Fin 100"
  "cfg_entry_spread_max_pct (demo_cfg dry gas_buffer) = 0"
  "cfg_entry_aggr_enabled (demo_cfg dry gas_buffer) = False"
  "cfg_tick_px (demo_cfg dry gas_buffer) = 1"
  "cfg_k_edge (demo_cfg dry gas_buffer) = 0"
  "cfg_k_mom (demo_cfg dry gas_buffer) = 0"
  "cfg_k_shock (demo_cfg dry gas_buffer) = 0"
  "cfg_max_chase_ticks (demo_cfg dry gas_buffer) = 0"
  "cfg_base_alpha (demo_cfg dry gas_buffer) = 0"
  "\<not> cfg_alpha_b_use_pair_quantile (demo_cfg dry gas_buffer)"
  "cfg_max_opi_staleness_p90_ms (demo_cfg dry gas_buffer) = 0"
  "cfg_engine_shards (demo_cfg dry gas_buffer) = 8"
  "cfg_queue_capacity (demo_cfg dry gas_buffer) = 8192"
  "cfg_order_executor_concurrency (demo_cfg dry gas_buffer) = 16"
  "cfg_opinion_account_file (demo_cfg dry gas_buffer) = ''/data/polymarket/polymarket_opinion_bot/config/accounts.example.json''"
  "cfg_opinion_account_id (demo_cfg dry gas_buffer) = ''opinion_acc''"
  "cfg_opinion_private_base (demo_cfg dry gas_buffer) = ''https://proxy.opinion.trade:8443/openapi''"
  "cfg_opinion_prefetch_base (demo_cfg dry gas_buffer) = ''''"
  "cfg_opinion_prefetch_interval_ms (demo_cfg dry gas_buffer) = 250"
  "cfg_opinion_check_approval (demo_cfg dry gas_buffer) = True"
  "cfg_opinion_enable_trading_on_startup (demo_cfg dry gas_buffer) = True"
  "cfg_opinion_enable_retry_ms (demo_cfg dry gas_buffer) = 60000"
  "cfg_opinion_force_eoa_orders (demo_cfg dry gas_buffer) = False"
  "cfg_order_poll_interval_ms (demo_cfg dry gas_buffer) = 2000"
  "cfg_order_client_prefix (demo_cfg dry gas_buffer) = ''monitor''"
  "cfg_ws_user_channels_enabled (demo_cfg dry gas_buffer) = True"
  "cfg_ws_user_channel_stale_ms (demo_cfg dry gas_buffer) = 30000"
  "cfg_post_only (demo_cfg dry gas_buffer) = True"
  "cfg_entry_ttl_ms (demo_cfg dry gas_buffer) = 6000"
  "cfg_alpha_a_entry_ttl_ms (demo_cfg dry gas_buffer) = 0"
  "cfg_alpha_a_entry_ttl_cap_ms (demo_cfg dry gas_buffer) = 3000"
  "cfg_alpha_b_entry_ttl_cap_ms (demo_cfg dry gas_buffer) = 6000"
  "cfg_exit_ttl_ms (demo_cfg dry gas_buffer) = 15000"
  "cfg_alpha_source (demo_cfg dry gas_buffer) = ''follow_score_raw''"
  "cfg_alpha_log_enabled (demo_cfg dry gas_buffer) = False"
  "cfg_alpha_log_jsonl_path (demo_cfg dry gas_buffer) = ''/data/polymarket/records/alpha_log.jsonl''"
  "cfg_alpha_log_csv_path (demo_cfg dry gas_buffer) = ''/data/polymarket/records/alpha_log.csv''"
  "cfg_alpha_log_interval_sec (demo_cfg dry gas_buffer) = 60"
  "cfg_alpha_min (demo_cfg dry gas_buffer) = 0"
  "cfg_move_min (demo_cfg dry gas_buffer) = 0"
  "cfg_mom_min (demo_cfg dry gas_buffer) = 0"
  "cfg_edge_min (demo_cfg dry gas_buffer) = 0"
  "cfg_max_open_positions (demo_cfg dry gas_buffer) = 60"
  "cfg_gas_est_usd (demo_cfg dry gas_buffer) = 0"
  "cfg_gas_lookback_ms (demo_cfg dry gas_buffer) = 60000"
  "cfg_gas_include_cancel_allowance (demo_cfg dry gas_buffer) = False"
  "cfg_gas_cancel_allowance_factor (demo_cfg dry gas_buffer) = 1"
  "cfg_gas_emergency_pause_enabled (demo_cfg dry gas_buffer) = False"
  "cfg_gas_emergency_max_usd (demo_cfg dry gas_buffer) = 0"
  "cfg_cancel_check_interval_ms (demo_cfg dry gas_buffer) = 100"
  "cfg_entry_cancel_shock_mom_ratio_min (demo_cfg dry gas_buffer) = 0"
  "cfg_entry_cancel_mom_decay_min (demo_cfg dry gas_buffer) = 0"
  "cfg_cooldown_sec (demo_cfg dry gas_buffer) = 10"
  "cfg_cooldown_after_cancel_ms (demo_cfg dry gas_buffer) = 15000"
  "cfg_cooldown_after_exit_ms (demo_cfg dry gas_buffer) = 5000"
  "cfg_cooldown_after_postonly_reject_ms (demo_cfg dry gas_buffer) = 5000"
  "cfg_per_pair_min_interval_ms (demo_cfg dry gas_buffer) = 2000"
  "cfg_entry_tick_offset (demo_cfg dry gas_buffer) = 1"
  "cfg_entry_spread_max_ticks (demo_cfg dry gas_buffer) = 0"
  "cfg_entry_spread_size_scale (demo_cfg dry gas_buffer) = 0"
  "cfg_entry_aggr_shock_max (demo_cfg dry gas_buffer) = 1"
  "cfg_exit_tick_offset (demo_cfg dry gas_buffer) = 1"
  "cfg_chase_step_ticks (demo_cfg dry gas_buffer) = 1"
  "cfg_ofi_entry_min (demo_cfg dry gas_buffer) = 0"
  "cfg_opi_spread_bps_min (demo_cfg dry gas_buffer) = 1"
  "cfg_opi_edge_min_bps (demo_cfg dry gas_buffer) = 0"
  "cfg_opi_cancel_staleness_ms (demo_cfg dry gas_buffer) = 15000"
  "cfg_signal_staleness_ms (demo_cfg dry gas_buffer) = 10000"
  "cfg_opi_snapshot_on_demand_min_interval_ms (demo_cfg dry gas_buffer) = 5000"
  "cfg_log_blocked_signals (demo_cfg dry gas_buffer) = False"
  "cfg_log_blocked_interval_ms (demo_cfg dry gas_buffer) = 30000"
  "cfg_max_poly_latency_p99_ms (demo_cfg dry gas_buffer) = 5000"
  "cfg_max_opi_latency_p99_ms (demo_cfg dry gas_buffer) = 120000"
  "cfg_tp_a1 (demo_cfg dry gas_buffer) = 1"
  "cfg_tp_a4_shock (demo_cfg dry gas_buffer) = 1"
  "cfg_alpha_a_opi_stale_max_ms (demo_cfg dry gas_buffer) = 120000"
  "cfg_alpha_a_opi_stale_soft_start_ms (demo_cfg dry gas_buffer) = 50000"
  "cfg_alpha_a_opi_stale_soft_tau_ms (demo_cfg dry gas_buffer) = 30000"
  "cfg_alpha_a_use_pair_quantile (demo_cfg dry gas_buffer) = True"
  "cfg_alpha_a_pair_p50_plus_ms (demo_cfg dry gas_buffer) = 10000"
  "cfg_alpha_a_edge_norm_min (demo_cfg dry gas_buffer) = 0"
  "cfg_alpha_a_edge_raw_min_abs (demo_cfg dry gas_buffer) = 0"
  "cfg_alpha_a_cost_mult (demo_cfg dry gas_buffer) = 1"
  "cfg_alpha_a_max_age_s (demo_cfg dry gas_buffer) = 120"
  "cfg_alpha_a_require_noise_zero (demo_cfg dry gas_buffer) = True"
  "cfg_alpha_a_horizon_default_s (demo_cfg dry gas_buffer) = 60"
  "cfg_alpha_b_enabled (demo_cfg dry gas_buffer) = True"
  "cfg_alpha_b_opi_stale_max_ms (demo_cfg dry gas_buffer) = 20000"
  "cfg_alpha_b_pair_p50_plus_ms (demo_cfg dry gas_buffer) = 5000"
  "cfg_alpha_b_horizon_default_s (demo_cfg dry gas_buffer) = 60"
  "cfg_alpha_c_use_lag_clamp (demo_cfg dry gas_buffer) = True"
  "cfg_alpha_c_lookback_fixed_s (demo_cfg dry gas_buffer) = 30"
  "cfg_alpha_c_lookback_min_s (demo_cfg dry gas_buffer) = 10"
  "cfg_alpha_c_lookback_max_s (demo_cfg dry gas_buffer) = 60"
  "cfg_alpha_c_block_b_on_conflict (demo_cfg dry gas_buffer) = True"
  "cfg_rank_top_k_a (demo_cfg dry gas_buffer) = 20"
  "cfg_rank_top_k_b (demo_cfg dry gas_buffer) = 30"
  "cfg_follow_corr_min_samples (demo_cfg dry gas_buffer) = 30"
  by (simp_all add: demo_cfg_def trade_config_default_def)

definition demo_env :: "millis \<Rightarrow> TradeEnv" where
  "demo_env now = \<lparr>tv_now = now, tv_ln = (\<lambda>x. x), tv_exp = (\<lambda>x. x), tv_fees = None, tv_chain = None,
     tv_executor_open = True, tv_trigger_sent = False, tv_place = (\<lambda>n price. Inl ''price''),
     tv_open_order_ids = None, tv_cancel_jitter = 1, tv_retry_jitter = 1, tv_keys = [(7, Yes)]\<rparr>"

definition demo_new :: "bool \<Rightarrow> f64 \<Rightarrow> TradeEngine" where
  "demo_new dry gas_buffer = trade_engine_new (demo_cfg dry gas_buffer) True False
     [(7, Yes) \<mapsto> \<lparr>ot_market_id = 70, ot_token_id = ''y''\<rparr>] risk_default 0"

definition demo_queued :: "bool \<Rightarrow> f64 \<Rightarrow> TradeEngine" where
  "demo_queued dry gas_buffer = trade_handle (demo_env 10000) (TradeMsg (PairBar (demo_bar 10 (Some 0)))) (demo_new dry gas_buffer)"

definition demo_entered :: "bool \<Rightarrow> f64 \<Rightarrow> TradeEngine" where
  "demo_entered dry gas_buffer = trade_handle (demo_env 11000) (TradeMsg (PairBar (demo_bar 11 None))) (demo_queued dry gas_buffer)"

section \<open>A run that trades\<close>

definition demo_entry :: "PendingEntry \<Rightarrow> bool" where
  "demo_entry p \<longleftrightarrow> pn_key p = (7, Yes) \<and> pn_bar p = demo_bar 10 (Some 0) \<and> pn_direction p = 1 \<and> pn_alpha_type p = GapB
     \<and> pn_shock p = None \<and> pn_opi_mid p = Some (Fin (3 / 2)) \<and> pn_edge_raw p = Fin (3 / 2) \<and> pn_cost_mult p = 1
     \<and> pn_stale_scale p = 1 \<and> pn_c_modifier p = None \<and> pn_pm_mom p = 0 \<and> pn_base_pm p = Fin 3"

lemma demo_arith: "(Fin 3 - Fin 3) / Fin 3 = (0::f64)" "Fin 3 - Fin (3 / 2) = (Fin (3 / 2)::f64)"
  "f64_of_int 1 * Fin (3 / 2) = (Fin (3 / 2)::f64)" "f64_max 1 1 = 1" "f64_max 1 0 = 1" "\<bar>0::f64\<bar> = 0" "0 \<le> (0 :: f64)"
   "\<not> Fin 3 \<le> 0" "0 < Fin 3" "Fin (3 / 2) / Fin 3 = (Fin (1 / 2)::f64)" "\<not> Fin (1 / 2) < 0" "\<not> Fin (3 / 2) \<le> 0"
  by (simp_all add: f64_eval zero_key)

lemma demo_candidate:
  assumes "sn_bar n = demo_bar 10 (Some 0)" "sn_alpha_type n = GapB" "sn_direction n = 1" "sn_pm_mid n = Fin 3"
    "sn_opi_mid n = Fin (3 / 2)" "sn_base_pm n = Fin 3" "sn_pm_mom n = 0" "sn_c_signal n = None" "sn_shock n = None"
  shows "\<exists>p. build_candidate (demo_cfg dry gas_buffer) expf n = Some p \<and> demo_entry p"
  by (simp add: build_candidate_def assms gate_alpha_def gate_corr_def gate_lag_def gate_range_def gate_quality_def
      below_max_def alpha_stale_max_ms_def stale_scale_of_def compute_edge_def gate_edge_def gate_gapb_def gate_conflict_def
      c_modifier_of_def alpha_cost_mult_def alpha_edge_norm_min_def alpha_edge_raw_min_abs_def demo_entry_def Let_def demo_arith
      split: option.split)

lemma demo_new_simps [simp]: "te_states (demo_new dry g) = Map.empty" "te_cfg (demo_new dry g) = demo_cfg dry g"
  "te_pending_second (demo_new dry g) = None" "te_pending_entries (demo_new dry g) = []"
  "te_pending_keys (demo_new dry g) = {}" "te_has_client (demo_new dry g)"
  "te_order_targets (demo_new dry g) = [(7, Yes) \<mapsto> \<lparr>ot_market_id = 70, ot_token_id = ''y''\<rparr>]"
  "te_risk (demo_new dry g) = risk_default" "te_pair_exposure (demo_new dry g) = Map.empty"
  by (simp_all add: demo_new_def trade_engine_new_def)

lemma demo_idle:
  assumes "pt_base_pm st = Some (Fin 3)" "te_cfg e = demo_cfg dry g"
  shows "\<exists>p. idle_candidate env key (demo_bar 10 (Some 0)) 0 0 0 (Fin 3) (Fin 3) st e = (Some p, e) \<and> demo_entry p"
proof -
  define n where "n = \<lparr>sn_bar = demo_bar 10 (Some 0), sn_alpha_type = GapB, sn_direction = 1, sn_pm_move = 0, sn_pm_mom = 0,
    sn_ofi_value = 0, sn_base_pm = Fin 3, sn_pm_mid = Fin 3, sn_opi_mid = Fin (3 / 2),
    sn_alpha_value = alpha_source_value (demo_cfg dry g) (demo_bar 10 (Some 0)), sn_shock = None, sn_c_signal = None,
    sn_opi_stale_p50_ms = pt_opi_stale_p50_ms st, sn_pm_peak = pt_pm_peak st,
    sn_pm_range_ratio = compute_pm_range_ratio st (Fin 3), sn_gap_ratio_1m = pt_gap_ratio_1m st,
    sn_opi_stale_p90_ms = pt_opi_stale_p90_ms st\<rparr>"
  obtain p where p: "build_candidate (demo_cfg dry g) (tv_exp env) n = Some p" "demo_entry p"
    using demo_candidate[of n dry g "tv_exp env"] by (auto simp: n_def)
  show ?thesis
    using p by (intro exI[of _ p])
      (simp add: idle_candidate_def assms gap_direction_def gap_move_ok_def opi_mid_state_from_bar_def or_else_def
        alpha_c_signal_def Let_def demo_arith n_def)
qed

lemma demo_observe: "pt_base_pm (observe_bar (demo_cfg dry g) (demo_bar 10 (Some 0)) pair_trade_default) = Some (Fin 3)"
  "pt_last_pm_move (observe_bar (demo_cfg dry g) (demo_bar 10 (Some 0)) pair_trade_default) = None"
  "pt_state (observe_bar (demo_cfg dry g) (demo_bar 10 (Some 0)) pair_trade_default) = Idle"
  "pt_last_entry_attempt_ms (observe_bar (demo_cfg dry g) (demo_bar 10 (Some 0)) pair_trade_default) = None"
  by (simp_all add: observe_bar_def update_gap_ratio_def update_opi_staleness_def update_pm_micro_history_def Let_def or_else_def
      pm_mid_from_bar_def pair_trade_default_def split: option.split)

lemma demo_queued_state: "\<exists>p st. demo_entry p \<and> pt_state st = Idle \<and> pt_last_entry_attempt_ms st = None
    \<and> pt_last_bar st = Some (demo_bar 10 (Some 0))
    \<and> demo_queued dry g = (demo_new dry g)\<lparr>te_states := [(7, Yes) \<mapsto> st], te_pending_second := Some 10,
        te_pending_keys := {(7, Yes)}, te_pending_entries := [p]\<rparr>"
proof -
  define st where "st = observe_bar (demo_cfg dry g) (demo_bar 10 (Some 0)) pair_trade_default"
  define st1 where "st1 = st\<lparr>pt_last_bar := Some (demo_bar 10 (Some 0)), pt_last_pm_move := Some 0, pt_last_pm_mom := Some 0,
    pt_last_ofi_250ms := Some 0, pt_last_base_pm := Some (Fin 3)\<rparr>"
  define st2 where "st2 = update_peak 0 1 st1"
  have f: "pt_base_pm st2 = Some (Fin 3)" "pt_state st2 = Idle" "pt_last_entry_attempt_ms st2 = None" "pt_state st1 = Idle"
    "pt_last_bar st2 = Some (demo_bar 10 (Some 0))"
    using demo_observe by (simp_all add: st2_def update_peak_def Let_def st1_def st_def)
  obtain p where p: "idle_candidate (demo_env 10000) (7, Yes) (demo_bar 10 (Some 0)) 0 0 0 (Fin 3) (Fin 3) st2 (demo_new dry g)
      = (Some p, demo_new dry g)" "demo_entry p"
    using demo_idle[of st2 "demo_new dry g" dry g "demo_env 10000" "(7, Yes)"] f by auto
  have "demo_queued dry g = put_state (7, Yes) (update_opi_snapshot (demo_bar 10 (Some 0)) st2, queue_entry p (demo_new dry g))"
    using p(1) f(2,4) unfolding st2_def st1_def st_def
    by (simp add: demo_queued_def trade_handle_def handle_bar_def flush_pending_entries_def demo_observe
        bar_by_state_def is_bar_fresh_def pm_mid_from_bar_def or_else_def unwrap_or_def demo_arith Let_def)
  also have "\<dots> = (demo_new dry g)\<lparr>te_states := [(7, Yes) \<mapsto> update_opi_snapshot (demo_bar 10 (Some 0)) st2],
      te_pending_second := Some 10, te_pending_keys := {(7, Yes)}, te_pending_entries := [p]\<rparr>"
    using p(2) by (simp add: put_state_def queue_entry_def Let_def demo_entry_def demo_new_def trade_engine_new_def)
  finally show ?thesis using p(2) f
    by (intro exI[of _ p] exI[of _ "update_opi_snapshot (demo_bar 10 (Some 0)) st2"]) (simp add: update_opi_snapshot_def Let_def)
qed

lemma demo_arith2: "Fin 100 * 1 = (Fin 100 :: f64)" "1 * Fin 100 = (Fin 100 :: f64)" "f64_max (Fin 100) 0 = Fin 100" "f64_min (Fin 100) (Fin 100) = Fin 100"
  "Fin 100 - 0 = (Fin 100 :: f64)" "0 < Fin 100" "\<not> Fin 100 \<le> 0" "\<not> 0 < Fin 100 * 0" "Fin 100 / Fin 1 = (Fin 100 :: f64)" "\<not> (1::f64) < 1"
  "clamp01 1 = 1" "is_finite 1" "(0::f64) < 1" "\<not> (1::f64) \<le> 0" "f64_max 0 0 = 0" "\<not> (0::f64) < 0" "(1 - 0) / 1 = (1 :: f64)" "(0 + 0) / 1 = (0::f64)"
  "Fin 2 - Fin 1 = (1 :: f64)" "0 < Fin 2" "0 < Fin 1"
  by (simp_all add: f64_eval zero_key clamp01_def)

lemma demo_shape: "book_shape (demo_cfg dry g) (demo_bar 10 s) 1 = Some \<lparr>bh_decay = 1, bh_support = 0, bh_scale = 1\<rparr>"
  by (simp add: book_shape_def Let_def unwrap_or_def demo_arith demo_arith2 zero_key(2)[symmetric])

definition demo_pool :: "bool \<Rightarrow> f64 \<Rightarrow> TradeEngine \<Rightarrow> bool" where
  "demo_pool dry g e \<longleftrightarrow> te_cfg e = demo_cfg dry g \<and> te_has_client e
    \<and> te_order_targets e = [(7, Yes) \<mapsto> \<lparr>ot_market_id = 70, ot_token_id = ''y''\<rparr>] \<and> te_pair_exposure e = Map.empty
    \<and> rk_exposure_used (te_risk e) = 0 \<and> rk_open_positions (te_risk e) = 0 \<and> rk_strategy_exposure (te_risk e) = Map.empty
    \<and> rk_entry_pool_second (te_risk e) = Some 10 \<and> rk_entry_pool_remaining (te_risk e) = Fin 100"

lemma demo_budget:
  assumes "demo_pool dry g e"
  shows "\<exists>b. budget_for_entry key 10 (Some (Fin 100)) GapB e = (Some b, e) \<and> bn_notional b = Fin 100"
  using assms by (simp add: demo_pool_def budget_for_entry_def reset_entry_pool_def Let_def min_if_def unwrap_or_def demo_arith2)

lemma demo_qty: "demo_entry p \<Longrightarrow> entry_qty (Fin 100) 1 1 p = Fin 100"
  by (simp add: demo_entry_def entry_qty_def demo_arith2)

lemma demo_arith3: "(0::f64) * Fin 100 = 0" "Fin 1 * Fin 100 = (Fin 100 :: f64)" "(0::f64) / lit 10000 = 0" "0 * Fin 1 = (0::f64)" "(0::f64) * lit 2 = 0" 
  "(0::f64) * 0 = 0" "(0::f64) + 0 = 0"  "Fin 100 + 0 = (Fin 100 ::f64)" "0 + Fin 100 = (Fin 100 ::f64)" "Fin 100 * 1 / Fin 100 = (1::f64)" "0 * 1 / Fin 100 = (0::f64)"
  "Fin 1 + 0 = (Fin 1 :: f64)" "Fin 1 - 1 = (0 :: f64)" "Fin 1 - 0 = (Fin 1 :: f64)" 
  "f64_to_i64 (f64_max (f64_floor ((Fin 2 - Fin 1) / 1)) 1) = 1" "f64_of_int 0 = 0" "1 * 0 = (0::f64)" "f64_min (Fin 1) 0 = 0" "f64_min (Fin 1) (Fin 1) = Fin 1"
  "Fin 100 / Fin 100 = (1::f64)" "f64_max (1::f64) 1 = 1"
  by (simp_all add: f64_eval zero_key)

lemma demo_arith4: "0 * Fin 3 = (0::f64)" "0 * Fin (3 / 2) = (0::f64)" "Fin 1 - Fin 100 / Fin 100 = (0::f64)"
  "f64_max (f64_floor (1 / 1)) 1 = 1" "f64_to_i64 1 = 1" "\<not> Fin (3 / 2) * Fin 100 < 0" "Fin 1 * 0 = (0 :: f64)" "Fin 100 * 0 = (0 :: f64)" "\<not> Fin 1 \<le> 0"
  by (simp_all add: f64_eval zero_key)

lemma demo_theo: "demo_entry p \<Longrightarrow> theo_price_of (demo_cfg dry g) p (Fin 1) = Fin 1"
  by (simp add: theo_price_of_def demo_entry_def demo_arith demo_arith3 demo_arith4)

lemma demo_gas: "te_cfg e = demo_cfg dry g \<Longrightarrow> gas_est_usd (demo_env now) e = 0" "trade_fee_bps (demo_env now) = 0"
  by (simp_all add: gas_est_usd_def demo_env_def trade_fee_bps_def Let_def)

lemma demo_round: "round_price_for_side (Fin 1) Buy = Fin 1" "round_price_for_side 0 Buy = 0"
  by (simp_all add: round_price_for_side_def f64_eval zero_key)

lemma demo_arith5: "(0::f64) - 0 = 0" "Fin 1 \<le> Fin 1" "\<not> Fin 2 \<le> Fin 1" "(0::f64) \<le> 0"
  by (simp_all add: f64_eval zero_key)

lemma demo_prices: "entry_candidate_prices (demo_cfg dry g) 1 (Fin 1) (Fin 1) (Fin 1) (Fin 2) 1 = [Fin 1]"
  "entry_candidate_prices (demo_cfg dry g) 1 0 0 (Fin 1) (Fin 2) 1 = []"
  by (simp_all add: entry_candidate_prices_def entry_price_ok_def push_price_def Let_def demo_round demo_arith3 demo_arith4
      demo_arith5 del: Fin_order)

lemma demo_start: "entry_start_ticks (demo_cfg dry g) a 1 = 0"
  by (simp add: entry_start_ticks_def Let_def)

lemma demo_tick: "tick_of (demo_cfg dry g) = 1" by (simp add: tick_of_def demo_arith2)

lemmas demo_price = demo_gas demo_prices demo_start demo_tick demo_arith demo_arith2 demo_arith3 demo_arith4

lemma demo_rejected:
  assumes "demo_entry p" "te_cfg e = demo_cfg dry (Fin 100)"
  shows "\<exists>r. price_entry (demo_env now) p \<lparr>bh_decay = 1, bh_support = 0, bh_scale = 1\<rparr> (Fin 100) 1 (Fin 1) (Fin 2) st e
    = (enter_cooldown 10 5000 st, emit_row r e)"
  using assms(1) unfolding price_entry_def assms(2)
  by (simp add: demo_price demo_qty[OF assms(1)] demo_theo[OF assms(1)] assms(2) Let_def step_price_def demo_entry_def) blast

lemma demo_maybe:
  assumes "demo_entry p" "demo_pool dry g e" "pt_last_entry_attempt_ms st = None"
  shows "maybe_enter (demo_env now) st p (Some (Fin 100)) e = price_entry (demo_env now) p
    \<lparr>bh_decay = 1, bh_support = 0, bh_scale = 1\<rparr> (Fin 100) 1 (Fin 1) (Fin 2)
    (st\<lparr>pt_last_entry_attempt_ms := Some now\<rparr>) e"
proof -
  obtain b where b: "budget_for_entry (7, Yes, 1) 10 (Some (Fin 100)) GapB e = (Some b, e)" "bn_notional b = Fin 100"
    using demo_budget[OF assms(2)] by blast
  have c: "te_cfg e = demo_cfg dry g" using assms(2) by (simp add: demo_pool_def)
  have n: "tv_now (demo_env now) = now" by (simp add: demo_env_def)
  have w: "0 < Fin (3 / 2)" by (simp add: zero_key)
  show ?thesis
    using assms(1) unfolding maybe_enter_def c
    by (simp add: assms(3) demo_entry_def Let_def demo_shape b demo_price w n spread_too_wide_def entry_quote_def
        opi_best_bid_from_bar_def opi_best_ask_from_bar_def or_else_def)
qed

lemma demo_entered_by:
  assumes "demo_entry p" "pt_state st = Idle"
    "demo_queued dry g = (demo_new dry g)\<lparr>te_states := [(7, Yes) \<mapsto> st], te_pending_second := Some 10,
        te_pending_keys := {(7, Yes)}, te_pending_entries := [p]\<rparr>"
    "maybe_enter (demo_env 11000) st p (Some (Fin 100)) ((demo_new dry g)\<lparr>te_states := [(7, Yes) \<mapsto> st],
      te_risk := risk_default\<lparr>rk_entry_pool_second := Some 10, rk_entry_pool_remaining := Fin 100\<rparr>\<rparr>) = (st', e')"
    "te_states e' (7, Yes) = Some st" "te_cfg e' = demo_cfg dry g"
  shows "te_states (demo_entered dry g) (7, Yes) = Some (check_cooldown 11 (observe_bar (demo_cfg dry g) (demo_bar 11 None) st'))"
proof -
  have r: "rank_entries (demo_cfg dry g) [p] = [p]" using assms(1)
    by (simp add: rank_entries_def demo_entry_def sort_conf_def top_k_def)
  have z: "pm_mid_from_bar (demo_bar 11 None) = Some (Fin 3)" "\<not> is_bar_fresh (demo_cfg dry g) (demo_bar 11 None)"
    by (simp_all add: pm_mid_from_bar_def or_else_def is_bar_fresh_def)
  have f: "flush_pending_entries (demo_env 11000) 11 (demo_queued dry g) = put_state (7, Yes) (st', e')"
    using assms(1,2,4) unfolding assms(3)
    by (simp add: flush_pending_entries_def reset_entry_pool_def demo_price risk_default_def r Let_def pool_or_zero_def
       entry_pool_available_def unwrap_or_def demo_entry_def  demo_new_def trade_engine_new_def)
  show ?thesis
    unfolding demo_entered_def
    by (simp add: trade_handle_def assms(3,6) handle_bar_def f[unfolded assms(3)] z unwrap_or_def Let_def)
qed

lemma observe_core: "core_fields (observe_bar cfg bar st) = core_fields st"
  using same_fields_observe[of st cfg bar] by (simp add: same_fields_def)

lemma demo_seen:
  assumes "te_states e' (7, Yes) = Some st"
  shows "te_states (put_state (7, Yes) (st', e')) (7, Yes) = Some st'"
  by simp

text \<open>The entry of the first bar, at the end of its second: rejected when the profit asked for
  leaves no price, taken otherwise.\<close>

definition demo_flushed :: "bool \<Rightarrow> f64 \<Rightarrow> PairTradeState \<Rightarrow> TradeEngine" where
  "demo_flushed dry g st = (demo_new dry g)\<lparr>te_states := [(7, Yes) \<mapsto> st],
     te_risk := risk_default\<lparr>rk_entry_pool_second := Some 10, rk_entry_pool_remaining := Fin 100\<rparr>\<rparr>"

lemma demo_flushed_pool: "demo_pool dry g (demo_flushed dry g st)" "te_cfg (demo_flushed dry g st) = demo_cfg dry g"
  "te_states (demo_flushed dry g st) (7, Yes) = Some st"
  by (simp_all add: demo_pool_def demo_flushed_def risk_default_def)

lemma demo_cooldown: "\<exists>st. te_states (demo_entered dry (Fin 100)) (7, Yes) = Some st \<and> pt_state st = Cooldown
    \<and> pt_cooldown_until st = Some 15"
proof -
  obtain p st where p: "demo_entry p" and st: "pt_state st = Idle" "pt_last_entry_attempt_ms st = None"
    and q: "demo_queued dry (Fin 100) = (demo_new dry (Fin 100))\<lparr>te_states := [(7, Yes) \<mapsto> st], te_pending_second := Some 10,
        te_pending_keys := {(7, Yes)}, te_pending_entries := [p]\<rparr>"
    using demo_queued_state[of dry "Fin 100"] by blast
  let ?e = "demo_flushed dry (Fin 100) st"
  define st' where "st' = enter_cooldown 10 5000 (st\<lparr>pt_last_entry_attempt_ms := Some 11000\<rparr>)"
  obtain r where m: "maybe_enter (demo_env 11000) st p (Some (Fin 100)) ?e = (st', emit_row r ?e)"
    using demo_rejected[OF p demo_flushed_pool(2)]
    unfolding demo_maybe[OF p demo_flushed_pool(1) st(2)] st'_def by blast
  have "te_states (demo_entered dry (Fin 100)) (7, Yes)
      = Some (check_cooldown 11 (observe_bar (demo_cfg dry (Fin 100)) (demo_bar 11 None) st'))"
    using demo_flushed_pool by (intro demo_entered_by[OF p st(1) q m[unfolded demo_flushed_def]])
      (simp_all add: emit_row_def demo_flushed_def[symmetric])
  moreover have "resting (check_cooldown 11 (observe_bar (demo_cfg dry (Fin 100)) (demo_bar 11 None) st')) 15"
    using resting_cong[OF observe_core] by (intro resting_kept) (simp_all add: st'_def enter_cooldown_def resting_def)
  ultimately show ?thesis by (simp add: resting_def)
qed

lemma demo_taken:
  assumes "demo_entry p" "te_cfg e = demo_cfg dry 0"
  shows "\<exists>plan. price_entry (demo_env now) p \<lparr>bh_decay = 1, bh_support = 0, bh_scale = 1\<rparr> (Fin 100) 1 (Fin 1) (Fin 2) st e
    = commit_entry (demo_env now) p \<lparr>bh_decay = 1, bh_support = 0, bh_scale = 1\<rparr> plan st e
    \<and> ep_price plan = Fin 1 \<and> ep_qty plan = Fin 100 \<and> ep_candidates plan = [Fin 1]"
proof -
  have n: "\<not> Fin (3 / 2) * Fin 100 < 0 * 1" by (simp add: f64_eval zero_key)
  show ?thesis
    using assms(1) unfolding price_entry_def assms(2)
    by (simp add: n demo_price demo_qty[OF assms(1)] demo_theo[OF assms(1)] assms(2) Let_def step_price_def demo_entry_def)
      (intro exI conjI, rule refl, simp_all)
qed

text \<open>A live engine asks the executor for the order; a dry one takes it as working.\<close>

lemma demo_committed:
  assumes p: "demo_entry p" and e: "demo_pool dry 0 e" and plan: "ep_price plan = Fin 1" "ep_qty plan = Fin 100" "ep_candidates plan = [Fin 1]"
    and r: "commit_entry (demo_env now) p shape plan st e = (st', e')"
  shows "te_cfg e' = te_cfg e \<and> te_states e' = te_states e \<and> pt_state st' = (if dry then EntryWorking else EntryPlacing)
    \<and> pt_direction st' = 1 \<and> pt_entry_price st' = Some (Fin 1) \<and> pt_entry_qty st' = Some (Fin 100)"
proof -
  have x: "tv_executor_open (demo_env now)" by (simp add: demo_env_def)
  show ?thesis
    using r p e plan by (cases dry) (auto simp: commit_entry_def Let_def is_live_def demo_pool_def demo_entry_def
      reserve_entry_pool_def reset_entry_pool_def emit_row_def enqueue_place_chase_def next_order_req_id_def
      enqueue_order_request_def x add_exposure_def take_entry_def split: if_splits)
qed

lemma demo_entry_state: "\<exists>st. te_states (demo_entered dry 0) (7, Yes) = Some st
    \<and> pt_state st = (if dry then EntryWorking else EntryPlacing) \<and> pt_direction st = 1
    \<and> pt_entry_price st = Some (Fin 1) \<and> pt_entry_qty st = Some (Fin 100)"
proof -
  obtain p st where p: "demo_entry p" and st: "pt_state st = Idle" "pt_last_entry_attempt_ms st = None"
    and q: "demo_queued dry 0 = (demo_new dry 0)\<lparr>te_states := [(7, Yes) \<mapsto> st], te_pending_second := Some 10,
        te_pending_keys := {(7, Yes)}, te_pending_entries := [p]\<rparr>"
    using demo_queued_state[of dry 0] by blast
  let ?e = "demo_flushed dry 0 st"
  obtain plan where plan: "ep_price plan = Fin 1" "ep_qty plan = Fin 100" "ep_candidates plan = [Fin 1]"
    and m: "maybe_enter (demo_env 11000) st p (Some (Fin 100)) ?e
      = commit_entry (demo_env 11000) p \<lparr>bh_decay = 1, bh_support = 0, bh_scale = 1\<rparr> plan
          (st\<lparr>pt_last_entry_attempt_ms := Some 11000\<rparr>) ?e"
    using demo_taken[OF p demo_flushed_pool(2)]
    unfolding demo_maybe[OF p demo_flushed_pool(1) st(2)] by blast
  obtain st' e' where r: "commit_entry (demo_env 11000) p \<lparr>bh_decay = 1, bh_support = 0, bh_scale = 1\<rparr> plan
          (st\<lparr>pt_last_entry_attempt_ms := Some 11000\<rparr>) ?e = (st', e')" by fastforce
  have m': "maybe_enter (demo_env 11000) st p (Some (Fin 100)) ?e = (st', e')" using m r by simp
  note c = demo_committed[OF p demo_flushed_pool(1) plan r]
  have "te_states (demo_entered dry 0) (7, Yes) = Some (check_cooldown 11 (observe_bar (demo_cfg dry 0) (demo_bar 11 None) st'))"
    using c demo_flushed_pool(2,3) by (intro demo_entered_by[OF p st(1) q m'[unfolded demo_flushed_def]]) simp_all
  moreover have "check_cooldown 11 (observe_bar (demo_cfg dry 0) (demo_bar 11 None) st')
      = observe_bar (demo_cfg dry 0) (demo_bar 11 None) st'"
    using c observe_core[of "demo_cfg dry 0" "demo_bar 11 None" st'] by (auto simp: check_cooldown_def core_fields_def)
  ultimately show ?thesis using c observe_core[of "demo_cfg dry 0" "demo_bar 11 None" st'] by (simp add: core_fields_def)
qed

end
