(* ===== verification/TradeLife.thy ===== *)
theory TradeLife
  imports TradeDemo
begin

text \<open>
  Properties of the runs of a trading engine: the states of pairs are consistent in every run, an
  engine that is not live sends nothing, and a cooldown lasts until its second.
\<close>

section \<open>Consistent states\<close>

lemma reach_ok: "trade_reach (trade_engine_new cfg c t targets risk now) e \<Longrightarrow> trade_ok ((cfg, c), Map.empty) e"
  using trade_ok_reach[OF _ trade_ok_new] .

lemma reach_cfg: "trade_reach (trade_engine_new cfg c t targets risk now) e \<Longrightarrow> te_cfg e = cfg \<and> te_has_client e = c"
  using reach_ok[of cfg c t targets risk now e] by (simp add: trade_ok_def)

lemma handle_bar_present: "\<exists>st. te_states (handle_bar env bar e) (pb_pair_id bar, pb_token_side bar) = Some st"
  unfolding handle_bar_def Let_def by (simp add: case_prod_unfold split: option.split)

lemma exit_result_ignored: "trade_ok cc e \<Longrightarrow>
    trade_handle env (TradeResp (RespPlaceChase n key PlaceExit result)) e = e"
  by (simp add: trade_handle_def handle_order_response_def trade_ok_exit_result)

text \<open>
  C6. In every run of an engine, whatever bars, shocks, user-channel messages, executor responses and
  ticks arrive in whatever order, the stored state of a pair is consistent. An idle pair has no
  direction, no order, no request and no exposure of its own; a pair that places an entry has an
  open request, a price and a size, and no order yet; a working entry has no exit; an open position
  has a direction, an entry price and a size; a pair in cooldown has no order and no open request,
  and a second at which it ends. No pair is ever stored as ready. Every pair that is not idle has
  seen a bar, so the handlers' branches for a missing bar are dead, and no exit is ever requested
  from the executor, so a response for an exit never does anything.
\<close>

theorem trade_states_sound:
  assumes "trade_reach (trade_engine_new cfg c t targets risk now) e" and "te_states e key = Some st"
  shows "pt_exit_place_req_id st = None \<and> (pt_state st = Idle \<or> (\<exists>bar. pt_last_bar st = Some bar))
    \<and> trade_handle env (TradeResp (RespPlaceChase n key' PlaceExit result)) e = e
    \<and> (case pt_state st of
        Idle \<Rightarrow> at_rest st \<and> pt_direction st = 0 \<and> pt_entry_notional st = None
      | EntryReady \<Rightarrow> False
      | EntryPlacing \<Rightarrow> is_live e \<and> holding st \<and> no_orders st \<and> pt_entry_place_req_id st \<noteq> None
          \<and> pt_pending_entry st \<noteq> None
      | EntryWorking \<Rightarrow> holding st \<and> pt_entry_place_req_id st = None \<and> pt_exit_order_id st = None
          \<and> pt_exit_client_id st = None
      | PositionOpen \<Rightarrow> holding st \<and> pt_entry_place_req_id st = None
      | ExitWorking \<Rightarrow> holding st \<and> pt_entry_place_req_id st = None
      | Cooldown \<Rightarrow> at_rest st \<and> pt_cooldown_until st \<noteq> None)"
proof -
  note ok = reach_ok[OF assms(1)]
  note st = trade_ok_state[OF ok assms(2)]
  show ?thesis using st exit_result_ignored[OF ok]
    by (cases "pt_state st") (auto simp: pair_ok_def)
qed

lemma demo_reach: "trade_reach (demo_new dry g) (demo_entered dry g)"
  unfolding demo_entered_def demo_queued_def by (intro trade_step trade_init)

theorem trade_states_sound_witness:
  "\<exists>st. te_states (demo_entered False 0) (7, Yes) = Some st \<and> pt_state st = EntryPlacing \<and> pt_entry_place_req_id st \<noteq> None
    \<and> no_orders st"
proof -
  obtain st where st: "te_states (demo_entered False 0) (7, Yes) = Some st" "pt_state st = EntryPlacing"
    using demo_entry_state[of False] by auto
  show ?thesis using trade_states_sound[OF demo_reach[unfolded demo_new_def] st(1)] st by simp
qed

section \<open>Dry runs\<close>

text \<open>
  C7. An engine that is not live (a dry run, or no client) never sends a request to the executor, an
  order to the venue, a cancellation or a poll of fills, whatever it receives; its pairs never hold
  the id of an order.
\<close>

theorem dry_run_sends_nothing:
  assumes run: "trade_reach (trade_engine_new cfg c t targets risk now) e" and dry: "\<not> (c \<and> \<not> cfg_dry_run cfg)"
  shows "te_requests e = [] \<and> te_placed e = [] \<and> (\<forall>key st. te_states e key = Some st \<longrightarrow> no_orders st)"
proof -
  have live: "\<not> is_live e" using reach_cfg[OF run] dry by (simp add: is_live_def)
  then show ?thesis using reach_ok[OF run] trade_ok_state[OF reach_ok[OF run]]
    unfolding trade_ok_def by (simp add: pair_ok_def del: split_paired_All)
qed

theorem dry_run_sends_nothing_witness:
  "te_requests (demo_entered True 0) = [] \<and> (\<exists>st. te_states (demo_entered True 0) (7, Yes) = Some st \<and> pt_state st = EntryWorking)"
  using dry_run_sends_nothing[OF demo_reach[of True 0, unfolded demo_new_def]] demo_entry_state[of True] by auto

section \<open>Cooldown\<close>

lemma enabled_handle: "cfg_enabled (te_cfg e) \<Longrightarrow> trade_handle env (TradeMsg (PairBar bar)) e = handle_bar env bar e"
  by (simp add: trade_handle_def)

text \<open>A bar of a pair in cooldown: fresh or not, it only looks at the clock.\<close>

lemma bar_of_cooldown:
  assumes ok: "trade_ok cc e" and st: "te_states e (pb_pair_id bar, pb_token_side bar) = Some st" "resting st u"
  shows "\<exists>st'. te_states (handle_bar env bar e) (pb_pair_id bar, pb_token_side bar) = Some st'
    \<and> (if u \<le> pb_bar_second bar then pt_state st' = Idle else resting st' u)"
proof -
  let ?key = "(pb_pair_id bar, pb_token_side bar)"
  let ?cc = "(fst cc, [?key \<mapsto> u])"
  define e1 where "e1 = flush_pending_entries env (pb_bar_second bar) e"
  have "trade_ok ?cc e" using ok st by (auto simp: trade_ok_def)
  then have "trade_ok ?cc e1" unfolding e1_def by (rule trade_ok_flush)
  from trade_ok_resting[OF this, of ?key u] obtain st1 where st1: "te_states e1 ?key = Some st1" "resting st1 u" by auto
  define st2 where "st2 = observe_bar (te_cfg e1) bar st1"
  have r2: "resting st2 u"
    using st1(2) same_fields_observe[of st1 "te_cfg e1" bar] resting_cong[of st2 st1]
    by (simp add: st2_def same_fields_def)
  define Q where "Q x \<longleftrightarrow> (if u \<le> pb_bar_second bar then pt_state x = Idle else resting x u)" for x
  have A: "Q (check_cooldown (pb_bar_second bar) x)" if "resting x u" for x
    using that by (auto simp: Q_def check_cooldown_def resting_def reset_for_idle_def)
  have B: "Q (fst (bar_by_state env key bar m n x y z w e'))" if "resting w u" for key m n x y z w e'
    using that A[OF that] by (simp add: bar_by_state_def resting_def)
  have C: "resting (st2\<lparr>pt_last_bar := v, pt_last_pm_move := w, pt_last_pm_mom := x, pt_last_ofi_250ms := y,
      pt_last_base_pm := z\<rparr>) u" for v w x y z
    using r2 by (simp add: resting_def)
  have D: "Q (update_opi_snapshot bar x) = Q x" for x
    using same_fields_peak(2)[of x bar] resting_cong[of "update_opi_snapshot bar x" x]
    by (auto simp: Q_def same_fields_def core_fields_def)
  have w: "pt_state st2 \<noteq> Idle" using r2 by (simp add: resting_def)
  show ?thesis
    unfolding handle_bar_def Let_def e1_def[symmetric] st1(1) unwrap_or_def option.case st2_def[symmetric] Q_def[symmetric]
    using A[OF r2] B[OF C] D w by (simp add: case_prod_unfold split: option.split)
qed

text \<open>
  C8. A pair in cooldown until second \<open>u\<close> stays in cooldown, with that same second, whatever the
  engine receives: bars of other pairs, shocks, late fills and cancellations of its own orders,
  responses, ticks. Exactly the first bar of the pair at or after second \<open>u\<close> makes it idle again,
  fresh or not.
\<close>

theorem cooldown_kept:
  assumes run: "trade_reach (trade_engine_new cfg c t targets risk now) e" and st: "te_states e key = Some st"
    and cool: "pt_state st = Cooldown" "pt_cooldown_until st = Some u"
  shows "\<exists>st'. te_states (trade_handle env l e) key = Some st' \<and>
    (if cfg_enabled cfg \<and> (\<exists>bar. l = TradeMsg (PairBar bar) \<and> key = (pb_pair_id bar, pb_token_side bar) \<and> u \<le> pb_bar_second bar)
     then pt_state st' = Idle else pt_state st' = Cooldown \<and> pt_cooldown_until st' = Some u)"
proof -
  note ok = reach_ok[OF run]
  have r: "resting st u" using cool by (simp add: resting_def)
  show ?thesis
  proof (cases "cfg_enabled cfg \<and> (\<exists>bar. l = TradeMsg (PairBar bar) \<and> key = (pb_pair_id bar, pb_token_side bar) \<and> u \<le> pb_bar_second bar)")
    case True
    then obtain bar where l: "l = TradeMsg (PairBar bar)" "key = (pb_pair_id bar, pb_token_side bar)" "u \<le> pb_bar_second bar" by blast
    from bar_of_cooldown[OF ok _ r] st l True show ?thesis
      using reach_cfg[OF run] by (fastforce simp: enabled_handle)
  next
    case False
    let ?cc = "((cfg, c), [key \<mapsto> u])"
    have ok': "trade_ok ?cc e" using ok st r by (auto simp: trade_ok_def)
    have "trade_ok ?cc (trade_handle env l e)"
    proof (cases "cfg_enabled cfg")
      case True
      with False show ?thesis by (intro trade_ok_handle[OF ok']) (auto split: if_splits)
    next
      case False
      then show ?thesis using ok' reach_cfg[OF run] by (simp add: trade_handle_def)
    qed
    from trade_ok_resting[OF this, of key u] show ?thesis unfolding if_not_P[OF False] by (simp add: resting_def)
  qed
qed

theorem cooldown_kept_witness:
  "\<exists>st. te_states (trade_handle (demo_env 15000) (TradeMsg (PairBar (demo_bar 15 None))) (demo_entered True (Fin 100))) (7, Yes) = Some st
    \<and> pt_state st = Idle"
proof -
  obtain st where st: "te_states (demo_entered True (Fin 100)) (7, Yes) = Some st" "pt_state st = Cooldown"
    "pt_cooldown_until st = Some 15" using demo_cooldown by blast
  show ?thesis
    using cooldown_kept[OF demo_reach[of True "Fin 100", unfolded demo_new_def] st,
        of "demo_env 15000" "TradeMsg (PairBar (demo_bar 15 None))"] by auto
qed

end
