(* ===== verification/TradeProps.thy ===== *)
theory TradeProps
  imports TradeLife AmountsProps
begin

text \<open>
  Properties of the trading engine's decisions: budgets, prices of entries, cancellations, and the
  errors of the venue.
\<close>

section \<open>Budget\<close>



lemma min_le_right: "y \<noteq> NaN \<Longrightarrow> f64_min x y \<le> (y :: f64)"
  by (rule f64_min_le)







section \<open>Prices of entries\<close>





section \<open>Errors of the venue\<close>

lemma contains_iff: "contains sub s \<longleftrightarrow> (\<exists>u v. s = u @ sub @ v)"
proof (induction s)
  case (Cons c cs)
  have "(\<exists>u v. c # cs = u @ sub @ v) \<longleftrightarrow> (\<exists>v. c # cs = sub @ v) \<or> (\<exists>u v. cs = u @ sub @ v)"
    by (metis append_Cons append_Nil list.exhaust list.inject)
  then show ?case using Cons by (simp add: prefix_def)
qed simp

lemma lower_append: "ascii_lower (s @ t) = ascii_lower s @ ascii_lower t"
  by (simp add: ascii_lower_def)

lemma post_error_is_post_only: "is_post_only_reject (http_error_text ''POST'' url status body)"
proof -
  have "ascii_lower ''POST'' = ''post''" by code_simp
  then have "contains ''post'' (ascii_lower (http_error_text ''POST'' url status body))"
    unfolding http_error_text_def lower_append contains_iff by (metis append.assoc)
  then show ?thesis by (simp add: is_post_only_reject_def Let_def)
qed

text \<open>
  C11. Every HTTP error of an order is taken for a post-only rejection, because its text holds the name
  of the method, POST: the chase goes on to the next price after a server error, a timeout of the
  gateway or a rate limit, and asks the venue for every candidate price in turn; each failure counts as
  a rejection for crossing the book.
\<close>

theorem http_errors_chased:
  assumes err: "err = http_error_text ''POST'' url status body" "\<not> is_order_id_missing err"
    and fails: "\<And>n price amount. place n side price amount = Inl err"
  shows "place_with_chase (Some place) client_id side qty prices
    = \<lparr>pr_order = None, pr_client_id_used = None, pr_price_used = None, pr_chase_count = int (List.length prices),
       pr_post_only_rejects = int (List.length prices), pr_last_err = if prices = [] then None else Some err\<rparr>"
proof -
  have p: "is_post_only_reject err" unfolding err(1) by (rule post_error_is_post_only)
  have "chase_loop (\<lambda>n price. place n side price (order_amount_for side price qty)) client_id k prices r
    = r\<lparr>pr_chase_count := pr_chase_count r + int (List.length prices),
        pr_post_only_rejects := pr_post_only_rejects r + int (List.length prices),
        pr_last_err := if prices = [] then pr_last_err r else Some err\<rparr>" for k r
    using err(2) by (induction prices arbitrary: k r) (simp_all add: fails p Let_def)
  then show ?thesis by (simp add: place_with_chase_def chase_start_def)
qed

theorem http_errors_chased_witness:
  "pr_post_only_rejects (place_with_chase (Some (\<lambda>n side price amount. Inl (http_error_text ''POST'' ''u'' ''503'' ''busy'')))
     (\<lambda>n. ''c'') Buy 1 [0, 0, 0]) = 3"
proof -
  have "\<not> is_order_id_missing (http_error_text ''POST'' ''u'' ''503'' ''busy'')"
    by code_simp
  from http_errors_chased[OF refl this, of "\<lambda>n side price amount. Inl (http_error_text ''POST'' ''u'' ''503'' ''busy'')" Buy "\<lambda>n. ''c''" 1 "[0, 0, 0]"]
  show ?thesis by simp
qed

section \<open>Updates of the user channel\<close>

definition cancels :: "OpinionUserOrderUpdate \<Rightarrow> bool" where
  "cancels u \<longleftrightarrow> ascii_lower (unwrap_or (ou_order_update_type u) '''') = ''ordercancel'' \<or> unwrap_or (ou_status u) 0 \<in> {3, 4, 5}"

lemma finalize_result:
  assumes "finalize_entry_cancel env st bar m n x reason key e = (st', e')"
  shows "pt_state st' = Cooldown \<and> no_orders st' \<and> pt_entry_notional st' = None \<and> te_requests e' = te_requests e
    \<and> te_placed e' = te_placed e"
proof -
  obtain st1 e1 where r: "release_held (fst key, snd key, pt_direction st) st e = (st1, e1)" by fastforce
  have "pt_entry_notional st1 = None" "te_requests e1 = te_requests e" "te_placed e1 = te_placed e"
    using r by (auto simp: release_held_def release_exposure_def Let_def split: option.splits if_splits)
  then show ?thesis using assms r
    by (auto simp: finalize_entry_cancel_def Let_def emit_row_def enter_cooldown_def no_orders_def)
qed

text \<open>
  C12. When the user channel reports that the order of an entry was cancelled, the pair goes into cooldown
  and forgets everything about it, in every state: also when part of the order was filled before (the
  update says so, or the position is already open, or its exit is at work). Nothing is sent: the shares
  that were bought are not sold, a working exit order is not cancelled, and the pair keeps no notional
  for them.
\<close>

theorem cancel_forgets_position:
  assumes run: "trade_reach (trade_engine_new cfg c t targets risk now) e" and on: "cfg_enabled cfg"
    and st: "te_states e (ou_pair_id u, ou_token_side u) = Some st" "pt_entry_order_id st = Some (ou_order_id u)"
    and u: "cancels u"
  shows "\<exists>st'. te_states (trade_handle env (TradeMsg (OpinionOrderUpdate u)) e) (ou_pair_id u, ou_token_side u) = Some st'
    \<and> pt_state st' = Cooldown \<and> no_orders st' \<and> pt_entry_notional st' = None
    \<and> te_requests (trade_handle env (TradeMsg (OpinionOrderUpdate u)) e) = te_requests e
    \<and> te_placed (trade_handle env (TradeMsg (OpinionOrderUpdate u)) e) = te_placed e"
proof -
  let ?key = "(ou_pair_id u, ou_token_side u)"
  let ?e = "clear_cancel_retry (ou_order_id u) (e\<lparr>te_last_ws_user_msg_ms := Some (tv_now env)\<rparr>)"
  let ?st = "st\<lparr>pt_entry_cancel_pending := False, pt_entry_cancel_reason := None, pt_entry_cancel_req_id := None\<rparr>"
  note ok = trade_ok_state[OF reach_ok[OF run] st(1)]
  have "pt_state st \<noteq> Idle" using ok st(2) by (auto simp: pair_ok_def at_rest_def no_orders_def)
  then obtain bar where bar: "pt_last_bar st = Some bar" using ok by auto
  obtain st' e' where r: "finalize_entry_cancel env ?st bar (unwrap_or (pt_last_pm_move ?st) 0)
      (unwrap_or (pt_last_pm_mom ?st) 0) (unwrap_or (pt_last_ofi_250ms ?st) 0) ''ws_order_cancel'' ?key ?e = (st', e')" by fastforce
  have h: "trade_handle env (TradeMsg (OpinionOrderUpdate u)) e = put_state ?key (st', e')"
    using u r st bar on reach_cfg[OF run]
    by (simp add: trade_handle_def handle_opinion_order_update_def Let_def ws_cancelled_def cancels_def)
  show ?thesis unfolding h using finalize_result[OF r] by (simp add: clear_cancel_retry_def)
qed

text \<open>The demonstration run: the venue takes the order, fills 40 of its 100 shares, and the rest is cancelled.\<close>

definition demo_placed :: "64 word \<Rightarrow> TradeEngine" where
  "demo_placed n = trade_handle (demo_env 12000) (TradeResp (RespPlaceChase n (7, Yes) PlaceEntry
     \<lparr>pr_order = Some \<lparr>po_order_id = ''o1'', po_client_order_id = None\<rparr>, pr_client_id_used = Some ''c1'',
      pr_price_used = Some (Fin 1), pr_chase_count = 1, pr_post_only_rejects = 0, pr_last_err = None\<rparr>)) (demo_entered False 0)"

lemma demo_placed_state: "\<exists>n st. te_states (demo_placed n) (7, Yes) = Some st \<and> pt_state st = EntryWorking
    \<and> pt_entry_order_id st = Some ''o1'' \<and> trade_reach (demo_new False 0) (demo_placed n)"
proof -
  obtain st where st: "te_states (demo_entered False 0) (7, Yes) = Some st" "pt_state st = EntryPlacing"
    using demo_entry_state[of False] by auto
  have ok: "pair_ok (is_live (demo_entered False 0)) st"
    using trade_ok_state[OF reach_ok[OF demo_reach[unfolded demo_new_def]] st(1)] by simp
  then obtain n entry where n: "pt_entry_place_req_id st = Some n" "pt_pending_entry st = Some entry"
    using st(2) by (auto simp: pair_ok_def)
  have "te_cfg (demo_entered False 0) = demo_cfg False 0" using reach_cfg[OF demo_reach[unfolded demo_new_def]] by blast
  then have "\<exists>st'. te_states (demo_placed n) (7, Yes) = Some st' \<and> pt_state st' = EntryWorking \<and> pt_entry_order_id st' = Some ''o1''"
    using st n by (simp add: demo_placed_def trade_handle_def handle_order_response_def handle_entry_place_result_def
        entry_placed_def Let_def)
  moreover have "trade_reach (demo_new False 0) (demo_placed n)" unfolding demo_placed_def by (intro trade_step demo_reach)
  ultimately show ?thesis by blast
qed

definition demo_cancel :: OpinionUserOrderUpdate where
  "demo_cancel = \<lparr>ou_pair_id = 7, ou_token_side = Yes, ou_order_id = ''o1'', ou_order_update_type = Some ''orderCancel'',
     ou_status = Some 3, ou_side = Some ''Buy'', ou_outcome_side = None, ou_price = Some (Fin 1), ou_shares = Some (Fin 100),
     ou_amount = None, ou_filled_shares = Some (Fin 40), ou_filled_amount = Some (Fin 40), ou_ts_ms = Some 13000,
     ou_market_id = None\<rparr>"

theorem cancel_forgets_position_witness:
  "\<exists>n st. te_states (trade_handle (demo_env 13000) (TradeMsg (OpinionOrderUpdate demo_cancel)) (demo_placed n)) (7, Yes) = Some st
    \<and> pt_state st = Cooldown \<and> pt_entry_notional st = None"
proof -
  obtain n st where st: "te_states (demo_placed n) (7, Yes) = Some st" "pt_entry_order_id st = Some ''o1''"
    and run: "trade_reach (demo_new False 0) (demo_placed n)" using demo_placed_state by blast
  have u: "cancels demo_cancel" "ou_pair_id demo_cancel = 7" "ou_token_side demo_cancel = Yes" "ou_order_id demo_cancel = ''o1''"
    by (simp_all add: cancels_def demo_cancel_def unwrap_or_def)
  have on: "cfg_enabled (demo_cfg False 0)" by simp
  show ?thesis
    using cancel_forgets_position[OF run[unfolded demo_new_def] on _ _ u(1), unfolded u, OF st, of "demo_env 13000"] by auto
qed

section \<open>Limits\<close>

text \<open>
  The token bucket of cancellations keeps a token for exits: right after an entry's cancellation has
  been granted, at the same instant, the cancellation of an exit is granted too. The bucket never
  holds more than its burst, whatever the clock does.
\<close>

theorem entry_cancel_leaves_exit_token:
  assumes "allow now False l = (True, l')"
  shows "fst (allow now True l') \<and> (if rl_tokens l \<le> CANCEL_RATE_LIMIT_BURST then rl_tokens (refill now l) \<le> CANCEL_RATE_LIMIT_BURST else True)"
proof -
  have same: "refill now l' = l'" if "rl_last_refill_ms l' = rl_last_refill_ms (refill now l)"
  proof (cases "i64_sat (now - rl_last_refill_ms l) \<le> 0")
    case True
    then show ?thesis using that by (simp add: refill_def Let_def)
  next
    case False
    then have "rl_last_refill_ms l' = now" using that by (simp add: refill_def Let_def)
    moreover have "i64_sat 0 = 0" by (simp add: i64_sat_def sat_def)
    ultimately show ?thesis by (simp add: refill_def Let_def)
  qed
  have b: "CANCEL_RATE_LIMIT_BURST \<noteq> NaN" by (simp add: CANCEL_RATE_LIMIT_BURST_def lit_def)
  have "l' = (refill now l)\<lparr>rl_tokens := rl_tokens (refill now l) - 1\<rparr>" "1 \<le> rl_tokens (refill now l) - 1"
    using assms by (auto simp: allow_def Let_def CANCEL_RATE_EXIT_RESERVE_def split: if_splits)
  then have "fst (allow now True l')" using same by (simp add: allow_def Let_def)
  moreover have "rl_tokens (refill now l) \<le> CANCEL_RATE_LIMIT_BURST" if "rl_tokens l \<le> CANCEL_RATE_LIMIT_BURST"
    using that b by (simp add: refill_def Let_def min_le_right)
  ultimately show ?thesis by simp
qed

theorem entry_cancel_leaves_exit_token_witness:
  "fst (allow 0 True \<lparr>rl_tokens = lit 10 - 1, rl_last_refill_ms = 0\<rparr>)"
proof -
  have "(1::f64) \<le> lit 10 - 1" by (simp add: f64_eval zero_key)
  then have "allow 0 False (rate_limiter_new 0) = (True, \<lparr>rl_tokens = lit 10 - 1, rl_last_refill_ms = 0\<rparr>)"
    by (simp add: allow_def refill_def rate_limiter_new_def CANCEL_RATE_LIMIT_BURST_def CANCEL_RATE_EXIT_RESERVE_def i64_sat_def sat_def Let_def)
  from entry_cancel_leaves_exit_token[OF this] show ?thesis by simp
qed

text \<open>
  C13. The entry pool is that of one second at a time: when the venue refuses an entry of an older second,
  what it gives back makes the pool that of the older second, and the next look at the current second
  finds the full pool again, whatever had been reserved in it.
\<close>

theorem late_refusal_refills_pool:
  assumes st: "te_states e key = Some st" "pt_entry_place_req_id st = Some n" "pt_pending_entry st = Some entry"
    and refused: "pr_order result = None" "pr_last_err result \<noteq> Some ''order_id_missing''"
    and s: "pb_bar_second (pn_bar entry) \<noteq> s"
  shows "fst (entry_pool_available s (cfg_balance_total_usd (te_cfg e)) (handle_entry_place_result env key n result e))
    = f64_max (cfg_balance_total_usd (te_cfg e) * cfg_entry_pool_frac (te_cfg e)) 0"
  using st refused s
  by (simp add: handle_entry_place_result_def Let_def entry_pool_available_def release_entry_pool_def reset_entry_pool_def
      emit_row_def put_state_def)

theorem late_refusal_refills_pool_witness:
  "\<exists>e n st result. te_states e (7, Yes) = Some st \<and> rk_entry_pool_remaining (te_risk e) = 0 \<and> rk_entry_pool_second (te_risk e) = Some 11
    \<and> fst (entry_pool_available 11 (Fin 100) (handle_entry_place_result (demo_env 12000) (7, Yes) n result e)) = f64_max (Fin 100 * 1) 0"
proof -
  obtain st where st: "te_states (demo_entered False 0) (7, Yes) = Some st" "pt_state st = EntryPlacing"
    using demo_entry_state[of False] by auto
  have "pair_ok (is_live (demo_entered False 0)) st"
    using trade_ok_state[OF reach_ok[OF demo_reach[unfolded demo_new_def]] st(1)] by simp
  then obtain n where n: "pt_entry_place_req_id st = Some n" using st(2) by (auto simp: pair_ok_def)
  have c: "te_cfg (demo_entered False 0) = demo_cfg False 0" using reach_cfg[OF demo_reach[unfolded demo_new_def]] by blast
  obtain p where p: "demo_entry p" using demo_queued_state by blast
  define st' where "st' = st\<lparr>pt_pending_entry := Some p\<rparr>"
  define e where "e = (demo_entered False 0)\<lparr>te_states := [(7, Yes) \<mapsto> st'],
    te_risk := risk_default\<lparr>rk_entry_pool_second := Some 11, rk_entry_pool_remaining := 0\<rparr>\<rparr>"
  have "pr_order (chase_start\<lparr>pr_last_err := Some ''refused''\<rparr>) = None"
    "pr_last_err (chase_start\<lparr>pr_last_err := Some ''refused''\<rparr>) \<noteq> Some ''order_id_missing''" by (simp_all add: chase_start_def)
  note w = late_refusal_refills_pool[of e "(7, Yes)" st' n p, OF _ _ _ this, of 11 "demo_env 12000"]
  show ?thesis
    using w p n by (intro exI[of _ e] exI[of _ n] exI[of _ st'] exI[of _ "chase_start\<lparr>pr_last_err := Some ''refused''\<rparr>"])
      (simp add: e_def st'_def demo_entry_def c)
qed

end
