(* ===== verification/OpinionJson.thy ===== *)
theory OpinionJson
  imports TradeExec
begin

text \<open>
  Reading the venue's JSON (\<open>src/trade/opinion_private.rs\<close>): the envelope of a response, error numbers
  in error texts, and the fields of orders and trades under their several names. JSON values are those
  of \<open>serde_json\<close>, a parameter: the record \<open>json_ops\<close> of the accessors that the code calls, on an
  arbitrary type. The parsers of the standard library (\<open>str::parse\<close> for integers and \<open>f64\<close>) come first.
\<close>

section \<open>Parsers of the standard library\<close>

text \<open>\<open>str::parse::<i64>\<close>: an optional sign, at least one digit, no overflow.\<close>

definition strip_sign :: "string \<Rightarrow> bool \<times> string" where
  "strip_sign s = (case s of [] \<Rightarrow> (False, []) | c # cs \<Rightarrow>
     if c = CHR ''-'' then (True, cs) else if c = CHR ''+'' then (False, cs) else (False, s))"

definition parse_i64 :: "string \<Rightarrow> int option" where
  "parse_i64 s = (let (neg, ds) = strip_sign s; n = (if neg then - int (digits_val ds) else int (digits_val ds))
     in if ds \<noteq> [] \<and> list_all is_digit ds \<and> in_i64 n then Some n else None)"

definition parse_u32 :: "string \<Rightarrow> nat option" where
  "parse_u32 s = (case parse_u64 s of Some n \<Rightarrow> if n < 2 ^ 32 then Some n else None | None \<Rightarrow> None)"

text \<open>\<open>str::parse::<f64>\<close>: the named values in any case, or digits with at most one dot and at least one
  digit, and an exponent; the exact number is rounded once.\<close>

fun split_exp :: "string \<Rightarrow> string \<times> string option" where
  "split_exp [] = ([], None)"
| "split_exp (c # cs) = (if c = CHR ''e'' \<or> c = CHR ''E'' then ([], Some cs)
     else let (m, x) = split_exp cs in (c # m, x))"

definition parse_mantissa :: "string \<Rightarrow> rat option" where
  "parse_mantissa m = (case split_dot m of
     [w] \<Rightarrow> if w \<noteq> [] \<and> list_all is_digit w then Some (of_nat (digits_val w)) else None
   | [w, f] \<Rightarrow> if (w \<noteq> [] \<or> f \<noteq> []) \<and> list_all is_digit w \<and> list_all is_digit f
       then Some (of_nat (digits_val w) + of_nat (digits_val f) / 10 ^ List.length f) else None
   | _ \<Rightarrow> None)"

definition parse_exponent :: "string option \<Rightarrow> int option" where
  "parse_exponent x = (case x of None \<Rightarrow> Some 0 | Some s \<Rightarrow>
     let (neg, ds) = strip_sign s
     in if ds \<noteq> [] \<and> list_all is_digit ds then Some (if neg then - int (digits_val ds) else int (digits_val ds)) else None)"

definition str_parse_f64 :: "string \<Rightarrow> f64 option" where
  "str_parse_f64 s = (let (neg, body) = strip_sign s; name = ascii_lower body; (m, x) = split_exp body in
     if name = ''inf'' \<or> name = ''infinity'' then Some (Inf neg)
     else if name = ''nan'' then Some NaN
     else case (parse_mantissa m, parse_exponent x) of
       (Some q, Some k) \<Rightarrow> Some (rnd neg ((if neg then - 1 else 1) * q * 10 powi k))
     | _ \<Rightarrow> None)"

section \<open>JSON values\<close>

record 'v json_ops =
  jo_parse :: "string \<Rightarrow> 'v option"
  jo_get :: "'v \<Rightarrow> string \<Rightarrow> 'v option"
  jo_str :: "'v \<Rightarrow> string option"
  jo_i64 :: "'v \<Rightarrow> int option"
  jo_u64 :: "'v \<Rightarrow> nat option"
  jo_f64 :: "'v \<Rightarrow> f64 option"
  jo_array :: "'v \<Rightarrow> 'v list option"

text \<open>The first key whose value can be read wins: \<open>for key in keys { if let Some .. return .. }\<close>.\<close>

fun first_some :: "('k \<Rightarrow> 'a option) \<Rightarrow> 'k list \<Rightarrow> 'a option" where
  "first_some f [] = None"
| "first_some f (k # ks) = (case f k of Some x \<Rightarrow> Some x | None \<Rightarrow> first_some f ks)"

definition field :: "'v json_ops \<Rightarrow> 'v \<Rightarrow> string \<Rightarrow> ('v \<Rightarrow> 'a option) \<Rightarrow> 'a option" where
  "field J value key read = Option.bind (jo_get J value key) read"

section \<open>Responses\<close>

definition parse_result :: "'v json_ops \<Rightarrow> 'v \<Rightarrow> string + 'v" where
  "parse_result J value =
    (let payload = Inr (unwrap_or (or_else (jo_get J value ''result'') (jo_get J value ''data'')) value) in
     case field J value ''errno'' (jo_i64 J) of
       Some errno \<Rightarrow> if errno \<noteq> 0
         then Inl (''opinion api error errno='' @ int_str errno @ '' errmsg=''
                   @ unwrap_or (field J value ''errmsg'' (jo_str J)) ''opinion error'')
         else payload
     | None \<Rightarrow> payload)"

definition is_errno :: "string \<Rightarrow> int \<Rightarrow> bool" where
  "is_errno msg code \<longleftrightarrow> (case after ''errno='' msg of None \<Rightarrow> False
   | Some rest \<Rightarrow> let ds = takeWhile is_digit rest in ds \<noteq> [] \<and> parse_i64 ds = Some code)"

definition response_list :: "'v json_ops \<Rightarrow> 'v \<Rightarrow> 'v list" where
  "response_list J response = unwrap_or (field J response ''list'' (jo_array J)) []"

section \<open>Fields\<close>

definition extract_string :: "'v json_ops \<Rightarrow> 'v \<Rightarrow> string list \<Rightarrow> string option" where
  "extract_string J value keys = first_some (\<lambda>key. field J value key (\<lambda>val. case jo_str J val of
     Some s \<Rightarrow> Some s
   | None \<Rightarrow> (case jo_i64 J val of Some n \<Rightarrow> Some (int_str n)
     | None \<Rightarrow> map_option nat_str (jo_u64 J val)))) keys"

definition extract_string_nested :: "'v json_ops \<Rightarrow> 'v \<Rightarrow> string list \<Rightarrow> string option" where
  "extract_string_nested J value keys = or_else (extract_string J value keys)
     (first_some (\<lambda>container. field J value container (\<lambda>val. or_else (extract_string J val keys)
        (field J val ''data'' (\<lambda>nested. extract_string J nested keys))))
      [''result'', ''data'', ''order'', ''order_info'', ''orderInfo''])"

definition order_data_id :: "'v json_ops \<Rightarrow> 'v \<Rightarrow> string option" where
  "order_data_id J value = Option.bind (or_else (jo_get J value ''orderData'') (jo_get J value ''order_data''))
     (\<lambda>order_data. extract_string J order_data [''orderId'', ''order_id'', ''id''])"

definition extract_order_id :: "'v json_ops \<Rightarrow> 'v \<Rightarrow> string option" where
  "extract_order_id J value = or_else (or_else (order_data_id J value)
     (first_some (\<lambda>container. field J value container (\<lambda>val. or_else (order_data_id J val)
        (extract_string J val [''orderId'', ''order_id'', ''id'']))) [''result'', ''data'']))
     (extract_string_nested J value [''orderId'', ''order_id'', ''id''])"

definition extract_client_order_id :: "'v json_ops \<Rightarrow> 'v \<Rightarrow> string option" where
  "extract_client_order_id J value = extract_string J value [''clientOrderId'', ''client_order_id'', ''clientId'', ''client_id'']"

definition extract_ts_ms :: "'v json_ops \<Rightarrow> 'v \<Rightarrow> int option" where
  "extract_ts_ms J value = first_some (\<lambda>key. field J value key (jo_i64 J)) [''ts_ms'', ''timestamp'', ''time'']"

text \<open>\<open>n as i64\<close> of an unsigned number wraps.\<close>

definition as_i64 :: "nat \<Rightarrow> int" where
  "as_i64 n = sint (word_of_nat n :: 64 word)"

definition extract_i64_from_value :: "'v json_ops \<Rightarrow> 'v \<Rightarrow> string list \<Rightarrow> int option" where
  "extract_i64_from_value J value keys = first_some (\<lambda>key. field J value key (\<lambda>val. case jo_i64 J val of
     Some n \<Rightarrow> Some n
   | None \<Rightarrow> (case jo_u64 J val of Some n \<Rightarrow> Some (as_i64 n)
     | None \<Rightarrow> Option.bind (jo_str J val) parse_i64))) keys"

definition extract_created_ms :: "'v json_ops \<Rightarrow> 'v \<Rightarrow> int option" where
  "extract_created_ms J value = map_option (\<lambda>raw. if 0 < raw \<and> raw < 1000000000000 then i64_sat (raw * 1000) else raw)
     (extract_i64_from_value J value [''createdAt'', ''created_at'', ''createTime'', ''create_time''])"

definition extract_f64_from_value :: "'v json_ops \<Rightarrow> 'v \<Rightarrow> string list \<Rightarrow> f64 option" where
  "extract_f64_from_value J value keys = first_some (\<lambda>key. field J value key (\<lambda>val. case jo_f64 J val of
     Some n \<Rightarrow> Some n | None \<Rightarrow> Option.bind (jo_str J val) str_parse_f64)) keys"

definition order_matches_attributes :: "'v json_ops \<Rightarrow> 'v \<Rightarrow> int \<Rightarrow> int \<Rightarrow> f64 option \<Rightarrow> bool" where
  "order_matches_attributes J value market_id expected_side expected_price \<longleftrightarrow>
     (case extract_i64_from_value J value [''marketId'', ''topicId'', ''market_id''] of
        Some entry_market \<Rightarrow> entry_market = market_id | None \<Rightarrow> True)
     \<and> (case extract_i64_from_value J value [''side'', ''orderSide'', ''sideEnum''] of
        Some entry_side \<Rightarrow> entry_side = expected_side | None \<Rightarrow> True)
     \<and> (case (extract_f64_from_value J value [''price''], expected_price) of
        (Some entry_price, Some price) \<Rightarrow> \<not> lit (1 / 1000000) < \<bar>entry_price - price\<bar> | _ \<Rightarrow> True)"

end
