(* ===== verification/OpinionClient.thy ===== *)
theory OpinionClient
  imports OpinionJson
begin

text \<open>
  The client of the venue's private API (\<open>OpinionPrivateClient\<close> of \<open>src/trade/opinion_private.rs\<close>): its
  state, requests over HTTP, and the caches of markets and quote tokens. What lies outside the program
  is the record \<open>world\<close>: the answer to the n-th request, the n-th reading of the clock, the parsers of
  addresses and URLs, the decimal and JSON libraries, and the chain. A call of the client is a function
  from its state to an outcome, an error text or a value, and the new state; every request that it
  sends is logged in the state. A call runs alone: the locks of the code are held for single reads and
  writes, and two calls at once interleave at their requests.
\<close>

section \<open>Data\<close>

record TradingEnableState =
  tr_enabled :: bool
  tr_blocked_until_ms :: millis
  tr_last_error :: "string option"

record QuoteTokenInfo =
  qt_address :: string
  qt_exchange :: string
  qt_decimal :: nat
  qt_chain_id :: nat

record MarketInfo =
  mk_quote_token :: string
  mk_chain_id :: nat
  mk_parent_market_id :: "int option"
  mk_parent_title :: "string option"

record QuoteTokenCache =
  qc_fetched_ms :: millis
  qc_tokens :: "QuoteTokenInfo list"

record MarketCacheEntry =
  mc_fetched_ms :: millis
  mc_market :: MarketInfo

type_synonym address = "160 word"

record OrderPayload =
  op_salt :: nat
  op_maker :: address
  op_signer :: address
  op_taker :: address
  op_token_id :: nat
  op_maker_amount :: nat
  op_taker_amount :: nat
  op_expiration :: nat
  op_nonce :: nat
  op_fee_rate_bps :: nat
  op_side :: int
  op_signature_type :: nat

text \<open>A request. The body of an order holds the payload, the market (\<open>topicId\<close>), the signature, the
  address of the quote token, the price text and the time in seconds; its other fields are constants.\<close>

datatype HttpMethod = GET | POST

datatype ApiBody =
    OrderBody OrderPayload int string string string int
  | CancelBody string

record ApiRequest =
  hq_base :: string
  hq_method :: HttpMethod
  hq_path :: string
  hq_params :: "(string \<times> string) list"
  hq_body :: "ApiBody option"

datatype Reply = SendFailed | Replied nat string

text \<open>\<open>'c\<close> is the state of the chain, as the client sees it.\<close>

record 'c ApiClient =
  cl_base_url :: string
  cl_signer_address :: address
  cl_multi_sig_address :: "address option"
  cl_multisend_address :: "address option"
  cl_chain_id :: nat
  cl_rpc_url :: "string option"
  cl_conditional_tokens_address :: "string option"
  cl_check_approval :: bool
  cl_enable_retry_ms :: millis
  cl_force_eoa_orders :: bool
  cl_trading_state :: TradingEnableState
  cl_enable_trading_last_ms :: "millis option"
  cl_token_decimals :: "address \<rightharpoonup> nat"
  cl_quote_tokens :: QuoteTokenCache
  cl_markets :: "int \<rightharpoonup> MarketCacheEntry"
  cl_sent :: "ApiRequest list"
  cl_clock_reads :: nat
  cl_chain :: 'c

record ('v, 'd) world =
  wo_json :: "'v json_ops"
  wo_decimal :: "'d decimal_ops"
  wo_url :: "string \<Rightarrow> (string \<times> string) list \<Rightarrow> string option"
  wo_status_text :: "nat \<Rightarrow> string"
  wo_reply :: "nat \<Rightarrow> ApiRequest \<Rightarrow> Reply"
  wo_clock :: "nat \<Rightarrow> millis"
  wo_random :: "nat \<Rightarrow> f64"
  wo_address :: "string \<Rightarrow> address option"
  wo_sign :: "OrderPayload \<Rightarrow> nat \<Rightarrow> address \<Rightarrow> string option"
  wo_shown :: "amount_error \<Rightarrow> f64 \<Rightarrow> OrderAmount \<Rightarrow> string"

definition client_new :: "string \<Rightarrow> address \<Rightarrow> address option \<Rightarrow> address option \<Rightarrow> nat \<Rightarrow> string option \<Rightarrow> string option \<Rightarrow>
    bool \<Rightarrow> millis \<Rightarrow> bool \<Rightarrow> 'c \<Rightarrow> 'c ApiClient" where
  "client_new base_url signer multi_sig multisend chain_id rpc_url conditional check_approval enable_retry_ms force_eoa chain =
    \<lparr>cl_base_url = rev (dropWhile (\<lambda>c. c = CHR ''/'') (rev base_url)), cl_signer_address = signer,
     cl_multi_sig_address = multi_sig, cl_multisend_address = multisend, cl_chain_id = chain_id,
     cl_rpc_url = rpc_url, cl_conditional_tokens_address = conditional, cl_check_approval = check_approval,
     cl_enable_retry_ms = enable_retry_ms, cl_force_eoa_orders = force_eoa,
     cl_trading_state = \<lparr>tr_enabled = True, tr_blocked_until_ms = 0, tr_last_error = None\<rparr>,
     cl_enable_trading_last_ms = None, cl_token_decimals = Map.empty,
     cl_quote_tokens = \<lparr>qc_fetched_ms = 0, qc_tokens = []\<rparr>, cl_markets = Map.empty, cl_sent = [],
     cl_clock_reads = 0, cl_chain = chain\<rparr>"

text \<open>Going on with the value of a call, or stopping with its error (\<open>?\<close>).\<close>

definition and_then :: "(string + 'a) \<times> 's \<Rightarrow> ('a \<Rightarrow> 's \<Rightarrow> (string + 'b) \<times> 's) \<Rightarrow> (string + 'b) \<times> 's" where
  "and_then r f = (case r of (Inl err, s) \<Rightarrow> (Inl err, s) | (Inr x, s) \<Rightarrow> f x s)"

definition or_error :: "string \<Rightarrow> 'a option \<Rightarrow> string + 'a" where
  "or_error err x = (case x of Some v \<Rightarrow> Inr v | None \<Rightarrow> Inl err)"

definition now_ts_ms :: "('v, 'd) world \<Rightarrow> 'c ApiClient \<Rightarrow> millis \<times> 'c ApiClient" where
  "now_ts_ms W s = (wo_clock W (cl_clock_reads s), s\<lparr>cl_clock_reads := cl_clock_reads s + 1\<rparr>)"

section \<open>Texts\<close>

definition mask_key :: "string \<Rightarrow> string" where
  "mask_key key = (let trimmed = trim_spaces key; n = List.length trimmed in
     if trimmed = [] then ''<empty>''
     else if n \<le> 8 then ''len='' @ nat_str n
     else take 4 trimmed @ ''...'' @ rev (take 4 (rev trimmed)) @ ''(len='' @ nat_str n @ '')'')"

definition truncate_text :: "string \<Rightarrow> nat \<Rightarrow> string" where
  "truncate_text text max_len = (if List.length text \<le> max_len then text else take max_len text @ ''...'')"

definition normalize_private_key :: "string \<Rightarrow> string" where
  "normalize_private_key key = (let trimmed = trim_spaces key in
     if prefix ''0x'' trimmed then trimmed else ''0x'' @ trimmed)"

definition ensure_0x :: "string \<Rightarrow> string" where
  "ensure_0x value = (if prefix ''0x'' value then value else ''0x'' @ value)"

definition parse_address :: "('v, 'd) world \<Rightarrow> string \<Rightarrow> address option" where
  "parse_address W value = wo_address W (trim_spaces value)"

section \<open>Requests\<close>

fun method_str :: "HttpMethod \<Rightarrow> string" where
  "method_str GET = ''GET''"
| "method_str POST = ''POST''"

definition full_url :: "string \<Rightarrow> string \<Rightarrow> string" where
  "full_url base_url path = rev (dropWhile (\<lambda>c. c = CHR ''/'') (rev base_url)) @ ''/''
     @ dropWhile (\<lambda>c. c = CHR ''/'') path"

text \<open>What a reply becomes: the parsed result and the raw text.\<close>

definition read_reply :: "('v, 'd) world \<Rightarrow> HttpMethod \<Rightarrow> string \<Rightarrow> Reply \<Rightarrow> string + 'v \<times> string" where
  "read_reply W method url reply = (case reply of
     SendFailed \<Rightarrow> Inl ''opinion openapi request failed''
   | Replied status text \<Rightarrow>
     if \<not> (200 \<le> status \<and> status < 300) then Inl (http_error_text (method_str method) url (wo_status_text W status) text)
     else case jo_parse (wo_json W) text of
       None \<Rightarrow> Inl (''opinion openapi response parse failed: '' @ text)
     | Some value \<Rightarrow> (case parse_result (wo_json W) value of
         Inl err \<Rightarrow> Inl err | Inr parsed \<Rightarrow> Inr (parsed, text)))"

definition request_json_with_base_raw :: "('v, 'd) world \<Rightarrow> string \<Rightarrow> HttpMethod \<Rightarrow> string \<Rightarrow> ApiBody option \<Rightarrow>
    (string \<times> string) list \<Rightarrow> 'c ApiClient \<Rightarrow> (string + 'v \<times> string) \<times> 'c ApiClient" where
  "request_json_with_base_raw W base_url method path payload params s =
    (case wo_url W (full_url base_url path) params of
       None \<Rightarrow> (Inl ''opinion openapi url parse failed'', s)
     | Some url \<Rightarrow>
       let req = \<lparr>hq_base = base_url, hq_method = method, hq_path = path, hq_params = params,
                  hq_body = (if method = GET then None else payload)\<rparr>
       in (read_reply W method url (wo_reply W (List.length (cl_sent s)) req), s\<lparr>cl_sent := cl_sent s @ [req]\<rparr>))"

definition request_json_with_base :: "('v, 'd) world \<Rightarrow> string \<Rightarrow> HttpMethod \<Rightarrow> string \<Rightarrow> ApiBody option \<Rightarrow>
    (string \<times> string) list \<Rightarrow> 'c ApiClient \<Rightarrow> (string + 'v) \<times> 'c ApiClient" where
  "request_json_with_base W base_url method path payload params s =
     and_then (request_json_with_base_raw W base_url method path payload params s) (\<lambda>(parsed, raw) s. (Inr parsed, s))"

definition request_json :: "('v, 'd) world \<Rightarrow> HttpMethod \<Rightarrow> string \<Rightarrow> ApiBody option \<Rightarrow> (string \<times> string) list \<Rightarrow>
    'c ApiClient \<Rightarrow> (string + 'v) \<times> 'c ApiClient" where
  "request_json W method path payload params s = request_json_with_base W (cl_base_url s) method path payload params s"

section \<open>Markets\<close>

definition MARKET_CACHE_TTL_MS :: millis where "MARKET_CACHE_TTL_MS = 5 * 60 * 1000"
definition QUOTE_TOKEN_CACHE_TTL_MS :: millis where "QUOTE_TOKEN_CACHE_TTL_MS = 60 * 60 * 1000"

text \<open>The market in a response; \<open>parse_market\<close> stands for the same lines in \<open>get_market_info\<close> and
  \<open>prefetch_markets\<close>.\<close>

definition parse_market :: "'v json_ops \<Rightarrow> nat \<Rightarrow> 'v \<Rightarrow> MarketInfo option" where
  "parse_market J chain_id value =
    (let data = unwrap_or (jo_get J value ''data'') value; collection = jo_get J data ''collection'';
         id_of = (\<lambda>v. Option.bind (extract_string J v [''marketId'', ''market_id'']) parse_i64)
     in map_option (\<lambda>quote_token.
         \<lparr>mk_quote_token = quote_token,
          mk_chain_id = unwrap_or (Option.bind (extract_string J data [''chainId'', ''chain_id'']) parse_u64) chain_id,
          mk_parent_market_id = or_else (Option.bind collection (\<lambda>c. field J c ''current'' id_of))
            (Option.bind collection (\<lambda>c. field J c ''next'' (\<lambda>v. Option.bind (jo_array J v)
               (\<lambda>arr. case arr of [] \<Rightarrow> None | x # _ \<Rightarrow> id_of x)))),
          mk_parent_title = Option.bind collection (\<lambda>c. field J c ''title'' (jo_str J))\<rparr>)
       (extract_string J data [''quoteToken'', ''quote_token'']))"

definition market_path :: "int \<Rightarrow> string" where
  "market_path market_id = ''/openapi/market/'' @ int_str market_id"

definition market_cached :: "millis \<Rightarrow> int \<Rightarrow> 'c ApiClient \<Rightarrow> MarketInfo option" where
  "market_cached now market_id s = (case cl_markets s market_id of
     Some entry \<Rightarrow> if now - mc_fetched_ms entry \<le> MARKET_CACHE_TTL_MS then Some (mc_market entry) else None
   | None \<Rightarrow> None)"

definition store_market :: "int \<Rightarrow> millis \<Rightarrow> MarketInfo \<Rightarrow> 'c ApiClient \<Rightarrow> 'c ApiClient" where
  "store_market market_id now market s =
     s\<lparr>cl_markets := (cl_markets s)(market_id \<mapsto> \<lparr>mc_fetched_ms = now, mc_market = market\<rparr>)\<rparr>"

definition get_market_info :: "('v, 'd) world \<Rightarrow> int \<Rightarrow> 'c ApiClient \<Rightarrow> (string + MarketInfo) \<times> 'c ApiClient" where
  "get_market_info W market_id s =
    (let (now, s) = now_ts_ms W s in case market_cached now market_id s of
       Some market \<Rightarrow> (Inr market, s)
     | None \<Rightarrow> and_then (request_json W GET (market_path market_id) None [] s) (\<lambda>value s.
         case parse_market (wo_json W) (cl_chain_id s) value of
           None \<Rightarrow> (Inl (''opinion market missing quoteToken market_id='' @ int_str market_id), s)
         | Some market \<Rightarrow> (Inr market, store_market market_id now market s)))"

section \<open>Quote tokens\<close>

definition parse_quote_token :: "'v json_ops \<Rightarrow> nat \<Rightarrow> 'v \<Rightarrow> QuoteTokenInfo option" where
  "parse_quote_token J chain_id entry =
    (case (extract_string J entry [''quoteTokenAddress'', ''quote_token_address''],
           extract_string J entry [''ctfExchangeAddress'', ''ctf_exchange_address'']) of
       (Some quote_token, Some exchange) \<Rightarrow> Some \<lparr>qt_address = quote_token, qt_exchange = exchange,
         qt_decimal = unwrap_or (Option.bind (extract_string J entry [''decimal'']) parse_u32) 0,
         qt_chain_id = unwrap_or (Option.bind (extract_string J entry [''chainId'', ''chain_id'']) parse_u64) chain_id\<rparr>
     | _ \<Rightarrow> None)"

definition quote_tokens_of :: "'v json_ops \<Rightarrow> nat \<Rightarrow> 'v \<Rightarrow> QuoteTokenInfo list" where
  "quote_tokens_of J chain_id value = List.map_filter (parse_quote_token J chain_id) (response_list J value)"

definition get_quote_tokens :: "('v, 'd) world \<Rightarrow> 'c ApiClient \<Rightarrow> (string + QuoteTokenInfo list) \<times> 'c ApiClient" where
  "get_quote_tokens W s =
    (let (now, s) = now_ts_ms W s; cache = cl_quote_tokens s in
     if now - qc_fetched_ms cache \<le> QUOTE_TOKEN_CACHE_TTL_MS \<and> qc_tokens cache \<noteq> [] then (Inr (qc_tokens cache), s)
     else and_then (request_json W GET ''/openapi/quoteToken'' None [] s) (\<lambda>value s.
       let tokens = quote_tokens_of (wo_json W) (cl_chain_id s) value in
       if tokens = [] then (Inl ''opinion quoteToken list empty'', s)
       else (Inr tokens, s\<lparr>cl_quote_tokens := \<lparr>qc_fetched_ms = now, qc_tokens = tokens\<rparr>\<rparr>)))"

definition get_quote_token_info :: "('v, 'd) world \<Rightarrow> string \<Rightarrow> 'c ApiClient \<Rightarrow> (string + QuoteTokenInfo) \<times> 'c ApiClient" where
  "get_quote_token_info W quote_token_address s = and_then (get_quote_tokens W s) (\<lambda>tokens s.
     (or_error (''quote token not found for '' @ quote_token_address)
        (List.find (\<lambda>t. ascii_lower (qt_address t) = ascii_lower quote_token_address) tokens), s))"

section \<open>Prefetching\<close>

definition prefetch_quote_tokens :: "('v, 'd) world \<Rightarrow> string \<Rightarrow> 'c ApiClient \<Rightarrow> (string + unit) \<times> 'c ApiClient" where
  "prefetch_quote_tokens W base_url s = and_then (request_json_with_base W base_url GET ''/openapi/quoteToken'' None [] s)
     (\<lambda>value s. let tokens = quote_tokens_of (wo_json W) (cl_chain_id s) value in
        if tokens = [] then (Inl ''opinion quoteToken list empty'', s)
        else let (now, s) = now_ts_ms W s in (Inr (), s\<lparr>cl_quote_tokens := \<lparr>qc_fetched_ms = now, qc_tokens = tokens\<rparr>\<rparr>))"

definition prefetch_market :: "('v, 'd) world \<Rightarrow> string \<Rightarrow> millis \<Rightarrow> int \<Rightarrow> 'c ApiClient \<Rightarrow> bool \<times> 'c ApiClient" where
  "prefetch_market W base now market_id s =
    (if market_cached now market_id s \<noteq> None then (True, s)
     else case request_json_with_base W base GET (market_path market_id) None [] s of
       (Inl err, s) \<Rightarrow> (False, s)
     | (Inr value, s) \<Rightarrow> (case parse_market (wo_json W) (cl_chain_id s) value of
         None \<Rightarrow> (False, s)
       | Some market \<Rightarrow> let (fetched, s) = now_ts_ms W s in (True, store_market market_id fetched market s)))"

fun prefetch_loop :: "('v, 'd) world \<Rightarrow> string \<Rightarrow> millis \<Rightarrow> int list \<Rightarrow> nat \<times> nat \<Rightarrow> 'c ApiClient \<Rightarrow> (nat \<times> nat) \<times> 'c ApiClient" where
  "prefetch_loop W base now [] counts s = (counts, s)"
| "prefetch_loop W base now (market_id # ids) (ok, failed) s =
    (let (found, s) = prefetch_market W base now market_id s
     in prefetch_loop W base now ids (if found then (ok + 1, failed) else (ok, failed + 1)) s)"

definition prefetch_markets :: "('v, 'd) world \<Rightarrow> string \<Rightarrow> int list \<Rightarrow> 'c ApiClient \<Rightarrow> (string + nat \<times> nat) \<times> 'c ApiClient" where
  "prefetch_markets W base_url market_ids s =
    (let base = trim_spaces base_url; unique = remdups_adj (sort market_ids) in
     if base = [] then (Inl ''opinion prefetch base_url empty'', s)
     else if unique = [] then (Inr (0, 0), s)
     else let (now, s) = now_ts_ms W s; (r, s) = prefetch_quote_tokens W base s;
              (counts, s) = prefetch_loop W base now unique (0, 0) s
          in (Inr counts, s))"

end
