(* ===== verification/OpinionChain.thy ===== *)
theory OpinionChain
  imports OpinionClient
begin

text \<open>
  Trading permission (\<open>src/trade/opinion_private.rs\<close>): the approvals on the chain, for an account that
  signs for itself and for a Gnosis safe, and the state machine that pauses and resumes trading. The
  chain and the contract bindings are the record \<open>chain_ops\<close>, on an arbitrary type of chain states: a
  read gives nothing when the call fails, and sending a transaction gives an outcome and a new state.
\<close>

section \<open>The chain\<close>

datatype ChainCall =
    Approve address address nat
  | SetApprovalForAll address address
  | MultiSend "8 word list"

text \<open>A call to the first address; \<open>ExecTransaction\<close> runs data through a safe, with the operation and
  the signature.\<close>

datatype ChainTx =
    CallTx ChainCall
  | ExecTransaction address address "8 word list" nat "8 word list"

datatype TxOutcome = TxRejected | TxLost | TxDone "bool option"

record 'c chain_ops =
  co_provider :: "string \<Rightarrow> bool"
  co_balance :: "'c \<Rightarrow> address \<Rightarrow> nat option"
  co_base_fee :: "'c \<Rightarrow> nat option option"
  co_gas_price :: "'c \<Rightarrow> nat option"
  co_decimals :: "'c \<Rightarrow> address \<Rightarrow> nat option"
  co_allowance :: "'c \<Rightarrow> address \<Rightarrow> address \<Rightarrow> address \<Rightarrow> nat option"
  co_approved :: "'c \<Rightarrow> address \<Rightarrow> address \<Rightarrow> address \<Rightarrow> bool option"
  co_calldata :: "ChainCall \<Rightarrow> 8 word list option"
  co_safe_nonce :: "'c \<Rightarrow> address \<Rightarrow> nat option"
  co_safe_hash :: "'c \<Rightarrow> address \<Rightarrow> address \<Rightarrow> 8 word list \<Rightarrow> nat \<Rightarrow> nat \<Rightarrow> 256 word option"
  co_sign_hash :: "256 word \<Rightarrow> 8 word list option"
  co_send :: "'c \<Rightarrow> ChainTx \<Rightarrow> TxOutcome \<times> 'c"
  co_hash_order :: "address list \<Rightarrow> address list"

definition send_tx :: "'c chain_ops \<Rightarrow> ChainTx \<Rightarrow> string \<Rightarrow> string \<Rightarrow> 'c ApiClient \<Rightarrow> (string + bool option) \<times> 'c ApiClient" where
  "send_tx C tx send_err receipt_err s =
    (let (outcome, c) = co_send C (cl_chain s) tx; s = s\<lparr>cl_chain := c\<rparr> in
     case outcome of TxRejected \<Rightarrow> (Inl send_err, s) | TxLost \<Rightarrow> (Inl receipt_err, s) | TxDone status \<Rightarrow> (Inr status, s))"

definition DEFAULT_CONDITIONAL_TOKENS_ADDRESS :: string where
  "DEFAULT_CONDITIONAL_TOKENS_ADDRESS = ''0xAD1a38cEc043e70E83a3eC30443dB285ED10D774''"
definition DEFAULT_MULTISEND_ADDRESS_BSC :: string where
  "DEFAULT_MULTISEND_ADDRESS_BSC = ''0x38869bf66a61cF6bDB996A6aE40D5853Fd43B526''"

definition non_empty :: "string option \<Rightarrow> string option" where
  "non_empty v = (case v of None \<Rightarrow> None | Some x \<Rightarrow> let t = trim_spaces x in if t = [] then None else Some t)"

definition conditional_tokens_address :: "('v, 'd) world \<Rightarrow> 'c ApiClient \<Rightarrow> string + address" where
  "conditional_tokens_address W s = or_error ''invalid address'' (parse_address W
     (unwrap_or (non_empty (cl_conditional_tokens_address s)) DEFAULT_CONDITIONAL_TOKENS_ADDRESS))"

definition multisend_address :: "('v, 'd) world \<Rightarrow> 'c ApiClient \<Rightarrow> string + address" where
  "multisend_address W s = (case cl_multisend_address s of Some addr \<Rightarrow> Inr addr
   | None \<Rightarrow> if cl_chain_id s = 56 then or_error ''invalid address'' (parse_address W DEFAULT_MULTISEND_ADDRESS_BSC)
     else Inl (''opinion multisend_address missing for chain_id='' @ nat_str (cl_chain_id s)))"

definition get_token_decimals :: "'c chain_ops \<Rightarrow> address \<Rightarrow> 'c ApiClient \<Rightarrow> nat \<times> 'c ApiClient" where
  "get_token_decimals C token s = (case cl_token_decimals s token of Some value \<Rightarrow> (value, s)
   | None \<Rightarrow> let value = unwrap_or (co_decimals C (cl_chain s) token) MAX_DECIMALS
     in (value, s\<lparr>cl_token_decimals := (cl_token_decimals s)(token \<mapsto> value)\<rparr>))"

text \<open>The error of a missing gas balance ends with the address and the amounts, which nothing reads.\<close>

definition check_gas_balance :: "'c chain_ops \<Rightarrow> address \<Rightarrow> nat \<Rightarrow> 'c ApiClient \<Rightarrow> string + unit" where
  "check_gas_balance C addr estimated_gas s =
    (case co_balance C (cl_chain s) addr of None \<Rightarrow> Inl ''opinion gas balance fetch failed''
     | Some balance \<Rightarrow> (case co_base_fee C (cl_chain s) of None \<Rightarrow> Inl ''opinion gas block fetch failed''
     | Some block_fee \<Rightarrow>
       let base_fee = unwrap_or block_fee 0;
           gas_price = (if 0 < base_fee then Some (base_fee * 2 + 2000000000) else co_gas_price C (cl_chain s))
       in (case gas_price of None \<Rightarrow> Inl ''opinion gas price fetch failed''
         | Some price \<Rightarrow> let required = price * (estimated_gas * 12 div 10 mod 2 ^ 64)
           in if balance < required then Inl ''opinion insufficient gas balance'' else Inr ())))"

definition rpc_url_of :: "'c chain_ops \<Rightarrow> 'c ApiClient \<Rightarrow> string + unit" where
  "rpc_url_of C s = (case non_empty (cl_rpc_url s) of None \<Rightarrow> Inl ''opinion rpc_url missing in account config''
   | Some rpc_url \<Rightarrow> if co_provider C rpc_url then Inr () else Inl ''opinion rpc_url parse failed'')"

section \<open>Approvals of a plain account\<close>

text \<open>The allowance of one spender, raised to the maximum when it is too small, through zero when it
  is not zero; \<open>tag\<close> is the part of the error texts that differs between the two spenders.\<close>

definition ensure_allowance :: "'c chain_ops \<Rightarrow> string \<Rightarrow> address \<Rightarrow> address \<Rightarrow> nat \<Rightarrow> 'c ApiClient \<Rightarrow>
    (string + unit) \<times> 'c ApiClient" where
  "ensure_allowance C tag token spender threshold s =
    (case co_allowance C (cl_chain s) token (cl_signer_address s) spender of
       None \<Rightarrow> (Inl (''opinion '' @ tag @ '' allowance call failed''), s)
     | Some allowance \<Rightarrow>
       if threshold \<le> allowance then (Inr (), s)
       else and_then (if 0 < allowance
           then and_then (send_tx C (CallTx (Approve token spender 0)) (''opinion '' @ tag @ '' approve reset failed'')
             (''opinion '' @ tag @ '' approve reset receipt failed'') s) (\<lambda>_ s. (Inr (), s))
           else (Inr (), s)) (\<lambda>_ s.
         and_then (send_tx C (CallTx (Approve token spender u256_max)) (''opinion '' @ tag @ '' approve failed'')
           (''opinion '' @ tag @ '' approve receipt failed'') s) (\<lambda>_ s. (Inr (), s))))"

definition token_addresses :: "('v, 'd) world \<Rightarrow> QuoteTokenInfo \<Rightarrow> string + address \<times> address" where
  "token_addresses W token = (case parse_address W (qt_address token) of
     None \<Rightarrow> Inl (''invalid quoteTokenAddress '' @ qt_address token)
   | Some quote_token \<Rightarrow> (case parse_address W (qt_exchange token) of
       None \<Rightarrow> Inl (''invalid ctfExchangeAddress '' @ qt_exchange token)
     | Some exchange \<Rightarrow> Inr (quote_token, exchange)))"

text \<open>The loop over the quote tokens of the chain, with the exchanges seen.\<close>

fun eoa_tokens :: "('v, 'd) world \<Rightarrow> 'c chain_ops \<Rightarrow> address \<Rightarrow> QuoteTokenInfo list \<Rightarrow> address list \<Rightarrow> 'c ApiClient \<Rightarrow>
    (string + address list) \<times> 'c ApiClient" where
  "eoa_tokens W C conditional [] exchanges s = (Inr exchanges, s)"
| "eoa_tokens W C conditional (token # tokens) exchanges s =
    (if qt_chain_id token \<noteq> cl_chain_id s then eoa_tokens W C conditional tokens exchanges s
     else case token_addresses W token of Inl err \<Rightarrow> (Inl err, s)
     | Inr (quote_token, exchange) \<Rightarrow>
       let (decimals, s) = get_token_decimals C quote_token s; threshold = min_threshold decimals in
       and_then (ensure_allowance C ''erc20'' quote_token exchange threshold s) (\<lambda>_ s.
       and_then (ensure_allowance C ''erc20 conditionalTokens'' quote_token conditional threshold s) (\<lambda>_ s.
         eoa_tokens W C conditional tokens (if exchange \<in> set exchanges then exchanges else exchanges @ [exchange]) s)))"

fun eoa_operators :: "'c chain_ops \<Rightarrow> address \<Rightarrow> address list \<Rightarrow> 'c ApiClient \<Rightarrow> (string + unit) \<times> 'c ApiClient" where
  "eoa_operators C conditional [] s = (Inr (), s)"
| "eoa_operators C conditional (exchange # exchanges) s =
    (case co_approved C (cl_chain s) conditional (cl_signer_address s) exchange of
       None \<Rightarrow> (Inl ''opinion erc1155 isApprovedForAll call failed'', s)
     | Some True \<Rightarrow> eoa_operators C conditional exchanges s
     | Some False \<Rightarrow> and_then (send_tx C (CallTx (SetApprovalForAll conditional exchange))
         ''opinion erc1155 setApprovalForAll failed'' ''opinion erc1155 approve receipt failed'' s)
         (\<lambda>_ s. eoa_operators C conditional exchanges s))"

definition none_matched :: "'c ApiClient \<Rightarrow> QuoteTokenInfo list \<Rightarrow> bool" where
  "none_matched s tokens \<longleftrightarrow> (\<forall>token \<in> set tokens. qt_chain_id token \<noteq> cl_chain_id s)"

definition empty_list_error :: "'c ApiClient \<Rightarrow> string" where
  "empty_list_error s = ''opinion quoteToken list empty for chain_id='' @ nat_str (cl_chain_id s)"

definition enable_trading_onchain_eoa :: "('v, 'd) world \<Rightarrow> 'c chain_ops \<Rightarrow> 'c ApiClient \<Rightarrow> (string + unit) \<times> 'c ApiClient" where
  "enable_trading_onchain_eoa W C s =
    and_then (rpc_url_of C s, s) (\<lambda>_ s.
    and_then (check_gas_balance C (cl_signer_address s) 500000 s, s) (\<lambda>_ s.
    and_then (get_quote_tokens W s) (\<lambda>tokens s.
    and_then (conditional_tokens_address W s, s) (\<lambda>conditional s.
    and_then (eoa_tokens W C conditional tokens [] s) (\<lambda>exchanges s.
      if none_matched s tokens then (Inl (empty_list_error s), s)
      else eoa_operators C conditional (co_hash_order C exchanges) s)))))"

section \<open>Approvals of a safe\<close>

record MultiSendTx =
  ms_operation :: "8 word"
  ms_to :: address
  ms_value :: nat
  ms_data :: "8 word list"

text \<open>Big-endian bytes of a number: \<open>n\<close> of them.\<close>

fun be_bytes :: "nat \<Rightarrow> nat \<Rightarrow> 8 word list" where
  "be_bytes 0 v = []"
| "be_bytes (Suc n) v = be_bytes n (v div 256) @ [word_of_nat (v mod 256)]"

definition encode_tx :: "MultiSendTx \<Rightarrow> 8 word list" where
  "encode_tx tx = ms_operation tx # be_bytes 20 (unat (ms_to tx)) @ be_bytes 32 (ms_value tx)
     @ be_bytes 32 (List.length (ms_data tx)) @ ms_data tx"

definition encode_multisend_txs :: "MultiSendTx list \<Rightarrow> 8 word list" where
  "encode_multisend_txs txs = concat (map encode_tx txs)"

definition safe_call :: "'c chain_ops \<Rightarrow> string \<Rightarrow> address \<Rightarrow> ChainCall \<Rightarrow> string + MultiSendTx" where
  "safe_call C err addr call = (case co_calldata C call of None \<Rightarrow> Inl err
   | Some data \<Rightarrow> Inr \<lparr>ms_operation = 0, ms_to = addr, ms_value = 0, ms_data = data\<rparr>)"

fun safe_calls :: "'c chain_ops \<Rightarrow> string \<Rightarrow> address \<Rightarrow> ChainCall list \<Rightarrow> string + MultiSendTx list" where
  "safe_calls C err addr [] = Inr []"
| "safe_calls C err addr (call # calls) = (case safe_call C err addr call of Inl e \<Rightarrow> Inl e
   | Inr tx \<Rightarrow> (case safe_calls C err addr calls of Inl e \<Rightarrow> Inl e | Inr txs \<Rightarrow> Inr (tx # txs)))"

definition plan_allowance :: "'c chain_ops \<Rightarrow> string \<Rightarrow> string \<Rightarrow> address \<Rightarrow> address \<Rightarrow> address \<Rightarrow> nat \<Rightarrow> 'c ApiClient \<Rightarrow>
    string + MultiSendTx list" where
  "plan_allowance C read_err data_err safe token spender threshold s =
    (case co_allowance C (cl_chain s) token safe spender of
       None \<Rightarrow> Inl read_err
     | Some allowance \<Rightarrow> if threshold \<le> allowance then Inr []
       else safe_calls C data_err token
         ((if 0 < allowance then [Approve token spender 0] else []) @ [Approve token spender u256_max]))"

fun safe_tokens :: "('v, 'd) world \<Rightarrow> 'c chain_ops \<Rightarrow> address \<Rightarrow> address \<Rightarrow> QuoteTokenInfo list \<Rightarrow>
    address list \<times> MultiSendTx list \<Rightarrow> 'c ApiClient \<Rightarrow> (string + address list \<times> MultiSendTx list) \<times> 'c ApiClient" where
  "safe_tokens W C safe conditional [] acc s = (Inr acc, s)"
| "safe_tokens W C safe conditional (token # tokens) (exchanges, txs) s =
    (if qt_chain_id token \<noteq> cl_chain_id s then safe_tokens W C safe conditional tokens (exchanges, txs) s
     else case token_addresses W token of Inl err \<Rightarrow> (Inl err, s)
     | Inr (quote_token, exchange) \<Rightarrow>
       let (decimals, s) = get_token_decimals C quote_token s; threshold = min_threshold decimals in
       and_then (plan_allowance C ''opinion erc20 allowance call failed'' ''opinion erc20 approve calldata failed''
         safe quote_token exchange threshold s, s) (\<lambda>txs1 s.
       and_then (plan_allowance C ''opinion erc20 conditionalTokens allowance call failed''
         ''opinion erc20 conditionalTokens calldata failed'' safe quote_token conditional threshold s, s) (\<lambda>txs2 s.
         safe_tokens W C safe conditional tokens
           (if exchange \<in> set exchanges then exchanges else exchanges @ [exchange], txs @ txs1 @ txs2) s)))"

fun safe_operators :: "'c chain_ops \<Rightarrow> address \<Rightarrow> address \<Rightarrow> address list \<Rightarrow> MultiSendTx list \<Rightarrow> 'c ApiClient \<Rightarrow>
    string + MultiSendTx list" where
  "safe_operators C safe conditional [] txs s = Inr txs"
| "safe_operators C safe conditional (exchange # exchanges) txs s =
    (case co_approved C (cl_chain s) conditional safe exchange of
       None \<Rightarrow> Inl ''opinion erc1155 isApprovedForAll call failed''
     | Some True \<Rightarrow> safe_operators C safe conditional exchanges txs s
     | Some False \<Rightarrow> (case safe_call C ''opinion erc1155 calldata failed'' conditional (SetApprovalForAll conditional exchange) of
         Inl err \<Rightarrow> Inl err
       | Inr tx \<Rightarrow> safe_operators C safe conditional exchanges (txs @ [tx]) s))"

definition safe_exec_transaction :: "'c chain_ops \<Rightarrow> address \<Rightarrow> address \<Rightarrow> 8 word list \<Rightarrow> nat \<Rightarrow> 'c ApiClient \<Rightarrow>
    (string + unit) \<times> 'c ApiClient" where
  "safe_exec_transaction C safe addr data operation s =
    and_then (or_error ''opinion safe nonce fetch failed'' (co_safe_nonce C (cl_chain s) safe), s) (\<lambda>nonce s.
    and_then (or_error ''opinion safe getTransactionHash failed'' (co_safe_hash C (cl_chain s) safe addr data operation nonce), s) (\<lambda>h s.
    and_then (or_error ''sign_hash'' (co_sign_hash C h), s) (\<lambda>signature s.
    and_then (send_tx C (ExecTransaction safe addr data operation signature) ''opinion safe execTransaction send failed''
      ''opinion safe execTransaction receipt failed'' s) (\<lambda>status s.
      if status = Some False then (Inl ''opinion safe execTransaction reverted'', s) else (Inr (), s)))))"

text \<open>\<open>context\<close> replaces the text of the error by its own.\<close>

definition enable_trading_onchain_safe :: "('v, 'd) world \<Rightarrow> 'c chain_ops \<Rightarrow> 'c ApiClient \<Rightarrow> (string + unit) \<times> 'c ApiClient" where
  "enable_trading_onchain_safe W C s =
    and_then (or_error ''opinion safe address missing'' (cl_multi_sig_address s), s) (\<lambda>safe s.
    and_then (rpc_url_of C s, s) (\<lambda>_ s.
    and_then (check_gas_balance C (cl_signer_address s) 500000 s, s) (\<lambda>_ s.
    and_then (multisend_address W s, s) (\<lambda>multisend s.
    and_then (get_quote_tokens W s) (\<lambda>tokens s.
    and_then (conditional_tokens_address W s, s) (\<lambda>conditional s.
    and_then (safe_tokens W C safe conditional tokens ([], []) s) (\<lambda>(exchanges, txs) s.
      if none_matched s tokens then (Inl (empty_list_error s), s)
      else and_then (safe_operators C safe conditional (co_hash_order C exchanges) txs s, s) (\<lambda>txs s.
        if txs = [] then (Inr (), s)
        else and_then (or_error ''opinion multisend calldata failed'' (co_calldata C (MultiSend (encode_multisend_txs txs))), s)
          (\<lambda>data s. case safe_exec_transaction C safe multisend data 1 s of
             (Inl _, s) \<Rightarrow> (Inl ''opinion safe multisend exec failed'', s) | (Inr _, s) \<Rightarrow> (Inr (), s))))))))))"

definition enable_trading_onchain :: "('v, 'd) world \<Rightarrow> 'c chain_ops \<Rightarrow> 'c ApiClient \<Rightarrow> (string + unit) \<times> 'c ApiClient" where
  "enable_trading_onchain W C s = (if \<not> cl_force_eoa_orders s \<and> cl_multi_sig_address s \<noteq> None
     then enable_trading_onchain_safe W C s else enable_trading_onchain_eoa W C s)"

section \<open>Pausing and resuming\<close>

definition ENABLE_TRADING_CHECK_INTERVAL_SEC :: int where "ENABLE_TRADING_CHECK_INTERVAL_SEC = 3600"

definition enable_trading :: "('v, 'd) world \<Rightarrow> 'c chain_ops \<Rightarrow> 'c ApiClient \<Rightarrow> (string + unit) \<times> 'c ApiClient" where
  "enable_trading W C s =
    (let (now, s) = now_ts_ms W s in
     if (case cl_enable_trading_last_ms s of Some last_ms \<Rightarrow> now - last_ms < ENABLE_TRADING_CHECK_INTERVAL_SEC * 1000
         | None \<Rightarrow> False) then (Inr (), s)
     else enable_trading_onchain W C (s\<lparr>cl_enable_trading_last_ms := Some now\<rparr>))"

definition pause_trading :: "('v, 'd) world \<Rightarrow> string \<Rightarrow> 'c ApiClient \<Rightarrow> 'c ApiClient" where
  "pause_trading W reason s =
    (let (now, s) = now_ts_ms W s in s\<lparr>cl_trading_state := \<lparr>tr_enabled = False,
       tr_blocked_until_ms = now + max (cl_enable_retry_ms s) 0, tr_last_error = Some reason\<rparr>\<rparr>)"

definition resume_trading :: "'c ApiClient \<Rightarrow> 'c ApiClient" where
  "resume_trading s = s\<lparr>cl_trading_state := \<lparr>tr_enabled = True, tr_blocked_until_ms = 0, tr_last_error = None\<rparr>\<rparr>"

definition maybe_wait_for_trading_enable :: "('v, 'd) world \<Rightarrow> 'c chain_ops \<Rightarrow> 'c ApiClient \<Rightarrow> (string + unit) \<times> 'c ApiClient" where
  "maybe_wait_for_trading_enable W C s =
    (let (now, s) = now_ts_ms W s; st = cl_trading_state s in
     if tr_enabled st then (Inr (), s)
     else if now < tr_blocked_until_ms st then
       (Inl (''opinion trading paused until '' @ int_str (tr_blocked_until_ms st) @ '' reason=''
         @ unwrap_or (tr_last_error st) ''enable_required''), s)
     else if \<not> cl_check_approval s then (Inl ''opinion trading paused (enable required)'', s)
     else case enable_trading W C s of
       (Inr _, s) \<Rightarrow> (Inr (), resume_trading s)
     | (Inl err, s) \<Rightarrow> (Inl err, pause_trading W err s))"

end
