(* ===== verification/OpinionOrders.thy ===== *)
theory OpinionOrders
  imports OpinionChain
begin

text \<open>
  Orders on the venue's private API (\<open>src/trade/opinion_private.rs\<close>): placing a limit order with its
  retry after an approval, recovering the id of an order that the response does not name, cancelling,
  listing open orders and trades; and the targets and accounts that the client is built from. The
  parameter \<open>post_only\<close> of \<open>place_limit_order\<close> is not used by the code.
\<close>

section \<open>Errors of the amounts\<close>

text \<open>The texts of the errors; what a text shows at its end is \<open>v\<close>.\<close>

definition amount_error_text :: "OrderAmount \<Rightarrow> string \<Rightarrow> amount_error \<Rightarrow> string" where
  "amount_error_text amount v err = (case err of
     PriceNotFinite \<Rightarrow> ''price must be finite''
   | PriceOutOfRange \<Rightarrow> ''Price must be between 0.001 and 0.999 (inclusive), got '' @ v
   | PricePrecision \<Rightarrow> ''Price precision cannot exceed 6 decimal places: '' @ v
   | InvalidPrice \<Rightarrow> ''invalid price''
   | InvalidPriceNumber \<Rightarrow> ''invalid price '' @ v
   | PriceOverflow \<Rightarrow> ''price overflow''
   | InvalidDenominator \<Rightarrow> ''invalid price denominator''
   | InvalidDecimal \<Rightarrow> ''invalid decimal '' @ v
   | AmountBelowOne \<Rightarrow> (case amount of Base _ \<Rightarrow> ''makerAmountInBaseToken must be at least 1''
       | Quote _ \<Rightarrow> ''makerAmountInQuoteToken must be at least 1'')
   | ZeroPrice \<Rightarrow> ''Price cannot be zero for SELL orders with makerAmountInQuoteToken''
   | MakerNotPositive \<Rightarrow> ''Calculated makerAmount must be positive, got '' @ v
   | AmountNotPositive \<Rightarrow> ''Amount must be positive, got '' @ v
   | DecimalsTooLarge \<Rightarrow> ''Decimals must be between 0 and 18, got '' @ v
   | AmountZero \<Rightarrow> ''Calculated amount is zero'' @ v
   | AmountTooLarge \<Rightarrow> ''Amount too large for uint256 or invalid''
   | InvalidAmounts \<Rightarrow> ''invalid taker_amount and recalculated_maker_amount''
   | Diverges \<Rightarrow> '''')"

section \<open>Open orders\<close>

definition fetch_open_orders_page :: "('v, 'd) world \<Rightarrow> int \<Rightarrow> int \<Rightarrow> int \<Rightarrow> 'c ApiClient \<Rightarrow> (string + 'v list) \<times> 'c ApiClient" where
  "fetch_open_orders_page W market_id page limit s =
    and_then (request_json W GET ''/openapi/order'' None
      ([(''page'', int_str page), (''limit'', int_str limit), (''chainId'', nat_str (cl_chain_id s)), (''status'', ''1'')]
       @ (if 0 < market_id then [(''marketId'', int_str market_id)] else [])) s)
      (\<lambda>response s. (Inr (response_list (wo_json W) response), s))"

text \<open>The pages from \<open>page\<close> on, at most \<open>left\<close> of them.\<close>

fun open_id_pages :: "('v, 'd) world \<Rightarrow> int \<Rightarrow> int \<Rightarrow> nat \<Rightarrow> int \<Rightarrow> string set \<Rightarrow> 'c ApiClient \<Rightarrow>
    (string + string set \<times> bool) \<times> 'c ApiClient" where
  "open_id_pages W market_id limit 0 page ids s = (Inr (ids, True), s)"
| "open_id_pages W market_id limit (Suc left) page ids s =
    and_then (fetch_open_orders_page W market_id page limit s) (\<lambda>entries s.
      if entries = [] then (Inr (ids, True), s)
      else let ids = ids \<union> set (List.map_filter (extract_order_id (wo_json W)) entries) in
        if int (List.length entries) < limit then (Inr (ids, True), s)
        else if left = 0 then (Inr (ids, False), s)
        else open_id_pages W market_id limit left (page + 1) ids s)"

definition fetch_open_order_ids :: "('v, 'd) world \<Rightarrow> int \<Rightarrow> int \<Rightarrow> int \<Rightarrow> 'c ApiClient \<Rightarrow>
    (string + string set \<times> bool) \<times> 'c ApiClient" where
  "fetch_open_order_ids W market_id max_pages limit s =
    (if max_pages \<le> 0 \<or> limit \<le> 0 then (Inr ({}, True), s)
     else open_id_pages W market_id limit (nat max_pages) 1 {} s)"

section \<open>Recovering an order id\<close>

definition ORDER_ID_RECOVERY_MAX_ATTEMPTS :: nat where "ORDER_ID_RECOVERY_MAX_ATTEMPTS = 3"
definition ORDER_ID_RECOVERY_PAGE_LIMIT :: int where "ORDER_ID_RECOVERY_PAGE_LIMIT = 20"
definition ORDER_ID_RECOVERY_MAX_PAGES :: nat where "ORDER_ID_RECOVERY_MAX_PAGES = 3"
definition ORDER_ID_RECOVERY_LOOKBACK_MS :: int where "ORDER_ID_RECOVERY_LOOKBACK_MS = 2 * 60 * 1000"

text \<open>What is looked for: client id, market, side, price, and the time of the search.\<close>

record Wanted =
  wa_client_id :: string
  wa_market_id :: int
  wa_side :: int
  wa_price :: "f64 option"
  wa_now :: millis

text \<open>One entry: \<open>Inl\<close> the id of the order when the client id is the wanted one, otherwise at most one
  more candidate.\<close>

definition scan_entry :: "'v json_ops \<Rightarrow> Wanted \<Rightarrow> 'v \<Rightarrow> string + (string \<times> int) list" where
  "scan_entry J w entry = (case extract_client_order_id J entry of
     Some client_id \<Rightarrow> if client_id = wa_client_id w
       then (case extract_order_id J entry of Some order_id \<Rightarrow> Inl order_id | None \<Rightarrow> Inr []) else Inr []
   | None \<Rightarrow> (case extract_created_ms J entry of None \<Rightarrow> Inr []
     | Some ts \<Rightarrow>
       if i64_sat (wa_now w - ts) \<le> ORDER_ID_RECOVERY_LOOKBACK_MS
          \<and> order_matches_attributes J entry (wa_market_id w) (wa_side w) (wa_price w)
       then (case extract_order_id J entry of Some order_id \<Rightarrow> Inr [(order_id, ts)] | None \<Rightarrow> Inr [])
       else Inr []))"

fun scan_entries :: "'v json_ops \<Rightarrow> Wanted \<Rightarrow> 'v list \<Rightarrow> string + (string \<times> int) list" where
  "scan_entries J w [] = Inr []"
| "scan_entries J w (entry # entries) = (case scan_entry J w entry of Inl order_id \<Rightarrow> Inl order_id
   | Inr cs \<Rightarrow> (case scan_entries J w entries of Inl order_id \<Rightarrow> Inl order_id | Inr cs' \<Rightarrow> Inr (cs @ cs')))"

fun recovery_pages :: "('v, 'd) world \<Rightarrow> Wanted \<Rightarrow> nat \<Rightarrow> int \<Rightarrow> (string \<times> int) list \<Rightarrow> 'c ApiClient \<Rightarrow>
    (string + (string \<times> int) list) \<times> 'c ApiClient" where
  "recovery_pages W w 0 page found s = (Inr found, s)"
| "recovery_pages W w (Suc left) page found s =
    (case fetch_open_orders_page W (wa_market_id w) page ORDER_ID_RECOVERY_PAGE_LIMIT s of
       (Inl err, s) \<Rightarrow> (Inr found, s)
     | (Inr entries, s) \<Rightarrow>
       if entries = [] then (Inr found, s)
       else case scan_entries (wo_json W) w entries of Inl order_id \<Rightarrow> (Inl order_id, s)
       | Inr cs \<Rightarrow> if int (List.length entries) < ORDER_ID_RECOVERY_PAGE_LIMIT then (Inr (found @ cs), s)
           else recovery_pages W w left (page + 1) (found @ cs) s)"

fun recovery_attempts :: "('v, 'd) world \<Rightarrow> Wanted \<Rightarrow> nat \<Rightarrow> 'c ApiClient \<Rightarrow> string option \<times> 'c ApiClient" where
  "recovery_attempts W w 0 s = (None, s)"
| "recovery_attempts W w (Suc left) s = (case recovery_pages W w ORDER_ID_RECOVERY_MAX_PAGES 1 [] s of
     (Inl order_id, s) \<Rightarrow> (Some order_id, s)
   | (Inr [(order_id, ts)], s) \<Rightarrow> (Some order_id, s)
   | (Inr _, s) \<Rightarrow> recovery_attempts W w left s)"

definition recover_order_id_from_open_orders :: "('v, 'd) world \<Rightarrow> int \<Rightarrow> OrderSide \<Rightarrow> string \<Rightarrow> string option \<Rightarrow>
    'c ApiClient \<Rightarrow> string option \<times> 'c ApiClient" where
  "recover_order_id_from_open_orders W market_id side price_str client_order_id s =
    (case map_option trim_spaces client_order_id of None \<Rightarrow> (None, s)
     | Some client_id \<Rightarrow> if client_id = [] then (None, s)
       else let (now, s) = now_ts_ms W s
            in recovery_attempts W \<lparr>wa_client_id = client_id, wa_market_id = market_id, wa_side = as_int side,
                 wa_price = str_parse_f64 price_str, wa_now = now\<rparr> ORDER_ID_RECOVERY_MAX_ATTEMPTS s)"

section \<open>Placing an order\<close>

definition POLY_GNOSIS_SAFE_SIGNATURE_TYPE :: nat where "POLY_GNOSIS_SAFE_SIGNATURE_TYPE = 2"

definition generate_salt :: "millis \<Rightarrow> f64 \<Rightarrow> nat" where
  "generate_salt now rnd_value = (let salt = f64_round (f64_of_int now / lit 1000 * rnd_value)
     in if is_finite salt \<and> 0 < salt then nat (f64_to_int 0 (2 ^ 64 - 1) salt) else 1)"

text \<open>Everything before the request: the request's body and the text of the price.\<close>

definition prepare_order :: "('v, 'd) world \<Rightarrow> 'c chain_ops \<Rightarrow> int \<Rightarrow> string \<Rightarrow> OrderSide \<Rightarrow> f64 \<Rightarrow> OrderAmount \<Rightarrow> 'c ApiClient \<Rightarrow>
    (string + ApiBody \<times> string) \<times> 'c ApiClient" where
  "prepare_order W C market_id token_id side price amount s =
    and_then (maybe_wait_for_trading_enable W C s) (\<lambda>_ s.
    and_then (get_market_info W market_id s) (\<lambda>market s.
    if mk_chain_id market \<noteq> cl_chain_id s
    then (Inl (''opinion market chain mismatch market_chain_id='' @ nat_str (mk_chain_id market) @ '' account_chain_id=''
            @ nat_str (cl_chain_id s)), s)
    else and_then (get_quote_token_info W (mk_quote_token market) s) (\<lambda>quote_token s.
    and_then (or_error (''invalid ctfExchangeAddress '' @ qt_exchange quote_token) (parse_address W (qt_exchange quote_token)), s)
      (\<lambda>exchange s.
    and_then (or_error ''opinion multi_sig_address missing'' (cl_multi_sig_address s), s) (\<lambda>maker s.
    case limit_order_amounts (wo_decimal W) side price amount (qt_decimal quote_token) of
      Inl err \<Rightarrow> (Inl (amount_error_text amount (wo_shown W err price amount) err), s)
    | Inr (price_str, maker_amount, taker_amount) \<Rightarrow>
      and_then (or_error ''invalid token_id'' (u256_from_dec_str token_id), s) (\<lambda>token s.
      let (salt_ms, s) = now_ts_ms W s;
          order = \<lparr>op_salt = generate_salt salt_ms (wo_random W (List.length (cl_sent s))), op_maker = maker,
            op_signer = cl_signer_address s, op_taker = 0, op_token_id = token, op_maker_amount = maker_amount,
            op_taker_amount = taker_amount, op_expiration = 0, op_nonce = 0, op_fee_rate_bps = 0,
            op_side = as_int side, op_signature_type = POLY_GNOSIS_SAFE_SIGNATURE_TYPE\<rparr>
      in and_then (or_error ''opinion sign_typed_data failed'' (wo_sign W order (cl_chain_id s) exchange), s) (\<lambda>signature s.
         let (sent_ms, s) = now_ts_ms W s
         in (Inr (OrderBody order market_id (ensure_0x signature) (qt_address quote_token) price_str (sent_ms div 1000),
                  price_str), s))))))))"

definition post_once :: "('v, 'd) world \<Rightarrow> ApiBody \<Rightarrow> 'c ApiClient \<Rightarrow> (string + 'v \<times> string) \<times> 'c ApiClient" where
  "post_once W body s = request_json_with_base_raw W (cl_base_url s) POST ''/openapi/order'' (Some body) [] s"

text \<open>The request, sent again once when the venue asks for an approval and the approval succeeds.\<close>

definition post_order :: "('v, 'd) world \<Rightarrow> 'c chain_ops \<Rightarrow> ApiBody \<Rightarrow> 'c ApiClient \<Rightarrow> (string + 'v \<times> string) \<times> 'c ApiClient" where
  "post_order W C body s = (case post_once W body s of
     (Inr response, s) \<Rightarrow> (Inr response, s)
   | (Inl err, s) \<Rightarrow>
     if \<not> is_errno err 10014 then (Inl err, s)
     else let s = pause_trading W err s in
       if \<not> cl_check_approval s then (Inl err, s)
       else case enable_trading W C s of
         (Inl _, s) \<Rightarrow> (Inl err, s)
       | (Inr _, s) \<Rightarrow> (case post_once W body (resume_trading s) of
           (Inr response, s) \<Rightarrow> (Inr response, s)
         | (Inl err2, s) \<Rightarrow> (Inl err2, if is_errno err2 10014 then pause_trading W err2 s else s)))"

definition place_limit_order :: "('v, 'd) world \<Rightarrow> 'c chain_ops \<Rightarrow> int \<Rightarrow> string \<Rightarrow> OrderSide \<Rightarrow> f64 \<Rightarrow> OrderAmount \<Rightarrow>
    string option \<Rightarrow> bool \<Rightarrow> 'c ApiClient \<Rightarrow> (string + PlacedOrder) \<times> 'c ApiClient" where
  "place_limit_order W C market_id token_id side price amount client_order_id post_only s =
    and_then (prepare_order W C market_id token_id side price amount s) (\<lambda>(body, price_str) s.
    and_then (post_order W C body s) (\<lambda>(response, raw) s.
      let order_id = unwrap_or (extract_order_id (wo_json W) response) []
      in if order_id = [] then
           (case recover_order_id_from_open_orders W market_id side price_str client_order_id s of
              (Some recovered_id, s) \<Rightarrow> (Inr \<lparr>po_order_id = recovered_id, po_client_order_id = client_order_id\<rparr>, resume_trading s)
            | (None, s) \<Rightarrow> (Inl ''opinion order_id missing'', s))
         else (Inr \<lparr>po_order_id = order_id, po_client_order_id = client_order_id\<rparr>, resume_trading s)))"

section \<open>Cancelling, trades\<close>

definition cancel_venue_order :: "('v, 'd) world \<Rightarrow> string \<Rightarrow> 'c ApiClient \<Rightarrow> (string + unit) \<times> 'c ApiClient" where
  "cancel_venue_order W raw_id s = (let order_id = trim_spaces raw_id in
     if order_id = [] then (Inl ''opinion cancel order_id empty'', s)
     else case request_json W POST ''/openapi/order/cancel'' (Some (CancelBody order_id)) [] s of
       (Inr _, s) \<Rightarrow> (Inr (), s)
     | (Inl err, s) \<Rightarrow> (if is_errno err 10207 then Inr () else Inl err, s))"

definition trade_fill_of :: "'v json_ops \<Rightarrow> 'v \<Rightarrow> TradeFill" where
  "trade_fill_of J entry = \<lparr>tf_order_id = extract_string J entry [''orderId'', ''order_id'', ''id''],
     tf_client_order_id = extract_string J entry [''clientOrderId'', ''client_order_id''],
     tf_side = extract_string J entry [''side'', ''orderSide''],
     tf_price = extract_f64_from_value J entry [''price'', ''orderPrice'', ''matchedPrice''],
     tf_size = extract_f64_from_value J entry [''size'', ''makerAmount'', ''filledSize'', ''matchedAmount'', ''fillSize''],
     tf_ts_ms = extract_ts_ms J entry\<rparr>"

definition too_old :: "int option \<Rightarrow> int option \<Rightarrow> bool" where
  "too_old since_ms ts_ms \<longleftrightarrow> (case (since_ms, ts_ms) of (Some since, Some ts) \<Rightarrow> ts < since | _ \<Rightarrow> False)"

definition fetch_trades :: "('v, 'd) world \<Rightarrow> int \<Rightarrow> string \<Rightarrow> int option \<Rightarrow> 'c ApiClient \<Rightarrow> (string + TradeFill list) \<times> 'c ApiClient" where
  "fetch_trades W market_id token_id since_ms s =
    (case request_json W GET ''/openapi/trade'' None [(''page'', ''1''), (''limit'', ''50''),
        (''chainId'', nat_str (cl_chain_id s)), (''marketId'', int_str market_id)] s of
       (Inl err, s) \<Rightarrow> (if is_errno err 10207 then Inr [] else Inl err, s)
     | (Inr response, s) \<Rightarrow> (Inr (map (trade_fill_of (wo_json W))
         (filter (\<lambda>entry. \<not> too_old since_ms (extract_ts_ms (wo_json W) entry)) (response_list (wo_json W) response))), s))"

section \<open>Targets and accounts\<close>

definition add_order_target :: "PairRecord \<Rightarrow> (trade_key \<rightharpoonup> OpinionOrderTarget) \<Rightarrow> (trade_key \<rightharpoonup> OpinionOrderTarget)" where
  "add_order_target pair m = (case Option.bind (pr_opinion_market_id pair) parse_i64 of None \<Rightarrow> m
   | Some market_id \<Rightarrow>
     let m = (case pr_opinion_yes_token_id pair of None \<Rightarrow> m
           | Some token_id \<Rightarrow> m((pr_pair_id pair, Yes) \<mapsto> \<lparr>ot_market_id = market_id, ot_token_id = token_id\<rparr>))
     in (case pr_opinion_no_token_id pair of None \<Rightarrow> m
         | Some token_id \<Rightarrow> m((pr_pair_id pair, No) \<mapsto> \<lparr>ot_market_id = market_id, ot_token_id = token_id\<rparr>)))"

definition build_opinion_order_map :: "PairRecord list \<Rightarrow> (trade_key \<rightharpoonup> OpinionOrderTarget)" where
  "build_opinion_order_map pairs = fold add_order_target pairs Map.empty"

record AccountEntry =
  ae_account_id :: "string option"
  ae_exchange :: "string option"
  ae_api_key :: "string option"
  ae_private_key :: "string option"
  ae_multi_sig_address :: "string option"
  ae_multisend_address :: "string option"
  ae_rpc_url :: "string option"
  ae_conditional_tokens_address :: "string option"
  ae_chain_id :: "nat option"

record OpinionAccount =
  oa_api_key :: string
  oa_private_key :: string
  oa_multi_sig_address :: "string option"
  oa_multisend_address :: "string option"
  oa_rpc_url :: "string option"
  oa_conditional_tokens_address :: "string option"
  oa_chain_id :: nat

definition usable_account :: "AccountEntry \<Rightarrow> OpinionAccount option" where
  "usable_account a = (if (case ae_exchange a of Some x \<Rightarrow> ascii_lower x \<noteq> ''opinion'' | None \<Rightarrow> False) then None
     else case (non_empty (ae_api_key a), non_empty (ae_private_key a)) of
       (Some api_key, Some private_key) \<Rightarrow> Some \<lparr>oa_api_key = api_key, oa_private_key = private_key,
         oa_multi_sig_address = non_empty (ae_multi_sig_address a),
         oa_multisend_address = non_empty (ae_multisend_address a), oa_rpc_url = non_empty (ae_rpc_url a),
         oa_conditional_tokens_address = non_empty (ae_conditional_tokens_address a),
         oa_chain_id = unwrap_or (ae_chain_id a) 56\<rparr>
     | _ \<Rightarrow> None)"

text \<open>The loop of \<open>load_opinion_account\<close> over the accounts of the file, with the fallback so far.\<close>

fun pick_account :: "string \<Rightarrow> AccountEntry list \<Rightarrow> OpinionAccount option \<Rightarrow> OpinionAccount option" where
  "pick_account account_id [] fallback = fallback"
| "pick_account account_id (a # accounts) fallback = (case usable_account a of
     None \<Rightarrow> pick_account account_id accounts fallback
   | Some candidate \<Rightarrow>
     if ae_account_id a = Some account_id \<or> account_id = [] then Some candidate
     else pick_account account_id accounts (Some candidate))"

definition load_opinion_account :: "string \<Rightarrow> AccountEntry list \<Rightarrow> string + OpinionAccount" where
  "load_opinion_account account_id accounts =
     or_error (''opinion account not found for '' @ account_id) (pick_account account_id accounts None)"

end
