(* ===== verification/OpinionDemo.thy ===== *)
theory OpinionDemo
  imports OpinionOrders AmountsProps
begin

text \<open>
  A concrete venue, chain and client for the private API, on which the properties of the client are
  applied: JSON values as a datatype, exact decimals, a venue that answers by path.
\<close>
section \<open>A concrete venue\<close>

text \<open>An order at one half for two units of the quote token, with exact decimals.\<close>

lemma digit_chars: "digit_char 0 = CHR ''0''" "digit_char 2 = CHR ''2''"
  by code_simp+
lemma pad_zero: "pad_digits k 0 = replicate k CHR ''0''"
  by (induction k) (simp_all add: digit_chars replicate_append_same)
lemma strip_replicate: "strip_zeros (replicate k CHR ''0'') = []"
  by (induction k) simp_all
lemma two_text: "decimal_text (Fin 2) = ''2''"
proof -
  have "rne (2000000000000000000 :: rat) = 2000000000000000000"
    using rne_of_int[of 2000000000000000000] by simp
  then have f: "format_fixed 18 (Fin 2) = CHR ''2'' # CHR ''.'' # replicate 18 CHR ''0''"
    by (simp add: pad_zero nat_str.simps[of 2] digit_chars)
  show ?thesis unfolding decimal_text_def f by (simp add: Let_def strip_replicate)
qed
lemma two_fixed: "parse_fixed ''2'' = Some (2, 0)"
  by (simp add: parse_fixed_def is_digit_def digits_val_def digit_val_def)

lemma half_amounts: "\<exists>m t. limit_order_amounts rat_decimal Buy (Fin (1 / 2)) (Quote (Fin 2)) 18 = Inr (price_text 500000, m, t)"
proof -
  obtain d where d: "parse_fixed (price_text 500000) = Some d"
    using parse_price_text[of 500000] by (auto simp: parse_f64_def price_text_def split: if_splits)
  have two: "at_least_one rat_decimal (Fin 2) = Inr (2, 0)"
    by (simp add: at_least_one_def decimal_from_f64_def two_text two_fixed rat_decimal_def is_finite_def)
  have maker: "compute_maker_amount rat_decimal Buy (Quote (Fin 2)) (price_text 500000) = Inr (2, 0)"
    using d two by (simp add: compute_maker_amount_def rat_decimal_def dec_positive_def)
  have t: "rnd_zero (2 * 10 ^ 18 :: rat) = 2 * 10 ^ 18" by (simp add: rnd_zero_def)
  have "split_dot (nat_str (2 * 10 ^ 18)) = [nat_str (2 * 10 ^ 18)]" by (rule split_dot_digits) (simp add: digits_nat_str)
  moreover have "u256_from_dec_str (nat_str (2 * 10 ^ 18)) = Some (2 * 10 ^ 18)"
    by (rule u256_dec_str_nat_str) (simp add: u256_max_def)
  ultimately have wei: "safe_amount_to_wei rat_decimal (2, 0) 18 = Inr (2 * 10 ^ 18)"
    using t by (simp add: safe_amount_to_wei_def rat_decimal_def dec_positive_def MAX_DECIMALS_def)
  obtain m t where "calculate_order_amounts rat_decimal (price_text 500000) (2 * 10 ^ 18) Buy = Inr (m, t)"
    using amounts_of_price[OF rat_decimal_ok, of 500000 "2 * 10 ^ 18" Buy] by simp
  then show ?thesis by (simp add: limit_order_amounts_def validate_half maker wei)
qed

text \<open>JSON values, and a venue that answers by path. Its answer to an order is an argument; the one
  open order of market 5 is on token 2.\<close>

datatype json = JInt int | JText string | JList "json list" | JObject "(string \<times> json) list"

definition demo_json :: "(string \<Rightarrow> json option) \<Rightarrow> json json_ops" where
  "demo_json p = \<lparr>jo_parse = p,
     jo_get = (\<lambda>v k. case v of JObject kvs \<Rightarrow> map_of kvs k | _ \<Rightarrow> None),
     jo_str = (\<lambda>v. case v of JText t \<Rightarrow> Some t | _ \<Rightarrow> None),
     jo_i64 = (\<lambda>v. case v of JInt n \<Rightarrow> Some n | _ \<Rightarrow> None),
     jo_u64 = (\<lambda>v. case v of JInt n \<Rightarrow> if 0 \<le> n then Some (nat n) else None | _ \<Rightarrow> None),
     jo_f64 = (\<lambda>v. case v of JInt n \<Rightarrow> Some (f64_of_int n) | _ \<Rightarrow> None),
     jo_array = (\<lambda>v. case v of JList vs \<Rightarrow> Some vs | _ \<Rightarrow> None)\<rparr>"

definition demo_open :: json where
  "demo_open = JObject [(''orderId'', JText ''77''), (''createdAt'', JInt 2000000000000), (''tokenId'', JText ''2''),
     (''marketId'', JInt 5), (''side'', JInt 0)]"

definition demo_parse :: "string \<Rightarrow> json option" where
  "demo_parse text = (if text = ''quotes'' then Some (JObject [(''list'', JList [JObject
       [(''quoteTokenAddress'', JText ''a''), (''ctfExchangeAddress'', JText ''b''), (''decimal'', JText ''18'')]])])
     else if text = ''market'' then Some (JObject [(''quoteToken'', JText ''A'')])
     else if text = ''open'' then Some (JObject [(''list'', JList [demo_open])])
     else if text = ''placed'' then Some (JObject [(''orderId'', JText ''8'')])
     else if text = ''refused'' then Some (JObject [(''errno'', JInt 10014)])
     else Some (JObject []))"

definition demo_reply :: "string \<Rightarrow> nat \<Rightarrow> ApiRequest \<Rightarrow> Reply" where
  "demo_reply answer n r = Replied 200 (if hq_method r = POST then answer
     else if hq_path r = ''/openapi/quoteToken'' then ''quotes''
     else if hq_path r = ''/openapi/order'' then ''open'' else ''market'')"

definition demo_world :: "string \<Rightarrow> (nat \<Rightarrow> millis) \<Rightarrow> (json, rat \<times> nat) world" where
  "demo_world answer clock = \<lparr>wo_json = demo_json demo_parse, wo_decimal = rat_decimal, wo_url = (\<lambda>u _. Some u),
     wo_status_text = nat_str, wo_reply = demo_reply answer, wo_clock = clock, wo_random = (\<lambda>_. 0),
     wo_address = (\<lambda>_. Some 1), wo_sign = (\<lambda>_ _ _. Some ''0x1''), wo_shown = (\<lambda>_ _ _. [])\<rparr>"

definition demo_chain :: "unit chain_ops" where
  "demo_chain = \<lparr>co_provider = (\<lambda>_. True), co_balance = (\<lambda>_ _. Some 1), co_base_fee = (\<lambda>_. Some None),
     co_gas_price = (\<lambda>_. Some 0), co_decimals = (\<lambda>_ _. Some 18), co_allowance = (\<lambda>_ _ _ _. Some 0),
     co_approved = (\<lambda>_ _ _ _. Some False), co_calldata = (\<lambda>_. None), co_safe_nonce = (\<lambda>_ _. None),
     co_safe_hash = (\<lambda>_ _ _ _ _ _. None), co_sign_hash = (\<lambda>_. None),
     co_send = (\<lambda>c _. (TxDone (Some False), c)), co_hash_order = (\<lambda>xs. xs)\<rparr>"

definition demo_client :: "string option \<Rightarrow> bool \<Rightarrow> unit ApiClient" where
  "demo_client rpc approve = client_new ''http://v/'' 7 (Some 9) None 56 rpc None approve 60000 True ()"
lemma demo_world_simps [simp]:
  "wo_json (demo_world a c) = demo_json demo_parse" "wo_decimal (demo_world a c) = rat_decimal"
  "wo_url (demo_world a c) u ps = Some u" "wo_reply (demo_world a c) = demo_reply a" "wo_clock (demo_world a c) = c"
  "wo_address (demo_world a c) x = Some 1" "wo_sign (demo_world a c) p n e = Some ''0x1''"
  by (simp_all add: demo_world_def)

lemma demo_client_simps [simp]:
  "cl_trading_state (demo_client rpc ap) = \<lparr>tr_enabled = True, tr_blocked_until_ms = 0, tr_last_error = None\<rparr>"
  "cl_markets (demo_client rpc ap) = Map.empty" "cl_quote_tokens (demo_client rpc ap) = \<lparr>qc_fetched_ms = 0, qc_tokens = []\<rparr>"
  "cl_chain_id (demo_client rpc ap) = 56" "cl_multi_sig_address (demo_client rpc ap) = Some 9"
  "cl_check_approval (demo_client rpc ap) = ap" "cl_enable_trading_last_ms (demo_client rpc ap) = None"
  "cl_clock_reads (demo_client rpc ap) = 0" "cl_force_eoa_orders (demo_client rpc ap) = True"
  "cl_rpc_url (demo_client rpc ap) = rpc" "cl_enable_retry_ms (demo_client rpc ap) = 60000"
  "cl_sent (demo_client rpc ap) = []" "cl_signer_address (demo_client rpc ap) = 7"
  by (simp_all add: demo_client_def client_new_def)

lemma demo_get [simp]:
  "jo_get (demo_json p) (JObject kvs) k = map_of kvs k" "jo_str (demo_json p) (JText t) = Some t"
  "jo_str (demo_json p) (JInt n) = None" "jo_i64 (demo_json p) (JInt n) = Some n" "jo_i64 (demo_json p) (JText t) = None"
  "jo_array (demo_json p) (JList vs) = Some vs" "jo_parse (demo_json p) = p"
  by (simp_all add: demo_json_def)

lemmas json_defs = parse_result_def field_def extract_string_def or_else_def unwrap_or_def

lemma demo_request:
  assumes "\<And>n r. hq_method r = GET \<Longrightarrow> hq_path r = path \<Longrightarrow> demo_reply a n r = Replied 200 text"
    and "demo_parse text = Some v" "parse_result (demo_json demo_parse) v = Inr w"
  shows "\<exists>r. request_json (demo_world a c) GET path None ps s = (Inr w, s\<lparr>cl_sent := cl_sent s @ [r]\<rparr>)"
  by (intro exI[of _ "\<lparr>hq_base = cl_base_url s, hq_method = GET, hq_path = path, hq_params = ps, hq_body = None\<rparr>"])
    (simp add: request_json_def request_json_with_base_def request_json_with_base_raw_def read_reply_def assms
      and_then_def Let_def)

lemma demo_market:
  assumes "cl_markets s = Map.empty" "cl_chain_id s = 56"
  shows "\<exists>mk r n. get_market_info (demo_world a c) 5 s = (Inr mk, s\<lparr>cl_clock_reads := cl_clock_reads s + 1,
      cl_sent := cl_sent s @ [r], cl_markets := n\<rparr>) \<and> mk_chain_id mk = 56 \<and> mk_quote_token mk = ''A''"
proof -
  let ?v = "JObject [(''quoteToken'', JText ''A'')]" and ?s = "s\<lparr>cl_clock_reads := cl_clock_reads s + 1\<rparr>"
  have p: "market_path 5 = ''/openapi/market/5''" by code_simp
  have "parse_result (demo_json demo_parse) ?v = Inr ?v" by (simp add: json_defs)
  moreover have "demo_parse ''market'' = Some ?v" by (simp add: demo_parse_def)
  moreover have "demo_reply a n r = Replied 200 ''market''" if "hq_method r = GET" "hq_path r = market_path 5" for n r
    using that by (simp add: demo_reply_def p)
  ultimately obtain r where r: "request_json (demo_world a c) GET (market_path 5) None [] ?s = (Inr ?v, ?s\<lparr>cl_sent := cl_sent ?s @ [r]\<rparr>)"
    using demo_request[of "market_path 5" a "''market''" ?v ?v c "[]" ?s] by blast
  show ?thesis using assms r
    by (simp add: get_market_info_def now_ts_ms_def market_cached_def and_then_def parse_market_def json_defs store_market_def)
      blast
qed

lemma demo_token:
  assumes "cl_quote_tokens s = \<lparr>qc_fetched_ms = 0, qc_tokens = []\<rparr>" "cl_chain_id s = 56"
  shows "\<exists>r q. get_quote_tokens (demo_world a c) s = (Inr [\<lparr>qt_address = ''a'', qt_exchange = ''b'', qt_decimal = 18, qt_chain_id = 56\<rparr>],
      s\<lparr>cl_clock_reads := cl_clock_reads s + 1, cl_sent := cl_sent s @ [r], cl_quote_tokens := q\<rparr>)"
proof -
  let ?e = "JObject [(''quoteTokenAddress'', JText ''a''), (''ctfExchangeAddress'', JText ''b''), (''decimal'', JText ''18'')]"
  let ?v = "JObject [(''list'', JList [?e])]" and ?s = "s\<lparr>cl_clock_reads := cl_clock_reads s + 1\<rparr>"
  have d: "parse_u32 ''18'' = Some 18"
    by (simp add: parse_u32_def parse_u64_def is_digit_def digits_val_def digit_val_def)
  have "parse_result (demo_json demo_parse) ?v = Inr ?v" by (simp add: json_defs)
  moreover have "demo_parse ''quotes'' = Some ?v" by (simp add: demo_parse_def)
  moreover have "demo_reply a n r = Replied 200 ''quotes''" if "hq_method r = GET" "hq_path r = ''/openapi/quoteToken''" for n r
    using that by (simp add: demo_reply_def)
  ultimately obtain r where r: "request_json (demo_world a c) GET ''/openapi/quoteToken'' None [] ?s = (Inr ?v, ?s\<lparr>cl_sent := cl_sent ?s @ [r]\<rparr>)"
    using demo_request[of "''/openapi/quoteToken''" a "''quotes''" ?v ?v c "[]" ?s] by blast
  have "quote_tokens_of (demo_json demo_parse) 56 ?v = [\<lparr>qt_address = ''a'', qt_exchange = ''b'', qt_decimal = 18, qt_chain_id = 56\<rparr>]"
    by (simp add: quote_tokens_of_def response_list_def parse_quote_token_def json_defs List.map_filter_simps d)
  then show ?thesis using assms r
    by (simp add: get_quote_tokens_def now_ts_ms_def and_then_def Let_def) blast
qed

text \<open>At time 2000000000000 everything is prepared and the answer to the order has no id.\<close>

lemma demo_prepared:
  "\<exists>order sig cur secs s1. prepare_order (demo_world a (\<lambda>_. 2000000000000)) C 5 ''1'' Buy (Fin (1 / 2)) (Quote (Fin 2))
      (demo_client rpc ap) = (Inr (OrderBody order 5 sig cur (price_text 500000) secs, price_text 500000), s1)"
proof -
  let ?W = "demo_world a (\<lambda>_. 2000000000000)"
  obtain m t where am: "limit_order_amounts rat_decimal Buy (Fin (1 / 2)) (Quote (Fin 2)) 18 = Inr (price_text 500000, m, t)"
    using half_amounts by blast
  have tok: "u256_from_dec_str ''1'' = Some 1" by (simp add: u256_from_dec_str_def is_digit_def digits_val_def digit_val_def u256_max_def)
  define s1 where "s1 = (demo_client rpc ap)\<lparr>cl_clock_reads := 1\<rparr>"
  have w: "maybe_wait_for_trading_enable ?W C (demo_client rpc ap) = (Inr (), s1)"
    by (simp add: maybe_wait_for_trading_enable_def now_ts_ms_def s1_def)
  obtain mk r n where mk: "get_market_info ?W 5 s1 = (Inr mk, s1\<lparr>cl_clock_reads := cl_clock_reads s1 + 1,
      cl_sent := cl_sent s1 @ [r], cl_markets := n\<rparr>)" "mk_chain_id mk = 56" "mk_quote_token mk = ''A''"
    using demo_market[of s1 a "\<lambda>_. 2000000000000"] by (auto simp: s1_def)
  define s2 where "s2 = s1\<lparr>cl_clock_reads := cl_clock_reads s1 + 1, cl_sent := cl_sent s1 @ [r], cl_markets := n\<rparr>"
  have mk2: "get_market_info ?W 5 s1 = (Inr mk, s2)" unfolding s2_def by (rule mk(1))
  have s2: "cl_quote_tokens s2 = \<lparr>qc_fetched_ms = 0, qc_tokens = []\<rparr>" "cl_chain_id s2 = 56" "cl_multi_sig_address s2 = Some 9"
    by (simp_all add: s2_def s1_def)
  obtain r' q where q: "get_quote_tokens ?W s2 = (Inr [\<lparr>qt_address = ''a'', qt_exchange = ''b'', qt_decimal = 18, qt_chain_id = 56\<rparr>],
      s2\<lparr>cl_clock_reads := cl_clock_reads s2 + 1, cl_sent := cl_sent s2 @ [r'], cl_quote_tokens := q\<rparr>)"
    using demo_token[OF s2(1,2), of a "\<lambda>_. 2000000000000"] by blast
  have low: "ascii_lower ''a'' = ascii_lower ''A''" by code_simp
  show ?thesis using mk(2,3) s2
    by (simp add: prepare_order_def w mk2 and_then_def get_quote_token_info_def q low parse_address_def am tok
        or_error_def now_ts_ms_def Let_def)
qed

text \<open>The venue's answer to an order.\<close>

lemma demo_post:
  assumes "demo_parse answer = Some v"
  shows "\<exists>r. post_once (demo_world answer c) body s = (map_sum id (\<lambda>w. (w, answer)) (parse_result (demo_json demo_parse) v),
     s\<lparr>cl_sent := cl_sent s @ [r]\<rparr>)"
proof -
  let ?r = "\<lparr>hq_base = cl_base_url s, hq_method = POST, hq_path = ''/openapi/order'', hq_params = [], hq_body = Some body\<rparr>"
  have "demo_reply answer n ?r = Replied 200 answer" for n by (simp add: demo_reply_def)
  then show ?thesis
    by (intro exI[of _ ?r]) (simp add: post_once_def request_json_with_base_raw_def read_reply_def assms Let_def split: sum.split)
qed

lemma demo_errno: "is_errno ''opinion api error errno=10014 errmsg=opinion error'' 10014"
  by (simp add: is_errno_def is_digit_def parse_i64_def strip_sign_def digits_val_def digit_val_def in_i64_def Let_def)

lemma demo_refusal:
  "parse_result (demo_json demo_parse) (JObject [(''errno'', JInt 10014)])
    = Inl ''opinion api error errno=10014 errmsg=opinion error''"
proof -
  have "int_str 10014 = ''10014''"
    by (simp add: int_str_def nat_str.simps digit_char_def) code_simp
  then show ?thesis by (simp add: json_defs)
qed

end
