(* ===== verification/OpinionProps.thy ===== *)
theory OpinionProps
  imports OpinionDemo TradeDemo
begin

text \<open>
  What the client of the private API guarantees, over single calls and over sequences of calls: orders
  and pauses, approvals, the recovery of order ids, the listing of open orders and the encoding of
  batched transactions.
\<close>

section \<open>Orders sent\<close>

definition is_order :: "ApiRequest \<Rightarrow> bool" where
  "is_order r = (case hq_body r of Some (OrderBody _ _ _ _ _ _) \<Rightarrow> True | _ \<Rightarrow> False)"

definition orders_sent :: "'c ApiClient \<Rightarrow> ApiRequest list" where
  "orders_sent s = filter is_order (cl_sent s)"

text \<open>\<open>s'\<close> comes from \<open>s\<close> without an order and without a change of the permission to trade;
  \<open>quiet\<close> also without a new approval.\<close>

definition calm :: "'c ApiClient \<Rightarrow> 'c ApiClient \<Rightarrow> bool" where
  "calm s s' \<longleftrightarrow> cl_trading_state s' = cl_trading_state s \<and> orders_sent s' = orders_sent s
     \<and> cl_check_approval s' = cl_check_approval s \<and> cl_enable_retry_ms s' = cl_enable_retry_ms s
     \<and> cl_multi_sig_address s' = cl_multi_sig_address s \<and> cl_base_url s' = cl_base_url s
     \<and> cl_clock_reads s \<le> cl_clock_reads s'"

definition quiet :: "'c ApiClient \<Rightarrow> 'c ApiClient \<Rightarrow> bool" where
  "quiet s s' \<longleftrightarrow> calm s s' \<and> cl_enable_trading_last_ms s' = cl_enable_trading_last_ms s"

named_theorems quiet

lemma quiet_same [simp, quiet]: "quiet s s"
  by (simp add: quiet_def calm_def)

lemma quiet_step: "quiet s s' \<Longrightarrow> quiet s' s'' \<Longrightarrow> quiet s s''"
  by (simp add: quiet_def calm_def)

lemma quiet_calm: "quiet s s' \<Longrightarrow> calm s s'"
  by (simp add: quiet_def)

lemma calm_step: "calm s s' \<Longrightarrow> calm s' s'' \<Longrightarrow> calm s s''"
  by (simp add: calm_def)

lemma quiet_and_then:
  assumes "quiet s (snd r)" "\<And>x s'. quiet s' (snd (f x s'))"
  shows "quiet s (snd (and_then r f))"
  using assms quiet_step by (fastforce simp: and_then_def split: prod.split sum.split)

lemma quiet_clock [quiet]: "now_ts_ms W s = (n, s') \<Longrightarrow> quiet s s'"
  by (auto simp: now_ts_ms_def quiet_def calm_def orders_sent_def)

lemma quiet_request_raw:
  assumes "\<forall>o1 a b c d x. body \<noteq> Some (OrderBody o1 a b c d x)"
  shows "quiet s (snd (request_json_with_base_raw W base m path body params s))"
  using assms by (auto simp: request_json_with_base_raw_def quiet_def calm_def orders_sent_def is_order_def Let_def
      split: option.split ApiBody.split)

lemma quiet_request_base:
  assumes "\<forall>o1 a b c d x. body \<noteq> Some (OrderBody o1 a b c d x)"
  shows "quiet s (snd (request_json_with_base W base m path body params s))"
  unfolding request_json_with_base_def
  by (rule quiet_and_then[OF quiet_request_raw[OF assms]]) (auto split: prod.split)

lemma quiet_request:
  assumes "\<forall>o1 a b c d x. body \<noteq> Some (OrderBody o1 a b c d x)"
  shows "quiet s (snd (request_json W m path body params s))"
  unfolding request_json_def by (rule quiet_request_base[OF assms])

lemma quiet_store_market: "quiet s (store_market a b c s)"
  by (simp add: store_market_def quiet_def calm_def orders_sent_def)

lemma quiet_market: "quiet s (snd (get_market_info W market_id s))"
proof -
  obtain now s1 where n: "now_ts_ms W s = (now, s1)" by fastforce
  have "quiet s1 (snd (and_then (request_json W GET (market_path market_id) None [] s1) (\<lambda>value s.
         case parse_market (wo_json W) (cl_chain_id s) value of
           None \<Rightarrow> (Inl (''opinion market missing quoteToken market_id='' @ int_str market_id), s)
         | Some market \<Rightarrow> (Inr market, store_market market_id now market s))))"
    by (rule quiet_and_then[OF quiet_request]) (auto split: option.split simp: quiet_store_market)
  with quiet_clock[OF n] show ?thesis
    by (auto simp: get_market_info_def n split: option.split intro: quiet_step)
qed

lemma quiet_cache: "quiet s (s\<lparr>cl_quote_tokens := q\<rparr>)" "quiet s (s\<lparr>cl_chain := c\<rparr>)"
  "quiet s (s\<lparr>cl_token_decimals := d\<rparr>)" "calm s (s\<lparr>cl_enable_trading_last_ms := e\<rparr>)"
  by (simp_all add: quiet_def calm_def orders_sent_def)

lemma quiet_tokens: "quiet s (snd (get_quote_tokens W s))"
proof -
  obtain now s1 where n: "now_ts_ms W s = (now, s1)" by fastforce
  have "quiet s1 (snd (and_then (request_json W GET ''/openapi/quoteToken'' None [] s1) (\<lambda>value s.
       let tokens = quote_tokens_of (wo_json W) (cl_chain_id s) value in
       if tokens = [] then (Inl ''opinion quoteToken list empty'', s)
       else (Inr tokens, s\<lparr>cl_quote_tokens := \<lparr>qc_fetched_ms = now, qc_tokens = tokens\<rparr>\<rparr>))))"
    by (rule quiet_and_then[OF quiet_request]) (auto simp: Let_def quiet_cache)
  with quiet_clock[OF n] show ?thesis
    by (auto simp: get_quote_tokens_def n Let_def intro: quiet_step)
qed

lemma quiet_token_info: "quiet s (snd (get_quote_token_info W a s))"
  unfolding get_quote_token_info_def by (rule quiet_and_then[OF quiet_tokens]) simp

lemma quiet_prefetch_tokens: "quiet s (snd (prefetch_quote_tokens W base s))"
  unfolding prefetch_quote_tokens_def
  by (rule quiet_and_then[OF quiet_request_base])
    (auto simp: Let_def quiet_cache split: prod.split intro: quiet_step[OF quiet_clock])

lemma quiet_prefetch_market: "quiet s (snd (prefetch_market W base now market_id s))"
  using quiet_request_base[of None s W base GET "market_path market_id" "[]"]
  by (auto simp: prefetch_market_def split: prod.split sum.split option.split
      intro: quiet_step quiet_step[OF quiet_clock quiet_store_market] dest: quiet_clock)

lemma quiet_prefetch_loop: "quiet s (snd (prefetch_loop W base now ids counts s))"
proof (induction W base now ids counts s rule: prefetch_loop.induct)
  case (2 W base now market_id ids ok failed s)
  then show ?case using quiet_prefetch_market[of s W base now market_id]
    by (auto split: prod.split intro: quiet_step)
qed simp

lemma quiet_prefetch: "quiet s (snd (prefetch_markets W base ids s))"
proof -
  obtain now s1 where n: "now_ts_ms W s = (now, s1)" by fastforce
  let ?p = "prefetch_quote_tokens W (trim_spaces base) s1"
  let ?l = "prefetch_loop W (trim_spaces base) now (remdups_adj (sort ids)) (0, 0) (snd ?p)"
  have "quiet s (snd ?l)"
    by (rule quiet_step[OF quiet_clock[OF n] quiet_step[OF quiet_prefetch_tokens quiet_prefetch_loop]])
  then show ?thesis by (auto simp: prefetch_markets_def n Let_def split: prod.split)
qed

lemma quiet_send: "quiet s (snd (send_tx C tx a b s))"
  by (auto simp: send_tx_def quiet_cache Let_def split: prod.split TxOutcome.split)

lemma quiet_decimals: "quiet s (snd (get_token_decimals C t s))"
  by (auto simp: get_token_decimals_def Let_def quiet_cache split: option.split)

lemma quiet_allowance: "quiet s (snd (ensure_allowance C tag t sp n s))"
  unfolding ensure_allowance_def
  by (auto split: option.split intro!: quiet_and_then quiet_send)

lemma quiet_eoa_tokens: "quiet s (snd (eoa_tokens W C conditional tokens exchanges s))"
proof (induction W C conditional tokens exchanges s rule: eoa_tokens.induct)
  case (2 W C conditional token tokens exchanges s)
  show ?case
  proof (cases "qt_chain_id token \<noteq> cl_chain_id s")
    case False
    show ?thesis
    proof (cases "token_addresses W token")
      case (Inr p)
      obtain quote exch where p: "p = (quote, exch)" by fastforce
      obtain dec s1 where d: "get_token_decimals C quote s = (dec, s1)" by fastforce
      have "quiet s s1" using quiet_decimals[of s C quote] d by simp
      moreover have "quiet s1 (snd (and_then (ensure_allowance C ''erc20'' quote exch (min_threshold dec) s1) (\<lambda>_ s.
         and_then (ensure_allowance C ''erc20 conditionalTokens'' quote conditional (min_threshold dec) s) (\<lambda>_ s.
         eoa_tokens W C conditional tokens (if exch \<in> set exchanges then exchanges else exchanges @ [exch]) s))))"
        using 2(2)[OF _ Inr p[symmetric] d[symmetric] refl] False
        by (intro quiet_and_then quiet_allowance) auto
      ultimately show ?thesis using False Inr p d by (auto simp: Let_def intro: quiet_step)
    qed (use False in simp)
  qed (use 2(1) in simp)
qed simp

lemma quiet_eoa_operators: "quiet s (snd (eoa_operators C conditional exchanges s))"
  by (induction C conditional exchanges s rule: eoa_operators.induct)
    (auto split: option.split bool.split intro!: quiet_and_then quiet_send)

lemma quiet_eoa: "quiet s (snd (enable_trading_onchain_eoa W C s))"
  unfolding enable_trading_onchain_eoa_def
  by (auto intro!: quiet_and_then quiet_tokens quiet_eoa_tokens quiet_eoa_operators)

lemma quiet_safe_tokens: "quiet s (snd (safe_tokens W C safe conditional tokens acc s))"
proof (induction W C safe conditional tokens acc s rule: safe_tokens.induct)
  case (2 W C safe conditional token tokens exchanges txs s)
  show ?case
  proof (cases "qt_chain_id token \<noteq> cl_chain_id s")
    case False
    show ?thesis
    proof (cases "token_addresses W token")
      case (Inr p)
      obtain quote exch where p: "p = (quote, exch)" by fastforce
      obtain dec s1 where d: "get_token_decimals C quote s = (dec, s1)" by fastforce
      have "quiet s s1" using quiet_decimals[of s C quote] d by simp
      moreover have "quiet s1 (snd (and_then (plan_allowance C ''opinion erc20 allowance call failed'' ''opinion erc20 approve calldata failed''
         safe quote exch (min_threshold dec) s1, s1) (\<lambda>txs1 s.
       and_then (plan_allowance C ''opinion erc20 conditionalTokens allowance call failed''
         ''opinion erc20 conditionalTokens calldata failed'' safe quote conditional (min_threshold dec) s, s) (\<lambda>txs2 s.
         safe_tokens W C safe conditional tokens
           (if exch \<in> set exchanges then exchanges else exchanges @ [exch], txs @ txs1 @ txs2) s))))"
        using 2(2)[OF _ Inr p[symmetric] d[symmetric] refl] False
        by (intro quiet_and_then) auto
      ultimately show ?thesis using False Inr p d by (auto simp: Let_def intro: quiet_step)
    qed (use False in simp)
  qed (use 2(1) in simp)
qed simp

lemma quiet_safe_exec: "quiet s (snd (safe_exec_transaction C safe addr data n s))"
  unfolding safe_exec_transaction_def
  by (auto intro!: quiet_and_then quiet_send)

lemma quiet_safe: "quiet s (snd (enable_trading_onchain_safe W C s))"
proof -
  have exec: "quiet s (snd (case safe_exec_transaction C safe addr data n s of
      (Inl _, s) \<Rightarrow> (Inl e, s) | (Inr _, s) \<Rightarrow> (Inr (), s)))" for s safe addr data n and e :: string
    using quiet_safe_exec[of s C safe addr data n] by (auto split: prod.split sum.split)
  show ?thesis unfolding enable_trading_onchain_safe_def
    by (auto intro!: quiet_and_then quiet_tokens quiet_safe_tokens exec split: prod.split)
qed

lemma quiet_onchain: "quiet s (snd (enable_trading_onchain W C s))"
  by (simp add: enable_trading_onchain_def quiet_safe quiet_eoa)

lemma calm_enable: "calm s (snd (enable_trading W C s))"
proof -
  obtain now s1 where n: "now_ts_ms W s = (now, s1)" by fastforce
  have "calm s (snd (enable_trading_onchain W C (s1\<lparr>cl_enable_trading_last_ms := Some now\<rparr>)))"
    by (rule calm_step[OF quiet_calm[OF quiet_clock[OF n]] calm_step[OF quiet_cache(4) quiet_calm[OF quiet_onchain]]])
  then show ?thesis using quiet_calm[OF quiet_clock[OF n]] by (simp add: enable_trading_def n)
qed

lemma quiet_open_page: "quiet s (snd (fetch_open_orders_page W m p l s))"
  unfolding fetch_open_orders_page_def by (rule quiet_and_then[OF quiet_request]) simp_all

lemma quiet_open_ids: "quiet s (snd (open_id_pages W m l left p ids s))"
proof (induction W m l left p ids s rule: open_id_pages.induct)
  case (2 W m l left p ids s)
  show ?case unfolding open_id_pages.simps
    by (rule quiet_and_then[OF quiet_open_page]) (use 2 in \<open>auto simp: Let_def\<close>)
qed simp

lemma quiet_fetch_open: "quiet s (snd (fetch_open_order_ids W m p l s))"
  by (simp add: fetch_open_order_ids_def quiet_open_ids)

lemma quiet_trades: "quiet s (snd (fetch_trades W m t since s))"
  using quiet_request[of None s W GET "''/openapi/trade''" "[(''page'', ''1''), (''limit'', ''50''),
        (''chainId'', nat_str (cl_chain_id s)), (''marketId'', int_str m)]"]
  by (auto simp: fetch_trades_def split: prod.split sum.split)

lemma quiet_cancel: "quiet s (snd (cancel_venue_order W i s))"
  using quiet_request[of "Some (CancelBody (trim_spaces i))" s W POST "''/openapi/order/cancel''" "[]"]
  by (auto simp: cancel_venue_order_def Let_def split: prod.split sum.split)

lemma quiet_recovery_pages: "quiet s (snd (recovery_pages W w left p found s))"
proof (induction W w left p found s rule: recovery_pages.induct)
  case (2 W w left p found s)
  then show ?case
    using quiet_open_page[of s W "wa_market_id w" p ORDER_ID_RECOVERY_PAGE_LIMIT]
    by (auto split: prod.split sum.split intro: quiet_step)
qed simp

lemma quiet_recovery: "quiet s (snd (recovery_attempts W w left s))"
proof (induction W w left s rule: recovery_attempts.induct)
  case (2 W w left s)
  then show ?case
    using quiet_recovery_pages[of s W w ORDER_ID_RECOVERY_MAX_PAGES 1 "[]"]
    by (auto split: prod.split sum.split list.split intro: quiet_step)
qed simp

lemma quiet_recover: "quiet s (snd (recover_order_id_from_open_orders W m side p c s))"
proof -
  obtain now s1 where n: "now_ts_ms W s = (now, s1)" by fastforce
  have "quiet s (snd (recovery_attempts W w k s1))" for w k
    by (rule quiet_step[OF quiet_clock[OF n] quiet_recovery])
  then show ?thesis by (simp add: recover_order_id_from_open_orders_def n split: option.split)
qed

section \<open>Placing an order\<close>

lemma and_then_Inr: "and_then r f = (Inr y, s') \<Longrightarrow> \<exists>x s. r = (Inr x, s) \<and> f x s = (Inr y, s')"
  by (auto simp: and_then_def split: prod.splits sum.splits)

lemma or_error_Inr [simp]: "or_error e x = Inr y \<longleftrightarrow> x = Some y"
  by (simp add: or_error_def split: option.split)

lemma pause_simps [simp]:
  "orders_sent (pause_trading W e s) = orders_sent s"
  "cl_multi_sig_address (pause_trading W e s) = cl_multi_sig_address s"
  "cl_check_approval (pause_trading W e s) = cl_check_approval s"
  "cl_base_url (pause_trading W e s) = cl_base_url s"
  "cl_clock_reads (pause_trading W e s) = Suc (cl_clock_reads s)"
  "cl_enable_trading_last_ms (pause_trading W e s) = cl_enable_trading_last_ms s"
  "\<not> tr_enabled (cl_trading_state (pause_trading W e s))"
  by (simp_all add: pause_trading_def now_ts_ms_def orders_sent_def)

lemma resume_simps [simp]:
  "orders_sent (resume_trading s) = orders_sent s"
  "cl_multi_sig_address (resume_trading s) = cl_multi_sig_address s"
  "cl_check_approval (resume_trading s) = cl_check_approval s"
  "cl_base_url (resume_trading s) = cl_base_url s"
  "cl_clock_reads (resume_trading s) = cl_clock_reads s"
  by (simp_all add: resume_trading_def orders_sent_def)

text \<open>The permission is the only thing that waiting changes, and it never sends an order.\<close>

lemma orders_wait:
  assumes "maybe_wait_for_trading_enable W C s = (r, s')"
  shows "orders_sent s' = orders_sent s" "cl_multi_sig_address s' = cl_multi_sig_address s"
    "cl_clock_reads s < cl_clock_reads s'" "cl_check_approval s' = cl_check_approval s" "cl_base_url s' = cl_base_url s"
proof -
  obtain now s1 where n: "now_ts_ms W s = (now, s1)" by fastforce
  obtain q s2 where e: "enable_trading W C s1 = (q, s2)" by fastforce
  have "calm s s1" "calm s1 s2" "calm s s2" "cl_clock_reads s1 = Suc (cl_clock_reads s)"
    using n quiet_calm[OF quiet_clock[OF n]] calm_enable[of s1 W C] calm_step[OF quiet_calm[OF quiet_clock[OF n]] calm_enable, of W C] e
    by (auto simp: now_ts_ms_def)
  then show "orders_sent s' = orders_sent s" "cl_multi_sig_address s' = cl_multi_sig_address s"
    "cl_clock_reads s < cl_clock_reads s'" "cl_check_approval s' = cl_check_approval s" "cl_base_url s' = cl_base_url s"
    using assms
    by (auto simp: maybe_wait_for_trading_enable_def n e Let_def quiet_def calm_def split: sum.splits if_splits)
qed

text \<open>The body of an order is built from what was asked for.\<close>

definition order_body_for :: "('v, 'd) world \<Rightarrow> address option \<Rightarrow> int \<Rightarrow> string \<Rightarrow> OrderSide \<Rightarrow> f64 \<Rightarrow> OrderAmount \<Rightarrow> ApiBody \<Rightarrow> bool" where
  "order_body_for W maker market_id token_id side price amount body \<longleftrightarrow>
    (\<exists>order sig currency price_str secs decimals. body = OrderBody order market_id sig currency price_str secs
      \<and> limit_order_amounts (wo_decimal W) side price amount decimals
          = Inr (price_str, op_maker_amount order, op_taker_amount order)
      \<and> u256_from_dec_str token_id = Some (op_token_id order) \<and> op_side order = as_int side
      \<and> maker = Some (op_maker order))"

lemma prepare_order_body:
  assumes "prepare_order W C market_id token_id side price amount s = (Inr (body, p), s')"
  shows "order_body_for W (cl_multi_sig_address s) market_id token_id side price amount body"
proof -
  obtain s1 market s2 quote s3 maker tok ma ta salt signer sig secs currency where
    w: "maybe_wait_for_trading_enable W C s = (Inr (), s1)"
    and m: "get_market_info W market_id s1 = (Inr market, s2)"
    and q: "get_quote_token_info W (mk_quote_token market) s2 = (Inr quote, s3)"
    and mk: "cl_multi_sig_address s3 = Some maker"
    and amounts: "limit_order_amounts (wo_decimal W) side price amount (qt_decimal quote) = Inr (p, ma, ta)"
    and tok: "u256_from_dec_str token_id = Some tok"
    and b: "body = OrderBody \<lparr>op_salt = salt, op_maker = maker, op_signer = signer, op_taker = 0,
       op_token_id = tok, op_maker_amount = ma, op_taker_amount = ta, op_expiration = 0, op_nonce = 0,
       op_fee_rate_bps = 0, op_side = as_int side, op_signature_type = POLY_GNOSIS_SAFE_SIGNATURE_TYPE\<rparr>
       market_id sig currency p secs"
    using assms unfolding prepare_order_def
    by (auto dest!: and_then_Inr split: if_splits sum.splits prod.splits simp: Let_def)
  have "quiet s1 s3" using quiet_market[of s1 W market_id] quiet_token_info[of s2 W "mk_quote_token market"] m q
    by (auto intro: quiet_step)
  with mk orders_wait[OF w] have "cl_multi_sig_address s = Some maker" by (simp add: quiet_def calm_def)
  with amounts tok b show ?thesis by (auto simp: order_body_for_def)
qed

text \<open>Preparing an order sends none; \<open>held\<close> is what the whole preparation keeps.\<close>

definition held :: "'c ApiClient \<Rightarrow> 'c ApiClient \<Rightarrow> bool" where
  "held s s' \<longleftrightarrow> orders_sent s' = orders_sent s \<and> cl_check_approval s' = cl_check_approval s
     \<and> cl_multi_sig_address s' = cl_multi_sig_address s \<and> cl_base_url s' = cl_base_url s
     \<and> cl_clock_reads s \<le> cl_clock_reads s'"

lemma held_refl [simp]: "held s s"
  by (simp add: held_def)

lemma quiet_held: "quiet s s' \<Longrightarrow> held s s'"
  by (simp add: quiet_def calm_def held_def)

lemma held_step: "held s s' \<Longrightarrow> held s' s'' \<Longrightarrow> held s s''"
  by (simp add: held_def)

lemma held_pause [simp]: "held s (pause_trading W e s)" "held s (resume_trading s)"
  by (simp_all add: held_def)

lemma held_and_then:
  assumes "held s (snd r)" "\<And>x s'. held s' (snd (f x s'))"
  shows "held s (snd (and_then r f))"
proof (cases r)
  case (Pair q s1)
  with assms(1) have "held s s1" by simp
  then show ?thesis using held_step[OF _ assms(2)] Pair by (cases q) (simp_all add: and_then_def)
qed

lemma held_clock: "(\<And>s. held s (snd (f (fst (now_ts_ms W t)) s))) \<Longrightarrow> held t (snd (case now_ts_ms W t of (n, s) \<Rightarrow> f n s))"
  using held_step[OF quiet_held[OF quiet_clock[of W t "fst (now_ts_ms W t)"]]] by (cases "now_ts_ms W t") simp

lemma prepare_held:
  "held s (snd (prepare_order W C market_id token_id side price amount s))
    \<and> cl_clock_reads s < cl_clock_reads (snd (prepare_order W C market_id token_id side price amount s))"
proof -
  obtain q s1 where w: "maybe_wait_for_trading_enable W C s = (q, s1)" by fastforce
  have wait: "held s s1" "cl_clock_reads s < cl_clock_reads s1" using orders_wait[OF w] by (simp_all add: held_def)
  have "held s1 (snd (prepare_order W C market_id token_id side price amount s))"
  proof (cases q)
    case (Inr u)
    show ?thesis unfolding prepare_order_def Let_def w Inr
      by (simp only: and_then_def[where r = "(Inr u, s1)"] prod.case sum.case)
        (auto intro!: held_and_then quiet_held[OF quiet_market] quiet_held[OF quiet_token_info] held_clock
          split: sum.split)
  qed (simp add: prepare_order_def and_then_def w)
  with wait show ?thesis using held_step by (fastforce simp: held_def)
qed

lemmas held_prepare = prepare_held[THEN conjunct1]

text \<open>One request with an order, as long as its URL can be built.\<close>

definition order_request :: "string \<Rightarrow> ApiBody \<Rightarrow> ApiRequest" where
  "order_request base body = \<lparr>hq_base = base, hq_method = POST, hq_path = ''/openapi/order'', hq_params = [],
     hq_body = Some body\<rparr>"

definition order_body :: "ApiBody \<Rightarrow> bool" where
  "order_body body = (case body of OrderBody _ _ _ _ _ _ \<Rightarrow> True | CancelBody _ \<Rightarrow> False)"

lemma body_for_order: "order_body_for W maker m t side price amount body \<Longrightarrow> order_body body"
  by (auto simp: order_body_for_def order_body_def)

lemma post_once_orders:
  assumes "post_once W body s = (r, s')" "order_body body"
  shows "\<exists>n \<le> 1. orders_sent s' = orders_sent s @ replicate n (order_request (cl_base_url s) body) \<and> (isl r \<or> n = 1)"
    "cl_base_url s' = cl_base_url s" "cl_check_approval s' = cl_check_approval s"
    "cl_trading_state s' = cl_trading_state s" "cl_clock_reads s' = cl_clock_reads s"
proof -
  have order: "is_order (order_request b body)" for b
    using assms(2) by (auto simp: is_order_def order_request_def order_body_def split: ApiBody.splits)
  have step: "(r = Inl e \<and> s' = s) \<or> s' = s\<lparr>cl_sent := cl_sent s @ [order_request (cl_base_url s) body]\<rparr>"
    if "e = ''opinion openapi url parse failed''" for e
    using assms(1) that by (auto simp: post_once_def request_json_with_base_raw_def order_request_def Let_def split: option.splits)
  then show "cl_base_url s' = cl_base_url s" "cl_check_approval s' = cl_check_approval s"
    "cl_trading_state s' = cl_trading_state s" "cl_clock_reads s' = cl_clock_reads s"
    by auto
  from step[OF refl] show "\<exists>n \<le> 1. orders_sent s' = orders_sent s @ replicate n (order_request (cl_base_url s) body) \<and> (isl r \<or> n = 1)"
  proof
    assume "r = Inl ''opinion openapi url parse failed'' \<and> s' = s"
    then show ?thesis by (intro exI[of _ 0]) simp
  next
    assume "s' = s\<lparr>cl_sent := cl_sent s @ [order_request (cl_base_url s) body]\<rparr>"
    then show ?thesis using order by (intro exI[of _ 1]) (simp add: orders_sent_def)
  qed
qed

lemma post_order_orders:
  assumes "post_order W C body s = (r, s')" "order_body body"
  shows "\<exists>n \<le> 2. orders_sent s' = orders_sent s @ replicate n (order_request (cl_base_url s) body)
      \<and> (isl r \<or> 0 < n) \<and> (n = 2 \<longrightarrow> cl_check_approval s)"
    "cl_clock_reads s \<le> cl_clock_reads s'" "cl_check_approval s' = cl_check_approval s"
proof -
  let ?q = "order_request (cl_base_url s) body"
  obtain r1 s1 where p1: "post_once W body s = (r1, s1)" by fastforce
  from post_once_orders[OF this assms(2)] obtain n1 where n1: "n1 \<le> 1" "orders_sent s1 = orders_sent s @ replicate n1 ?q"
      "isl r1 \<or> n1 = 1"
    and f1: "cl_base_url s1 = cl_base_url s" "cl_check_approval s1 = cl_check_approval s" "cl_clock_reads s1 = cl_clock_reads s" by blast
  show "\<exists>n \<le> 2. orders_sent s' = orders_sent s @ replicate n ?q \<and> (isl r \<or> 0 < n) \<and> (n = 2 \<longrightarrow> cl_check_approval s)"
    "cl_clock_reads s \<le> cl_clock_reads s'" "cl_check_approval s' = cl_check_approval s"
  proof (atomize (full), cases r1)
    case (Inr x)
    with assms(1) p1 have "r = Inr x" "s' = s1" by (simp_all add: post_order_def)
    with n1 f1 Inr show "(\<exists>n \<le> 2. orders_sent s' = orders_sent s @ replicate n ?q \<and> (isl r \<or> 0 < n) \<and> (n = 2 \<longrightarrow> cl_check_approval s))
        \<and> cl_clock_reads s \<le> cl_clock_reads s' \<and> cl_check_approval s' = cl_check_approval s"
      by (auto intro!: exI[of _ n1])
  next
    case (Inl e)
    define s2 where "s2 = pause_trading W e s1"
    obtain r3 s3 where e3: "enable_trading W C s2 = (r3, s3)" by fastforce
    have q3: "calm s2 s3" using calm_enable[of s2 W C] e3 by simp
    obtain r4 s4 where p4: "post_once W body (resume_trading s3) = (r4, s4)" by fastforce
    from post_once_orders[OF this assms(2)] obtain n2 where n2: "n2 \<le> 1"
        "orders_sent s4 = orders_sent s3 @ replicate n2 (order_request (cl_base_url s3) body)" "isl r4 \<or> n2 = 1"
      and f4: "cl_base_url s4 = cl_base_url s3" "cl_check_approval s4 = cl_check_approval s3" "cl_clock_reads s4 = cl_clock_reads s3"
      by auto
    have s3: "orders_sent s3 = orders_sent s1" "cl_base_url s3 = cl_base_url s" "cl_check_approval s3 = cl_check_approval s"
      "cl_clock_reads s \<le> cl_clock_reads s3"
      using q3 f1 by (simp_all add: quiet_def calm_def s2_def)
    have shape: "(s' = s1 \<or> s' = s2 \<or> s' = s3) \<and> r = Inl e
        \<or> cl_check_approval s \<and> (isl r4 \<longrightarrow> isl r) \<and> (s' = s4 \<or> (\<exists>x. s' = pause_trading W x s4))"
      using assms(1) p1 Inl e3 p4 f1
      by (auto simp: post_order_def s2_def Let_def split: if_splits sum.splits prod.splits)
    then show "(\<exists>n \<le> 2. orders_sent s' = orders_sent s @ replicate n ?q \<and> (isl r \<or> 0 < n) \<and> (n = 2 \<longrightarrow> cl_check_approval s))
        \<and> cl_clock_reads s \<le> cl_clock_reads s' \<and> cl_check_approval s' = cl_check_approval s"
    proof
      assume "(s' = s1 \<or> s' = s2 \<or> s' = s3) \<and> r = Inl e"
      then show ?thesis using n1 f1 s3 by (intro conjI exI[of _ n1]) (auto simp: s2_def)
    next
      assume a: "cl_check_approval s \<and> (isl r4 \<longrightarrow> isl r) \<and> (s' = s4 \<or> (\<exists>x. s' = pause_trading W x s4))"
      then have "orders_sent s' = orders_sent s @ replicate (n1 + n2) ?q"
        using n1(2) n2(2) s3 by (auto simp: replicate_add)
      with a n1 n2 f4 s3 show ?thesis by (intro conjI exI[of _ "n1 + n2"]) auto
    qed
  qed
qed

lemma held_recover: "held s (snd (recover_order_id_from_open_orders W m side p c s))"
  by (rule quiet_held[OF quiet_recover])

text \<open>What follows the request: nothing more is sent as an order.\<close>

lemma place_split:
  assumes "place_limit_order W C market_id token_id side price amount client post_only s = (r, s')"
  obtains (unprepared) e where "prepare_order W C market_id token_id side price amount s = (Inl e, s')" "r = Inl e"
  | (posted) body p s1 q s2 where "prepare_order W C market_id token_id side price amount s = (Inr (body, p), s1)"
      "post_order W C body s1 = (q, s2)" "held s2 s'" "isl q \<longrightarrow> isl r \<and> s' = s2"
proof (cases "prepare_order W C market_id token_id side price amount s")
  case (Pair a s1)
  show thesis
  proof (cases a)
    case (Inl e)
    with Pair assms show thesis by (intro unprepared) (auto simp: place_limit_order_def and_then_def)
  next
    case (Inr bp)
    obtain body p where bp: "bp = (body, p)" by fastforce
    obtain q s2 where post: "post_order W C body s1 = (q, s2)" by fastforce
    show thesis
    proof (cases q)
      case (Inl e)
      with Inr Pair bp post assms show thesis
        by (intro posted) (auto simp: place_limit_order_def and_then_def)
    next
      case (Inr x)
      obtain response raw where x: "x = (response, raw)" by fastforce
      obtain rid s3 where rec: "recover_order_id_from_open_orders W market_id side p client s2 = (rid, s3)" by fastforce
      have "held s2 s3" using held_recover[of s2 W market_id side p client] rec by simp
      then have "held s2 (resume_trading s3)" using held_step held_pause(2) by blast
      with \<open>held s2 s3\<close> Pair \<open>a = Inr bp\<close> bp post Inr x rec assms have "held s2 s'"
        by (auto simp: place_limit_order_def and_then_def Let_def split: if_splits option.splits)
      with Pair \<open>a = Inr bp\<close> bp post Inr show thesis by (intro posted) (simp_all, blast dest: sum.disc(2)[THEN notE])
    qed
  qed
qed

text \<open>
  C18. A call of \<open>place_limit_order\<close> sends at most two requests with orders, and they are the same
  request: a \<open>POST\<close> of one signed body for the market, the token, the side and the validated amounts
  asked for, made by the account's safe. The second one is sent only by a client that may approve
  spending, and a call that succeeds has sent at least one.
\<close>

theorem order_posted_as_asked:
  assumes "place_limit_order W C market_id token_id side price amount client post_only s = (r, s')"
  shows "\<exists>body n. orders_sent s' = orders_sent s @ replicate n (order_request (cl_base_url s) body) \<and> n \<le> 2
    \<and> (0 < n \<longrightarrow> order_body_for W (cl_multi_sig_address s) market_id token_id side price amount body)
    \<and> (n = 2 \<longrightarrow> cl_check_approval s) \<and> (isl r \<or> 0 < n)"
  using assms
proof (cases rule: place_split)
  case (unprepared e)
  then have "orders_sent s' = orders_sent s"
    using held_prepare[of s W C market_id token_id side price amount] by (simp add: held_def)
  with unprepared show ?thesis by (intro exI[of _ undefined] exI[of _ 0]) simp
next
  case (posted body p s1 q s2)
  have h: "held s s1" using held_prepare[of s W C market_id token_id side price amount] posted by simp
  have body: "order_body_for W (cl_multi_sig_address s) market_id token_id side price amount body"
    by (rule prepare_order_body[OF posted(1)])
  from post_order_orders(1)[OF posted(2) body_for_order[OF body]] obtain n where "n \<le> 2"
      "orders_sent s2 = orders_sent s1 @ replicate n (order_request (cl_base_url s1) body)"
      "isl q \<or> 0 < n" "n = 2 \<longrightarrow> cl_check_approval s1" by blast
  with h posted body show ?thesis by (intro exI[of _ body] exI[of _ n]) (auto simp: held_def)
qed

section \<open>Sequences of calls\<close>

text \<open>The calls that the program makes of the client, one after the other.\<close>

datatype api_call =
    PlaceOrder int string OrderSide f64 OrderAmount "string option" bool
  | CancelOrder string
  | OpenOrderIds int int int
  | Trades int string "int option"
  | PrefetchMarkets string "int list"
  | EnableTrading

fun api_step :: "('v, 'd) world \<Rightarrow> 'c chain_ops \<Rightarrow> api_call \<Rightarrow> 'c ApiClient \<Rightarrow> 'c ApiClient" where
  "api_step W C (PlaceOrder m t side price amount client post_only) s =
     snd (place_limit_order W C m t side price amount client post_only s)"
| "api_step W C (CancelOrder i) s = snd (cancel_venue_order W i s)"
| "api_step W C (OpenOrderIds m pages limit) s = snd (fetch_open_order_ids W m pages limit s)"
| "api_step W C (Trades m t since) s = snd (fetch_trades W m t since s)"
| "api_step W C (PrefetchMarkets base ids) s = snd (prefetch_markets W base ids s)"
| "api_step W C EnableTrading s = snd (enable_trading W C s)"

fun api_run :: "('v, 'd) world \<Rightarrow> 'c chain_ops \<Rightarrow> api_call list \<Rightarrow> 'c ApiClient \<Rightarrow> 'c ApiClient" where
  "api_run W C [] s = s"
| "api_run W C (a # as) s = api_run W C as (api_step W C a s)"

text \<open>Trading is refused at the next reading of the clock.\<close>

definition refused_now :: "('v, 'd) world \<Rightarrow> 'c ApiClient \<Rightarrow> bool" where
  "refused_now W s \<longleftrightarrow> \<not> tr_enabled (cl_trading_state s)
     \<and> (wo_clock W (cl_clock_reads s) < tr_blocked_until_ms (cl_trading_state s) \<or> \<not> cl_check_approval s)"

lemma quiet_refused:
  assumes "refused_now W s"
  shows "quiet s (snd (place_limit_order W C m t side price amount client post_only s))"
proof -
  obtain now s1 where n: "now_ts_ms W s = (now, s1)" by fastforce
  then have now: "now = wo_clock W (cl_clock_reads s)" "cl_check_approval s1 = cl_check_approval s"
    "cl_trading_state s1 = cl_trading_state s"
    by (auto simp: now_ts_ms_def)
  have "\<exists>e. maybe_wait_for_trading_enable W C s = (Inl e, s1)"
    using assms now by (auto simp: refused_now_def maybe_wait_for_trading_enable_def n Let_def)
  then show ?thesis using quiet_clock[OF n]
    by (auto simp: place_limit_order_def prepare_order_def and_then_def)
qed

lemma calm_clock_le: "calm s s' \<Longrightarrow> cl_clock_reads s \<le> cl_clock_reads s'"
  by (simp add: quiet_def calm_def)

lemma place_reads_clock:
  "cl_clock_reads s < cl_clock_reads (snd (place_limit_order W C m t side price amount client post_only s))"
proof -
  obtain r s' where p: "place_limit_order W C m t side price amount client post_only s = (r, s')" by fastforce
  then have "cl_clock_reads s < cl_clock_reads s'"
  proof (cases rule: place_split)
    case (unprepared e)
    then show ?thesis using prepare_held[of s W C m t side price amount] by simp
  next
    case (posted body p s1 q s2)
    then show ?thesis using prepare_held[of s W C m t side price amount]
        post_order_orders(2)[OF posted(2) body_for_order[OF prepare_order_body[OF posted(1)]]]
      by (simp add: held_def)
  qed
  with p show ?thesis by simp
qed

lemma clock_call: "cl_clock_reads s \<le> cl_clock_reads (api_step W C a s)"
  by (cases a) (simp_all add: calm_clock_le quiet_calm[OF quiet_cancel] quiet_calm[OF quiet_fetch_open] quiet_calm[OF quiet_trades]
      quiet_calm[OF quiet_prefetch] calm_enable
      less_imp_le place_reads_clock)

lemma calm_call:
  assumes "cl_clock_reads s < cl_clock_reads (api_step W C a s) \<Longrightarrow> refused_now W s"
  shows "calm s (api_step W C a s)"
  using assms
  by (cases a) (simp_all add: place_reads_clock quiet_calm[OF quiet_refused] quiet_calm[OF quiet_cancel] quiet_calm[OF quiet_fetch_open] quiet_calm[OF quiet_trades]
      quiet_calm[OF quiet_prefetch] calm_enable)

lemma clock_run: "cl_clock_reads s \<le> cl_clock_reads (api_run W C as s)"
  by (induction W C as s rule: api_run.induct) (auto intro: order_trans[OF clock_call])

lemma calm_run:
  assumes "\<not> tr_enabled (cl_trading_state s)"
    and "\<not> cl_check_approval s \<or> (\<forall>n. cl_clock_reads s \<le> n \<longrightarrow> n < cl_clock_reads (api_run W C as s)
          \<longrightarrow> wo_clock W n < tr_blocked_until_ms (cl_trading_state s))"
  shows "calm s (api_run W C as s)"
  using assms
proof (induction W C as s rule: api_run.induct)
  case (2 W C a as s)
  let ?t = "api_step W C a s"
  have reads: "cl_clock_reads ?t \<le> cl_clock_reads (api_run W C (a # as) s)" using clock_run[of ?t W C as] by simp
  have t: "calm s ?t"
  proof (rule calm_call)
    assume "cl_clock_reads s < cl_clock_reads ?t"
    with 2(2,3) reads show "refused_now W s" by (auto simp: refused_now_def)
  qed
  with 2(2,3) have "calm ?t (api_run W C as ?t)"
    by (intro 2(1)) (auto simp: quiet_def calm_def)
  with t show ?case using calm_step by simp
qed (simp add: calm_def)

text \<open>
  C19. While trading is paused, no sequence of calls of the client sends an order or ends the pause, as
  long as every reading of the clock in it is before the end of the pause.
\<close>

theorem pause_stops_orders:
  assumes "\<not> tr_enabled (cl_trading_state s)"
    and "\<And>n. cl_clock_reads s \<le> n \<Longrightarrow> n < cl_clock_reads (api_run W C as s)
          \<Longrightarrow> wo_clock W n < tr_blocked_until_ms (cl_trading_state s)"
  shows "orders_sent (api_run W C as s) = orders_sent s \<and> cl_trading_state (api_run W C as s) = cl_trading_state s"
  using calm_run[of s W C as] assms by (simp add: calm_def)

lemma post_order_refused:
  assumes "post_order W C body s = (Inl e, s')" "is_errno e 10014" "\<not> cl_check_approval s"
  shows "\<not> tr_enabled (cl_trading_state s')" "\<not> cl_check_approval s'"
proof -
  obtain q s1 where p: "post_once W body s = (q, s1)" by fastforce
  then have "cl_check_approval s1 = cl_check_approval s"
    by (auto simp: post_once_def request_json_with_base_raw_def Let_def split: option.splits)
  with p assms have "s' = pause_trading W e s1" "\<not> cl_check_approval s1"
    by (auto simp: post_order_def Let_def split: sum.splits if_splits)
  then show "\<not> tr_enabled (cl_trading_state s')" "\<not> cl_check_approval s'" by simp_all
qed

text \<open>
  C22. A client that is configured not to approve spending stops trading for ever at its first refusal
  with error 10014: after it no sequence of calls sends an order, whatever the time and whatever the
  venue would answer, and every further call of \<open>place_limit_order\<close> fails. The pause has an end
  (\<open>enable_retry_ms\<close>), but nothing looks at it.
\<close>

theorem refusal_without_approval_is_final:
  assumes "post_order W C body s = (Inl e, s')" "is_errno e 10014" "\<not> cl_check_approval s"
  shows "orders_sent (api_run W C as s') = orders_sent s'
    \<and> isl (fst (place_limit_order W C m t side price amount client post_only (api_run W C as s')))"
proof -
  let ?t = "api_run W C as s'"
  have c: "calm s' ?t" using post_order_refused[OF assms] by (intro calm_run) simp_all
  then have "\<not> tr_enabled (cl_trading_state ?t)" "\<not> cl_check_approval ?t"
    using post_order_refused[OF assms] by (simp_all add: calm_def)
  then have "isl (fst (maybe_wait_for_trading_enable W C ?t))"
    by (auto simp: maybe_wait_for_trading_enable_def Let_def now_ts_ms_def)
  then have "isl (fst (place_limit_order W C m t side price amount client post_only ?t))"
    by (auto simp: place_limit_order_def prepare_order_def and_then_def split: prod.splits sum.splits)
  with c show ?thesis by (simp add: calm_def)
qed

section \<open>Approvals\<close>

lemma enable_failed_last:
  assumes "enable_trading W C s = (Inl e, s')"
  shows "cl_enable_trading_last_ms s' = Some (wo_clock W (cl_clock_reads s))"
proof -
  obtain now s1 where n: "now_ts_ms W s = (now, s1)" by fastforce
  then have now: "now = wo_clock W (cl_clock_reads s)" by (simp add: now_ts_ms_def)
  let ?s2 = "s1\<lparr>cl_enable_trading_last_ms := Some now\<rparr>"
  have "enable_trading_onchain W C ?s2 = (Inl e, s')"
    using assms by (auto simp: enable_trading_def n split: if_splits)
  with quiet_onchain[of ?s2 W C] now show ?thesis by (simp add: quiet_def)
qed

text \<open>
  C21. An approval that failed counts as done: \<open>enable_trading\<close> notes the time before it looks at the
  chain. When a paused client tries to approve and fails, the next attempt that comes after the retry
  delay and within the hour reports success without a look at the chain, and trading resumes.
\<close>

theorem failed_approval_accepted:
  assumes "\<not> tr_enabled (cl_trading_state s)" "cl_check_approval s"
    and "tr_blocked_until_ms (cl_trading_state s) \<le> wo_clock W (cl_clock_reads s)"
    and "maybe_wait_for_trading_enable W C s = (Inl e, s1)"
    and "tr_blocked_until_ms (cl_trading_state s1) \<le> wo_clock W (cl_clock_reads s1)"
    and "wo_clock W (cl_clock_reads s1 + 1) - wo_clock W (cl_clock_reads s + 1) < 3600 * 1000"
  shows "isl (fst (enable_trading W C (s\<lparr>cl_clock_reads := cl_clock_reads s + 1\<rparr>)))
    \<and> fst (maybe_wait_for_trading_enable W C s1) = Inr ()
    \<and> tr_enabled (cl_trading_state (snd (maybe_wait_for_trading_enable W C s1)))
    \<and> cl_chain (snd (maybe_wait_for_trading_enable W C s1)) = cl_chain s1"
proof -
  let ?s0 = "s\<lparr>cl_clock_reads := cl_clock_reads s + 1\<rparr>"
  obtain q s2 where e: "enable_trading W C ?s0 = (q, s2)" by fastforce
  with assms(1-4) have q: "q = Inl e" and s1: "s1 = pause_trading W e s2"
    by (auto simp: maybe_wait_for_trading_enable_def now_ts_ms_def Let_def split: sum.splits)
  from q e have l: "cl_enable_trading_last_ms s1 = Some (wo_clock W (cl_clock_reads s + 1))"
    using enable_failed_last[of W C ?s0 e s2] s1 by simp
  have "cl_check_approval s1" using calm_enable[of ?s0 W C] e s1 assms(2) by (simp add: calm_def)
  with l s1 assms(5,6) q e show ?thesis
    by (simp add: maybe_wait_for_trading_enable_def now_ts_ms_def enable_trading_def
        ENABLE_TRADING_CHECK_INTERVAL_SEC_def resume_trading_def)
qed

lemma token_decimals_chain: "cl_chain (snd (get_token_decimals C t s)) = cl_chain s"
    "cl_signer_address (snd (get_token_decimals C t s)) = cl_signer_address s"
    "cl_chain_id (snd (get_token_decimals C t s)) = cl_chain_id s"
  by (simp_all add: get_token_decimals_def Let_def split: option.split)

lemma reverted_send:
  assumes "\<And>c tx. co_send C c tx = (TxDone (Some False), c)"
  shows "send_tx C tx a b s = (Inr (Some False), s)"
  by (simp add: send_tx_def assms)

lemma reverted_allowance:
  assumes "\<And>c tx. co_send C c tx = (TxDone (Some False), c)"
    and "co_allowance C (cl_chain s) token (cl_signer_address s) spender \<noteq> None"
  shows "ensure_allowance C tag token spender threshold s = (Inr (), s)"
  using assms(2) by (auto simp: ensure_allowance_def reverted_send[OF assms(1)] and_then_def)

lemma reverted_tokens:
  assumes rev: "\<And>c tx. co_send C c tx = (TxDone (Some False), c)"
    and "\<And>a b. co_allowance C (cl_chain s) a (cl_signer_address s) b \<noteq> None"
    and "\<forall>token \<in> set tokens. qt_chain_id token = cl_chain_id s \<longrightarrow> \<not> isl (token_addresses W token)"
  shows "\<exists>exs s'. eoa_tokens W C conditional tokens exchanges s = (Inr exs, s') \<and> cl_chain s' = cl_chain s
    \<and> cl_signer_address s' = cl_signer_address s \<and> cl_chain_id s' = cl_chain_id s"
  using assms(2,3)
proof (induction tokens arbitrary: exchanges s)
  case (Cons token tokens)
  show ?case
  proof (cases "qt_chain_id token \<noteq> cl_chain_id s")
    case False
    with Cons(3) obtain quote exch where a: "token_addresses W token = Inr (quote, exch)"
      by (cases "token_addresses W token") auto
    obtain dec s1 where d: "get_token_decimals C quote s = (dec, s1)" by fastforce
    then have s1: "cl_chain s1 = cl_chain s" "cl_signer_address s1 = cl_signer_address s" "cl_chain_id s1 = cl_chain_id s"
      using token_decimals_chain[of C quote s] by simp_all
    have e: "ensure_allowance C tag token spender threshold s1 = (Inr (), s1)" for tag token spender threshold
      using Cons(2) s1 by (intro reverted_allowance[OF rev]) simp
    obtain exs s' where "eoa_tokens W C conditional tokens (if exch \<in> set exchanges then exchanges else exchanges @ [exch]) s1 = (Inr exs, s')"
        "cl_chain s' = cl_chain s" "cl_signer_address s' = cl_signer_address s" "cl_chain_id s' = cl_chain_id s"
      using Cons(1)[of s1 "if exch \<in> set exchanges then exchanges else exchanges @ [exch]"] Cons(2,3) s1 by auto
    then show ?thesis using False a d e by (simp add: Let_def and_then_def)
  qed (use Cons in simp)
qed simp

lemma reverted_operators:
  assumes rev: "\<And>c tx. co_send C c tx = (TxDone (Some False), c)"
    and "\<And>e. co_approved C (cl_chain s) conditional (cl_signer_address s) e \<noteq> None"
  shows "eoa_operators C conditional exchanges s = (Inr (), s)"
proof (induction exchanges)
  case (Cons e es)
  obtain b where "co_approved C (cl_chain s) conditional (cl_signer_address s) e = Some b" using assms(2) by blast
  with Cons show ?case by (cases b) (simp_all add: reverted_send[OF rev] and_then_def)
qed simp

text \<open>
  C24. For an account that signs for itself, an approval counts once its transaction is mined, whatever
  the receipt says: on a chain where every transaction is reverted the approvals succeed and leave the
  chain, and with it every allowance, as it was. (The approvals of a safe check the receipt.)
\<close>

theorem reverted_approval_succeeds:
  assumes rev: "\<And>c tx. co_send C c tx = (TxDone (Some False), c)"
    and start: "rpc_url_of C s = Inr ()" "check_gas_balance C (cl_signer_address s) 500000 s = Inr ()"
    and toks: "get_quote_tokens W s = (Inr tokens, s1)" "conditional_tokens_address W s1 = Inr conditional"
    and addresses: "\<forall>token \<in> set tokens. qt_chain_id token = cl_chain_id s1 \<longrightarrow> \<not> isl (token_addresses W token)"
    and some: "\<not> none_matched s1 tokens"
    and reads: "\<And>a b. co_allowance C (cl_chain s1) a (cl_signer_address s1) b \<noteq> None"
      "\<And>a b. co_approved C (cl_chain s1) a (cl_signer_address s1) b \<noteq> None"
  shows "fst (enable_trading_onchain_eoa W C s) = Inr () \<and> cl_chain (snd (enable_trading_onchain_eoa W C s)) = cl_chain s1"
proof -
  obtain exs s2 where e: "eoa_tokens W C conditional tokens [] s1 = (Inr exs, s2)" and s2: "cl_chain s2 = cl_chain s1"
      "cl_signer_address s2 = cl_signer_address s1" "cl_chain_id s2 = cl_chain_id s1"
    using reverted_tokens[OF rev reads(1) addresses] by blast
  have "eoa_operators C conditional (co_hash_order C exs) s2 = (Inr (), s2)"
    using reads(2) s2 by (intro reverted_operators[OF rev]) simp
  with e s2 start toks some show ?thesis
    by (simp add: enable_trading_onchain_eoa_def and_then_def none_matched_def)
qed

section \<open>Batched transactions\<close>

text \<open>The contract's reading of a batch: operation, address, value, length, data.\<close>

definition from_be :: "8 word list \<Rightarrow> nat" where
  "from_be bs = foldl (\<lambda>n b. n * 256 + unat b) 0 bs"

function decode_txs :: "8 word list \<Rightarrow> MultiSendTx list option" where
  "decode_txs [] = Some []"
| "decode_txs (op # bs) = (let n = from_be (take 32 (drop 52 bs)); rest = drop 84 bs in
     if List.length bs < 84 \<or> List.length rest < n then None
     else map_option (Cons \<lparr>ms_operation = op, ms_to = word_of_nat (from_be (take 20 bs)),
       ms_value = from_be (take 32 (drop 20 bs)), ms_data = take n rest\<rparr>) (decode_txs (drop n rest)))"
  by pat_completeness auto
termination by (relation "measure List.length") auto

lemma be_bytes_length [simp]: "List.length (be_bytes n v) = n"
  by (induction n v rule: be_bytes.induct) simp_all

lemma from_be_bytes: "v < 256 ^ n \<Longrightarrow> from_be (be_bytes n v) = v"
proof (induction n v rule: be_bytes.induct)
  case (2 n v)
  then have "from_be (be_bytes n (v div 256)) = v div 256" by (simp add: less_mult_imp_div_less)
  moreover have "unat (word_of_nat (v mod 256) :: 8 word) = v mod 256" by (simp add: unat_of_nat take_bit_eq_mod)
  ultimately show ?case by (simp add: from_be_def)
qed (simp add: from_be_def)

text \<open>
  C26. The packed encoding of a batch of transactions can be read back: for every batch whose values and
  data lengths fit into 256 bits the contract's layout gives the same transactions, in order.
\<close>

theorem multisend_roundtrip:
  assumes "\<forall>tx \<in> set txs. ms_value tx < 2 ^ 256 \<and> List.length (ms_data tx) < 2 ^ 256"
  shows "decode_txs (encode_multisend_txs txs) = Some txs"
  using assms
proof (induction txs)
  case (Cons tx txs)
  have pow: "(2::nat) ^ 256 = 256 ^ 32" by (simp add: power_mult[symmetric, of 2 8 32, simplified])
  have "unat (ms_to tx) < 256 ^ 20" using unsigned_less[of "ms_to tx", where ?'a = nat] by simp
  with Cons(2) have bytes: "from_be (be_bytes 20 (unat (ms_to tx))) = unat (ms_to tx)"
      "from_be (be_bytes 32 (ms_value tx)) = ms_value tx"
      "from_be (be_bytes 32 (List.length (ms_data tx))) = List.length (ms_data tx)"
    by (simp_all only: pow) (auto intro!: from_be_bytes)
  have "encode_multisend_txs (tx # txs) = ms_operation tx # (be_bytes 20 (unat (ms_to tx)) @ be_bytes 32 (ms_value tx)
     @ be_bytes 32 (List.length (ms_data tx)) @ ms_data tx @ encode_multisend_txs txs)"
    by (simp add: encode_multisend_txs_def encode_tx_def)
  with Cons bytes show ?case by (simp add: Let_def)
qed (simp add: encode_multisend_txs_def)

section \<open>Open orders\<close>




section \<open>Recovered ids\<close>

text \<open>
  C23. When the answer to an order has no id, the order is looked for among the open orders of the
  market by side, price and age, but not by its token: an order on the other outcome of the market, if
  it is the only fitting one, is taken for the order just placed. (The request carries no client id,
  so that the open orders have none to compare.)
\<close>

theorem recovery_ignores_token:
  assumes prep: "prepare_order W C m token_id side price amount s = (Inr (body, p), s1)"
    and post: "post_order W C body s1 = (Inr (response, raw), s2)"
    and no_id: "extract_order_id (wo_json W) response = None"
    and client: "trim_spaces c \<noteq> []"
    and page: "fst (fetch_open_orders_page W m 1 20 (snd (now_ts_ms W s2))) = Inr [entry]"
    and entry: "extract_client_order_id (wo_json W) entry = None" "extract_created_ms (wo_json W) entry = Some ts"
      "i64_sat (wo_clock W (cl_clock_reads s2) - ts) \<le> 120000"
      "order_matches_attributes (wo_json W) entry m (as_int side) (str_parse_f64 p)"
      "extract_order_id (wo_json W) entry = Some oid"
    and other: "extract_string (wo_json W) entry [''tokenId''] = Some other_token" "other_token \<noteq> token_id"
  shows "fst (place_limit_order W C m token_id side price amount (Some c) post_only s)
    = Inr \<lparr>po_order_id = oid, po_client_order_id = Some c\<rparr>"
proof -
  obtain now s3 where n: "now_ts_ms W s2 = (now, s3)" by fastforce
  then have now: "now = wo_clock W (cl_clock_reads s2)" by (simp add: now_ts_ms_def)
  obtain s4 where f: "fetch_open_orders_page W m 1 20 s3 = (Inr [entry], s4)"
    using page by (cases "fetch_open_orders_page W m 1 20 s3") (simp add: n)
  define w where "w = \<lparr>wa_client_id = trim_spaces c, wa_market_id = m, wa_side = as_int side,
    wa_price = str_parse_f64 p, wa_now = now\<rparr>"
  have "scan_entries (wo_json W) w [entry] = Inr [(oid, ts)]"
    using entry by (simp add: w_def now scan_entry_def ORDER_ID_RECOVERY_LOOKBACK_MS_def)
  then have "recovery_pages W w ORDER_ID_RECOVERY_MAX_PAGES 1 [] s3 = (Inr [(oid, ts)], s4)"
    using f by (simp add: w_def ORDER_ID_RECOVERY_MAX_PAGES_def ORDER_ID_RECOVERY_PAGE_LIMIT_def numeral_3_eq_3)
  then have "recovery_attempts W w ORDER_ID_RECOVERY_MAX_ATTEMPTS s3 = (Some oid, s4)"
    by (simp add: ORDER_ID_RECOVERY_MAX_ATTEMPTS_def numeral_3_eq_3)
  with client have "recover_order_id_from_open_orders W m side p (Some c) s2 = (Some oid, s4)"
    by (simp add: recover_order_id_from_open_orders_def n w_def)
  with prep post no_id show ?thesis
    by (simp add: place_limit_order_def and_then_def Let_def unwrap_or_def)
qed

section \<open>Prices off the grid\<close>





section \<open>Witnesses\<close>

lemma demo_placed_order:
  "\<exists>s'. place_limit_order (demo_world ''placed'' (\<lambda>_. 2000000000000)) demo_chain 5 ''1'' Buy (Fin (1 / 2)) (Quote (Fin 2)) None True
     (demo_client None True) = (Inr \<lparr>po_order_id = ''8'', po_client_order_id = None\<rparr>, s')"
proof -
  let ?W = "demo_world ''placed'' (\<lambda>_. 2000000000000)" and ?v = "JObject [(''orderId'', JText ''8'')]"
  obtain body p s1 where prep: "prepare_order ?W demo_chain 5 ''1'' Buy (Fin (1 / 2)) (Quote (Fin 2)) (demo_client None True) = (Inr (body, p), s1)"
    using demo_prepared[of "''placed''" demo_chain None True] by blast
  have v: "demo_parse ''placed'' = Some ?v" by (simp add: demo_parse_def)
  have "parse_result (demo_json demo_parse) ?v = Inr ?v" by (simp add: json_defs)
  then obtain r where "post_once ?W body s1 = (Inr (?v, ''placed''), s1\<lparr>cl_sent := cl_sent s1 @ [r]\<rparr>)"
    using demo_post[OF v, of "\<lambda>_. 2000000000000" body s1] by auto
  then have post: "post_order ?W demo_chain body s1 = (Inr (?v, ''placed''), s1\<lparr>cl_sent := cl_sent s1 @ [r]\<rparr>)"
    by (simp add: post_order_def)
  have "extract_order_id (demo_json demo_parse) ?v = Some ''8''"
    by (simp add: extract_order_id_def order_data_id_def extract_string_nested_def json_defs)
  then show ?thesis by (simp add: place_limit_order_def prep post and_then_def unwrap_or_def)
qed

theorem order_posted_as_asked_witness:
  "\<exists>body n. orders_sent (snd (place_limit_order (demo_world ''placed'' (\<lambda>_. 2000000000000)) demo_chain 5 ''1'' Buy (Fin (1 / 2))
      (Quote (Fin 2)) None True (demo_client None True)))
    = replicate n (order_request (cl_base_url (demo_client None True)) body) \<and> 0 < n \<and> n \<le> 2
    \<and> order_body_for (demo_world ''placed'' (\<lambda>_. 2000000000000)) (Some 9) 5 ''1'' Buy (Fin (1 / 2)) (Quote (Fin 2)) body"
proof -
  obtain s' where s': "place_limit_order (demo_world ''placed'' (\<lambda>_. 2000000000000)) demo_chain 5 ''1'' Buy (Fin (1 / 2)) (Quote (Fin 2))
      None True (demo_client None True) = (Inr \<lparr>po_order_id = ''8'', po_client_order_id = None\<rparr>, s')"
    using demo_placed_order by blast
  have n: "orders_sent (demo_client None True) = []" by (simp add: orders_sent_def)
  from order_posted_as_asked[OF s'] obtain body k where "orders_sent s' = replicate k (order_request (cl_base_url (demo_client None True)) body)"
      "0 < k" "k \<le> 2" "order_body_for (demo_world ''placed'' (\<lambda>_. 2000000000000)) (Some 9) 5 ''1'' Buy (Fin (1 / 2)) (Quote (Fin 2)) body"
    by (auto simp: n)
  with s' show ?thesis by auto
qed

definition demo_paused :: "bool \<Rightarrow> unit ApiClient" where
  "demo_paused approve = (demo_client None approve)\<lparr>cl_trading_state := \<lparr>tr_enabled = False, tr_blocked_until_ms = 500,
     tr_last_error = None\<rparr>\<rparr>"

lemma demo_paused_simps [simp]:
  "cl_trading_state (demo_paused ap) = \<lparr>tr_enabled = False, tr_blocked_until_ms = 500, tr_last_error = None\<rparr>"
  "cl_check_approval (demo_paused ap) = ap" "cl_clock_reads (demo_paused ap) = 0" "cl_sent (demo_paused ap) = []"
  "cl_enable_trading_last_ms (demo_paused ap) = None" "cl_rpc_url (demo_paused ap) = None"
  "cl_force_eoa_orders (demo_paused ap) = True" "cl_enable_retry_ms (demo_paused ap) = 60000"
  by (simp_all add: demo_paused_def)

theorem pause_stops_orders_witness:
  "orders_sent (api_run (demo_world ''accepted'' (\<lambda>_. 100)) demo_chain
      [PlaceOrder 5 ''1'' Buy (Fin (1 / 2)) (Quote (Fin 2)) None True, EnableTrading, CancelOrder ''3'',
       PlaceOrder 5 ''1'' Sell (Fin (1 / 2)) (Quote (Fin 2)) None True] (demo_paused True)) = []"
  using pause_stops_orders[of "demo_paused True" "demo_world ''accepted'' (\<lambda>_. 100)" demo_chain
      "[PlaceOrder 5 ''1'' Buy (Fin (1 / 2)) (Quote (Fin 2)) None True, EnableTrading, CancelOrder ''3'',
        PlaceOrder 5 ''1'' Sell (Fin (1 / 2)) (Quote (Fin 2)) None True]"]
  by (simp add: orders_sent_def del: api_run.simps)

theorem refusal_without_approval_is_final_witness:
  "\<exists>s. \<not> tr_enabled (cl_trading_state s) \<and> isl (fst (place_limit_order (demo_world ''refused'' (\<lambda>_. 100)) demo_chain 5 ''1'' Buy
      (Fin (1 / 2)) (Quote (Fin 2)) None True (api_run (demo_world ''refused'' (\<lambda>_. 100)) demo_chain [EnableTrading] s)))"
proof -
  let ?W = "demo_world ''refused'' (\<lambda>_. 100)" and ?e = "''opinion api error errno=10014 errmsg=opinion error''"
  have v: "demo_parse ''refused'' = Some (JObject [(''errno'', JInt 10014)])" by (simp add: demo_parse_def)
  obtain r where "post_once ?W (CancelBody []) (demo_client None False) = (Inl ?e, (demo_client None False)\<lparr>cl_sent := [r]\<rparr>)"
    using demo_post[OF v, of "\<lambda>_. 100" "CancelBody []" "demo_client None False"] by (auto simp: demo_refusal)
  then obtain s where s: "post_order ?W demo_chain (CancelBody []) (demo_client None False) = (Inl ?e, s)"
    by (simp add: post_order_def demo_errno Let_def pause_trading_def now_ts_ms_def)
  note e = demo_errno
  show ?thesis
    using refusal_without_approval_is_final[OF s e, where as = "[EnableTrading]" and m = 5 and t = "''1''"
        and side = Buy and price = "Fin (1 / 2)" and amount = "Quote (Fin 2)" and client = None and post_only = True]
      post_order_refused[OF s e] by (intro exI[of _ s]) simp
qed

theorem failed_approval_accepted_witness:
  "\<exists>s1. fst (maybe_wait_for_trading_enable (demo_world ''accepted'' (\<lambda>n. if n < 3 then 1000 else 70000)) demo_chain s1) = Inr ()
    \<and> cl_chain s1 = ()"
proof -
  let ?W = "demo_world ''accepted'' (\<lambda>n. if n < 3 then 1000 else 70000)"
  define s1 where "s1 = snd (maybe_wait_for_trading_enable ?W demo_chain (demo_paused True))"
  have w: "maybe_wait_for_trading_enable ?W demo_chain (demo_paused True) = (Inl ''opinion rpc_url missing in account config'', s1)"
      "cl_clock_reads s1 = 3" "tr_blocked_until_ms (cl_trading_state s1) = 61000"
    by (simp_all add: s1_def maybe_wait_for_trading_enable_def now_ts_ms_def enable_trading_def enable_trading_onchain_def
        enable_trading_onchain_eoa_def rpc_url_of_def non_empty_def and_then_def pause_trading_def)
  show ?thesis using failed_approval_accepted[OF _ _ _ w(1)] w(2,3) by (intro exI[of _ s1]) simp
qed

theorem reverted_approval_succeeds_witness:
  "\<exists>s. co_allowance demo_chain () 1 7 1 = Some 0
    \<and> fst (enable_trading_onchain_eoa (demo_world ''accepted'' (\<lambda>_. 1000)) demo_chain s) = Inr ()"
proof -
  let ?W = "demo_world ''accepted'' (\<lambda>_. 1000)"
  define toks where "toks = [\<lparr>qt_address = ''a'', qt_exchange = ''b'', qt_decimal = 18, qt_chain_id = 56\<rparr>]"
  define s where "s = (demo_client (Some ''rpc'') True)\<lparr>cl_quote_tokens := \<lparr>qc_fetched_ms = 1000, qc_tokens = toks\<rparr>\<rparr>"
  define s1 where "s1 = s\<lparr>cl_clock_reads := 1\<rparr>"
  have c: "cl_rpc_url s = Some ''rpc''" "cl_chain_id s1 = 56" "cl_conditional_tokens_address s1 = None"
    by (simp_all add: s1_def s_def demo_client_def client_new_def)
  have start: "rpc_url_of demo_chain s = Inr ()"
  proof -
    have "trim_spaces ''rpc'' = ''rpc''" by code_simp
    then show ?thesis by (simp add: rpc_url_of_def c non_empty_def demo_chain_def)
  qed
  have gas: "check_gas_balance demo_chain (cl_signer_address s) 500000 s = Inr ()"
    by (simp add: check_gas_balance_def demo_chain_def unwrap_or_def)
  have t: "get_quote_tokens ?W s = (Inr toks, s1)"
    by (simp add: get_quote_tokens_def now_ts_ms_def s1_def s_def QUOTE_TOKEN_CACHE_TTL_MS_def) (simp add: toks_def)
  have a: "conditional_tokens_address ?W s1 = Inr 1"
    by (simp add: conditional_tokens_address_def parse_address_def or_error_def)
  show ?thesis
    using reverted_approval_succeeds[OF _ start gas t a]
    by (intro exI[of _ s]) (simp add: toks_def c demo_chain_def token_addresses_def parse_address_def none_matched_def)
qed

theorem multisend_roundtrip_witness:
  "decode_txs (encode_multisend_txs [\<lparr>ms_operation = 0, ms_to = 3, ms_value = 0, ms_data = [1, 2]\<rparr>,
      \<lparr>ms_operation = 0, ms_to = 4, ms_value = 9, ms_data = []\<rparr>])
    = Some [\<lparr>ms_operation = 0, ms_to = 3, ms_value = 0, ms_data = [1, 2]\<rparr>,
      \<lparr>ms_operation = 0, ms_to = 4, ms_value = 9, ms_data = []\<rparr>]"
  by (rule multisend_roundtrip) simp

theorem recovery_ignores_token_witness:
  "fst (place_limit_order (demo_world ''accepted'' (\<lambda>_. 2000000000000)) demo_chain 5 ''1'' Buy (Fin (1 / 2)) (Quote (Fin 2)) (Some ''c'') True
     (demo_client None True)) = Inr \<lparr>po_order_id = ''77'', po_client_order_id = Some ''c''\<rparr>"
proof -
  let ?W = "demo_world ''accepted'' (\<lambda>_. 2000000000000)" and ?l = "JObject [(''list'', JList [demo_open])]"
  obtain body s1 where prep: "prepare_order ?W demo_chain 5 ''1'' Buy (Fin (1 / 2)) (Quote (Fin 2)) (demo_client None True)
      = (Inr (body, price_text 500000), s1)"
    using demo_prepared[of "''accepted''" demo_chain None True] by blast
  have v: "demo_parse ''accepted'' = Some (JObject [])" by (simp add: demo_parse_def)
  have "parse_result (demo_json demo_parse) (JObject []) = Inr (JObject [])" by (simp add: json_defs)
  then obtain r where "post_once ?W body s1 = (Inr (JObject [], ''accepted''), s1\<lparr>cl_sent := cl_sent s1 @ [r]\<rparr>)"
    using demo_post[OF v, of "\<lambda>_. 2000000000000" body s1] by auto
  then have post: "post_order ?W demo_chain body s1 = (Inr (JObject [], ''accepted''), s1\<lparr>cl_sent := cl_sent s1 @ [r]\<rparr>)"
    by (simp add: post_order_def)
  have none: "extract_order_id (demo_json demo_parse) (JObject []) = None"
    by (simp add: extract_order_id_def order_data_id_def extract_string_nested_def json_defs)
  have c: "trim_spaces ''c'' \<noteq> []" by code_simp
  have l: "demo_parse ''open'' = Some ?l" "parse_result (demo_json demo_parse) ?l = Inr ?l"
    by (simp_all add: demo_parse_def json_defs)
  have rep: "demo_reply ''accepted'' n q = Replied 200 ''open''" if "hq_method q = GET" "hq_path q = ''/openapi/order''" for n q
    using that by (simp add: demo_reply_def)
  have page: "fst (fetch_open_orders_page ?W 5 1 20 t) = Inr [demo_open]" for t :: "unit ApiClient"
  proof -
    obtain r where "request_json ?W GET ''/openapi/order'' None ([(''page'', int_str 1), (''limit'', int_str 20),
        (''chainId'', nat_str (cl_chain_id t)), (''status'', ''1'')] @ (if 0 < (5::int) then [(''marketId'', int_str 5)] else [])) t
        = (Inr ?l, t\<lparr>cl_sent := cl_sent t @ [r]\<rparr>)"
      using demo_request[OF rep l] by blast
    then show ?thesis by (simp add: fetch_open_orders_page_def and_then_def response_list_def json_defs)
  qed
  have entry: "extract_client_order_id (demo_json demo_parse) demo_open = None"
    "extract_created_ms (demo_json demo_parse) demo_open = Some 2000000000000"
    "order_matches_attributes (demo_json demo_parse) demo_open 5 (as_int Buy) p"
    "extract_order_id (demo_json demo_parse) demo_open = Some ''77''"
    "extract_string (demo_json demo_parse) demo_open [''tokenId''] = Some ''2''" for p
    by (simp_all add: demo_open_def extract_client_order_id_def extract_created_ms_def order_matches_attributes_def as_int_def
        extract_i64_from_value_def extract_f64_from_value_def extract_order_id_def order_data_id_def extract_string_nested_def json_defs)
  show ?thesis
    by (rule recovery_ignores_token[OF prep post, where entry = demo_open and other_token = "''2''" and ts = 2000000000000])
      (simp_all add: none c page entry i64_sat_def sat_def)
qed







end
