(* ===== verification/Spec2Isabelle.thy ===== *)
theory Spec2Isabelle
  imports F64 Prelude Models TimeSync Fee Chain Health Sharding Registry Dispatch DbWriter DbQueue
    DbPipeline Shock ShockRuns Book BookInv BookSpec
    Bars Token Flush Worker WorkerRuns WorkerSafety WorkerProps WorkerQuiet Resync
    Amounts AmountsText AmountsProps PairBars PairAgg PairTasks PairSched PairResp PairHist
    TradeCfg TradeState TradeBase TradeLimits TradeSignals TradeExec TradeEntry TradeWatch TradeExit TradeTasks TradeInv
    TradeDemo TradeLife TradeProps OpinionJson OpinionClient OpinionChain OpinionOrders
    OpinionDemo OpinionProps
begin

text \<open>
  A verification development for the opinion/polymarket alpha monitor (Rust, \<open>src/\<close>).

  The program subscribes to two venues, normalises their messages to events (\<open>src/models.rs\<close>),
  and routes each event to a shard worker by the hash of its token (\<open>src/dispatcher.rs\<close>). Workers
  keep order books and emit one bar per token and second; bars of paired tokens meet in the pair
  aggregator, which feeds the shock detector and the trading engine. Everything that is recorded
  goes through a durable queue (\<open>src/db_queue.rs\<close>) to a batching database writer
  (\<open>src/db_writer.rs\<close>).

  Theories and the code they model:

  \<^item> \<open>F64\<close>: the IEEE-754 binary64 numbers of the code as an executable datatype (rationals with
    rounding to nearest even, signed zero, infinities, NaN), its arithmetic, comparisons, rounding
    functions and casts. \<open>ln\<close> and \<open>exp\<close> are parameters where the code calls them.
  \<^item> \<open>Prelude\<close>: times, saturating 64-bit arithmetic, bounded windows and sorting of floats; the
    locale \<open>sliding_window\<close> is the contract of every bounded deque.
  \<^item> \<open>Models\<close>: the enums and records of \<open>src/models.rs\<close>.
  \<^item> \<open>TimeSync\<close>: \<open>src/time_utils.rs\<close>, \<open>src/clock.rs\<close> and the copies of the normaliser in the REST
    clients. Unit detection, acceptance window, and the offset filter.
  \<^item> \<open>Fee\<close>, \<open>Chain\<close>, \<open>Health\<close>: the shared states of \<open>src/fee.rs\<close>, \<open>src/chain.rs\<close>, \<open>src/health.rs\<close>.
  \<^item> \<open>Sharding\<close>: the hash functions that place tokens and pairs, on 64-bit words.
  \<^item> \<open>Registry\<close>: \<open>src/token_registry.rs\<close>, which pairs a token belongs to.
  \<^item> \<open>Book\<close>, \<open>BookInv\<close>, \<open>BookSpec\<close>: the price-indexed order book \<open>DenseBook\<close> of \<open>src/shard.rs\<close> and the
    metrics of a snapshot; its cached best prices and counts are exact, and the metrics computed from
    a snapshot's levels alone are those of the book after loading it.
  \<^item> \<open>Bars\<close>, \<open>Token\<close>, \<open>Flush\<close>, \<open>Worker\<close>: the rows and messages a worker sends, the state of a token with
    its accumulators, windows and resynchronisation checks, the bar of a second (\<open>TokenState::flush\<close>),
    and the handlers of \<open>ShardWorker\<close>.
  \<^item> \<open>WorkerRuns\<close>, \<open>WorkerSafety\<close>, \<open>WorkerProps\<close>, \<open>WorkerQuiet\<close>, \<open>Resync\<close>: the runs of a worker: events are
    counted once, bars cover consecutive seconds, books stay exact, and what happens to tokens that
    fall silent or whose venue hash does not match.
  \<^item> \<open>PairBars\<close>, \<open>PairAgg\<close>, \<open>PairTasks\<close>: \<open>src/pair_aggregator.rs\<close>: the bar of a pair (spreads, windows,
    correlation, lag), the state under its lock (buckets by second, the flush queue, responses by due
    second), and the handlers and workers as the step relation \<open>pair_step\<close>, which interleaves them
    where the locks allow it. A time budget measured with \<open>Instant::now\<close> is a number of clock readings
    (\<open>reads\<close>) after which the budget counts as spent; the properties hold for every such number.
  \<^item> \<open>PairSched\<close>, \<open>PairResp\<close>, \<open>PairHist\<close>: no bucket is forgotten, one gap blocks later seconds, every
    response to a shock is accounted for, and the lookups of the histories are exact.
  \<^item> \<open>Amounts\<close>, \<open>AmountsText\<close>, \<open>AmountsProps\<close>: the prices and amounts of orders in
    \<open>src/trade/opinion_private.rs\<close>. The type \<open>Decimal\<close> of rust_decimal is the record \<open>decimal_ops\<close>; what
    its documentation promises of the short numbers used here is the hypothesis \<open>decimal_text_ok\<close>,
    which holds of exact rationals.
  \<^item> \<open>TradeCfg\<close>, \<open>TradeState\<close>, \<open>TradeBase\<close>: the settings of the trading engine with their defaults
    (\<open>src/config.rs\<close>), the state of a pair with its life cycle and windows, the engine's state, its
    messages, the requests to the order executor and the rows it records (\<open>src/trade/mod.rs\<close>).
    \<open>TradeEnv\<close> is what one handler reads from outside: one clock value, the fee and chain states,
    \<open>ln\<close> and \<open>exp\<close>, the outcomes of sends and of calls to the venue, the random jitters.
  \<^item> \<open>TradeLimits\<close>, \<open>TradeSignals\<close>, \<open>TradeExec\<close>: rate limits, backoffs, deduplication, the entry pool,
    exposures and budgets; the gates and scores of a candidate and the target of an exit; the
    classification of errors and the placement of orders, with the executor's tasks.
  \<^item> \<open>TradeEntry\<close>, \<open>TradeWatch\<close>, \<open>TradeExit\<close>, \<open>TradeTasks\<close>: \<open>maybe_enter\<close>, \<open>check_entry\<close>, \<open>check_exit\<close>, fills
    and cancellations, and every handler of the engine's task. A handler runs to its end before the
    next message is taken, so a step of \<open>trade_reach\<close> is one handler; between steps the other
    engines may change the shared risk state.
  \<^item> \<open>TradeInv\<close>, \<open>TradeLife\<close>: the invariant of the stored states of pairs in every run of an engine, dry
    runs and cooldowns; \<open>TradeProps\<close>: budgets, candidate prices, refusals and cancellations;
    \<open>TradeDemo\<close>: a concrete run for the witnesses.
  \<^item> \<open>OpinionJson\<close>, \<open>OpinionClient\<close>, \<open>OpinionChain\<close>, \<open>OpinionOrders\<close>: the client of the venue's private API in
    \<open>src/trade/opinion_private.rs\<close>: the readers of JSON fields, requests and caches, approvals on the
    chain with the pausing of trading, and orders. A call is a function on the client's state, which
    logs every request; the venue, the clock, the chain and the libraries are parameters.
  \<^item> \<open>OpinionProps\<close>: orders and pauses over sequences of calls, approvals, recovered ids, listings and
    batches, and the engine's exits against the client's price check; \<open>OpinionDemo\<close>: a concrete venue.
  \<^item> \<open>Dispatch\<close>: \<open>src/dispatcher.rs\<close> as a step relation over bounded shard queues.
  \<^item> \<open>Shock\<close>, \<open>ShockRuns\<close>: the shock detector of \<open>src/shock.rs\<close>, one definition per section of \<open>on_bar\<close>,
    and the properties of its runs.
  \<^item> \<open>DbWriter\<close>, \<open>DbQueue\<close>, \<open>DbPipeline\<close>: the writer's buffers, the spooler's operations, and the two
    tasks running concurrently with failures and restarts.

  What is shown: the functional behaviour of each operation on every branch that the code has,
  the invariants of the stateful components by rule induction over all interleavings, and for
  the durable queue that no message is lost and its counters are exact.

  Abstractions. Time is an argument of each operation. Logging is left out. Machine integers are
  64-bit words where they may wrap (hashes, counters) and integers with explicit saturation where
  the code saturates; other additions of milliseconds stay far from the limits of \<open>i64\<close>. External
  code (JSON codec, SQLite, PostgreSQL, the network) is a parameter or an outcome chosen by the
  environment. No fuel is used: every recursion is structural or has a termination proof.

  Not modelled: the feeds of the venues (\<open>src/ws\<close>, \<open>src/rest\<close>) apart from their time stamps, which are
  network loops around JSON; the EIP-712 signature of an order; the JSON text of audit rows
  (\<open>detail_json\<close>) and the helpers of the trading engine that nothing calls (\<open>cancel_live_order\<close>,
  \<open>poll_fills\<close>); reading the configuration file, SQL text, process start-up, memory statistics, log
  formatting, the totals of \<open>ShardMetrics\<close>.
\<close>

end
